(* ===== verification/Prelude.thy ===== *)
theory Prelude
  imports
    Complex_Main
    "HOL-Library.AList"
    "HOL-Library.Multiset"
    "HOL-Library.List_Lexorder"
    "HOL-Library.Char_ord"
begin

text \<open>
  Shared vocabulary of the development: the Go types the code uses everywhere (times,
  durations, errors, maps, 64-bit integers, strings), the interface of the decimal
  package the code imports, and the generic lemmas the components share.
  A Go map is an association list with distinct keys, whose order stands for the
  (unspecified) iteration order of the map.
\<close>

named_theorems go_defs
  \<open>small definitions of the Go vocabulary that every proof unfolds\<close>

named_theorems keys_distinct
  \<open>operations on Go maps keep the keys distinct\<close>

section \<open>Characters of the messages in UTF-8\<close>

definition em_dash :: string where
  "em_dash = [CHR 0xE2, CHR 0x80, CHR 0x94]"

definition ellipsis :: string where
  "ellipsis = [CHR 0xE2, CHR 0x80, CHR 0xA6]"

definition arrow :: string where
  "arrow = [CHR 0xE2, CHR 0x86, CHR 0x92]"

definition check_mark :: string where
  "check_mark = [CHR 0xE2, CHR 0x9C, CHR 0x93]"

section \<open>Time and integers\<close>

text \<open>
  \<open>time.Time\<close> is the number of nanoseconds since the Unix epoch; \<open>zero_time\<close> is Go's zero
  value (1 January of year 1). A \<open>time.Duration\<close> is an \<open>int64\<close> of nanoseconds.
\<close>

type_synonym time = int
type_synonym duration = int

definition zero_time :: time where
  "zero_time = - 62135596800 * 1000000000"

definition wrap64 :: "int \<Rightarrow> int" where
  "wrap64 x = (x + 2 ^ 63) mod 2 ^ 64 - 2 ^ 63"

lemma wrap64_id: "- (2 ^ 63) \<le> x \<Longrightarrow> x < 2 ^ 63 \<Longrightarrow> wrap64 x = x"
  by (simp add: wrap64_def mod_pos_pos_trivial)

lemma wrap64_range: "- (2 ^ 63) \<le> wrap64 x \<and> wrap64 x < 2 ^ 63"
proof -
  have "0 \<le> (x + 2 ^ 63) mod (2 ^ 64 :: int)" "(x + 2 ^ 63) mod (2 ^ 64 :: int) < 2 ^ 64"
    by simp_all
  then show ?thesis by (simp add: wrap64_def)
qed

definition nano_second :: duration where
  "nano_second = 1000000000"

definition nano_hour :: duration where
  "nano_hour = 3600 * nano_second"

section \<open>Errors\<close>

text \<open>
  A Go error: a message built on the spot, a package-level sentinel value (compared with
  \<open>errors.Is\<close>), or a message wrapped around another error with \<open>%w\<close>.
\<close>

datatype go_error = Errorf string | Sentinel string | Wrap string go_error

fun errors_is :: "go_error \<Rightarrow> string \<Rightarrow> bool" where
  "errors_is (Errorf m) s = False"
| "errors_is (Sentinel n) s = (n = s)"
| "errors_is (Wrap m e) s = errors_is e s"

fun error_text :: "go_error \<Rightarrow> string" where
  "error_text (Errorf m) = m"
| "error_text (Sentinel n) = n"
| "error_text (Wrap m e) = m @ '': '' @ error_text e"

text \<open>The first error of a best-effort sequence, as the code's \<open>record\<close> closures keep it.\<close>

fun first_error :: "go_error option \<Rightarrow> go_error option \<Rightarrow> go_error option" where
  "first_error (Some e) _ = Some e"
| "first_error None r = r"

lemma first_error_None_iff [simp]: "first_error a b = None \<longleftrightarrow> a = None \<and> b = None"
  by (cases a) auto

lemma first_error_assoc: "first_error (first_error a b) c = first_error a (first_error b c)"
  by (cases a) auto

section \<open>Fallible calls\<close>

text \<open>
  Go's early return on an error: a call with a result and an error is a sum, \<open>and_then\<close> continues with the result of a
  pure call and \<open>run_then\<close> with that of a call that also changes the state. The \<open>wrap\<close> functions are \<open>fmt.Errorf\<close> with \<open>%w\<close>.
\<close>

definition and_then :: "'e + 'a \<Rightarrow> ('a \<Rightarrow> 'e + 'b) \<Rightarrow> 'e + 'b" where
  "and_then r f = (case r of Inl e \<Rightarrow> Inl e | Inr a \<Rightarrow> f a)"

lemma and_then_simps [simp]: "and_then (Inl e) f = Inl e" "and_then (Inr a) f = f a"
  by (simp_all add: and_then_def)

lemma and_then_InrE: "and_then r f = Inr b \<Longrightarrow> (\<And>a. r = Inr a \<Longrightarrow> f a = Inr b \<Longrightarrow> P) \<Longrightarrow> P"
  by (cases r) auto

definition wrap_result :: "string \<Rightarrow> go_error + 'a \<Rightarrow> go_error + 'a" where
  "wrap_result what r = (case r of Inl e \<Rightarrow> Inl (Wrap what e) | Inr a \<Rightarrow> Inr a)"

definition wrap_error :: "string \<Rightarrow> (go_error + 'a) \<times> 'w \<Rightarrow> (go_error + 'a) \<times> 'w" where
  "wrap_error m r = (case r of (Inl e, w) \<Rightarrow> (Inl (Wrap m e), w) | (Inr x, w) \<Rightarrow> (Inr x, w))"

definition run_then :: "('e + 'a) \<times> 's \<Rightarrow> ('a \<Rightarrow> 's \<Rightarrow> ('e + 'b) \<times> 's) \<Rightarrow> ('e + 'b) \<times> 's" where
  "run_then r f = (case r of (Inl e, s) \<Rightarrow> (Inl e, s) | (Inr a, s) \<Rightarrow> f a s)"

lemma run_then_simps [simp]: "run_then (Inl e, s) f = (Inl e, s)" "run_then (Inr a, s) f = f a s"
  by (simp_all add: run_then_def)

lemma run_then_InrE:
  "run_then r f = (Inr b, s') \<Longrightarrow> (\<And>a s. r = (Inr a, s) \<Longrightarrow> f a s = (Inr b, s') \<Longrightarrow> P) \<Longrightarrow> P"
  by (cases r; cases "fst r") auto

lemma wrap_error_InrD: "wrap_error m r = (Inr x, s) \<Longrightarrow> r = (Inr x, s)"
  by (cases r; cases "fst r") (auto simp: wrap_error_def)

section \<open>Strings\<close>

text \<open>
  A Go string is a list of bytes. \<open>strings.ToUpper\<close> is modelled on ASCII letters, the only
  letters of ticker symbols; other bytes are kept.
\<close>

definition upper_char :: "char \<Rightarrow> char" where
  "upper_char c =
     (if 97 \<le> (of_char c :: nat) \<and> (of_char c :: nat) \<le> 122
      then char_of ((of_char c :: nat) - 32) else c)"

definition to_upper :: "string \<Rightarrow> string" where
  "to_upper s = map upper_char s"

lemma upper_char_idem [simp]: "upper_char (upper_char c) = upper_char c"
  by (auto simp: upper_char_def)

lemma to_upper_idem [simp]: "to_upper (to_upper s) = to_upper s"
  by (simp add: to_upper_def)

lemma to_upper_Nil_iff [simp]: "to_upper s = [] \<longleftrightarrow> s = []"
  by (simp add: to_upper_def)

lemma to_upper_append [simp]: "to_upper (s @ t) = to_upper s @ to_upper t"
  by (simp add: to_upper_def)

text \<open>\<open>%q\<close> around a string that needs no escapes.\<close>

definition quoted :: "string \<Rightarrow> string" where
  "quoted s = CHR 0x22 # s @ [CHR 0x22]"

text \<open>Decimal digits of a number, as \<open>%d\<close> prints it.\<close>

definition digit_char :: "nat \<Rightarrow> char" where
  "digit_char d = char_of (48 + d)"

fun nat_str :: "nat \<Rightarrow> string" where
  "nat_str n = (if n < 10 then [digit_char n] else nat_str (n div 10) @ [digit_char (n mod 10)])"

declare nat_str.simps [simp del]

definition int_str :: "int \<Rightarrow> string" where
  "int_str i = (if i < 0 then CHR ''-'' # nat_str (nat (- i)) else nat_str (nat i))"

definition is_digit :: "char \<Rightarrow> bool" where
  "is_digit c \<longleftrightarrow> 48 \<le> (of_char c :: nat) \<and> (of_char c :: nat) \<le> 57"

definition digit_val :: "char \<Rightarrow> nat" where
  "digit_val c = (of_char c :: nat) - 48"

definition digits_val :: "string \<Rightarrow> nat" where
  "digits_val s = foldl (\<lambda>acc c. 10 * acc + digit_val c) 0 s"

lemma digit_char_props:
  assumes "d < 10"
  shows "is_digit (digit_char d)" "digit_val (digit_char d) = d"
  using assms by (simp_all add: is_digit_def digit_val_def digit_char_def)

lemma nat_str_not_Nil [simp]: "nat_str n \<noteq> []"
  by (subst nat_str.simps) simp

lemma nat_str_digits: "\<forall>c \<in> set (nat_str n). is_digit c"
proof (induction n rule: nat_str.induct)
  case (1 n)
  then show ?case
    by (subst nat_str.simps) (auto simp: digit_char_props)
qed

lemma nat_str_val [simp]: "digits_val (nat_str n) = n"
proof (induction n rule: nat_str.induct)
  case (1 n)
  show ?case
  proof (cases "n < 10")
    case True
    then show ?thesis by (subst nat_str.simps) (simp add: digits_val_def digit_char_props)
  next
    case False
    with 1 have "digits_val (nat_str (n div 10)) = n div 10" by simp
    with False show ?thesis
      by (subst nat_str.simps) (simp add: digits_val_def digit_char_props)
  qed
qed

lemma nat_str_inject [simp]: "nat_str m = nat_str n \<longleftrightarrow> m = n"
  by (metis nat_str_val)

text \<open>
  Two texts that start with digit runs followed by the same non-digit separator agree
  only if the numbers agree.
\<close>

lemma digits_sep_unique:
  assumes "\<forall>c \<in> set xs. is_digit c" "\<forall>c \<in> set ys. is_digit c" "\<not> is_digit s"
    and "xs @ s # us = ys @ s # vs"
  shows "xs = ys"
  using assms
proof (induction xs arbitrary: ys)
  case Nil
  then show ?case by (cases ys) auto
next
  case (Cons x xs)
  then show ?case by (cases ys) auto
qed

lemma nat_str_sep_inject:
  assumes "\<not> is_digit s" and "nat_str m @ s # us = nat_str n @ s # vs"
  shows "m = n"
  using digits_sep_unique [OF nat_str_digits nat_str_digits assms] by simp

end
