(* ===== verification/Decimals.thy ===== *)
theory Decimals
  imports Prelude
begin

text \<open>
  The interface of \<open>github.com/shopspring/decimal\<close>, which the code imports. A \<open>Decimal\<close>
  is the rational number it denotes; \<open>Add\<close>, \<open>Sub\<close>, \<open>Mul\<close>, \<open>Neg\<close>, \<open>Abs\<close> and the comparisons
  are exact in that package and are the operations of \<open>rat\<close>. Everything that rounds or
  formats (\<open>Div\<close>, \<open>Round\<close>, \<open>Truncate\<close>, \<open>String\<close>, \<open>NewFromString\<close>, the conversions from and
  to \<open>float64\<close>) is a parameter of the model, the record \<open>declib\<close>; the locale
  \<open>decimal_lib\<close> states the documented laws of those operations, and
  the record \<open>reference_declib\<close> shows the laws can hold.
\<close>

type_synonym decimal = rat
type_synonym float64 = rat

record declib =
  d_div :: "decimal \<Rightarrow> decimal \<Rightarrow> decimal"
  d_round :: "decimal \<Rightarrow> int"
  d_trunc :: "nat \<Rightarrow> decimal \<Rightarrow> decimal"
  d_str :: "decimal \<Rightarrow> string"
  d_parse :: "string \<Rightarrow> decimal option"
  d_of_float :: "float64 \<Rightarrow> decimal"
  d_to_float :: "decimal \<Rightarrow> float64"

text \<open>\<open>Div\<close> rounds to \<open>DivisionPrecision\<close> = 16 fractional digits.\<close>

definition div_eps :: decimal where
  "div_eps = 1 / (2 * 10 ^ 16)"

locale decimal_lib =
  fixes L :: declib
  assumes div_near: "y \<noteq> 0 \<Longrightarrow> \<bar>d_div L x y - x / y\<bar> \<le> div_eps"
    and div_exact: "y \<noteq> 0 \<Longrightarrow> x / y * 10 ^ 16 \<in> \<int> \<Longrightarrow> d_div L x y = x / y"
    and div_mono: "0 < y \<Longrightarrow> x \<le> x' \<Longrightarrow> d_div L x y \<le> d_div L x' y"
    and div_neg: "y \<noteq> 0 \<Longrightarrow> d_div L (- x) y = - d_div L x y"
    and round_near: "\<bar>of_int (d_round L x) - x\<bar> \<le> 1 / 2"
    and round_mono: "x \<le> x' \<Longrightarrow> d_round L x \<le> d_round L x'"
    and trunc_bounds: "0 \<le> x \<Longrightarrow> 0 \<le> d_trunc L n x \<and> d_trunc L n x \<le> x \<and> x < d_trunc L n x + 1 / 10 ^ n"
    and trunc_neg: "d_trunc L n (- x) = - d_trunc L n x"
    and trunc_int: "d_trunc L 0 x \<in> \<int>"
    and parse_str: "d_parse L (d_str L x) = Some x"
begin

lemma div_zero [simp]: "y \<noteq> 0 \<Longrightarrow> d_div L 0 y = 0"
  using div_exact [of y 0] by simp

lemma div_self [simp]: "y \<noteq> 0 \<Longrightarrow> d_div L y y = 1"
  using div_exact [of y y] by simp

lemma div_nonneg: "0 \<le> x \<Longrightarrow> 0 < y \<Longrightarrow> 0 \<le> d_div L x y"
  using div_mono [of y 0 x] by simp

lemma div_nonpos: "x \<le> 0 \<Longrightarrow> 0 < y \<Longrightarrow> d_div L x y \<le> 0"
  using div_mono [of y x 0] by simp

lemma div_le_1: "x \<le> y \<Longrightarrow> 0 < y \<Longrightarrow> d_div L x y \<le> 1"
  using div_mono [of y x y] by simp

lemma div_ge_1: "y \<le> x \<Longrightarrow> 0 < y \<Longrightarrow> 1 \<le> d_div L x y"
  using div_mono [of y y x] by simp

lemma div_int_exact: "x \<in> \<int> \<Longrightarrow> y dvd 10 ^ 16 \<Longrightarrow> y \<noteq> 0 \<Longrightarrow> d_div L x (of_nat y) = x / of_nat y"
proof -
  assume x: "x \<in> \<int>" and d: "y dvd 10 ^ 16" and y: "y \<noteq> 0"
  from d obtain k :: nat where k: "10 ^ 16 = y * k" by (rule dvdE)
  then have "(10 ^ 16 :: decimal) = of_nat y * of_nat k"
    by (metis of_nat_mult of_nat_numeral of_nat_power)
  then have "x / of_nat y * 10 ^ 16 = x * of_nat k" using y by (simp add: field_simps)
  also have "\<dots> \<in> \<int>" using x by simp
  finally show ?thesis using y by (intro div_exact) simp_all
qed

lemma div_upper: "y \<noteq> 0 \<Longrightarrow> d_div L x y \<le> x / y + div_eps"
  and div_lower: "y \<noteq> 0 \<Longrightarrow> x / y - div_eps \<le> d_div L x y"
  using div_near [of y x] by (simp_all add: abs_le_iff)

lemma round_zero [simp]: "d_round L 0 = 0"
  using round_near [of 0] by linarith

lemma round_of_int [simp]: "d_round L (of_int i) = i"
  using round_near [of "of_int i"] by linarith

lemma round_gt: "of_int i + 1 / 2 < x \<Longrightarrow> i < d_round L x"
  using round_near [of x] by linarith

lemma round_le: "x \<le> of_int i \<Longrightarrow> d_round L x \<le> i"
  using round_mono [of x "of_int i"] by simp

lemma trunc_zero [simp]: "d_trunc L n 0 = 0"
  using trunc_neg [of n 0] by simp

lemma trunc_le: "0 \<le> x \<Longrightarrow> d_trunc L n x \<le> x"
  and trunc_nonneg: "0 \<le> x \<Longrightarrow> 0 \<le> d_trunc L n x"
  and trunc_gap: "0 \<le> x \<Longrightarrow> x < d_trunc L n x + 1 / 10 ^ n"
  using trunc_bounds [of x n] by simp_all

lemma trunc_nonpos: "x \<le> 0 \<Longrightarrow> d_trunc L n x \<le> 0"
  using trunc_nonneg [of "- x" n] trunc_neg [of n x] by simp

lemma trunc_floor: "0 \<le> x \<Longrightarrow> d_trunc L 0 x = of_int \<lfloor>x\<rfloor>"
proof -
  assume x: "0 \<le> x"
  from trunc_int obtain i where i: "d_trunc L 0 x = of_int i" by (rule Ints_cases)
  from trunc_le [OF x, of 0] trunc_gap [OF x, of 0] have "\<lfloor>x\<rfloor> = i"
    by (intro floor_unique) (simp_all add: i)
  with i show ?thesis by simp
qed

end

section \<open>A reference implementation of the interface\<close>

text \<open>Rounding half away from zero, the package's documented rule, at a given precision.\<close>

definition round_away :: "decimal \<Rightarrow> int" where
  "round_away x = (if x < 0 then - \<lfloor>- x + 1 / 2\<rfloor> else \<lfloor>x + 1 / 2\<rfloor>)"

definition round_to :: "nat \<Rightarrow> decimal \<Rightarrow> decimal" where
  "round_to n x = of_int (round_away (x * 10 ^ n)) / 10 ^ n"

definition trunc_to :: "nat \<Rightarrow> decimal \<Rightarrow> decimal" where
  "trunc_to n x = (if x < 0 then - (of_int \<lfloor>- x * 10 ^ n\<rfloor> / 10 ^ n) else of_int \<lfloor>x * 10 ^ n\<rfloor> / 10 ^ n)"

text \<open>A reversible text for a rational: numerator, a slash, denominator.\<close>

definition ratio_str :: "decimal \<Rightarrow> string" where
  "ratio_str x = (let (n, d) = quotient_of x in int_str n @ ''/'' @ nat_str (nat d))"

definition parse_ratio :: "string \<Rightarrow> decimal option" where
  "parse_ratio s =
     (let neg = (s \<noteq> [] \<and> hd s = CHR ''-'');
          body = (if neg then tl s else s);
          num = takeWhile is_digit body;
          den = drop (Suc (length num)) body;
          v = of_nat (digits_val num) / of_nat (digits_val den)
      in Some (if neg then - v else v))"

definition reference_declib :: declib where
  "reference_declib = \<lparr> d_div = (\<lambda>x y. round_to 16 (x / y)), d_round = round_away,
     d_trunc = trunc_to, d_str = ratio_str, d_parse = parse_ratio,
     d_of_float = (\<lambda>x. x), d_to_float = (\<lambda>x. x) \<rparr>"

lemma round_away_near: "\<bar>of_int (round_away x) - x\<bar> \<le> 1 / 2"
proof -
  have half: "\<bar>of_int \<lfloor>z + 1 / 2\<rfloor> - z\<bar> \<le> 1 / 2" for z :: decimal
    by linarith
  show ?thesis using half [of x] half [of "- x"]
    by (cases "x < 0") (simp_all add: round_away_def abs_if split: if_splits)
qed

lemma round_away_mono: "x \<le> y \<Longrightarrow> round_away x \<le> round_away y"
proof -
  assume xy: "x \<le> y"
  show ?thesis
  proof (cases "x < 0 \<and> 0 \<le> y")
    case True
    then have "0 \<le> \<lfloor>- x + 1 / 2\<rfloor>" "0 \<le> \<lfloor>y + 1 / 2\<rfloor>" by simp_all
    with True show ?thesis unfolding round_away_def by (simp del: zero_le_floor)
  next
    case False
    with xy show ?thesis by (auto simp: round_away_def intro: floor_mono)
  qed
qed

lemma round_away_neg: "round_away (- x) = - round_away x"
proof (cases "x = 0")
  case False
  then show ?thesis by (auto simp: round_away_def)
qed (simp add: round_away_def floor_eq_iff)

lemma round_away_of_int: "round_away (of_int i) = i"
  using round_away_near [of "of_int i"] by linarith

lemma round_to_near: "\<bar>round_to n x - x\<bar> \<le> 1 / (2 * 10 ^ n)"
proof -
  have "\<bar>of_int (round_away (x * 10 ^ n)) - x * 10 ^ n\<bar> \<le> 1 / 2" by (rule round_away_near)
  then have "\<bar>of_int (round_away (x * 10 ^ n)) - x * 10 ^ n\<bar> / 10 ^ n \<le> 1 / 2 / 10 ^ n"
    by (intro divide_right_mono) simp_all
  moreover have "round_to n x - x = (of_int (round_away (x * 10 ^ n)) - x * 10 ^ n) / 10 ^ n"
    by (simp add: round_to_def field_simps)
  ultimately show ?thesis by (simp add: abs_divide)
qed

lemma round_to_mono: "x \<le> y \<Longrightarrow> round_to n x \<le> round_to n y"
  unfolding round_to_def
  by (intro divide_right_mono) (simp_all add: round_away_mono mult_right_mono)

lemma trunc_to_bounds:
  assumes "0 \<le> x"
  shows "0 \<le> trunc_to n x \<and> trunc_to n x \<le> x \<and> x < trunc_to n x + 1 / 10 ^ n"
proof -
  have p: "(0 :: decimal) < 10 ^ n" by simp
  have "of_int \<lfloor>x * 10 ^ n\<rfloor> \<le> x * 10 ^ n" "x * 10 ^ n < of_int \<lfloor>x * 10 ^ n\<rfloor> + 1"
    by linarith+
  moreover have "0 \<le> \<lfloor>x * 10 ^ n\<rfloor>" using assms by simp
  ultimately show ?thesis using assms p
    by (simp add: trunc_to_def field_simps)
qed

lemma trunc_to_neg: "trunc_to n (- x) = - trunc_to n x"
  by (cases "x = 0") (auto simp: trunc_to_def)

lemma digits_val_takeWhile:
  "takeWhile is_digit (nat_str n @ CHR ''/'' # r) = nat_str n"
proof -
  have "\<not> is_digit (CHR ''/'')" by (simp add: is_digit_def)
  then show ?thesis using nat_str_digits [of n] by (simp add: takeWhile_append2)
qed

lemma nat_str_hd: "hd (nat_str n @ r) \<noteq> CHR ''-''"
proof -
  have "is_digit (hd (nat_str n))" using nat_str_digits [of n] by simp
  then show ?thesis by (auto simp: is_digit_def)
qed

lemma parse_ratio_str: "parse_ratio (ratio_str x) = Some x"
proof -
  obtain n d where q: "quotient_of x = (n, d)" by fastforce
  then have d: "0 < d" and x: "x = of_int n / of_int d"
    by (simp_all add: quotient_of_denom_pos quotient_of_div)
  have nn: "of_nat (nat d) = (of_int d :: decimal)" using d by simp
  show ?thesis
  proof (cases "n < 0")
    case True
    then have "(of_nat (nat (- n)) :: decimal) = - of_int n" by simp
    with True show ?thesis using q d nn x
      by (simp add: ratio_str_def int_str_def parse_ratio_def Let_def digits_val_takeWhile)
  next
    case False
    then have "(of_nat (nat n) :: decimal) = of_int n" by simp
    with False show ?thesis using q d nn x nat_str_hd [of "nat n" "CHR ''/'' # nat_str (nat d)"]
      by (simp add: ratio_str_def int_str_def parse_ratio_def Let_def digits_val_takeWhile)
  qed
qed

lemma reference_div_exact:
  assumes "y \<noteq> 0" and "x / y * 10 ^ 16 \<in> \<int>"
  shows "d_div reference_declib x y = x / y"
proof -
  from assms(2) obtain i where "x / y * 10 ^ 16 = of_int i" by (rule Ints_cases)
  then show ?thesis
    by (simp only: reference_declib_def round_to_def declib.simps round_away_of_int)
      (simp add: field_simps)
qed

interpretation reference: decimal_lib reference_declib
proof (unfold_locales, goal_cases)
  case (1 y x)
  show ?case using round_to_near [of 16 "x / y"] by (simp add: reference_declib_def div_eps_def)
next
  case (2 y x)
  then show ?case by (rule reference_div_exact)
next
  case (3 y x x')
  then show ?case
    by (simp add: reference_declib_def round_to_mono divide_right_mono)
next
  case (4 y x)
  then show ?case by (simp add: reference_declib_def round_to_def round_away_neg)
next
  case (5 x)
  show ?case using round_away_near by (simp add: reference_declib_def)
next
  case (6 x x')
  then show ?case by (simp add: reference_declib_def round_away_mono)
next
  case (7 x n)
  then show ?case using trunc_to_bounds by (simp add: reference_declib_def)
next
  case (8 n x)
  show ?case by (simp add: reference_declib_def trunc_to_neg)
next
  case (9 x)
  show ?case by (simp add: reference_declib_def trunc_to_def)
next
  case (10 x)
  show ?case by (simp add: reference_declib_def parse_ratio_str)
qed

end
