(* ===== verification/Sql.thy ===== *)
theory Sql
  imports Decimals
begin

text \<open>
  What the code relies on of PostgreSQL and its driver pgx. The column types round what is
  stored: \<open>sq_num\<close> is what a \<open>numeric(38,9)\<close> column keeps of a decimal and \<open>sq_time\<close> what a
  \<open>timestamptz\<close> column keeps of a Go time. Both are parameters of the model; the locale \<open>sql_types\<close>
  states their laws. Every query takes the outcome \<open>fail :: go_error option\<close> of the
  connection as an argument: \<open>Some e\<close> is a failed call, which changes nothing.
\<close>

record sqltypes =
  sq_num :: "decimal \<Rightarrow> decimal"
  sq_time :: "time \<Rightarrow> time"

locale sql_types =
  fixes Q :: sqltypes
  assumes num_mono: "x \<le> y \<Longrightarrow> sq_num Q x \<le> sq_num Q y"
    and num_idem: "sq_num Q (sq_num Q x) = sq_num Q x"
    and num_zero: "sq_num Q 0 = 0"
    and num_neg: "sq_num Q (- x) = - sq_num Q x"
    and time_mono: "t \<le> u \<Longrightarrow> sq_time Q t \<le> sq_time Q u"
    and time_idem: "sq_time Q (sq_time Q t) = sq_time Q t"
begin

lemma num_max: "sq_num Q (max x y) = max (sq_num Q x) (sq_num Q y)"
  using num_mono [of x y] num_mono [of y x] by (auto simp: max_def)

lemma num_nonneg: "0 \<le> x \<Longrightarrow> 0 \<le> sq_num Q x"
  using num_mono [of 0 x] num_zero by simp

lemma num_nonpos: "x \<le> 0 \<Longrightarrow> sq_num Q x \<le> 0"
  using num_mono [of x 0] num_zero by simp

end

text \<open>Rounding to nine places, half away from zero, and truncating to microseconds.\<close>

definition reference_sql :: sqltypes where
  "reference_sql = \<lparr>sq_num = round_to 9, sq_time = (\<lambda>t. t - t mod 1000)\<rparr>"

lemma round_to_fixed: "round_to n (of_int i / 10 ^ n) = of_int i / 10 ^ n"
  by (simp add: round_to_def round_away_of_int)

lemma round_to_idem: "round_to n (round_to n x) = round_to n x"
  unfolding round_to_def [of n x] by (rule round_to_fixed)

interpretation reference_sql: sql_types reference_sql
proof (unfold_locales, goal_cases)
  case (1 x y)
  then show ?case by (simp add: reference_sql_def round_to_mono)
next
  case (2 x)
  show ?case by (simp add: reference_sql_def round_to_idem)
next
  case 3
  show ?case by (simp add: reference_sql_def round_to_def round_away_def floor_eq_iff)
next
  case (4 x)
  show ?case by (simp add: reference_sql_def round_to_def round_away_neg)
next
  case (5 t u)
  have "t - t mod 1000 = (t div 1000) * 1000" "u - u mod 1000 = (u div 1000) * 1000" for t u :: int
    by (simp_all add: minus_mod_eq_div_mult)
  moreover from 5 have "t div 1000 \<le> u div 1000" by (rule zdiv_mono1) simp
  ultimately show ?case by (simp add: reference_sql_def)
next
  case (6 t)
  show ?case by (simp add: reference_sql_def minus_mod_eq_div_mult)
qed

text \<open>Errors of the database and its driver that the code can tell apart.\<close>

definition ErrNoRows :: go_error where
  "ErrNoRows = Sentinel ''no rows in result set''"

definition constraint_error :: go_error where
  "constraint_error = Errorf ''constraint violation''"

text \<open>\<open>ORDER BY key DESC LIMIT 1\<close> and \<open>ORDER BY key ASC\<close>.\<close>

fun latest_by :: "('a \<Rightarrow> int) \<Rightarrow> 'a list \<Rightarrow> 'a option" where
  "latest_by f [] = None"
| "latest_by f (x # xs) =
     (case latest_by f xs of None \<Rightarrow> Some x | Some y \<Rightarrow> Some (if f x < f y then y else x))"

lemma latest_by_None_iff [simp]: "latest_by f xs = None \<longleftrightarrow> xs = []"
  by (cases xs) (auto split: option.splits)

lemma latest_by_in: "latest_by f xs = Some y \<Longrightarrow> y \<in> set xs"
  by (induction xs arbitrary: y) (auto split: option.splits if_splits)

lemma latest_by_max: "latest_by f xs = Some y \<Longrightarrow> x \<in> set xs \<Longrightarrow> f x \<le> f y"
proof (induction xs arbitrary: x y)
  case (Cons z zs)
  show ?case
  proof (cases "latest_by f zs")
    case None
    with Cons.prems show ?thesis by simp
  next
    case (Some w)
    with Cons.prems(2) Cons.IH [OF Some] have "f x \<le> max (f z) (f w)" by (auto simp: le_max_iff_disj)
    with Some Cons.prems(1) show ?thesis by (auto simp: max_def split: if_splits)
  qed
qed simp

lemma latest_by_snoc:
  "\<forall>y \<in> set xs. f y < f x \<Longrightarrow> latest_by f (xs @ [x]) = Some x"
  by (induction xs) auto

end
