(* ===== verification/Vault.thy ===== *)
theory Vault
  imports Sql
begin

text \<open>
  \<open>internal/vault\<close>: the off-chain accounting layer. types.go and nav.go are pure; allocator.go
  splits capital over agents; service.go wraps the tables \<open>vaults\<close>, \<open>deposits\<close>, \<open>withdrawals\<close>,
  \<open>lockups\<close> and \<open>nav_snapshots\<close>, which are the fields of \<open>vault_db\<close>. \<open>time.Now()\<close> and the database's
  \<open>now()\<close> are arguments.
\<close>

section \<open>Types (types.go)\<close>

record vault =
  va_id :: int
  va_name :: string
  va_asset :: string
  va_created_at :: time

record deposit =
  de_id :: int
  de_vault_id :: int
  de_amount :: decimal
  de_source :: string
  de_note :: string
  de_created_at :: time

record withdrawal =
  wd_id :: int
  wd_vault_id :: int
  wd_amount :: decimal
  wd_destination :: string
  wd_note :: string
  wd_created_at :: time

record lockup =
  lk_id :: int
  lk_vault_id :: int
  lk_amount :: decimal
  lk_unlock_at :: time
  lk_note :: string
  lk_created_at :: time

definition IsActive :: "lockup \<Rightarrow> time \<Rightarrow> bool" where
  "IsActive l t \<longleftrightarrow> t < lk_unlock_at l"

record vault_nav =
  vn_time :: time
  vn_vault_id :: int
  vn_nav :: decimal
  vn_cash :: decimal
  vn_positions_value :: decimal
  vn_high_water_mark :: decimal
  vn_deposit_total :: decimal
  vn_withdrawal_total :: decimal

record nav_inputs =
  ni_cash :: decimal
  ni_positions_value :: decimal
  ni_deposit_total :: decimal
  ni_withdrawal_total :: decimal
  ni_prev_hwm :: decimal

section \<open>Pure accounting (nav.go)\<close>

definition ComputeNAV :: "time \<Rightarrow> int \<Rightarrow> nav_inputs \<Rightarrow> vault_nav" where
  "ComputeNAV now vault_id inp =
     (let nav = ni_cash inp + ni_positions_value inp;
          hwm = (if nav > ni_prev_hwm inp then nav else ni_prev_hwm inp)
      in \<lparr>vn_time = now, vn_vault_id = vault_id, vn_nav = nav, vn_cash = ni_cash inp,
          vn_positions_value = ni_positions_value inp, vn_high_water_mark = hwm,
          vn_deposit_total = ni_deposit_total inp,
          vn_withdrawal_total = ni_withdrawal_total inp\<rparr>)"

fun active_locked :: "decimal \<Rightarrow> lockup list \<Rightarrow> time \<Rightarrow> decimal" where
  "active_locked locked [] now = locked"
| "active_locked locked (l # ls) now =
     active_locked (if IsActive l now then locked + lk_amount l else locked) ls now"

definition AvailableCapital :: "decimal \<Rightarrow> lockup list \<Rightarrow> time \<Rightarrow> decimal" where
  "AvailableCapital cash lockups now =
     (let available = cash - active_locked 0 lockups now
      in if available < 0 then 0 else available)"

definition SimpleReturn :: "declib \<Rightarrow> vault_nav \<Rightarrow> decimal" where
  "SimpleReturn L s =
     (let contributed = vn_deposit_total s - vn_withdrawal_total s
      in if contributed = 0 \<or> contributed < 0 then 0
         else d_div L (vn_nav s) contributed - 1)"

section \<open>The allocator (allocator.go)\<close>

record agent_allocation =
  al_agent_id :: string
  al_weight :: decimal
  al_amount :: decimal

text \<open>The loop over the weights returns on the first negative one; \<open>None\<close> is that return.\<close>

fun sum_weights :: "decimal \<Rightarrow> (string \<times> decimal) list \<Rightarrow> decimal option" where
  "sum_weights acc [] = Some acc"
| "sum_weights acc ((k, w) # ws) = (if w < 0 then None else sum_weights (acc + w) ws)"

definition Allocate ::
  "declib \<Rightarrow> decimal \<Rightarrow> (string \<times> decimal) list \<Rightarrow> go_error + agent_allocation list" where
  "Allocate L available weights =
     (if available < 0 then Inl (Errorf ''vault: available capital is negative'')
      else case sum_weights 0 weights of
          None \<Rightarrow> Inl (Errorf ''vault: negative weight'')
        | Some tot \<Rightarrow>
            let out = sort_key al_agent_id
                  (map (\<lambda>(k, w). \<lparr>al_agent_id = k, al_weight = w, al_amount = 0\<rparr>) weights)
            in if tot = 0 \<or> available = 0 then Inr out
               else Inr (map (\<lambda>a. a\<lparr>al_amount := d_div L (available * al_weight a) tot\<rparr>) out))"

section \<open>The service (service.go)\<close>

record vault_db =
  vd_vaults :: "vault list"
  vd_deposits :: "deposit list"
  vd_withdrawals :: "withdrawal list"
  vd_lockups :: "lockup list"
  vd_navs :: "vault_nav list"
  vd_vault_seq :: int
  vd_deposit_seq :: int
  vd_withdrawal_seq :: int
  vd_lockup_seq :: int

definition vault_exists :: "vault_db \<Rightarrow> int \<Rightarrow> bool" where
  "vault_exists db vid \<longleftrightarrow> list_ex (\<lambda>v. va_id v = vid) (vd_vaults db)"

definition vault_Init ::
  "go_error option \<Rightarrow> time \<Rightarrow> string \<Rightarrow> string \<Rightarrow> vault_db \<Rightarrow> (go_error + vault) \<times> vault_db" where
  "vault_Init fail dbnow name asset db =
     (if name = [] \<or> asset = [] then (Inl (Errorf ''vault: name and asset required''), db)
      else case fail of
          Some e \<Rightarrow> (Inl (Wrap ''vault: init'' e), db)
        | None \<Rightarrow>
            (let i = vd_vault_seq db; db' = db\<lparr>vd_vault_seq := i + 1\<rparr>
             in case find (\<lambda>v. va_name v = name) (vd_vaults db) of
                  Some v \<Rightarrow> (Inr v, db')
                | None \<Rightarrow>
                    let v = \<lparr>va_id = i, va_name = name, va_asset = asset, va_created_at = dbnow\<rparr>
                    in (Inr v, db'\<lparr>vd_vaults := vd_vaults db @ [v]\<rparr>)))"

definition vault_Get :: "go_error option \<Rightarrow> string \<Rightarrow> vault_db \<Rightarrow> go_error + vault" where
  "vault_Get fail name db =
     (case fail of
        Some e \<Rightarrow> Inl (Wrap ''vault: get'' e)
      | None \<Rightarrow> (case find (\<lambda>v. va_name v = name) (vd_vaults db) of
            None \<Rightarrow> Inl (Wrap ''vault: get'' ErrNoRows)
          | Some v \<Rightarrow> Inr v))"

text \<open>
  An insert into a ledger table fails on an unknown vault (foreign key) and on an amount
  the column rounds to zero (\<open>CHECK (amount > 0)\<close>). The caller gets the amount it passed.
\<close>

definition ledger_error ::
  "sqltypes \<Rightarrow> go_error option \<Rightarrow> int \<Rightarrow> decimal \<Rightarrow> vault_db \<Rightarrow> go_error option" where
  "ledger_error Q fail vid amount db =
     (case fail of
        Some e \<Rightarrow> Some e
      | None \<Rightarrow> if \<not> vault_exists db vid \<or> sq_num Q amount \<le> 0 then Some constraint_error else None)"

definition vault_Deposit ::
  "sqltypes \<Rightarrow> go_error option \<Rightarrow> time \<Rightarrow> int \<Rightarrow> decimal \<Rightarrow> string \<Rightarrow> string \<Rightarrow> vault_db
     \<Rightarrow> (go_error + deposit) \<times> vault_db" where
  "vault_Deposit Q fail dbnow vid amount source note db =
     (if \<not> 0 < amount then (Inl (Errorf ''vault: deposit amount must be positive''), db)
      else case ledger_error Q fail vid amount db of
          Some e \<Rightarrow> (Inl (Wrap ''vault: deposit'' e), db)
        | None \<Rightarrow>
            let d = \<lparr>de_id = vd_deposit_seq db, de_vault_id = vid, de_amount = amount,
                     de_source = source, de_note = note, de_created_at = dbnow\<rparr>
            in (Inr d, db\<lparr>vd_deposits := vd_deposits db @ [d\<lparr>de_amount := sq_num Q amount\<rparr>],
                          vd_deposit_seq := vd_deposit_seq db + 1\<rparr>))"

definition vault_Withdraw ::
  "sqltypes \<Rightarrow> go_error option \<Rightarrow> time \<Rightarrow> int \<Rightarrow> decimal \<Rightarrow> string \<Rightarrow> string \<Rightarrow> vault_db
     \<Rightarrow> (go_error + withdrawal) \<times> vault_db" where
  "vault_Withdraw Q fail dbnow vid amount dest note db =
     (if \<not> 0 < amount then (Inl (Errorf ''vault: withdrawal amount must be positive''), db)
      else case ledger_error Q fail vid amount db of
          Some e \<Rightarrow> (Inl (Wrap ''vault: withdraw'' e), db)
        | None \<Rightarrow>
            let w = \<lparr>wd_id = vd_withdrawal_seq db, wd_vault_id = vid, wd_amount = amount,
                     wd_destination = dest, wd_note = note, wd_created_at = dbnow\<rparr>
            in (Inr w, db\<lparr>vd_withdrawals := vd_withdrawals db @ [w\<lparr>wd_amount := sq_num Q amount\<rparr>],
                          vd_withdrawal_seq := vd_withdrawal_seq db + 1\<rparr>))"

definition AddLockup ::
  "sqltypes \<Rightarrow> go_error option \<Rightarrow> time \<Rightarrow> time \<Rightarrow> int \<Rightarrow> decimal \<Rightarrow> time \<Rightarrow> string \<Rightarrow> vault_db
     \<Rightarrow> (go_error + lockup) \<times> vault_db" where
  "AddLockup Q fail now dbnow vid amount until note db =
     (if \<not> 0 < amount then (Inl (Errorf ''vault: lockup amount must be positive''), db)
      else if \<not> now < until then (Inl (Errorf ''vault: unlock time must be in the future''), db)
      else case ledger_error Q fail vid amount db of
          Some e \<Rightarrow> (Inl (Wrap ''vault: lockup'' e), db)
        | None \<Rightarrow>
            let l = \<lparr>lk_id = vd_lockup_seq db, lk_vault_id = vid, lk_amount = amount,
                     lk_unlock_at = until, lk_note = note, lk_created_at = dbnow\<rparr>
            in (Inr l, db\<lparr>vd_lockups := vd_lockups db
                            @ [l\<lparr>lk_amount := sq_num Q amount, lk_unlock_at := sq_time Q until\<rparr>],
                          vd_lockup_seq := vd_lockup_seq db + 1\<rparr>))"

text \<open>\<open>ORDER BY unlock_at\<close> is a stable sort here; the order of equal times is unspecified.\<close>

definition ActiveLockups ::
  "sqltypes \<Rightarrow> go_error option \<Rightarrow> int \<Rightarrow> time \<Rightarrow> vault_db \<Rightarrow> go_error + lockup list" where
  "ActiveLockups Q fail vid t db =
     (case fail of
        Some e \<Rightarrow> Inl (Wrap ''vault: lockups'' e)
      | None \<Rightarrow> Inr (sort_key lk_unlock_at
          (filter (\<lambda>l. lk_vault_id l = vid \<and> sq_time Q t < lk_unlock_at l) (vd_lockups db))))"

definition LedgerTotals :: "go_error option \<Rightarrow> int \<Rightarrow> vault_db \<Rightarrow> go_error + (decimal \<times> decimal)" where
  "LedgerTotals fail vid db =
     (case fail of
        Some e \<Rightarrow> Inl (Wrap ''vault: totals'' e)
      | None \<Rightarrow> Inr
          (\<Sum>d\<leftarrow>filter (\<lambda>d. de_vault_id d = vid) (vd_deposits db). de_amount d,
           \<Sum>w\<leftarrow>filter (\<lambda>w. wd_vault_id w = vid) (vd_withdrawals db). wd_amount w))"

definition vault_navs :: "int \<Rightarrow> vault_db \<Rightarrow> vault_nav list" where
  "vault_navs vid db = filter (\<lambda>s. vn_vault_id s = vid) (vd_navs db)"

definition LatestNAV :: "go_error option \<Rightarrow> int \<Rightarrow> vault_db \<Rightarrow> go_error + vault_nav" where
  "LatestNAV fail vid db =
     (case fail of
        Some e \<Rightarrow> Inl e
      | None \<Rightarrow> (case latest_by vn_time (vault_navs vid db) of
            None \<Rightarrow> Inl ErrNoRows
          | Some s \<Rightarrow> Inr s))"

definition stored_nav :: "sqltypes \<Rightarrow> vault_nav \<Rightarrow> vault_nav" where
  "stored_nav Q s = \<lparr>vn_time = sq_time Q (vn_time s), vn_vault_id = vn_vault_id s,
     vn_nav = sq_num Q (vn_nav s), vn_cash = sq_num Q (vn_cash s),
     vn_positions_value = sq_num Q (vn_positions_value s),
     vn_high_water_mark = sq_num Q (vn_high_water_mark s),
     vn_deposit_total = sq_num Q (vn_deposit_total s),
     vn_withdrawal_total = sq_num Q (vn_withdrawal_total s)\<rparr>"

definition insert_nav ::
  "sqltypes \<Rightarrow> go_error option \<Rightarrow> vault_nav \<Rightarrow> vault_db \<Rightarrow> go_error option \<times> vault_db" where
  "insert_nav Q fail s db =
     (case fail of
        Some e \<Rightarrow> (Some (Wrap ''vault: record nav'' e), db)
      | None \<Rightarrow>
          if \<not> vault_exists db (vn_vault_id s) then
            (Some (Wrap ''vault: record nav'' constraint_error), db)
          else if list_ex (\<lambda>r. vn_time r = sq_time Q (vn_time s)) (vault_navs (vn_vault_id s) db) then
            (None, db)
          else (None, db\<lparr>vd_navs := vd_navs db @ [stored_nav Q s]\<rparr>))"

text \<open>\<open>fails\<close> holds the outcomes of the three queries of \<open>RecordNAV\<close>.\<close>

definition RecordNAV ::
  "sqltypes \<Rightarrow> go_error option \<times> go_error option \<times> go_error option \<Rightarrow> time \<Rightarrow> int
     \<Rightarrow> decimal \<Rightarrow> decimal \<Rightarrow> vault_db \<Rightarrow> (go_error + vault_nav) \<times> vault_db" where
  "RecordNAV Q fails now vid cash positions_value db =
     (case fails of (f1, f2, f3) \<Rightarrow>
      case LedgerTotals f1 vid db of
        Inl e \<Rightarrow> (Inl e, db)
      | Inr (dep, wdr) \<Rightarrow>
         (let prev = (case LatestNAV f2 vid db of
                Inr s \<Rightarrow> Inr (vn_high_water_mark s)
              | Inl e \<Rightarrow> if errors_is e ''no rows in result set'' then Inr 0 else Inl e)
          in case prev of
               Inl e \<Rightarrow> (Inl e, db)
             | Inr hwm \<Rightarrow>
                (let snap = ComputeNAV now vid
                       \<lparr>ni_cash = cash, ni_positions_value = positions_value,
                        ni_deposit_total = dep, ni_withdrawal_total = wdr, ni_prev_hwm = hwm\<rparr>
                 in case insert_nav Q f3 snap db of
                      (Some e, db') \<Rightarrow> (Inl e, db')
                    | (None, db') \<Rightarrow> (Inr snap, db'))))"

definition NAVHistory ::
  "sqltypes \<Rightarrow> go_error option \<Rightarrow> int \<Rightarrow> time \<Rightarrow> vault_db \<Rightarrow> go_error + vault_nav list" where
  "NAVHistory Q fail vid since db =
     (case fail of
        Some e \<Rightarrow> Inl (Wrap ''vault: nav history'' e)
      | None \<Rightarrow> Inr (sort_key vn_time
          (filter (\<lambda>s. sq_time Q since \<le> vn_time s) (vault_navs vid db))))"

section \<open>High-water marks over a run\<close>

text \<open>A run records a list of observations, each with its clock reading; no query fails.\<close>

fun record_run ::
  "sqltypes \<Rightarrow> int \<Rightarrow> (time \<times> decimal \<times> decimal) list \<Rightarrow> vault_db \<Rightarrow> vault_db" where
  "record_run Q vid [] db = db"
| "record_run Q vid ((now, cash, pos) # xs) db =
     record_run Q vid xs (snd (RecordNAV Q (None, None, None) now vid cash pos db))"

lemma ComputeNAV_hwm: "vn_high_water_mark (ComputeNAV now v i) = max (ni_cash i + ni_positions_value i) (ni_prev_hwm i)"
  by (simp add: ComputeNAV_def Let_def max_def)

lemma vault_exists_cong: "vd_vaults db' = vd_vaults db \<Longrightarrow> vault_exists db' v = vault_exists db v"
  by (simp add: vault_exists_def)

definition prev_hwm :: "int \<Rightarrow> vault_db \<Rightarrow> decimal" where
  "prev_hwm vid db =
     (case latest_by vn_time (vault_navs vid db) of None \<Rightarrow> 0 | Some s \<Rightarrow> vn_high_water_mark s)"

lemma LatestNAV_prev:
  "(case LatestNAV None vid db of
      Inr s \<Rightarrow> Inr (vn_high_water_mark s)
    | Inl e \<Rightarrow> if errors_is e ''no rows in result set'' then Inr 0 else Inl e) = Inr (prev_hwm vid db)"
  by (simp add: LatestNAV_def prev_hwm_def ErrNoRows_def split: option.splits)

lemma RecordNAV_fresh:
  assumes "vault_exists db vid"
    and "\<forall>r \<in> set (vault_navs vid db). vn_time r < sq_time Q now"
  shows "\<exists>s. RecordNAV Q (None, None, None) now vid cash pos db =
              (Inr s, db\<lparr>vd_navs := vd_navs db @ [stored_nav Q s]\<rparr>) \<and>
           vn_time s = now \<and> vn_vault_id s = vid \<and>
           vn_high_water_mark s = max (cash + pos) (prev_hwm vid db)"
proof -
  have "\<not> list_ex (\<lambda>r. vn_time r = sq_time Q now) (vault_navs vid db)"
    using assms(2) by (force simp: list_ex_iff)
  then show ?thesis using assms(1)
    by (simp add: RecordNAV_def LedgerTotals_def LatestNAV_prev Let_def insert_nav_def
        ComputeNAV_def max_def)
qed

lemma vault_navs_snoc:
  "vn_vault_id s = vid \<Longrightarrow>
     vault_navs vid (db\<lparr>vd_navs := vd_navs db @ [stored_nav Q s]\<rparr>) = vault_navs vid db @ [stored_nav Q s]"
  by (simp add: vault_navs_def stored_nav_def)

lemma record_run_hwm:
  assumes Q: "sql_types Q" and "vault_exists db vid"
    and "sorted_wrt (<) (map (\<lambda>(t, _). sq_time Q t) xs)"
    and "\<forall>x \<in> set xs. \<forall>r \<in> set (vault_navs vid db). vn_time r < sq_time Q (fst x)"
    and "sq_num Q (prev_hwm vid db) = prev_hwm vid db"
  shows "prev_hwm vid (record_run Q vid xs db) =
           foldl max (prev_hwm vid db) (map (\<lambda>(_, cash, pos). sq_num Q (cash + pos)) xs)"
  using assms(2-)
proof (induction xs arbitrary: db)
  case (Cons x xs)
  obtain now cash pos where x: "x = (now, cash, pos)" by (cases x)
  have before: "\<forall>r \<in> set (vault_navs vid db). vn_time r < sq_time Q now"
    using Cons.prems(3) x by simp
  from RecordNAV_fresh [OF Cons.prems(1) before, of cash pos] obtain s where
    rn: "RecordNAV Q (None, None, None) now vid cash pos db =
           (Inr s, db\<lparr>vd_navs := vd_navs db @ [stored_nav Q s]\<rparr>)"
    and s: "vn_time s = now" "vn_vault_id s = vid"
      "vn_high_water_mark s = max (cash + pos) (prev_hwm vid db)" by blast
  let ?db = "db\<lparr>vd_navs := vd_navs db @ [stored_nav Q s]\<rparr>"
  have navs: "vault_navs vid ?db = vault_navs vid db @ [stored_nav Q s]"
    by (rule vault_navs_snoc [OF s(2)])
  have "latest_by vn_time (vault_navs vid ?db) = Some (stored_nav Q s)"
    unfolding navs using before s by (intro latest_by_snoc) (simp add: stored_nav_def)
  then have "prev_hwm vid ?db = vn_high_water_mark (stored_nav Q s)"
    by (simp only: prev_hwm_def option.case)
  also have "\<dots> = sq_num Q (max (cash + pos) (prev_hwm vid db))"
    by (simp add: stored_nav_def s(3))
  finally have hw: "prev_hwm vid ?db = max (prev_hwm vid db) (sq_num Q (cash + pos))"
    by (simp add: sql_types.num_max [OF Q] Cons.prems(4) max.commute)
  have "prev_hwm vid (record_run Q vid xs ?db) =
      foldl max (prev_hwm vid ?db) (map (\<lambda>(_, cash, pos). sq_num Q (cash + pos)) xs)"
  proof (rule Cons.IH)
    show "vault_exists ?db vid" using Cons.prems(1) by (simp add: vault_exists_def)
    show "sorted_wrt (<) (map (\<lambda>(t, _). sq_time Q t) xs)" using Cons.prems(2) by simp
    show "\<forall>y \<in> set xs. \<forall>r \<in> set (vault_navs vid ?db). vn_time r < sq_time Q (fst y)"
      unfolding navs using Cons.prems(2,3) x s(1) by (auto simp: stored_nav_def)
    show "sq_num Q (prev_hwm vid ?db) = prev_hwm vid ?db"
      unfolding hw by (simp add: sql_types.num_max [OF Q] Cons.prems(4) sql_types.num_idem [OF Q])
  qed
  then show ?case using x rn hw by simp
qed simp

lemma foldl_max_ge: "(a :: 'a :: linorder) \<le> foldl max a xs \<and> (\<forall>x \<in> set xs. x \<le> foldl max a xs)"
proof (induction xs arbitrary: a)
  case (Cons x xs)
  show ?case using Cons.IH [of "max a x"] by (auto simp: max_def split: if_splits)
qed simp

lemma foldl_max_in: "foldl max (a :: 'a :: linorder) xs \<in> insert a (set xs)"
proof (induction xs arbitrary: a)
  case (Cons x xs)
  show ?case using Cons.IH [of "max a x"] by (auto simp: max_def split: if_splits)
qed simp

section \<open>Allocation\<close>

lemma sum_weights_iff:
  "sum_weights acc ws = Some tot \<longleftrightarrow>
     (\<forall>p \<in> set ws. 0 \<le> snd p) \<and> tot = acc + (\<Sum>p\<leftarrow>ws. snd p)"
  by (induction acc ws rule: sum_weights.induct) auto

lemma sum_list_near:
  assumes "\<forall>x \<in> set xs. \<bar>f x - (g x :: decimal)\<bar> \<le> e"
  shows "\<bar>(\<Sum>x\<leftarrow>xs. f x) - (\<Sum>x\<leftarrow>xs. g x)\<bar> \<le> of_nat (length xs) * e"
  using assms
proof (induction xs)
  case (Cons x xs)
  then have "\<bar>(\<Sum>x\<leftarrow>xs. f x) - (\<Sum>x\<leftarrow>xs. g x)\<bar> \<le> of_nat (length xs) * e" "\<bar>f x - g x\<bar> \<le> e"
    by simp_all
  then show ?case by (simp add: algebra_simps)
qed simp

lemma Allocate_Inr:
  assumes "Allocate L available weights = Inr out"
  obtains "0 \<le> available" "\<forall>p \<in> set weights. 0 \<le> snd p"
    "out = map (\<lambda>a. a\<lparr>al_amount :=
        if (\<Sum>p\<leftarrow>weights. snd p) = 0 \<or> available = 0 then 0
        else d_div L (available * al_weight a) (\<Sum>p\<leftarrow>weights. snd p)\<rparr>)
      (sort_key al_agent_id (map (\<lambda>(k, w). \<lparr>al_agent_id = k, al_weight = w, al_amount = 0\<rparr>) weights))"
proof (cases "sum_weights 0 weights")
  case None
  with assms show ?thesis by (simp add: Allocate_def split: if_splits)
next
  case (Some tot)
  let ?out = "sort_key al_agent_id (map (\<lambda>(k, w). \<lparr>al_agent_id = k, al_weight = w, al_amount = 0 :: decimal\<rparr>) weights)"
  have zero: "map (\<lambda>a. a\<lparr>al_amount := 0\<rparr>) ?out = ?out"
    by (rule map_idI) auto
  from Some have tot: "tot = (\<Sum>p\<leftarrow>weights. snd p)" "\<forall>p \<in> set weights. 0 \<le> snd p"
    using sum_weights_iff [of 0 weights tot] by auto
  with Some assms zero show ?thesis
    by (intro that) (auto simp: Allocate_def Let_def split: if_splits)
qed

section \<open>Properties\<close>

text \<open>
  C16: Recording NAVs with an advancing clock, from a vault without snapshots: the
  high-water mark of the latest snapshot is the largest NAV ever recorded (as the column stores
  it), or zero if every NAV was negative. So no recorded peak is ever lost.
\<close>

theorem hwm_is_running_max:
  assumes "sql_types Q" and "vault_exists db vid" and "vault_navs vid db = []"
    and "sorted_wrt (<) (map (\<lambda>(t, _). sq_time Q t) xs)"
  shows "prev_hwm vid (record_run Q vid xs db) =
           Max (insert 0 ((\<lambda>(_, cash, pos). sq_num Q (cash + pos)) ` set xs))"
proof -
  have p0: "prev_hwm vid db = 0" using assms(3) by (simp add: prev_hwm_def)
  let ?f = "\<lambda>(_, cash, pos). sq_num Q (cash + pos)"
  have "prev_hwm vid (record_run Q vid xs db) = foldl max 0 (map ?f xs)"
    using record_run_hwm [OF assms(1,2,4)] assms(3) p0 sql_types.num_zero [OF assms(1)] by simp
  also have "\<dots> = Max (insert 0 (set (map ?f xs)))"
    using foldl_max_ge [of 0 "map ?f xs"] foldl_max_in [of 0 "map ?f xs"]
    by (intro Max_eqI [symmetric]) auto
  finally show ?thesis by simp
qed

definition sample_vault_db :: vault_db where
  "sample_vault_db = \<lparr>vd_vaults = [\<lparr>va_id = 1, va_name = ''main'', va_asset = ''USDC'', va_created_at = 0\<rparr>],
     vd_deposits = [], vd_withdrawals = [], vd_lockups = [], vd_navs = [],
     vd_vault_seq = 2, vd_deposit_seq = 1, vd_withdrawal_seq = 1, vd_lockup_seq = 1\<rparr>"

theorem hwm_is_running_max_witness:
  "prev_hwm 1 (record_run reference_sql 1
      [(1000, 100, 0), (5000, 80, 40), (9000, 90, 0)] sample_vault_db) = 120"
proof -
  have n: "sq_num reference_sql (of_int i) = of_int i" for i
    using round_to_fixed [of 9 "i * 10 ^ 9"] by (simp add: reference_sql_def)
  have "prev_hwm 1 (record_run reference_sql 1
      [(1000, 100, 0), (5000, 80, 40), (9000, 90, 0)] sample_vault_db) =
    Max (insert 0 ((\<lambda>(_, cash, pos). sq_num reference_sql (cash + pos)) `
      set [(1000 :: time, 100, 0), (5000, 80, 40), (9000, 90, 0)]))"
  proof (rule hwm_is_running_max)
    show "sql_types reference_sql" by (rule reference_sql.sql_types_axioms)
  qed (simp_all add: sample_vault_db_def vault_exists_def vault_navs_def reference_sql_def)
  then show ?thesis using n [of 100] n [of 120] n [of 90] by simp
qed

text \<open>
  C26: The proportional allocator. A successful allocation lists every agent of the weight
  map once, in the order of the ids, whatever the iteration order of the map; no amount is
  negative; and the amounts add up to the available capital within the rounding of one
  division per agent, unless all weights are zero, when nothing is allocated. It fails
  exactly when the capital or a weight is negative.
\<close>

theorem allocation_splits_capital:
  assumes "decimal_lib L"
  shows "case Allocate L available weights of
      Inl _ \<Rightarrow> available < 0 \<or> (\<exists>p \<in> set weights. snd p < 0)
    | Inr out \<Rightarrow>
        0 \<le> available \<and> list_all (\<lambda>p. 0 \<le> snd p) weights \<and>
        sorted (map al_agent_id out) \<and>
        mset (map (\<lambda>a. (al_agent_id a, al_weight a)) out) = mset weights \<and>
        list_all (\<lambda>a. 0 \<le> al_amount a) out \<and>
        \<bar>(\<Sum>a\<leftarrow>out. al_amount a) - (if (\<Sum>p\<leftarrow>weights. snd p) = 0 then 0 else available)\<bar>
          \<le> of_nat (length weights) * div_eps"
proof (cases "Allocate L available weights")
  case (Inl e)
  then show ?thesis
    by (auto simp: Allocate_def Let_def sum_weights_iff not_le split: if_splits option.splits)
      (metis option.distinct(1) sum_weights_iff not_le)
next
  case (Inr out)
  let ?tot = "\<Sum>p\<leftarrow>weights. snd p"
  let ?mk = "\<lambda>(k, w). \<lparr>al_agent_id = k, al_weight = w, al_amount = 0 :: decimal\<rparr>"
  let ?amt = "\<lambda>a. if ?tot = 0 \<or> available = 0 then 0 else d_div L (available * al_weight a) ?tot"
  let ?s = "sort_key al_agent_id (map ?mk weights)"
  from Allocate_Inr [OF Inr] have av: "0 \<le> available" and nn: "\<forall>p \<in> set weights. 0 \<le> snd p"
    and out: "out = map (\<lambda>a. a\<lparr>al_amount := ?amt a\<rparr>) ?s" by blast+
  have tot0: "0 \<le> ?tot" using nn by (intro sum_list_nonneg) auto
  have ids: "map al_agent_id out = map al_agent_id ?s" by (simp add: out comp_def)
  have "map (\<lambda>a. (al_agent_id a, al_weight a)) out = map (\<lambda>a. (al_agent_id a, al_weight a)) ?s"
    by (simp add: out comp_def)
  then have "mset (map (\<lambda>a. (al_agent_id a, al_weight a)) out)
      = image_mset (\<lambda>a. (al_agent_id a, al_weight a)) (mset (map ?mk weights))"
    by (simp only: mset_map mset_sort)
  also have "\<dots> = mset (map (\<lambda>a. (al_agent_id a, al_weight a)) (map ?mk weights))"
    by (simp only: mset_map)
  also have "map (\<lambda>a. (al_agent_id a, al_weight a)) (map ?mk weights) = weights"
    by (simp add: comp_def case_prod_beta)
  finally have ms: "mset (map (\<lambda>a. (al_agent_id a, al_weight a)) out) = mset weights" .
  have amounts: "(\<Sum>a\<leftarrow>out. h (al_amount a)) = (\<Sum>p\<leftarrow>weights. h (?amt (?mk p)))" for h :: "decimal \<Rightarrow> decimal"
  proof -
    have "mset (map (\<lambda>a. h (al_amount a)) out) = mset (map (\<lambda>a. h (?amt a)) ?s)"
      by (simp add: out comp_def)
    also have "\<dots> = image_mset (\<lambda>a. h (?amt a)) (mset (map ?mk weights))"
      by (simp only: mset_map mset_sort)
    also have "\<dots> = mset (map (\<lambda>p. h (?amt (?mk p))) weights)"
      by (simp only: mset_map image_mset.compositionality comp_def)
    finally have "mset (map (\<lambda>a. h (al_amount a)) out) = mset (map (\<lambda>p. h (?amt (?mk p))) weights)" .
    then show ?thesis by (metis sum_mset_sum_list)
  qed
  have pos: "0 \<le> ?amt a" if "a \<in> set ?s" for a
  proof (cases "?tot = 0 \<or> available = 0")
    case False
    from that obtain p where "p \<in> set weights" "a = ?mk p" by auto
    then have "0 \<le> al_weight a" using nn by (auto simp: case_prod_beta)
    then have "0 \<le> available * al_weight a" using av by simp
    moreover have "0 < ?tot" using False tot0 by simp
    ultimately show ?thesis using False decimal_lib.div_nonneg [OF assms] by simp
  qed simp
  have near: "\<bar>(\<Sum>a\<leftarrow>out. al_amount a) - (if ?tot = 0 then 0 else available)\<bar> \<le> of_nat (length weights) * div_eps"
  proof (cases "?tot = 0 \<or> available = 0")
    case True
    then show ?thesis using amounts [of "\<lambda>x. x"] by (auto simp: div_eps_def)
  next
    case False
    have "(\<Sum>p\<leftarrow>weights. available * snd p / ?tot) = (\<Sum>p\<leftarrow>weights. snd p * (available / ?tot))"
      by (simp add: mult.commute)
    also have "\<dots> = ?tot * (available / ?tot)" by (rule sum_list_mult_const)
    also have "\<dots> = available" using False by simp
    finally have "(\<Sum>p\<leftarrow>weights. available * snd p / ?tot) = available" .
    moreover have "\<bar>(\<Sum>p\<leftarrow>weights. ?amt (?mk p)) - (\<Sum>p\<leftarrow>weights. available * snd p / ?tot)\<bar>
        \<le> of_nat (length weights) * div_eps"
      using False decimal_lib.div_near [OF assms] by (intro sum_list_near) (auto simp: case_prod_beta)
    ultimately show ?thesis using False amounts [of "\<lambda>x. x"] by simp
  qed
  have "sorted (map al_agent_id out)" unfolding ids by (rule sorted_sort_key)
  moreover have "list_all (\<lambda>a. 0 \<le> al_amount a) out" using pos by (auto simp: out list_all_iff)
  ultimately show ?thesis using Inr av nn ms near by (simp add: list_all_iff)
qed

theorem allocation_splits_capital_witness:
  "case Allocate reference_declib 100 [(''b'', 1), (''a'', 3)] of
      Inl _ \<Rightarrow> False
    | Inr out \<Rightarrow> \<bar>(\<Sum>a\<leftarrow>out. al_amount a) - 100\<bar> \<le> 2 * div_eps"
  using allocation_splits_capital [OF reference.decimal_lib_axioms, of 100 "[(''b'', 1), (''a'', 3)]"]
  by (auto split: sum.splits)

lemma active_locked_sum: "active_locked acc ls now = acc + (\<Sum>l\<leftarrow>filter (\<lambda>l. IsActive l now) ls. lk_amount l)"
  by (induction acc ls now rule: active_locked.induct) auto

text \<open>
  Available capital. When lockup amounts are positive (the service and the table
  demand it) the capital available now is never negative, never more than the cash, exactly
  the cash less the active lockups when those fit in it, and it never shrinks as time
  passes; every lockup the service reports as active is counted, in any order.
\<close>

theorem available_capital_bounds:
  assumes "\<forall>l \<in> set ls. 0 < lk_amount l" and "now \<le> later"
  shows "0 \<le> AvailableCapital cash ls now \<and>
         AvailableCapital cash ls now \<le> max 0 cash \<and>
         AvailableCapital cash ls now = max 0 (cash - (\<Sum>l\<leftarrow>filter (\<lambda>l. IsActive l now) ls. lk_amount l)) \<and>
         AvailableCapital cash ls now \<le> AvailableCapital cash ls later"
proof -
  let ?act = "\<lambda>t. \<Sum>l\<leftarrow>filter (\<lambda>l. IsActive l t) ls. lk_amount l"
  have eq: "AvailableCapital cash ls t = max 0 (cash - ?act t)" for t
    by (simp add: AvailableCapital_def active_locked_sum Let_def max_def)
  have "0 \<le> ?act now" using assms(1) by (intro sum_list_nonneg) (auto intro: less_imp_le)
  moreover have "?act later \<le> ?act now"
    using assms by (induction ls) (auto simp: IsActive_def intro: add_mono)
  ultimately show ?thesis unfolding eq by (auto simp: max_def)
qed

theorem available_capital_bounds_witness:
  "let ls = [\<lparr>lk_id = 1, lk_vault_id = 1, lk_amount = 30, lk_unlock_at = 50, lk_note = [], lk_created_at = 0\<rparr>]
   in AvailableCapital 100 ls 10 = 70 \<and> AvailableCapital 100 ls 10 \<le> AvailableCapital 100 ls 60"
proof -
  let ?ls = "[\<lparr>lk_id = 1, lk_vault_id = 1, lk_amount = 30, lk_unlock_at = 50, lk_note = [], lk_created_at = 0\<rparr>]"
  have "\<forall>l \<in> set ?ls. 0 < lk_amount l" "(10 :: time) \<le> 60" by simp_all
  from available_capital_bounds [OF this, of 100] show ?thesis
    by (simp add: IsActive_def)
qed

end
