(* ===== verification/PkgTypes.thy ===== *)
theory PkgTypes
  imports Decimals
begin

text \<open>
  The shared trading-domain types of \<open>pkg/types\<close>. A Go struct is a record whose fields
  carry a prefix for the struct. A Go string type with named constants is a datatype with
  one constructor per constant and a constructor for any other string the type admits.
\<close>

section \<open>Chains and assets (asset.go)\<close>

datatype chain_id =
    ChainHyperliquid | ChainSolana | ChainBittensor
  | ChainEthereum | ChainBase | ChainAvalanche | ChainBSC
  | ChainOther string

fun chain_str :: "chain_id \<Rightarrow> string" where
  "chain_str ChainHyperliquid = ''hyperliquid''"
| "chain_str ChainSolana = ''solana''"
| "chain_str ChainBittensor = ''bittensor''"
| "chain_str ChainEthereum = ''ethereum''"
| "chain_str ChainBase = ''base''"
| "chain_str ChainAvalanche = ''avalanche''"
| "chain_str ChainBSC = ''bsc''"
| "chain_str (ChainOther s) = s"

fun IsEVM :: "chain_id \<Rightarrow> bool" where
  "IsEVM ChainEthereum = True"
| "IsEVM ChainBase = True"
| "IsEVM ChainAvalanche = True"
| "IsEVM ChainBSC = True"
| "IsEVM _ = False"

definition IsSpotChain :: "chain_id \<Rightarrow> bool" where
  "IsSpotChain c \<longleftrightarrow> c = ChainSolana \<or> c = ChainBittensor \<or> IsEVM c"

record asset =
  as_symbol :: string
  as_chain :: chain_id
  as_mint :: string
  as_decimals :: int

definition zero_asset :: asset where
  "zero_asset = \<lparr>as_symbol = [], as_chain = ChainOther [], as_mint = [], as_decimals = 0\<rparr>"

definition asset_string :: "asset \<Rightarrow> string" where
  "asset_string a =
     (if as_symbol a = [] then ''?@'' @ chain_str (as_chain a)
      else as_symbol a @ ''@'' @ chain_str (as_chain a))"

definition asset_equal :: "asset \<Rightarrow> asset \<Rightarrow> bool" where
  "asset_equal a b \<longleftrightarrow> as_chain a = as_chain b \<and> as_mint a = as_mint b"

section \<open>Balances and funding (balance.go, funding.go)\<close>

record balance =
  bal_asset :: string
  bal_venue :: string
  bal_free :: decimal
  bal_locked :: decimal

definition balance_total :: "balance \<Rightarrow> decimal" where
  "balance_total b = bal_free b + bal_locked b"

record wallet_balance =
  wb_chain :: chain_id
  wb_address :: string
  wb_asset :: asset
  wb_amount :: decimal
  wb_updated_at :: time

record funding_rate =
  fr_time :: time
  fr_venue :: string
  fr_symbol :: string
  fr_rate :: decimal
  fr_interval :: duration
  fr_predicted_next :: decimal
  fr_mark_price :: decimal

definition Annualised :: "declib \<Rightarrow> funding_rate \<Rightarrow> decimal" where
  "Annualised L f =
     (if fr_interval f \<le> 0 then 0
      else fr_rate f * d_div L (of_int (24 * 365 * nano_hour)) (of_int (fr_interval f)))"

section \<open>Market data (market.go)\<close>

record tick =
  tk_time :: time
  tk_venue :: string
  tk_symbol :: string
  tk_bid :: decimal
  tk_ask :: decimal
  tk_last :: decimal
  tk_volume :: decimal

definition Mid :: "declib \<Rightarrow> tick \<Rightarrow> decimal" where
  "Mid L t = (if tk_bid t \<noteq> 0 \<and> tk_ask t \<noteq> 0 then d_div L (tk_bid t + tk_ask t) 2 else tk_last t)"

record book_level =
  bl_price :: decimal
  bl_size :: decimal

record book_snapshot =
  bk_time :: time
  bk_venue :: string
  bk_symbol :: string
  bk_bids :: "book_level list"
  bk_asks :: "book_level list"

record symbol_snap =
  ss_tick :: tick
  ss_book :: book_snapshot
  ss_funding :: funding_rate

record market_snapshot =
  ms_time :: time
  ms_symbols :: "(string \<times> symbol_snap) list"

definition zero_tick :: tick where
  "zero_tick = \<lparr>tk_time = zero_time, tk_venue = [], tk_symbol = [], tk_bid = 0, tk_ask = 0,
     tk_last = 0, tk_volume = 0\<rparr>"

definition zero_book :: book_snapshot where
  "zero_book = \<lparr>bk_time = zero_time, bk_venue = [], bk_symbol = [], bk_bids = [], bk_asks = []\<rparr>"

definition zero_funding :: funding_rate where
  "zero_funding = \<lparr>fr_time = zero_time, fr_venue = [], fr_symbol = [], fr_rate = 0,
     fr_interval = 0, fr_predicted_next = 0, fr_mark_price = 0\<rparr>"

section \<open>Orders (order.go)\<close>

datatype side = SideBuy | SideSell | SideOther string

fun side_str :: "side \<Rightarrow> string" where
  "side_str SideBuy = ''buy''"
| "side_str SideSell = ''sell''"
| "side_str (SideOther s) = s"

datatype order_type = OrderTypeLimit | OrderTypeMarket | OrderTypeOther string

fun order_type_str :: "order_type \<Rightarrow> string" where
  "order_type_str OrderTypeLimit = ''limit''"
| "order_type_str OrderTypeMarket = ''market''"
| "order_type_str (OrderTypeOther s) = s"

datatype time_in_force = TIFGTC | TIFIOC | TIFFOK | TIFALO | TIFOther string

fun tif_str :: "time_in_force \<Rightarrow> string" where
  "tif_str TIFGTC = ''gtc''"
| "tif_str TIFIOC = ''ioc''"
| "tif_str TIFFOK = ''fok''"
| "tif_str TIFALO = ''alo''"
| "tif_str (TIFOther s) = s"

record order_intent =
  oi_venue :: string
  oi_symbol :: string
  oi_side :: side
  oi_type :: order_type
  oi_price :: decimal
  oi_size :: decimal
  oi_tif :: time_in_force
  oi_reduce_only :: bool
  oi_client_id :: string
  oi_position_id :: string
  oi_decision_id :: string
  oi_slot :: nat
  oi_basis_key :: string
  oi_tag :: string

definition zero_order :: order_intent where
  "zero_order = \<lparr>oi_venue = [], oi_symbol = [], oi_side = SideOther [], oi_type = OrderTypeOther [],
     oi_price = 0, oi_size = 0, oi_tif = TIFOther [], oi_reduce_only = False, oi_client_id = [],
     oi_position_id = [], oi_decision_id = [], oi_slot = 0, oi_basis_key = [], oi_tag = []\<rparr>"

definition Notional :: "order_intent \<Rightarrow> decimal" where
  "Notional o1 = \<bar>oi_price o1 * oi_size o1\<bar>"

datatype order_status =
  OrderStatusOpen | OrderStatusPartial | OrderStatusFilled | OrderStatusCancelled
| OrderStatusRejected | OrderStatusOther string

fun order_status_str :: "order_status \<Rightarrow> string" where
  "order_status_str OrderStatusOpen = ''open''"
| "order_status_str OrderStatusPartial = ''partial''"
| "order_status_str OrderStatusFilled = ''filled''"
| "order_status_str OrderStatusCancelled = ''cancelled''"
| "order_status_str OrderStatusRejected = ''rejected''"
| "order_status_str (OrderStatusOther s) = s"

record order_ack =
  oa_id :: string
  oa_client_id :: string
  oa_accepted_at :: time
  oa_status :: order_status
  oa_filled :: decimal
  oa_remaining :: decimal
  oa_avg_price :: decimal

text \<open>
  The client id: a prefix and 24 hex digits of SHA-256 of the fields joined by bars. The
  hash is the argument \<open>hexsum\<close>, which gives the hex text of the digest.
\<close>

definition client_id_preimage ::
  "declib \<Rightarrow> string \<Rightarrow> string \<Rightarrow> nat \<Rightarrow> string \<Rightarrow> string \<Rightarrow> side \<Rightarrow> decimal \<Rightarrow> string" where
  "client_id_preimage L agent dec slot venue symbol sd sz =
     agent @ ''|'' @ dec @ ''|'' @ nat_str slot @ ''|'' @ venue @ ''|'' @ symbol @ ''|''
       @ side_str sd @ ''|'' @ d_str L sz"

definition DeriveClientID ::
  "declib \<Rightarrow> (string \<Rightarrow> string) \<Rightarrow> string \<Rightarrow> string \<Rightarrow> nat \<Rightarrow> string \<Rightarrow> string \<Rightarrow> side \<Rightarrow> decimal \<Rightarrow> string"
where
  "DeriveClientID L hexsum agent dec slot venue symbol sd sz =
     ''pf_'' @ take 24 (hexsum (client_id_preimage L agent dec slot venue symbol sd sz))"

section \<open>Positions (position.go)\<close>

record position =
  po_venue :: string
  po_symbol :: string
  po_qty :: decimal
  po_entry_price :: decimal
  po_mark_price :: decimal
  po_liq_price :: decimal
  po_leverage :: decimal
  po_margin :: decimal
  po_upnl :: decimal
  po_rpnl :: decimal
  po_updated_at :: time

definition zero_position :: position where
  "zero_position = \<lparr>po_venue = [], po_symbol = [], po_qty = 0, po_entry_price = 0,
     po_mark_price = 0, po_liq_price = 0, po_leverage = 0, po_margin = 0, po_upnl = 0,
     po_rpnl = 0, po_updated_at = zero_time\<rparr>"

definition IsLong :: "position \<Rightarrow> bool" where
  "IsLong p \<longleftrightarrow> 0 < po_qty p"

definition IsShort :: "position \<Rightarrow> bool" where
  "IsShort p \<longleftrightarrow> po_qty p < 0"

definition IsFlat :: "position \<Rightarrow> bool" where
  "IsFlat p \<longleftrightarrow> po_qty p = 0"

datatype basis_state =
  BasisOpening | BasisOpen | BasisClosing | BasisBroken | BasisClosed | BasisStateOther string

datatype basis_leg_kind = BasisLegSpot | BasisLegPerp | BasisLegOther string

record basis_leg =
  lg_kind :: basis_leg_kind
  lg_asset :: asset
  lg_symbol :: string
  lg_qty :: decimal
  lg_avg_price :: decimal

definition zero_leg :: basis_leg where
  "zero_leg = \<lparr>lg_kind = BasisLegOther [], lg_asset = zero_asset, lg_symbol = [], lg_qty = 0,
     lg_avg_price = 0\<rparr>"

record basis_position =
  bp_id :: string
  bp_agent_id :: string
  bp_underlying :: string
  bp_state :: basis_state
  bp_legs :: "basis_leg list"
  bp_opened_at :: time
  bp_closed_at :: "time option"
  bp_realized_funding :: decimal
  bp_realized_basis_pnl :: decimal
  bp_realized_fees :: decimal
  bp_realized_gas :: decimal

definition zero_basis :: basis_position where
  "zero_basis = \<lparr>bp_id = [], bp_agent_id = [], bp_underlying = [], bp_state = BasisStateOther [],
     bp_legs = [], bp_opened_at = zero_time, bp_closed_at = None, bp_realized_funding = 0,
     bp_realized_basis_pnl = 0, bp_realized_fees = 0, bp_realized_gas = 0\<rparr>"

definition NetPnL :: "basis_position \<Rightarrow> decimal" where
  "NetPnL b = bp_realized_funding b + bp_realized_basis_pnl b - bp_realized_fees b - bp_realized_gas b"

section \<open>Risk types (risk.go)\<close>

record risk_limits =
  max_notional_per_leg :: decimal
  max_total_basis_exposure :: decimal
  max_swaps_per_min :: int
  max_orders_per_min :: int
  max_daily_loss :: decimal
  max_spot_slippage_bps :: int
  max_entry_basis_bps :: int
  max_concurrent_positions :: int

definition zero_limits :: risk_limits where
  "zero_limits = \<lparr>max_notional_per_leg = 0, max_total_basis_exposure = 0, max_swaps_per_min = 0,
     max_orders_per_min = 0, max_daily_loss = 0, max_spot_slippage_bps = 0,
     max_entry_basis_bps = 0, max_concurrent_positions = 0\<rparr>"

datatype verdict_kind = VerdictAllow | VerdictWarn | VerdictBlock

record verdict =
  v_kind :: verdict_kind
  v_reason :: string
  v_detail :: string

definition IsBlock :: "verdict \<Rightarrow> bool" where
  "IsBlock v \<longleftrightarrow> v_kind v = VerdictBlock"

record portfolio_snapshot =
  ps_time :: time
  ps_nav :: decimal
  ps_high_water_mark :: decimal
  ps_daily_pnl :: decimal
  ps_open_basis :: "basis_position list"
  ps_perp_positions :: "position list"
  ps_wallet_balances :: "wallet_balance list"
  ps_venue_balances :: "balance list"

text \<open>The inner loop of \<open>TotalBasisExposure\<close> adds the first perp leg and breaks.\<close>

fun add_perp_leg :: "decimal \<Rightarrow> basis_leg list \<Rightarrow> decimal" where
  "add_perp_leg acc [] = acc"
| "add_perp_leg acc (l # ls) =
     (if lg_kind l = BasisLegPerp then acc + \<bar>lg_avg_price l * lg_qty l\<bar>
      else add_perp_leg acc ls)"

definition TotalBasisExposure :: "portfolio_snapshot \<Rightarrow> decimal" where
  "TotalBasisExposure s = foldl (\<lambda>acc p. add_perp_leg acc (bp_legs p)) 0 (ps_open_basis s)"

definition perp_notional :: "basis_position \<Rightarrow> decimal" where
  "perp_notional p = add_perp_leg 0 (bp_legs p)"

lemma add_perp_leg_shift: "add_perp_leg t ls = t + add_perp_leg 0 ls"
  by (induction ls) auto

lemma perp_notional_nonneg: "0 \<le> perp_notional p"
proof -
  have "0 \<le> add_perp_leg 0 ls" for ls by (induction ls) auto
  then show ?thesis by (simp add: perp_notional_def)
qed

lemma foldl_exposure:
  "foldl (\<lambda>acc p. add_perp_leg acc (bp_legs p)) t ps = t + (\<Sum>p\<leftarrow>ps. perp_notional p)"
proof (induction ps arbitrary: t)
  case (Cons p ps)
  then show ?case using add_perp_leg_shift [of t "bp_legs p"]
    by (simp add: perp_notional_def)
qed simp

lemma TotalBasisExposure_sum: "TotalBasisExposure s = (\<Sum>p\<leftarrow>ps_open_basis s. perp_notional p)"
  by (simp add: TotalBasisExposure_def foldl_exposure)

lemma TotalBasisExposure_perm:
  "mset (ps_open_basis s) = mset (ps_open_basis t) \<Longrightarrow> TotalBasisExposure s = TotalBasisExposure t"
  unfolding TotalBasisExposure_sum
  by (metis mset_map sum_mset_sum_list)

section \<open>Swaps (swap.go)\<close>

datatype quote_mode = QuoteExactIn | QuoteExactOut

record quote_request =
  qr_in_token :: asset
  qr_out_token :: asset
  qr_amount :: decimal
  qr_mode :: quote_mode

record quote =
  q_in_token :: asset
  q_out_token :: asset
  q_in_amount :: decimal
  q_out_amount :: decimal
  q_price_impact :: decimal
  q_route :: string
  q_expires_at :: time
  q_raw :: string

record swap_intent =
  si_chain :: chain_id
  si_in_token :: asset
  si_out_token :: asset
  si_in_amount :: decimal
  si_min_out_amount :: decimal
  si_slippage_bps :: int
  si_client_id :: string
  si_position_id :: string
  si_decision_id :: string
  si_slot :: nat
  si_basis_key :: string
  si_tag :: string

definition zero_swap :: swap_intent where
  "zero_swap = \<lparr>si_chain = ChainOther [], si_in_token = zero_asset, si_out_token = zero_asset,
     si_in_amount = 0, si_min_out_amount = 0, si_slippage_bps = 0, si_client_id = [],
     si_position_id = [], si_decision_id = [], si_slot = 0, si_basis_key = [], si_tag = []\<rparr>"

datatype swap_status = SwapStatusPending | SwapStatusConfirmed | SwapStatusFailed

fun swap_status_str :: "swap_status \<Rightarrow> string" where
  "swap_status_str SwapStatusPending = ''pending''"
| "swap_status_str SwapStatusConfirmed = ''confirmed''"
| "swap_status_str SwapStatusFailed = ''failed''"

record swap_result =
  sr_tx_hash :: string
  sr_status :: swap_status
  sr_slot :: nat
  sr_block_time :: time
  sr_in_amount :: decimal
  sr_out_amount :: decimal
  sr_gas_native :: decimal
  sr_gas_usd :: decimal
  sr_error :: string

end
