(* ===== verification/Venues.thy ===== *)
theory Venues
  imports PkgTypes
begin

text \<open>
  The venue interfaces (\<open>internal/exchange/exchange.go\<close>, \<open>internal/swap/swap.go\<close>), the strategy
  contract (\<open>pkg/strategy/strategy.go\<close>) and the no-op venues. Everything outside the
  process (venue state, the clock) is a world of type \<open>'w\<close> that every call may change; a
  method of the Go interface is a function of its arguments and the world.
\<close>

section \<open>Order-book venues (exchange.go)\<close>

record open_order =
  oo_id :: string
  oo_symbol :: string
  oo_side :: side

record 'w perp_venue =
  pv_name :: string
  pv_place :: "order_intent \<Rightarrow> 'w \<Rightarrow> (go_error + order_ack) \<times> 'w"
  pv_cancel :: "string \<Rightarrow> 'w \<Rightarrow> go_error option \<times> 'w"
  pv_open_orders :: "'w \<Rightarrow> (go_error + open_order list) \<times> 'w"
  pv_positions :: "'w \<Rightarrow> (go_error + position list) \<times> 'w"
  pv_balances :: "'w \<Rightarrow> (go_error + balance list) \<times> 'w"
  pv_funding_rates :: "string list \<Rightarrow> 'w \<Rightarrow> (go_error + funding_rate list) \<times> 'w"

section \<open>Swap venues (swap.go)\<close>

text \<open>
  \<open>sv_market_snapshot\<close> is the optional extension interface the runtime looks for with a type
  assertion.
\<close>

record 'w swap_venue =
  sv_name :: string
  sv_chain :: chain_id
  sv_quote :: "quote_request \<Rightarrow> 'w \<Rightarrow> (go_error + quote) \<times> 'w"
  sv_swap :: "quote \<Rightarrow> int \<Rightarrow> 'w \<Rightarrow> (go_error + string) \<times> 'w"
  sv_wait_confirm :: "string \<Rightarrow> 'w \<Rightarrow> (go_error + swap_result) \<times> 'w"
  sv_balance :: "asset \<Rightarrow> 'w \<Rightarrow> (go_error + decimal) \<times> 'w"
  sv_market_snapshot ::
    "(string list \<Rightarrow> 'w \<Rightarrow> (go_error + (string \<times> symbol_snap) list) \<times> 'w) option"

definition ErrQuoteExpired :: go_error where
  "ErrQuoteExpired = Sentinel ''swap: quote expired''"

definition ErrInsufficientBalance :: go_error where
  "ErrInsufficientBalance = Sentinel ''swap: insufficient balance''"

section \<open>The strategy contract (strategy.go)\<close>

text \<open>
  \<open>Signals\<close>, which nothing in the repository fills, is left out of the input. The cash map is
  keyed by location.
\<close>

record decision_input =
  di_agent_id :: string
  di_now :: time
  di_market :: market_snapshot
  di_perp_positions :: "position list"
  di_spot_balances :: "wallet_balance list"
  di_basis_positions :: "basis_position list"
  di_cash :: "(string \<times> balance) list"
  di_limits :: risk_limits

record decision =
  dc_orders :: "order_intent list"
  dc_swaps :: "swap_intent list"
  dc_cancels :: "string list"
  dc_notes :: string
  dc_confidence :: float64

definition zero_decision :: decision where
  "zero_decision = \<lparr>dc_orders = [], dc_swaps = [], dc_cancels = [], dc_notes = [], dc_confidence = 0\<rparr>"

definition HasIntents :: "decision \<Rightarrow> bool" where
  "HasIntents d \<longleftrightarrow> dc_orders d \<noteq> [] \<or> dc_swaps d \<noteq> [] \<or> dc_cancels d \<noteq> []"

section \<open>The no-op venues (exchange/noop/noop.go, swap/noop/noop.go)\<close>

text \<open>The world of the no-op venues: what they recorded, and the clock.\<close>

record noop_world =
  nw_placed :: "order_intent list"
  nw_cancels :: "string list"
  nw_open_orders :: "open_order list"
  nw_swaps :: "quote list"
  nw_now :: time

definition noop_Place :: "order_intent \<Rightarrow> noop_world \<Rightarrow> (go_error + order_ack) \<times> noop_world" where
  "noop_Place i w =
     (Inr \<lparr>oa_id = ''noop-'' @ oi_client_id i, oa_client_id = oi_client_id i, oa_accepted_at = nw_now w,
           oa_status = OrderStatusOpen, oa_filled = 0, oa_remaining = oi_size i, oa_avg_price = 0\<rparr>,
      w\<lparr>nw_placed := nw_placed w @ [i]\<rparr>)"

definition noop_Cancel :: "string \<Rightarrow> noop_world \<Rightarrow> go_error option \<times> noop_world" where
  "noop_Cancel i w = (None, w\<lparr>nw_cancels := nw_cancels w @ [i]\<rparr>)"

definition SetOpenOrders :: "open_order list \<Rightarrow> noop_world \<Rightarrow> noop_world" where
  "SetOpenOrders os w = w\<lparr>nw_open_orders := os\<rparr>"

definition noop_venue :: "noop_world perp_venue" where
  "noop_venue = \<lparr>pv_name = ''noop'', pv_place = noop_Place, pv_cancel = noop_Cancel,
     pv_open_orders = (\<lambda>w. (Inr (nw_open_orders w), w)), pv_positions = (\<lambda>w. (Inr [], w)),
     pv_balances = (\<lambda>w. (Inr [], w)), pv_funding_rates = (\<lambda>_ w. (Inr [], w))\<rparr>"

definition noop_Quote :: "quote_request \<Rightarrow> noop_world \<Rightarrow> (go_error + quote) \<times> noop_world" where
  "noop_Quote q w =
     (Inr \<lparr>q_in_token = qr_in_token q, q_out_token = qr_out_token q, q_in_amount = qr_amount q,
           q_out_amount = qr_amount q, q_price_impact = 0, q_route = ''noop'',
           q_expires_at = nw_now w + 30 * nano_second, q_raw = []\<rparr>, w)"

definition noop_Swap :: "quote \<Rightarrow> int \<Rightarrow> noop_world \<Rightarrow> (go_error + string) \<times> noop_world" where
  "noop_Swap q slippage w = (Inr ''noop-tx'', w\<lparr>nw_swaps := nw_swaps w @ [q]\<rparr>)"

definition noop_WaitConfirm :: "string \<Rightarrow> noop_world \<Rightarrow> (go_error + swap_result) \<times> noop_world" where
  "noop_WaitConfirm tx w =
     (Inr \<lparr>sr_tx_hash = tx, sr_status = SwapStatusConfirmed, sr_slot = 0, sr_block_time = nw_now w,
           sr_in_amount = 0, sr_out_amount = 0, sr_gas_native = 0, sr_gas_usd = 0, sr_error = []\<rparr>, w)"

definition noop_swap_venue :: "noop_world swap_venue" where
  "noop_swap_venue = \<lparr>sv_name = ''noop'', sv_chain = ChainOther ''noop'', sv_quote = noop_Quote,
     sv_swap = noop_Swap, sv_wait_confirm = noop_WaitConfirm, sv_balance = (\<lambda>_ w. (Inr 0, w)),
     sv_market_snapshot = None\<rparr>"

end
