(* ===== verification/Reconcile.thy ===== *)
theory Reconcile
  imports Venues
begin

text \<open>
  \<open>internal/reconcile/reconcile.go\<close>: comparing the persisted basis positions with what the
  venues report. Severities are ordered by how loud they are.
\<close>

section \<open>Severities\<close>

datatype severity = SeverityInfo | SeverityWarning | SeverityCritical

fun severity_rank :: "severity \<Rightarrow> nat" where
  "severity_rank SeverityInfo = 0"
| "severity_rank SeverityWarning = 1"
| "severity_rank SeverityCritical = 2"

lemma severity_rank_inj: "severity_rank x = severity_rank y \<Longrightarrow> x = y"
  by (cases x; cases y) auto

instantiation severity :: linorder
begin

definition less_eq_severity :: "severity \<Rightarrow> severity \<Rightarrow> bool" where
  "less_eq_severity x y \<longleftrightarrow> severity_rank x \<le> severity_rank y"

definition less_severity :: "severity \<Rightarrow> severity \<Rightarrow> bool" where
  "less_severity x y \<longleftrightarrow> severity_rank x < severity_rank y"

instance
  by standard (auto simp: less_eq_severity_def less_severity_def intro: severity_rank_inj)

end

lemma severity_bot [simp]: "SeverityInfo \<le> s"
  by (simp add: less_eq_severity_def)

lemma severity_top_iff [simp]: "SeverityCritical \<le> s \<longleftrightarrow> s = SeverityCritical"
  by (cases s) (simp_all add: less_eq_severity_def)

lemma severity_issue_iff: "s \<noteq> SeverityInfo \<longleftrightarrow> SeverityInfo < s"
  by (cases s) (simp_all add: less_severity_def)

section \<open>Drifts and reports\<close>

record drift =
  dt_agent_id :: string
  dt_basis_key :: string
  dt_underlying :: string
  dt_leg :: string
  dt_field :: string
  dt_expected :: decimal
  dt_actual :: decimal
  dt_diff :: decimal
  dt_severity :: severity
  dt_note :: string

record report =
  rp_generated_at :: time
  rp_agents_count :: nat
  rp_open_basis :: nat
  rp_ok :: nat
  rp_drifts :: "drift list"

definition HasIssues :: "report \<Rightarrow> bool" where
  "HasIssues r \<longleftrightarrow> list_ex (\<lambda>d. dt_severity d \<noteq> SeverityInfo) (rp_drifts r)"

definition hasIssue :: "drift list \<Rightarrow> bool" where
  "hasIssue ds \<longleftrightarrow> list_ex (\<lambda>d. dt_severity d \<noteq> SeverityInfo) ds"

record 'w reconcile_engine =
  rc_perp :: "'w perp_venue option"
  rc_swaps :: "(chain_id \<times> 'w swap_venue) list"
  rc_tolerance_bps :: int

definition NewReconcile ::
  "'w perp_venue option \<Rightarrow> (chain_id \<times> 'w swap_venue) list \<Rightarrow> 'w reconcile_engine" where
  "NewReconcile perp swaps = \<lparr>rc_perp = perp, rc_swaps = swaps, rc_tolerance_bps = 25\<rparr>"

section \<open>Helpers\<close>

fun rec_legs :: "(basis_leg \<times> bool) \<times> (basis_leg \<times> bool) \<Rightarrow> basis_leg list
    \<Rightarrow> (basis_leg \<times> bool) \<times> (basis_leg \<times> bool)" where
  "rec_legs acc [] = acc"
| "rec_legs (spot, perp) (l # ls) =
     (case lg_kind l of
        BasisLegSpot \<Rightarrow> rec_legs ((l, True), perp) ls
      | BasisLegPerp \<Rightarrow> rec_legs (spot, (l, True)) ls
      | BasisLegOther _ \<Rightarrow> rec_legs (spot, perp) ls)"

definition rec_splitLegs :: "basis_leg list \<Rightarrow> basis_leg \<times> basis_leg \<times> bool" where
  "rec_splitLegs legs =
     (case rec_legs ((zero_leg, False), (zero_leg, False)) legs of
        ((spot, got_spot), (perp, got_perp)) \<Rightarrow> (spot, perp, got_spot \<and> got_perp))"

text \<open>\<open>int(rounded.IntPart())\<close> keeps the low 64 bits.\<close>

definition relativeBps :: "declib \<Rightarrow> decimal \<Rightarrow> decimal \<Rightarrow> int" where
  "relativeBps L diff expected =
     (if expected = 0 then 0 else wrap64 (d_round L (d_div L (diff * 10000) \<bar>expected\<bar>)))"

definition severityForRel :: "int \<Rightarrow> severity" where
  "severityForRel rel = (if 100 < rel then SeverityCritical else SeverityWarning)"

definition isOppositeSide :: "decimal \<Rightarrow> decimal \<Rightarrow> bool" where
  "isOppositeSide expected actual \<longleftrightarrow>
     expected \<noteq> 0 \<and> actual \<noteq> 0 \<and> sgn expected \<noteq> sgn actual"

definition ChainName :: "chain_id \<Rightarrow> string" where
  "ChainName c = to_upper (chain_str c)"

section \<open>One position\<close>

definition base_drift :: "string \<Rightarrow> basis_position \<Rightarrow> string \<Rightarrow> string \<Rightarrow> severity \<Rightarrow> string \<Rightarrow> drift" where
  "base_drift agent_id p leg field sev note =
     \<lparr>dt_agent_id = agent_id, dt_basis_key = bp_underlying p, dt_underlying = bp_underlying p,
      dt_leg = leg, dt_field = field, dt_expected = 0, dt_actual = 0, dt_diff = 0,
      dt_severity = sev, dt_note = note\<rparr>"

definition perp_drifts ::
  "declib \<Rightarrow> int \<Rightarrow> string \<Rightarrow> basis_position \<Rightarrow> basis_leg \<Rightarrow> (string \<times> position) list \<Rightarrow> bool \<Rightarrow> drift list" where
  "perp_drifts L tol agent_id p perp perps available =
     (if \<not> available then
        [base_drift agent_id p ''perp'' ''exists'' SeverityInfo ''no Perp venue configured; could not verify'']
      else case map_of perps (lg_symbol perp) of
          None \<Rightarrow>
            [(base_drift agent_id p ''perp'' ''exists'' SeverityCritical
               (''DB says short '' @ d_str L (lg_qty perp) @ '' '' @ lg_symbol perp
                  @ '' '' @ em_dash @ '' venue reports no position''))\<lparr>dt_expected := - lg_qty perp\<rparr>]
        | Some hp \<Rightarrow>
           (let expected = - lg_qty perp; actual = po_qty hp;
                diff = \<bar>actual - expected\<bar>; rel = relativeBps L diff \<bar>expected\<bar>
            in if isOppositeSide expected actual then
                 [(base_drift agent_id p ''perp'' ''side'' SeverityCritical
                    (''venue reports opposite side '' @ em_dash @ '' strategy may have flipped position''))
                    \<lparr>dt_expected := expected, dt_actual := actual, dt_diff := diff\<rparr>]
               else if 0 < tol \<and> tol < rel then
                 [(base_drift agent_id p ''perp'' ''qty'' (severityForRel rel)
                    (''perp size mismatch: '' @ int_str rel @ ''bps vs '' @ int_str tol @ ''bps tolerance''))
                    \<lparr>dt_expected := expected, dt_actual := actual, dt_diff := diff\<rparr>]
               else []))"

definition spot_drifts ::
  "declib \<Rightarrow> 'w reconcile_engine \<Rightarrow> string \<Rightarrow> basis_position \<Rightarrow> basis_leg \<Rightarrow> basis_leg \<Rightarrow> 'w \<Rightarrow> drift list \<times> 'w" where
  "spot_drifts L e agent_id p spot perp w =
     (case map_of (rc_swaps e) (as_chain (lg_asset spot)) of
        None \<Rightarrow>
          ([base_drift agent_id p ''spot'' ''exists'' SeverityInfo
             (''no SwapVenue configured for chain '' @ chain_str (as_chain (lg_asset spot))
                @ ''; could not verify'')], w)
      | Some v \<Rightarrow>
         (case sv_balance v (lg_asset spot) w of
            (Inl err, w') \<Rightarrow>
              ([base_drift agent_id p ''spot'' ''exists'' SeverityWarning
                 (''balance query failed: '' @ error_text err)], w')
          | (Inr bal, w') \<Rightarrow>
             (let expected = lg_qty perp
              in if bal = 0 \<and> 0 < expected then
                   ([(base_drift agent_id p ''spot'' ''exists'' SeverityCritical
                       (''DB says we hold '' @ d_str L expected @ '' '' @ as_symbol (lg_asset spot)
                          @ '' on '' @ chain_str (as_chain (lg_asset spot)) @ '' '' @ em_dash @ '' wallet reports zero''))
                       \<lparr>dt_expected := expected, dt_actual := bal\<rparr>], w')
                 else
                   let diff = \<bar>bal - expected\<bar>; rel = relativeBps L diff expected
                   in if bal < expected \<and> 0 < rc_tolerance_bps e \<and> rc_tolerance_bps e < rel then
                        ([(base_drift agent_id p ''spot'' ''qty'' (severityForRel rel)
                            (''wallet '' @ d_str L bal @ '' < expected '' @ d_str L expected @ '' on ''
                               @ chain_str (as_chain (lg_asset spot)) @ '' ('' @ int_str rel @ ''bps under)''))
                            \<lparr>dt_expected := expected, dt_actual := bal, dt_diff := diff\<rparr>], w')
                      else ([], w'))))"

definition reconcileOne ::
  "declib \<Rightarrow> 'w reconcile_engine \<Rightarrow> string \<Rightarrow> basis_position \<Rightarrow> (string \<times> position) list \<Rightarrow> bool
     \<Rightarrow> 'w \<Rightarrow> drift list \<times> 'w" where
  "reconcileOne L e agent_id p perps available w =
     (case rec_splitLegs (bp_legs p) of (spot, perp, ok) \<Rightarrow>
      if \<not> ok then
        ([base_drift agent_id p ''both'' ''exists'' SeverityCritical
           ''basis position has malformed legs JSON''], w)
      else
        let ds = perp_drifts L (rc_tolerance_bps e) agent_id p perp perps available;
            (ss, w') = spot_drifts L e agent_id p spot perp w
        in (ds @ ss, w'))"

section \<open>All positions of an agent\<close>

fun reconcile_all ::
  "declib \<Rightarrow> 'w reconcile_engine \<Rightarrow> string \<Rightarrow> (string \<times> position) list \<Rightarrow> bool
     \<Rightarrow> basis_position list \<Rightarrow> report \<Rightarrow> 'w \<Rightarrow> report \<times> 'w" where
  "reconcile_all L e agent_id perps available [] r w = (r, w)"
| "reconcile_all L e agent_id perps available (p # ps) r w =
     (let (ds, w') = reconcileOne L e agent_id p perps available w
      in reconcile_all L e agent_id perps available ps
           (r\<lparr>rp_ok := (if hasIssue ds then rp_ok r else Suc (rp_ok r)),
              rp_drifts := rp_drifts r @ ds\<rparr>) w')"

definition Reconcile ::
  "declib \<Rightarrow> time \<Rightarrow> 'w reconcile_engine \<Rightarrow> string \<Rightarrow> basis_position list \<Rightarrow> 'w
     \<Rightarrow> (go_error + report) \<times> 'w" where
  "Reconcile L now e agent_id open_ps w =
     (let (perps, available, w') = (case rc_perp e of
            None \<Rightarrow> ([], False, w)
          | Some v \<Rightarrow> (case pv_positions v w of
                (Inl _, w') \<Rightarrow> ([], False, w')
              | (Inr ps, w') \<Rightarrow> (foldl (\<lambda>m p. AList.update (po_symbol p) p m) [] ps, True, w')));
          (r, w'') = reconcile_all L e agent_id perps available open_ps
            \<lparr>rp_generated_at = now, rp_agents_count = 1, rp_open_basis = length open_ps, rp_ok = 0,
             rp_drifts = []\<rparr> w'
      in (Inr r, w''))"

section \<open>Lemmas\<close>

lemma hasIssue_append: "hasIssue (xs @ ys) \<longleftrightarrow> hasIssue xs \<or> hasIssue ys"
  by (simp add: hasIssue_def)

lemma base_drift_severity [simp]: "dt_severity (base_drift a p l f s n) = s"
  by (simp add: base_drift_def)

text \<open>The accounting of a run: positions without an issue are counted, all drifts are kept.\<close>

lemma reconcile_all_counts:
  "reconcile_all L e a perps av ps r w = (r', w') \<Longrightarrow>
     rp_open_basis r' = rp_open_basis r \<and>
     (\<exists>dss. length dss = length ps \<and> rp_drifts r' = rp_drifts r @ concat dss \<and>
        rp_ok r' = rp_ok r + length (filter (\<lambda>ds. \<not> hasIssue ds) dss))"
proof (induction ps arbitrary: r w)
  case Nil
  then show ?case by (auto intro!: exI [of _ "[]"])
next
  case (Cons p ps)
  obtain ds w1 where d: "reconcileOne L e a p perps av w = (ds, w1)" by fastforce
  let ?r = "r\<lparr>rp_ok := (if hasIssue ds then rp_ok r else Suc (rp_ok r)), rp_drifts := rp_drifts r @ ds\<rparr>"
  from Cons.prems d have "reconcile_all L e a perps av ps ?r w1 = (r', w')" by simp
  from Cons.IH [OF this] obtain dss where
    "length dss = length ps" "rp_drifts r' = rp_drifts ?r @ concat dss"
    "rp_ok r' = rp_ok ?r + length (filter (\<lambda>ds. \<not> hasIssue ds) dss)" "rp_open_basis r' = rp_open_basis ?r"
    by blast
  then show ?case by (intro conjI exI [of _ "ds # dss"]) simp_all
qed

lemma hasIssue_concat: "hasIssue (concat dss) \<longleftrightarrow> list_ex hasIssue dss"
  by (induction dss) (simp_all add: hasIssue_append, simp add: hasIssue_def)

lemma filter_length_all: "length (filter P xs) = length xs \<longleftrightarrow> list_all P xs"
  by (induction xs) (auto, metis Suc_n_not_le_n length_filter_le)

text \<open>Relative deviations in basis points.\<close>

lemma relativeBps_le:
  assumes "decimal_lib L" and "0 < y" and "0 \<le> x" and "x * 10000 / y \<le> of_int k" and "k < 2 ^ 63"
  shows "relativeBps L x y \<le> k"
proof -
  have "x * 10000 \<le> of_int k * y" using assms(2,4) by (simp add: divide_le_eq)
  then have "d_div L (x * 10000) y \<le> d_div L (of_int k * y) y"
    by (rule decimal_lib.div_mono [OF assms(1,2)])
  also have "\<dots> \<le> of_int k"
    using decimal_lib.div_near [OF assms(1), of y "of_int k * y"] decimal_lib.div_exact [OF assms(1), of y "of_int k * y"]
      assms(2) by simp
  finally have "d_round L (d_div L (x * 10000) y) \<le> k" by (rule decimal_lib.round_le [OF assms(1)])
  moreover have "0 \<le> d_round L (d_div L (x * 10000) y)"
    using decimal_lib.round_mono [OF assms(1), of 0 "d_div L (x * 10000) y"]
      decimal_lib.div_nonneg [OF assms(1), of "x * 10000" y] decimal_lib.round_zero [OF assms(1)] assms(2,3) by simp
  ultimately show ?thesis using assms(2,5) by (simp add: relativeBps_def wrap64_id)
qed

lemma relativeBps_ge:
  assumes "decimal_lib L" and "0 < y" and "0 \<le> x" and "of_int k \<le> x * 10000 / y"
    and "x * 10000 / y \<le> 2 ^ 62" and "0 \<le> k"
  shows "k \<le> relativeBps L x y"
proof -
  have "of_int k * y \<le> x * 10000" using assms(2,4) by (simp add: le_divide_eq)
  then have "d_div L (of_int k * y) y \<le> d_div L (x * 10000) y"
    by (rule decimal_lib.div_mono [OF assms(1,2)])
  moreover have "d_div L (of_int k * y) y = of_int k"
    using decimal_lib.div_exact [OF assms(1), of y "of_int k * y"] assms(2) by simp
  ultimately have lo: "k \<le> d_round L (d_div L (x * 10000) y)"
    using decimal_lib.round_mono [OF assms(1), of "of_int k" "d_div L (x * 10000) y"]
      decimal_lib.round_of_int [OF assms(1)] by simp
  have "x * 10000 \<le> of_int (2 ^ 62) * y" using assms(2,5) by (simp add: divide_le_eq)
  then have "d_div L (x * 10000) y \<le> d_div L (of_int (2 ^ 62) * y) y"
    by (rule decimal_lib.div_mono [OF assms(1,2)])
  also have "\<dots> = of_int (2 ^ 62)"
    using decimal_lib.div_exact [OF assms(1), of y "of_int (2 ^ 62) * y"] assms(2) by simp
  finally have "d_round L (d_div L (x * 10000) y) \<le> 2 ^ 62" by (rule decimal_lib.round_le [OF assms(1)])
  with lo assms(2,6) show ?thesis by (simp add: relativeBps_def wrap64_id)
qed

lemma opposite_of_short: "0 < q \<Longrightarrow> isOppositeSide (- q) a \<longleftrightarrow> 0 < (a :: decimal)"
  by (auto simp: isOppositeSide_def sgn_if)

lemma perp_drifts_short:
  assumes "0 < lg_qty perp" and "map_of perps (lg_symbol perp) = Some hp"
  shows "map dt_severity (perp_drifts L tol a p perp perps True) =
     (let rel = relativeBps L \<bar>po_qty hp + lg_qty perp\<bar> (lg_qty perp)
      in if 0 < po_qty hp then [SeverityCritical]
         else if 0 < tol \<and> tol < rel then [severityForRel rel] else [])"
  using assms by (simp add: perp_drifts_def Let_def opposite_of_short)

section \<open>Properties\<close>

text \<open>
  A reconciliation never fails, whatever the venues answer, and its report adds up: every
  open position is either counted as OK or has a warning or critical drift, and the report has
  issues exactly when fewer positions are OK than are open.
\<close>

theorem report_adds_up:
  "\<exists>r w'. Reconcile L now e a ps w = (Inr r, w') \<and> rp_open_basis r = length ps \<and>
     rp_ok r \<le> rp_open_basis r \<and> (HasIssues r \<longleftrightarrow> rp_ok r < rp_open_basis r)"
proof -
  obtain perps av w1 where v: "(case rc_perp e of
            None \<Rightarrow> ([], False, w)
          | Some v \<Rightarrow> (case pv_positions v w of
                (Inl _, w') \<Rightarrow> ([], False, w')
              | (Inr ps, w') \<Rightarrow> (foldl (\<lambda>m p. AList.update (po_symbol p) p m) [] ps, True, w'))) = (perps, av, w1)"
    by (cases "case rc_perp e of
            None \<Rightarrow> ([], False, w)
          | Some v \<Rightarrow> (case pv_positions v w of
                (Inl _, w') \<Rightarrow> ([], False, w')
              | (Inr ps, w') \<Rightarrow> (foldl (\<lambda>m p. AList.update (po_symbol p) p m) [] ps, True, w'))")
  let ?r0 = "\<lparr>rp_generated_at = now, rp_agents_count = 1, rp_open_basis = length ps, rp_ok = 0, rp_drifts = []\<rparr>"
  obtain r w2 where r: "reconcile_all L e a perps av ps ?r0 w1 = (r, w2)" by fastforce
  from reconcile_all_counts [OF r] obtain dss where d: "length dss = length ps" "rp_drifts r = concat dss"
    "rp_ok r = length (filter (\<lambda>ds. \<not> hasIssue ds) dss)" "rp_open_basis r = length ps"
    by auto
  have "rp_ok r = length dss \<longleftrightarrow> list_all (\<lambda>ds. \<not> hasIssue ds) dss"
    unfolding d(3) by (rule filter_length_all)
  moreover have "HasIssues r \<longleftrightarrow> list_ex hasIssue dss"
    using hasIssue_concat [of dss] by (simp add: HasIssues_def d(2) hasIssue_def)
  moreover have le: "rp_ok r \<le> length dss" unfolding d(3) by simp
  ultimately have "HasIssues r \<longleftrightarrow> rp_ok r < length ps"
    using d(1) by (auto simp: list_all_iff list_ex_iff order_less_le)
  then have "rp_open_basis r = length ps \<and> rp_ok r \<le> rp_open_basis r \<and> (HasIssues r \<longleftrightarrow> rp_ok r < rp_open_basis r)"
    using d(1,4) le by simp
  moreover have "Reconcile L now e a ps w = (Inr r, w2)" using r by (simp add: Reconcile_def v)
  ultimately show ?thesis by blast
qed

text \<open>
  How a perp mismatch is graded, with the default tolerance, for a short leg the venue
  reports: a long position is critical; a size within 25 basis points is silent; a deviation
  of 26 to 100 basis points is a warning; one of 101 or more (up to the point where the
  64-bit count wraps) is critical.
\<close>

theorem perp_mismatch_graded:
  assumes "decimal_lib L" and "0 < lg_qty perp" and "map_of perps (lg_symbol perp) = Some hp"
    and "dev = \<bar>po_qty hp + lg_qty perp\<bar> * 10000 / lg_qty perp"
  shows "(0 < po_qty hp \<longrightarrow> map dt_severity (perp_drifts L 25 a p perp perps True) = [SeverityCritical]) \<and>
    (po_qty hp \<le> 0 \<and> dev \<le> 25 \<longrightarrow> perp_drifts L 25 a p perp perps True = []) \<and>
    (po_qty hp \<le> 0 \<and> 26 \<le> dev \<and> dev \<le> 100 \<longrightarrow>
       map dt_severity (perp_drifts L 25 a p perp perps True) = [SeverityWarning]) \<and>
    (po_qty hp \<le> 0 \<and> 101 \<le> dev \<and> dev \<le> 2 ^ 62 \<longrightarrow>
       map dt_severity (perp_drifts L 25 a p perp perps True) = [SeverityCritical])"
proof -
  let ?x = "\<bar>po_qty hp + lg_qty perp\<bar>" and ?y = "lg_qty perp"
  note sev = perp_drifts_short [OF assms(2,3), of L 25 a p, unfolded Let_def]
  note le = relativeBps_le [OF assms(1,2), of ?x, unfolded assms(4) [symmetric]]
  note ge = relativeBps_ge [OF assms(1,2), of ?x, unfolded assms(4) [symmetric]]
  have a: "relativeBps L ?x ?y \<le> 25" if "dev \<le> 25" using le [of 25] that by simp
  have b: "26 \<le> relativeBps L ?x ?y \<and> relativeBps L ?x ?y \<le> 100" if "26 \<le> dev" "dev \<le> 100"
    using le [of 100] ge [of 26] that by simp
  have c: "101 \<le> relativeBps L ?x ?y" if "101 \<le> dev" "dev \<le> 2 ^ 62" using ge [of 101] that by simp
  have "map dt_severity (perp_drifts L 25 a p perp perps True) = [] \<Longrightarrow> perp_drifts L 25 a p perp perps True = []"
    by simp
  with sev a b c show ?thesis by (auto simp: severityForRel_def)
qed

definition short_leg :: basis_leg where
  "short_leg = zero_leg\<lparr>lg_kind := BasisLegPerp, lg_symbol := ''WIF'', lg_qty := 50\<rparr>"

theorem perp_mismatch_graded_witness:
  "map dt_severity (perp_drifts reference_declib 25 ''a1'' zero_basis short_leg
      [(''WIF'', zero_position\<lparr>po_qty := - 48\<rparr>)] True) = [SeverityCritical]"
  using perp_mismatch_graded [OF reference.decimal_lib_axioms, of short_leg
      "[(''WIF'', zero_position\<lparr>po_qty := - 48\<rparr>)]" "zero_position\<lparr>po_qty := - 48\<rparr>" 400 "''a1''" zero_basis]
  by (simp add: short_leg_def zero_leg_def zero_position_def)


definition hedged_basis :: basis_position where
  "hedged_basis = zero_basis\<lparr>bp_legs := [zero_leg\<lparr>lg_kind := BasisLegSpot,
      lg_asset := zero_asset\<lparr>as_chain := ChainSolana\<rparr>\<rparr>, short_leg]\<rparr>"

definition funded_venue :: "noop_world swap_venue" where
  "funded_venue = noop_swap_venue\<lparr>sv_balance := (\<lambda>_ w. (Inr 50, w))\<rparr>"


end
