(* ===== verification/Risk.thy ===== *)
theory Risk
  imports PkgTypes
begin

text \<open>
  \<open>internal/risk\<close>: the pre-trade policy (policy.go), the circuit breakers (breakers.go), the
  engine interface (risk.go) and the permissive engine (noop/noop.go). The interface is the
  record \<open>risk_ops\<close>; the locale \<open>capped_engine\<close> states the laws the agent runtime relies on,
  and both engines interpret it.
\<close>

section \<open>Verdict constructors and circuit breakers\<close>

definition risk_allow :: verdict where
  "risk_allow = \<lparr>v_kind = VerdictAllow, v_reason = [], v_detail = []\<rparr>"

definition risk_block :: "string \<Rightarrow> string \<Rightarrow> verdict" where
  "risk_block reason detail = \<lparr>v_kind = VerdictBlock, v_reason = reason, v_detail = detail\<rparr>"

definition risk_warn :: "string \<Rightarrow> string \<Rightarrow> verdict" where
  "risk_warn reason detail = \<lparr>v_kind = VerdictWarn, v_reason = reason, v_detail = detail\<rparr>"

lemmas verdict_defs = risk_allow_def risk_block_def risk_warn_def IsBlock_def

datatype circuit_breaker =
    MaxDrawdownBreaker decimal
  | DailyLossBreaker
  | FundingFlipBreaker "(string \<times> decimal) list"

fun breaker_name :: "circuit_breaker \<Rightarrow> string" where
  "breaker_name (MaxDrawdownBreaker _) = ''max_drawdown''"
| "breaker_name DailyLossBreaker = ''daily_loss''"
| "breaker_name (FundingFlipBreaker _) = ''funding_flip''"

definition check_drawdown :: "declib \<Rightarrow> decimal \<Rightarrow> decimal \<Rightarrow> verdict" where
  "check_drawdown L max_fraction dd =
     (if max_fraction = 0 then risk_allow
      else if max_fraction \<le> dd then
        risk_block ''max_drawdown''
          (''drawdown '' @ d_str L dd @ '' >= limit '' @ d_str L max_fraction)
      else if max_fraction * d_of_float L (8 / 10) \<le> dd then
        risk_warn ''max_drawdown''
          (''drawdown '' @ d_str L dd @ '' within 80% of halt threshold'')
      else risk_allow)"

definition check_daily_loss :: "declib \<Rightarrow> portfolio_snapshot \<Rightarrow> risk_limits \<Rightarrow> verdict" where
  "check_daily_loss L snap limits =
     (if max_daily_loss limits = 0 then risk_allow
      else let loss = - ps_daily_pnl snap in
        if max_daily_loss limits \<le> loss then
          risk_block ''daily_loss''
            (''today's loss '' @ d_str L loss @ '' >= limit '' @ d_str L (max_daily_loss limits))
        else risk_allow)"

fun check_funding_flip ::
  "declib \<Rightarrow> (string \<times> decimal) list \<Rightarrow> basis_position list \<Rightarrow> verdict" where
  "check_funding_flip L rates [] = risk_allow"
| "check_funding_flip L rates (p # ps) =
     (case map_of rates (bp_id p) of
        None \<Rightarrow> check_funding_flip L rates ps
      | Some rate \<Rightarrow>
          if rate < 0 then
            risk_warn ''funding_flip''
              (''position '' @ bp_id p @ '' funding='' @ d_str L rate @ '' is negative'')
          else check_funding_flip L rates ps)"

fun breaker_check ::
  "declib \<Rightarrow> circuit_breaker \<Rightarrow> portfolio_snapshot \<Rightarrow> risk_limits \<Rightarrow> decimal \<Rightarrow> verdict" where
  "breaker_check L (MaxDrawdownBreaker mf) snap limits dd = check_drawdown L mf dd"
| "breaker_check L DailyLossBreaker snap limits dd = check_daily_loss L snap limits"
| "breaker_check L (FundingFlipBreaker rates) snap limits dd =
     check_funding_flip L rates (ps_open_basis snap)"

section \<open>The policy engine (policy.go)\<close>

record policy =
  pl_limits :: risk_limits
  pl_breakers :: "circuit_breaker list"

definition NewPolicy :: "risk_limits \<Rightarrow> circuit_breaker list \<Rightarrow> policy" where
  "NewPolicy limits breakers = \<lparr>pl_limits = limits, pl_breakers = breakers\<rparr>"

definition WithBreaker :: "policy \<Rightarrow> circuit_breaker \<Rightarrow> policy" where
  "WithBreaker p b = p\<lparr>pl_breakers := pl_breakers p @ [b]\<rparr>"

datatype intent = IntentOrder order_intent | IntentSwap swap_intent | IntentUnknown

text \<open>A swap from USDC into another token opens a position.\<close>

definition isOpeningSwap :: "swap_intent \<Rightarrow> bool" where
  "isOpeningSwap s \<longleftrightarrow>
     as_symbol (si_in_token s) = ''USDC'' \<and> as_symbol (si_out_token s) \<noteq> ''USDC''"

definition cap_detail :: "portfolio_snapshot \<Rightarrow> risk_limits \<Rightarrow> string" where
  "cap_detail snap l =
     ''open='' @ nat_str (length (ps_open_basis snap)) @ '' limit=''
       @ int_str (max_concurrent_positions l)"

definition at_position_cap :: "risk_limits \<Rightarrow> portfolio_snapshot \<Rightarrow> bool" where
  "at_position_cap l snap \<longleftrightarrow>
     0 < max_concurrent_positions l \<and>
     max_concurrent_positions l \<le> int (length (ps_open_basis snap))"

definition checkOrder :: "declib \<Rightarrow> policy \<Rightarrow> order_intent \<Rightarrow> portfolio_snapshot \<Rightarrow> verdict" where
  "checkOrder L p o1 snap =
     (let l = pl_limits p;
          next_exposure = TotalBasisExposure snap + Notional o1
      in if max_notional_per_leg l \<noteq> 0 \<and> max_notional_per_leg l < Notional o1 then
           risk_block ''max_notional_per_leg''
             (''order notional '' @ d_str L (Notional o1) @ '' > limit ''
                @ d_str L (max_notional_per_leg l))
         else if oi_reduce_only o1 then risk_allow
         else if max_total_basis_exposure l \<noteq> 0 \<and> max_total_basis_exposure l < next_exposure then
           risk_block ''max_total_exposure''
             (''after-order exposure '' @ d_str L next_exposure @ '' > limit ''
                @ d_str L (max_total_basis_exposure l))
         else if at_position_cap l snap then
           risk_block ''max_concurrent_positions'' (cap_detail snap l)
         else risk_allow)"

definition checkSwap :: "declib \<Rightarrow> policy \<Rightarrow> swap_intent \<Rightarrow> portfolio_snapshot \<Rightarrow> verdict" where
  "checkSwap L p s snap =
     (let l = pl_limits p
      in if 0 < max_spot_slippage_bps l \<and> max_spot_slippage_bps l < si_slippage_bps s then
           risk_block ''max_spot_slippage_bps''
             (''requested '' @ int_str (si_slippage_bps s) @ ''bps > limit ''
                @ int_str (max_spot_slippage_bps l) @ ''bps'')
         else if max_notional_per_leg l \<noteq> 0 \<and> max_notional_per_leg l < si_in_amount s then
           risk_block ''max_notional_per_leg''
             (''swap in_amount '' @ d_str L (si_in_amount s) @ '' > limit ''
                @ d_str L (max_notional_per_leg l))
         else if isOpeningSwap s \<and> at_position_cap l snap then
           risk_block ''max_concurrent_positions'' (cap_detail snap l)
         else risk_allow)"

fun PreTrade :: "declib \<Rightarrow> policy \<Rightarrow> intent \<Rightarrow> portfolio_snapshot \<Rightarrow> verdict" where
  "PreTrade L p (IntentOrder o1) snap = checkOrder L p o1 snap"
| "PreTrade L p (IntentSwap s) snap = checkSwap L p s snap"
| "PreTrade L p IntentUnknown snap =
     \<lparr>v_kind = VerdictAllow, v_reason = ''unknown_intent_type'',
      v_detail = ''policy passes through unknown intents''\<rparr>"

definition drawdown :: "declib \<Rightarrow> portfolio_snapshot \<Rightarrow> decimal" where
  "drawdown L s =
     (if ps_high_water_mark s = 0 then 0
      else d_div L (ps_high_water_mark s - ps_nav s) (ps_high_water_mark s))"

fun walk_breakers ::
  "declib \<Rightarrow> risk_limits \<Rightarrow> portfolio_snapshot \<Rightarrow> decimal \<Rightarrow> circuit_breaker list \<Rightarrow> verdict" where
  "walk_breakers L limits snap dd [] = risk_allow"
| "walk_breakers L limits snap dd (b # bs) =
     (let v = breaker_check L b snap limits dd
      in if v_kind v \<noteq> VerdictAllow then v else walk_breakers L limits snap dd bs)"

definition Portfolio :: "declib \<Rightarrow> policy \<Rightarrow> portfolio_snapshot \<Rightarrow> verdict" where
  "Portfolio L p snap = walk_breakers L (pl_limits p) snap (drawdown L snap) (pl_breakers p)"

section \<open>Verdicts, branch by branch\<close>

lemma checkOrder_blocks_iff:
  "IsBlock (checkOrder L p o1 snap) \<longleftrightarrow>
     (max_notional_per_leg (pl_limits p) \<noteq> 0 \<and> max_notional_per_leg (pl_limits p) < Notional o1) \<or>
     (\<not> oi_reduce_only o1 \<and>
        ((max_total_basis_exposure (pl_limits p) \<noteq> 0 \<and>
          max_total_basis_exposure (pl_limits p) < TotalBasisExposure snap + Notional o1) \<or>
         at_position_cap (pl_limits p) snap))"
  by (auto simp: checkOrder_def Let_def verdict_defs)

lemma checkSwap_blocks_iff:
  "IsBlock (checkSwap L p s snap) \<longleftrightarrow>
     (0 < max_spot_slippage_bps (pl_limits p) \<and> max_spot_slippage_bps (pl_limits p) < si_slippage_bps s) \<or>
     (max_notional_per_leg (pl_limits p) \<noteq> 0 \<and> max_notional_per_leg (pl_limits p) < si_in_amount s) \<or>
     (isOpeningSwap s \<and> at_position_cap (pl_limits p) snap)"
  by (auto simp: checkSwap_def Let_def verdict_defs)

lemma checkSwap_closing: "\<not> isOpeningSwap sw \<Longrightarrow> checkSwap L p sw s = checkSwap L p sw t"
  by (simp only: checkSwap_def Let_def simp_thms if_False)

lemma PreTrade_never_warns: "v_kind (PreTrade L p i snap) \<noteq> VerdictWarn"
  by (cases i) (simp_all add: checkOrder_def checkSwap_def Let_def verdict_defs)

lemma at_position_cap_perm:
  "mset (ps_open_basis s) = mset (ps_open_basis t) \<Longrightarrow> at_position_cap l s = at_position_cap l t"
  by (metis at_position_cap_def mset_eq_length)

lemma cap_detail_perm:
  "mset (ps_open_basis s) = mset (ps_open_basis t) \<Longrightarrow> cap_detail s l = cap_detail t l"
  by (drule mset_eq_length) (simp only: cap_detail_def)

lemma PreTrade_perm:
  assumes "mset (ps_open_basis s) = mset (ps_open_basis t)"
  shows "PreTrade L p i s = PreTrade L p i t"
proof (cases i)
  case (IntentOrder o1)
  then show ?thesis
    by (simp only: PreTrade.simps checkOrder_def at_position_cap_perm [OF assms]
        cap_detail_perm [OF assms] TotalBasisExposure_perm [OF assms])
next
  case (IntentSwap sw)
  then show ?thesis
    by (simp only: PreTrade.simps checkSwap_def at_position_cap_perm [OF assms]
        cap_detail_perm [OF assms])
next
  case IntentUnknown
  then show ?thesis by (simp only: PreTrade.simps)
qed

lemma walk_breakers_append:
  "walk_breakers L l s dd (xs @ ys) =
     (let v = walk_breakers L l s dd xs
      in if v_kind v \<noteq> VerdictAllow then v else walk_breakers L l s dd ys)"
  by (induction xs) (simp_all add: Let_def risk_allow_def)

lemma walk_breakers_first:
  "walk_breakers L l s dd bs =
     (case dropWhile (\<lambda>b. v_kind (breaker_check L b s l dd) = VerdictAllow) bs of
        [] \<Rightarrow> risk_allow | b # _ \<Rightarrow> breaker_check L b s l dd)"
  by (induction bs) (simp_all add: Let_def)

lemma walk_breakers_blocks:
  "IsBlock (walk_breakers L l s dd bs) \<longleftrightarrow>
     (\<exists>xs b ys. bs = xs @ b # ys \<and> IsBlock (breaker_check L b s l dd) \<and>
        (\<forall>x \<in> set xs. v_kind (breaker_check L x s l dd) = VerdictAllow))"
    (is "?L \<longleftrightarrow> ?R")
proof
  let ?ok = "\<lambda>b. v_kind (breaker_check L b s l dd) = VerdictAllow"
  assume ?L
  then obtain b ys where d: "dropWhile ?ok bs = b # ys" and blk: "IsBlock (breaker_check L b s l dd)"
    by (auto simp: walk_breakers_first verdict_defs split: list.splits)
  have "takeWhile ?ok bs @ dropWhile ?ok bs = bs" by (rule takeWhile_dropWhile_id)
  then have "bs = takeWhile ?ok bs @ b # ys" unfolding d by (rule sym)
  moreover have "\<forall>x \<in> set (takeWhile ?ok bs). ?ok x" by (auto dest: set_takeWhileD)
  ultimately show ?R using blk by (intro exI conjI)
next
  assume ?R
  then obtain xs b ys where bs: "bs = xs @ b # ys" and blk: "IsBlock (breaker_check L b s l dd)"
    and ok: "\<forall>x \<in> set xs. v_kind (breaker_check L x s l dd) = VerdictAllow" by blast
  have "walk_breakers L l s dd xs = risk_allow" using ok by (induction xs) simp_all
  then show ?L using blk
    by (simp add: bs walk_breakers_append Let_def risk_allow_def IsBlock_def)
qed

section \<open>The engine interface and its interpretations (risk.go, noop.go)\<close>

record risk_ops =
  re_pre_trade :: "string \<Rightarrow> intent \<Rightarrow> portfolio_snapshot \<Rightarrow> verdict"
  re_portfolio :: "portfolio_snapshot \<Rightarrow> verdict"
  re_limits :: risk_limits

definition policy_engine :: "declib \<Rightarrow> policy \<Rightarrow> risk_ops" where
  "policy_engine L p = \<lparr>re_pre_trade = (\<lambda>_ i snap. PreTrade L p i snap),
     re_portfolio = Portfolio L p, re_limits = pl_limits p\<rparr>"

definition noop_engine :: risk_ops where
  "noop_engine = \<lparr>re_pre_trade = (\<lambda>_ _ _. \<lparr>v_kind = VerdictAllow, v_reason = [], v_detail = []\<rparr>),
     re_portfolio = (\<lambda>_. \<lparr>v_kind = VerdictAllow, v_reason = [], v_detail = []\<rparr>),
     re_limits = zero_limits\<rparr>"

text \<open>
  What the runtime and the kill switch rely on: an intent that opens a position passes only
  while the snapshot holds fewer positions than the configured cap, and the verdict does
  not depend on the order of the positions in the snapshot (a Go map iteration order).
\<close>

locale capped_engine =
  fixes R :: risk_ops
  assumes order_cap: "0 < max_concurrent_positions (re_limits R) \<Longrightarrow> \<not> oi_reduce_only o1 \<Longrightarrow>
      \<not> IsBlock (re_pre_trade R a (IntentOrder o1) s) \<Longrightarrow>
      int (length (ps_open_basis s)) < max_concurrent_positions (re_limits R)"
    and swap_cap: "0 < max_concurrent_positions (re_limits R) \<Longrightarrow> isOpeningSwap sw \<Longrightarrow>
      \<not> IsBlock (re_pre_trade R a (IntentSwap sw) s) \<Longrightarrow>
      int (length (ps_open_basis s)) < max_concurrent_positions (re_limits R)"
    and order_blind: "mset (ps_open_basis s) = mset (ps_open_basis t) \<Longrightarrow>
      re_pre_trade R a i s = re_pre_trade R a i t"
begin

lemma opening_intent_below_cap:
  assumes "0 < max_concurrent_positions (re_limits R)"
    and "\<not> IsBlock (re_pre_trade R a i s)"
    and "(\<exists>o1. i = IntentOrder o1 \<and> \<not> oi_reduce_only o1) \<or> (\<exists>sw. i = IntentSwap sw \<and> isOpeningSwap sw)"
  shows "int (Suc (length (ps_open_basis s))) \<le> max_concurrent_positions (re_limits R)"
  using assms order_cap swap_cap by fastforce

end

interpretation policy: capped_engine "policy_engine L p" for L p
proof (unfold_locales, goal_cases)
  case (1 o1 a s)
  then show ?case by (auto simp: policy_engine_def checkOrder_blocks_iff at_position_cap_def)
next
  case (2 sw a s)
  then show ?case by (auto simp: policy_engine_def checkSwap_blocks_iff at_position_cap_def)
next
  case (3 s t a i)
  then show ?case by (simp only: policy_engine_def risk_ops.simps) (rule PreTrade_perm)
qed

interpretation permissive: capped_engine noop_engine
proof (unfold_locales, goal_cases)
  case (1 o1 a s)
  then show ?case by (simp add: noop_engine_def zero_limits_def)
next
  case (2 sw a s)
  then show ?case by (simp add: noop_engine_def zero_limits_def)
next
  case (3 s t a i)
  show ?case by (simp only: noop_engine_def risk_ops.simps)
qed

section \<open>Properties\<close>

lemma exposure_mono:
  assumes "mset (ps_open_basis s) \<subseteq># mset (ps_open_basis t)"
  shows "TotalBasisExposure s \<le> TotalBasisExposure t"
proof -
  from assms obtain D where D: "mset (ps_open_basis t) = mset (ps_open_basis s) + D"
    by (auto simp: subset_mset.le_iff_add)
  obtain ds where ds: "D = mset ds" by (metis ex_mset)
  have "(\<Sum>p\<leftarrow>ps_open_basis t. perp_notional p) = (\<Sum>p\<leftarrow>ps_open_basis s @ ds. perp_notional p)"
    using D ds by (metis mset_append mset_map sum_mset_sum_list)
  moreover have "0 \<le> (\<Sum>p\<leftarrow>ds. perp_notional p)"
    by (rule sum_list_nonneg) (auto simp: perp_notional_nonneg)
  ultimately show ?thesis by (simp add: TotalBasisExposure_sum)
qed

text \<open>
  Pre-trade checks are monotone in the open positions: an intent that is blocked with
  some set of open (or in-flight) positions stays blocked when more positions are open, in
  whatever order they are listed. So counting an in-flight open twice, or listing the
  positions in another map iteration order, can only err towards blocking.
\<close>

theorem pretrade_monotone:
  assumes "mset (ps_open_basis s) \<subseteq># mset (ps_open_basis t)"
    and "IsBlock (PreTrade L p i s)"
  shows "IsBlock (PreTrade L p i t)"
proof -
  have len: "length (ps_open_basis s) \<le> length (ps_open_basis t)"
    using size_mset_mono [OF assms(1)] by simp
  have cap: "at_position_cap l s \<Longrightarrow> at_position_cap l t" for l
    using len by (auto simp: at_position_cap_def)
  show ?thesis
  proof (cases i)
    case (IntentOrder o1)
    with assms(2) cap exposure_mono [OF assms(1)] show ?thesis
      by (auto simp: checkOrder_blocks_iff)
  next
    case (IntentSwap sw)
    with assms(2) cap show ?thesis by (auto simp: checkSwap_blocks_iff)
  next
    case IntentUnknown
    with assms(2) show ?thesis by (simp add: verdict_defs)
  qed
qed

definition empty_snapshot :: portfolio_snapshot where
  "empty_snapshot = \<lparr>ps_time = 0, ps_nav = 0, ps_high_water_mark = 0, ps_daily_pnl = 0,
     ps_open_basis = [], ps_perp_positions = [], ps_wallet_balances = [], ps_venue_balances = []\<rparr>"

theorem pretrade_monotone_witness:
  "IsBlock (PreTrade reference_declib (NewPolicy (zero_limits\<lparr>max_concurrent_positions := 1\<rparr>) [])
      (IntentOrder zero_order) (empty_snapshot\<lparr>ps_open_basis := [zero_basis, zero_basis]\<rparr>))"
proof (rule pretrade_monotone)
  show "mset (ps_open_basis (empty_snapshot\<lparr>ps_open_basis := [zero_basis]\<rparr>))
      \<subseteq># mset (ps_open_basis (empty_snapshot\<lparr>ps_open_basis := [zero_basis, zero_basis]\<rparr>))"
    by simp
  show "IsBlock (PreTrade reference_declib (NewPolicy (zero_limits\<lparr>max_concurrent_positions := 1\<rparr>) [])
      (IntentOrder zero_order) (empty_snapshot\<lparr>ps_open_basis := [zero_basis]\<rparr>))"
    by (simp add: checkOrder_blocks_iff NewPolicy_def at_position_cap_def zero_limits_def zero_order_def)
qed

text \<open>
  A reduce-only order is never held back by the exposure ceiling or the position cap:
  it passes exactly when the per-leg notional limit allows it, whatever is open; and a
  market order, whose price is zero, always passes when it is reduce-only. A closing swap
  (anything but USDC to another token) is likewise independent of the open positions.
\<close>

theorem unwinding_never_capped:
  "(oi_reduce_only o1 \<longrightarrow>
      (IsBlock (PreTrade L p (IntentOrder o1) snap) \<longleftrightarrow>
         max_notional_per_leg (pl_limits p) \<noteq> 0 \<and> max_notional_per_leg (pl_limits p) < Notional o1)) \<and>
   (oi_reduce_only o1 \<and> oi_price o1 = 0 \<and> 0 \<le> max_notional_per_leg (pl_limits p) \<longrightarrow>
      \<not> IsBlock (PreTrade L p (IntentOrder o1) snap)) \<and>
   (\<not> isOpeningSwap sw \<longrightarrow>
      PreTrade L p (IntentSwap sw) snap = PreTrade L p (IntentSwap sw) snap')"
  unfolding PreTrade.simps checkOrder_blocks_iff
  by (intro conjI impI checkSwap_closing) (auto simp: Notional_def)

theorem unwinding_never_capped_witness:
  "\<not> IsBlock (PreTrade reference_declib
      (NewPolicy (zero_limits\<lparr>max_concurrent_positions := 1, max_notional_per_leg := 5\<rparr>) [])
      (IntentOrder (zero_order\<lparr>oi_reduce_only := True, oi_size := 10\<rparr>))
      (empty_snapshot\<lparr>ps_open_basis := [zero_basis, zero_basis]\<rparr>))"
  by (rule unwinding_never_capped [THEN conjunct2, THEN conjunct1, THEN mp])
    (simp add: zero_order_def NewPolicy_def zero_limits_def)

text \<open>
  The portfolio check blocks exactly when some configured circuit breaker blocks and
  every breaker configured before it allows. In particular a breaker that only warns hides
  the blocking verdict of a later one.
\<close>

theorem portfolio_blocks_iff_first:
  "IsBlock (Portfolio L p snap) \<longleftrightarrow>
     (\<exists>xs b ys. pl_breakers p = xs @ b # ys \<and>
        IsBlock (breaker_check L b snap (pl_limits p) (drawdown L snap)) \<and>
        list_all (\<lambda>x. v_kind (breaker_check L x snap (pl_limits p) (drawdown L snap)) = VerdictAllow) xs)"
  by (simp add: Portfolio_def walk_breakers_blocks list_all_iff)

text \<open>
  The masking happens with the breakers the agent builder installs (drawdown first,
  daily loss second): at a drawdown within the warning band, a daily loss beyond its limit
  yields a warning and not a block.
\<close>

theorem drawdown_warning_masks_daily_loss:
  "let p = NewPolicy (zero_limits\<lparr>max_daily_loss := 100\<rparr>) [MaxDrawdownBreaker (1 / 10), DailyLossBreaker];
       snap = empty_snapshot\<lparr>ps_high_water_mark := 1000, ps_nav := 915, ps_daily_pnl := - 150\<rparr>
   in v_kind (Portfolio reference_declib p snap) = VerdictWarn \<and>
      IsBlock (breaker_check reference_declib DailyLossBreaker snap (pl_limits p) (drawdown reference_declib snap))"
proof -
  have dd: "d_div reference_declib 85 1000 = 85 / 1000"
    by (rule reference.div_exact) simp_all
  have f: "d_of_float reference_declib x = x" for x by (simp add: reference_declib_def)
  show ?thesis
    by (simp add: Let_def NewPolicy_def Portfolio_def drawdown_def empty_snapshot_def dd f
        check_drawdown_def check_daily_loss_def zero_limits_def verdict_defs)
qed

text \<open>
  The drawdown breaker against the exact drawdown. With a positive high-water mark and
  a positive threshold, a loss of at least the threshold fraction plus the rounding error of
  one division halts the agent; a NAV at or above the high-water mark is always allowed;
  and a loss below eight tenths of the threshold, less the rounding error, is allowed.
\<close>

theorem drawdown_breaker_bounds:
  assumes "decimal_lib L" and "d_of_float L (8 / 10) = 8 / 10"
    and "0 < ps_high_water_mark s" and "0 < mf"
  shows "((mf + div_eps) * ps_high_water_mark s \<le> ps_high_water_mark s - ps_nav s \<longrightarrow>
            IsBlock (check_drawdown L mf (drawdown L s))) \<and>
         (ps_high_water_mark s \<le> ps_nav s \<longrightarrow> v_kind (check_drawdown L mf (drawdown L s)) = VerdictAllow) \<and>
         (ps_high_water_mark s - ps_nav s < (mf * 8 / 10 - div_eps) * ps_high_water_mark s \<longrightarrow>
            v_kind (check_drawdown L mf (drawdown L s)) = VerdictAllow)"
proof -
  let ?h = "ps_high_water_mark s" and ?loss = "ps_high_water_mark s - ps_nav s"
  have dd: "drawdown L s = d_div L ?loss ?h" using assms(3) by (simp add: drawdown_def)
  have up: "drawdown L s \<le> ?loss / ?h + div_eps" and lo: "?loss / ?h - div_eps \<le> drawdown L s"
    using decimal_lib.div_upper [OF assms(1)] decimal_lib.div_lower [OF assms(1)] assms(3) dd by simp_all
  have "(mf + div_eps) * ?h \<le> ?loss \<Longrightarrow> mf \<le> drawdown L s"
    using lo assms(3) pos_le_divide_eq [of ?h "mf + div_eps" ?loss] by linarith
  moreover have "?h \<le> ps_nav s \<Longrightarrow> drawdown L s \<le> 0"
    using decimal_lib.div_nonpos [OF assms(1)] assms(3) dd by simp
  moreover have "?loss < (mf * 8 / 10 - div_eps) * ?h \<Longrightarrow> drawdown L s < mf * 8 / 10"
    using up assms(3) pos_divide_less_eq [of ?h ?loss "mf * 8 / 10 - div_eps"] by linarith
  moreover have "v_kind (check_drawdown L mf d) = VerdictAllow" if "d < mf * 8 / 10" for d
    using that assms(2,4) by (auto simp only: check_drawdown_def verdict_defs verdict.simps split: if_splits)
  moreover have "IsBlock (check_drawdown L mf d)" if "mf \<le> d" for d
    using that assms(4) by (simp add: check_drawdown_def verdict_defs)
  moreover have "drawdown L s < mf * 8 / 10" if "drawdown L s \<le> 0" using that assms(4) by simp
  ultimately show ?thesis by blast
qed

theorem drawdown_breaker_bounds_witness:
  "IsBlock (check_drawdown reference_declib (1 / 10)
      (drawdown reference_declib (empty_snapshot\<lparr>ps_high_water_mark := 1000, ps_nav := 880\<rparr>)))"
proof -
  have h: "d_of_float reference_declib (8 / 10) = 8 / 10" by (simp add: reference_declib_def)
  show ?thesis
    using drawdown_breaker_bounds [OF reference.decimal_lib_axioms h,
        of "empty_snapshot\<lparr>ps_high_water_mark := 1000, ps_nav := 880\<rparr>" "1 / 10"]
    by (simp add: div_eps_def)
qed

end
