(* ===== verification/AgentTypes.thy ===== *)
theory AgentTypes
  imports PkgTypes
begin

text \<open>
  \<open>internal/agent/types.go\<close>: modes, networks, lifecycle statuses, and the agent record with
  its tick interval.
\<close>

section \<open>Modes and networks\<close>

datatype mode = ModePaper | ModeLive | ModeOther string

fun mode_str :: "mode \<Rightarrow> string" where
  "mode_str ModePaper = ''paper''"
| "mode_str ModeLive = ''live''"
| "mode_str (ModeOther s) = s"

definition invalid_mode :: "string \<Rightarrow> go_error" where
  "invalid_mode s = Errorf (''agent: invalid mode '' @ quoted s @ '' (want paper or live)'')"

definition ParseMode :: "string \<Rightarrow> go_error + mode" where
  "ParseMode s =
     (if s = [] then Inr ModePaper
      else if s = ''paper'' then Inr ModePaper
      else if s = ''live'' then Inr ModeLive
      else Inl (invalid_mode s))"

fun mode_Validate :: "mode \<Rightarrow> go_error option" where
  "mode_Validate ModePaper = None"
| "mode_Validate ModeLive = None"
| "mode_Validate (ModeOther s) = Some (invalid_mode s)"

text \<open>What a Go \<open>Mode\<close> holding the string \<open>s\<close> is in the datatype.\<close>

definition mode_of :: "string \<Rightarrow> mode" where
  "mode_of s = (if s = ''paper'' then ModePaper else if s = ''live'' then ModeLive else ModeOther s)"

datatype network = NetworkMainnet | NetworkTestnet | NetworkOther string

fun network_str :: "network \<Rightarrow> string" where
  "network_str NetworkMainnet = ''mainnet''"
| "network_str NetworkTestnet = ''testnet''"
| "network_str (NetworkOther s) = s"

definition network_of :: "string \<Rightarrow> network" where
  "network_of s =
     (if s = ''mainnet'' then NetworkMainnet else if s = ''testnet'' then NetworkTestnet
      else NetworkOther s)"

definition network_Validate :: "network \<Rightarrow> go_error option" where
  "network_Validate n =
     (if n = NetworkMainnet \<or> n = NetworkTestnet \<or> n = NetworkOther [] then None
      else Some (Errorf (''agent: invalid network '' @ quoted (network_str n) @ '' (want mainnet or testnet)'')))"

definition OrDefault :: "network \<Rightarrow> network \<Rightarrow> network" where
  "OrDefault n fallback = (if n = NetworkOther [] then fallback else n)"

section \<open>Agents\<close>

datatype agent_status = StatusStopped | StatusRunning | StatusHalted | StatusOther string

text \<open>
  The \<open>Config\<close> map is JSON the strategies read; it is kept as the text the store writes, the
  empty text standing for a nil map.
\<close>

record agent =
  ag_id :: string
  ag_name :: string
  ag_strategy :: string
  ag_mode :: mode
  ag_network :: network
  ag_perp_venue :: string
  ag_spot_venue :: string
  ag_inference :: string
  ag_universe :: "string list"
  ag_allocation_usdc :: decimal
  ag_tick_secs :: int
  ag_status :: agent_status
  ag_config :: string
  ag_created_at :: time
  ag_updated_at :: time

record agent_run =
  rn_id :: int
  rn_agent_id :: string
  rn_started_at :: time
  rn_ended_at :: "time option"
  rn_exit_reason :: string

definition zero_agent :: agent where
  "zero_agent = \<lparr>ag_id = [], ag_name = [], ag_strategy = [], ag_mode = ModeOther [],
     ag_network = NetworkOther [], ag_perp_venue = [], ag_spot_venue = [], ag_inference = [],
     ag_universe = [], ag_allocation_usdc = 0, ag_tick_secs = 0, ag_status = StatusOther [],
     ag_config = [], ag_created_at = zero_time, ag_updated_at = zero_time\<rparr>"

text \<open>The product is an \<open>int64\<close> multiplication of nanoseconds, which wraps around.\<close>

definition Interval :: "agent \<Rightarrow> duration" where
  "Interval a =
     (if ag_tick_secs a \<le> 0 then 60 * nano_second else wrap64 (ag_tick_secs a * nano_second))"

section \<open>Properties\<close>

lemma mode_of_str [simp]: "mode_str (mode_of s) = s"
  by (simp add: mode_of_def)

lemma ParseMode_cases:
  "ParseMode s = Inr m \<longleftrightarrow> m = ModePaper \<and> (s = [] \<or> s = ''paper'') \<or> m = ModeLive \<and> s = ''live''"
  by (auto simp: ParseMode_def)

lemma ParseMode_valid: "ParseMode s = Inr m \<Longrightarrow> mode_Validate m = None"
  by (auto simp: ParseMode_cases)

text \<open>
  Mode parsing fails safe. The only text that gives live mode is exactly \<open>live\<close>; every
  parsed mode is one that \<open>Validate\<close> accepts; and apart from the empty text, \<open>ParseMode\<close>
  accepts exactly the modes \<open>Validate\<close> accepts and returns them unchanged.
\<close>

theorem parse_mode_fails_safe:
  "(ParseMode s = Inr ModeLive \<longleftrightarrow> s = ''live'') \<and>
   (\<forall>m. ParseMode s = Inr m \<longrightarrow> mode_Validate m = None) \<and>
   (s \<noteq> [] \<longrightarrow> ParseMode s =
      (case mode_Validate (mode_of s) of None \<Rightarrow> Inr (mode_of s) | Some e \<Rightarrow> Inl e))"
proof (intro conjI allI impI)
  show "ParseMode s = Inr ModeLive \<longleftrightarrow> s = ''live''" by (simp add: ParseMode_cases)
  show "mode_Validate m = None" if "ParseMode s = Inr m" for m using that by (rule ParseMode_valid)
  show "ParseMode s = (case mode_Validate (mode_of s) of None \<Rightarrow> Inr (mode_of s) | Some e \<Rightarrow> Inl e)"
    if "s \<noteq> []" using that by (simp add: ParseMode_def mode_of_def)
qed

theorem parse_mode_fails_safe_witness:
  "ParseMode ''papre'' = Inl (invalid_mode ''papre'')"
  using parse_mode_fails_safe [of "''papre''"] by (simp add: mode_of_def)

text \<open>
  The tick interval. With a tick count that fits, the interval is that many seconds, and
  it is positive; a count of zero or less gives one minute. The multiplication wraps for
  counts above 9223372036, and a count of 9223372037 gives a negative interval.
\<close>

theorem interval_positive:
  "(0 < ag_tick_secs a \<and> ag_tick_secs a \<le> 9223372036 \<longrightarrow>
      Interval a = ag_tick_secs a * nano_second \<and> 0 < Interval a) \<and>
   (ag_tick_secs a \<le> 0 \<longrightarrow> Interval a = 60 * nano_second) \<and>
   (ag_tick_secs a = 9223372037 \<longrightarrow> Interval a < 0)"
  by (auto simp: Interval_def wrap64_id nano_second_def) (simp add: wrap64_def)

theorem interval_positive_witness:
  "Interval (zero_agent\<lparr>ag_tick_secs := 30\<rparr>) = 30 * nano_second \<and>
   Interval (zero_agent\<lparr>ag_tick_secs := 9223372037\<rparr>) < 0"
  using interval_positive [of "zero_agent\<lparr>ag_tick_secs := 30\<rparr>"]
    interval_positive [of "zero_agent\<lparr>ag_tick_secs := 9223372037\<rparr>"] by simp

end
