(* ===== verification/Store.thy ===== *)
theory Store
  imports Sql AgentTypes Venues
begin

text \<open>
  \<open>internal/agent/store.go\<close> over the tables of migrations 0004 to 0008: agents, agent_runs,
  agent_decisions, orders, swaps, inference_calls, strategy_positions and
  agent_nav_snapshots are the fields of \<open>agent_db\<close>. The order of a table's rows is the order
  of insertion. Each operation takes the outcome of its query (\<open>fail\<close>) and the database clock
  (\<open>dbnow\<close>) where it uses them. JSON columns hold the value that was marshalled.
\<close>

section \<open>Rows\<close>

text \<open>\<open>nz\<close>: a blank string is stored as NULL.\<close>

definition is_blank :: "char \<Rightarrow> bool" where
  "is_blank c \<longleftrightarrow> (let n = (of_char c :: nat) in n = 32 \<or> (9 \<le> n \<and> n \<le> 13))"

definition nz :: "string \<Rightarrow> string option" where
  "nz s = (if list_all is_blank s then None else Some s)"

record decision_row =
  dr_time :: time
  dr_agent_id :: string
  dr_decision_id :: string
  dr_input_hash :: string
  dr_decision :: decision
  dr_rationale :: string
  dr_provider :: "string option"
  dr_model :: "string option"
  dr_tokens_in :: int
  dr_tokens_out :: int
  dr_latency_ms :: int
  dr_cost_usd :: float64

record order_row =
  or_time :: time
  or_agent_id :: string
  or_decision_id :: string
  or_venue :: string
  or_symbol :: string
  or_side :: string
  or_type :: string
  or_price :: decimal
  or_size :: decimal
  or_tif :: string
  or_reduce_only :: bool
  or_client_id :: string
  or_venue_id :: "string option"
  or_status :: string
  or_paper :: bool

record swap_row =
  sw_time :: time
  sw_agent_id :: string
  sw_decision_id :: string
  sw_chain :: string
  sw_dex :: string
  sw_in_token :: string
  sw_out_token :: string
  sw_in_amount :: decimal
  sw_out_amount :: decimal
  sw_slippage_bps :: int
  sw_gas_paid :: decimal
  sw_tx_hash :: "string option"
  sw_status :: string
  sw_paper :: bool
  sw_client_id :: "string option"

record inference_row =
  ic_time :: time
  ic_agent_id :: "string option"
  ic_provider :: string
  ic_model :: string
  ic_latency_ms :: int
  ic_tokens_in :: int
  ic_tokens_out :: int
  ic_cost_usd :: float64
  ic_status :: string

text \<open>\<open>NAVSnapshotRow\<close>; the positions column is kept as its JSON text.\<close>

record nav_row =
  nr_time :: time
  nr_agent_id :: string
  nr_nav :: decimal
  nr_spot_value :: decimal
  nr_perp_unrealized :: decimal
  nr_funding_accrued :: decimal
  nr_realized_pnl :: decimal
  nr_cumulative_gas :: decimal
  nr_open_positions :: int
  nr_positions_json :: string

record agent_db =
  ad_agents :: "agent list"
  ad_runs :: "agent_run list"
  ad_run_seq :: int
  ad_decisions :: "decision_row list"
  ad_orders :: "order_row list"
  ad_swaps :: "swap_row list"
  ad_inference :: "inference_row list"
  ad_positions :: "basis_position list"
  ad_navs :: "nav_row list"

definition empty_db :: agent_db where
  "empty_db = \<lparr>ad_agents = [], ad_runs = [], ad_run_seq = 1, ad_decisions = [], ad_orders = [],
     ad_swaps = [], ad_inference = [], ad_positions = [], ad_navs = []\<rparr>"

section \<open>Agents\<close>

definition has_agent :: "agent_db \<Rightarrow> string \<Rightarrow> bool" where
  "has_agent db i \<longleftrightarrow> list_ex (\<lambda>a. ag_id a = i) (ad_agents db)"

text \<open>\<open>tick_secs\<close> is a 32-bit column: pgx refuses a count that does not fit.\<close>

definition fits_int4 :: "int \<Rightarrow> bool" where
  "fits_int4 i \<longleftrightarrow> - (2 ^ 31) \<le> i \<and> i < 2 ^ 31"

definition store_Create ::
  "sqltypes \<Rightarrow> go_error option \<Rightarrow> time \<Rightarrow> agent \<Rightarrow> agent_db \<Rightarrow> (go_error + agent) \<times> agent_db" where
  "store_Create Q fail dbnow a db =
     (if ag_id a = [] then (Inl (Errorf ''agent: id required''), db)
      else if ag_strategy a = [] then (Inl (Errorf ''agent: strategy required''), db)
      else case ParseMode (mode_str (ag_mode a)) of
          Inl e \<Rightarrow> (Inl e, db)
        | Inr m \<Rightarrow>
           (let a1 = a\<lparr>ag_mode := m,
                       ag_status := (if ag_status a = StatusOther [] then StatusStopped else ag_status a),
                       ag_network := (if ag_network a = NetworkOther [] then NetworkMainnet else ag_network a)\<rparr>
            in case network_Validate (ag_network a1) of
                 Some e \<Rightarrow> (Inl e, db)
               | None \<Rightarrow>
                  (case fail of
                     Some e \<Rightarrow> (Inl (Wrap ''agent: create'' e), db)
                   | None \<Rightarrow>
                      if has_agent db (ag_id a) \<or> \<not> fits_int4 (ag_tick_secs a) then
                        (Inl (Wrap ''agent: create'' constraint_error), db)
                      else
                        let a2 = a1\<lparr>ag_created_at := dbnow, ag_updated_at := dbnow\<rparr>
                        in (Inr a2, db\<lparr>ad_agents := ad_agents db @
                              [a2\<lparr>ag_allocation_usdc := sq_num Q (ag_allocation_usdc a),
                                  ag_config := (if ag_config a = [] then ''{}'' else ag_config a)\<rparr>]\<rparr>))))"

definition store_Get :: "go_error option \<Rightarrow> string \<Rightarrow> agent_db \<Rightarrow> go_error + agent" where
  "store_Get fail i db =
     (case fail of
        Some e \<Rightarrow> Inl (Wrap ''agent: get'' e)
      | None \<Rightarrow>
         (case find (\<lambda>a. ag_id a = i) (ad_agents db) of
            None \<Rightarrow> Inl (Wrap ''agent: get'' ErrNoRows)
          | Some a \<Rightarrow>
             (case ParseMode (mode_str (ag_mode a)) of
                Inl e \<Rightarrow> Inl (Wrap (''agent: get '' @ i) e)
              | Inr m \<Rightarrow> Inr (a\<lparr>ag_mode := m\<rparr>))))"

text \<open>\<open>List\<close> selects no inference, universe or config column, and does not validate modes.\<close>

definition store_List :: "go_error option \<Rightarrow> agent_db \<Rightarrow> go_error + agent list" where
  "store_List fail db =
     (case fail of
        Some e \<Rightarrow> Inl e
      | None \<Rightarrow> Inr (map (\<lambda>a. a\<lparr>ag_inference := [], ag_universe := [], ag_config := []\<rparr>)
                      (sort_key (\<lambda>a. - ag_created_at a) (ad_agents db))))"

definition update_agent :: "(agent \<Rightarrow> agent) \<Rightarrow> string \<Rightarrow> agent_db \<Rightarrow> agent_db" where
  "update_agent f i db =
     db\<lparr>ad_agents := map (\<lambda>a. if ag_id a = i then f a else a) (ad_agents db)\<rparr>"

definition SetNetwork ::
  "go_error option \<Rightarrow> time \<Rightarrow> string \<Rightarrow> network \<Rightarrow> agent_db \<Rightarrow> go_error option \<times> agent_db" where
  "SetNetwork fail dbnow i n db =
     (case network_Validate n of
        Some e \<Rightarrow> (Some e, db)
      | None \<Rightarrow>
          if n = NetworkOther [] then (Some (Errorf ''agent: network required''), db)
          else case fail of
              Some e \<Rightarrow> (Some (Wrap ''agent: set network'' e), db)
            | None \<Rightarrow>
                if has_agent db i then
                  (None, update_agent (\<lambda>a. a\<lparr>ag_network := n, ag_updated_at := dbnow\<rparr>) i db)
                else (Some (Errorf (''agent '' @ quoted i @ '' not found'')), db))"

definition SetStatus ::
  "go_error option \<Rightarrow> time \<Rightarrow> string \<Rightarrow> agent_status \<Rightarrow> agent_db \<Rightarrow> go_error option \<times> agent_db" where
  "SetStatus fail dbnow i st db =
     (case fail of
        Some e \<Rightarrow> (Some (Wrap ''agent: set status'' e), db)
      | None \<Rightarrow> (None, update_agent (\<lambda>a. a\<lparr>ag_status := st, ag_updated_at := dbnow\<rparr>) i db))"

definition StartRun ::
  "go_error option \<Rightarrow> time \<Rightarrow> string \<Rightarrow> agent_db \<Rightarrow> (go_error + int) \<times> agent_db" where
  "StartRun fail dbnow i db =
     (case fail of
        Some e \<Rightarrow> (Inl (Wrap ''agent: start run'' e), db)
      | None \<Rightarrow>
          if \<not> has_agent db i then (Inl (Wrap ''agent: start run'' constraint_error), db)
          else (Inr (ad_run_seq db),
                db\<lparr>ad_runs := ad_runs db @ [\<lparr>rn_id = ad_run_seq db, rn_agent_id = i,
                     rn_started_at = dbnow, rn_ended_at = None, rn_exit_reason = []\<rparr>],
                   ad_run_seq := ad_run_seq db + 1\<rparr>))"

definition EndRun ::
  "go_error option \<Rightarrow> time \<Rightarrow> int \<Rightarrow> string \<Rightarrow> agent_db \<Rightarrow> go_error option \<times> agent_db" where
  "EndRun fail dbnow rid reason db =
     (case fail of
        Some e \<Rightarrow> (Some (Wrap ''agent: end run'' e), db)
      | None \<Rightarrow> (None, db\<lparr>ad_runs := map (\<lambda>r. if rn_id r = rid
            then r\<lparr>rn_ended_at := Some dbnow, rn_exit_reason := reason\<rparr> else r) (ad_runs db)\<rparr>))"

section \<open>Audit ledgers\<close>

definition PersistDecision ::
  "sqltypes \<Rightarrow> go_error option \<Rightarrow> decision_row \<Rightarrow> agent_db \<Rightarrow> go_error option \<times> agent_db" where
  "PersistDecision Q fail r db =
     (case fail of
        Some e \<Rightarrow> (Some (Wrap ''agent: persist decision'' e), db)
      | None \<Rightarrow>
         (let r' = r\<lparr>dr_time := sq_time Q (dr_time r)\<rparr>
          in if list_ex (\<lambda>x. dr_agent_id x = dr_agent_id r' \<and> dr_time x = dr_time r' \<and>
                dr_decision_id x = dr_decision_id r') (ad_decisions db)
             then (None, db)
             else (None, db\<lparr>ad_decisions := ad_decisions db @ [r']\<rparr>)))"

definition stored_order :: "sqltypes \<Rightarrow> order_row \<Rightarrow> order_row" where
  "stored_order Q r = r\<lparr>or_time := sq_time Q (or_time r), or_price := sq_num Q (or_price r),
     or_size := sq_num Q (or_size r)\<rparr>"

definition PersistOrder ::
  "sqltypes \<Rightarrow> go_error option \<Rightarrow> order_row \<Rightarrow> agent_db \<Rightarrow> go_error option \<times> agent_db" where
  "PersistOrder Q fail r db =
     (case fail of
        Some e \<Rightarrow> (Some (Wrap ''agent: persist order'' e), db)
      | None \<Rightarrow>
         (let r' = stored_order Q r
          in if list_ex (\<lambda>x. or_agent_id x = or_agent_id r' \<and> or_time x = or_time r' \<and>
                or_client_id x = or_client_id r') (ad_orders db)
             then (None, db)
             else (None, db\<lparr>ad_orders := ad_orders db @ [r']\<rparr>)))"

definition stored_swap :: "sqltypes \<Rightarrow> swap_row \<Rightarrow> swap_row" where
  "stored_swap Q r = r\<lparr>sw_time := sq_time Q (sw_time r), sw_in_amount := sq_num Q (sw_in_amount r),
     sw_out_amount := sq_num Q (sw_out_amount r), sw_gas_paid := sq_num Q (sw_gas_paid r)\<rparr>"

text \<open>
  The insert names the partial index on (agent_id, time, client_id) as its conflict target;
  the primary key of the table is still (agent_id, time, in_token, out_token), and a
  violation of that one is an error.
\<close>

definition same_swap_client :: "swap_row \<Rightarrow> swap_row \<Rightarrow> bool" where
  "same_swap_client r x \<longleftrightarrow> sw_client_id r \<noteq> None \<and> sw_agent_id x = sw_agent_id r \<and>
     sw_time x = sw_time r \<and> sw_client_id x = sw_client_id r"

definition same_swap_key :: "swap_row \<Rightarrow> swap_row \<Rightarrow> bool" where
  "same_swap_key r x \<longleftrightarrow> sw_agent_id x = sw_agent_id r \<and> sw_time x = sw_time r \<and>
     sw_in_token x = sw_in_token r \<and> sw_out_token x = sw_out_token r"

definition PersistSwap ::
  "sqltypes \<Rightarrow> go_error option \<Rightarrow> swap_row \<Rightarrow> agent_db \<Rightarrow> go_error option \<times> agent_db" where
  "PersistSwap Q fail r db =
     (case fail of
        Some e \<Rightarrow> (Some (Wrap ''agent: persist swap'' e), db)
      | None \<Rightarrow>
         (let r' = stored_swap Q r
          in if list_ex (same_swap_client r') (ad_swaps db) then (None, db)
             else if list_ex (same_swap_key r') (ad_swaps db) then
               (Some (Wrap ''agent: persist swap'' constraint_error), db)
             else (None, db\<lparr>ad_swaps := ad_swaps db @ [r']\<rparr>)))"

definition PersistInferenceCall ::
  "sqltypes \<Rightarrow> go_error option \<Rightarrow> inference_row \<Rightarrow> agent_db \<Rightarrow> go_error option \<times> agent_db" where
  "PersistInferenceCall Q fail r db =
     (case fail of
        Some e \<Rightarrow> (Some (Wrap ''agent: persist inference call'' e), db)
      | None \<Rightarrow>
         (let r' = r\<lparr>ic_time := sq_time Q (ic_time r)\<rparr>
          in if list_ex (\<lambda>x. ic_provider x = ic_provider r' \<and> ic_time x = ic_time r' \<and>
                ic_model x = ic_model r') (ad_inference db)
             then (None, db)
             else (None, db\<lparr>ad_inference := ad_inference db @ [r']\<rparr>)))"

section \<open>Basis positions\<close>

definition open_state :: "basis_state \<Rightarrow> bool" where
  "open_state s \<longleftrightarrow> s = BasisOpen \<or> s = BasisOpening \<or> s = BasisClosing"

definition ErrNoOpenBasis :: go_error where
  "ErrNoOpenBasis = Sentinel ''agent: no open basis to close''"

text \<open>The partial unique index: at most one open row per agent and underlying.\<close>

definition open_row_for :: "string \<Rightarrow> string \<Rightarrow> basis_position \<Rightarrow> bool" where
  "open_row_for agent underlying r \<longleftrightarrow>
     bp_agent_id r = agent \<and> bp_underlying r = underlying \<and> open_state (bp_state r)"

definition stored_basis :: "sqltypes \<Rightarrow> basis_position \<Rightarrow> basis_position" where
  "stored_basis Q p = p\<lparr>bp_opened_at := sq_time Q (bp_opened_at p), bp_closed_at := None,
     bp_realized_funding := sq_num Q (bp_realized_funding p),
     bp_realized_basis_pnl := sq_num Q (bp_realized_basis_pnl p),
     bp_realized_fees := sq_num Q (bp_realized_fees p),
     bp_realized_gas := sq_num Q (bp_realized_gas p)\<rparr>"

definition refresh_basis :: "basis_position \<Rightarrow> basis_position \<Rightarrow> basis_position" where
  "refresh_basis new old = old\<lparr>bp_state := bp_state new, bp_legs := bp_legs new,
     bp_realized_funding := bp_realized_funding new,
     bp_realized_basis_pnl := bp_realized_basis_pnl new,
     bp_realized_fees := bp_realized_fees new, bp_realized_gas := bp_realized_gas new\<rparr>"

definition UpsertOpenBasis ::
  "sqltypes \<Rightarrow> go_error option \<Rightarrow> time \<Rightarrow> basis_position \<Rightarrow> agent_db \<Rightarrow> go_error option \<times> agent_db" where
  "UpsertOpenBasis Q fail now p db =
     (let p1 = p\<lparr>bp_state := (if bp_state p = BasisStateOther [] then BasisOpen else bp_state p),
                 bp_opened_at := (if bp_opened_at p = zero_time then now else bp_opened_at p)\<rparr>;
          r = stored_basis Q p1
      in case fail of
           Some e \<Rightarrow> (Some (Wrap ''agent: upsert basis'' e), db)
         | None \<Rightarrow>
            (case find (\<lambda>x. bp_id x = bp_id r) (ad_positions db) of
               Some old \<Rightarrow>
                 if open_state (bp_state r) \<and>
                    list_ex (\<lambda>x. bp_id x \<noteq> bp_id r \<and> open_row_for (bp_agent_id old) (bp_underlying old) x)
                      (ad_positions db)
                 then (Some (Wrap ''agent: upsert basis'' constraint_error), db)
                 else (None, db\<lparr>ad_positions :=
                        map (\<lambda>x. if bp_id x = bp_id r then refresh_basis r x else x) (ad_positions db)\<rparr>)
             | None \<Rightarrow>
                 if \<not> has_agent db (bp_agent_id r) \<or>
                    open_state (bp_state r) \<and>
                    list_ex (open_row_for (bp_agent_id r) (bp_underlying r)) (ad_positions db)
                 then (Some (Wrap ''agent: upsert basis'' constraint_error), db)
                 else (None, db\<lparr>ad_positions := ad_positions db @ [r]\<rparr>)))"

definition CloseBasis ::
  "go_error option \<Rightarrow> time \<Rightarrow> string \<Rightarrow> string \<Rightarrow> agent_db \<Rightarrow> go_error option \<times> agent_db" where
  "CloseBasis fail dbnow agent underlying db =
     (case fail of
        Some e \<Rightarrow> (Some (Wrap ''agent: close basis'' e), db)
      | None \<Rightarrow>
          if list_ex (open_row_for agent underlying) (ad_positions db) then
            (None, db\<lparr>ad_positions := map (\<lambda>r. if open_row_for agent underlying r
               then r\<lparr>bp_state := BasisClosed, bp_closed_at := Some dbnow\<rparr> else r) (ad_positions db)\<rparr>)
          else (Some ErrNoOpenBasis, db))"

definition open_rows :: "string \<Rightarrow> agent_db \<Rightarrow> basis_position list" where
  "open_rows agent db =
     filter (\<lambda>r. bp_agent_id r = agent \<and> open_state (bp_state r)) (ad_positions db)"

definition LoadOpenBasis :: "go_error option \<Rightarrow> string \<Rightarrow> agent_db \<Rightarrow> go_error + basis_position list" where
  "LoadOpenBasis fail agent db =
     (case fail of
        Some e \<Rightarrow> Inl (Wrap ''agent: load open basis'' e)
      | None \<Rightarrow> Inr (sort_key bp_opened_at (open_rows agent db)))"

section \<open>NAV snapshots and aggregates\<close>

record pnl_aggregates =
  pa_realized_pnl :: decimal
  pa_cumulative_gas :: decimal

definition AggregatesForAgent ::
  "go_error option \<times> go_error option \<Rightarrow> string \<Rightarrow> agent_db \<Rightarrow> go_error + pnl_aggregates" where
  "AggregatesForAgent fails agent db =
     (case fst fails of
        Some e \<Rightarrow> Inl (Wrap ''agent: realized aggregate'' e)
      | None \<Rightarrow>
         (case snd fails of
            Some e \<Rightarrow> Inl (Wrap ''agent: gas aggregate'' e)
          | None \<Rightarrow> Inr
             \<lparr>pa_realized_pnl = (\<Sum>p\<leftarrow>filter (\<lambda>p. bp_agent_id p = agent \<and> bp_state p = BasisClosed)
                 (ad_positions db).
                 bp_realized_basis_pnl p + bp_realized_funding p - bp_realized_fees p - bp_realized_gas p),
              pa_cumulative_gas = (\<Sum>s\<leftarrow>filter (\<lambda>s. sw_agent_id s = agent) (ad_swaps db). sw_gas_paid s)\<rparr>))"

definition stored_nav_row :: "sqltypes \<Rightarrow> nav_row \<Rightarrow> nav_row" where
  "stored_nav_row Q r = r\<lparr>nr_time := sq_time Q (nr_time r), nr_nav := sq_num Q (nr_nav r),
     nr_spot_value := sq_num Q (nr_spot_value r), nr_perp_unrealized := sq_num Q (nr_perp_unrealized r),
     nr_funding_accrued := sq_num Q (nr_funding_accrued r),
     nr_realized_pnl := sq_num Q (nr_realized_pnl r),
     nr_cumulative_gas := sq_num Q (nr_cumulative_gas r)\<rparr>"

definition PersistNAVSnapshot ::
  "sqltypes \<Rightarrow> go_error option \<Rightarrow> nav_row \<Rightarrow> agent_db \<Rightarrow> go_error option \<times> agent_db" where
  "PersistNAVSnapshot Q fail r db =
     (case fail of
        Some e \<Rightarrow> (Some (Wrap ''agent: persist nav snapshot'' e), db)
      | None \<Rightarrow>
         (let r' = stored_nav_row Q r
          in if list_ex (\<lambda>x. nr_agent_id x = nr_agent_id r' \<and> nr_time x = nr_time r') (ad_navs db)
             then (None, db)
             else if \<not> has_agent db (nr_agent_id r') then
               (Some (Wrap ''agent: persist nav snapshot'' constraint_error), db)
             else (None, db\<lparr>ad_navs := ad_navs db @ [r']\<rparr>)))"

definition LatestNAVSnapshot ::
  "go_error option \<Rightarrow> string \<Rightarrow> agent_db \<Rightarrow> go_error + nav_row option" where
  "LatestNAVSnapshot fail agent db =
     (case fail of
        Some e \<Rightarrow> if errors_is e ''no rows in result set'' then Inr None
                  else Inl (Wrap ''agent: latest nav'' e)
      | None \<Rightarrow> Inr (latest_by nr_time (filter (\<lambda>r. nr_agent_id r = agent) (ad_navs db))))"

definition store_NAVHistory ::
  "sqltypes \<Rightarrow> go_error option \<Rightarrow> string \<Rightarrow> time \<Rightarrow> int \<Rightarrow> agent_db \<Rightarrow> go_error + nav_row list" where
  "store_NAVHistory Q fail agent since limit db =
     (let lim = (if limit \<le> 0 \<or> 10000 < limit then 1000 else limit)
      in case fail of
           Some e \<Rightarrow> Inl (Wrap ''agent: nav history'' e)
         | None \<Rightarrow> Inr (take (nat lim) (sort_key nr_time
             (filter (\<lambda>r. nr_agent_id r = agent \<and> sq_time Q since \<le> nr_time r) (ad_navs db)))))"

text \<open>\<open>DecisionRow\<close>: the counts are read off the stored decision.\<close>

record decision_summary =
  ds_time :: time
  ds_decision_id :: string
  ds_rationale :: string
  ds_provider :: string
  ds_model :: string
  ds_tokens_in :: int
  ds_tokens_out :: int
  ds_cost_usd :: float64
  ds_num_orders :: nat
  ds_num_swaps :: nat

definition null_text :: "string option \<Rightarrow> string" where
  "null_text x = (case x of None \<Rightarrow> [] | Some s \<Rightarrow> s)"

definition RecentDecisions ::
  "sqltypes \<Rightarrow> go_error option \<Rightarrow> string \<Rightarrow> time \<Rightarrow> nat \<Rightarrow> agent_db \<Rightarrow> go_error + decision_summary list" where
  "RecentDecisions Q fail agent since limit db =
     (case fail of
        Some e \<Rightarrow> Inl e
      | None \<Rightarrow> Inr (map (\<lambda>r. \<lparr>ds_time = dr_time r, ds_decision_id = dr_decision_id r,
            ds_rationale = dr_rationale r, ds_provider = null_text (dr_provider r),
            ds_model = null_text (dr_model r), ds_tokens_in = dr_tokens_in r,
            ds_tokens_out = dr_tokens_out r, ds_cost_usd = dr_cost_usd r,
            ds_num_orders = length (dc_orders (dr_decision r)),
            ds_num_swaps = length (dc_swaps (dr_decision r))\<rparr>)
          (take limit (sort_key (\<lambda>r. - dr_time r)
            (filter (\<lambda>r. dr_agent_id r = agent \<and> sq_time Q since \<le> dr_time r) (ad_decisions db))))))"

section \<open>Invariant of the positions table\<close>

definition positions_ok :: "agent_db \<Rightarrow> bool" where
  "positions_ok db \<longleftrightarrow>
     distinct (map bp_id (ad_positions db)) \<and>
     distinct (map (\<lambda>r. (bp_agent_id r, bp_underlying r))
       (filter (\<lambda>r. open_state (bp_state r)) (ad_positions db)))"

lemma open_row_for_iff:
  "open_row_for a u r \<longleftrightarrow> open_state (bp_state r) \<and> (bp_agent_id r, bp_underlying r) = (a, u)"
  by (auto simp: open_row_for_def)

lemma distinct_map_snoc: "distinct (map f (xs @ [x])) \<longleftrightarrow> distinct (map f xs) \<and> f x \<notin> f ` set xs"
  by auto

lemma refresh_basis_fields [simp]:
  "bp_id (refresh_basis n p) = bp_id p" "bp_agent_id (refresh_basis n p) = bp_agent_id p"
  "bp_underlying (refresh_basis n p) = bp_underlying p" "bp_state (refresh_basis n p) = bp_state n"
  by (simp_all add: refresh_basis_def)

lemma stored_basis_fields [simp]:
  "bp_id (stored_basis Q p) = bp_id p" "bp_agent_id (stored_basis Q p) = bp_agent_id p"
  "bp_underlying (stored_basis Q p) = bp_underlying p" "bp_state (stored_basis Q p) = bp_state p"
  "bp_legs (stored_basis Q p) = bp_legs p"
  "bp_opened_at (stored_basis Q p) = sq_time Q (bp_opened_at p)"
  by (simp_all add: stored_basis_def)

abbreviation open_keys :: "basis_position list \<Rightarrow> (string \<times> string) list" where
  "open_keys rs \<equiv> map (\<lambda>r. (bp_agent_id r, bp_underlying r)) (filter (\<lambda>r. open_state (bp_state r)) rs)"

lemma positions_ok_upd:
  "positions_ok (db\<lparr>ad_positions := xs\<rparr>) \<longleftrightarrow> distinct (map bp_id xs) \<and> distinct (open_keys xs)"
  by (simp add: positions_ok_def)

lemma map_key_update: "(\<And>x. k (g x) = k x) \<Longrightarrow> map k (map g xs) = map k xs"
  by simp

lemma distinct_map_filter_sub:
  assumes "distinct (map f (filter P xs))" and "\<And>x. x \<in> set xs \<Longrightarrow> Q x \<Longrightarrow> P x"
  shows "distinct (map f (filter Q xs))"
proof -
  have "filter Q xs = filter Q (filter P xs)"
    unfolding filter_filter by (rule filter_cong) (use assms(2) in auto)
  with distinct_map_filter [OF assms(1), of Q] show ?thesis by simp
qed

lemma map_filter_update:
  assumes "\<And>x. x \<in> set xs \<Longrightarrow> k (g x) = k x" and "\<And>x. x \<in> set xs \<Longrightarrow> P (g x) = P' x"
  shows "map k (filter P (map g xs)) = map k (filter P' xs)"
  using assms by (induction xs) auto

lemma CloseBasis_ok:
  assumes "positions_ok db"
  shows "positions_ok (snd (CloseBasis fail t a u db))"
proof -
  let ?g = "\<lambda>r. if open_row_for a u r then r\<lparr>bp_state := BasisClosed, bp_closed_at := Some t\<rparr> else r"
  have "map bp_id (map ?g (ad_positions db)) = map bp_id (ad_positions db)"
    by (rule map_key_update) simp
  moreover have "open_keys (map ?g (ad_positions db)) =
      map (\<lambda>r. (bp_agent_id r, bp_underlying r))
        (filter (\<lambda>r. open_state (bp_state r) \<and> \<not> open_row_for a u r) (ad_positions db))"
    by (rule map_filter_update) (auto simp: open_state_def)
  moreover have "distinct (map (\<lambda>r. (bp_agent_id r, bp_underlying r))
        (filter (\<lambda>r. open_state (bp_state r) \<and> \<not> open_row_for a u r) (ad_positions db)))"
    using assms unfolding positions_ok_def by (elim conjE) (erule distinct_map_filter_sub, simp)
  ultimately have "positions_ok (db\<lparr>ad_positions := map ?g (ad_positions db)\<rparr>)"
    using assms unfolding positions_ok_upd by (simp only: positions_ok_def)
  with assms show ?thesis by (simp add: CloseBasis_def split: option.splits)
qed

lemma UpsertOpenBasis_cases:
  fixes Q now p
  defines "r \<equiv> stored_basis Q (p\<lparr>bp_state := (if bp_state p = BasisStateOther [] then BasisOpen else bp_state p),
                 bp_opened_at := (if bp_opened_at p = zero_time then now else bp_opened_at p)\<rparr>)"
  obtains (unchanged) "snd (UpsertOpenBasis Q fail now p db) = db"
  | (refresh) old where "old \<in> set (ad_positions db)" "bp_id old = bp_id r"
      "\<not> (open_state (bp_state r) \<and> list_ex (\<lambda>x. bp_id x \<noteq> bp_id r \<and>
           open_row_for (bp_agent_id old) (bp_underlying old) x) (ad_positions db))"
      "snd (UpsertOpenBasis Q fail now p db) = db\<lparr>ad_positions :=
           map (\<lambda>x. if bp_id x = bp_id r then refresh_basis r x else x) (ad_positions db)\<rparr>"
  | (insert) "\<forall>x \<in> set (ad_positions db). bp_id x \<noteq> bp_id r"
      "\<not> (open_state (bp_state r) \<and> list_ex (open_row_for (bp_agent_id r) (bp_underlying r)) (ad_positions db))"
      "snd (UpsertOpenBasis Q fail now p db) = db\<lparr>ad_positions := ad_positions db @ [r]\<rparr>"
proof -
  have eq: "UpsertOpenBasis Q fail now p db =
      (case fail of
           Some e \<Rightarrow> (Some (Wrap ''agent: upsert basis'' e), db)
         | None \<Rightarrow>
            (case find (\<lambda>x. bp_id x = bp_id r) (ad_positions db) of
               Some old \<Rightarrow>
                 if open_state (bp_state r) \<and>
                    list_ex (\<lambda>x. bp_id x \<noteq> bp_id r \<and> open_row_for (bp_agent_id old) (bp_underlying old) x)
                      (ad_positions db)
                 then (Some (Wrap ''agent: upsert basis'' constraint_error), db)
                 else (None, db\<lparr>ad_positions :=
                        map (\<lambda>x. if bp_id x = bp_id r then refresh_basis r x else x) (ad_positions db)\<rparr>)
             | None \<Rightarrow>
                 if \<not> has_agent db (bp_agent_id r) \<or>
                    open_state (bp_state r) \<and>
                    list_ex (open_row_for (bp_agent_id r) (bp_underlying r)) (ad_positions db)
                 then (Some (Wrap ''agent: upsert basis'' constraint_error), db)
                 else (None, db\<lparr>ad_positions := ad_positions db @ [r]\<rparr>)))"
    by (simp only: UpsertOpenBasis_def Let_def r_def)
  show thesis
  proof (cases fail)
    case (Some e)
    show thesis by (rule unchanged) (subst eq, simp add: Some)
  next
    case fail: None
    show thesis
    proof (cases "find (\<lambda>x. bp_id x = bp_id r) (ad_positions db)")
      case None
      then have new: "\<forall>x \<in> set (ad_positions db). bp_id x \<noteq> bp_id r" by (simp add: find_None_iff)
      show thesis
      proof (cases "\<not> has_agent db (bp_agent_id r) \<or>
              open_state (bp_state r) \<and> list_ex (open_row_for (bp_agent_id r) (bp_underlying r)) (ad_positions db)")
        case True
        show thesis by (rule unchanged) (subst eq, simp only: fail None option.case True if_True simp_thms snd_conv)
      next
        case False
        from new show thesis
        proof (rule insert)
          show "\<not> (open_state (bp_state r) \<and>
              list_ex (open_row_for (bp_agent_id r) (bp_underlying r)) (ad_positions db))"
            using False by blast
        qed (subst eq, simp only: fail None option.case False if_False simp_thms snd_conv)
      qed
    next
      case (Some old)
      then have old: "old \<in> set (ad_positions db)" "bp_id old = bp_id r"
        by (auto simp: find_Some_iff)
      show thesis
      proof (cases "open_state (bp_state r) \<and> list_ex (\<lambda>x. bp_id x \<noteq> bp_id r \<and>
              open_row_for (bp_agent_id old) (bp_underlying old) x) (ad_positions db)")
        case True
        show thesis by (rule unchanged) (subst eq, simp only: fail Some option.case True if_True simp_thms snd_conv)
      next
        case False
        from old False show thesis
          by (rule refresh) (subst eq, simp only: fail Some option.case False if_False simp_thms snd_conv)
      qed
    qed
  qed
qed

lemma UpsertOpenBasis_ok:
  assumes "positions_ok db"
  shows "positions_ok (snd (UpsertOpenBasis Q fail now p db))"
proof (cases rule: UpsertOpenBasis_cases [of Q fail now p db])
  case unchanged
  with assms show ?thesis by simp
next
  case insert
  with assms show ?thesis
    by (auto simp: positions_ok_def list_ex_iff open_row_for_iff)
next
  case (refresh old)
  let ?i = "bp_id p" and ?ps = "ad_positions db"
  let ?st = "if bp_state p = BasisStateOther [] then BasisOpen else bp_state p"
  let ?r = "stored_basis Q (p\<lparr>bp_state := ?st,
                 bp_opened_at := (if bp_opened_at p = zero_time then now else bp_opened_at p)\<rparr>)"
  let ?g = "\<lambda>x. if bp_id x = ?i then refresh_basis ?r x else x"
  have ids: "map bp_id (map ?g ?ps) = map bp_id ?ps" by (rule map_key_update) simp
  have dist: "distinct (map bp_id ?ps)" and ok: "distinct (open_keys ?ps)"
    using assms by (simp_all add: positions_ok_def)
  have uniq: "x = old" if "x \<in> set ?ps" "bp_id x = ?i" for x
    using that refresh(1,2) dist by (auto simp: distinct_map inj_on_def)
  have keys: "open_keys (map ?g ?ps) = map (\<lambda>r. (bp_agent_id r, bp_underlying r))
      (filter (\<lambda>x. if bp_id x = ?i then open_state ?st else open_state (bp_state x)) ?ps)"
    by (rule map_filter_update) auto
  have "distinct (open_keys (map ?g ?ps))"
  proof (cases "open_state ?st")
    case False
    show ?thesis unfolding keys
      by (rule distinct_map_filter_sub [OF ok]) (use False in \<open>auto split: if_splits\<close>)
  next
    case True
    have other: "(bp_agent_id x, bp_underlying x) \<noteq> (bp_agent_id old, bp_underlying old)"
      if "x \<in> set ?ps" "bp_id x \<noteq> ?i" "open_state (bp_state x)" for x
      using that refresh(3) True by (auto simp: list_ex_iff open_row_for_iff)
    have "inj_on (\<lambda>r. (bp_agent_id r, bp_underlying r)) {x \<in> set ?ps. bp_id x = ?i \<or> open_state (bp_state x)}"
    proof (rule inj_onI, clarify)
      fix x y assume xy: "x \<in> set ?ps" "y \<in> set ?ps"
        and k: "bp_agent_id x = bp_agent_id y" "bp_underlying x = bp_underlying y"
        and d: "bp_id x = ?i \<or> open_state (bp_state x)" "bp_id y = ?i \<or> open_state (bp_state y)"
      have inj: "inj_on (\<lambda>r. (bp_agent_id r, bp_underlying r)) (set (filter (\<lambda>r. open_state (bp_state r)) ?ps))"
        using ok by (simp add: distinct_map)
      show "x = y"
      proof (cases "bp_id x = ?i \<or> bp_id y = ?i")
        case True
        then show ?thesis using xy k d uniq other by (metis)
      next
        case False
        then show ?thesis using xy k d inj by (auto simp: inj_on_def)
      qed
    qed
    moreover have "distinct ?ps" using dist by (simp add: distinct_map)
    ultimately show ?thesis unfolding keys distinct_map using True
      by (auto intro: inj_on_subset)
  qed
  then have "positions_ok (db\<lparr>ad_positions := map ?g ?ps\<rparr>)"
    using ids dist by (simp only: positions_ok_upd)
  then show ?thesis using refresh(4) by simp
qed

datatype position_op = OpUpsert "go_error option" time basis_position
  | OpClose "go_error option" time string string

fun run_position_op :: "sqltypes \<Rightarrow> position_op \<Rightarrow> agent_db \<Rightarrow> agent_db" where
  "run_position_op Q (OpUpsert fail now p) db = snd (UpsertOpenBasis Q fail now p db)"
| "run_position_op Q (OpClose fail now a u) db = snd (CloseBasis fail now a u db)"

lemma run_position_op_ok: "positions_ok db \<Longrightarrow> positions_ok (run_position_op Q x db)"
  by (cases x) (simp_all add: UpsertOpenBasis_ok CloseBasis_ok)


section \<open>The position store as an interface\<close>

text \<open>
  What the runtime relies on: a view of the open positions of one agent by underlying, and
  how a successful open of a new position and a successful close change it.
\<close>

locale position_store =
  fixes view :: "'db \<Rightarrow> string \<Rightarrow> basis_position option"
    and upsert :: "basis_position \<Rightarrow> 'db \<Rightarrow> 'db"
    and close :: "string \<Rightarrow> 'db \<Rightarrow> 'db"
    and known :: "'db \<Rightarrow> string \<Rightarrow> bool"
    and ready :: "'db \<Rightarrow> bool"
    and norm :: "basis_position \<Rightarrow> basis_position"
    and mine :: "basis_position \<Rightarrow> bool"
  assumes close_view: "ready db \<Longrightarrow> view (close u db) = (view db)(u := None)"
    and close_ready: "ready db \<Longrightarrow> ready (close u db)"
    and close_known: "known (close u db) = known db"
    and upsert_view: "ready db \<Longrightarrow> mine p \<Longrightarrow> \<not> known db (bp_id p) \<Longrightarrow> view db (bp_underlying p) = None \<Longrightarrow>
        view (upsert p db) = (view db)(bp_underlying p \<mapsto> norm p)"
    and upsert_ready: "ready db \<Longrightarrow> mine p \<Longrightarrow> ready (upsert p db)"
    and upsert_known: "ready db \<Longrightarrow> mine p \<Longrightarrow> \<not> known db (bp_id p) \<Longrightarrow> view db (bp_underlying p) = None \<Longrightarrow>
        known (upsert p db) = (known db)(bp_id p := True)"
begin

text \<open>The in-memory map, keyed by the upper-cased underlying, agrees with the store.\<close>

definition in_sync :: "(string \<rightharpoonup> basis_position) \<Rightarrow> 'db \<Rightarrow> bool" where
  "in_sync m db \<longleftrightarrow>
     (\<forall>k p. m k = Some p \<longrightarrow> to_upper (bp_underlying p) = k \<and> view db (bp_underlying p) = Some (norm p)) \<and>
     (\<forall>u r. view db u = Some r \<longrightarrow> (\<exists>p. m (to_upper u) = Some p \<and> bp_underlying p = u))"

lemma in_sync_fresh:
  "in_sync m db \<Longrightarrow> m (to_upper u) = None \<Longrightarrow> view db u = None"
  unfolding in_sync_def by (metis not_Some_eq option.distinct(1))

lemma in_sync_close:
  assumes "ready db" and "in_sync m db" and "m k = Some p"
  shows "in_sync (m(k := None)) (close (bp_underlying p) db)"
proof -
  let ?u = "bp_underlying p"
  from assms(2,3) have k: "to_upper ?u = k" by (simp add: in_sync_def)
  have "to_upper (bp_underlying q) = j \<and> ((view db)(?u := None)) (bp_underlying q) = Some (norm q)"
    if "(m(k := None)) j = Some q" for j q
  proof -
    from that have "j \<noteq> k" "m j = Some q" by (auto split: if_splits)
    with assms(2) k show ?thesis unfolding in_sync_def by (metis fun_upd_other)
  qed
  moreover have "\<exists>q. (m(k := None)) (to_upper u) = Some q \<and> bp_underlying q = u"
    if "((view db)(?u := None)) u = Some r" for u r
  proof -
    from that have u: "u \<noteq> ?u" "view db u = Some r" by (auto split: if_splits)
    from assms(2) u(2) obtain q where q: "m (to_upper u) = Some q" "bp_underlying q = u"
      unfolding in_sync_def by blast
    then have "to_upper u \<noteq> k" using u(1) assms(3) by auto
    then show ?thesis using q by simp
  qed
  ultimately show ?thesis unfolding in_sync_def close_view [OF assms(1)] by blast
qed

lemma in_sync_open:
  assumes "ready db" "mine p" "\<not> known db (bp_id p)" and "in_sync m db"
    and "m k = None" and "to_upper (bp_underlying p) = k"
  shows "in_sync (m(k \<mapsto> p)) (upsert p db)"
proof -
  have "view db (bp_underlying p) = None"
    using in_sync_fresh [OF assms(4)] assms(5,6) by simp
  note v = upsert_view [OF assms(1-3) this]
  let ?u = "bp_underlying p"
  have "to_upper (bp_underlying q) = j \<and> ((view db)(?u \<mapsto> norm p)) (bp_underlying q) = Some (norm q)"
    if "(m(k \<mapsto> p)) j = Some q" for j q
  proof (cases "j = k")
    case True
    with that assms(6) show ?thesis by simp
  next
    case False
    with that have "m j = Some q" by simp
    with assms(4,6) False show ?thesis unfolding in_sync_def by (metis fun_upd_other)
  qed
  moreover have "\<exists>q. (m(k \<mapsto> p)) (to_upper u) = Some q \<and> bp_underlying q = u"
    if "((view db)(?u \<mapsto> norm p)) u = Some r" for u r
  proof (cases "u = ?u")
    case False
    with that have "view db u = Some r" by simp
    with assms(4) obtain q where q: "m (to_upper u) = Some q" "bp_underlying q = u"
      unfolding in_sync_def by blast
    then show ?thesis using assms(5) by (cases "to_upper u = k") auto
  qed (simp add: assms(6))
  ultimately show ?thesis unfolding in_sync_def v by blast
qed

end

text \<open>The runtime's store for one agent provides this interface.\<close>

definition open_view :: "string \<Rightarrow> agent_db \<Rightarrow> string \<Rightarrow> basis_position option" where
  "open_view a db u = find (open_row_for a u) (ad_positions db)"

definition known_id :: "agent_db \<Rightarrow> string \<Rightarrow> bool" where
  "known_id db i \<longleftrightarrow> list_ex (\<lambda>x. bp_id x = i) (ad_positions db)"

lemma find_append: "find P (xs @ ys) = (case find P xs of None \<Rightarrow> find P ys | r \<Rightarrow> r)"
  by (induction xs) auto

lemma known_id_set: "known_id db i \<longleftrightarrow> i \<in> set (map bp_id (ad_positions db))"
  by (auto simp: known_id_def list_ex_iff)

lemma open_row_for_closed: "\<not> open_row_for a v (r\<lparr>bp_state := BasisClosed, bp_closed_at := Some t\<rparr>)"
  by (simp add: open_row_for_def open_state_def)

lemma open_row_for_same: "open_row_for a u r \<Longrightarrow> open_row_for a v r \<longleftrightarrow> v = u"
  by (auto simp: open_row_for_def)

lemma find_map_closed:
  "find (open_row_for a v) (map (\<lambda>r. if open_row_for a u r
       then r\<lparr>bp_state := BasisClosed, bp_closed_at := Some t\<rparr> else r) rs) =
     (if v = u then None else find (open_row_for a v) rs)"
proof (induction rs)
  case (Cons r rs)
  then show ?case using open_row_for_closed [of a v] open_row_for_same [of a u r v] by auto
qed simp

lemma close_open_view:
  "open_view a (snd (CloseBasis None t a u db)) = (open_view a db)(u := None)"
proof (cases "list_ex (open_row_for a u) (ad_positions db)")
  case True
  then show ?thesis
    by (auto simp: fun_eq_iff open_view_def CloseBasis_def find_map_closed)
next
  case False
  then have "find (open_row_for a u) (ad_positions db) = None"
    by (auto simp: find_None_iff list_ex_iff)
  with False show ?thesis by (auto simp: fun_eq_iff open_view_def CloseBasis_def)
qed

lemma upsert_new:
  assumes "has_agent db (bp_agent_id p)" "\<not> known_id db (bp_id p)" "bp_state p = BasisOpen"
    and "bp_opened_at p \<noteq> zero_time" and "open_view (bp_agent_id p) db (bp_underlying p) = None"
  shows "UpsertOpenBasis Q None now p db = (None, db\<lparr>ad_positions := ad_positions db @ [stored_basis Q p]\<rparr>)"
proof -
  have p: "p\<lparr>bp_state := (if bp_state p = BasisStateOther [] then BasisOpen else bp_state p),
             bp_opened_at := (if bp_opened_at p = zero_time then now else bp_opened_at p)\<rparr> = p"
    using assms(3,4) by simp
  have "find (\<lambda>x. bp_id x = bp_id p) (ad_positions db) = None"
    using assms(2) by (auto simp: known_id_def find_None_iff list_ex_iff)
  moreover have "\<not> list_ex (open_row_for (bp_agent_id p) (bp_underlying p)) (ad_positions db)"
    using assms(5) by (auto simp: open_view_def find_None_iff list_ex_iff)
  ultimately show ?thesis using assms(1)
    unfolding UpsertOpenBasis_def p by (simp add: Let_def)
qed

lemma upsert_has_agent: "has_agent (snd (UpsertOpenBasis Q fail now p db)) a = has_agent db a"
  by (cases rule: UpsertOpenBasis_cases [of Q fail now p db]) (simp_all add: has_agent_def)

lemma close_has_agent: "has_agent (snd (CloseBasis fail t a u db)) b = has_agent db b"
  by (simp add: CloseBasis_def has_agent_def split: option.splits)

interpretation agent_positions: position_store
  "open_view a" "\<lambda>p db. snd (UpsertOpenBasis Q None now p db)" "\<lambda>u db. snd (CloseBasis None t a u db)"
  known_id "\<lambda>db. positions_ok db \<and> has_agent db a" "stored_basis Q"
  "\<lambda>p. bp_agent_id p = a \<and> bp_state p = BasisOpen \<and> bp_opened_at p \<noteq> zero_time"
  for a Q now t
proof (unfold_locales, goal_cases)
  case (1 db u)
  show ?case by (rule close_open_view)
next
  case (2 db u)
  then show ?case by (simp add: CloseBasis_ok close_has_agent)
next
  case (3 u db)
  have "map bp_id (map (\<lambda>r. if open_row_for a u r
      then r\<lparr>bp_state := BasisClosed, bp_closed_at := Some t\<rparr> else r) (ad_positions db)) =
    map bp_id (ad_positions db)"
    by (rule map_key_update) simp
  then have "set (map bp_id (map (\<lambda>r. if open_row_for a u r
      then r\<lparr>bp_state := BasisClosed, bp_closed_at := Some t\<rparr> else r) (ad_positions db))) =
    set (map bp_id (ad_positions db))"
    by (rule arg_cong)
  then show ?case
    by (simp add: fun_eq_iff known_id_set CloseBasis_def del: set_map map_map)
next
  case (4 db p)
  then show ?case
    by (auto simp: upsert_new fun_eq_iff open_view_def find_append open_row_for_def open_state_def
        split: option.splits)
next
  case (5 db p)
  then show ?case by (simp add: UpsertOpenBasis_ok upsert_has_agent)
next
  case (6 db p)
  then show ?case by (auto simp: upsert_new fun_eq_iff known_id_def)
qed

section \<open>Properties of agents and ledgers\<close>

text \<open>
  What \<open>Create\<close> accepts, \<open>Get\<close> reads back: the returned agent, with the allocation as the
  column stores it and a nil configuration as the empty object. Its mode is paper or live,
  its network mainnet or testnet, its status is not empty, and its tick interval is positive and
  exact: the 32-bit column keeps the tick count far from the overflow of the interval.
\<close>

theorem create_get_roundtrip:
  assumes "store_Create Q fail now a db = (Inr b, db')"
  shows "store_Get None (ag_id a) db' = Inr (b\<lparr>ag_allocation_usdc := sq_num Q (ag_allocation_usdc b),
             ag_config := (if ag_config b = [] then ''{}'' else ag_config b)\<rparr>) \<and>
         ag_mode b \<in> {ModePaper, ModeLive} \<and> ag_network b \<in> {NetworkMainnet, NetworkTestnet} \<and>
         ag_status b \<noteq> StatusOther [] \<and> 0 < Interval b \<and>
         (0 < ag_tick_secs b \<longrightarrow> Interval b = ag_tick_secs b * nano_second)"
proof -
  from assms obtain m where m: "ParseMode (mode_str (ag_mode a)) = Inr m"
    by (auto simp: store_Create_def split: if_splits sum.splits)
  let ?st = "if ag_status a = StatusOther [] then StatusStopped else ag_status a"
  let ?nw = "if ag_network a = NetworkOther [] then NetworkMainnet else ag_network a"
  let ?b = "a\<lparr>ag_mode := m, ag_status := ?st, ag_network := ?nw, ag_created_at := now, ag_updated_at := now\<rparr>"
  from assms m have nw: "network_Validate ?nw = None"
    by (auto simp: store_Create_def Let_def split: if_splits option.splits)
  from assms m nw have fresh: "\<not> has_agent db (ag_id a)" and int4: "fits_int4 (ag_tick_secs a)" and b: "b = ?b"
    and db': "db' = db\<lparr>ad_agents := ad_agents db @ [?b\<lparr>ag_allocation_usdc := sq_num Q (ag_allocation_usdc a),
                  ag_config := (if ag_config a = [] then ''{}'' else ag_config a)\<rparr>]\<rparr>"
    by (auto simp: store_Create_def Let_def split: if_splits option.splits)
  have mode: "m = ModePaper \<or> m = ModeLive" using m by (auto simp: ParseMode_cases)
  then have again: "ParseMode (mode_str m) = Inr m" by (auto simp: ParseMode_cases)
  have none: "find (\<lambda>x. ag_id x = ag_id a) (ad_agents db) = None"
    using fresh by (auto simp: has_agent_def find_None_iff list_ex_iff)
  have "store_Get None (ag_id a) db' = Inr (b\<lparr>ag_allocation_usdc := sq_num Q (ag_allocation_usdc b),
             ag_config := (if ag_config b = [] then ''{}'' else ag_config b)\<rparr>)"
    unfolding store_Get_def db' b by (simp add: find_append none again)
  moreover have "ag_network b \<in> {NetworkMainnet, NetworkTestnet}"
    using nw unfolding b by (auto simp: network_Validate_def split: if_splits)
  moreover have "0 < Interval b \<and> (0 < ag_tick_secs b \<longrightarrow> Interval b = ag_tick_secs b * nano_second)"
    using int4 unfolding b by (auto simp: Interval_def fits_int4_def nano_second_def wrap64_id)
  ultimately show ?thesis using mode b by simp
qed

definition sample_agent :: agent where
  "sample_agent = zero_agent\<lparr>ag_id := ''a1'', ag_strategy := ''noop'', ag_tick_secs := 30\<rparr>"

theorem create_get_roundtrip_witness:
  "\<exists>b db'. store_Create reference_sql None 7 sample_agent empty_db = (Inr b, db') \<and>
      ag_mode b = ModePaper \<and> Interval b = 30 * nano_second \<and>
      store_Get None ''a1'' db' = Inr (b\<lparr>ag_allocation_usdc := sq_num reference_sql (ag_allocation_usdc b),
             ag_config := (if ag_config b = [] then ''{}'' else ag_config b)\<rparr>)"
proof -
  obtain b db' where c: "store_Create reference_sql None 7 sample_agent empty_db = (Inr b, db')"
    and b: "ag_mode b = ModePaper" "ag_tick_secs b = 30"
    by (simp add: store_Create_def sample_agent_def zero_agent_def ParseMode_def network_Validate_def
        has_agent_def empty_db_def fits_int4_def)
  from create_get_roundtrip [OF c] b c show ?thesis by (auto simp: sample_agent_def)
qed

text \<open>
  The swap ledger. Recording the same intent twice at one instant leaves one row. But a
  second, different intent for the same token pair at the same instant is refused, because
  the original primary key is still in force: its row is lost.
\<close>

theorem swap_ledger_dedupes_and_drops:
  assumes "PersistSwap Q None r db = (None, db1)" and "sw_client_id r \<noteq> None"
    and "\<not> list_ex (same_swap_client (stored_swap Q r)) (ad_swaps db)"
  shows "PersistSwap Q None r db1 = (None, db1) \<and>
      (same_swap_key (stored_swap Q r) (stored_swap Q r') \<and>
       \<not> list_ex (same_swap_client (stored_swap Q r')) (ad_swaps db1) \<longrightarrow>
         PersistSwap Q None r' db1 = (Some (Wrap ''agent: persist swap'' constraint_error), db1))"
proof (intro conjI impI)
  have self: "same_swap_client (stored_swap Q r) (stored_swap Q r)"
    using assms(2) by (simp add: same_swap_client_def stored_swap_def)
  show "PersistSwap Q None r db1 = (None, db1)"
    using assms(1) self by (auto simp: PersistSwap_def Let_def split: if_splits)
  assume kc: "same_swap_key (stored_swap Q r) (stored_swap Q r') \<and>
    \<not> list_ex (same_swap_client (stored_swap Q r')) (ad_swaps db1)"
  have "same_swap_key (stored_swap Q r') (stored_swap Q r)" using kc by (auto simp: same_swap_key_def)
  moreover have "stored_swap Q r \<in> set (ad_swaps db1)"
    using assms(1,3) by (auto simp: PersistSwap_def Let_def split: if_splits)
  ultimately have "list_ex (same_swap_key (stored_swap Q r')) (ad_swaps db1)"
    by (auto simp: list_ex_iff)
  then show "PersistSwap Q None r' db1 = (Some (Wrap ''agent: persist swap'' constraint_error), db1)"
    using kc by (simp add: PersistSwap_def Let_def)
qed

definition sample_swap_row :: swap_row where
  "sample_swap_row = \<lparr>sw_time = 5000, sw_agent_id = ''a1'', sw_decision_id = ''d1'', sw_chain = ''solana'',
     sw_dex = ''jupiter'', sw_in_token = ''USDC'', sw_out_token = ''WIF'', sw_in_amount = 10,
     sw_out_amount = 10, sw_slippage_bps = 50, sw_gas_paid = 0, sw_tx_hash = None,
     sw_status = ''confirmed'', sw_paper = True, sw_client_id = Some ''sw_1''\<rparr>"

theorem swap_ledger_dedupes_and_drops_witness:
  "let db1 = empty_db\<lparr>ad_swaps := [stored_swap reference_sql sample_swap_row]\<rparr>
   in PersistSwap reference_sql None sample_swap_row db1 = (None, db1) \<and>
      PersistSwap reference_sql None (sample_swap_row\<lparr>sw_client_id := Some ''sw_2''\<rparr>) db1 =
        (Some (Wrap ''agent: persist swap'' constraint_error), db1)"
  using swap_ledger_dedupes_and_drops [of reference_sql sample_swap_row empty_db
      "empty_db\<lparr>ad_swaps := [stored_swap reference_sql sample_swap_row]\<rparr>"
      "sample_swap_row\<lparr>sw_client_id := Some ''sw_2''\<rparr>"]
  by (simp add: PersistSwap_def Let_def empty_db_def stored_swap_def sample_swap_row_def
      same_swap_key_def same_swap_client_def)

end
