(* ===== verification/Pnl.thy ===== *)
theory Pnl
  imports Venues
begin

text \<open>
  \<open>internal/pnl/pnl.go\<close>: valuing open basis positions at the market. Venues are optional; a
  missing or failing venue degrades the valuation and never fails it.
\<close>

section \<open>Types\<close>

datatype valuation_status = ValuationOK | ValuationDegradedSpot | ValuationDegradedPerp | ValuationDegradedBoth

record basis_valuation =
  bv_basis_key :: string
  bv_underlying :: string
  bv_chain :: chain_id
  bv_opened_at :: time
  bv_spot_qty :: decimal
  bv_spot_mark :: decimal
  bv_spot_value :: decimal
  bv_spot_cost :: decimal
  bv_perp_size :: decimal
  bv_perp_entry :: decimal
  bv_perp_mark :: decimal
  bv_perp_unrealized :: decimal
  bv_funding :: decimal
  bv_gas :: decimal
  bv_net_unrealized :: decimal
  bv_status :: valuation_status

record agent_nav =
  an_time :: time
  an_agent_id :: string
  an_nav :: decimal
  an_spot_value :: decimal
  an_perp_unrealized :: decimal
  an_funding_accrued :: decimal
  an_realized_pnl :: decimal
  an_cumulative_gas :: decimal
  an_open_positions :: nat
  an_positions :: "basis_valuation list"

record pnl_history =
  ph_open_positions :: "basis_position list"
  ph_realized_pnl :: decimal
  ph_cumulative_gas :: decimal

record 'w pnl_engine =
  pe_perp :: "'w perp_venue option"
  pe_swaps :: "(chain_id \<times> 'w swap_venue) list"

section \<open>Helpers\<close>

text \<open>The last leg of each kind wins; the test is the one the code makes.\<close>

fun pnl_legs :: "basis_leg \<times> basis_leg \<Rightarrow> basis_leg list \<Rightarrow> basis_leg \<times> basis_leg" where
  "pnl_legs acc [] = acc"
| "pnl_legs (spot, perp) (l # ls) =
     (case lg_kind l of
        BasisLegSpot \<Rightarrow> pnl_legs (l, perp) ls
      | BasisLegPerp \<Rightarrow> pnl_legs (spot, l) ls
      | BasisLegOther _ \<Rightarrow> pnl_legs (spot, perp) ls)"

definition pnl_splitLegs :: "basis_leg list \<Rightarrow> basis_leg \<times> basis_leg \<times> bool" where
  "pnl_splitLegs legs =
     (let (spot, perp) = pnl_legs (zero_leg, zero_leg) legs
      in (spot, perp, (\<not> IsSpotChain (as_chain (lg_asset spot))) = False \<or> lg_symbol perp \<noteq> []))"

definition markFromPosition :: "declib \<Rightarrow> position \<Rightarrow> decimal" where
  "markFromPosition L p =
     (if po_qty p = 0 then po_entry_price p
      else po_entry_price p + d_div L (po_upnl p) (po_qty p))"

definition decideStatus :: "bool \<Rightarrow> bool \<Rightarrow> valuation_status" where
  "decideStatus got_spot got_perp =
     (if got_spot \<and> got_perp then ValuationOK
      else if got_spot \<and> \<not> got_perp then ValuationDegradedPerp
      else if \<not> got_spot \<and> got_perp then ValuationDegradedSpot
      else ValuationDegradedBoth)"

section \<open>One position\<close>

definition usdc_on :: "chain_id \<Rightarrow> asset" where
  "usdc_on c = \<lparr>as_symbol = ''USDC'', as_chain = c, as_mint = [], as_decimals = 6\<rparr>"

text \<open>The live spot mark: \<open>Some\<close> the quoted USDC when there is a venue and a positive quote.\<close>

definition spot_quote ::
  "'w pnl_engine \<Rightarrow> basis_leg \<Rightarrow> decimal \<Rightarrow> 'w \<Rightarrow> decimal option \<times> 'w" where
  "spot_quote e leg qty w =
     (case map_of (pe_swaps e) (as_chain (lg_asset leg)) of
        None \<Rightarrow> (None, w)
      | Some v \<Rightarrow>
          if \<not> 0 < qty then (None, w)
          else case sv_quote v \<lparr>qr_in_token = lg_asset leg,
                 qr_out_token = usdc_on (as_chain (lg_asset leg)), qr_amount = qty,
                 qr_mode = QuoteExactIn\<rparr> w of
              (Inl _, w') \<Rightarrow> (None, w')
            | (Inr q, w') \<Rightarrow> (if 0 < q_out_amount q then Some (q_out_amount q) else None, w'))"

definition valueOne ::
  "declib \<Rightarrow> 'w pnl_engine \<Rightarrow> basis_position \<Rightarrow> (string \<times> position) list \<Rightarrow> 'w
     \<Rightarrow> (go_error + basis_valuation) \<times> 'w" where
  "valueOne L e p perps w =
     (case pnl_splitLegs (bp_legs p) of (spot, perp, ok) \<Rightarrow>
      if \<not> ok then (Inl (Errorf ''basis position must have spot + perp legs''), w)
      else
        let qty = lg_qty perp; cost = lg_qty spot;
            (quoted, w') = spot_quote e spot qty w;
            spot_value = (case quoted of Some x \<Rightarrow> x | None \<Rightarrow> cost);
            spot_mark = (if 0 < qty then d_div L spot_value qty else 0);
            hp = map_of perps (lg_symbol perp);
            upnl = (case hp of Some h \<Rightarrow> po_upnl h | None \<Rightarrow> 0)
        in (Inr \<lparr>bv_basis_key = bp_underlying p, bv_underlying = bp_underlying p,
                 bv_chain = as_chain (lg_asset spot), bv_opened_at = bp_opened_at p,
                 bv_spot_qty = qty, bv_spot_mark = spot_mark, bv_spot_value = spot_value,
                 bv_spot_cost = cost, bv_perp_size = qty, bv_perp_entry = lg_avg_price perp,
                 bv_perp_mark = (case hp of Some h \<Rightarrow> markFromPosition L h | None \<Rightarrow> 0),
                 bv_perp_unrealized = upnl, bv_funding = bp_realized_funding p,
                 bv_gas = bp_realized_gas p,
                 bv_net_unrealized =
                   spot_value - cost + upnl + bp_realized_funding p - bp_realized_gas p,
                 bv_status = decideStatus (quoted \<noteq> None) (hp \<noteq> None)\<rparr>, w'))"

section \<open>The agent\<close>

fun value_all ::
  "declib \<Rightarrow> 'w pnl_engine \<Rightarrow> (string \<times> position) list \<Rightarrow> basis_position list \<Rightarrow> 'w
     \<Rightarrow> (go_error + basis_valuation list) \<times> 'w" where
  "value_all L e perps [] w = (Inr [], w)"
| "value_all L e perps (p # ps) w =
     (case valueOne L e p perps w of
        (Inl err, w') \<Rightarrow> (Inl (Wrap (''value basis '' @ bp_underlying p) err), w')
      | (Inr v, w') \<Rightarrow>
         (case value_all L e perps ps w' of
            (Inl err, w'') \<Rightarrow> (Inl err, w'')
          | (Inr vs, w'') \<Rightarrow> (Inr (v # vs), w'')))"

text \<open>A later position of the same symbol overwrites an earlier one in the Go map.\<close>

definition positions_by_symbol :: "position list \<Rightarrow> (string \<times> position) list" where
  "positions_by_symbol ps = foldl (\<lambda>m p. AList.update (po_symbol p) p m) [] ps"

definition perp_positions :: "'w pnl_engine \<Rightarrow> 'w \<Rightarrow> (string \<times> position) list \<times> 'w" where
  "perp_positions e w =
     (case pe_perp e of
        None \<Rightarrow> ([], w)
      | Some v \<Rightarrow> (case pv_positions v w of
            (Inl _, w') \<Rightarrow> ([], w')
          | (Inr ps, w') \<Rightarrow> (positions_by_symbol ps, w')))"

text \<open>
  \<open>srt\<close> is \<open>sort.Slice\<close> by underlying: a permutation whose underlyings are sorted, with ties in
  any order.
\<close>

definition ValueAgent ::
  "declib \<Rightarrow> (basis_valuation list \<Rightarrow> basis_valuation list) \<Rightarrow> time \<Rightarrow> 'w pnl_engine \<Rightarrow> string
     \<Rightarrow> pnl_history \<Rightarrow> 'w \<Rightarrow> (go_error + agent_nav) \<times> 'w" where
  "ValueAgent L srt now e agent_id h w =
     (let (perps, w1) = perp_positions e w
      in case value_all L e perps (ph_open_positions h) w1 of
           (Inl err, w2) \<Rightarrow> (Inl err, w2)
         | (Inr vs, w2) \<Rightarrow>
             (Inr \<lparr>an_time = now, an_agent_id = agent_id,
                   an_nav = ph_realized_pnl h + foldl (\<lambda>acc v. acc + bv_net_unrealized v) 0 vs,
                   an_spot_value = foldl (\<lambda>acc v. acc + bv_spot_value v) 0 vs,
                   an_perp_unrealized = foldl (\<lambda>acc v. acc + bv_perp_unrealized v) 0 vs,
                   an_funding_accrued = foldl (\<lambda>acc v. acc + bv_funding v) 0 vs,
                   an_realized_pnl = ph_realized_pnl h, an_cumulative_gas = ph_cumulative_gas h,
                   an_open_positions = length (ph_open_positions h), an_positions = srt vs\<rparr>, w2))"

section \<open>Lemmas\<close>

lemma foldl_plus_sum: "foldl (\<lambda>acc v. acc + f v) a vs = (a :: decimal) + (\<Sum>v\<leftarrow>vs. f v)"
  by (induction vs arbitrary: a) auto

lemma valueOne_identity:
  assumes "valueOne L e p perps w = (Inr v, w')"
  shows "bv_net_unrealized v = (bv_spot_value v - bv_spot_cost v) + bv_perp_unrealized v
           + bv_funding v - bv_gas v"
    and "bv_underlying v = bp_underlying p" "bv_gas v = bp_realized_gas p"
    "bv_funding v = bp_realized_funding p"
  using assms by (auto simp: valueOne_def Let_def split: if_splits prod.splits)

lemma value_all_length: "value_all L e perps ps w = (Inr vs, w') \<Longrightarrow> length vs = length ps"
proof (induction ps arbitrary: w vs w')
  case (Cons p ps)
  then show ?case by (auto split: prod.splits sum.splits)
qed simp

lemma value_all_identity:
  "value_all L e perps ps w = (Inr vs, w') \<Longrightarrow>
     (\<forall>v \<in> set vs. bv_net_unrealized v = (bv_spot_value v - bv_spot_cost v) + bv_perp_unrealized v
           + bv_funding v - bv_gas v) \<and>
     map bv_underlying vs = map bp_underlying ps"
proof (induction ps arbitrary: w vs w')
  case (Cons p ps)
  then obtain v w1 vs' w2 where v: "valueOne L e p perps w = (Inr v, w1)"
    and vs: "value_all L e perps ps w1 = (Inr vs', w2)" and eq: "vs = v # vs'"
    by (auto split: prod.splits sum.splits)
  from Cons.IH [OF vs] valueOne_identity [OF v] show ?case by (auto simp: eq)
qed simp

lemma sum_list_identity:
  assumes "\<forall>v \<in> set vs. f v = g v + h v + (k v :: decimal) - m v"
  shows "(\<Sum>v\<leftarrow>vs. f v) = (\<Sum>v\<leftarrow>vs. g v) + (\<Sum>v\<leftarrow>vs. h v) + (\<Sum>v\<leftarrow>vs. k v) - (\<Sum>v\<leftarrow>vs. m v)"
  using assms by (induction vs) auto

section \<open>Properties\<close>

text \<open>
  C13: The accounting identity of an agent valuation. On success the NAV is the realised P&L plus
  the aggregated marks: spot value less cost, perp unrealised, accrued funding, less the gas of
  the open positions; every open position is valued exactly once; and the aggregates are sums
  over the listed positions, whatever order the sort leaves ties in. The cumulative gas of
  the ledgers is reported but does not enter the NAV.
\<close>

theorem nav_identity:
  assumes "ValueAgent L srt now e agent_id h w = (Inr n, w')"
    and "\<And>vs. mset (srt vs) = mset vs"
  shows "an_nav n = an_realized_pnl n
           + ((\<Sum>v\<leftarrow>an_positions n. bv_spot_value v) - (\<Sum>v\<leftarrow>an_positions n. bv_spot_cost v))
           + an_perp_unrealized n + an_funding_accrued n - (\<Sum>v\<leftarrow>an_positions n. bv_gas v) \<and>
         an_spot_value n = (\<Sum>v\<leftarrow>an_positions n. bv_spot_value v) \<and>
         mset (map bv_underlying (an_positions n)) = mset (map bp_underlying (ph_open_positions h)) \<and>
         an_open_positions n = length (an_positions n)"
proof -
  from assms(1) obtain perps w1 vs where vs: "value_all L e perps (ph_open_positions h) w1 = (Inr vs, w')"
    and n: "n = \<lparr>an_time = now, an_agent_id = agent_id,
                   an_nav = ph_realized_pnl h + foldl (\<lambda>acc v. acc + bv_net_unrealized v) 0 vs,
                   an_spot_value = foldl (\<lambda>acc v. acc + bv_spot_value v) 0 vs,
                   an_perp_unrealized = foldl (\<lambda>acc v. acc + bv_perp_unrealized v) 0 vs,
                   an_funding_accrued = foldl (\<lambda>acc v. acc + bv_funding v) 0 vs,
                   an_realized_pnl = ph_realized_pnl h, an_cumulative_gas = ph_cumulative_gas h,
                   an_open_positions = length (ph_open_positions h), an_positions = srt vs\<rparr>"
    by (auto simp: ValueAgent_def Let_def split: prod.splits sum.splits)
  have sums: "(\<Sum>v\<leftarrow>srt vs. f v) = (\<Sum>v\<leftarrow>vs. f v)" for f :: "basis_valuation \<Rightarrow> decimal"
    using assms(2) [of vs] by (metis mset_map sum_mset_sum_list)
  have "length (srt vs) = length (ph_open_positions h)"
    using assms(2) [of vs] value_all_length [OF vs] by (metis mset_eq_length)
  moreover have "mset (map bv_underlying (srt vs)) = mset (map bp_underlying (ph_open_positions h))"
    using assms(2) [of vs] value_all_identity [OF vs] by (metis mset_map)
  moreover have "(\<Sum>v\<leftarrow>vs. bv_net_unrealized v) = (\<Sum>v\<leftarrow>vs. bv_spot_value v - bv_spot_cost v)
      + (\<Sum>v\<leftarrow>vs. bv_perp_unrealized v) + (\<Sum>v\<leftarrow>vs. bv_funding v) - (\<Sum>v\<leftarrow>vs. bv_gas v)"
    using value_all_identity [OF vs] by (intro sum_list_identity) simp
  ultimately show ?thesis
    by (simp add: n foldl_plus_sum sums sum_list_subtractf)
qed

definition sample_basis :: basis_position where
  "sample_basis = zero_basis\<lparr>bp_underlying := ''WIF'', bp_state := BasisOpen, bp_realized_gas := 2,
     bp_legs := [zero_leg\<lparr>lg_kind := BasisLegSpot, lg_qty := 100, lg_asset := zero_asset\<lparr>as_chain := ChainSolana\<rparr>\<rparr>,
                 zero_leg\<lparr>lg_kind := BasisLegPerp, lg_symbol := ''WIF'', lg_qty := 50, lg_avg_price := 2\<rparr>]\<rparr>"

definition sample_world :: noop_world where
  "sample_world = \<lparr>nw_placed = [], nw_cancels = [], nw_open_orders = [], nw_swaps = [], nw_now = 1000\<rparr>"

definition sample_engine :: "noop_world pnl_engine" where
  "sample_engine = \<lparr>pe_perp = Some noop_venue, pe_swaps = [(ChainSolana, noop_swap_venue)]\<rparr>"

lemmas sample_defs = sample_basis_def zero_basis_def zero_leg_def zero_asset_def sample_engine_def
  sample_world_def noop_venue_def noop_swap_venue_def noop_Quote_def

theorem nav_identity_witness:
  "\<exists>n w'. ValueAgent reference_declib (sort_key bv_underlying) 0 sample_engine ''a1''
      \<lparr>ph_open_positions = [sample_basis], ph_realized_pnl = 5, ph_cumulative_gas = 1\<rparr> sample_world = (Inr n, w') \<and>
    an_nav n = 5 + ((\<Sum>v\<leftarrow>an_positions n. bv_spot_value v) - (\<Sum>v\<leftarrow>an_positions n. bv_spot_cost v))
           + an_perp_unrealized n + an_funding_accrued n - (\<Sum>v\<leftarrow>an_positions n. bv_gas v)"
proof -
  obtain n w' where v: "ValueAgent reference_declib (sort_key bv_underlying) 0 sample_engine ''a1''
      \<lparr>ph_open_positions = [sample_basis], ph_realized_pnl = 5, ph_cumulative_gas = 1\<rparr> sample_world = (Inr n, w')"
    and r: "an_realized_pnl n = 5"
    by (simp add: ValueAgent_def perp_positions_def valueOne_def pnl_splitLegs_def IsSpotChain_def
        positions_by_symbol_def spot_quote_def usdc_on_def sample_defs)
  from nav_identity [OF v] r v show ?thesis by (intro exI conjI) auto
qed

definition legs_accepted :: "basis_position \<Rightarrow> bool" where
  "legs_accepted p \<longleftrightarrow>
     (let (spot, perp) = pnl_legs (zero_leg, zero_leg) (bp_legs p)
      in IsSpotChain (as_chain (lg_asset spot)) \<or> lg_symbol perp \<noteq> [])"

lemma valueOne_ok_iff: "(\<exists>v w'. valueOne L e p perps w = (Inr v, w')) \<longleftrightarrow> legs_accepted p"
  by (simp add: valueOne_def pnl_splitLegs_def legs_accepted_def Let_def split: prod.splits)

lemma value_all_ok_iff: "(\<exists>vs w'. value_all L e perps ps w = (Inr vs, w')) \<longleftrightarrow> list_all legs_accepted ps"
proof (induction ps arbitrary: w)
  case (Cons p ps)
  show ?case
  proof (cases "legs_accepted p")
    case True
    then obtain v w1 where v: "valueOne L e p perps w = (Inr v, w1)"
      using valueOne_ok_iff [of L e p perps w] by blast
    then have "(\<exists>vs w'. value_all L e perps (p # ps) w = (Inr vs, w')) \<longleftrightarrow>
        (\<exists>vs w'. value_all L e perps ps w1 = (Inr vs, w'))"
      by (auto split: prod.splits sum.splits)
    with Cons.IH [of w1] True show ?thesis by simp
  next
    case False
    then have "\<nexists>v w'. valueOne L e p perps w = (Inr v, w')"
      using valueOne_ok_iff [of L e p perps w] by blast
    with False show ?thesis by (auto split: prod.splits sum.splits)
  qed
qed simp

text \<open>
  A valuation fails only on malformed legs. Whatever the venues do (missing, failing,
  quoting nothing), the agent's valuation succeeds exactly when every open position has a spot
  leg on a spot chain or a perp leg with a symbol.
\<close>

theorem valuation_fails_iff_malformed:
  "(\<exists>n w'. ValueAgent L srt now e agent_id h w = (Inr n, w')) \<longleftrightarrow>
     list_all legs_accepted (ph_open_positions h)"
proof -
  obtain perps w1 where p: "perp_positions e w = (perps, w1)" by fastforce
  have "(\<exists>n w'. ValueAgent L srt now e agent_id h w = (Inr n, w')) \<longleftrightarrow>
      (\<exists>vs w'. value_all L e perps (ph_open_positions h) w1 = (Inr vs, w'))"
    by (auto simp: ValueAgent_def p split: prod.splits sum.splits)
  then show ?thesis by (simp only: value_all_ok_iff)
qed

end
