(* ===== verification/Runtime.thy ===== *)
theory Runtime
  imports Risk Store Pnl
begin

text \<open>
  \<open>internal/agent/runtime.go\<close>: the tick of one agent. The dependencies (\<open>Deps\<close>) are the record
  \<open>deps\<close>; the mutable fields of \<open>Runtime\<close>, the database and the world are the record \<open>rt_state\<close>,
  passed explicitly. The Go map \<open>openBasis\<close> is an association list whose order is the
  iteration order; the maps to \<open>true\<close> (\<open>swapOK\<close>, \<open>orderOK\<close>, \<open>inflightOpens\<close>) are lists of their keys.
  Logging is left out; it reads no state the code branches on.
\<close>

section \<open>Dependencies and state\<close>

record warmup_input =
  wi_agent_id :: string
  wi_universe :: "string list"
  wi_config :: string
  wi_now :: time

text \<open>
  \<open>dp_now\<close> is the runtime's clock function and \<open>dp_wall\<close> is \<open>time.Now\<close>; \<open>dp_query\<close> is the next query's outcome and the database clock; \<open>dp_hexsum\<close> the hex text of
  SHA-256; \<open>dp_json\<close> the JSON text of the valuations; \<open>dp_sort\<close> the \<open>sort.Slice\<close> by underlying.
\<close>

record 'w deps =
  dp_agent :: agent
  dp_warmup :: "warmup_input \<Rightarrow> 'w \<Rightarrow> go_error option \<times> 'w"
  dp_decide :: "decision_input \<Rightarrow> 'w \<Rightarrow> (go_error + decision) \<times> 'w"
  dp_perp :: "'w perp_venue option"
  dp_swaps :: "(chain_id \<times> 'w swap_venue) list"
  dp_risk :: "risk_ops option"
  dp_store :: bool
  dp_now :: "'w \<Rightarrow> time \<times> 'w"
  dp_wall :: "'w \<Rightarrow> time \<times> 'w"
  dp_uuid :: "'w \<Rightarrow> string \<times> 'w"
  dp_query :: "'w \<Rightarrow> (go_error option \<times> time) \<times> 'w"
  dp_lib :: declib
  dp_sql :: sqltypes
  dp_hexsum :: "string \<Rightarrow> string"
  dp_json :: "basis_valuation list \<Rightarrow> string"
  dp_sort :: "basis_valuation list \<Rightarrow> basis_valuation list"

record 'w rt_state =
  rs_world :: 'w
  rs_db :: agent_db
  rs_open :: "(string \<times> basis_position) list"
  rs_warmup :: "go_error option option"

definition on_world :: "('w \<Rightarrow> 'a \<times> 'w) \<Rightarrow> 'w rt_state \<Rightarrow> 'a \<times> 'w rt_state" where
  "on_world f st = (let (r, w') = f (rs_world st) in (r, st\<lparr>rs_world := w'\<rparr>))"

definition SwapVenueForChain :: "'w deps \<Rightarrow> chain_id \<Rightarrow> 'w swap_venue option" where
  "SwapVenueForChain d c = map_of (dp_swaps d) c"

section \<open>Keys and identifiers\<close>

definition swapBasisKey :: "swap_intent \<Rightarrow> string" where
  "swapBasisKey s =
     (if si_basis_key s \<noteq> [] then to_upper (si_basis_key s)
      else to_upper (as_symbol (si_out_token s)))"

definition orderBasisKey :: "order_intent \<Rightarrow> string" where
  "orderBasisKey o1 =
     (if oi_basis_key o1 \<noteq> [] then to_upper (oi_basis_key o1) else to_upper (oi_symbol o1))"

definition safeShortID :: "string \<Rightarrow> string" where
  "safeShortID i = (if 8 \<le> length i then take 8 i else i)"

definition swap_id_preimage :: "string \<Rightarrow> string \<Rightarrow> nat \<Rightarrow> swap_intent \<Rightarrow> string" where
  "swap_id_preimage agent_id dec_id slot s =
     agent_id @ ''|'' @ dec_id @ ''|'' @ nat_str slot @ ''|'' @ chain_str (si_chain s) @ ''|''
       @ as_mint (si_in_token s) @ ''|'' @ as_mint (si_out_token s)"

definition clientIDFromSwap ::
  "(string \<Rightarrow> string) \<Rightarrow> string \<Rightarrow> string \<Rightarrow> nat \<Rightarrow> swap_intent \<Rightarrow> string" where
  "clientIDFromSwap hexsum agent_id dec_id slot s =
     ''sw_'' @ take 24 (hexsum (swap_id_preimage agent_id dec_id slot s))"

definition decisionInputHash :: "(string \<Rightarrow> string) \<Rightarrow> decision_input \<Rightarrow> string" where
  "decisionInputHash hexsum i =
     take 16 (hexsum (di_agent_id i @ ''|'' @ int_str (di_now i) @ ''|''
       @ nat_str (length (di_perp_positions i)) @ ''|'' @ nat_str (length (di_spot_balances i)) @ ''|''
       @ nat_str (length (di_basis_positions i))))"

text \<open>Adding a key to a map to \<open>true\<close>.\<close>

definition add_key :: "string \<Rightarrow> string list \<Rightarrow> string list" where
  "add_key k ks = (if k \<in> set ks then ks else ks @ [k])"

lemma set_add_key [simp]: "set (add_key k ks) = insert k (set ks)"
  by (auto simp: add_key_def)

lemma distinct_add_key [simp]: "distinct ks \<Longrightarrow> distinct (add_key k ks)"
  by (auto simp: add_key_def)

section \<open>Ledger rows\<close>

definition recordSwapWithDEX ::
  "'w deps \<Rightarrow> time \<Rightarrow> string \<Rightarrow> swap_intent \<Rightarrow> string \<Rightarrow> string \<Rightarrow> swap_status \<Rightarrow> bool
     \<Rightarrow> decimal \<Rightarrow> decimal \<Rightarrow> 'w rt_state \<Rightarrow> 'w rt_state" where
  "recordSwapWithDEX d now dec_id s dex tx status paper out_amt gas st =
     (if \<not> dp_store d then st
      else
        let ((fail, _), st1) = on_world (dp_query d) st;
            row = \<lparr>sw_time = now, sw_agent_id = ag_id (dp_agent d), sw_decision_id = dec_id,
                   sw_chain = chain_str (si_chain s), sw_dex = (if dex = [] then ''noop'' else dex),
                   sw_in_token = as_symbol (si_in_token s), sw_out_token = as_symbol (si_out_token s),
                   sw_in_amount = si_in_amount s, sw_out_amount = out_amt,
                   sw_slippage_bps = si_slippage_bps s, sw_gas_paid = gas, sw_tx_hash = nz tx,
                   sw_status = swap_status_str status, sw_paper = paper,
                   sw_client_id = nz (si_client_id s)\<rparr>
        in st1\<lparr>rs_db := snd (PersistSwap (dp_sql d) fail row (rs_db st1))\<rparr>)"

definition recordOrder ::
  "'w deps \<Rightarrow> time \<Rightarrow> string \<Rightarrow> order_intent \<Rightarrow> string \<Rightarrow> order_status \<Rightarrow> bool
     \<Rightarrow> 'w rt_state \<Rightarrow> 'w rt_state" where
  "recordOrder d now dec_id o1 venue_id status paper st =
     (if \<not> dp_store d then st
      else
        let ((fail, _), st1) = on_world (dp_query d) st;
            row = \<lparr>or_time = now, or_agent_id = ag_id (dp_agent d), or_decision_id = dec_id,
                   or_venue = oi_venue o1, or_symbol = oi_symbol o1, or_side = side_str (oi_side o1),
                   or_type = order_type_str (oi_type o1), or_price = oi_price o1, or_size = oi_size o1,
                   or_tif = tif_str (oi_tif o1), or_reduce_only = oi_reduce_only o1,
                   or_client_id = oi_client_id o1, or_venue_id = nz venue_id,
                   or_status = order_status_str status, or_paper = paper\<rparr>
        in st1\<lparr>rs_db := snd (PersistOrder (dp_sql d) fail row (rs_db st1))\<rparr>)"

section \<open>Executing one intent\<close>

definition blocked :: "'w deps \<Rightarrow> intent \<Rightarrow> portfolio_snapshot \<Rightarrow> bool" where
  "blocked d i snap =
     (case dp_risk d of None \<Rightarrow> False
      | Some r \<Rightarrow> IsBlock (re_pre_trade r (ag_id (dp_agent d)) i snap))"

definition executeSwap ::
  "'w deps \<Rightarrow> time \<Rightarrow> string \<Rightarrow> nat \<Rightarrow> swap_intent \<Rightarrow> portfolio_snapshot \<Rightarrow> 'w rt_state
     \<Rightarrow> bool \<times> 'w rt_state" where
  "executeSwap d now dec_id slot s0 snap st =
     (let s = (if si_client_id s0 = []
               then s0\<lparr>si_client_id := clientIDFromSwap (dp_hexsum d) (ag_id (dp_agent d)) dec_id slot s0\<rparr>
               else s0)
      in if blocked d (IntentSwap s) snap then (False, st)
         else case SwapVenueForChain d (si_chain s) of
             None \<Rightarrow>
               (True, recordSwapWithDEX d now dec_id s [] [] SwapStatusConfirmed True (si_in_amount s) 0 st)
           | Some v \<Rightarrow>
               if ag_mode (dp_agent d) = ModePaper then
                 (True, recordSwapWithDEX d now dec_id s (sv_name v) [] SwapStatusConfirmed True (si_in_amount s) 0 st)
               else
                 let failed = (\<lambda>tx st'. (False, recordSwapWithDEX d now dec_id s (sv_name v) tx SwapStatusFailed False 0 0 st'))
                 in case on_world (sv_quote v \<lparr>qr_in_token = si_in_token s, qr_out_token = si_out_token s,
                          qr_amount = si_in_amount s, qr_mode = QuoteExactIn\<rparr>) st of
                      (Inl _, st1) \<Rightarrow> failed [] st1
                    | (Inr q, st1) \<Rightarrow>
                       (case on_world (sv_swap v q (si_slippage_bps s)) st1 of
                          (Inl _, st2) \<Rightarrow> failed [] st2
                        | (Inr tx, st2) \<Rightarrow>
                           (case on_world (sv_wait_confirm v tx) st2 of
                              (Inl _, st3) \<Rightarrow> failed tx st3
                            | (Inr res, st3) \<Rightarrow>
                               (sr_status res = SwapStatusConfirmed,
                                recordSwapWithDEX d now dec_id s (sv_name v) (sr_tx_hash res) (sr_status res)
                                  False (sr_out_amount res) (sr_gas_native res) st3))))"

definition executeOrder ::
  "'w deps \<Rightarrow> time \<Rightarrow> string \<Rightarrow> nat \<Rightarrow> order_intent \<Rightarrow> portfolio_snapshot \<Rightarrow> 'w rt_state
     \<Rightarrow> bool \<times> 'w rt_state" where
  "executeOrder d now dec_id slot o0 snap st =
     (let cid = (if oi_client_id o0 = []
                 then DeriveClientID (dp_lib d) (dp_hexsum d) (ag_id (dp_agent d)) dec_id slot
                        (oi_venue o0) (oi_symbol o0) (oi_side o0) (oi_size o0)
                 else oi_client_id o0);
          o1 = o0\<lparr>oi_client_id := cid, oi_decision_id := dec_id, oi_slot := slot\<rparr>
      in if blocked d (IntentOrder o1) snap then (False, st)
         else case dp_perp d of
             None \<Rightarrow> (True, recordOrder d now dec_id o1 [] OrderStatusOpen True st)
           | Some v \<Rightarrow>
               if ag_mode (dp_agent d) = ModePaper then
                 (True, recordOrder d now dec_id o1 [] OrderStatusOpen True st)
               else
                 (case on_world (pv_place v o1) st of
                    (Inl _, st1) \<Rightarrow> (False, recordOrder d now dec_id o1 [] OrderStatusRejected False st1)
                  | (Inr ack, st1) \<Rightarrow>
                      (oa_status ack \<noteq> OrderStatusRejected,
                       recordOrder d now dec_id o1 (oa_id ack) (oa_status ack) False st1)))"

definition executeCancel :: "'w deps \<Rightarrow> string \<Rightarrow> 'w rt_state \<Rightarrow> 'w rt_state" where
  "executeCancel d i st =
     (case dp_perp d of
        None \<Rightarrow> st
      | Some v \<Rightarrow>
          if ag_mode (dp_agent d) = ModePaper then st else snd (on_world (pv_cancel v i) st))"

section \<open>The risk snapshot\<close>

definition snapshotOpenBasis :: "'w rt_state \<Rightarrow> basis_position list" where
  "snapshotOpenBasis st = map snd (rs_open st)"

definition opening_phantom :: "string \<Rightarrow> basis_position" where
  "opening_phantom key = zero_basis\<lparr>bp_underlying := key, bp_state := BasisOpening\<rparr>"

definition riskSnapshot ::
  "'w deps \<Rightarrow> string list \<Rightarrow> string \<Rightarrow> 'w rt_state \<Rightarrow> portfolio_snapshot \<times> 'w rt_state" where
  "riskSnapshot d inflight exclude st =
     (let (t, st1) = on_world (dp_now d) st
      in (\<lparr>ps_time = t, ps_nav = 0, ps_high_water_mark = 0, ps_daily_pnl = 0,
           ps_open_basis = snapshotOpenBasis st1
             @ map opening_phantom (filter (\<lambda>k. k \<noteq> exclude) inflight),
           ps_perp_positions = [], ps_wallet_balances = [], ps_venue_balances = []\<rparr>, st1))"

section \<open>Reconciling the open positions\<close>

text \<open>\<open>None\<close> for \<open>swapOK\<close> or \<open>orderOK\<close> is the nil map, which the code reads as success.\<close>

definition leg_ok :: "string list option \<Rightarrow> string \<Rightarrow> bool" where
  "leg_ok ok key = (case ok of None \<Rightarrow> True | Some ks \<Rightarrow> key \<in> set ks)"

definition close_one ::
  "'w deps \<Rightarrow> string list option \<Rightarrow> order_intent \<Rightarrow> 'w rt_state \<Rightarrow> 'w rt_state" where
  "close_one d orderOK o1 st =
     (if \<not> oi_reduce_only o1 then st
      else
        let key = orderBasisKey o1
        in case map_of (rs_open st) key of
             None \<Rightarrow> st
           | Some bp \<Rightarrow>
               if \<not> leg_ok orderOK key then st
               else
                 let st1 = st\<lparr>rs_open := AList.delete key (rs_open st)\<rparr>
                 in if \<not> dp_store d then st1
                    else
                      let ((fail, dbnow), st2) = on_world (dp_query d) st1
                      in st2\<lparr>rs_db := snd (CloseBasis fail dbnow (ag_id (dp_agent d)) (bp_underlying bp) (rs_db st2))\<rparr>)"

fun close_all ::
  "'w deps \<Rightarrow> string list option \<Rightarrow> order_intent list \<Rightarrow> 'w rt_state \<Rightarrow> 'w rt_state" where
  "close_all d orderOK [] st = st"
| "close_all d orderOK (o1 # os) st = close_all d orderOK os (close_one d orderOK o1 st)"

definition swapsByKey :: "swap_intent list \<Rightarrow> (string \<times> swap_intent) list" where
  "swapsByKey ss =
     foldl (\<lambda>m s. if isOpeningSwap s then AList.update (swapBasisKey s) s m else m) [] ss"

definition opened_basis ::
  "string \<Rightarrow> time \<Rightarrow> string \<Rightarrow> string \<Rightarrow> swap_intent \<Rightarrow> order_intent \<Rightarrow> basis_position" where
  "opened_basis agent_id now dec_id key s o1 =
     zero_basis\<lparr>bp_id := ''bp:'' @ agent_id @ '':'' @ key @ '':'' @ safeShortID dec_id,
       bp_agent_id := agent_id,
       bp_underlying := (if oi_basis_key o1 \<noteq> [] then oi_basis_key o1 else oi_symbol o1),
       bp_state := BasisOpen, bp_opened_at := now,
       bp_legs := [zero_leg\<lparr>lg_kind := BasisLegSpot, lg_asset := si_out_token s, lg_qty := si_in_amount s\<rparr>,
                   zero_leg\<lparr>lg_kind := BasisLegPerp, lg_symbol := oi_symbol o1, lg_qty := oi_size o1,
                            lg_avg_price := oi_price o1\<rparr>]\<rparr>"

definition open_one ::
  "'w deps \<Rightarrow> time \<Rightarrow> string \<Rightarrow> (string \<times> swap_intent) list \<Rightarrow> string list option \<Rightarrow> string list option
     \<Rightarrow> order_intent \<Rightarrow> 'w rt_state \<Rightarrow> 'w rt_state" where
  "open_one d now dec_id swaps swapOK orderOK o1 st =
     (if oi_reduce_only o1 \<or> oi_side o1 \<noteq> SideSell then st
      else
        let key = orderBasisKey o1
        in case map_of swaps key of
             None \<Rightarrow> st
           | Some s \<Rightarrow>
               if map_of (rs_open st) key \<noteq> None then st
               else if \<not> leg_ok swapOK key \<or> \<not> leg_ok orderOK key then st
               else
                 let bp = opened_basis (ag_id (dp_agent d)) now dec_id key s o1;
                     st1 = st\<lparr>rs_open := AList.update key bp (rs_open st)\<rparr>
                 in if \<not> dp_store d then st1
                    else
                      let ((fail, _), st2) = on_world (dp_query d) st1;
                          (wall, st3) = on_world (dp_wall d) st2
                      in st3\<lparr>rs_db := snd (UpsertOpenBasis (dp_sql d) fail wall bp (rs_db st3))\<rparr>)"

fun open_all ::
  "'w deps \<Rightarrow> time \<Rightarrow> string \<Rightarrow> (string \<times> swap_intent) list \<Rightarrow> string list option \<Rightarrow> string list option
     \<Rightarrow> order_intent list \<Rightarrow> 'w rt_state \<Rightarrow> 'w rt_state" where
  "open_all d now dec_id swaps swapOK orderOK [] st = st"
| "open_all d now dec_id swaps swapOK orderOK (o1 # os) st =
     open_all d now dec_id swaps swapOK orderOK os (open_one d now dec_id swaps swapOK orderOK o1 st)"

definition reconcileOpenBasis ::
  "'w deps \<Rightarrow> time \<Rightarrow> string \<Rightarrow> decision \<Rightarrow> string list option \<Rightarrow> string list option
     \<Rightarrow> 'w rt_state \<Rightarrow> 'w rt_state" where
  "reconcileOpenBasis d now dec_id dec swapOK orderOK st =
     open_all d now dec_id (swapsByKey (dc_swaps dec)) swapOK orderOK (dc_orders dec)
       (close_all d orderOK (dc_orders dec) st)"

section \<open>Swaps, then orders, then cancels\<close>

text \<open>The loop state: \<open>swapOK\<close>, \<open>orderOK\<close> and \<open>inflightOpens\<close>.\<close>

fun run_swaps ::
  "'w deps \<Rightarrow> time \<Rightarrow> string \<Rightarrow> nat \<Rightarrow> swap_intent list \<Rightarrow> string list \<times> string list \<Rightarrow> 'w rt_state
     \<Rightarrow> (string list \<times> string list) \<times> 'w rt_state" where
  "run_swaps d now dec_id i [] acc st = (acc, st)"
| "run_swaps d now dec_id i (s # ss) (swapOK, inflight) st =
     (let (snap, st1) = riskSnapshot d inflight [] st;
          (ok, st2) = executeSwap d now dec_id i s snap st1;
          key = swapBasisKey s
      in run_swaps d now dec_id (Suc i) ss
           (if ok then (add_key key swapOK, if isOpeningSwap s then add_key key inflight else inflight)
            else (swapOK, inflight)) st2)"

definition order_opens :: "order_intent \<Rightarrow> bool" where
  "order_opens o1 \<longleftrightarrow> \<not> oi_reduce_only o1 \<and> oi_side o1 = SideSell"

fun run_orders ::
  "'w deps \<Rightarrow> time \<Rightarrow> string \<Rightarrow> nat \<Rightarrow> order_intent list \<Rightarrow> string list \<Rightarrow> string list \<times> string list
     \<Rightarrow> 'w rt_state \<Rightarrow> (string list \<times> string list) \<times> 'w rt_state" where
  "run_orders d now dec_id i [] swapOK acc st = (acc, st)"
| "run_orders d now dec_id i (o1 # os) swapOK (orderOK, inflight) st =
     (let key = orderBasisKey o1;
          exclude = (if order_opens o1 \<and> key \<in> set inflight then key else []);
          (snap, st1) = riskSnapshot d inflight exclude st;
          (ok, st2) = executeOrder d now dec_id i o1 snap st1
      in run_orders d now dec_id (Suc i) os swapOK
           (if ok then (add_key key orderOK,
                        if order_opens o1 \<and> key \<notin> set swapOK then add_key key inflight else inflight)
            else (orderOK, inflight)) st2)"

fun run_cancels :: "'w deps \<Rightarrow> string list \<Rightarrow> 'w rt_state \<Rightarrow> 'w rt_state" where
  "run_cancels d [] st = st"
| "run_cancels d (c # cs) st = run_cancels d cs (executeCancel d c st)"

definition executeSwapsThenOrders ::
  "'w deps \<Rightarrow> time \<Rightarrow> string \<Rightarrow> decision \<Rightarrow> 'w rt_state \<Rightarrow> 'w rt_state" where
  "executeSwapsThenOrders d now dec_id dec st =
     (let ((swapOK, inflight), st1) = run_swaps d now dec_id 0 (dc_swaps dec) ([], []) st;
          ((orderOK, _), st2) = run_orders d now dec_id 0 (dc_orders dec) swapOK ([], inflight) st1;
          st3 = run_cancels d (dc_cancels dec) st2
      in reconcileOpenBasis d now dec_id dec (Some swapOK) (Some orderOK) st3)"

section \<open>The tick\<close>

definition Warmup :: "'w deps \<Rightarrow> 'w rt_state \<Rightarrow> go_error option \<times> 'w rt_state" where
  "Warmup d st =
     (case rs_warmup st of
        Some r \<Rightarrow> (r, st)
      | None \<Rightarrow>
          let (now, st1) = on_world (dp_now d) st;
              (r, st2) = on_world (dp_warmup d \<lparr>wi_agent_id = ag_id (dp_agent d),
                 wi_universe = ag_universe (dp_agent d), wi_config = ag_config (dp_agent d),
                 wi_now = now\<rparr>) st1
          in (r, st2\<lparr>rs_warmup := Some r\<rparr>))"

definition persistDecision ::
  "'w deps \<Rightarrow> time \<Rightarrow> string \<Rightarrow> decision_input \<Rightarrow> decision \<Rightarrow> 'w rt_state \<Rightarrow> 'w rt_state" where
  "persistDecision d now dec_id inp dec st =
     (if \<not> dp_store d then st
      else
        let ((fail, _), st1) = on_world (dp_query d) st;
            row = \<lparr>dr_time = now, dr_agent_id = ag_id (dp_agent d), dr_decision_id = dec_id,
                   dr_input_hash = decisionInputHash (dp_hexsum d) inp, dr_decision = dec,
                   dr_rationale = dc_notes dec, dr_provider = None, dr_model = None,
                   dr_tokens_in = 0, dr_tokens_out = 0, dr_latency_ms = 0, dr_cost_usd = 0\<rparr>
        in st1\<lparr>rs_db := snd (PersistDecision (dp_sql d) fail row (rs_db st1))\<rparr>)"

definition persistNAVSnapshot :: "'w deps \<Rightarrow> time \<Rightarrow> 'w rt_state \<Rightarrow> 'w rt_state" where
  "persistNAVSnapshot d now st =
     (if \<not> dp_store d then st
      else
        let agent = ag_id (dp_agent d);
            ((f1, _), st1) = on_world (dp_query d) st;
            ((f2, _), st2) = (if f1 = None then on_world (dp_query d) st1 else ((None, 0), st1))
        in case AggregatesForAgent (f1, f2) agent (rs_db st2) of
             Inl _ \<Rightarrow> st2
           | Inr agg \<Rightarrow>
              (let (wall, st3) = on_world (dp_wall d) st2
               in case on_world (ValueAgent (dp_lib d) (dp_sort d) wall
                        \<lparr>pe_perp = dp_perp d, pe_swaps = dp_swaps d\<rparr> agent
                        \<lparr>ph_open_positions = snapshotOpenBasis st3,
                         ph_realized_pnl = pa_realized_pnl agg,
                         ph_cumulative_gas = pa_cumulative_gas agg\<rparr>) st3 of
                    (Inl _, st4) \<Rightarrow> st4
                  | (Inr nav, st4) \<Rightarrow>
                     (let ((f3, _), st5) = on_world (dp_query d) st4;
                          row = \<lparr>nr_time = now, nr_agent_id = agent, nr_nav = an_nav nav,
                                 nr_spot_value = an_spot_value nav,
                                 nr_perp_unrealized = an_perp_unrealized nav,
                                 nr_funding_accrued = an_funding_accrued nav,
                                 nr_realized_pnl = an_realized_pnl nav,
                                 nr_cumulative_gas = an_cumulative_gas nav,
                                 nr_open_positions = int (an_open_positions nav),
                                 nr_positions_json = dp_json d (an_positions nav)\<rparr>
                      in st5\<lparr>rs_db := snd (PersistNAVSnapshot (dp_sql d) f3 row (rs_db st5))\<rparr>)))"

text \<open>Prices of the swap venues that expose them; a later venue overwrites an earlier one.\<close>

fun merge_market ::
  "'w deps \<Rightarrow> (chain_id \<times> 'w swap_venue) list \<Rightarrow> (string \<times> symbol_snap) list \<Rightarrow> 'w rt_state
     \<Rightarrow> (string \<times> symbol_snap) list \<times> 'w rt_state" where
  "merge_market d [] m st = (m, st)"
| "merge_market d ((c, v) # vs) m st =
     (case sv_market_snapshot v of
        None \<Rightarrow> merge_market d vs m st
      | Some f \<Rightarrow>
         (case on_world (f (ag_universe (dp_agent d))) st of
            (Inl _, st1) \<Rightarrow> merge_market d vs m st1
          | (Inr extra, st1) \<Rightarrow>
              merge_market d vs (foldl (\<lambda>m (k, snap). AList.update k snap m) m extra) st1))"

definition buildDecisionInput :: "'w deps \<Rightarrow> time \<Rightarrow> 'w rt_state \<Rightarrow> decision_input \<times> 'w rt_state" where
  "buildDecisionInput d now st =
     (let basis = snapshotOpenBasis st;
          (pos, cash, syms, st1) =
            (case dp_perp d of
               None \<Rightarrow> ([], [], [], st)
             | Some v \<Rightarrow>
                (let (rp, s1) = on_world (pv_positions v) st;
                     (rb, s2) = on_world (pv_balances v) s1;
                     (rf, s3) = on_world (pv_funding_rates v (ag_universe (dp_agent d))) s2
                 in (case rp of Inl _ \<Rightarrow> [] | Inr ps \<Rightarrow> ps,
                     case rb of Inl _ \<Rightarrow> []
                     | Inr bs \<Rightarrow> foldl (\<lambda>m b. AList.update ''hyperliquid'' b m) [] bs,
                     case rf of Inl _ \<Rightarrow> []
                     | Inr frs \<Rightarrow> foldl (\<lambda>m fr. AList.update (fr_symbol fr)
                         \<lparr>ss_tick = zero_tick, ss_book = zero_book, ss_funding = fr\<rparr> m) [] frs,
                     s3)));
          (syms', st2) = merge_market d (dp_swaps d) syms st1
      in (\<lparr>di_agent_id = ag_id (dp_agent d), di_now = now,
           di_market = \<lparr>ms_time = now, ms_symbols = syms'\<rparr>, di_perp_positions = pos,
           di_spot_balances = [], di_basis_positions = basis, di_cash = cash,
           di_limits = zero_limits\<rparr>, st2))"

definition tickOnce :: "'w deps \<Rightarrow> 'w rt_state \<Rightarrow> (go_error + decision) \<times> 'w rt_state" where
  "tickOnce d st =
     (case Warmup d st of
        (Some e, st1) \<Rightarrow> (Inl (Wrap ''strategy warmup'' e), st1)
      | (None, st1) \<Rightarrow>
         (let (now, st2) = on_world (dp_now d) st1;
              (inp, st3) = buildDecisionInput d now st2
          in case on_world (dp_decide d inp) st3 of
               (Inl e, st4) \<Rightarrow> (Inl e, st4)
             | (Inr dec, st4) \<Rightarrow>
                (let (dec_id, st5) = on_world (dp_uuid d) st4;
                     st6 = persistDecision d now dec_id inp dec st5;
                     st7 = executeSwapsThenOrders d now dec_id dec st6;
                     st8 = persistNAVSnapshot d now st7
                 in (Inr dec, st8))))"

section \<open>Construction and ticks of a run\<close>

definition hydrate :: "basis_position list \<Rightarrow> (string \<times> basis_position) list" where
  "hydrate ps = foldl (\<lambda>m p. AList.update (to_upper (bp_underlying p)) p m) [] ps"

definition NewRuntime :: "'w deps \<Rightarrow> agent_db \<Rightarrow> 'w \<Rightarrow> 'w rt_state" where
  "NewRuntime d db w =
     (let st = \<lparr>rs_world = w, rs_db = db, rs_open = [], rs_warmup = None\<rparr>
      in if \<not> dp_store d then st
         else
           let ((fail, _), st1) = on_world (dp_query d) st
           in case LoadOpenBasis fail (ag_id (dp_agent d)) (rs_db st1) of
                Inl _ \<Rightarrow> st1
              | Inr ps \<Rightarrow> st1\<lparr>rs_open := hydrate ps\<rparr>)"

fun ticks :: "'w deps \<Rightarrow> nat \<Rightarrow> 'w rt_state \<Rightarrow> 'w rt_state" where
  "ticks d 0 st = st"
| "ticks d (Suc n) st = ticks d n (snd (tickOnce d st))"

end
