(* ===== verification/RuntimeCap.thy ===== *)
theory RuntimeCap
  imports Runtime
begin

text \<open>
  The runtime and its position cap: executing the intents of a tick leaves the open
  positions alone until the final reconciliation, every accepted opening swap found the
  portfolio below the cap, and so no tick ends with more positions than the cap (or than it
  started with). The lemmas about the engine are proved in the locale \<open>capped_engine\<close>.
\<close>

section \<open>What each step leaves alone\<close>

lemma on_world_frame [simp]:
  "rs_open (snd (on_world f st)) = rs_open st" "rs_db (snd (on_world f st)) = rs_db st"
  "rs_warmup (snd (on_world f st)) = rs_warmup st"
  by (simp_all add: on_world_def split: prod.splits)

lemma on_world_eqD:
  "on_world f st = (r, st') \<Longrightarrow> rs_open st' = rs_open st \<and> rs_db st' = rs_db st \<and> rs_warmup st' = rs_warmup st"
  using on_world_frame [of f st] by simp

lemma recordSwap_open [simp]:
  "rs_open (recordSwapWithDEX d now i s dex tx status paper out gas st) = rs_open st"
  by (auto simp: recordSwapWithDEX_def Let_def dest: on_world_eqD split: prod.splits)

lemma recordOrder_open [simp]: "rs_open (recordOrder d now i o1 v status paper st) = rs_open st"
  by (auto simp: recordOrder_def Let_def dest: on_world_eqD split: prod.splits)

lemma executeSwap_open [simp]: "rs_open (snd (executeSwap d now i slot s snap st)) = rs_open st"
  by (auto simp: executeSwap_def Let_def dest!: on_world_eqD split: option.splits prod.splits sum.splits)

lemma executeOrder_open [simp]: "rs_open (snd (executeOrder d now i slot o1 snap st)) = rs_open st"
  by (auto simp: executeOrder_def Let_def dest!: on_world_eqD split: option.splits prod.splits sum.splits)

lemma executeCancel_open [simp]: "rs_open (executeCancel d c st) = rs_open st"
  by (simp add: executeCancel_def split: option.splits)

lemma riskSnapshot_open:
  "riskSnapshot d inflight ex st = (snap, st1) \<Longrightarrow>
     rs_open st1 = rs_open st \<and>
     ps_open_basis snap = map snd (rs_open st) @ map opening_phantom (filter (\<lambda>k. k \<noteq> ex) inflight)"
  by (auto simp: riskSnapshot_def snapshotOpenBasis_def dest!: on_world_eqD split: prod.splits)

lemma run_swaps_open: "rs_open (snd (run_swaps d now i n ss acc st)) = rs_open st"
proof (induction ss arbitrary: n acc st)
  case (Cons s ss)
  obtain swapOK inflight where acc: "acc = (swapOK, inflight)" by fastforce
  obtain snap st1 where sn: "riskSnapshot d inflight [] st = (snap, st1)" by fastforce
  obtain ok st2 where ex: "executeSwap d now i n s snap st1 = (ok, st2)" by fastforce
  have "rs_open st2 = rs_open st"
    using riskSnapshot_open [OF sn] executeSwap_open [of d now i n s snap st1] ex by simp
  with Cons.IH show ?case by (simp add: acc sn ex Let_def)
qed simp

lemma run_orders_open: "rs_open (snd (run_orders d now i n os swapOK acc st)) = rs_open st"
proof (induction os arbitrary: n acc st)
  case (Cons o1 os)
  obtain orderOK inflight where acc: "acc = (orderOK, inflight)" by fastforce
  let ?ex = "if order_opens o1 \<and> orderBasisKey o1 \<in> set inflight then orderBasisKey o1 else []"
  obtain snap st1 where sn: "riskSnapshot d inflight ?ex st = (snap, st1)" by fastforce
  obtain ok st2 where ex: "executeOrder d now i n o1 snap st1 = (ok, st2)" by fastforce
  have "rs_open st2 = rs_open st"
    using riskSnapshot_open [OF sn] executeOrder_open [of d now i n o1 snap st1] ex by simp
  with Cons.IH show ?case by (simp add: acc sn ex Let_def)
qed simp

lemma run_cancels_open [simp]: "rs_open (run_cancels d cs st) = rs_open st"
  by (induction cs arbitrary: st) simp_all

section \<open>Keys of the open positions\<close>

lemma close_one_open:
  "rs_open (close_one d ok o1 st) =
     (if oi_reduce_only o1 \<and> map_of (rs_open st) (orderBasisKey o1) \<noteq> None \<and> leg_ok ok (orderBasisKey o1)
      then AList.delete (orderBasisKey o1) (rs_open st) else rs_open st)"
  by (auto simp: close_one_def Let_def dest!: on_world_eqD split: option.splits prod.splits)

lemma open_one_open:
  "rs_open (open_one d now i swaps sOK oOK o1 st) =
     (if order_opens o1 \<and> map_of swaps (orderBasisKey o1) \<noteq> None \<and>
         map_of (rs_open st) (orderBasisKey o1) = None \<and>
         leg_ok sOK (orderBasisKey o1) \<and> leg_ok oOK (orderBasisKey o1)
      then AList.update (orderBasisKey o1)
             (opened_basis (ag_id (dp_agent d)) now i (orderBasisKey o1)
               (the (map_of swaps (orderBasisKey o1))) o1) (rs_open st)
      else rs_open st)"
  by (auto simp: open_one_def order_opens_def Let_def dest!: on_world_eqD split: option.splits prod.splits)

abbreviation open_keys_of :: "'w rt_state \<Rightarrow> string set" where
  "open_keys_of st \<equiv> set (map fst (rs_open st))"

lemma close_one_keys:
  assumes "distinct (map fst (rs_open st))"
  shows "distinct (map fst (rs_open (close_one d ok o1 st))) \<and>
     open_keys_of (close_one d ok o1 st) \<subseteq> open_keys_of st"
  using assms by (simp add: close_one_open distinct_delete delete_keys distinct_removeAll del: set_map)

lemma close_all_keys:
  "distinct (map fst (rs_open st)) \<Longrightarrow>
     distinct (map fst (rs_open (close_all d ok os st))) \<and> open_keys_of (close_all d ok os st) \<subseteq> open_keys_of st"
proof (induction os arbitrary: st)
  case (Cons o1 os)
  from close_one_keys [OF Cons.prems, of d ok o1] Cons.IH [of "close_one d ok o1 st"]
  show ?case unfolding close_all.simps by (meson subset_trans)
qed simp

text \<open>A key that \<open>open_one\<close> adds belongs to an opening swap and both its legs are marked OK.\<close>

definition openable :: "(string \<times> swap_intent) list \<Rightarrow> string list option \<Rightarrow> string list option \<Rightarrow> string set" where
  "openable swaps sOK oOK = {k. map_of swaps k \<noteq> None \<and> leg_ok sOK k \<and> leg_ok oOK k}"

lemma open_one_keys:
  assumes "distinct (map fst (rs_open st))"
  shows "distinct (map fst (rs_open (open_one d now i swaps sOK oOK o1 st))) \<and>
     open_keys_of (open_one d now i swaps sOK oOK o1 st) \<subseteq> open_keys_of st \<union> openable swaps sOK oOK"
  using assms by (simp add: open_one_open distinct_update update_keys openable_def del: set_map)

lemma open_all_keys:
  assumes "distinct (map fst (rs_open st))"
  shows "distinct (map fst (rs_open (open_all d now i swaps sOK oOK os st))) \<and>
     open_keys_of (open_all d now i swaps sOK oOK os st) \<subseteq> open_keys_of st \<union> openable swaps sOK oOK"
  using assms
proof (induction os arbitrary: st)
  case (Cons o1 os)
  from open_one_keys [OF Cons.prems, of d now i swaps sOK oOK o1]
    Cons.IH [of "open_one d now i swaps sOK oOK o1 st"]
  show ?case unfolding open_all.simps by blast
qed simp

lemma reconcile_keys:
  assumes "distinct (map fst (rs_open st))"
  shows "distinct (map fst (rs_open (reconcileOpenBasis d now i dec sOK oOK st))) \<and>
     open_keys_of (reconcileOpenBasis d now i dec sOK oOK st)
       \<subseteq> open_keys_of st \<union> openable (swapsByKey (dc_swaps dec)) sOK oOK"
proof -
  let ?c = "close_all d oOK (dc_orders dec) st"
  have "distinct (map fst (rs_open ?c))" "open_keys_of ?c \<subseteq> open_keys_of st"
    using close_all_keys [OF assms, of d oOK "dc_orders dec"] by blast+
  then show ?thesis
    using open_all_keys [of ?c d now i "swapsByKey (dc_swaps dec)" sOK oOK "dc_orders dec"]
    unfolding reconcileOpenBasis_def by blast
qed

lemma swapsByKey_fold:
  "map_of (foldl (\<lambda>m s. if isOpeningSwap s then AList.update (swapBasisKey s) s m else m) m ss) k \<noteq> None \<longleftrightarrow>
     map_of m k \<noteq> None \<or> (\<exists>s \<in> set ss. isOpeningSwap s \<and> swapBasisKey s = k)"
  by (induction ss arbitrary: m) (auto simp: update_conv)

lemma swapsByKey_iff:
  "map_of (swapsByKey ss) k \<noteq> None \<longleftrightarrow> (\<exists>s \<in> set ss. isOpeningSwap s \<and> swapBasisKey s = k)"
  unfolding swapsByKey_def using swapsByKey_fold [of "[]" ss k] by simp

section \<open>The cap\<close>

text \<open>
  No basis key is shared by an opening swap and another kind of swap, and opening swaps have
  a key: the intents of a decision can be told apart by their keys.
\<close>

definition separate_keys :: "swap_intent list \<Rightarrow> bool" where
  "separate_keys ss \<longleftrightarrow>
     (\<forall>s \<in> set ss. isOpeningSwap s \<longrightarrow> swapBasisKey s \<noteq> [] \<and>
        (\<forall>t \<in> set ss. swapBasisKey t = swapBasisKey s \<longrightarrow> isOpeningSwap t))"

lemma separate_keysD:
  assumes "separate_keys ss" "s \<in> set ss" "isOpeningSwap s" "t \<in> set ss"
    and "swapBasisKey t = swapBasisKey s"
  shows "isOpeningSwap t"
proof -
  have "\<forall>t \<in> set ss. swapBasisKey t = swapBasisKey s \<longrightarrow> isOpeningSwap t"
    using bspec [OF assms(1) [unfolded separate_keys_def] assms(2)] assms(3) by (elim impE conjE)
  from bspec [OF this assms(4)] show ?thesis using assms(5) by (rule mp)
qed

lemma executeSwap_accepted:
  assumes "executeSwap d now i slot s snap st = (True, st')"
  shows "\<exists>cid. \<not> blocked d (IntentSwap (s\<lparr>si_client_id := cid\<rparr>)) snap"
proof (cases "si_client_id s = []")
  case True
  with assms show ?thesis by (auto simp: executeSwap_def Let_def split: if_splits)
next
  case False
  then have "\<not> blocked d (IntentSwap s) snap"
    using assms by (auto simp: executeSwap_def Let_def split: if_splits)
  then have "\<not> blocked d (IntentSwap (s\<lparr>si_client_id := si_client_id s\<rparr>)) snap" by simp
  then show ?thesis by blast
qed

lemma isOpeningSwap_cid [simp]: "isOpeningSwap (s\<lparr>si_client_id := c\<rparr>) = isOpeningSwap s"
  by (simp add: isOpeningSwap_def)

context capped_engine
begin

lemma accepted_opening_below_cap:
  assumes "dp_risk d = Some R" and "0 < max_concurrent_positions (re_limits R)"
    and "executeSwap d now i slot s snap st = (True, st')" and "isOpeningSwap s"
  shows "int (Suc (length (ps_open_basis snap))) \<le> max_concurrent_positions (re_limits R)"
proof -
  from executeSwap_accepted [OF assms(3)] obtain cid where
    "\<not> blocked d (IntentSwap (s\<lparr>si_client_id := cid\<rparr>)) snap" by blast
  then have nb: "\<not> IsBlock (re_pre_trade R (ag_id (dp_agent d)) (IntentSwap (s\<lparr>si_client_id := cid\<rparr>)) snap)"
    using assms(1) by (simp add: blocked_def)
  have "isOpeningSwap (s\<lparr>si_client_id := cid\<rparr>)" using assms(4) by simp
  then show ?thesis using opening_intent_below_cap [OF assms(2) nb] by blast
qed

lemma run_swaps_cap:
  assumes "dp_risk d = Some R" and "0 < max_concurrent_positions (re_limits R)"
    and "\<forall>s \<in> set ss. isOpeningSwap s \<longrightarrow> swapBasisKey s \<noteq> []"
    and "[] \<notin> set inflight"
    and "int (length (rs_open st) + length inflight) \<le>
           max (max_concurrent_positions (re_limits R)) (int (length (rs_open st)))"
    and "run_swaps d now i n ss (swapOK, inflight) st = ((swapOK', inflight'), st')"
  shows "int (length (rs_open st) + length inflight') \<le>
           max (max_concurrent_positions (re_limits R)) (int (length (rs_open st))) \<and>
         set inflight \<subseteq> set inflight' \<and>
         set swapOK' \<subseteq> set swapOK \<union> {swapBasisKey s | s. s \<in> set ss \<and> \<not> isOpeningSwap s} \<union> set inflight'"
  using assms(3-)
proof (induction ss arbitrary: n swapOK inflight st)
  case Nil
  then show ?case by auto
next
  case (Cons s ss)
  obtain snap st1 where sn: "riskSnapshot d inflight [] st = (snap, st1)" by fastforce
  obtain ok st2 where ex: "executeSwap d now i n s snap st1 = (ok, st2)" by fastforce
  have op: "rs_open st1 = rs_open st" "rs_open st2 = rs_open st"
    using riskSnapshot_open [OF sn] executeSwap_open [of d now i n s snap st1] ex by simp_all
  have "filter (\<lambda>k. k \<noteq> []) inflight = inflight"
    using Cons.prems(2) by (intro filter_True) auto
  then have len: "length (ps_open_basis snap) = length (rs_open st) + length inflight"
    using riskSnapshot_open [OF sn] by simp
  let ?key = "swapBasisKey s"
  let ?sOK = "if ok then add_key ?key swapOK else swapOK"
  let ?inf = "if ok \<and> isOpeningSwap s then add_key ?key inflight else inflight"
  have run: "run_swaps d now i (Suc n) ss (?sOK, ?inf) st2 = ((swapOK', inflight'), st')"
    using Cons.prems(4) by (simp add: sn ex Let_def split: if_splits)
  have bound: "int (length (rs_open st) + length ?inf) \<le>
           max (max_concurrent_positions (re_limits R)) (int (length (rs_open st)))"
  proof (cases "ok \<and> isOpeningSwap s")
    case True
    then have "int (Suc (length (rs_open st) + length inflight)) \<le> max_concurrent_positions (re_limits R)"
      using accepted_opening_below_cap [OF assms(1,2), of now i n s snap st1 st2] ex len by simp
    then show ?thesis by (auto simp: add_key_def)
  next
    case False
    then show ?thesis using Cons.prems(3) by auto
  qed
  have "[] \<notin> set ?inf" using Cons.prems(1,2) by auto
  moreover have "\<forall>t \<in> set ss. isOpeningSwap t \<longrightarrow> swapBasisKey t \<noteq> []" using Cons.prems(1) by simp
  ultimately have IH: "int (length (rs_open st) + length inflight') \<le>
           max (max_concurrent_positions (re_limits R)) (int (length (rs_open st))) \<and>
         set ?inf \<subseteq> set inflight' \<and>
         set swapOK' \<subseteq> set ?sOK \<union> {swapBasisKey t | t. t \<in> set ss \<and> \<not> isOpeningSwap t} \<union> set inflight'"
    using Cons.IH [of ?inf st2 "Suc n" ?sOK] bound run op by simp
  then show ?case by (auto split: if_splits)
qed

text \<open>The tick's execution never ends above the cap, nor above where it started.\<close>

lemma execute_cap:
  assumes "dp_risk d = Some R" and "0 < max_concurrent_positions (re_limits R)"
    and "separate_keys (dc_swaps dec)" and "distinct (map fst (rs_open st))"
  shows "distinct (map fst (rs_open (executeSwapsThenOrders d now i dec st))) \<and>
         int (length (rs_open (executeSwapsThenOrders d now i dec st))) \<le>
           max (max_concurrent_positions (re_limits R)) (int (length (rs_open st)))"
proof -
  obtain swapOK inflight st1 where r1: "run_swaps d now i 0 (dc_swaps dec) ([], []) st = ((swapOK, inflight), st1)"
    by (metis prod.collapse)
  obtain orderOK inf2 st2 where r2: "run_orders d now i 0 (dc_orders dec) swapOK ([], inflight) st1 = ((orderOK, inf2), st2)"
    by (metis prod.collapse)
  let ?st3 = "run_cancels d (dc_cancels dec) st2"
  let ?out = "reconcileOpenBasis d now i dec (Some swapOK) (Some orderOK) ?st3"
  have op: "rs_open ?st3 = rs_open st"
    using run_swaps_open [of d now i 0 "dc_swaps dec" "([], [])" st] r1
      run_orders_open [of d now i 0 "dc_orders dec" swapOK "([], inflight)" st1] r2 by simp
  have named: "\<forall>s \<in> set (dc_swaps dec). isOpeningSwap s \<longrightarrow> swapBasisKey s \<noteq> []"
    using assms(3) by (simp add: separate_keys_def)
  note rc = run_swaps_cap [OF assms(1,2) named _ _ r1]
  have b: "int (length (rs_open st) + length inflight) \<le>
           max (max_concurrent_positions (re_limits R)) (int (length (rs_open st)))"
    and sub: "set swapOK \<subseteq> {swapBasisKey s | s. s \<in> set (dc_swaps dec) \<and> \<not> isOpeningSwap s} \<union> set inflight"
    using rc by simp_all
  have "openable (swapsByKey (dc_swaps dec)) (Some swapOK) (Some orderOK) \<subseteq> set inflight"
  proof
    fix k
    assume "k \<in> openable (swapsByKey (dc_swaps dec)) (Some swapOK) (Some orderOK)"
    then have n: "map_of (swapsByKey (dc_swaps dec)) k \<noteq> None" and k: "k \<in> set swapOK"
      by (simp_all add: openable_def leg_ok_def)
    from n obtain s where s: "s \<in> set (dc_swaps dec)" "isOpeningSwap s" "swapBasisKey s = k"
      unfolding swapsByKey_iff by blast
    have "k \<notin> {swapBasisKey s | s. s \<in> set (dc_swaps dec) \<and> \<not> isOpeningSwap s}"
      using separate_keysD [OF assms(3) s(1,2)] s(3) by auto
    then show "k \<in> set inflight" using sub k by auto
  qed
  then have keys: "open_keys_of ?out \<subseteq> open_keys_of st \<union> set inflight" and dist: "distinct (map fst (rs_open ?out))"
    using reconcile_keys [of ?st3 d now i dec "Some swapOK" "Some orderOK", unfolded op, OF assms(4)]
    by (elim conjE; auto simp del: set_map)+
  have "length (rs_open ?out) = card (open_keys_of ?out)"
    using distinct_card [OF dist] by simp
  also have "\<dots> \<le> card (open_keys_of st \<union> set inflight)" by (rule card_mono [OF _ keys]) simp
  also have "\<dots> \<le> card (open_keys_of st) + card (set inflight)" by (rule card_Un_le)
  also have "\<dots> \<le> length (rs_open st) + length inflight"
    using card_length [of "map fst (rs_open st)"] card_length [of inflight] by simp
  finally show ?thesis using b dist
    by (simp add: executeSwapsThenOrders_def r1 r2 Let_def)
qed

end

section \<open>Ticks\<close>

lemma Warmup_open: "rs_open (snd (Warmup d st)) = rs_open st"
  by (auto simp: Warmup_def Let_def dest!: on_world_eqD split: option.splits prod.splits)

lemma merge_market_open: "rs_open (snd (merge_market d vs m st)) = rs_open st"
  by (induction d vs m st rule: merge_market.induct)
    (auto dest!: on_world_eqD split: option.splits prod.splits sum.splits)

lemma merge_market_openD: "merge_market d vs m st = (r, st') \<Longrightarrow> rs_open st' = rs_open st"
  using merge_market_open [of d vs m st] by simp

lemma buildDecisionInput_open: "rs_open (snd (buildDecisionInput d now st)) = rs_open st"
  by (auto simp: buildDecisionInput_def Let_def dest!: on_world_eqD merge_market_openD
      split: option.splits prod.splits)

lemma persistDecision_open [simp]: "rs_open (persistDecision d now i inp dec st) = rs_open st"
  by (auto simp: persistDecision_def Let_def dest!: on_world_eqD split: prod.splits)

lemma persistNAVSnapshot_open [simp]: "rs_open (persistNAVSnapshot d now st) = rs_open st"
  by (auto simp: persistNAVSnapshot_def Let_def dest!: on_world_eqD split: prod.splits sum.splits if_splits)

text \<open>The open positions after a tick are those before it, or those its execution leaves.\<close>

lemma tickOnce_open:
  "rs_open (snd (tickOnce d st)) = rs_open st \<or>
   (\<exists>now i inp dec st' w w'. dp_decide d inp w = (Inr dec, w') \<and> rs_open st' = rs_open st \<and>
      rs_open (snd (tickOnce d st)) = rs_open (executeSwapsThenOrders d now i dec st'))"
proof -
  obtain r st1 where w: "Warmup d st = (r, st1)" by fastforce
  have o1: "rs_open st1 = rs_open st" using Warmup_open [of d st] w by simp
  show ?thesis
  proof (cases r)
    case (Some e)
    then show ?thesis using w o1 by (simp add: tickOnce_def)
  next
    case None
    obtain now st2 where n: "on_world (dp_now d) st1 = (now, st2)" by fastforce
    obtain inp st3 where b: "buildDecisionInput d now st2 = (inp, st3)" by fastforce
    obtain res st4 where dd: "on_world (dp_decide d inp) st3 = (res, st4)" by fastforce
    have o4: "rs_open st4 = rs_open st"
      using on_world_eqD [OF n] buildDecisionInput_open [of d now st2] b on_world_eqD [OF dd] o1 by simp
    show ?thesis
    proof (cases res)
      case (Inl e)
      then show ?thesis using w None n b dd o4 by (simp add: tickOnce_def)
    next
      case (Inr dec)
      obtain i st5 where u: "on_world (dp_uuid d) st4 = (i, st5)" by fastforce
      let ?st6 = "persistDecision d now i inp dec st5"
      have "rs_open ?st6 = rs_open st" using on_world_eqD [OF u] o4 by simp
      moreover have "\<exists>w'. dp_decide d inp (rs_world st3) = (Inr dec, w')"
        using dd Inr by (auto simp: on_world_def split: prod.splits)
      moreover have "rs_open (snd (tickOnce d st)) = rs_open (executeSwapsThenOrders d now i dec ?st6)"
        using w None n b dd Inr u by (simp add: tickOnce_def)
      ultimately show ?thesis by blast
    qed
  qed
qed


section \<open>A concrete agent\<close>

text \<open>A paper agent over the no-op venues whose strategy always decides \<open>dec\<close>.\<close>

definition sample_deps :: "risk_ops option \<Rightarrow> decision \<Rightarrow> noop_world deps" where
  "sample_deps R dec = \<lparr>dp_agent = sample_agent\<lparr>ag_mode := ModePaper\<rparr>, dp_warmup = (\<lambda>_ w. (None, w)),
     dp_decide = (\<lambda>_ w. (Inr dec, w)), dp_perp = Some noop_venue, dp_swaps = [], dp_risk = R,
     dp_store = True, dp_now = (\<lambda>w. (nw_now w, w)), dp_wall = (\<lambda>w. (nw_now w, w)),
     dp_uuid = (\<lambda>w. (''0123456789'', w)), dp_query = (\<lambda>w. ((None, nw_now w), w)),
     dp_lib = reference_declib, dp_sql = reference_sql, dp_hexsum = (\<lambda>s. s),
     dp_json = (\<lambda>_. ''[]''), dp_sort = sort_key bv_underlying\<rparr>"

definition cap_one :: policy where
  "cap_one = NewPolicy (zero_limits\<lparr>max_concurrent_positions := 1\<rparr>) []"

definition usdc_sol :: asset where
  "usdc_sol = \<lparr>as_symbol = ''USDC'', as_chain = ChainSolana, as_mint = ''EPj'', as_decimals = 6\<rparr>"

definition wif_sol :: asset where
  "wif_sol = \<lparr>as_symbol = ''WIF'', as_chain = ChainSolana, as_mint = ''EKp'', as_decimals = 6\<rparr>"

definition swap_of :: "string \<Rightarrow> asset \<Rightarrow> asset \<Rightarrow> swap_intent" where
  "swap_of key a b = zero_swap\<lparr>si_chain := ChainSolana, si_in_token := a, si_out_token := b,
     si_in_amount := 100, si_basis_key := key\<rparr>"

definition perp_of :: "string \<Rightarrow> side \<Rightarrow> bool \<Rightarrow> order_intent" where
  "perp_of key sd reduce = zero_order\<lparr>oi_symbol := ''WIF'', oi_side := sd, oi_size := 50, oi_price := 2,
     oi_reduce_only := reduce, oi_basis_key := key\<rparr>"

definition two_opens :: decision where
  "two_opens = zero_decision\<lparr>dc_swaps := [swap_of ''A'' usdc_sol wif_sol, swap_of ''B'' usdc_sol wif_sol],
     dc_orders := [perp_of ''A'' SideSell False, perp_of ''B'' SideSell False]\<rparr>"

definition start_state :: "(string \<times> basis_position) list \<Rightarrow> noop_world rt_state" where
  "start_state ps = \<lparr>rs_world = sample_world, rs_db = empty_db\<lparr>ad_agents := [sample_agent]\<rparr>,
     rs_open = ps, rs_warmup = None\<rparr>"


definition rotation :: decision where
  "rotation = zero_decision\<lparr>dc_swaps := [swap_of ''WIF'' wif_sol usdc_sol, swap_of ''WIF'' usdc_sol wif_sol],
     dc_orders := [perp_of ''WIF'' SideBuy True, perp_of ''WIF'' SideSell False]\<rparr>"

lemmas concrete_defs = sample_deps_def sample_agent_def zero_agent_def cap_one_def NewPolicy_def zero_limits_def
  policy_engine_def usdc_sol_def wif_sol_def swap_of_def perp_of_def zero_swap_def zero_order_def zero_decision_def
  start_state_def sample_world_def empty_db_def

lemmas runtime_defs = executeSwapsThenOrders_def riskSnapshot_def on_world_def snapshotOpenBasis_def
  executeSwap_def executeOrder_def recordSwapWithDEX_def recordOrder_def blocked_def SwapVenueForChain_def
  reconcileOpenBasis_def close_one_def open_one_def swapsByKey_def opened_basis_def opening_phantom_def
  PersistSwap_def PersistOrder_def CloseBasis_def UpsertOpenBasis_def leg_ok_def order_opens_def
  swapBasisKey_def orderBasisKey_def isOpeningSwap_def add_key_def

text \<open>
  Why the keys must be kept apart. In one tick an agent at its cap closes a position and
  asks to reopen the same key; both opening legs are blocked by the risk engine and neither is sent
  or recorded. Because the success flags are kept by key, the closing swap and the reduce-only
  order stand in for them: the runtime drops the old position and records a new open one.
\<close>

theorem blocked_open_is_recorded:
  "let d = sample_deps (Some (policy_engine reference_declib cap_one)) rotation;
       st' = executeSwapsThenOrders d 1000 ''0123456789'' rotation
               (start_state [(''WIF'', zero_basis\<lparr>bp_underlying := ''WIF''\<rparr>)])
   in map bp_id (map snd (rs_open st')) = [''bp:a1:WIF:01234567''] \<and>
      map bp_state (map snd (rs_open st')) = [BasisOpen] \<and>
      map or_reduce_only (ad_orders (rs_db st')) = [True] \<and>
      map sw_out_token (ad_swaps (rs_db st')) = [''USDC'']"
  by (simp add: Let_def rotation_def concrete_defs runtime_defs verdict_defs checkOrder_def checkSwap_def
      at_position_cap_def stored_swap_def stored_order_def to_upper_def upper_char_def zero_basis_def
      safeShortID_def noop_venue_def)

end
