(* ===== verification/RuntimeOrder.thy ===== *)
theory RuntimeOrder
  imports RuntimeCap
begin

text \<open>
  The order in which a tick calls the venues. \<open>log_deps\<close> wraps every venue so that each call that
  can trade is appended to a log; the theorems are about the log that the unchanged runtime code
  produces over the wrapped venues, for arbitrary venues underneath.
\<close>

section \<open>Venues that keep a log\<close>

datatype venue_call = CallQuote | CallSwap | CallConfirm | CallPlace order_intent | CallCancel string

fun is_swap_call :: "venue_call \<Rightarrow> bool" where
  "is_swap_call CallQuote = True"
| "is_swap_call CallSwap = True"
| "is_swap_call CallConfirm = True"
| "is_swap_call (CallPlace _) = False"
| "is_swap_call (CallCancel _) = False"

fun is_place_call :: "venue_call \<Rightarrow> bool" where
  "is_place_call (CallPlace _) = True"
| "is_place_call _ = False"

definition logged :: "venue_call \<Rightarrow> ('w \<Rightarrow> 'a \<times> 'w) \<Rightarrow> 'w \<times> venue_call list \<Rightarrow> 'a \<times> ('w \<times> venue_call list)" where
  "logged c f wl = (let (r, w') = f (fst wl) in (r, (w', snd wl @ [c])))"

definition silent :: "('w \<Rightarrow> 'a \<times> 'w) \<Rightarrow> 'w \<times> venue_call list \<Rightarrow> 'a \<times> ('w \<times> venue_call list)" where
  "silent f wl = (let (r, w') = f (fst wl) in (r, (w', snd wl)))"

definition log_perp :: "'w perp_venue \<Rightarrow> ('w \<times> venue_call list) perp_venue" where
  "log_perp v = \<lparr>pv_name = pv_name v, pv_place = (\<lambda>o1. logged (CallPlace o1) (pv_place v o1)),
     pv_cancel = (\<lambda>i. logged (CallCancel i) (pv_cancel v i)), pv_open_orders = silent (pv_open_orders v),
     pv_positions = silent (pv_positions v), pv_balances = silent (pv_balances v),
     pv_funding_rates = (\<lambda>u. silent (pv_funding_rates v u))\<rparr>"

definition log_swap :: "'w swap_venue \<Rightarrow> ('w \<times> venue_call list) swap_venue" where
  "log_swap v = \<lparr>sv_name = sv_name v, sv_chain = sv_chain v, sv_quote = (\<lambda>q. logged CallQuote (sv_quote v q)),
     sv_swap = (\<lambda>q b. logged CallSwap (sv_swap v q b)),
     sv_wait_confirm = (\<lambda>t. logged CallConfirm (sv_wait_confirm v t)),
     sv_balance = (\<lambda>a. silent (sv_balance v a)),
     sv_market_snapshot = map_option (\<lambda>f u. silent (f u)) (sv_market_snapshot v)\<rparr>"

definition log_deps :: "'w deps \<Rightarrow> ('w \<times> venue_call list) deps" where
  "log_deps d = \<lparr>dp_agent = dp_agent d, dp_warmup = (\<lambda>i. silent (dp_warmup d i)),
     dp_decide = (\<lambda>i. silent (dp_decide d i)), dp_perp = map_option log_perp (dp_perp d),
     dp_swaps = map (\<lambda>(c, v). (c, log_swap v)) (dp_swaps d), dp_risk = dp_risk d,
     dp_store = dp_store d, dp_now = silent (dp_now d), dp_wall = silent (dp_wall d),
     dp_uuid = silent (dp_uuid d), dp_query = silent (dp_query d), dp_lib = dp_lib d,
     dp_sql = dp_sql d, dp_hexsum = dp_hexsum d, dp_json = dp_json d, dp_sort = dp_sort d\<rparr>"

abbreviation log_of :: "('w \<times> venue_call list) rt_state \<Rightarrow> venue_call list" where
  "log_of st \<equiv> snd (rs_world st)"

lemma log_deps_sel [simp]:
  "dp_agent (log_deps d) = dp_agent d" "dp_risk (log_deps d) = dp_risk d" "dp_store (log_deps d) = dp_store d"
  "dp_perp (log_deps d) = map_option log_perp (dp_perp d)" "dp_now (log_deps d) = silent (dp_now d)"
  "dp_query (log_deps d) = silent (dp_query d)" "dp_wall (log_deps d) = silent (dp_wall d)"
  by (simp_all add: log_deps_def)

lemma log_deps_swap [simp]: "SwapVenueForChain (log_deps d) c = map_option log_swap (SwapVenueForChain d c)"
  by (simp add: SwapVenueForChain_def log_deps_def map_of_map)

lemma silent_log: "on_world (silent f) st = (r, st') \<Longrightarrow> log_of st' = log_of st"
  by (auto simp: on_world_def silent_def Let_def split: prod.splits)

lemma logged_log: "on_world (logged c f) st = (r, st') \<Longrightarrow> log_of st' = log_of st @ [c]"
  by (auto simp: on_world_def logged_def Let_def split: prod.splits)

lemma logged_log_snd: "log_of (snd (on_world (logged c f) st)) = log_of st @ [c]"
  by (simp add: on_world_def logged_def Let_def split: prod.splits)

lemma recordSwap_log [simp]:
  "log_of (recordSwapWithDEX (log_deps d) now i s dex tx status paper out gas st) = log_of st"
  by (auto simp: recordSwapWithDEX_def Let_def dest: silent_log split: prod.splits)

lemma recordOrder_log [simp]: "log_of (recordOrder (log_deps d) now i o1 v status paper st) = log_of st"
  by (auto simp: recordOrder_def Let_def dest: silent_log split: prod.splits)

lemma riskSnapshot_log: "riskSnapshot (log_deps d) inflight ex st = (snap, st1) \<Longrightarrow> log_of st1 = log_of st"
  by (auto simp: riskSnapshot_def dest!: silent_log split: prod.splits)

lemma close_one_log [simp]: "log_of (close_one (log_deps d) ok o1 st) = log_of st"
  by (auto simp: close_one_def Let_def dest!: silent_log split: option.splits prod.splits)

lemma close_all_log [simp]: "log_of (close_all (log_deps d) ok os st) = log_of st"
  by (induction os arbitrary: st) simp_all

lemma open_one_log [simp]: "log_of (open_one (log_deps d) now i swaps sOK oOK o1 st) = log_of st"
  by (auto simp: open_one_def Let_def dest!: silent_log split: option.splits prod.splits)

lemma open_all_log [simp]: "log_of (open_all (log_deps d) now i swaps sOK oOK os st) = log_of st"
  by (induction os arbitrary: st) simp_all

lemma reconcile_log [simp]: "log_of (reconcileOpenBasis (log_deps d) now i dec sOK oOK st) = log_of st"
  by (simp add: reconcileOpenBasis_def)

section \<open>The log of each step\<close>

lemma executeSwap_log:
  "\<exists>a. log_of (snd (executeSwap (log_deps d) now i slot s snap st)) = log_of st @ a \<and> list_all is_swap_call a \<and>
     (ag_mode (dp_agent d) = ModePaper \<longrightarrow> a = [])"
  by (auto simp: executeSwap_def Let_def log_swap_def dest!: logged_log
      split: option.splits prod.splits sum.splits)

lemma executeOrder_log:
  "\<exists>b. log_of (snd (executeOrder (log_deps d) now i slot o1 snap st)) = log_of st @ b \<and> list_all is_place_call b \<and>
     length b \<le> 1 \<and> (ag_mode (dp_agent d) = ModePaper \<longrightarrow> b = [])"
  by (auto simp: executeOrder_def Let_def log_perp_def dest!: logged_log
      split: option.splits prod.splits sum.splits)

lemma run_swaps_log:
  "\<exists>a. log_of (snd (run_swaps (log_deps d) now i n ss acc st)) = log_of st @ a \<and> list_all is_swap_call a \<and>
     (ag_mode (dp_agent d) = ModePaper \<longrightarrow> a = [])"
proof (induction ss arbitrary: n acc st)
  case Nil
  show ?case by simp
next
  case (Cons s ss)
  obtain swapOK inflight where acc: "acc = (swapOK, inflight)" by fastforce
  obtain snap st1 where sn: "riskSnapshot (log_deps d) inflight [] st = (snap, st1)" by fastforce
  obtain ok st2 where ex: "executeSwap (log_deps d) now i n s snap st1 = (ok, st2)" by fastforce
  from executeSwap_log [of d now i n s snap st1] ex obtain a where
    a: "log_of st2 = log_of st @ a" "list_all is_swap_call a" "ag_mode (dp_agent d) = ModePaper \<longrightarrow> a = []"
    using riskSnapshot_log [OF sn] by auto
  let ?acc = "if ok then (add_key (swapBasisKey s) swapOK,
      if isOpeningSwap s then add_key (swapBasisKey s) inflight else inflight) else (swapOK, inflight)"
  from Cons.IH [of "Suc n" ?acc st2] obtain b where
    "log_of (snd (run_swaps (log_deps d) now i (Suc n) ss ?acc st2)) = log_of st2 @ b" "list_all is_swap_call b"
    "ag_mode (dp_agent d) = ModePaper \<longrightarrow> b = []" by blast
  with a show ?case by (intro exI [of _ "a @ b"]) (simp add: acc sn ex Let_def)
qed

lemma run_orders_log:
  "\<exists>b. log_of (snd (run_orders (log_deps d) now i n os swapOK acc st)) = log_of st @ b \<and> list_all is_place_call b \<and>
     length b \<le> length os \<and> (ag_mode (dp_agent d) = ModePaper \<longrightarrow> b = [])"
proof (induction os arbitrary: n acc st)
  case Nil
  show ?case by simp
next
  case (Cons o1 os)
  obtain orderOK inflight where acc: "acc = (orderOK, inflight)" by fastforce
  let ?ex = "if order_opens o1 \<and> orderBasisKey o1 \<in> set inflight then orderBasisKey o1 else []"
  obtain snap st1 where sn: "riskSnapshot (log_deps d) inflight ?ex st = (snap, st1)" by fastforce
  obtain ok st2 where ex: "executeOrder (log_deps d) now i n o1 snap st1 = (ok, st2)" by fastforce
  from executeOrder_log [of d now i n o1 snap st1] ex obtain a where
    a: "log_of st2 = log_of st @ a" "list_all is_place_call a" "length a \<le> 1" "ag_mode (dp_agent d) = ModePaper \<longrightarrow> a = []"
    using riskSnapshot_log [OF sn] by auto
  let ?acc = "if ok then (add_key (orderBasisKey o1) orderOK,
      if order_opens o1 \<and> orderBasisKey o1 \<notin> set swapOK then add_key (orderBasisKey o1) inflight else inflight)
      else (orderOK, inflight)"
  from Cons.IH [of "Suc n" ?acc st2] obtain b where
    "log_of (snd (run_orders (log_deps d) now i (Suc n) os swapOK ?acc st2)) = log_of st2 @ b" "list_all is_place_call b"
    "length b \<le> length os" "ag_mode (dp_agent d) = ModePaper \<longrightarrow> b = []" by blast
  with a show ?case by (intro exI [of _ "a @ b"]) (simp add: acc sn ex Let_def)
qed

lemma run_cancels_log:
  "log_of (run_cancels (log_deps d) cs st) = log_of st @
     (if ag_mode (dp_agent d) = ModePaper \<or> dp_perp d = None then [] else map CallCancel cs)"
proof (induction cs arbitrary: st)
  case (Cons c cs)
  have "log_of (executeCancel (log_deps d) c st) = log_of st @
      (if ag_mode (dp_agent d) = ModePaper \<or> dp_perp d = None then [] else [CallCancel c])"
    by (simp add: executeCancel_def log_perp_def logged_log_snd split: option.splits)
  then show ?case using Cons.IH [of "executeCancel (log_deps d) c st"] by simp
qed simp

section \<open>Properties\<close>


end
