(* ===== verification/Assets.thy ===== *)
theory Assets
  imports Sql PkgTypes
begin

text \<open>
  \<open>internal/assets\<close>: the curated registry (registry.go), the USDC table (usdc.go) and the upsert of
  the registry into the \<open>assets\<close> table (sync.go). YAML decoding is the library's; \<open>raw_file\<close>
  is what it decodes to.
\<close>

section \<open>The registry (registry.go)\<close>

record perp_ref =
  pr_venue :: string
  pr_symbol :: string

record spot_ref =
  sp_chain :: chain_id
  sp_mint :: string
  sp_decimals :: int

record reg_asset =
  ra_symbol :: string
  ra_perp :: "perp_ref option"
  ra_spot :: spot_ref
  ra_hedge_ratio :: float64
  ra_notes :: string

definition asset_Tradable :: "reg_asset \<Rightarrow> bool" where
  "asset_Tradable a \<longleftrightarrow> ra_perp a \<noteq> None \<and> sp_mint (ra_spot a) \<noteq> []"

definition AsAsset :: "reg_asset \<Rightarrow> asset" where
  "AsAsset a = \<lparr>as_symbol = ra_symbol a, as_chain = sp_chain (ra_spot a), as_mint = sp_mint (ra_spot a),
     as_decimals = sp_decimals (ra_spot a)\<rparr>"

record registry =
  rg_version :: int
  rg_default_hedge :: float64
  rg_assets :: "reg_asset list"
  rg_by_symbol :: "(string \<times> reg_asset) list"

definition registry_Get :: "registry \<Rightarrow> string \<Rightarrow> reg_asset option" where
  "registry_Get r s = map_of (rg_by_symbol r) (to_upper s)"

definition registry_Tradable :: "registry \<Rightarrow> reg_asset list" where
  "registry_Tradable r = filter asset_Tradable (rg_assets r)"

definition Symbols :: "registry \<Rightarrow> string list" where
  "Symbols r = sort (map ra_symbol (rg_assets r))"

record raw_asset =
  rw_symbol :: string
  rw_hedge_ratio :: float64
  rw_notes :: string
  rw_perp :: "perp_ref option"
  rw_chain :: string
  rw_mint :: string
  rw_decimals :: int

record raw_file =
  rf_version :: int
  rf_default_hedge :: float64
  rf_assets :: "raw_asset list"

text \<open>The Go conversion \<open>types.ChainID(s)\<close>.\<close>

definition chain_of :: "string \<Rightarrow> chain_id" where
  "chain_of s =
     (if s = ''hyperliquid'' then ChainHyperliquid else if s = ''solana'' then ChainSolana
      else if s = ''bittensor'' then ChainBittensor else if s = ''ethereum'' then ChainEthereum
      else if s = ''base'' then ChainBase else if s = ''avalanche'' then ChainAvalanche
      else if s = ''bsc'' then ChainBSC else ChainOther s)"

text \<open>One turn of the validation loop: the checks in the code's order, then the asset.\<close>

definition validate_one ::
  "float64 \<Rightarrow> nat \<Rightarrow> (string \<times> reg_asset) list \<Rightarrow> raw_asset \<Rightarrow> go_error + reg_asset" where
  "validate_one dh i seen ra =
     (let pos = ''assets['' @ nat_str i @ '']: ''; named = ''assets['' @ rw_symbol ra @ '']: ''
      in if rw_symbol ra = [] then Inl (Errorf (pos @ ''missing symbol''))
         else if map_of seen (to_upper (rw_symbol ra)) \<noteq> None then
           Inl (Errorf (pos @ ''duplicate symbol '' @ quoted (rw_symbol ra)))
         else if rw_mint ra = [] then Inl (Errorf (named @ ''missing spot.mint''))
         else if rw_chain ra = [] then Inl (Errorf (named @ ''missing spot.chain''))
         else if rw_decimals ra < 0 \<or> 30 < rw_decimals ra then
           Inl (Errorf (named @ ''spot.decimals out of range: '' @ int_str (rw_decimals ra)))
         else if (case rw_perp ra of None \<Rightarrow> False | Some p \<Rightarrow> pr_venue p = [] \<or> pr_symbol p = []) then
           Inl (Errorf (named @ ''perp requires venue + symbol''))
         else Inr \<lparr>ra_symbol = rw_symbol ra, ra_perp = rw_perp ra,
                ra_spot = \<lparr>sp_chain = chain_of (rw_chain ra), sp_mint = rw_mint ra, sp_decimals = rw_decimals ra\<rparr>,
                ra_hedge_ratio = (if rw_hedge_ratio ra = 0 then dh else rw_hedge_ratio ra),
                ra_notes = rw_notes ra\<rparr>)"

fun validate_all ::
  "float64 \<Rightarrow> nat \<Rightarrow> raw_asset list \<Rightarrow> reg_asset list \<times> (string \<times> reg_asset) list
     \<Rightarrow> go_error + (reg_asset list \<times> (string \<times> reg_asset) list)" where
  "validate_all dh i [] acc = Inr acc"
| "validate_all dh i (ra # ras) (out, seen) =
     (case validate_one dh i seen ra of
        Inl e \<Rightarrow> Inl e
      | Inr a \<Rightarrow> validate_all dh (Suc i) ras
          (out @ [a], AList.update (to_upper (rw_symbol ra)) a seen))"

definition validate :: "raw_file \<Rightarrow> go_error + registry" where
  "validate raw =
     (if rf_version raw \<noteq> 1 then
        Inl (Errorf (''assets: unsupported version '' @ int_str (rf_version raw) @ '' (want 1)''))
      else
        let dh = (if rf_default_hedge raw = 0 then 1 else rf_default_hedge raw)
        in case validate_all dh 0 (rf_assets raw) ([], []) of
             Inl e \<Rightarrow> Inl e
           | Inr (out, seen) \<Rightarrow>
               if out = [] then Inl (Errorf ''assets: registry is empty'')
               else Inr \<lparr>rg_version = 1, rg_default_hedge = dh, rg_assets = out, rg_by_symbol = seen\<rparr>)"

section \<open>USDC (usdc.go)\<close>

fun USDCMintFor :: "chain_id \<Rightarrow> (string \<times> int) option" where
  "USDCMintFor ChainSolana = Some (''EPjFWdd5AufqSSqeM2qN1xzybapC8G4wEGGkZwyTDt1v'', 6)"
| "USDCMintFor ChainEthereum = Some (''0xA0b86991c6218b36c1d19D4a2e9Eb0cE3606eB48'', 6)"
| "USDCMintFor ChainBase = Some (''0x833589fCD6eDb6E08f4c7C32D4f71b54bdA02913'', 6)"
| "USDCMintFor ChainAvalanche = Some (''0xB97EF9Ef8734C71904D8002F8b6Bc66Dd9c48a6E'', 6)"
| "USDCMintFor ChainBSC = Some (''0x8AC76a51cc950d9822D68b83fE1Ad97B32Cd580d'', 6)"
| "USDCMintFor _ = None"

definition USDCAsset :: "chain_id \<Rightarrow> asset option" where
  "USDCAsset c = (case USDCMintFor c of None \<Rightarrow> None
     | Some (m, n) \<Rightarrow> Some \<lparr>as_symbol = ''USDC'', as_chain = c, as_mint = m, as_decimals = n\<rparr>)"

section \<open>Syncing the assets table (sync.go)\<close>

record asset_row =
  ar_symbol :: string
  ar_perp :: "perp_ref option"
  ar_chain :: string
  ar_mint :: string
  ar_decimals :: int
  ar_hedge_ratio :: float64
  ar_notes :: string

definition asset_row_of :: "reg_asset \<Rightarrow> asset_row" where
  "asset_row_of a = \<lparr>ar_symbol = ra_symbol a, ar_perp = ra_perp a, ar_chain = chain_str (sp_chain (ra_spot a)),
     ar_mint = sp_mint (ra_spot a), ar_decimals = sp_decimals (ra_spot a),
     ar_hedge_ratio = ra_hedge_ratio a, ar_notes = ra_notes a\<rparr>"

text \<open>The upsert by symbol; a second row with the same chain and mint violates the table's constraint.\<close>

definition upsert_asset :: "go_error option \<Rightarrow> asset_row \<Rightarrow> asset_row list \<Rightarrow> go_error + asset_row list" where
  "upsert_asset fail r rows =
     (case fail of
        Some e \<Rightarrow> Inl e
      | None \<Rightarrow>
          if list_ex (\<lambda>x. ar_symbol x \<noteq> ar_symbol r \<and> ar_chain x = ar_chain r \<and> ar_mint x = ar_mint r) rows
          then Inl constraint_error
          else if list_ex (\<lambda>x. ar_symbol x = ar_symbol r) rows then
            Inr (map (\<lambda>x. if ar_symbol x = ar_symbol r then r else x) rows)
          else Inr (rows @ [r]))"

fun upsert_all :: "(nat \<Rightarrow> go_error option) \<Rightarrow> nat \<Rightarrow> reg_asset list \<Rightarrow> asset_row list \<Rightarrow> go_error + (nat \<times> asset_row list)" where
  "upsert_all fails n [] rows = Inr (n, rows)"
| "upsert_all fails n (a # as) rows =
     (case upsert_asset (fails n) (asset_row_of a) rows of
        Inl e \<Rightarrow> Inl (Wrap (''assets: upsert '' @ ra_symbol a) e)
      | Inr rows' \<Rightarrow> upsert_all fails (Suc n) as rows')"

text \<open>A failing statement or commit rolls the transaction back. \<open>fails\<close> gives the outcome of each upsert.\<close>

definition Sync ::
  "go_error option \<Rightarrow> (nat \<Rightarrow> go_error option) \<Rightarrow> go_error option \<Rightarrow> registry \<Rightarrow> asset_row list
     \<Rightarrow> (go_error + nat) \<times> asset_row list" where
  "Sync begin_fail fails commit_fail r rows =
     (case begin_fail of
        Some e \<Rightarrow> (Inl (Wrap ''assets: begin tx'' e), rows)
      | None \<Rightarrow>
         (case upsert_all fails 0 (rg_assets r) rows of
            Inl e \<Rightarrow> (Inl e, rows)
          | Inr (n, rows') \<Rightarrow>
             (case commit_fail of
                Some e \<Rightarrow> (Inl (Wrap ''assets: commit'' e), rows)
              | None \<Rightarrow> (Inr n, rows'))))"

section \<open>Properties\<close>

definition asset_wf :: "reg_asset \<Rightarrow> bool" where
  "asset_wf a \<longleftrightarrow> ra_symbol a \<noteq> [] \<and> sp_mint (ra_spot a) \<noteq> [] \<and> ra_hedge_ratio a \<noteq> 0 \<and>
     0 \<le> sp_decimals (ra_spot a) \<and> sp_decimals (ra_spot a) \<le> 30 \<and>
     (case ra_perp a of None \<Rightarrow> True | Some p \<Rightarrow> pr_venue p \<noteq> [] \<and> pr_symbol p \<noteq> [])"

lemma validate_one_wf:
  "validate_one dh i seen ra = Inr a \<Longrightarrow> dh \<noteq> 0 \<Longrightarrow>
     asset_wf a \<and> ra_symbol a = rw_symbol ra \<and> map_of seen (to_upper (rw_symbol ra)) = None"
  by (auto simp: validate_one_def Let_def asset_wf_def split: if_splits option.splits)

definition registry_ok :: "reg_asset list \<Rightarrow> (string \<times> reg_asset) list \<Rightarrow> bool" where
  "registry_ok out seen \<longleftrightarrow> list_all asset_wf out \<and> distinct (map (\<lambda>a. to_upper (ra_symbol a)) out) \<and>
     (\<forall>k a. map_of seen k = Some a \<longleftrightarrow> a \<in> set out \<and> to_upper (ra_symbol a) = k)"

lemma validate_all_ok:
  "validate_all dh i ras (out, seen) = Inr (out', seen') \<Longrightarrow> dh \<noteq> 0 \<Longrightarrow> registry_ok out seen \<Longrightarrow>
     registry_ok out' seen' \<and> map ra_symbol out' = map ra_symbol out @ map rw_symbol ras"
proof (induction ras arbitrary: i out seen)
  case (Cons ra ras)
  from Cons.prems(1) obtain a where a: "validate_one dh i seen ra = Inr a"
    and rest: "validate_all dh (Suc i) ras (out @ [a], AList.update (to_upper (rw_symbol ra)) a seen) = Inr (out', seen')"
    by (auto split: sum.splits)
  from validate_one_wf [OF a Cons.prems(2)] have w: "asset_wf a" "ra_symbol a = rw_symbol ra"
    and new: "map_of seen (to_upper (rw_symbol ra)) = None" by blast+
  have "registry_ok (out @ [a]) (AList.update (to_upper (rw_symbol ra)) a seen)"
  proof -
    have diff: "to_upper (ra_symbol x) \<noteq> to_upper (rw_symbol ra)" if "x \<in> set out" for x
    proof
      assume "to_upper (ra_symbol x) = to_upper (rw_symbol ra)"
      then have "map_of seen (to_upper (rw_symbol ra)) = Some x"
        using Cons.prems(3) that by (simp add: registry_ok_def)
      with new show False by simp
    qed
    have new': "to_upper (rw_symbol ra) \<notin> (\<lambda>x. to_upper (ra_symbol x)) ` set out" using diff by force
    have "map_of (AList.update (to_upper (rw_symbol ra)) a seen) k = Some b \<longleftrightarrow>
        b \<in> set (out @ [a]) \<and> to_upper (ra_symbol b) = k" for k b
    proof (cases "k = to_upper (rw_symbol ra)")
      case True
      have "b \<notin> set out \<or> to_upper (ra_symbol b) \<noteq> k"
        using diff [of b] True by blast
      then show ?thesis using True w(2) by (auto simp: update_conv)
    next
      case False
      then have "b \<noteq> a \<or> to_upper (ra_symbol b) \<noteq> k" using w(2) by auto
      moreover have "map_of seen k = Some b \<longleftrightarrow> b \<in> set out \<and> to_upper (ra_symbol b) = k"
        using Cons.prems(3) unfolding registry_ok_def by blast
      ultimately show ?thesis using False by (auto simp: update_conv)
    qed
    then show ?thesis using Cons.prems(3) w new' by (simp add: registry_ok_def)
  qed
  from Cons.IH [OF rest Cons.prems(2) this] w show ?case by simp
qed simp

text \<open>
  What validation accepts. A registry that validates lists every raw entry in order, every
  asset of it is well formed (symbol, mint and hedge ratio present, decimals within 0 to 30, a
  perp reference complete), symbols are unique up to case, lookup by any
  capitalisation finds exactly the listed asset, and every asset with a perp is tradable.
\<close>

theorem validated_registry_lookup:
  assumes "validate raw = Inr r"
  shows "list_all asset_wf (rg_assets r) \<and> rg_assets r \<noteq> [] \<and>
     map ra_symbol (rg_assets r) = map rw_symbol (rf_assets raw) \<and>
     distinct (map (\<lambda>a. to_upper (ra_symbol a)) (rg_assets r)) \<and>
     (registry_Get r s = Some a \<longleftrightarrow> a \<in> set (rg_assets r) \<and> to_upper (ra_symbol a) = to_upper s) \<and>
     (a \<in> set (registry_Tradable r) \<longleftrightarrow> a \<in> set (rg_assets r) \<and> ra_perp a \<noteq> None)"
proof -
  let ?dh = "if rf_default_hedge raw = 0 then 1 else rf_default_hedge raw"
  from assms obtain out seen where v: "validate_all ?dh 0 (rf_assets raw) ([], []) = Inr (out, seen)"
    and ne: "out \<noteq> []"
    and r: "r = \<lparr>rg_version = 1, rg_default_hedge = ?dh, rg_assets = out, rg_by_symbol = seen\<rparr>"
    by (auto simp: validate_def Let_def split: if_splits sum.splits prod.splits)
  have "registry_ok [] []" by (simp add: registry_ok_def)
  from validate_all_ok [OF v _ this] have ok: "registry_ok out seen" "map ra_symbol out = map rw_symbol (rf_assets raw)"
    by (auto split: if_splits)
  have "a \<in> set out \<Longrightarrow> sp_mint (ra_spot a) \<noteq> []"
    using ok(1) by (auto simp: registry_ok_def list_all_iff asset_wf_def)
  then show ?thesis using ok ne
    by (auto simp: r registry_ok_def registry_Get_def registry_Tradable_def asset_Tradable_def)
qed

definition sample_raw :: raw_file where
  "sample_raw = \<lparr>rf_version = 1, rf_default_hedge = 0, rf_assets = [\<lparr>rw_symbol = ''wif'', rw_hedge_ratio = 0,
     rw_notes = [], rw_perp = Some \<lparr>pr_venue = ''hyperliquid'', pr_symbol = ''WIF''\<rparr>, rw_chain = ''solana'',
     rw_mint = ''EKp'', rw_decimals = 6\<rparr>]\<rparr>"

theorem validated_registry_lookup_witness:
  "\<exists>r a. validate sample_raw = Inr r \<and> registry_Get r ''WIF'' = Some a \<and> a \<in> set (registry_Tradable r)"
proof -
  obtain r where r: "validate sample_raw = Inr r" and n: "map ra_perp (rg_assets r) = [Some \<lparr>pr_venue = ''hyperliquid'', pr_symbol = ''WIF''\<rparr>]"
    by (simp add: validate_def validate_one_def sample_raw_def Let_def)
  from n obtain a where a: "rg_assets r = [a]" "ra_perp a \<noteq> None" by auto
  from validated_registry_lookup [OF r, of "''WIF''" a] a
  have "ra_symbol a = ''wif''" by (simp add: sample_raw_def)
  moreover have "to_upper ''wif'' = to_upper ''WIF''" by code_simp
  ultimately show ?thesis using validated_registry_lookup [OF r, of "''WIF''" a] a r by auto
qed

lemma upsert_all_ok:
  "upsert_all fails n as rows = Inr (m, rows') \<Longrightarrow> distinct (map ra_symbol as) \<Longrightarrow>
     m = n + length as \<and> (\<forall>a \<in> set as. asset_row_of a \<in> set rows') \<and>
     (\<forall>r \<in> set rows. ar_symbol r \<notin> ra_symbol ` set as \<longrightarrow> r \<in> set rows')"
proof (induction as arbitrary: n rows)
  case (Cons a as)
  let ?r = "asset_row_of a"
  have sy: "ar_symbol ?r = ra_symbol a" by (simp add: asset_row_of_def)
  from Cons.prems(1) obtain rows1 where u: "upsert_asset (fails n) ?r rows = Inr rows1"
    and rest: "upsert_all fails (Suc n) as rows1 = Inr (m, rows')"
    by (auto split: sum.splits)
  have r1: "?r \<in> set rows1" "\<forall>x \<in> set rows. ar_symbol x \<noteq> ar_symbol ?r \<longrightarrow> x \<in> set rows1"
    using u by (auto simp: upsert_asset_def list_ex_iff split: option.splits if_splits)
  have nd: "ra_symbol a \<notin> ra_symbol ` set as" "distinct (map ra_symbol as)" using Cons.prems(2) by auto
  from Cons.IH [OF rest nd(2)] r1 nd(1) show ?case by (auto simp: sy)
qed simp

text \<open>
  Syncing is all or nothing and repeatable. If it fails the table is as it was; if it succeeds it
  reports the number of registry assets, and every registry asset whose symbol is listed once is in
  the table exactly as the registry has it; rows of other symbols are kept.
\<close>

theorem sync_all_or_nothing:
  "case Sync bf fails cf r rows of
     (Inl e, rows') \<Rightarrow> rows' = rows
   | (Inr n, rows') \<Rightarrow> n = length (rg_assets r) \<and>
       (distinct (map ra_symbol (rg_assets r)) \<longrightarrow>
          list_all (\<lambda>a. asset_row_of a \<in> set rows') (rg_assets r) \<and>
          list_all (\<lambda>x. ar_symbol x \<notin> ra_symbol ` set (rg_assets r) \<longrightarrow> x \<in> set rows') rows)"
proof -
  have len: "upsert_all fails k as rows = Inr (m, rows') \<Longrightarrow> m = k + length as" for k as rows m rows'
  proof (induction as arbitrary: k rows)
    case (Cons a as)
    then obtain rows1 where "upsert_all fails (Suc k) as rows1 = Inr (m, rows')" by (auto split: sum.splits)
    from Cons.IH [OF this] show ?case by simp
  qed simp
  show ?thesis
    using len [of 0 "rg_assets r" rows] upsert_all_ok [of fails 0 "rg_assets r" rows]
    by (auto simp: Sync_def list_all_iff split: option.splits sum.splits prod.splits)
qed

theorem sync_all_or_nothing_witness:
  "\<exists>rows. Sync None (\<lambda>_. None) None \<lparr>rg_version = 1, rg_default_hedge = 1, rg_assets =
       [\<lparr>ra_symbol = ''WIF'', ra_perp = None, ra_spot = \<lparr>sp_chain = ChainSolana, sp_mint = ''EKp'', sp_decimals = 6\<rparr>,
         ra_hedge_ratio = 1, ra_notes = []\<rparr>], rg_by_symbol = []\<rparr> [] = (Inr 1, rows) \<and> length rows = 1"
  using sync_all_or_nothing [where bf = None and fails = "\<lambda>_. None" and cf = None and rows = "[]" and r = "\<lparr>rg_version = 1, rg_default_hedge = 1, rg_assets =
       [\<lparr>ra_symbol = ''WIF'', ra_perp = None, ra_spot = \<lparr>sp_chain = ChainSolana, sp_mint = ''EKp'', sp_decimals = 6\<rparr>,
         ra_hedge_ratio = 1, ra_notes = []\<rparr>], rg_by_symbol = []\<rparr>"]
  by (simp add: Sync_def upsert_asset_def asset_row_of_def)

end
