(* ===== verification/Killswitch.thy ===== *)
theory Killswitch
  imports RuntimeOrder Assets
begin

text \<open>
  \<open>internal/agent/killswitch.go\<close>, the start and stop of the tick loop (runtime.go) and
  \<open>internal/agent/supervisor.go\<close>. The goroutines of a runtime are the list of its loops with the
  state of their contexts.
\<close>

section \<open>The life of a runtime (Start, Stop, IsRunning)\<close>

datatype loop_ctx = LoopActive | LoopCancelled

text \<open>\<open>rl_loops\<close> lists the loop goroutines that have not returned, the latest first.\<close>

record run_life =
  rl_running :: bool
  rl_loops :: "loop_ctx list"

definition new_life :: run_life where
  "new_life = \<lparr>rl_running = False, rl_loops = []\<rparr>"

text \<open>\<open>warm\<close> is the result of the warm-up, \<open>ctx\<close> the state of the parent context.\<close>

definition life_Start :: "go_error option \<Rightarrow> loop_ctx \<Rightarrow> run_life \<Rightarrow> go_error option \<times> run_life" where
  "life_Start warm ctx l =
     (if rl_running l then (Some (Errorf ''runtime: already running''), l)
      else case warm of
          Some e \<Rightarrow> (Some (Wrap ''runtime: strategy warmup'' e), l)
        | None \<Rightarrow> (None, l\<lparr>rl_running := True, rl_loops := ctx # rl_loops l\<rparr>))"

text \<open>\<open>cancel\<close> is the cancel function of the latest start; that loop may have returned already.\<close>

definition life_Stop :: "run_life \<Rightarrow> run_life" where
  "life_Stop l =
     (if \<not> rl_running l then l
      else l\<lparr>rl_running := False,
             rl_loops := (case rl_loops l of [] \<Rightarrow> [] | c # cs \<Rightarrow> LoopCancelled # cs)\<rparr>)"

inductive life_step :: "run_life \<Rightarrow> run_life \<Rightarrow> bool" where
  start: "life_step l (snd (life_Start warm ctx l))"
| stop: "life_step l (life_Stop l)"
| parent_cancelled: "life_step l (l\<lparr>rl_loops := map (\<lambda>_. LoopCancelled) (rl_loops l)\<rparr>)"
| loop_exit: "rl_loops l = xs @ LoopCancelled # ys \<Longrightarrow> life_step l (l\<lparr>rl_loops := xs @ ys\<rparr>)"

inductive life_reachable :: "run_life \<Rightarrow> bool" where
  init: "life_reachable new_life"
| step: "life_reachable l \<Longrightarrow> life_step l l' \<Longrightarrow> life_reachable l'"

inductive_cases life_stepE: "life_step l l'"

definition active_loops :: "run_life \<Rightarrow> nat" where
  "active_loops l = length (filter (\<lambda>c. c = LoopActive) (rl_loops l))"

text \<open>Only the latest loop can be active, and only while the runtime says it is running.\<close>

definition life_inv :: "run_life \<Rightarrow> bool" where
  "life_inv l \<longleftrightarrow>
     (if rl_running l then list_all (\<lambda>c. c = LoopCancelled) (tl (rl_loops l))
      else list_all (\<lambda>c. c = LoopCancelled) (rl_loops l))"

lemma life_inv_tail: "life_inv l \<Longrightarrow> list_all (\<lambda>c. c = LoopCancelled) (tl (rl_loops l))"
  by (cases "rl_loops l") (auto simp: life_inv_def split: if_splits)

lemma life_inv_step: "life_step l l' \<Longrightarrow> life_inv l \<Longrightarrow> life_inv l'"
proof (induction rule: life_step.induct)
  case (start l warm ctx)
  then show ?case by (auto simp: life_Start_def life_inv_def split: option.splits)
next
  case (stop l)
  then show ?case by (auto simp: life_Stop_def life_inv_def split: list.splits)
next
  case (parent_cancelled l)
  then show ?case by (cases "rl_loops l") (auto simp: life_inv_def list_all_iff)
next
  case (loop_exit l xs ys)
  then show ?case by (cases xs; cases ys) (auto simp: life_inv_def list_all_iff split: if_splits)
qed

lemma life_reachable_inv: "life_reachable l \<Longrightarrow> life_inv l"
proof (induction rule: life_reachable.induct)
  case init
  show ?case by (simp add: life_inv_def new_life_def)
next
  case (step l l')
  then show ?case by (blast intro: life_inv_step)
qed

section \<open>Options (killswitch.go)\<close>

record kill_opts =
  ko_close_shorts :: bool
  ko_liquidate_spot :: bool
  ko_spot_slippage_bps :: int
  ko_reason :: string

definition DefaultKillSwitchOptions :: "string \<Rightarrow> kill_opts" where
  "DefaultKillSwitchOptions reason =
     \<lparr>ko_close_shorts = True, ko_liquidate_spot = False, ko_spot_slippage_bps = 0, ko_reason = reason\<rparr>"

section \<open>Cancelling and flattening\<close>

fun cancel_each :: "'w perp_venue \<Rightarrow> open_order list \<Rightarrow> 'w rt_state \<Rightarrow> go_error option \<times> 'w rt_state" where
  "cancel_each v [] st = (None, st)"
| "cancel_each v (o1 # os) st =
     (let (e, st1) = on_world (pv_cancel v (oo_id o1)) st;
          (e', st2) = cancel_each v os st1
      in (first_error e e', st2))"

definition cancelOpenOrders :: "'w perp_venue \<Rightarrow> 'w rt_state \<Rightarrow> go_error option \<times> 'w rt_state" where
  "cancelOpenOrders v st =
     (case on_world (pv_open_orders v) st of
        (Inl e, st1) \<Rightarrow> (Some (Wrap ''open_orders'' e), st1)
      | (Inr os, st1) \<Rightarrow> cancel_each v os st1)"

definition flatten_intent :: "'w deps \<Rightarrow> 'w perp_venue \<Rightarrow> position \<Rightarrow> order_intent" where
  "flatten_intent d v p =
     (let sd = (if IsShort p then SideBuy else SideSell);
          sz = (if IsShort p then \<bar>po_qty p\<bar> else po_qty p)
      in zero_order\<lparr>oi_venue := pv_name v, oi_symbol := po_symbol p, oi_side := sd,
           oi_type := OrderTypeMarket, oi_size := sz, oi_reduce_only := True,
           oi_client_id := DeriveClientID (dp_lib d) (dp_hexsum d) (ag_id (dp_agent d)) ''kill_switch'' 0
             (pv_name v) (po_symbol p) sd sz\<rparr>)"

fun flatten_each ::
  "'w deps \<Rightarrow> 'w perp_venue \<Rightarrow> position list \<Rightarrow> 'w rt_state \<Rightarrow> go_error option \<times> 'w rt_state" where
  "flatten_each d v [] st = (None, st)"
| "flatten_each d v (p # ps) st =
     (if IsFlat p then flatten_each d v ps st
      else
        let (r, st1) = on_world (pv_place v (flatten_intent d v p)) st;
            (e', st2) = flatten_each d v ps st1
        in (first_error (case r of Inl e \<Rightarrow> Some e | Inr _ \<Rightarrow> None) e', st2))"

definition flattenPositions :: "'w deps \<Rightarrow> 'w perp_venue \<Rightarrow> 'w rt_state \<Rightarrow> go_error option \<times> 'w rt_state" where
  "flattenPositions d v st =
     (case on_world (pv_positions v) st of
        (Inl e, st1) \<Rightarrow> (Some (Wrap ''positions'' e), st1)
      | (Inr ps, st1) \<Rightarrow> flatten_each d v ps st1)"

section \<open>Liquidating spot\<close>

definition liquidation_slippage :: "'w deps \<Rightarrow> kill_opts \<Rightarrow> int" where
  "liquidation_slippage d opts =
     (let s0 = ko_spot_slippage_bps opts;
          s1 = (case dp_risk d of
                  None \<Rightarrow> s0
                | Some r \<Rightarrow>
                    if s0 = 0 \<and> 0 < max_spot_slippage_bps (re_limits r)
                    then max_spot_slippage_bps (re_limits r) else s0)
      in if s1 = 0 then 100 else s1)"

definition liquidate_leg ::
  "'w deps \<Rightarrow> int \<Rightarrow> basis_leg \<Rightarrow> 'w rt_state \<Rightarrow> go_error option \<times> 'w rt_state" where
  "liquidate_leg d slip leg st =
     (if lg_kind leg \<noteq> BasisLegSpot \<or> lg_qty leg = 0 then (None, st)
      else case SwapVenueForChain d (as_chain (lg_asset leg)) of
          None \<Rightarrow> (None, st)
        | Some v \<Rightarrow>
           (case USDCAsset (as_chain (lg_asset leg)) of
              None \<Rightarrow> (None, st)
            | Some usdc \<Rightarrow>
               (case on_world (sv_quote v \<lparr>qr_in_token = lg_asset leg, qr_out_token = usdc,
                       qr_amount = lg_qty leg, qr_mode = QuoteExactIn\<rparr>) st of
                  (Inl e, st1) \<Rightarrow> (Some e, st1)
                | (Inr q, st1) \<Rightarrow>
                   (case on_world (sv_swap v q slip) st1 of
                      (Inl e, st2) \<Rightarrow> (Some e, st2)
                    | (Inr _, st2) \<Rightarrow> (None, st2)))))"

fun liquidate_legs ::
  "'w deps \<Rightarrow> int \<Rightarrow> basis_leg list \<Rightarrow> 'w rt_state \<Rightarrow> go_error option \<times> 'w rt_state" where
  "liquidate_legs d slip [] st = (None, st)"
| "liquidate_legs d slip (l # ls) st =
     (let (e, st1) = liquidate_leg d slip l st; (e', st2) = liquidate_legs d slip ls st1
      in (first_error e e', st2))"

definition liquidateSpot :: "'w deps \<Rightarrow> kill_opts \<Rightarrow> 'w rt_state \<Rightarrow> go_error option \<times> 'w rt_state" where
  "liquidateSpot d opts st =
     (if \<not> dp_store d then
        (Some (Errorf ''liquidate_spot: store not configured (no open basis to enumerate)''), st)
      else
        let ((fail, _), st1) = on_world (dp_query d) st
        in case LoadOpenBasis fail (ag_id (dp_agent d)) (rs_db st1) of
             Inl e \<Rightarrow> (Some (Wrap ''load open basis'' e), st1)
           | Inr ps \<Rightarrow> liquidate_legs d (liquidation_slippage d opts) (concat (map bp_legs ps)) st1)"

section \<open>Trip\<close>

definition halt_status :: "'w deps \<Rightarrow> 'w rt_state \<Rightarrow> 'w rt_state" where
  "halt_status d st =
     (if \<not> dp_store d then st
      else let ((fail, dbnow), st1) = on_world (dp_query d) st
           in st1\<lparr>rs_db := snd (SetStatus fail dbnow (ag_id (dp_agent d)) StatusHalted (rs_db st1))\<rparr>)"

definition trip_perp :: "'w deps \<Rightarrow> kill_opts \<Rightarrow> 'w rt_state \<Rightarrow> go_error option \<times> 'w rt_state" where
  "trip_perp d opts st =
     (case dp_perp d of
        None \<Rightarrow> (None, st)
      | Some v \<Rightarrow>
         (let (e1, st1) = cancelOpenOrders v st;
              (e2, st2) = (if ko_close_shorts opts then flattenPositions d v st1 else (None, st1))
          in (first_error e1 e2, st2)))"

definition Trip ::
  "'w deps \<Rightarrow> kill_opts \<Rightarrow> run_life \<times> 'w rt_state \<Rightarrow> go_error option \<times> run_life \<times> 'w rt_state" where
  "Trip d opts ls =
     (let (e1, st1) = trip_perp d opts (halt_status d (snd ls));
          (e2, st2) = (if ko_liquidate_spot opts then liquidateSpot d opts st1 else (None, st1))
      in (first_error e1 e2, life_Stop (fst ls), st2))"

section \<open>The supervisor (supervisor.go)\<close>

text \<open>
  A supervisor maps agent ids to runtimes: their dependencies and their life. The world and
  database are shared by all of them, the tracked positions are each runtime's own.
\<close>

record 'w runtime =
  ru_deps :: "'w deps"
  ru_life :: run_life
  ru_open :: "(string \<times> basis_position) list"
  ru_warmup :: "go_error option option"

type_synonym 'w supervisor = "(string \<times> 'w runtime) list"

definition not_registered :: "string \<Rightarrow> go_error" where
  "not_registered i = Errorf (''supervisor: agent '' @ quoted i @ '' not registered'')"

text \<open>The second component is the replaced runtime, stopped.\<close>

definition Register ::
  "string \<Rightarrow> 'w runtime \<Rightarrow> 'w supervisor \<Rightarrow> 'w supervisor \<times> 'w runtime option" where
  "Register i r s =
     (AList.update i r s,
      map_option (\<lambda>old. old\<lparr>ru_life := life_Stop (ru_life old)\<rparr>) (map_of s i))"

definition supervisor_Get :: "string \<Rightarrow> 'w supervisor \<Rightarrow> go_error + 'w runtime" where
  "supervisor_Get i s = (case map_of s i of None \<Rightarrow> Inl (not_registered i) | Some r \<Rightarrow> Inr r)"

definition IDs :: "'w supervisor \<Rightarrow> string list" where
  "IDs s = map fst s"

definition supervisor_Start ::
  "string \<Rightarrow> go_error option \<Rightarrow> loop_ctx \<Rightarrow> 'w supervisor \<Rightarrow> go_error option \<times> 'w supervisor" where
  "supervisor_Start i warm ctx s =
     (case supervisor_Get i s of
        Inl e \<Rightarrow> (Some e, s)
      | Inr r \<Rightarrow>
          let (e, l) = life_Start warm ctx (ru_life r)
          in (e, AList.update i (r\<lparr>ru_life := l\<rparr>) s))"

definition supervisor_Stop :: "string \<Rightarrow> 'w supervisor \<Rightarrow> go_error option \<times> 'w supervisor" where
  "supervisor_Stop i s =
     (case supervisor_Get i s of
        Inl e \<Rightarrow> (Some e, s)
      | Inr r \<Rightarrow> (None, AList.update i (r\<lparr>ru_life := life_Stop (ru_life r)\<rparr>) s))"

definition trip_runtime ::
  "kill_opts \<Rightarrow> 'w runtime \<Rightarrow> agent_db \<times> 'w \<Rightarrow> go_error option \<times> 'w runtime \<times> agent_db \<times> 'w" where
  "trip_runtime opts r dw =
     (let (e, l, st) = Trip (ru_deps r) opts (ru_life r,
            \<lparr>rs_world = snd dw, rs_db = fst dw, rs_open = ru_open r, rs_warmup = ru_warmup r\<rparr>)
      in (e, r\<lparr>ru_life := l\<rparr>, rs_db st, rs_world st))"

definition supervisor_Trip ::
  "string \<Rightarrow> kill_opts \<Rightarrow> 'w supervisor \<Rightarrow> agent_db \<times> 'w \<Rightarrow> go_error option \<times> 'w supervisor \<times> agent_db \<times> 'w" where
  "supervisor_Trip i opts s dw =
     (case supervisor_Get i s of
        Inl e \<Rightarrow> (Some e, s, dw)
      | Inr r \<Rightarrow> let (e, r', dw') = trip_runtime opts r dw in (e, AList.update i r' s, dw'))"

text \<open>\<open>errors.Join\<close> of the collected errors is their list.\<close>

fun TripAll ::
  "kill_opts \<Rightarrow> 'w supervisor \<Rightarrow> agent_db \<times> 'w \<Rightarrow> go_error list \<times> 'w supervisor \<times> agent_db \<times> 'w" where
  "TripAll opts [] dw = ([], [], dw)"
| "TripAll opts ((i, r) # s) dw =
     (let (e, r', dw1) = trip_runtime opts r dw;
          (es, s', dw2) = TripAll opts s dw1
      in ((case e of None \<Rightarrow> es | Some x \<Rightarrow> x # es), (i, r') # s', dw2))"

section \<open>Lemmas\<close>

lemma cancel_each_log:
  "log_of (snd (cancel_each (log_perp v) os st)) = log_of st @ map (\<lambda>o1. CallCancel (oo_id o1)) os"
proof (induction os arbitrary: st)
  case (Cons o1 os)
  have "log_of (snd (on_world (pv_cancel (log_perp v) (oo_id o1)) st)) = log_of st @ [CallCancel (oo_id o1)]"
    by (simp add: log_perp_def logged_log_snd)
  with Cons.IH show ?case by (simp split: prod.splits) (metis append.assoc append_Cons append_Nil snd_conv)
qed simp

lemma flatten_each_log:
  "log_of (snd (flatten_each (log_deps d) (log_perp v) ps st)) =
     log_of st @ map (\<lambda>p. CallPlace (flatten_intent (log_deps d) (log_perp v) p)) (filter (\<lambda>p. \<not> IsFlat p) ps)"
proof (induction ps arbitrary: st)
  case (Cons p ps)
  have "log_of (snd (on_world (pv_place (log_perp v) i) st)) = log_of st @ [CallPlace i]" for i
    by (simp add: log_perp_def logged_log_snd)
  with Cons.IH show ?case
    by (simp split: prod.splits) (metis append.assoc append_Cons append_Nil snd_conv)
qed simp

lemma flatten_intent_log: "flatten_intent (log_deps d) (log_perp v) p = flatten_intent d v p"
  by (simp add: flatten_intent_def log_deps_def log_perp_def)

definition signed_size :: "order_intent \<Rightarrow> decimal" where
  "signed_size o1 = (if oi_side o1 = SideBuy then oi_size o1 else - oi_size o1)"

lemma flatten_intent_closes:
  "\<not> IsFlat p \<Longrightarrow> oi_reduce_only (flatten_intent d v p) \<and> 0 < oi_size (flatten_intent d v p) \<and>
     oi_symbol (flatten_intent d v p) = po_symbol p \<and>
     po_qty p + signed_size (flatten_intent d v p) = 0"
  by (auto simp: flatten_intent_def signed_size_def IsShort_def IsFlat_def Let_def)

section \<open>Properties\<close>

text \<open>
  C6: Flattening closes everything. Whatever the venue does with each order, flattening
  places exactly one order for each open position it was told of, in their order and with no
  position skipped because of an earlier failure; each order is reduce-only, of positive size, and its
  full fill would bring the position to zero.
\<close>

theorem flatten_attempts_every_position:
  "case on_world (pv_positions (log_perp v)) st of
     (Inl e, st1) \<Rightarrow> flattenPositions (log_deps d) (log_perp v) st = (Some (Wrap ''positions'' e), st1)
   | (Inr ps, st1) \<Rightarrow>
       (\<exists>intents. log_of (snd (flattenPositions (log_deps d) (log_perp v) st)) = log_of st @ map CallPlace intents \<and>
          map oi_symbol intents = map po_symbol (filter (\<lambda>p. \<not> IsFlat p) ps) \<and>
          list_all (\<lambda>i. oi_reduce_only i \<and> 0 < oi_size i) intents \<and>
          list_all (\<lambda>(p, i). po_qty p + signed_size i = 0) (zip (filter (\<lambda>p. \<not> IsFlat p) ps) intents))"
proof (cases "on_world (pv_positions (log_perp v)) st")
  case (Pair r st1)
  show ?thesis
  proof (cases r)
    case (Inl e)
    then show ?thesis using Pair by (simp add: flattenPositions_def)
  next
    case (Inr ps)
    let ?ps = "filter (\<lambda>p. \<not> IsFlat p) ps"
    let ?is = "map (flatten_intent d v) ?ps"
    have "log_of st1 = log_of st" using Pair by (auto simp: log_perp_def dest: silent_log)
    then have "log_of (snd (flattenPositions (log_deps d) (log_perp v) st)) = log_of st @ map CallPlace ?is"
      using Pair Inr by (simp add: flattenPositions_def flatten_each_log flatten_intent_log comp_def)
    moreover have "map oi_symbol ?is = map po_symbol ?ps" by (auto simp: flatten_intent_closes)
    moreover have "list_all (\<lambda>i. oi_reduce_only i \<and> 0 < oi_size i) ?is"
      by (auto simp: list_all_iff flatten_intent_closes)
    moreover have "list_all (\<lambda>(p, i). po_qty p + signed_size i = 0) (zip ?ps ?is)"
      by (auto simp: list_all_iff zip_map2 zip_same_conv_map flatten_intent_closes)
    ultimately show ?thesis unfolding Pair Inr prod.case sum.case by (intro exI [of _ ?is] conjI)
  qed
qed

lemma life_Stop_inactive: "life_inv l \<Longrightarrow> \<not> rl_running (life_Stop l) \<and> active_loops (life_Stop l) = 0"
  by (cases "rl_loops l") (auto simp: life_Stop_def life_inv_def active_loops_def list_all_iff filter_empty_conv)

lemma Trip_life: "Trip d opts (l, st) = (e, l', st') \<Longrightarrow> l' = life_Stop l"
  by (auto simp: Trip_def Let_def split: prod.splits)

lemma on_world_db: "rs_db (snd (on_world f st)) = rs_db st"
  by simp

lemma cancel_each_db [simp]: "rs_db (snd (cancel_each v os st)) = rs_db st"
  by (induction os arbitrary: st) (auto split: prod.splits dest!: on_world_eqD, metis snd_conv)

lemma cancelOpenOrders_db [simp]: "rs_db (snd (cancelOpenOrders v st)) = rs_db st"
  by (auto simp: cancelOpenOrders_def dest!: on_world_eqD split: prod.splits sum.splits)

lemma flatten_each_db [simp]: "rs_db (snd (flatten_each d v ps st)) = rs_db st"
  by (induction ps arbitrary: st) (auto split: prod.splits dest!: on_world_eqD, metis snd_conv)

lemma flattenPositions_db [simp]: "rs_db (snd (flattenPositions d v st)) = rs_db st"
  by (auto simp: flattenPositions_def dest!: on_world_eqD split: prod.splits sum.splits)

lemma liquidate_leg_db: "rs_db (snd (liquidate_leg d slip leg st)) = rs_db st"
  by (auto simp: liquidate_leg_def dest!: on_world_eqD split: option.splits prod.splits sum.splits)

lemma liquidate_legs_db [simp]: "rs_db (snd (liquidate_legs d slip ls st)) = rs_db st"
proof (induction ls arbitrary: st)
  case (Cons l ls)
  from liquidate_leg_db [of d slip l st] Cons.IH show ?case
    by (simp split: prod.splits) (metis snd_conv)
qed simp

lemma liquidateSpot_db [simp]: "rs_db (snd (liquidateSpot d opts st)) = rs_db st"
  by (auto simp: liquidateSpot_def Let_def dest!: on_world_eqD split: prod.splits sum.splits)

lemma SetStatus_halts:
  "list_all (\<lambda>a. ag_id a = i \<longrightarrow> ag_status a = StatusHalted) (ad_agents (snd (SetStatus None t i StatusHalted db)))"
proof -
  have "list_all (\<lambda>a. ag_id a = i \<longrightarrow> ag_status a = StatusHalted)
      (map (\<lambda>a. if ag_id a = i then a\<lparr>ag_status := StatusHalted, ag_updated_at := t\<rparr> else a) as)" for as
    by (induction as) simp_all
  then show ?thesis by (simp add: SetStatus_def update_agent_def)
qed

lemma sides_dbD:
  "cancelOpenOrders v st = (r, st') \<Longrightarrow> rs_db st' = rs_db st"
  "flattenPositions d v st = (r, st') \<Longrightarrow> rs_db st' = rs_db st"
  "liquidateSpot d opts st = (r, st') \<Longrightarrow> rs_db st' = rs_db st"
  using cancelOpenOrders_db [of v st] flattenPositions_db [of d v st] liquidateSpot_db [of d opts st]
  by auto

lemma trip_perp_db [simp]: "rs_db (snd (trip_perp d opts st)) = rs_db st"
proof (cases "dp_perp d")
  case (Some v)
  obtain e1 st1 where c: "cancelOpenOrders v st = (e1, st1)" by fastforce
  show ?thesis using Some c sides_dbD(1) [OF c] sides_dbD(2) [of d v st1]
    by (auto simp: trip_perp_def split: prod.splits)
qed (simp add: trip_perp_def)

lemma Trip_db:
  assumes "Trip d opts (l, st) = (e, l', st')"
  shows "rs_db st' = (if \<not> dp_store d then rs_db st
     else let ((fail, t), s) = on_world (dp_query d) st
          in snd (SetStatus fail t (ag_id (dp_agent d)) StatusHalted (rs_db st)))"
proof -
  obtain e1 st1 where p: "trip_perp d opts (halt_status d st) = (e1, st1)" by fastforce
  have "rs_db st' = rs_db st1"
    using assms sides_dbD(3) by (auto simp: Trip_def p split: prod.splits if_splits)
  also have "\<dots> = rs_db (halt_status d st)" using trip_perp_db [of d opts "halt_status d st"] p by simp
  finally show ?thesis by (auto simp: halt_status_def dest!: on_world_eqD split: prod.splits)
qed



text \<open>
  C10: A runtime never runs two live loops: from construction, through any sequence of starts, stops,
  cancellations of the parent context and exits, at most one loop has an uncancelled context, and
  then the runtime reports that it is running. The converse fails: after the parent context is
  cancelled the loop ends, and the runtime keeps reporting that it runs and refuses to start.
\<close>

theorem at_most_one_active_loop:
  "(life_reachable l \<longrightarrow> active_loops l \<le> 1 \<and> (active_loops l = 1 \<longrightarrow> rl_running l)) \<and>
   (\<exists>l'. life_reachable l' \<and> rl_loops l' = [] \<and> fst (life_Start None LoopActive l') \<noteq> None)"
proof
  show "life_reachable l \<longrightarrow> active_loops l \<le> 1 \<and> (active_loops l = 1 \<longrightarrow> rl_running l)"
  proof
    assume "life_reachable l"
    then have inv: "life_inv l" by (rule life_reachable_inv)
    then have "filter (\<lambda>c. c = LoopActive) (tl (rl_loops l)) = []"
      using life_inv_tail by (fastforce simp: list_all_iff filter_empty_conv)
    then have "active_loops l \<le> 1"
      by (cases "rl_loops l") (auto simp: active_loops_def)
    moreover have "active_loops l = 1 \<longrightarrow> rl_running l"
    proof (cases "rl_running l")
      case False
      then have "filter (\<lambda>c. c = LoopActive) (rl_loops l) = []"
        using inv by (auto simp: life_inv_def list_all_iff filter_empty_conv)
      then show ?thesis by (simp add: active_loops_def)
    qed simp
    ultimately show "active_loops l \<le> 1 \<and> (active_loops l = 1 \<longrightarrow> rl_running l)" by blast
  qed
  let ?l1 = "snd (life_Start None LoopActive new_life)"
  let ?l2 = "?l1\<lparr>rl_loops := map (\<lambda>_. LoopCancelled) (rl_loops ?l1)\<rparr>"
  let ?l3 = "?l2\<lparr>rl_loops := [] @ []\<rparr>"
  have 1: "life_reachable ?l1" using life_reachable.init life_step.start by (rule life_reachable.step)
  have 2: "life_reachable ?l2" using 1 life_step.parent_cancelled by (rule life_reachable.step)
  have "rl_loops ?l2 = [] @ LoopCancelled # []" by (simp add: life_Start_def new_life_def)
  from life_step.loop_exit [OF this] have 3: "life_reachable ?l3" by (rule life_reachable.step [OF 2])
  have "rl_loops ?l3 = [] \<and> fst (life_Start None LoopActive ?l3) \<noteq> None"
    by (simp add: life_Start_def new_life_def)
  with 3 show "\<exists>l'. life_reachable l' \<and> rl_loops l' = [] \<and> fst (life_Start None LoopActive l') \<noteq> None" by blast
qed

theorem at_most_one_active_loop_witness:
  "active_loops (snd (life_Start None LoopActive new_life)) \<le> 1"
proof -
  have "life_reachable (snd (life_Start None LoopActive new_life))"
    using life_reachable.init life_step.start by (rule life_reachable.step)
  with at_most_one_active_loop [of "snd (life_Start None LoopActive new_life)"] show ?thesis by blast
qed

text \<open>
  The kill switch does not look at the mode. A paper agent with a venue trips exactly as a live
  one does: its real orders are cancelled and its real positions flattened.
\<close>

theorem trip_ignores_mode:
  "Trip (d\<lparr>dp_agent := (dp_agent d)\<lparr>ag_mode := ModePaper\<rparr>\<rparr>) opts ls =
   Trip (d\<lparr>dp_agent := (dp_agent d)\<lparr>ag_mode := ModeLive\<rparr>\<rparr>) opts ls"
proof -
  let ?p = "d\<lparr>dp_agent := (dp_agent d)\<lparr>ag_mode := ModePaper\<rparr>\<rparr>"
  let ?l = "d\<lparr>dp_agent := (dp_agent d)\<lparr>ag_mode := ModeLive\<rparr>\<rparr>"
  have "flatten_intent ?p v p = flatten_intent ?l v p" for v p by (simp add: flatten_intent_def)
  then have "flatten_each ?p v ps st = flatten_each ?l v ps st" for v ps st
    by (induction ps arbitrary: st) (simp_all del: flatten_intent_def)
  then have f: "flattenPositions ?p v st = flattenPositions ?l v st" for v st
    by (simp add: flattenPositions_def split: prod.splits sum.splits)
  have "liquidate_leg ?p slip leg st = liquidate_leg ?l slip leg st" for slip leg st
    by (simp add: liquidate_leg_def SwapVenueForChain_def)
  then have "liquidate_legs ?p slip ls st = liquidate_legs ?l slip ls st" for slip ls st
    by (induction ls arbitrary: st) simp_all
  then have q: "liquidateSpot ?p opts st = liquidateSpot ?l opts st" for st
    by (simp add: liquidateSpot_def liquidation_slippage_def Let_def split: prod.splits sum.splits)
  have "trip_perp ?p opts st = trip_perp ?l opts st" for st
    by (auto simp: trip_perp_def f Let_def split: option.splits prod.splits)
  moreover have "halt_status ?p st = halt_status ?l st" for st
    by (simp add: halt_status_def Let_def split: prod.splits)
  ultimately show ?thesis by (simp only: Trip_def q)
qed

end
