(* ===== verification/RuntimeSync.thy ===== *)
theory RuntimeSync
  imports RuntimeCap
begin

text \<open>
  The runtime's map of open positions and the table behind it: while the database answers,
  every tick keeps the two in agreement, so a restarted runtime recovers the positions; and
  what reconciliation opens, and only that, has both its legs.
\<close>

section \<open>The database between reconciliations\<close>

lemma recordSwap_positions [simp]:
  "ad_positions (rs_db (recordSwapWithDEX d now i s dex tx status paper out gas st)) = ad_positions (rs_db st)"
  "ad_agents (rs_db (recordSwapWithDEX d now i s dex tx status paper out gas st)) = ad_agents (rs_db st)"
  by (auto simp: recordSwapWithDEX_def Let_def PersistSwap_def dest!: on_world_eqD
      split: prod.splits option.splits)

lemma recordOrder_positions [simp]:
  "ad_positions (rs_db (recordOrder d now i o1 v status paper st)) = ad_positions (rs_db st)"
  "ad_agents (rs_db (recordOrder d now i o1 v status paper st)) = ad_agents (rs_db st)"
  by (auto simp: recordOrder_def Let_def PersistOrder_def dest!: on_world_eqD
      split: prod.splits option.splits)

definition same_positions :: "'w rt_state \<Rightarrow> 'w rt_state \<Rightarrow> bool" where
  "same_positions s t \<longleftrightarrow> rs_open s = rs_open t \<and>
     ad_positions (rs_db s) = ad_positions (rs_db t) \<and> ad_agents (rs_db s) = ad_agents (rs_db t)"

lemma same_positions_refl [simp]: "same_positions s s"
  by (simp add: same_positions_def)

lemma same_positions_trans: "same_positions r s \<Longrightarrow> same_positions s t \<Longrightarrow> same_positions r t"
  by (simp add: same_positions_def)

lemma on_world_same: "on_world f st = (r, st') \<Longrightarrow> same_positions st' st"
  using on_world_eqD [of f st r st'] by (simp add: same_positions_def)

lemma executeSwap_same: "executeSwap d now i slot s snap st = (ok, st') \<Longrightarrow> same_positions st' st"
  by (auto simp: executeSwap_def Let_def same_positions_def dest!: on_world_eqD
      split: if_splits option.splits prod.splits sum.splits)

lemma executeOrder_same: "executeOrder d now i slot o1 snap st = (ok, st') \<Longrightarrow> same_positions st' st"
  by (auto simp: executeOrder_def Let_def same_positions_def dest!: on_world_eqD
      split: if_splits option.splits prod.splits sum.splits)

lemma riskSnapshot_same: "riskSnapshot d inflight ex st = (snap, st1) \<Longrightarrow> same_positions st1 st"
  by (auto simp: riskSnapshot_def dest!: on_world_same split: prod.splits)

lemma run_swaps_same: "same_positions (snd (run_swaps d now i n ss acc st)) st"
proof (induction ss arbitrary: n acc st)
  case (Cons s ss)
  obtain swapOK inflight where acc: "acc = (swapOK, inflight)" by fastforce
  obtain snap st1 where sn: "riskSnapshot d inflight [] st = (snap, st1)" by fastforce
  obtain ok st2 where ex: "executeSwap d now i n s snap st1 = (ok, st2)" by fastforce
  from riskSnapshot_same [OF sn] executeSwap_same [OF ex] Cons.IH
  show ?case by (simp add: acc sn ex Let_def) (blast intro: same_positions_trans)
qed simp

lemma run_orders_same: "same_positions (snd (run_orders d now i n os swapOK acc st)) st"
proof (induction os arbitrary: n acc st)
  case (Cons o1 os)
  obtain orderOK inflight where acc: "acc = (orderOK, inflight)" by fastforce
  let ?ex = "if order_opens o1 \<and> orderBasisKey o1 \<in> set inflight then orderBasisKey o1 else []"
  obtain snap st1 where sn: "riskSnapshot d inflight ?ex st = (snap, st1)" by fastforce
  obtain ok st2 where ex: "executeOrder d now i n o1 snap st1 = (ok, st2)" by fastforce
  from riskSnapshot_same [OF sn] executeOrder_same [OF ex] Cons.IH
  show ?case by (simp add: acc sn ex Let_def) (blast intro: same_positions_trans)
qed simp

lemma run_cancels_same: "same_positions (run_cancels d cs st) st"
proof (induction cs arbitrary: st)
  case (Cons c cs)
  have "same_positions (executeCancel d c st) st"
    by (simp add: executeCancel_def same_positions_def split: option.splits)
  with Cons.IH show ?case by (simp) (blast intro: same_positions_trans)
qed simp

section \<open>Both legs of an opened position\<close>

text \<open>A position present after the opens was there before, or was built from an order and its swap.\<close>

lemma open_all_origin:
  "map_of (rs_open (open_all d now i swaps sOK oOK os st)) k = Some bp \<Longrightarrow>
     map_of (rs_open st) k = Some bp \<or>
     (\<exists>o1 s. o1 \<in> set os \<and> order_opens o1 \<and> orderBasisKey o1 = k \<and> map_of swaps k = Some s \<and>
        leg_ok sOK k \<and> leg_ok oOK k \<and> bp = opened_basis (ag_id (dp_agent d)) now i k s o1)"
proof (induction os arbitrary: st)
  case (Cons o1 os)
  from Cons.IH [of "open_one d now i swaps sOK oOK o1 st"] Cons.prems
  have "map_of (rs_open (open_one d now i swaps sOK oOK o1 st)) k = Some bp \<or>
     (\<exists>o1 s. o1 \<in> set os \<and> order_opens o1 \<and> orderBasisKey o1 = k \<and> map_of swaps k = Some s \<and>
        leg_ok sOK k \<and> leg_ok oOK k \<and> bp = opened_basis (ag_id (dp_agent d)) now i k s o1)" by simp
  then show ?case
  proof
    assume m: "map_of (rs_open (open_one d now i swaps sOK oOK o1 st)) k = Some bp"
    show ?thesis
    proof (cases "k = orderBasisKey o1")
      case True
      with m show ?thesis
        by (auto simp: open_one_open update_conv split: if_splits)
    next
      case False
      with m show ?thesis by (auto simp: open_one_open update_conv split: if_splits)
    qed
  qed auto
qed simp

lemma close_all_origin: "map_of (rs_open (close_all d ok os st)) k = Some bp \<Longrightarrow> map_of (rs_open st) k = Some bp"
proof (induction os arbitrary: st)
  case (Cons o1 os)
  then have "map_of (rs_open (close_one d ok o1 st)) k = Some bp" by simp
  then show ?case by (auto simp: close_one_open delete_conv split: if_splits)
qed simp

lemma swapsByKey_sound:
  "map_of (foldl (\<lambda>m s. if isOpeningSwap s then AList.update (swapBasisKey s) s m else m) m ss) k = Some s \<Longrightarrow>
     map_of m k = Some s \<or> (s \<in> set ss \<and> isOpeningSwap s \<and> swapBasisKey s = k)"
proof (induction ss arbitrary: m)
  case (Cons t ss)
  from Cons.IH [OF Cons.prems [simplified]] show ?case by (auto simp: update_conv split: if_splits)
qed simp


definition both_ok_world :: "noop_world rt_state" where
  "both_ok_world = start_state []"


section \<open>Agreement with the database\<close>

definition basis_id :: "string \<Rightarrow> string \<Rightarrow> string \<Rightarrow> string" where
  "basis_id agent_id key dec_id = ''bp:'' @ agent_id @ '':'' @ key @ '':'' @ safeShortID dec_id"

lemma basis_id_inj: "basis_id a k i = basis_id a j i \<longleftrightarrow> k = j"
  by (simp add: basis_id_def)

text \<open>The table and the map agree, and the table satisfies its constraints.\<close>

definition synced :: "'w deps \<Rightarrow> 'w rt_state \<Rightarrow> bool" where
  "synced d st \<longleftrightarrow>
     positions_ok (rs_db st) \<and> has_agent (rs_db st) (ag_id (dp_agent d)) \<and>
     distinct (map fst (rs_open st)) \<and>
     position_store.in_sync (open_view (ag_id (dp_agent d))) (stored_basis (dp_sql d))
       (map_of (rs_open st)) (rs_db st)"

text \<open>No row has an id this decision could use, unless its position is tracked.\<close>

definition fresh_ids :: "'w deps \<Rightarrow> string \<Rightarrow> 'w rt_state \<Rightarrow> bool" where
  "fresh_ids d i st \<longleftrightarrow>
     (\<forall>k. map_of (rs_open st) k = None \<longrightarrow> \<not> known_id (rs_db st) (basis_id (ag_id (dp_agent d)) k i))"

definition db_answers :: "'w deps \<Rightarrow> bool" where
  "db_answers d \<longleftrightarrow> (\<forall>w. fst (fst (dp_query d w)) = None)"

lemma db_answersD: "db_answers d \<Longrightarrow> on_world (dp_query d) st = ((fail, t), st') \<Longrightarrow> fail = None"
  by (auto simp: db_answers_def on_world_def split: prod.splits) (metis fst_conv)

lemma positions_ok_cong: "ad_positions db = ad_positions db' \<Longrightarrow> positions_ok db = positions_ok db'"
  by (simp add: positions_ok_def)

lemma same_positions_views:
  assumes "same_positions s t"
  shows "positions_ok (rs_db s) = positions_ok (rs_db t)" "has_agent (rs_db s) a = has_agent (rs_db t) a"
    "open_view a (rs_db s) = open_view a (rs_db t)" "known_id (rs_db s) = known_id (rs_db t)"
    "rs_open s = rs_open t"
  using assms
  by (simp_all add: same_positions_def has_agent_def open_view_def known_id_def fun_eq_iff cong: positions_ok_cong)

lemma synced_same: "same_positions s t \<Longrightarrow> synced d s = synced d t"
  by (simp add: synced_def same_positions_views [of s t] agent_positions.in_sync_def)

lemma fresh_same: "same_positions s t \<Longrightarrow> fresh_ids d i s = fresh_ids d i t"
  by (simp add: fresh_ids_def same_positions_views [of s t])

lemma close_one_synced:
  assumes "db_answers d" "dp_store d" and "synced d st"
  shows "synced d (close_one d ok o1 st) \<and> known_id (rs_db (close_one d ok o1 st)) = known_id (rs_db st)"
proof -
  let ?k = "orderBasisKey o1" and ?a = "ag_id (dp_agent d)"
  show ?thesis
  proof (cases "oi_reduce_only o1 \<and> map_of (rs_open st) ?k \<noteq> None \<and> leg_ok ok ?k")
    case False
    then have "close_one d ok o1 st = st"
      by (auto simp: close_one_def Let_def split: option.splits)
    with assms(3) show ?thesis by simp
  next
    case True
    then obtain bp where bp: "map_of (rs_open st) ?k = Some bp" by blast
    let ?st1 = "st\<lparr>rs_open := AList.delete ?k (rs_open st)\<rparr>"
    obtain fail t st2 where q: "on_world (dp_query d) ?st1 = ((fail, t), st2)"
      by (metis prod.collapse)
    have f: "fail = None" using db_answersD [OF assms(1) q] .
    have r: "rs_db st2 = rs_db st" "rs_open st2 = AList.delete ?k (rs_open st)"
      using on_world_eqD [OF q] by simp_all
    have c: "close_one d ok o1 st = st2\<lparr>rs_db := snd (CloseBasis None t ?a (bp_underlying bp) (rs_db st))\<rparr>"
      using True bp assms(2) q f r(1) by (simp add: close_one_def Let_def)
    have ready: "positions_ok (rs_db st) \<and> has_agent (rs_db st) ?a" using assms(3) by (simp add: synced_def)
    have sync: "agent_positions.in_sync ?a (dp_sql d) (map_of (rs_open st)) (rs_db st)"
      using assms(3) by (simp add: synced_def)
    show ?thesis
      using agent_positions.in_sync_close [OF ready sync bp, of t] agent_positions.close_ready [OF ready, of t "bp_underlying bp"]
        agent_positions.close_known [of t ?a "bp_underlying bp" "rs_db st"] assms(3) r
      by (simp add: c synced_def delete_conv' distinct_delete)
  qed
qed

lemma close_all_synced:
  assumes "db_answers d" "dp_store d"
  shows "synced d st \<Longrightarrow> synced d (close_all d ok os st) \<and> known_id (rs_db (close_all d ok os st)) = known_id (rs_db st)"
  using close_one_synced [OF assms] by (induction os arbitrary: st) simp_all

lemma opened_basis_fields:
  "bp_id (opened_basis a now i k s o1) = basis_id a k i" "bp_agent_id (opened_basis a now i k s o1) = a"
  "bp_state (opened_basis a now i k s o1) = BasisOpen" "bp_opened_at (opened_basis a now i k s o1) = now"
  "to_upper (bp_underlying (opened_basis a now i k s o1)) = orderBasisKey o1"
  by (simp_all add: opened_basis_def basis_id_def orderBasisKey_def)

lemma open_one_synced:
  assumes "db_answers d" "dp_store d" "now \<noteq> zero_time" and "synced d st" "fresh_ids d i st"
  shows "synced d (open_one d now i swaps sOK oOK o1 st) \<and> fresh_ids d i (open_one d now i swaps sOK oOK o1 st)"
proof -
  let ?k = "orderBasisKey o1" and ?a = "ag_id (dp_agent d)"
  show ?thesis
  proof (cases "order_opens o1 \<and> map_of swaps ?k \<noteq> None \<and> map_of (rs_open st) ?k = None \<and> leg_ok sOK ?k \<and> leg_ok oOK ?k")
    case False
    then have "open_one d now i swaps sOK oOK o1 st = st"
      by (auto simp: open_one_def order_opens_def Let_def split: option.splits)
    with assms(4,5) show ?thesis by simp
  next
    case True
    then obtain s where s: "map_of swaps ?k = Some s" by blast
    define bp where "bp = opened_basis ?a now i ?k s o1"
    let ?st1 = "st\<lparr>rs_open := AList.update ?k bp (rs_open st)\<rparr>"
    obtain fail t st2 where q: "on_world (dp_query d) ?st1 = ((fail, t), st2)" by (metis prod.collapse)
    obtain wall st3 where w: "on_world (dp_wall d) st2 = (wall, st3)" by fastforce
    have f: "fail = None" using db_answersD [OF assms(1) q] .
    have r: "rs_db st3 = rs_db st" "rs_open st3 = AList.update ?k bp (rs_open st)"
      using on_world_eqD [OF q] on_world_eqD [OF w] by simp_all
    have c: "open_one d now i swaps sOK oOK o1 st =
        st3\<lparr>rs_db := snd (UpsertOpenBasis (dp_sql d) None wall bp (rs_db st))\<rparr>"
      using True s assms(2) q f w r(1) by (simp add: open_one_def order_opens_def Let_def bp_def)
    have ready: "positions_ok (rs_db st) \<and> has_agent (rs_db st) ?a" using assms(4) by (simp add: synced_def)
    have sync: "agent_positions.in_sync ?a (dp_sql d) (map_of (rs_open st)) (rs_db st)"
      using assms(4) by (simp add: synced_def)
    have none: "map_of (rs_open st) ?k = None" using True by blast
    have mine: "bp_agent_id bp = ?a \<and> bp_state bp = BasisOpen \<and> bp_opened_at bp \<noteq> zero_time"
      using assms(3) by (simp add: bp_def opened_basis_fields)
    have new: "\<not> known_id (rs_db st) (bp_id bp)"
      using assms(5) none by (simp add: fresh_ids_def bp_def opened_basis_fields)
    have bid: "bp_id bp = basis_id ?a ?k i" by (simp add: bp_def opened_basis_fields)
    have key: "to_upper (bp_underlying bp) = ?k" by (simp add: bp_def opened_basis_fields)
    have view: "open_view ?a (rs_db st) (bp_underlying bp) = None"
      using agent_positions.in_sync_fresh [OF sync, of "bp_underlying bp"] none key by simp
    have kn: "known_id (snd (UpsertOpenBasis (dp_sql d) None wall bp (rs_db st))) = (known_id (rs_db st))(bp_id bp := True)"
      by (rule agent_positions.upsert_known [OF ready mine new view])
    have "fresh_ids d i (open_one d now i swaps sOK oOK o1 st)"
      using assms(5) unfolding c fresh_ids_def
      by (simp add: r kn update_conv' bid basis_id_inj)
    then show ?thesis
      using agent_positions.in_sync_open [OF ready mine new sync none key, of wall]
        agent_positions.upsert_ready [OF ready mine, of "dp_sql d" wall] assms(4) r
      by (simp add: c synced_def update_conv' distinct_update)
  qed
qed

lemma open_all_synced:
  assumes "db_answers d" "dp_store d" "now \<noteq> zero_time"
  shows "synced d st \<Longrightarrow> fresh_ids d i st \<Longrightarrow> synced d (open_all d now i swaps sOK oOK os st)"
  using open_one_synced [OF assms] by (induction os arbitrary: st) simp_all

lemma execute_synced:
  assumes "db_answers d" "dp_store d" "now \<noteq> zero_time" and "synced d st" and "fresh_ids d i st"
    and "\<forall>k. \<not> known_id (rs_db st) (basis_id (ag_id (dp_agent d)) k i)"
  shows "synced d (executeSwapsThenOrders d now i dec st)"
proof -
  obtain swapOK inflight st1 where r1: "run_swaps d now i 0 (dc_swaps dec) ([], []) st = ((swapOK, inflight), st1)"
    by (metis prod.collapse)
  obtain orderOK inf2 st2 where r2: "run_orders d now i 0 (dc_orders dec) swapOK ([], inflight) st1 = ((orderOK, inf2), st2)"
    by (metis prod.collapse)
  let ?st3 = "run_cancels d (dc_cancels dec) st2"
  have same: "same_positions ?st3 st"
    using run_cancels_same [of d "dc_cancels dec" st2] run_orders_same [of d now i 0 "dc_orders dec" swapOK "([], inflight)" st1]
      run_swaps_same [of d now i 0 "dc_swaps dec" "([], [])" st] r1 r2
    by (auto intro: same_positions_trans)
  let ?c = "close_all d (Some orderOK) (dc_orders dec) ?st3"
  have s3: "synced d ?st3" using assms(4) synced_same [OF same] by simp
  have c: "synced d ?c" "known_id (rs_db ?c) = known_id (rs_db st)"
    using close_all_synced [OF assms(1,2) s3] same_positions_views(4) [OF same] by simp_all
  have "fresh_ids d i ?c" using assms(6) c(2) by (simp add: fresh_ids_def)
  from open_all_synced [OF assms(1-3) c(1) this]
  show ?thesis by (simp add: executeSwapsThenOrders_def r1 r2 Let_def reconcileOpenBasis_def)
qed

section \<open>Restarting\<close>

lemma find_none_image: "f p \<notin> f ` set ps \<Longrightarrow> find (\<lambda>q. f q = f p) ps = None"
  by (induction ps) auto

lemma find_SomeD: "find P xs = Some x \<Longrightarrow> x \<in> set xs \<and> P x"
  by (induction xs) (auto split: if_splits)

lemma hydrate_map:
  assumes "distinct (map (\<lambda>p. to_upper (bp_underlying p)) ps)"
  shows "map_of (hydrate ps) k = find (\<lambda>p. to_upper (bp_underlying p) = k) ps"
proof -
  have "map_of (foldl (\<lambda>m p. AList.update (to_upper (bp_underlying p)) p m) m ps) k =
      (case find (\<lambda>p. to_upper (bp_underlying p) = k) ps of None \<Rightarrow> map_of m k | r \<Rightarrow> r)" for m
    using assms
  proof (induction ps arbitrary: m)
    case (Cons p ps)
    show ?case
    proof (cases "to_upper (bp_underlying p) = k")
      case True
      have "find (\<lambda>p. to_upper (bp_underlying p) = k) ps = None"
        using Cons.prems find_none_image [of "\<lambda>p. to_upper (bp_underlying p)" p ps] True by simp
      then show ?thesis using Cons True by (simp add: update_conv)
    next
      case False
      then show ?thesis using Cons by (simp add: update_conv split: option.splits)
    qed
  qed simp
  from this [of "[]"] show ?thesis by (simp add: hydrate_def split: option.splits)
qed

text \<open>An open row of the agent is the one its view shows.\<close>

lemma open_row_view:
  assumes "positions_ok db" and "r \<in> set (open_rows a db)"
  shows "open_view a db (bp_underlying r) = Some r"
proof -
  from assms(2) have r: "r \<in> set (ad_positions db)" "open_row_for a (bp_underlying r) r"
    by (auto simp: open_rows_def open_row_for_def)
  then have "find (open_row_for a (bp_underlying r)) (ad_positions db) \<noteq> None"
    by (auto simp: find_None_iff)
  then obtain q where q: "find (open_row_for a (bp_underlying r)) (ad_positions db) = Some q" by blast
  then have "q \<in> set (ad_positions db)" "open_row_for a (bp_underlying r) q"
    by (auto simp: find_Some_iff)
  with r assms(1) have "q = r"
    by (auto simp: positions_ok_def distinct_map inj_on_def open_row_for_iff)
  with q show ?thesis by (simp add: open_view_def)
qed

lemma view_open_row: "open_view a db u = Some r \<Longrightarrow> r \<in> set (open_rows a db) \<and> bp_underlying r = u"
  by (auto simp: open_view_def open_rows_def open_row_for_def find_Some_iff)

lemma distinct_open_rows: "positions_ok db \<Longrightarrow> distinct (map bp_underlying (open_rows a db))"
proof -
  assume ok: "positions_ok db"
  have "distinct (open_rows a db)"
    using ok by (simp add: positions_ok_def open_rows_def distinct_map)
  moreover have "inj_on bp_underlying (set (open_rows a db))"
    using open_row_view [OF ok] by (intro inj_onI) (metis option.inject)
  ultimately show ?thesis by (simp add: distinct_map)
qed

lemma synced_recovers:
  assumes "synced d st" "db_answers d" "dp_store d"
  shows "map_of (rs_open (NewRuntime d (rs_db st) w)) k = map_option (stored_basis (dp_sql d)) (map_of (rs_open st) k)"
proof -
  let ?a = "ag_id (dp_agent d)" and ?db = "rs_db st"
  let ?ps = "sort_key bp_opened_at (open_rows ?a ?db)"
  let ?st0 = "\<lparr>rs_world = w, rs_db = ?db, rs_open = [], rs_warmup = None\<rparr>"
  obtain fail t st1 where q: "on_world (dp_query d) ?st0 = ((fail, t), st1)" by (metis prod.collapse)
  have f: "fail = None" using db_answersD [OF assms(2) q] .
  have n: "rs_open (NewRuntime d ?db w) = hydrate ?ps"
    using q f assms(3) on_world_eqD [OF q] by (simp add: NewRuntime_def LoadOpenBasis_def Let_def)
  have ok: "positions_ok ?db" and sync: "agent_positions.in_sync ?a (dp_sql d) (map_of (rs_open st)) ?db"
    using assms(1) by (simp_all add: synced_def)
  have keyed: "map_of (rs_open st) (to_upper (bp_underlying r)) = Some p \<and> bp_underlying p = bp_underlying r"
    if "r \<in> set ?ps" "map_of (rs_open st) (to_upper (bp_underlying r)) = Some p" for r p
    using that sync open_row_view [OF ok, of r ?a] unfolding agent_positions.in_sync_def by auto
  have tracked: "\<exists>p. map_of (rs_open st) (to_upper (bp_underlying r)) = Some p \<and> bp_underlying p = bp_underlying r"
    if "r \<in> set ?ps" for r
    using that sync open_row_view [OF ok, of r ?a] unfolding agent_positions.in_sync_def by simp
  have "distinct ?ps" using distinct_open_rows [OF ok, of ?a] by (simp add: distinct_map)
  moreover have "inj_on (\<lambda>p. to_upper (bp_underlying p)) (set ?ps)"
  proof (rule inj_onI)
    fix x y assume xy: "x \<in> set ?ps" "y \<in> set ?ps" "to_upper (bp_underlying x) = to_upper (bp_underlying y)"
    from tracked [OF xy(1)] obtain p where
      p: "map_of (rs_open st) (to_upper (bp_underlying x)) = Some p" "bp_underlying p = bp_underlying x" by blast
    from tracked [OF xy(2)] obtain q where
      q: "map_of (rs_open st) (to_upper (bp_underlying y)) = Some q" "bp_underlying q = bp_underlying y" by blast
    have "p = q" using p(1) q(1) unfolding xy(3) by simp
    then have e: "bp_underlying x = bp_underlying y" using p(2) q(2) by simp
    have "open_view ?a ?db (bp_underlying x) = Some x" "open_view ?a ?db (bp_underlying y) = Some y"
      using xy(1,2) by (simp_all add: open_row_view [OF ok])
    then show "x = y" unfolding e by simp
  qed
  ultimately have dist: "distinct (map (\<lambda>p. to_upper (bp_underlying p)) ?ps)" by (simp add: distinct_map)
  show ?thesis
  proof (cases "map_of (rs_open st) k")
    case None
    have "\<not> (\<exists>r \<in> set ?ps. to_upper (bp_underlying r) = k)" using tracked None by fastforce
    then have "find (\<lambda>p. to_upper (bp_underlying p) = k) ?ps = None" by (simp add: find_None_iff)
    then show ?thesis using None by (simp only: n hydrate_map [OF dist] option.map)
  next
    case (Some p)
    then have k: "to_upper (bp_underlying p) = k" and v: "open_view ?a ?db (bp_underlying p) = Some (stored_basis (dp_sql d) p)"
      using sync unfolding agent_positions.in_sync_def by blast+
    from view_open_row [OF v] have r: "stored_basis (dp_sql d) p \<in> set ?ps" by simp
    then have "find (\<lambda>p. to_upper (bp_underlying p) = k) ?ps \<noteq> None" using k by (auto simp: find_None_iff)
    then obtain q where q: "find (\<lambda>p. to_upper (bp_underlying p) = k) ?ps = Some q" by blast
    then have "q \<in> set ?ps" "to_upper (bp_underlying q) = k" using find_SomeD by fastforce+
    then have "q = stored_basis (dp_sql d) p"
      using r k dist by (auto simp: distinct_map inj_on_def)
    then show ?thesis using Some q by (simp only: n hydrate_map [OF dist] option.map)
  qed
qed



end
