(* ===== verification/Backtest.thy ===== *)
theory Backtest
  imports Venues
begin

text \<open>
  \<open>internal/backtest\<close>: the time-stepped replay of funding ticks through a strategy (runner.go), its
  types and market snapshots (types.go) and the CSV rows (csv.go). The strategy may keep state: it
  is a function of its input and a world. The loop is a partial function: \<open>None\<close> is a run
  that never ends.
\<close>

section \<open>Types (types.go)\<close>

record funding_tick =
  ft_time :: time
  ft_symbol :: string
  ft_rate :: decimal
  ft_interval :: duration
  ft_mark :: decimal

record costs =
  co_perp_fee_bps :: int
  co_swap_fee_bps :: int
  co_gas_usd :: decimal
  co_slippage_bps :: int

definition Costs_Defaults :: "declib \<Rightarrow> costs \<Rightarrow> costs" where
  "Costs_Defaults L c =
     \<lparr>co_perp_fee_bps = (if co_perp_fee_bps c = 0 then 4 else co_perp_fee_bps c),
      co_swap_fee_bps = (if co_swap_fee_bps c = 0 then 25 else co_swap_fee_bps c),
      co_gas_usd = (if co_gas_usd c = 0 then d_of_float L (5 / 100) else co_gas_usd c),
      co_slippage_bps = (if co_slippage_bps c = 0 then 10 else co_slippage_bps c)\<rparr>"

datatype trade_action = TradeOpen | TradeClose

record trade =
  tr_time :: time
  tr_action :: trade_action
  tr_symbol :: string
  tr_notional :: decimal
  tr_funding :: decimal
  tr_fees :: decimal
  tr_net_pnl :: decimal

record nav_point =
  np_time :: time
  np_nav :: decimal

record bt_result =
  br_start :: time
  br_end :: time
  br_starting_nav :: decimal
  br_ending_nav :: decimal
  br_total_return :: decimal
  br_max_drawdown :: decimal
  br_num_decisions :: nat
  br_num_opens :: nat
  br_num_closes :: nat
  br_total_funding :: decimal
  br_total_fees :: decimal
  br_nav_curve :: "nav_point list"
  br_trades :: "trade list"

definition zero_result :: bt_result where
  "zero_result = \<lparr>br_start = zero_time, br_end = zero_time, br_starting_nav = 0, br_ending_nav = 0,
     br_total_return = 0, br_max_drawdown = 0, br_num_decisions = 0, br_num_opens = 0, br_num_closes = 0,
     br_total_funding = 0, br_total_fees = 0, br_nav_curve = [], br_trades = []\<rparr>"

definition tick_snap :: "funding_tick \<Rightarrow> symbol_snap" where
  "tick_snap tk = \<lparr>ss_tick = zero_tick, ss_book = zero_book,
     ss_funding = zero_funding\<lparr>fr_time := ft_time tk, fr_symbol := ft_symbol tk, fr_rate := ft_rate tk,
       fr_interval := ft_interval tk, fr_mark_price := (if ft_mark tk = 0 then 1 else ft_mark tk)\<rparr>\<rparr>"

definition snapshot_tick ::
  "time \<Rightarrow> (string \<times> symbol_snap) list \<Rightarrow> funding_tick \<Rightarrow> (string \<times> symbol_snap) list" where
  "snapshot_tick t m tk =
     (if t < ft_time tk then m
      else if (case map_of m (ft_symbol tk) of
                 None \<Rightarrow> False | Some cur \<Rightarrow> ft_time tk < fr_time (ss_funding cur)) then m
      else AList.update (ft_symbol tk) (tick_snap tk) m)"

definition MarketSnapshotAt :: "time \<Rightarrow> funding_tick list \<Rightarrow> market_snapshot" where
  "MarketSnapshotAt t ticks = \<lparr>ms_time = t, ms_symbols = foldl (snapshot_tick t) [] ticks\<rparr>"

section \<open>The simulated portfolio (runner.go)\<close>

record open_pos =
  op_opened_at :: time
  op_symbol :: string
  op_notional :: decimal
  op_funding :: decimal
  op_open_fees :: decimal

record bt_portfolio =
  pf_cash :: decimal
  pf_positions :: "(string \<times> open_pos) list"

definition newPortfolio :: "decimal \<Rightarrow> bt_portfolio" where
  "newPortfolio nav = \<lparr>pf_cash = nav, pf_positions = []\<rparr>"

definition pf_nav :: "bt_portfolio \<Rightarrow> decimal" where
  "pf_nav p = foldl (\<lambda>v op. v + op_notional op + op_funding op) (pf_cash p) (map snd (pf_positions p))"

definition openPositions :: "bt_portfolio \<Rightarrow> basis_position list" where
  "openPositions p =
     map (\<lambda>op. zero_basis\<lparr>bp_id := ''bt:'' @ op_symbol op, bp_underlying := op_symbol op, bp_state := BasisOpen,
         bp_legs := [zero_leg\<lparr>lg_kind := BasisLegPerp, lg_symbol := op_symbol op, lg_qty := op_notional op, lg_avg_price := 1\<rparr>,
                     zero_leg\<lparr>lg_kind := BasisLegSpot, lg_qty := op_notional op, lg_avg_price := 1\<rparr>],
         bp_opened_at := op_opened_at op, bp_realized_funding := op_funding op\<rparr>)
       (map snd (pf_positions p))"

definition bps_fee :: "declib \<Rightarrow> decimal \<Rightarrow> costs \<Rightarrow> decimal" where
  "bps_fee L notional c =
     d_div L (notional * of_int (co_perp_fee_bps c + co_swap_fee_bps c + co_slippage_bps c)) 10000 + co_gas_usd c"

definition openFees :: "declib \<Rightarrow> decimal \<Rightarrow> costs \<Rightarrow> decimal" where
  "openFees L notional c = bps_fee L notional c"

definition closeFees :: "declib \<Rightarrow> decimal \<Rightarrow> costs \<Rightarrow> decimal" where
  "closeFees L notional c = bps_fee L notional c"

text \<open>The decimal package panics on a division by zero: a tick without an interval, \<open>None\<close>.\<close>

fun accrue_ticks ::
  "declib \<Rightarrow> time \<Rightarrow> duration \<Rightarrow> funding_tick list \<Rightarrow> decimal \<times> (string \<times> open_pos) list
     \<Rightarrow> (decimal \<times> (string \<times> open_pos) list) option" where
  "accrue_ticks L t step [] acc = Some acc"
| "accrue_ticks L t step (tk # tks) (fsum, ps) =
     (if ft_time tk < t - step \<or> \<not> ft_time tk < t then accrue_ticks L t step tks (fsum, ps)
      else case map_of ps (ft_symbol tk) of
          None \<Rightarrow> accrue_ticks L t step tks (fsum, ps)
        | Some op \<Rightarrow>
            if ft_interval tk = 0 then None
            else let amt = op_notional op * ft_rate tk * d_div L (of_int step) (of_int (ft_interval tk))
                 in accrue_ticks L t step tks
                      (fsum + amt, AList.update (ft_symbol tk) (op\<lparr>op_funding := op_funding op + amt\<rparr>) ps))"

definition accrueFunding ::
  "declib \<Rightarrow> time \<Rightarrow> funding_tick list \<Rightarrow> duration \<Rightarrow> bt_portfolio \<Rightarrow> (decimal \<times> bt_portfolio) option" where
  "accrueFunding L t ticks step p =
     (if pf_positions p = [] then Some (0, p)
      else case accrue_ticks L t step ticks (0, pf_positions p) of
          None \<Rightarrow> None
        | Some (fsum, ps) \<Rightarrow> Some (fsum, p\<lparr>pf_positions := ps\<rparr>))"

definition pf_open ::
  "declib \<Rightarrow> time \<Rightarrow> string \<Rightarrow> decimal \<Rightarrow> costs \<Rightarrow> bt_portfolio \<Rightarrow> (trade \<times> bt_portfolio) option" where
  "pf_open L t symbol notional c p =
     (if map_of (pf_positions p) symbol \<noteq> None then None
      else if notional = 0 then None
      else
        let fees = openFees L notional c
        in if pf_cash p < notional + fees then None
           else Some (\<lparr>tr_time = t, tr_action = TradeOpen, tr_symbol = symbol, tr_notional = notional,
                       tr_funding = 0, tr_fees = fees, tr_net_pnl = 0\<rparr>,
                      \<lparr>pf_cash = pf_cash p - notional - fees,
                       pf_positions = AList.update symbol \<lparr>op_opened_at = t, op_symbol = symbol,
                         op_notional = notional, op_funding = 0, op_open_fees = fees\<rparr> (pf_positions p)\<rparr>))"

definition pf_close ::
  "declib \<Rightarrow> time \<Rightarrow> string \<Rightarrow> costs \<Rightarrow> bt_portfolio \<Rightarrow> (trade \<times> bt_portfolio) option" where
  "pf_close L t symbol c p =
     (case map_of (pf_positions p) symbol of
        None \<Rightarrow> None
      | Some op \<Rightarrow>
          let fee = closeFees L (op_notional op) c; total_fees = op_open_fees op + fee
          in Some (\<lparr>tr_time = t, tr_action = TradeClose, tr_symbol = symbol, tr_notional = op_notional op,
                    tr_funding = op_funding op, tr_fees = total_fees,
                    tr_net_pnl = op_funding op - total_fees\<rparr>,
                   \<lparr>pf_cash = pf_cash p + op_notional op + op_funding op - fee,
                    pf_positions = AList.delete symbol (pf_positions p)\<rparr>))"

section \<open>One step and the loop (runner.go)\<close>

type_synonym 'w decide = "decision_input \<Rightarrow> 'w \<Rightarrow> (go_error + decision) \<times> 'w"

record 'w runner =
  rn_strategy :: "'w decide option"
  rn_step :: duration
  rn_starting_nav :: decimal
  rn_costs :: costs

definition NewRunner ::
  "declib \<Rightarrow> 'w decide option \<Rightarrow> decimal \<Rightarrow> duration \<Rightarrow> costs \<Rightarrow> 'w runner" where
  "NewRunner L s nav step c =
     \<lparr>rn_strategy = s, rn_step = (if step = 0 then nano_hour else step),
      rn_starting_nav = (if nav = 0 then 10000 else nav), rn_costs = Costs_Defaults L c\<rparr>"

fun apply_closes ::
  "declib \<Rightarrow> costs \<Rightarrow> time \<Rightarrow> order_intent list \<Rightarrow> bt_portfolio \<times> bt_result \<Rightarrow> bt_portfolio \<times> bt_result" where
  "apply_closes L c t [] s = s"
| "apply_closes L c t (o1 # os) (p, r) =
     (if \<not> oi_reduce_only o1 then apply_closes L c t os (p, r)
      else case pf_close L t (oi_symbol o1) c p of
          None \<Rightarrow> apply_closes L c t os (p, r)
        | Some (tr, p') \<Rightarrow> apply_closes L c t os
            (p', r\<lparr>br_num_closes := Suc (br_num_closes r), br_total_fees := br_total_fees r + tr_fees tr,
                   br_trades := br_trades r @ [tr]\<rparr>))"

fun apply_opens ::
  "declib \<Rightarrow> costs \<Rightarrow> time \<Rightarrow> swap_intent list \<Rightarrow> bt_portfolio \<times> bt_result \<Rightarrow> bt_portfolio \<times> bt_result" where
  "apply_opens L c t [] s = s"
| "apply_opens L c t (sw # sws) (p, r) =
     (if as_symbol (si_out_token sw) = ''USDC'' then apply_opens L c t sws (p, r)
      else case pf_open L t (as_symbol (si_out_token sw)) (si_in_amount sw) c p of
          None \<Rightarrow> apply_opens L c t sws (p, r)
        | Some (tr, p') \<Rightarrow> apply_opens L c t sws
            (p', r\<lparr>br_num_opens := Suc (br_num_opens r), br_total_fees := br_total_fees r + tr_fees tr,
                   br_trades := br_trades r @ [tr]\<rparr>))"

datatype bt_abort = BtError go_error | BtPanic

definition bt_input :: "time \<Rightarrow> funding_tick list \<Rightarrow> bt_portfolio \<Rightarrow> decision_input" where
  "bt_input t ticks p = \<lparr>di_agent_id = ''backtest'', di_now = t, di_market = MarketSnapshotAt t ticks,
     di_perp_positions = [], di_spot_balances = [], di_basis_positions = openPositions p, di_cash = [],
     di_limits = zero_limits\<rparr>"

text \<open>\<open>ctx\<close> reads the context's error off the world before each step, \<open>srt\<close> is \<open>sort.Slice\<close> by time; \<open>fmt\<close> is the RFC 3339 text of a time.\<close>

definition bt_step ::
  "declib \<Rightarrow> (time \<Rightarrow> string) \<Rightarrow> ('w \<Rightarrow> go_error option) \<Rightarrow> 'w decide \<Rightarrow> 'w runner \<Rightarrow> funding_tick list \<Rightarrow> time
     \<Rightarrow> bt_portfolio \<times> bt_result \<times> 'w \<Rightarrow> bt_abort option \<times> bt_portfolio \<times> bt_result \<times> 'w" where
  "bt_step L fmt ctx decide r ticks t s =
     (case s of (p, res, w) \<Rightarrow>
      case ctx w of
        Some e \<Rightarrow> (Some (BtError e), p, res, w)
      | None \<Rightarrow>
         (case accrueFunding L t ticks (rn_step r) p of
            None \<Rightarrow> (Some BtPanic, p, res, w)
          | Some (amt, p1) \<Rightarrow>
             (let res1 = res\<lparr>br_total_funding := br_total_funding res + amt\<rparr>
              in case decide (bt_input t ticks p1) w of
                   (Inl e, w') \<Rightarrow> (Some (BtError (Wrap (''decide at '' @ fmt t) e)), p1, res1, w')
                 | (Inr dec, w') \<Rightarrow>
                    (let res2 = res1\<lparr>br_num_decisions := Suc (br_num_decisions res1)\<rparr>;
                         (p3, res3) = apply_opens L (rn_costs r) t (dc_swaps dec)
                            (apply_closes L (rn_costs r) t (dc_orders dec) (p1, res2));
                         nav = pf_nav p3
                     in (None, p3, res3\<lparr>br_nav_curve := br_nav_curve res3 @ [\<lparr>np_time = t, np_nav = nav\<rparr>],
                                        br_ending_nav := nav\<rparr>, w')))))"

partial_function (option) bt_loop ::
  "declib \<Rightarrow> (time \<Rightarrow> string) \<Rightarrow> ('w \<Rightarrow> go_error option) \<Rightarrow> 'w decide \<Rightarrow> 'w runner \<Rightarrow> funding_tick list \<Rightarrow> time \<Rightarrow> time
     \<Rightarrow> bt_portfolio \<times> bt_result \<times> 'w \<Rightarrow> (bt_abort option \<times> bt_portfolio \<times> bt_result \<times> 'w) option" where
  "bt_loop L fmt ctx decide r ticks t fin s =
     (if fin < t then Some (None, s)
      else case bt_step L fmt ctx decide r ticks t s of
          (Some a, s') \<Rightarrow> Some (Some a, s')
        | (None, s') \<Rightarrow> bt_loop L fmt ctx decide r ticks (t + rn_step r) fin s')"

fun drawdown_from :: "declib \<Rightarrow> decimal \<Rightarrow> decimal \<Rightarrow> decimal list \<Rightarrow> decimal" where
  "drawdown_from L peak worst [] = worst"
| "drawdown_from L peak worst (x # xs) =
     (if peak < x then drawdown_from L x worst xs
      else if 0 < peak then
        (let dd = d_div L (peak - x) peak
         in drawdown_from L peak (if worst < dd then dd else worst) xs)
      else drawdown_from L peak worst xs)"

definition computeMaxDrawdown :: "declib \<Rightarrow> nav_point list \<Rightarrow> decimal" where
  "computeMaxDrawdown L curve =
     (case map np_nav curve of [] \<Rightarrow> 0 | x # xs \<Rightarrow> drawdown_from L x 0 xs)"

text \<open>\<open>Truncate\<close> rounds down to a multiple of the step since the zero time, and keeps the time if the step is not positive.\<close>

definition time_truncate :: "time \<Rightarrow> duration \<Rightarrow> time" where
  "time_truncate t step = (if step \<le> 0 then t else t - (t - zero_time) mod step)"

definition Run ::
  "declib \<Rightarrow> (time \<Rightarrow> string) \<Rightarrow> ('w \<Rightarrow> go_error option) \<Rightarrow> (funding_tick list \<Rightarrow> funding_tick list)
     \<Rightarrow> 'w runner \<Rightarrow> funding_tick list \<Rightarrow> 'w \<Rightarrow> (bt_abort option \<times> bt_result \<times> 'w) option" where
  "Run L fmt ctx srt r ticks0 w =
     (case rn_strategy r of
        None \<Rightarrow> Some (Some (BtError (Errorf ''backtest: strategy is required'')), zero_result, w)
      | Some decide \<Rightarrow>
         (if ticks0 = [] then Some (Some (BtError (Errorf ''backtest: no ticks supplied'')), zero_result, w)
          else
            let ticks = srt ticks0;
                start = time_truncate (ft_time (hd ticks)) (rn_step r);
                fin = time_truncate (ft_time (last ticks)) (rn_step r) + rn_step r;
                res0 = zero_result\<lparr>br_start := start, br_ending_nav := rn_starting_nav r, br_starting_nav := rn_starting_nav r\<rparr>
            in case bt_loop L fmt ctx decide r ticks start fin (newPortfolio (rn_starting_nav r), res0, w) of
                 None \<Rightarrow> None
               | Some (Some a, _, res, w') \<Rightarrow> Some (Some a, res, w')
               | Some (None, _, res, w') \<Rightarrow>
                   Some (None, res\<lparr>br_end := fin,
                     br_total_return := (if rn_starting_nav r = 0 then br_total_return res
                                         else d_div L (br_ending_nav res) (rn_starting_nav r) - 1),
                     br_max_drawdown := computeMaxDrawdown L (br_nav_curve res)\<rparr>, w')))"

section \<open>CSV rows (csv.go)\<close>

text \<open>
  Splitting into fields is the CSV library's. \<open>parse_time\<close> stands for \<open>parseTime\<close>'s two
  formats and \<open>parse_int\<close> for \<open>strconv.ParseInt\<close>.
\<close>

fun find_index :: "string \<Rightarrow> string list \<Rightarrow> nat \<Rightarrow> nat option" where
  "find_index name [] i = None"
| "find_index name (h # hs) i = (if h = name then Some i else find_index name hs (Suc i))"

definition csv_row ::
  "declib \<Rightarrow> (string \<Rightarrow> go_error + time) \<Rightarrow> (string \<Rightarrow> go_error + int)
     \<Rightarrow> nat \<times> nat \<times> nat \<times> nat \<times> nat option \<Rightarrow> nat \<Rightarrow> string list \<Rightarrow> (bt_abort + funding_tick)" where
  "csv_row L parse_time parse_int cols line row =
     (case cols of (ti, si, ri, ii, mi) \<Rightarrow>
      let row_err = (\<lambda>what e. Inl (BtError (Wrap (''backtest: csv row '' @ nat_str (line + 2) @ what) e)))
      in if length row \<le> ii then Inl (BtError (Errorf (''backtest: csv row '' @ nat_str (line + 2) @ '' truncated'')))
         else if length row \<le> ti then Inl BtPanic
         else case parse_time (row ! ti) of
             Inl e \<Rightarrow> row_err '' time'' e
           | Inr t \<Rightarrow>
              if length row \<le> ri then Inl BtPanic
              else case d_parse L (row ! ri) of
                  None \<Rightarrow> row_err '' rate'' (Errorf ''can't convert to decimal'')
                | Some rate \<Rightarrow>
                   (case parse_int (row ! ii) of
                      Inl e \<Rightarrow> row_err '' interval'' e
                    | Inr secs \<Rightarrow>
                       if length row \<le> si then Inl BtPanic
                       else
                         let tk = \<lparr>ft_time = t, ft_symbol = row ! si, ft_rate = rate,
                                   ft_interval = wrap64 (secs * nano_second), ft_mark = 0\<rparr>
                         in case mi of
                              None \<Rightarrow> Inr tk
                            | Some m \<Rightarrow>
                                if length row \<le> m \<or> row ! m = [] then Inr tk
                                else case d_parse L (row ! m) of
                                    None \<Rightarrow> row_err '' mark_price'' (Errorf ''can't convert to decimal'')
                                  | Some mark \<Rightarrow> Inr (tk\<lparr>ft_mark := mark\<rparr>)))"

fun csv_rows ::
  "declib \<Rightarrow> (string \<Rightarrow> go_error + time) \<Rightarrow> (string \<Rightarrow> go_error + int)
     \<Rightarrow> nat \<times> nat \<times> nat \<times> nat \<times> nat option \<Rightarrow> nat \<Rightarrow> string list list \<Rightarrow> (bt_abort + funding_tick list)" where
  "csv_rows L parse_time parse_int cols line [] = Inr []"
| "csv_rows L parse_time parse_int cols line (row # rows) =
     (case csv_row L parse_time parse_int cols line row of
        Inl a \<Rightarrow> Inl a
      | Inr tk \<Rightarrow> (case csv_rows L parse_time parse_int cols (Suc line) rows of Inl a \<Rightarrow> Inl a | Inr tks \<Rightarrow> Inr (tk # tks)))"

definition ReadCSV ::
  "declib \<Rightarrow> (string \<Rightarrow> go_error + time) \<Rightarrow> (string \<Rightarrow> go_error + int) \<Rightarrow> go_error + string list list
     \<Rightarrow> (bt_abort + funding_tick list)" where
  "ReadCSV L parse_time parse_int parsed =
     (case parsed of
        Inl e \<Rightarrow> Inl (BtError (Wrap ''backtest: csv'' e))
      | Inr rows \<Rightarrow>
          if length rows < 2 then Inl (BtError (Errorf ''backtest: csv has no data rows''))
          else
            let h = hd rows
            in case (find_index ''time'' h 0, find_index ''symbol'' h 0, find_index ''rate'' h 0, find_index ''interval_seconds'' h 0) of
                 (Some ti, Some si, Some ri, Some ii) \<Rightarrow>
                   csv_rows L parse_time parse_int (ti, si, ri, ii, find_index ''mark_price'' h 0) 0 (tl rows)
               | _ \<Rightarrow> Inl (BtError (Errorf ''backtest: csv missing required columns time,symbol,rate,interval_seconds'')))"

section \<open>The accounting identity\<close>

definition pos_value :: "(string \<times> open_pos) list \<Rightarrow> decimal" where
  "pos_value ps = sum_list (map (\<lambda>(k, op). op_notional op + op_funding op) ps)"

lemma pos_value_simps [simp]:
  "pos_value [] = 0" "pos_value ((k, op) # ps) = op_notional op + op_funding op + pos_value ps"
  by (simp_all add: pos_value_def)

lemma pf_nav_value: "pf_nav p = pf_cash p + pos_value (pf_positions p)"
proof -
  have "foldl (\<lambda>v op. v + op_notional op + op_funding op) c (map snd ps) = c + pos_value ps" for c ps
    by (induction ps arbitrary: c) auto
  then show ?thesis by (simp add: pf_nav_def)
qed

lemma pos_value_fresh: "map_of ps k = None \<Longrightarrow> pos_value (AList.update k op ps) = pos_value ps + op_notional op + op_funding op"
  by (induction ps) (auto split: if_splits)

lemma pos_value_update:
  "map_of ps k = Some old \<Longrightarrow> pos_value (AList.update k op ps)
     = pos_value ps - op_notional old - op_funding old + op_notional op + op_funding op"
  by (induction ps) (auto split: if_splits)

lemma delete_fresh: "map_of ps k = None \<Longrightarrow> AList.delete k ps = ps"
  by (induction ps) (auto split: if_splits)

lemma pos_value_delete:
  "distinct (map fst ps) \<Longrightarrow> map_of ps k = Some old
     \<Longrightarrow> pos_value (AList.delete k ps) = pos_value ps - op_notional old - op_funding old"
proof (induction ps)
  case (Cons a ps)
  then show ?case
    by (cases a) (auto simp: delete_fresh map_of_eq_None_iff split: if_splits)
qed simp

text \<open>Every open position remembers the fees its size costs, under a key of its own.\<close>

definition pf_ok :: "declib \<Rightarrow> costs \<Rightarrow> (string \<times> open_pos) list \<Rightarrow> bool" where
  "pf_ok L c ps \<longleftrightarrow> distinct (map fst ps) \<and> list_all (\<lambda>(k, op). op_open_fees op = openFees L (op_notional op) c) ps"

lemma pf_ok_lookup: "pf_ok L c ps \<Longrightarrow> map_of ps k = Some op \<Longrightarrow> op_open_fees op = openFees L (op_notional op) c"
  by (auto simp: pf_ok_def list_all_iff dest!: map_of_SomeD)

lemma list_all_update: "list_all P ps \<Longrightarrow> P (k, v) \<Longrightarrow> list_all P (AList.update k v ps)"
  by (induction ps) auto

lemma list_all_delete: "list_all P ps \<Longrightarrow> list_all P (AList.delete k ps)"
  by (induction ps) auto

lemma pf_ok_update: "pf_ok L c ps \<Longrightarrow> op_open_fees op = openFees L (op_notional op) c \<Longrightarrow> pf_ok L c (AList.update k op ps)"
  by (simp add: pf_ok_def distinct_update list_all_update)

lemma pf_ok_delete: "pf_ok L c ps \<Longrightarrow> pf_ok L c (AList.delete k ps)"
  by (simp add: pf_ok_def distinct_delete list_all_delete)

lemma accrue_ticks_value:
  "accrue_ticks L t step tks (a, ps) = Some (b, ps') \<Longrightarrow> pf_ok L c ps
     \<Longrightarrow> pf_ok L c ps' \<and> pos_value ps' - pos_value ps = b - a"
proof (induction tks arbitrary: a ps)
  case (Cons tk tks)
  show ?case
  proof (cases "ft_time tk < t - step \<or> \<not> ft_time tk < t \<or> map_of ps (ft_symbol tk) = None")
    case True
    with Cons.prems show ?thesis by (intro Cons.IH) (auto split: if_splits)
  next
    case False
    then obtain op where op: "map_of ps (ft_symbol tk) = Some op" by auto
    let ?amt = "op_notional op * ft_rate tk * d_div L (of_int step) (of_int (ft_interval tk))"
    let ?ps = "AList.update (ft_symbol tk) (op\<lparr>op_funding := op_funding op + ?amt\<rparr>) ps"
    have "accrue_ticks L t step tks (a + ?amt, ?ps) = Some (b, ps')"
      using Cons.prems(1) False op by (simp add: Let_def split: if_splits)
    moreover have "pf_ok L c ?ps"
      using Cons.prems(2) pf_ok_lookup [OF Cons.prems(2) op] by (intro pf_ok_update) simp_all
    ultimately have "pf_ok L c ps' \<and> pos_value ps' - pos_value ?ps = b - (a + ?amt)"
      by (rule Cons.IH)
    then show ?thesis by (simp add: pos_value_update [OF op])
  qed
qed simp

text \<open>The open fees that closing trades report a second time.\<close>

definition reported_twice :: "declib \<Rightarrow> costs \<Rightarrow> trade list \<Rightarrow> decimal" where
  "reported_twice L c trs =
     sum_list (map (\<lambda>tr. openFees L (tr_notional tr) c) (filter (\<lambda>tr. tr_action tr = TradeClose) trs))"

definition balanced :: "declib \<Rightarrow> costs \<Rightarrow> decimal \<Rightarrow> bt_portfolio \<Rightarrow> bt_result \<Rightarrow> bool" where
  "balanced L c nav0 p res \<longleftrightarrow> pf_ok L c (pf_positions p)
     \<and> pf_nav p = nav0 + br_total_funding res - br_total_fees res + reported_twice L c (br_trades res)"

lemma pf_open_balanced:
  assumes "balanced L c nav0 p res" "pf_open L t k n c p = Some (tr, p')"
  shows "balanced L c nav0 p' (res\<lparr>br_num_opens := m, br_total_fees := br_total_fees res + tr_fees tr,
           br_trades := br_trades res @ [tr]\<rparr>)"
  using assms
  by (auto simp: balanced_def pf_open_def pf_nav_value reported_twice_def Let_def pos_value_fresh
      intro!: pf_ok_update split: if_splits)

lemma pf_close_balanced:
  assumes "balanced L c nav0 p res" "pf_close L t k c p = Some (tr, p')"
  shows "balanced L c nav0 p' (res\<lparr>br_num_closes := m, br_total_fees := br_total_fees res + tr_fees tr,
           br_trades := br_trades res @ [tr]\<rparr>)"
proof -
  from assms obtain op where op: "map_of (pf_positions p) k = Some op"
    by (auto simp: pf_close_def split: option.splits)
  have "op_open_fees op = openFees L (op_notional op) c"
    using assms(1) op by (auto simp: balanced_def intro: pf_ok_lookup)
  moreover have "distinct (map fst (pf_positions p))"
    using assms(1) by (simp add: balanced_def pf_ok_def)
  ultimately show ?thesis
    using assms op by (auto simp: balanced_def pf_close_def pf_nav_value reported_twice_def Let_def
        pos_value_delete pf_ok_delete)
qed

lemma apply_closes_balanced:
  "balanced L c nav0 p res \<Longrightarrow> apply_closes L c t os (p, res) = (p', res') \<Longrightarrow> balanced L c nav0 p' res'"
  by (induction os arbitrary: p res) (auto split: if_splits option.splits dest: pf_close_balanced)

lemma apply_opens_balanced:
  "balanced L c nav0 p res \<Longrightarrow> apply_opens L c t sws (p, res) = (p', res') \<Longrightarrow> balanced L c nav0 p' res'"
  by (induction sws arbitrary: p res) (auto split: if_splits option.splits dest: pf_open_balanced)

lemma accrueFunding_balanced:
  assumes "balanced L c nav0 p res" "accrueFunding L t ticks step p = Some (amt, p')"
  shows "balanced L c nav0 p' (res\<lparr>br_total_funding := br_total_funding res + amt\<rparr>)"
proof (cases "pf_positions p = []")
  case True
  with assms show ?thesis by (simp add: accrueFunding_def balanced_def)
next
  case False
  with assms(2) obtain ps where ps: "accrue_ticks L t step ticks (0, pf_positions p) = Some (amt, ps)"
    and p': "p' = p\<lparr>pf_positions := ps\<rparr>"
    by (auto simp: accrueFunding_def split: option.splits)
  from accrue_ticks_value [OF ps, of c] assms(1)
  show ?thesis by (auto simp: balanced_def pf_nav_value p')
qed

lemma balanced_nav_curve [simp]:
  "balanced L c nav0 p (res\<lparr>br_nav_curve := x, br_ending_nav := y\<rparr>) = balanced L c nav0 p res"
  "balanced L c nav0 p (res\<lparr>br_num_decisions := n\<rparr>) = balanced L c nav0 p res"
  by (simp_all add: balanced_def)

lemma bt_step_cases:
  assumes "bt_step L fmt ctx decide r ticks t (p, res, w) = (None, p', res', w')"
  obtains amt p1 dec w1 p2 res2 p3 res3
  where "accrueFunding L t ticks (rn_step r) p = Some (amt, p1)"
    and "decide (bt_input t ticks p1) w = (Inr dec, w1)"
    and "apply_closes L (rn_costs r) t (dc_orders dec)
           (p1, res\<lparr>br_total_funding := br_total_funding res + amt, br_num_decisions := Suc (br_num_decisions res)\<rparr>) = (p2, res2)"
    and "apply_opens L (rn_costs r) t (dc_swaps dec) (p2, res2) = (p3, res3)"
    and "p' = p3" "res' = res3\<lparr>br_nav_curve := br_nav_curve res3 @ [\<lparr>np_time = t, np_nav = pf_nav p3\<rparr>],
                                br_ending_nav := pf_nav p3\<rparr>"
proof -
  from assms obtain amt p1 dec w1 where s: "accrueFunding L t ticks (rn_step r) p = Some (amt, p1)"
    "decide (bt_input t ticks p1) w = (Inr dec, w1)" "ctx w = None"
    by (fastforce simp: bt_step_def Let_def split: option.splits sum.splits prod.splits)
  obtain p2 res2 where c: "apply_closes L (rn_costs r) t (dc_orders dec)
           (p1, res\<lparr>br_total_funding := br_total_funding res + amt, br_num_decisions := Suc (br_num_decisions res)\<rparr>) = (p2, res2)"
    by fastforce
  obtain p3 res3 where o: "apply_opens L (rn_costs r) t (dc_swaps dec) (p2, res2) = (p3, res3)" by fastforce
  show thesis
    by (rule that [OF s(1,2) c o]) (use assms s c o in \<open>auto simp: bt_step_def Let_def\<close>)
qed

lemma bt_step_balanced:
  assumes "bt_step L fmt ctx decide r ticks t (p, res, w) = (None, p', res', w')"
    and "balanced L (rn_costs r) nav0 p res"
  shows "balanced L (rn_costs r) nav0 p' res' \<and> br_ending_nav res' = pf_nav p'"
  using assms(1)
proof (rule bt_step_cases)
  fix amt p1 dec w1 p2 res2 p3 res3
  assume s: "accrueFunding L t ticks (rn_step r) p = Some (amt, p1)"
    "apply_closes L (rn_costs r) t (dc_orders dec)
       (p1, res\<lparr>br_total_funding := br_total_funding res + amt, br_num_decisions := Suc (br_num_decisions res)\<rparr>) = (p2, res2)"
    "apply_opens L (rn_costs r) t (dc_swaps dec) (p2, res2) = (p3, res3)"
    "p' = p3" "res' = res3\<lparr>br_nav_curve := br_nav_curve res3 @ [\<lparr>np_time = t, np_nav = pf_nav p3\<rparr>],
                            br_ending_nav := pf_nav p3\<rparr>"
  have "balanced L (rn_costs r) nav0 p1
      (res\<lparr>br_total_funding := br_total_funding res + amt, br_num_decisions := Suc (br_num_decisions res)\<rparr>)"
    using accrueFunding_balanced [OF assms(2) s(1)] by (simp add: balanced_def)
  from apply_opens_balanced [OF apply_closes_balanced [OF this s(2)] s(3)]
  show ?thesis by (simp add: s)
qed

lemma apply_closes_starting: "br_starting_nav (snd (apply_closes L c t os (p, res))) = br_starting_nav res
     \<and> br_start (snd (apply_closes L c t os (p, res))) = br_start res"
  by (induction os arbitrary: p res) (auto split: option.splits)

lemma apply_opens_starting: "br_starting_nav (snd (apply_opens L c t sws (p, res))) = br_starting_nav res
     \<and> br_start (snd (apply_opens L c t sws (p, res))) = br_start res"
  by (induction sws arbitrary: p res) (auto split: option.splits)

lemma bt_step_starting:
  assumes "bt_step L fmt ctx decide r ticks t (p, res, w) = (None, p', res', w')"
  shows "br_starting_nav res' = br_starting_nav res \<and> br_start res' = br_start res"
  using assms
proof (rule bt_step_cases)
  fix amt p1 dec w1 p2 res2 p3 res3
  assume s: "apply_closes L (rn_costs r) t (dc_orders dec)
       (p1, res\<lparr>br_total_funding := br_total_funding res + amt, br_num_decisions := Suc (br_num_decisions res)\<rparr>) = (p2, res2)"
    "apply_opens L (rn_costs r) t (dc_swaps dec) (p2, res2) = (p3, res3)"
    "res' = res3\<lparr>br_nav_curve := br_nav_curve res3 @ [\<lparr>np_time = t, np_nav = pf_nav p3\<rparr>],
                 br_ending_nav := pf_nav p3\<rparr>"
  have "br_starting_nav res2 = br_starting_nav res \<and> br_start res2 = br_start res"
    using apply_closes_starting [of L "rn_costs r" t "dc_orders dec" p1
        "res\<lparr>br_total_funding := br_total_funding res + amt, br_num_decisions := Suc (br_num_decisions res)\<rparr>"]
    by (simp add: s(1))
  moreover have "br_starting_nav res3 = br_starting_nav res2 \<and> br_start res3 = br_start res2"
    using apply_opens_starting [of L "rn_costs r" t "dc_swaps dec" p2 res2] s(2) by simp
  ultimately show ?thesis by (simp add: s(3))
qed

text \<open>An invariant of the steps is an invariant of the loop.\<close>

lemma bt_loop_invariant:
  assumes "bt_loop L fmt ctx decide r ticks t fin s = Some out" "out = (None, s')" "I s"
    and step: "\<And>t s s'. I s \<Longrightarrow> bt_step L fmt ctx decide r ticks t s = (None, s') \<Longrightarrow> I s'"
  shows "I s'"
  using assms
proof (induction rule: bt_loop.raw_induct [rotated, consumes 1])
  case (1 bt_loop L fmt ctx decide r ticks t fin s out)
  show ?case
  proof (cases "fin < t")
    case True
    with 1(2-4) show ?thesis by auto
  next
    case False
    with 1(2,3) obtain s1 where st: "bt_step L fmt ctx decide r ticks t s = (None, s1)"
      and rec: "bt_loop L fmt ctx decide r ticks (t + rn_step r) fin s1 = Some out"
      by (auto split: prod.splits option.splits)
    show ?thesis by (rule 1(1) [OF rec 1(3) 1(5) [OF 1(4) st] 1(5)])
  qed
qed

text \<open>
  C12: Accounting of a backtest. When a run completes, the ending NAV is the starting NAV plus the
  total funding less the reported total fees, plus the open fees of every closed position: each
  closing trade reports the fees of its opening again, so \<open>TotalFees\<close> counts them twice while the
  cash pays them once. Rounding in the fee division does not disturb the identity.
\<close>

theorem run_accounting:
  assumes "Run L fmt ctx srt r ticks w = Some (None, res, w')"
  shows "br_starting_nav res = rn_starting_nav r
    \<and> br_ending_nav res = br_starting_nav res + br_total_funding res - br_total_fees res
        + (\<Sum>tr \<leftarrow> br_trades res. if tr_action tr = TradeClose then openFees L (tr_notional tr) (rn_costs r) else 0)"
proof -
  from assms obtain decide s' where d: "rn_strategy r = Some decide" and ne: "ticks \<noteq> []"
    by (auto simp: Run_def split: option.splits if_splits)
  define tks where "tks = srt ticks"
  define t0 where "t0 = time_truncate (ft_time (hd tks)) (rn_step r)"
  define fin where "fin = time_truncate (ft_time (last tks)) (rn_step r) + rn_step r"
  let ?s0 = "(newPortfolio (rn_starting_nav r),
    zero_result\<lparr>br_start := t0, br_ending_nav := rn_starting_nav r, br_starting_nav := rn_starting_nav r\<rparr>, w)"
  from assms d ne obtain p res1 where loop: "bt_loop L fmt ctx decide r tks t0 fin ?s0 = Some (None, p, res1, w')"
    and res: "res = res1\<lparr>br_end := fin, br_total_return := (if rn_starting_nav r = 0 then br_total_return res1
        else d_div L (br_ending_nav res1) (rn_starting_nav r) - 1), br_max_drawdown := computeMaxDrawdown L (br_nav_curve res1)\<rparr>"
    unfolding tks_def t0_def fin_def
    by (auto simp: Run_def Let_def split: option.splits)
  let ?I = "\<lambda>(p, res, w). balanced L (rn_costs r) (rn_starting_nav r) p res \<and> br_ending_nav res = pf_nav p
              \<and> br_starting_nav res = rn_starting_nav r"
  have "?I (p, res1, w')"
  proof (rule bt_loop_invariant [where I = ?I, OF loop refl])
    show "?I ?s0" by (simp add: balanced_def newPortfolio_def pf_nav_value pf_ok_def zero_result_def reported_twice_def)
  next
    fix t s s' assume "?I s" "bt_step L fmt ctx decide r tks t s = (None, s')"
    then show "?I s'" by (cases s; cases s') (auto dest: bt_step_balanced bt_step_starting)
  qed
  then show ?thesis by (simp add: res balanced_def reported_twice_def sum_list_map_filter')
qed


section \<open>Runs end\<close>

lemma apply_closes_counts:
  "br_num_decisions (snd (apply_closes L c t os (p, res))) = br_num_decisions res
     \<and> br_nav_curve (snd (apply_closes L c t os (p, res))) = br_nav_curve res"
  by (induction os arbitrary: p res) (auto split: option.splits)

lemma apply_opens_counts:
  "br_num_decisions (snd (apply_opens L c t sws (p, res))) = br_num_decisions res
     \<and> br_nav_curve (snd (apply_opens L c t sws (p, res))) = br_nav_curve res"
  by (induction sws arbitrary: p res) (auto split: option.splits)

lemma bt_step_counts:
  assumes "bt_step L fmt ctx decide r ticks t (p, res, w) = (None, p', res', w')"
  shows "br_num_decisions res' = Suc (br_num_decisions res)
    \<and> map np_time (br_nav_curve res') = map np_time (br_nav_curve res) @ [t]"
  using assms
proof (rule bt_step_cases)
  fix amt p1 dec w1 p2 res2 p3 res3
  let ?res1 = "res\<lparr>br_total_funding := br_total_funding res + amt, br_num_decisions := Suc (br_num_decisions res)\<rparr>"
  assume s: "apply_closes L (rn_costs r) t (dc_orders dec) (p1, ?res1) = (p2, res2)"
    "apply_opens L (rn_costs r) t (dc_swaps dec) (p2, res2) = (p3, res3)"
    "res' = res3\<lparr>br_nav_curve := br_nav_curve res3 @ [\<lparr>np_time = t, np_nav = pf_nav p3\<rparr>],
                 br_ending_nav := pf_nav p3\<rparr>"
  have "br_num_decisions res2 = Suc (br_num_decisions res) \<and> br_nav_curve res2 = br_nav_curve res"
    using apply_closes_counts [of L "rn_costs r" t "dc_orders dec" p1 ?res1] by (simp add: s(1))
  moreover have "br_num_decisions res3 = br_num_decisions res2 \<and> br_nav_curve res3 = br_nav_curve res2"
    using apply_opens_counts [of L "rn_costs r" t "dc_swaps dec" p2 res2] by (simp add: s(2))
  ultimately show ?thesis by (simp add: s(3))
qed

text \<open>The instants a run steps through.\<close>

definition step_count :: "duration \<Rightarrow> time \<Rightarrow> time \<Rightarrow> nat" where
  "step_count step t fin = (if fin < t then 0 else Suc (nat ((fin - t) div step)))"

lemma step_count_next: "0 < step \<Longrightarrow> \<not> fin < t \<Longrightarrow> step_count step t fin = Suc (step_count step (t + step) fin)"
proof (cases "fin < t + step")
  case True
  assume "0 < step" "\<not> fin < t"
  with True show ?thesis by (simp add: step_count_def div_pos_pos_trivial)
next
  case False
  assume "0 < step" "\<not> fin < t"
  then have "(fin - t) div step = (fin - (t + step)) div step + 1"
    using False div_pos_geq [of step "fin - t"] by (simp add: algebra_simps)
  with False \<open>0 < step\<close> \<open>\<not> fin < t\<close> show ?thesis
    by (simp add: step_count_def nat_add_distrib pos_imp_zdiv_nonneg_iff)
qed

lemma bt_loop_returns:
  assumes "0 < rn_step r"
  shows "\<exists>a p' res' w'. bt_loop L fmt ctx decide r ticks t fin (p, res, w) = Some (a, p', res', w')
    \<and> (a = None \<longrightarrow> br_num_decisions res' = br_num_decisions res + step_count (rn_step r) t fin
         \<and> map np_time (br_nav_curve res') = map np_time (br_nav_curve res)
             @ map (\<lambda>i. t + int i * rn_step r) [0..<step_count (rn_step r) t fin])"
proof (induction "nat (fin + 1 - t)" arbitrary: t p res w rule: less_induct)
  case less
  show ?case
  proof (cases "fin < t")
    case True
    then show ?thesis by (subst bt_loop.simps) (simp add: step_count_def)
  next
    case False
    obtain a p1 res1 w1 where st: "bt_step L fmt ctx decide r ticks t (p, res, w) = (a, p1, res1, w1)"
      by (metis prod_cases4)
    show ?thesis
    proof (cases a)
      case (Some e)
      with False st show ?thesis by (subst bt_loop.simps) simp
    next
      case None
      have "nat (fin + 1 - (t + rn_step r)) < nat (fin + 1 - t)" using False assms by simp
      from less [OF this, of p1 res1 w1] obtain b p2 res2 w2
        where rec: "bt_loop L fmt ctx decide r ticks (t + rn_step r) fin (p1, res1, w1) = Some (b, p2, res2, w2)"
          and cnt: "b = None \<Longrightarrow> br_num_decisions res2 = br_num_decisions res1 + step_count (rn_step r) (t + rn_step r) fin
             \<and> map np_time (br_nav_curve res2) = map np_time (br_nav_curve res1)
             @ map (\<lambda>i. t + rn_step r + int i * rn_step r) [0..<step_count (rn_step r) (t + rn_step r) fin]"
        by blast
      have "bt_loop L fmt ctx decide r ticks t fin (p, res, w) = Some (b, p2, res2, w2)"
        using False st None rec by (subst bt_loop.simps) simp
      moreover have "map (\<lambda>i. t + int i * rn_step r) [0..<Suc n]
          = t # map (\<lambda>i. t + rn_step r + int i * rn_step r) [0..<n]" for n
        by (simp add: upt_conv_Cons map_Suc_upt [symmetric] algebra_simps del: upt_Suc)
      ultimately show ?thesis
        using cnt bt_step_counts [of L fmt ctx decide r ticks t p res w] st None step_count_next [OF assms False]
        by simp
    qed
  qed
qed

text \<open>
  C27: A backtest ends. With a positive step interval \<open>Run\<close> always returns, whatever the strategy
  does; and a run that is not stopped by an error asks the strategy exactly once per step from the
  truncated first tick to one step past the truncated last tick, with one NAV point per step, in
  time order.
\<close>

theorem run_returns:
  assumes "0 < rn_step r"
  shows "\<exists>a res w'. Run L fmt ctx srt r ticks w = Some (a, res, w')
    \<and> (a = None \<longrightarrow> br_num_decisions res = step_count (rn_step r) (br_start res) (br_end res)
         \<and> map np_time (br_nav_curve res)
             = map (\<lambda>i. br_start res + int i * rn_step r) [0..<br_num_decisions res])"
proof (cases "rn_strategy r = None \<or> ticks = []")
  case True
  then show ?thesis by (auto simp: Run_def split: option.splits)
next
  case False
  then obtain decide where d: "rn_strategy r = Some decide" and ne: "ticks \<noteq> []" by auto
  define tks where "tks = srt ticks"
  define t0 where "t0 = time_truncate (ft_time (hd tks)) (rn_step r)"
  define fin where "fin = time_truncate (ft_time (last tks)) (rn_step r) + rn_step r"
  let ?r0 = "zero_result\<lparr>br_start := t0, br_ending_nav := rn_starting_nav r, br_starting_nav := rn_starting_nav r\<rparr>"
  let ?s0 = "(newPortfolio (rn_starting_nav r), ?r0, w)"
  obtain a p' res1 w' where loop: "bt_loop L fmt ctx decide r tks t0 fin ?s0 = Some (a, p', res1, w')"
    and cnt: "a = None \<Longrightarrow> br_num_decisions res1 = step_count (rn_step r) t0 fin
         \<and> map np_time (br_nav_curve res1) = map (\<lambda>i. t0 + int i * rn_step r) [0..<step_count (rn_step r) t0 fin]"
    using bt_loop_returns [OF assms, of L fmt ctx decide tks t0 fin "newPortfolio (rn_starting_nav r)" ?r0 w]
    by (auto simp: zero_result_def)
  show ?thesis
  proof (cases a)
    case (Some e)
    with d ne loop show ?thesis by (simp add: Run_def Let_def tks_def t0_def fin_def)
  next
    case None
    have "(\<lambda>(p, res, w). br_start res = t0) (p', res1, w')"
    proof (rule bt_loop_invariant [where I = "\<lambda>(p, res, w). br_start res = t0"])
      show "bt_loop L fmt ctx decide r tks t0 fin ?s0 = Some (a, p', res1, w')" by (rule loop)
    next
      fix t s s' assume "case s of (p, res, w) \<Rightarrow> br_start res = t0" "bt_step L fmt ctx decide r tks t s = (None, s')"
      then show "case s' of (p, res, w) \<Rightarrow> br_start res = t0"
        by (cases s; cases s') (auto dest: bt_step_starting)
    qed (simp_all add: None)
    with d ne loop None cnt show ?thesis
      by (simp add: Run_def Let_def tks_def [symmetric] t0_def [symmetric] fin_def [symmetric])
  qed
qed

section \<open>What the strategy sees\<close>

lemma snapshot_step:
  "map_of (snapshot_tick t m tk) k =
     (if ft_symbol tk = k \<and> ft_time tk \<le> t
         \<and> (case map_of m k of None \<Rightarrow> True | Some cur \<Rightarrow> fr_time (ss_funding cur) \<le> ft_time tk)
      then Some (tick_snap tk) else map_of m k)"
  by (auto simp: snapshot_tick_def update_conv' split: option.splits)

lemma snapshot_fold:
  "case map_of (foldl (snapshot_tick t) [] tks) k of
     None \<Rightarrow> \<forall>tk \<in> set tks. ft_symbol tk = k \<longrightarrow> t < ft_time tk
   | Some sn \<Rightarrow> (\<exists>tk \<in> set tks. sn = tick_snap tk \<and> ft_symbol tk = k \<and> ft_time tk \<le> t)
       \<and> (\<forall>tk \<in> set tks. ft_symbol tk = k \<and> ft_time tk \<le> t \<longrightarrow> ft_time tk \<le> fr_time (ss_funding sn))"
proof (induction tks rule: rev_induct)
  case (snoc tk tks)
  have tm: "fr_time (ss_funding (tick_snap tk)) = ft_time tk" by (simp add: tick_snap_def)
  show ?case
    unfolding foldl_append foldl.simps snapshot_step
    by (cases "map_of (foldl (snapshot_tick t) [] tks) k") (use snoc tm in auto)
qed simp

lemma snapshot_filter: "foldl (snapshot_tick t) m (filter (\<lambda>tk. ft_time tk \<le> t) tks) = foldl (snapshot_tick t) m tks"
  by (induction tks arbitrary: m) (auto simp: snapshot_tick_def)

text \<open>
  No look-ahead. The market a backtested strategy sees at time \<open>t\<close> is a function of the ticks at
  or before \<open>t\<close> only; a symbol is absent exactly when it has no such tick, and otherwise shows one of
  its ticks, none of its visible ticks being later than the one shown.
\<close>

theorem snapshot_no_lookahead:
  "MarketSnapshotAt t ticks = MarketSnapshotAt t (filter (\<lambda>tk. ft_time tk \<le> t) ticks)
   \<and> (case map_of (ms_symbols (MarketSnapshotAt t ticks)) k of
        None \<Rightarrow> filter (\<lambda>tk. ft_symbol tk = k \<and> ft_time tk \<le> t) ticks = []
      | Some sn \<Rightarrow> \<exists>tk \<in> set ticks. sn = tick_snap tk \<and> ft_symbol tk = k \<and> ft_time tk \<le> t
           \<and> list_all (\<lambda>tk'. ft_time tk' \<le> ft_time tk) (filter (\<lambda>tk'. ft_symbol tk' = k \<and> ft_time tk' \<le> t) ticks))"
  using snapshot_fold [where t = t and tks = ticks and k = k]
  by (auto simp: MarketSnapshotAt_def snapshot_filter list_all_iff filter_empty_conv tick_snap_def split: option.splits)

section \<open>Drawdown\<close>

text \<open>The decline at point \<open>j\<close> from the highest NAV so far, and the worst of them.\<close>

definition decline_at :: "declib \<Rightarrow> decimal list \<Rightarrow> nat \<Rightarrow> decimal" where
  "decline_at L xs j =
     (let peak = Max (set (take (Suc j) xs)) in if 0 < peak then d_div L (peak - xs ! j) peak else 0)"

definition worst_decline :: "declib \<Rightarrow> decimal list \<Rightarrow> decimal" where
  "worst_decline L xs = Max (insert 0 (decline_at L xs ` {..<length xs}))"

lemma Max_peak: "Max (set (x # xs)) = fold max xs x"
  by (rule Max.set_eq_fold)

lemma drawdown_snoc:
  "drawdown_from L peak worst (ys @ [y]) =
     (let m = fold max ys peak; w = drawdown_from L peak worst ys
      in if m < y then w else if 0 < m then max w (d_div L (m - y) m) else w)"
proof (induction ys arbitrary: peak worst)
  case Nil
  then show ?case by (simp add: Let_def max_def not_less)
next
  case (Cons x ys)
  have "max x peak = (if peak < x then x else peak)" by (simp add: max_def not_less)
  with Cons show ?case by (simp add: Let_def)
qed

lemma drawdown_nonneg: "worst \<le> drawdown_from L peak worst ys"
  by (induction L peak worst ys rule: drawdown_from.induct) (auto simp: Let_def split: if_splits)

lemma worst_decline_snoc: "worst_decline L (xs @ [x]) = max (worst_decline L xs) (decline_at L (xs @ [x]) (length xs))"
proof -
  have "decline_at L (xs @ [x]) j = decline_at L xs j" if "j < length xs" for j
    using that by (simp add: decline_at_def nth_append Let_def)
  then have "decline_at L (xs @ [x]) ` {..<length xs} = decline_at L xs ` {..<length xs}"
    by (intro image_cong) auto
  moreover have "Max (insert 0 (insert d A)) = max d (Max (insert 0 A))" if "finite A" for d :: decimal and A
    by (subst insert_commute, rule Max_insert) (use that in auto)
  ultimately show ?thesis by (simp add: worst_decline_def lessThan_Suc max.commute del: Max_insert)
qed

lemma drawdown_worst:
  assumes "decimal_lib L"
  shows "drawdown_from L x 0 xs = worst_decline L (x # xs)"
proof (induction xs rule: rev_induct)
  case Nil
  then show ?case
    using decimal_lib.div_zero [OF assms] by (simp add: worst_decline_def decline_at_def lessThan_Suc)
next
  case (snoc y ys)
  let ?m = "fold max ys x"
  have m: "Max (set (x # ys @ [y])) = max y ?m"
    using Max_peak [of x "ys @ [y]"] by simp
  then have d: "decline_at L (x # ys @ [y]) (Suc (length ys)) = (if 0 < max y ?m then d_div L (max y ?m - y) (max y ?m) else 0)"
    by (simp add: decline_at_def Let_def del: set_simps)
  have "0 \<le> worst_decline L (x # ys)" by (simp add: worst_decline_def)
  then have "drawdown_from L x 0 (ys @ [y]) = max (worst_decline L (x # ys)) (decline_at L (x # ys @ [y]) (Suc (length ys)))"
    unfolding d drawdown_snoc snoc
    using decimal_lib.div_zero [OF assms, of y] by (auto simp: Let_def max_def)
  also have "\<dots> = worst_decline L (x # ys @ [y])" using worst_decline_snoc [of L "x # ys" y] by simp
  finally show ?case .
qed

text \<open>
  C28: Drawdown. \<open>computeMaxDrawdown\<close>, which keeps one running peak, computes the worst decline of the
  NAV curve from its highest earlier point: the maximum over all points \<open>j\<close> of the (rounded) fraction
  the NAV at \<open>j\<close> lies below the maximum of the NAVs up to \<open>j\<close>, or zero.
\<close>

theorem drawdown_is_worst_decline:
  assumes "decimal_lib L"
  shows "computeMaxDrawdown L curve = worst_decline L (map np_nav curve)"
  using drawdown_worst [OF assms]
  by (cases "map np_nav curve") (simp_all add: computeMaxDrawdown_def worst_decline_def)

section \<open>Witnesses\<close>

text \<open>
  A run of two steps over one tick: the strategy opens a position of 1000 in the first step and
  closes it in the second. The world counts the calls.
\<close>

definition sample_tick :: funding_tick where
  "sample_tick = \<lparr>ft_time = 0, ft_symbol = ''WIF'', ft_rate = 1 / 1000, ft_interval = nano_hour, ft_mark = 0\<rparr>"

definition open_then_close :: "nat decide" where
  "open_then_close di n =
     (if n = 0
      then (Inr (zero_decision\<lparr>dc_swaps := [zero_swap\<lparr>si_out_token := zero_asset\<lparr>as_symbol := ''WIF''\<rparr>,
                                                    si_in_amount := 1000\<rparr>]\<rparr>), 1)
      else (Inr (zero_decision\<lparr>dc_orders := [zero_order\<lparr>oi_symbol := ''WIF'', oi_reduce_only := True\<rparr>]\<rparr>), Suc n))"

definition sample_runner :: "nat runner" where
  "sample_runner = NewRunner reference_declib (Some open_then_close) 0 0
     \<lparr>co_perp_fee_bps = 0, co_swap_fee_bps = 0, co_gas_usd = 0, co_slippage_bps = 0\<rparr>"

definition sample_run :: "(bt_abort option \<times> bt_result \<times> nat) option" where
  "sample_run = Run reference_declib (\<lambda>t. []) (\<lambda>w. None) (\<lambda>ts. ts) sample_runner [sample_tick] 0"

declare bt_loop.simps [code]

lemma sample_run_ends:
  "(case sample_run of Some (None, res, w) \<Rightarrow> w = 2 \<and> br_num_opens res = 1 \<and> br_num_closes res = 1 \<and> br_num_decisions res = 2
       \<and> br_total_funding res = 1 | _ \<Rightarrow> False)"
  by code_simp

theorem run_accounting_witness:
  "\<exists>res. Run reference_declib (\<lambda>t. []) (\<lambda>w. None) (\<lambda>ts. ts) sample_runner [sample_tick] 0 = Some (None, res, 2)
     \<and> br_num_closes res = 1
     \<and> br_ending_nav res = br_starting_nav res + br_total_funding res - br_total_fees res
        + (\<Sum>tr \<leftarrow> br_trades res. if tr_action tr = TradeClose then openFees reference_declib (tr_notional tr) (rn_costs sample_runner) else 0)"
proof -
  from sample_run_ends obtain res where "sample_run = Some (None, res, 2)" and one: "br_num_closes res = 1"
    by (auto split: option.splits)
  then have run: "Run reference_declib (\<lambda>t. []) (\<lambda>w. None) (\<lambda>ts. ts) sample_runner [sample_tick] 0 = Some (None, res, 2)"
    by (simp add: sample_run_def)
  with run_accounting [OF run] one show ?thesis by blast
qed

theorem run_returns_witness:
  "\<exists>a res w'. Run reference_declib (\<lambda>t. []) (\<lambda>w. None) (\<lambda>ts. ts) sample_runner [sample_tick] 0 = Some (a, res, w')
     \<and> (a = None \<longrightarrow> br_num_decisions res = step_count nano_hour (br_start res) (br_end res))"
  using run_returns [of sample_runner reference_declib "\<lambda>t. []" "\<lambda>w. None" "\<lambda>ts. ts" "[sample_tick]" 0]
  by (force simp: sample_runner_def NewRunner_def nano_hour_def nano_second_def)

theorem drawdown_is_worst_decline_witness:
  "computeMaxDrawdown reference_declib
      [\<lparr>np_time = 0, np_nav = 100\<rparr>, \<lparr>np_time = 1, np_nav = 80\<rparr>, \<lparr>np_time = 2, np_nav = 120\<rparr>, \<lparr>np_time = 3, np_nav = 90\<rparr>]
     = worst_decline reference_declib [100, 80, 120, 90]
   \<and> worst_decline reference_declib [100, 80, 120, 90] = 1 / 4"
proof -
  let ?c = "[\<lparr>np_time = 0, np_nav = 100\<rparr>, \<lparr>np_time = 1, np_nav = 80\<rparr>, \<lparr>np_time = 2, np_nav = 120\<rparr>, \<lparr>np_time = 3, np_nav = 90\<rparr>]"
  have "computeMaxDrawdown reference_declib ?c = worst_decline reference_declib (map np_nav ?c)"
    by (rule drawdown_is_worst_decline [OF reference.decimal_lib_axioms])
  moreover have "computeMaxDrawdown reference_declib ?c = 1 / 4" by code_simp
  ultimately show ?thesis by simp
qed

end
