(* ===== verification/StrategyConfig.thy ===== *)
theory StrategyConfig
  imports Venues
begin

text \<open>
  What the bundled strategies (\<open>strategies/*\<close>) share: the dynamically typed configuration values
  they are constructed from, the conversions each strategy declares for itself (the same code in
  every package), the lookup of configuration keys, and the registry of strategy constructors
  (\<open>pkg/strategy/registry.go\<close>).
\<close>

section \<open>Configuration values\<close>

text \<open>
  A value of type \<open>any\<close>, as a JSON or YAML decoder or a caller produces it. A \<open>float64\<close> is a rational;
  NaN and the infinities, which the conversion to a decimal rejects by a panic, are left out.
\<close>

datatype go_any =
    AnyNil
  | AnyString string
  | AnyBool bool
  | AnyInt int
  | AnyInt64 int
  | AnyFloat float64
  | AnyDecimal decimal
  | AnyList "go_any list"
  | AnyMap "(string \<times> go_any) list"

type_synonym any_config = "(string \<times> go_any) list"

text \<open>The name \<open>%T\<close> prints.\<close>

fun type_name :: "go_any \<Rightarrow> string" where
  "type_name AnyNil = ''<nil>''"
| "type_name (AnyString s) = ''string''"
| "type_name (AnyBool b) = ''bool''"
| "type_name (AnyInt i) = ''int''"
| "type_name (AnyInt64 i) = ''int64''"
| "type_name (AnyFloat x) = ''float64''"
| "type_name (AnyDecimal d) = ''decimal.Decimal''"
| "type_name (AnyList xs) = ''[]interface {}''"
| "type_name (AnyMap m) = ''map[string]interface {}''"

fun decimalFromAny :: "declib \<Rightarrow> go_any \<Rightarrow> go_error + decimal" where
  "decimalFromAny L (AnyDecimal d) = Inr d"
| "decimalFromAny L (AnyFloat x) = Inr (d_of_float L x)"
| "decimalFromAny L (AnyInt i) = Inr (of_int i)"
| "decimalFromAny L (AnyInt64 i) = Inr (of_int i)"
| "decimalFromAny L (AnyString s) =
     (case d_parse L s of None \<Rightarrow> Inl (Errorf (''can't convert '' @ s @ '' to decimal'')) | Some d \<Rightarrow> Inr d)"
| "decimalFromAny L v = Inl (Errorf (''unsupported type '' @ type_name v))"

text \<open>The conversion of a \<open>float64\<close> to an integer truncates towards zero (within the range of \<open>int\<close>).\<close>

definition float_to_int :: "float64 \<Rightarrow> int" where
  "float_to_int x = (if x < 0 then - \<lfloor>- x\<rfloor> else \<lfloor>x\<rfloor>)"

fun intFromAny :: "go_any \<Rightarrow> go_error + int" where
  "intFromAny (AnyInt i) = Inr i"
| "intFromAny (AnyInt64 i) = Inr i"
| "intFromAny (AnyFloat x) = Inr (float_to_int x)"
| "intFromAny v = Inl (Errorf (''unsupported type '' @ type_name v))"

definition uint16_of :: "int \<Rightarrow> nat" where
  "uint16_of n = nat (n mod 65536)"

section \<open>Reading keys\<close>

text \<open>
  \<open>and_then\<close> is the early return on an error. The readers give the zero value for a missing key; \<open>what\<close>
  is the strategy and key in the error text.
\<close>

definition string_key :: "string \<Rightarrow> string \<Rightarrow> any_config \<Rightarrow> go_error + string" where
  "string_key what k cfg =
     (case map_of cfg k of
        None \<Rightarrow> Inr []
      | Some (AnyString s) \<Rightarrow> Inr s
      | Some v \<Rightarrow> Inl (Errorf (what @ '' must be a string, got '' @ type_name v)))"

definition bool_key :: "string \<Rightarrow> string \<Rightarrow> any_config \<Rightarrow> go_error + bool" where
  "bool_key what k cfg =
     (case map_of cfg k of
        None \<Rightarrow> Inr False
      | Some (AnyBool b) \<Rightarrow> Inr b
      | Some v \<Rightarrow> Inl (Errorf (what @ '' must be a bool, got '' @ type_name v)))"

definition decimal_key :: "declib \<Rightarrow> string \<Rightarrow> string \<Rightarrow> any_config \<Rightarrow> go_error + decimal" where
  "decimal_key L what k cfg =
     (case map_of cfg k of None \<Rightarrow> Inr 0 | Some v \<Rightarrow> wrap_result what (decimalFromAny L v))"

definition int_key :: "string \<Rightarrow> string \<Rightarrow> any_config \<Rightarrow> go_error + int" where
  "int_key what k cfg =
     (case map_of cfg k of None \<Rightarrow> Inr 0 | Some v \<Rightarrow> wrap_result what (intFromAny v))"

text \<open>The lenient readers of the rotation strategies: a value of the wrong type counts as missing.\<close>

definition int_key_or_zero :: "string \<Rightarrow> any_config \<Rightarrow> int" where
  "int_key_or_zero k cfg =
     (case map_of cfg k of None \<Rightarrow> 0 | Some v \<Rightarrow> (case intFromAny v of Inl _ \<Rightarrow> 0 | Inr n \<Rightarrow> n))"

definition decimal_key_or_zero :: "declib \<Rightarrow> string \<Rightarrow> any_config \<Rightarrow> decimal" where
  "decimal_key_or_zero L k cfg =
     (case map_of cfg k of None \<Rightarrow> 0 | Some v \<Rightarrow> (case decimalFromAny L v of Inl _ \<Rightarrow> 0 | Inr d \<Rightarrow> d))"

definition float_key_or_zero :: "string \<Rightarrow> any_config \<Rightarrow> float64" where
  "float_key_or_zero k cfg = (case map_of cfg k of Some (AnyFloat x) \<Rightarrow> x | _ \<Rightarrow> 0)"

fun netuids :: "string \<Rightarrow> go_any list \<Rightarrow> go_error + nat list" where
  "netuids what [] = Inr []"
| "netuids what (v # vs) =
     and_then (wrap_result what (intFromAny v)) (\<lambda>n.
       and_then (netuids what vs) (\<lambda>ns. Inr (uint16_of n # ns)))"

lemma netuids_bound: "netuids what vs = Inr ns \<Longrightarrow> list_all (\<lambda>n. n < 65536) ns"
  by (induction vs arbitrary: ns) (auto elim!: and_then_InrE simp: uint16_of_def nat_less_iff)

section \<open>The registry of constructors (registry.go)\<close>

text \<open>\<open>Register\<close> panics on a name that is taken: \<open>None\<close>.\<close>

type_synonym 'c constructors = "(string \<times> 'c) list"

definition registry_Register :: "string \<Rightarrow> 'c \<Rightarrow> 'c constructors \<Rightarrow> 'c constructors option" where
  "registry_Register name c cs =
     (case map_of cs name of Some _ \<Rightarrow> None | None \<Rightarrow> Some (AList.update name c cs))"

definition strategy_Get :: "string \<Rightarrow> 'c constructors \<Rightarrow> go_error + 'c" where
  "strategy_Get name cs =
     (case map_of cs name of
        None \<Rightarrow> Inl (Errorf (''strategy '' @ quoted name @ '' not registered''))
      | Some c \<Rightarrow> Inr c)"

definition strategy_List :: "'c constructors \<Rightarrow> string list" where
  "strategy_List cs = sort (map fst cs)"

definition registry_Reset :: "'c constructors \<Rightarrow> 'c constructors" where
  "registry_Reset cs = []"

fun register_all :: "(string \<times> 'c) list \<Rightarrow> 'c constructors \<Rightarrow> 'c constructors option" where
  "register_all [] cs = Some cs"
| "register_all ((name, c) # rs) cs =
     (case registry_Register name c cs of None \<Rightarrow> None | Some cs' \<Rightarrow> register_all rs cs')"

lemma registry_Register_eq:
  "registry_Register name c cs = (if name \<in> fst ` set cs then None else Some (cs @ [(name, c)]))"
proof (cases "name \<in> fst ` set cs")
  case True
  then have "map_of cs name \<noteq> None" by (simp add: map_of_eq_None_iff)
  with True show ?thesis by (auto simp: registry_Register_def split: option.splits)
next
  case False
  then have "map_of cs name = None" by (simp add: map_of_eq_None_iff)
  moreover have "AList.update name c cs = cs @ [(name, c)]"
    using False by (induction cs) auto
  ultimately show ?thesis using False by (simp add: registry_Register_def)
qed

lemma register_all_eq:
  "distinct (map fst cs) \<Longrightarrow> register_all rs cs = (if distinct (map fst (cs @ rs)) then Some (cs @ rs) else None)"
proof (induction rs arbitrary: cs)
  case (Cons r rs)
  then show ?case
    by (cases r) (auto simp: registry_Register_eq)
qed simp

text \<open>
  The strategy registry. Registering a list of constructors from an empty registry survives (does
  not panic) exactly if no name repeats; then every registered name gives its constructor and any
  other an error, and the listing is the sorted list of the names.
\<close>

theorem registration_complete:
  "(case register_all rs (registry_Reset cs) of
      None \<Rightarrow> \<not> distinct (map fst rs)
    | Some reg \<Rightarrow> distinct (map fst rs)
        \<and> strategy_Get name reg = (case map_of rs name of
             Some c \<Rightarrow> Inr c | None \<Rightarrow> Inl (Errorf (''strategy '' @ quoted name @ '' not registered'')))
        \<and> strategy_List reg = sort (map fst rs) \<and> length (strategy_List reg) = length rs)"
  by (simp add: register_all_eq registry_Reset_def strategy_Get_def strategy_List_def split: option.splits)

end
