(* ===== verification/StrategyDca.thy ===== *)
theory StrategyDca
  imports StrategyConfig Assets
begin

text \<open>
  The two dollar-cost-averaging strategies: \<open>strategies/dca_buy\<close> (a fixed USDC amount at most every
  \<open>interval_secs\<close>) and \<open>strategies/alpha_dca\<close> (a fixed TAO amount per subnet every
  \<open>interval_ticks\<close> ticks). A strategy value is its configuration and its mutable fields; a decision
  returns the new fields.
\<close>

section \<open>dca_buy\<close>

record dca_config =
  db_asset :: string
  db_chain :: chain_id
  db_usdc_per_tick :: decimal
  db_interval_secs :: int
  db_slippage_bps :: int

definition dca_parse :: "declib \<Rightarrow> any_config \<Rightarrow> go_error + dca_config" where
  "dca_parse L cfg =
     and_then (string_key ''dca_buy: asset'' ''asset'' cfg) (\<lambda>a.
     and_then (string_key ''dca_buy: chain'' ''chain'' cfg) (\<lambda>c.
     and_then (decimal_key L ''dca_buy: usdc_per_tick'' ''usdc_per_tick'' cfg) (\<lambda>u.
     and_then (int_key ''dca_buy: interval_secs'' ''interval_secs'' cfg) (\<lambda>i.
     and_then (int_key ''dca_buy: slippage_bps'' ''slippage_bps'' cfg) (\<lambda>s.
       Inr \<lparr>db_asset = a, db_chain = chain_of c, db_usdc_per_tick = u, db_interval_secs = i,
            db_slippage_bps = s\<rparr>)))))"

definition dca_Defaults :: "dca_config \<Rightarrow> dca_config" where
  "dca_Defaults c =
     \<lparr>db_asset = (if db_asset c = [] then ''SOL'' else db_asset c),
      db_chain = (if chain_str (db_chain c) = [] then ChainSolana else db_chain c),
      db_usdc_per_tick = (if db_usdc_per_tick c = 0 then 50 else db_usdc_per_tick c),
      db_interval_secs = (if db_interval_secs c = 0 then 4 * 60 * 60 else db_interval_secs c),
      db_slippage_bps = (if db_slippage_bps c = 0 then 50 else db_slippage_bps c)\<rparr>"

definition dca_Validate :: "dca_config \<Rightarrow> go_error option" where
  "dca_Validate c =
     (if \<not> 0 < db_usdc_per_tick c then Some (Errorf ''dca_buy: usdc_per_tick must be positive'')
      else if db_interval_secs c < 0 then Some (Errorf ''dca_buy: interval_secs must be non-negative'')
      else if db_slippage_bps c < 0 \<or> 1000 < db_slippage_bps c
        then Some (Errorf ''dca_buy: slippage_bps out of range (0..1000)'')
      else None)"

record dca_strategy =
  ds_cfg :: dca_config
  ds_last_buy :: time

definition dca_NewFromTypedConfig :: "dca_config \<Rightarrow> go_error + dca_strategy" where
  "dca_NewFromTypedConfig c =
     (let c' = dca_Defaults c
      in case dca_Validate c' of
           Some e \<Rightarrow> Inl e
         | None \<Rightarrow> Inr \<lparr>ds_cfg = c', ds_last_buy = zero_time\<rparr>)"

definition dca_New :: "declib \<Rightarrow> any_config \<Rightarrow> go_error + dca_strategy" where
  "dca_New L cfg = and_then (dca_parse L cfg) dca_NewFromTypedConfig"

text \<open>\<open>Sub\<close> of two times saturates at the range of a duration; \<open>Truncate\<close> cuts to whole seconds.\<close>

definition time_Sub :: "time \<Rightarrow> time \<Rightarrow> duration" where
  "time_Sub t u = max (- (2 ^ 63)) (min (2 ^ 63 - 1) (t - u))"

definition whole_seconds :: "duration \<Rightarrow> duration" where
  "whole_seconds x = (if x < 0 then - ((- x) div nano_second * nano_second) else x div nano_second * nano_second)"

definition cooldown :: "dca_config \<Rightarrow> duration" where
  "cooldown c = wrap64 (db_interval_secs c * nano_second)"

text \<open>\<open>dur_str\<close> is the text of a duration.\<close>

definition dca_intent :: "dca_config \<Rightarrow> asset \<Rightarrow> swap_intent" where
  "dca_intent c usdc =
     zero_swap\<lparr>si_chain := db_chain c, si_in_token := usdc,
       si_out_token := zero_asset\<lparr>as_symbol := to_upper (db_asset c), as_chain := db_chain c\<rparr>,
       si_in_amount := db_usdc_per_tick c, si_slippage_bps := db_slippage_bps c,
       si_basis_key := ''dca:'' @ to_upper (db_asset c), si_tag := ''dca_buy''\<rparr>"

definition dca_Decide ::
  "declib \<Rightarrow> (duration \<Rightarrow> string) \<Rightarrow> decision_input \<Rightarrow> dca_strategy \<Rightarrow> (go_error + decision) \<times> dca_strategy" where
  "dca_Decide L dur_str i s =
     (let c = ds_cfg s; gap = time_Sub (di_now i) (ds_last_buy s)
      in if ds_last_buy s \<noteq> zero_time \<and> gap < cooldown c
         then (Inr (zero_decision\<lparr>dc_notes := ''cooldown: '' @ dur_str (whole_seconds (wrap64 (cooldown c - gap)))
                      @ '' remaining''\<rparr>), s)
         else case USDCAsset (db_chain c) of
             None \<Rightarrow> (Inr (zero_decision\<lparr>dc_notes := ''dca_buy: chain '' @ chain_str (db_chain c)
                        @ '' has no USDC mapping''\<rparr>), s)
           | Some usdc \<Rightarrow>
               (Inr (zero_decision\<lparr>dc_swaps := [dca_intent c usdc],
                       dc_notes := ''dca buy: '' @ d_str L (db_usdc_per_tick c) @ '' USDC '' @ arrow @ '' ''
                         @ as_symbol (si_out_token (dca_intent c usdc)) @ '' on '' @ chain_str (db_chain c),
                       dc_confidence := 1\<rparr>),
                s\<lparr>ds_last_buy := di_now i\<rparr>))"

section \<open>alpha_dca\<close>

record alpha_dca_config =
  ad_subnets :: "nat list"
  ad_tao_per_buy :: decimal
  ad_interval_ticks :: int
  ad_slippage_bps :: int

definition alpha_dca_parse :: "declib \<Rightarrow> any_config \<Rightarrow> go_error + alpha_dca_config" where
  "alpha_dca_parse L cfg =
     and_then (case map_of cfg ''subnets'' of
                 None \<Rightarrow> Inr []
               | Some (AnyList xs) \<Rightarrow> netuids ''alpha_dca: subnets item'' xs
               | Some v \<Rightarrow> Inl (Errorf (''alpha_dca: subnets must be a list, got '' @ type_name v))) (\<lambda>ns.
     and_then (decimal_key L ''alpha_dca: tao_per_buy'' ''tao_per_buy'' cfg) (\<lambda>t.
     and_then (int_key ''alpha_dca: interval_ticks'' ''interval_ticks'' cfg) (\<lambda>i.
     and_then (int_key ''alpha_dca: slippage_bps'' ''slippage_bps'' cfg) (\<lambda>s.
       Inr \<lparr>ad_subnets = ns, ad_tao_per_buy = t, ad_interval_ticks = i, ad_slippage_bps = s\<rparr>))))"

definition alpha_dca_Defaults :: "declib \<Rightarrow> alpha_dca_config \<Rightarrow> alpha_dca_config" where
  "alpha_dca_Defaults L c =
     \<lparr>ad_subnets = (if ad_subnets c = [] then [8, 3, 19] else ad_subnets c),
      ad_tao_per_buy = (if ad_tao_per_buy c = 0 then d_of_float L 1 else ad_tao_per_buy c),
      ad_interval_ticks = (if ad_interval_ticks c = 0 then 10 else ad_interval_ticks c),
      ad_slippage_bps = (if ad_slippage_bps c = 0 then 100 else ad_slippage_bps c)\<rparr>"

definition alpha_dca_Validate :: "alpha_dca_config \<Rightarrow> go_error option" where
  "alpha_dca_Validate c =
     (if ad_subnets c = [] then Some (Errorf ''alpha_dca: subnets must not be empty'')
      else if \<not> 0 < ad_tao_per_buy c then Some (Errorf ''alpha_dca: tao_per_buy must be positive'')
      else if ad_interval_ticks c < 1 then Some (Errorf ''alpha_dca: interval_ticks must be >= 1'')
      else None)"

text \<open>The tick count is an \<open>int\<close>, counted without the wrap-around after \<open>2 ^ 63\<close> ticks.\<close>

record alpha_dca_strategy =
  ads_cfg :: alpha_dca_config
  ads_tick_count :: int
  ads_last_buy :: time

definition alpha_dca_New :: "declib \<Rightarrow> any_config \<Rightarrow> go_error + alpha_dca_strategy" where
  "alpha_dca_New L cfg =
     and_then (alpha_dca_parse L cfg) (\<lambda>c0.
       let c = alpha_dca_Defaults L c0
       in case alpha_dca_Validate c of
            Some e \<Rightarrow> Inl e
          | None \<Rightarrow> Inr \<lparr>ads_cfg = c, ads_tick_count = 0, ads_last_buy = zero_time\<rparr>)"

definition subnet_symbol :: "nat \<Rightarrow> string" where
  "subnet_symbol n = ''SN'' @ nat_str n"

definition tao_asset :: asset where
  "tao_asset = zero_asset\<lparr>as_symbol := ''TAO'', as_chain := ChainBittensor, as_mint := ''TAO''\<rparr>"

definition alpha_asset :: "nat \<Rightarrow> asset" where
  "alpha_asset n = zero_asset\<lparr>as_symbol := subnet_symbol n, as_chain := ChainBittensor, as_mint := subnet_symbol n\<rparr>"

definition alpha_dca_intent :: "alpha_dca_config \<Rightarrow> nat \<Rightarrow> swap_intent" where
  "alpha_dca_intent c n =
     zero_swap\<lparr>si_chain := ChainBittensor, si_in_token := tao_asset, si_out_token := alpha_asset n,
       si_in_amount := ad_tao_per_buy c, si_slippage_bps := ad_slippage_bps c,
       si_basis_key := ''alpha_dca:'' @ subnet_symbol n, si_tag := ''alpha_dca''\<rparr>"

fun join_with :: "string \<Rightarrow> string list \<Rightarrow> string" where
  "join_with sep [] = []"
| "join_with sep [x] = x"
| "join_with sep (x # y # xs) = x @ sep @ join_with sep (y # xs)"

definition alpha_dca_Decide ::
  "declib \<Rightarrow> decision_input \<Rightarrow> alpha_dca_strategy \<Rightarrow> (go_error + decision) \<times> alpha_dca_strategy" where
  "alpha_dca_Decide L i s0 =
     (let s = s0\<lparr>ads_tick_count := ads_tick_count s0 + 1\<rparr>; c = ads_cfg s
      in if ads_tick_count s mod ad_interval_ticks c \<noteq> 0
         then (Inr (zero_decision\<lparr>dc_notes := ''alpha_dca: waiting ''
                 @ int_str (ad_interval_ticks c - ads_tick_count s mod ad_interval_ticks c) @ '' more ticks''\<rparr>), s)
         else (Inr (zero_decision\<lparr>dc_swaps := map (alpha_dca_intent c) (ad_subnets c),
                 dc_notes := ''alpha_dca: buying '' @ d_str L (ad_tao_per_buy c) @ '' TAO each of [''
                   @ join_with '', '' (map subnet_symbol (ad_subnets c)) @ '']'',
                 dc_confidence := 1\<rparr>),
               s\<lparr>ads_last_buy := di_now i\<rparr>))"

section \<open>Runs of decisions\<close>

text \<open>The decisions of a strategy over a list of inputs.\<close>

fun decide_run ::
  "(decision_input \<Rightarrow> 's \<Rightarrow> (go_error + decision) \<times> 's) \<Rightarrow> decision_input list \<Rightarrow> 's
     \<Rightarrow> (decision_input \<times> (go_error + decision)) list" where
  "decide_run f [] s = []"
| "decide_run f (i # is) s = (let (r, s') = f i s in (i, r) # decide_run f is s')"

definition swaps_of :: "go_error + decision \<Rightarrow> swap_intent list" where
  "swaps_of r = (case r of Inl _ \<Rightarrow> [] | Inr d \<Rightarrow> dc_swaps d)"

definition buy_times :: "(decision_input \<times> (go_error + decision)) list \<Rightarrow> time list" where
  "buy_times rs = map (di_now \<circ> fst) (filter (\<lambda>(i, r). swaps_of r \<noteq> []) rs)"

lemma buy_times_simps [simp]:
  "buy_times [] = []"
  "buy_times ((i, r) # rs) = (if swaps_of r = [] then buy_times rs else di_now i # buy_times rs)"
  by (simp_all add: buy_times_def)

section \<open>The cooldown of dca_buy\<close>

lemma dca_Validate_None:
  "dca_Validate c = None \<longleftrightarrow>
     0 < db_usdc_per_tick c \<and> 0 \<le> db_interval_secs c \<and> 0 \<le> db_slippage_bps c \<and> db_slippage_bps c \<le> 1000"
  by (auto simp: dca_Validate_def)

lemma dca_New_valid:
  assumes "dca_New L cfg = Inr s"
  shows "dca_Validate (ds_cfg s) = None" "ds_last_buy s = zero_time"
  using assms by (auto simp: dca_New_def dca_NewFromTypedConfig_def Let_def elim!: and_then_InrE split: option.splits)

lemma dca_Decide_cases:
  assumes "dca_Decide L dur i s = (r, s')"
  obtains (skip) "swaps_of r = []" "s' = s"
  | (buy) usdc where "USDCAsset (db_chain (ds_cfg s)) = Some usdc" "swaps_of r = [dca_intent (ds_cfg s) usdc]"
      "s' = s\<lparr>ds_last_buy := di_now i\<rparr>"
      "ds_last_buy s = zero_time \<or> cooldown (ds_cfg s) \<le> time_Sub (di_now i) (ds_last_buy s)"
  using assms
  by (auto simp: dca_Decide_def Let_def swaps_of_def zero_decision_def split: if_splits option.splits)

lemma cooldown_fits: "0 \<le> db_interval_secs c \<Longrightarrow> db_interval_secs c * nano_second < 2 ^ 63
    \<Longrightarrow> cooldown c = db_interval_secs c * nano_second"
  by (simp add: cooldown_def nano_second_def wrap64_id)

lemma time_Sub_ge: "g \<le> time_Sub t u \<Longrightarrow> 0 \<le> g \<Longrightarrow> u + g \<le> t"
  by (auto simp: time_Sub_def max_def min_def split: if_splits)

lemma dca_run_spaced:
  assumes "0 \<le> g" "cooldown c = g"
  shows "ds_cfg s = c \<Longrightarrow> zero_time \<notin> di_now ` set is \<Longrightarrow>
     sorted_wrt (\<lambda>t u. t + g \<le> u) (buy_times (decide_run (dca_Decide L dur) is s))
     \<and> list_all (\<lambda>t. ds_last_buy s = zero_time \<or> ds_last_buy s + g \<le> t) (buy_times (decide_run (dca_Decide L dur) is s))"
proof (induction "is" arbitrary: s)
  case (Cons i "is")
  obtain r s' where r: "dca_Decide L dur i s = (r, s')" by fastforce
  from r show ?case
  proof (cases rule: dca_Decide_cases)
    case skip
    with Cons r show ?thesis by simp
  next
    case (buy usdc)
    have "di_now i \<noteq> zero_time" "zero_time \<notin> di_now ` set is" using Cons.prems by auto
    with Cons.IH [of s'] buy(3) Cons.prems(1)
    have ih: "sorted_wrt (\<lambda>t u. t + g \<le> u) (buy_times (decide_run (dca_Decide L dur) is s'))"
      "list_all (\<lambda>t. di_now i + g \<le> t) (buy_times (decide_run (dca_Decide L dur) is s'))" by auto
    have gap: "ds_last_buy s = zero_time \<or> ds_last_buy s + g \<le> di_now i"
      using buy(4) assms Cons.prems(1) time_Sub_ge by blast
    from ih gap show ?thesis
      using r buy(2) assms(1) by (auto simp: list_all_iff)
  qed
qed simp

lemma dca_run_shape:
  "ds_cfg s = c \<Longrightarrow> list_all (\<lambda>(i, r). swaps_of r = []
       \<or> (\<exists>usdc. USDCAsset (db_chain c) = Some usdc \<and> swaps_of r = [dca_intent c usdc])) (decide_run (dca_Decide L dur) is s)"
proof (induction "is" arbitrary: s)
  case (Cons i "is")
  obtain r s' where r: "dca_Decide L dur i s = (r, s')" by fastforce
  show ?case
    by (cases rule: dca_Decide_cases [OF r]) (use Cons r in auto)
qed simp

text \<open>
  The cooldown of \<open>dca_buy\<close>. A strategy built from any accepted configuration, asked for
  decisions at any instants in any order, buys at instants that are pairwise at least
  \<open>interval_secs\<close> apart, and every buying decision is exactly one swap of the configured positive
  amount out of the chain's USDC, with a slippage bound of at most ten percent (for
  an interval below the range of a duration; beyond it the product wraps around).
\<close>

theorem dca_buys_are_spaced:
  assumes "dca_New L cfg = Inr s"
    and "db_interval_secs (ds_cfg s) * nano_second < 2 ^ 63"
    and "zero_time \<notin> di_now ` set is"
  shows "sorted_wrt (\<lambda>t u. t + db_interval_secs (ds_cfg s) * nano_second \<le> u)
           (buy_times (decide_run (dca_Decide L dur) is s))
    \<and> list_all (\<lambda>(i, r). swaps_of r = [] \<or> (\<exists>sw. swaps_of r = [sw] \<and> as_symbol (si_in_token sw) = ''USDC''
           \<and> si_in_amount sw = db_usdc_per_tick (ds_cfg s) \<and> 0 < si_in_amount sw
           \<and> 0 \<le> si_slippage_bps sw \<and> si_slippage_bps sw \<le> 1000)) (decide_run (dca_Decide L dur) is s)"
proof -
  have v: "0 < db_usdc_per_tick (ds_cfg s)" "0 \<le> db_interval_secs (ds_cfg s)"
    "0 \<le> db_slippage_bps (ds_cfg s)" "db_slippage_bps (ds_cfg s) \<le> 1000"
    using dca_New_valid(1) [OF assms(1)] by (simp_all add: dca_Validate_None)
  then have "0 \<le> db_interval_secs (ds_cfg s) * nano_second" by (simp add: nano_second_def)
  note spaced = dca_run_spaced [OF this cooldown_fits [OF v(2) assms(2)] refl assms(3)]
  have usdc: "as_symbol u = ''USDC''" if "USDCAsset ch = Some u" for ch u
    using that by (auto simp: USDCAsset_def split: option.splits)
  have sh: "swaps_of r = [] \<or> (\<exists>sw. swaps_of r = [sw] \<and> as_symbol (si_in_token sw) = ''USDC''
           \<and> si_in_amount sw = db_usdc_per_tick (ds_cfg s) \<and> 0 < si_in_amount sw
           \<and> 0 \<le> si_slippage_bps sw \<and> si_slippage_bps sw \<le> 1000)"
    if "swaps_of r = [] \<or> (\<exists>u. USDCAsset (db_chain (ds_cfg s)) = Some u \<and> swaps_of r = [dca_intent (ds_cfg s) u])" for r
    using that v by (auto simp: dca_intent_def zero_swap_def dest: usdc)
  have "list_all (\<lambda>(i, r). swaps_of r = [] \<or> (\<exists>sw. swaps_of r = [sw] \<and> as_symbol (si_in_token sw) = ''USDC''
           \<and> si_in_amount sw = db_usdc_per_tick (ds_cfg s) \<and> 0 < si_in_amount sw
           \<and> 0 \<le> si_slippage_bps sw \<and> si_slippage_bps sw \<le> 1000)) (decide_run (dca_Decide L dur) is s)"
    by (rule list.pred_mono_strong [OF dca_run_shape [of s "ds_cfg s" L dur "is", OF refl]]) (simp only: split_paired_all prod.case, rule sh)
  with spaced show ?thesis by blast
qed

definition input_at :: "time \<Rightarrow> decision_input" where
  "input_at t = \<lparr>di_agent_id = ''a'', di_now = t, di_market = \<lparr>ms_time = t, ms_symbols = []\<rparr>, di_perp_positions = [],
     di_spot_balances = [], di_basis_positions = [], di_cash = [], di_limits = zero_limits\<rparr>"

definition sample_dca :: dca_strategy where
  "sample_dca = \<lparr>ds_cfg = \<lparr>db_asset = ''wif'', db_chain = ChainSolana, db_usdc_per_tick = 50, db_interval_secs = 60,
     db_slippage_bps = 50\<rparr>, ds_last_buy = zero_time\<rparr>"

theorem dca_buys_are_spaced_witness:
  "sorted_wrt (\<lambda>t u. t + 60 * nano_second \<le> u)
     (buy_times (decide_run (dca_Decide reference_declib (\<lambda>d. [])) (map input_at [0, 30 * nano_second, 60 * nano_second]) sample_dca))
   \<and> buy_times (decide_run (dca_Decide reference_declib (\<lambda>d. [])) (map input_at [0, 30 * nano_second, 60 * nano_second]) sample_dca)
      = [0, 60 * nano_second]"
proof -
  let ?cfg = "[(''asset'', AnyString ''wif''), (''interval_secs'', AnyInt 60)]"
  have new: "dca_New reference_declib ?cfg = Inr sample_dca"
    by (simp add: dca_New_def dca_parse_def string_key_def int_key_def decimal_key_def wrap_result_def
        dca_NewFromTypedConfig_def dca_Defaults_def dca_Validate_def sample_dca_def chain_of_def)
  have "db_interval_secs (ds_cfg sample_dca) * nano_second < 2 ^ 63"
    by (simp add: sample_dca_def nano_second_def)
  moreover have "zero_time \<notin> di_now ` set (map input_at [0, 30 * nano_second, 60 * nano_second])"
    by (simp add: input_at_def zero_time_def nano_second_def)
  moreover have "buy_times (decide_run (dca_Decide reference_declib (\<lambda>d. []))
      (map input_at [0, 30 * nano_second, 60 * nano_second]) sample_dca) = [0, 60 * nano_second]"
    by code_simp
  ultimately show ?thesis
    using dca_buys_are_spaced [OF new, of "map input_at [0, 30 * nano_second, 60 * nano_second]" "\<lambda>d. []"]
    by (simp add: sample_dca_def)
qed

section \<open>The budget of alpha_dca\<close>

lemma alpha_dca_New_valid:
  assumes "alpha_dca_New L cfg = Inr s"
  shows "ad_subnets (ads_cfg s) \<noteq> []" "0 < ad_tao_per_buy (ads_cfg s)" "1 \<le> ad_interval_ticks (ads_cfg s)"
    "ads_tick_count s = 0"
  using assms
  by (auto simp: alpha_dca_New_def alpha_dca_Validate_def Let_def elim!: and_then_InrE split: if_splits)

lemma alpha_dca_run:
  assumes "ads_cfg s = c" "ads_tick_count s = int k" "ad_interval_ticks c = int n" "0 < n"
  shows "concat (map (swaps_of \<circ> snd) (decide_run (alpha_dca_Decide L) is s))
     = concat (replicate ((k + length is) div n - k div n) (map (alpha_dca_intent c) (ad_subnets c)))"
  using assms(1,2)
proof (induction "is" arbitrary: s k)
  case (Cons i "is")
  obtain r s' where r: "alpha_dca_Decide L i s = (r, s')" by fastforce
  have m: "(int k + 1) mod int n = int (Suc k mod n)" by (simp add: zmod_int add.commute)
  have s': "ads_cfg s' = c" "ads_tick_count s' = int (Suc k)"
    using r Cons.prems by (auto simp: alpha_dca_Decide_def Let_def split: if_splits)
  have sw: "swaps_of r = (if Suc k mod n = 0 then map (alpha_dca_intent c) (ad_subnets c) else [])"
    using r Cons.prems assms(3) m
    by (auto simp: alpha_dca_Decide_def Let_def swaps_of_def zero_decision_def split: if_splits)
  have le: "Suc k div n \<le> (Suc k + length is) div n" by (rule div_le_mono) simp
  have "(k + length (i # is)) div n - k div n
      = (if Suc k mod n = 0 then 1 else 0) + ((Suc k + length is) div n - Suc k div n)"
    using le by (auto simp: div_Suc)
  then show ?case
    using Cons.IH [OF s'] r sw by (auto simp: replicate_add [symmetric])
qed simp

text \<open>
  The budget of \<open>alpha_dca\<close>. A strategy built from any accepted configuration, over any number of
  ticks, buys on exactly every \<open>interval_ticks\<close>-th tick: the swaps it requests over \<open>n\<close> ticks are
  \<open>n div interval_ticks\<close> copies of the list with one swap per configured subnet, each of the configured
  positive amount of TAO, and nothing else.
\<close>

theorem alpha_dca_budget:
  assumes "alpha_dca_New L cfg = Inr s"
  shows "concat (map (swaps_of \<circ> snd) (decide_run (alpha_dca_Decide L) is s))
      = concat (replicate (length is div nat (ad_interval_ticks (ads_cfg s)))
          (map (alpha_dca_intent (ads_cfg s)) (ad_subnets (ads_cfg s))))
    \<and> sum_list (map si_in_amount (concat (map (swaps_of \<circ> snd) (decide_run (alpha_dca_Decide L) is s))))
      = of_nat (length is div nat (ad_interval_ticks (ads_cfg s)) * length (ad_subnets (ads_cfg s)))
          * ad_tao_per_buy (ads_cfg s)"
proof -
  define c where "c = ads_cfg s"
  define n where "n = nat (ad_interval_ticks c)"
  have n: "ad_interval_ticks c = int n" "0 < n"
    using alpha_dca_New_valid(3) [OF assms] by (simp_all add: n_def c_def)
  have run: "concat (map (swaps_of \<circ> snd) (decide_run (alpha_dca_Decide L) is s))
      = concat (replicate (length is div n) (map (alpha_dca_intent c) (ad_subnets c)))"
    using alpha_dca_run [OF c_def [symmetric] _ n, of 0 L "is"] alpha_dca_New_valid(4) [OF assms] by simp
  have "sum_list (map si_in_amount (concat (replicate m (map (alpha_dca_intent c) (ad_subnets c)))))
      = of_nat (m * length (ad_subnets c)) * ad_tao_per_buy c" for m
  proof (induction m)
    case (Suc m)
    have "sum_list (map si_in_amount (map (alpha_dca_intent c) ns)) = of_nat (length ns) * ad_tao_per_buy c" for ns
      by (induction ns) (simp_all add: alpha_dca_intent_def algebra_simps)
    with Suc show ?case by (simp add: algebra_simps)
  qed simp
  with run show ?thesis by (simp add: c_def [symmetric] n_def [symmetric])
qed

theorem alpha_dca_budget_witness:
  "\<exists>s. alpha_dca_New reference_declib [(''subnets'', AnyList [AnyInt 8, AnyInt 65544]), (''interval_ticks'', AnyInt 2)] = Inr s
     \<and> ad_subnets (ads_cfg s) = [8, 8]
     \<and> sum_list (map si_in_amount (concat (map (swaps_of \<circ> snd) (decide_run (alpha_dca_Decide reference_declib) (map input_at [1, 2, 3, 4, 5]) s)))) = 4"
proof -
  let ?cfg = "[(''subnets'', AnyList [AnyInt 8, AnyInt 65544]), (''interval_ticks'', AnyInt 2)]"
  let ?s = "\<lparr>ads_cfg = \<lparr>ad_subnets = [8, 8], ad_tao_per_buy = 1, ad_interval_ticks = 2, ad_slippage_bps = 100\<rparr>,
    ads_tick_count = 0, ads_last_buy = zero_time\<rparr>"
  have new: "alpha_dca_New reference_declib ?cfg = Inr ?s"
    by (simp add: alpha_dca_New_def alpha_dca_parse_def decimal_key_def int_key_def wrap_result_def uint16_of_def
        alpha_dca_Defaults_def alpha_dca_Validate_def reference_declib_def)
  from alpha_dca_budget [OF new, of "map input_at [1, 2, 3, 4, 5]"] new show ?thesis
    by (intro exI [of _ ?s]) (simp add: alpha_dca_intent_def del: decide_run.simps)
qed

end
