(* ===== verification/Inference.thy ===== *)
theory Inference
  imports Decimals
begin

text \<open>
  \<open>pkg/inference\<close>: the provider contract, the registry of named providers (factory.go), the OpenAI-
  compatible client (openai/client.go, api.go, factory.go) and its price table (openai/pricing.go).
  The HTTP transport, the JSON codec and the clock are parameters, the record \<open>openai_env\<close>.
\<close>

section \<open>The contract (inference.go)\<close>

datatype role = RoleSystem | RoleUser | RoleAssistant | RoleTool

fun role_str :: "role \<Rightarrow> string" where
  "role_str RoleSystem = ''system''"
| "role_str RoleUser = ''user''"
| "role_str RoleAssistant = ''assistant''"
| "role_str RoleTool = ''tool''"

record tool_call =
  tc_id :: string
  tc_name :: string
  tc_arguments :: string

record message =
  mg_role :: role
  mg_content :: string
  mg_name :: string
  mg_tool_calls :: "tool_call list"
  mg_tool_call_id :: string

record tool_spec =
  ts_name :: string
  ts_description :: string
  ts_schema :: string

record json_schema =
  sc_name :: string
  sc_description :: string
  sc_json :: string
  sc_strict :: bool

record inf_request =
  rq_model :: string
  rq_system :: string
  rq_messages :: "message list"
  rq_tools :: "tool_spec list"
  rq_json_schema :: "json_schema option"
  rq_temperature :: float64
  rq_top_p :: float64
  rq_max_tokens :: int
  rq_stop :: "string list"
  rq_user :: string

record inf_response =
  rp_content :: string
  rp_tool_calls :: "tool_call list"
  rp_finish_reason :: string
  rp_tokens_in :: int
  rp_tokens_out :: int
  rp_model :: string
  rp_provider :: string
  rp_latency_ms :: int
  rp_cost_usd :: float64
  rp_raw :: string

record embed_request =
  er_model :: string
  er_input :: "string list"

record embed_response =
  ep_vectors :: "float64 list list"
  ep_tokens_in :: int
  ep_model :: string
  ep_provider :: string
  ep_cost_usd :: float64

record 'w inf_provider =
  ip_name :: string
  ip_complete :: "inf_request \<Rightarrow> 'w \<Rightarrow> (go_error + inf_response) \<times> 'w"
  ip_embed :: "embed_request \<Rightarrow> 'w \<Rightarrow> (go_error + embed_response) \<times> 'w"

definition ErrUnsupportedFeature :: go_error where
  "ErrUnsupportedFeature = Sentinel ''inference: unsupported feature''"

definition ErrRateLimited :: go_error where
  "ErrRateLimited = Sentinel ''inference: rate limited''"

section \<open>The provider registry (factory.go)\<close>

record provider_entry =
  pe_base_url :: string
  pe_api_key_env :: string
  pe_api_key :: string
  pe_timeout_secs :: int

record inference_config =
  ic_default :: string
  ic_providers :: "(string \<times> provider_entry) list"

record provider_config =
  pc_name :: string
  pc_base_url :: string
  pc_api_key :: string
  pc_timeout :: duration

record 'p inf_registry =
  ir_default :: string
  ir_provs :: "(string \<times> 'p) list"

definition inf_Names :: "'p inf_registry \<Rightarrow> string list" where
  "inf_Names r = sort (map fst (ir_provs r))"

definition entry_config :: "(string \<Rightarrow> string) \<Rightarrow> string \<Rightarrow> provider_entry \<Rightarrow> provider_config" where
  "entry_config getenv name e =
     \<lparr>pc_name = name, pc_base_url = pe_base_url e,
      pc_api_key = (if pe_api_key e = [] \<and> pe_api_key_env e \<noteq> [] then getenv (pe_api_key_env e) else pe_api_key e),
      pc_timeout = (let t = wrap64 (pe_timeout_secs e * nano_second) in if t = 0 then 60 * nano_second else t)\<rparr>"

fun build_providers ::
  "(string \<Rightarrow> string) \<Rightarrow> (provider_config \<Rightarrow> go_error + 'p) \<Rightarrow> (string \<times> provider_entry) list
     \<Rightarrow> (string \<times> 'p) list \<Rightarrow> go_error + (string \<times> 'p) list" where
  "build_providers getenv factory [] ps = Inr ps"
| "build_providers getenv factory ((name, e) # es) ps =
     (if pe_base_url e = []
      then Inl (Errorf (''inference provider '' @ quoted name @ '': base_url is required''))
      else case factory (entry_config getenv name e) of
          Inl err \<Rightarrow> Inl (Wrap (''inference provider '' @ quoted name) err)
        | Inr p \<Rightarrow> build_providers getenv factory es (AList.update name p ps))"

definition NewRegistry ::
  "(string \<Rightarrow> string) \<Rightarrow> inference_config \<Rightarrow> (provider_config \<Rightarrow> go_error + 'p) \<Rightarrow> go_error + 'p inf_registry" where
  "NewRegistry getenv cfg factory =
     (if ic_providers cfg = [] then Inr \<lparr>ir_default = ic_default cfg, ir_provs = []\<rparr>
      else case build_providers getenv factory (ic_providers cfg) [] of
          Inl e \<Rightarrow> Inl e
        | Inr ps \<Rightarrow>
            let r0 = \<lparr>ir_default = ic_default cfg, ir_provs = ps\<rparr>;
                r = (if ir_default r0 = [] \<and> inf_Names r0 \<noteq> [] then r0\<lparr>ir_default := hd (inf_Names r0)\<rparr> else r0)
            in if ir_default r \<noteq> [] \<and> map_of (ir_provs r) (ir_default r) = None
               then Inl (Errorf (''inference default '' @ quoted (ir_default r) @ '' not in providers''))
               else Inr r)"

definition inf_Default :: "'p inf_registry \<Rightarrow> go_error + 'p" where
  "inf_Default r =
     (if ir_default r = [] then Inl (Errorf ''inference: no default provider configured'')
      else case map_of (ir_provs r) (ir_default r) of
          None \<Rightarrow> Inl (Errorf (''inference: default '' @ quoted (ir_default r) @ '' missing''))
        | Some p \<Rightarrow> Inr p)"

definition inf_Get :: "string \<Rightarrow> 'p inf_registry \<Rightarrow> go_error + 'p" where
  "inf_Get name r =
     (case map_of (ir_provs r) name of
        None \<Rightarrow> Inl (Errorf (''inference: provider '' @ quoted name @ '' not registered''))
      | Some p \<Rightarrow> Inr p)"

section \<open>Prices (pricing.go)\<close>

record model_price =
  mp_input_per_m :: float64
  mp_output_per_m :: float64

definition price :: "float64 \<Rightarrow> float64 \<Rightarrow> model_price" where
  "price i out = \<lparr>mp_input_per_m = i, mp_output_per_m = out\<rparr>"

definition pricing :: "(string \<times> model_price) list" where
  "pricing =
     [(''gpt-5'', price 5 15), (''gpt-5-mini'', price (25 / 100) 1), (''gpt-4o'', price (25 / 10) 10),
      (''gpt-4o-mini'', price (15 / 100) (60 / 100)), (''o3'', price 2 8), (''o3-mini'', price (11 / 10) (44 / 10)),
      (''text-embedding-3-small'', price (2 / 100) 0), (''text-embedding-3-large'', price (13 / 100) 0),
      (''claude-sonnet-4.5'', price 3 15), (''claude-opus-4.1'', price 15 75),
      (''claude-3.7-sonnet'', price 3 15), (''claude-3.5-sonnet'', price 3 15), (''claude-3.5-haiku'', price (80 / 100) 4),
      (''gemini-2.5-pro'', price (125 / 100) 10), (''gemini-2.5-flash'', price (30 / 100) (25 / 10)),
      (''llama-3.1-70b'', price (59 / 100) (79 / 100)), (''llama-3.1-8b'', price (5 / 100) (8 / 100)),
      (''deepseek-chat'', price (27 / 100) (11 / 10)), (''local'', price 0 0)]"

definition has_suffix :: "string \<Rightarrow> string \<Rightarrow> bool" where
  "has_suffix s k \<longleftrightarrow> length k \<le> length s \<and> drop (length s - length k) s = k"

text \<open>\<open>fl\<close> rounds the exact result of an operation to the nearest \<open>float64\<close>.\<close>

definition model_cost :: "(rat \<Rightarrow> float64) \<Rightarrow> model_price \<Rightarrow> int \<Rightarrow> int \<Rightarrow> float64" where
  "model_cost fl p i out =
     fl (fl (fl (fl (of_int i) / 1000000) * mp_input_per_m p) + fl (fl (fl (of_int out) / 1000000) * mp_output_per_m p))"

text \<open>The table's iteration order is that of the list \<open>table\<close>, some arrangement of \<open>pricing\<close>.\<close>

definition estimateCost :: "(rat \<Rightarrow> float64) \<Rightarrow> (string \<times> model_price) list \<Rightarrow> string \<Rightarrow> int \<Rightarrow> int \<Rightarrow> float64" where
  "estimateCost fl table model i out =
     (case map_of table model of
        Some p \<Rightarrow> model_cost fl p i out
      | None \<Rightarrow>
          (case find (\<lambda>(k, p). has_suffix model k) table of
             Some (k, p) \<Rightarrow> model_cost fl p i out
           | None \<Rightarrow> 0))"

section \<open>The wire format (api.go)\<close>

record chat_tool_call =
  ct_id :: string
  ct_type :: string
  ct_fn_name :: string
  ct_fn_arguments :: string

record chat_message =
  cm_role :: string
  cm_content :: string
  cm_name :: string
  cm_tool_calls :: "chat_tool_call list"
  cm_tool_call_id :: string

record chat_tool =
  cl_type :: string
  cl_fn_name :: string
  cl_fn_description :: string
  cl_fn_parameters :: string

record response_format =
  rf_type :: string
  rf_name :: string
  rf_description :: string
  rf_schema :: string
  rf_strict :: bool

record chat_request =
  cq_model :: string
  cq_messages :: "chat_message list"
  cq_temperature :: "float64 option"
  cq_top_p :: "float64 option"
  cq_max_tokens :: "int option"
  cq_stop :: "string list"
  cq_user :: string
  cq_tools :: "chat_tool list"
  cq_response_format :: "response_format option"

record chat_response =
  cr_model :: string
  cr_choices :: "(chat_message \<times> string) list"
  cr_prompt_tokens :: int
  cr_completion_tokens :: int
  cr_error :: "string option"

record embed_wire_response =
  ew_model :: string
  ew_data :: "float64 list list"
  ew_prompt_tokens :: int
  ew_error :: "string option"

section \<open>The client (client.go)\<close>

text \<open>
  \<open>oe_post\<close> sends a POST (URL, bearer token if any, body) and gives the transport's error or the
  status code and the body read; \<open>oe_valid\<close> is \<open>json.Valid\<close>.
\<close>

record 'w openai_env =
  oe_post :: "string \<Rightarrow> string option \<Rightarrow> string \<Rightarrow> 'w \<Rightarrow> (go_error + int \<times> string) \<times> 'w"
  oe_now :: "'w \<Rightarrow> time \<times> 'w"
  oe_fl :: "rat \<Rightarrow> float64"
  oe_valid :: "string \<Rightarrow> bool"
  oe_marshal_chat :: "chat_request \<Rightarrow> go_error + string"
  oe_marshal_embed :: "embed_request \<Rightarrow> go_error + string"
  oe_decode_chat :: "string \<Rightarrow> go_error + chat_response"
  oe_decode_embed :: "string \<Rightarrow> go_error + embed_wire_response"

record openai_client =
  oc_name :: string
  oc_base_url :: string
  oc_api_key :: string
  oc_timeout :: duration

fun trim_right :: "char \<Rightarrow> string \<Rightarrow> string" where
  "trim_right c s = rev (dropWhile (\<lambda>x. x = c) (rev s))"

definition openai_New :: "provider_config \<Rightarrow> go_error + openai_client" where
  "openai_New cfg =
     (if pc_base_url cfg = [] then Inl (Errorf ''openai: BaseURL is required'')
      else Inr \<lparr>oc_name = pc_name cfg, oc_base_url = trim_right (CHR ''/'') (pc_base_url cfg), oc_api_key = pc_api_key cfg,
                oc_timeout = (if pc_timeout cfg = 0 then 60 * nano_second else pc_timeout cfg)\<rparr>)"

definition truncate_body :: "string \<Rightarrow> string" where
  "truncate_body b = (if 1024 < length b then take 1024 b @ ''...'' else b)"

text \<open>The rate-limit error wraps its sentinel, so \<open>errors.Is\<close> finds it; the text order differs.\<close>

definition post ::
  "'w openai_env \<Rightarrow> openai_client \<Rightarrow> string \<Rightarrow> go_error + string \<Rightarrow> (string \<Rightarrow> go_error + 'a) \<Rightarrow> 'w
     \<Rightarrow> (go_error + 'a \<times> string) \<times> 'w" where
  "post E c path body decode w =
     (case body of
        Inl e \<Rightarrow> (Inl (Wrap ''openai: marshal'' e), w)
      | Inr b \<Rightarrow>
          (case oe_post E (oc_base_url c @ path) (if oc_api_key c = [] then None else Some (''Bearer '' @ oc_api_key c)) b w of
             (Inl e, w1) \<Rightarrow> (Inl (Wrap ''openai: do'' e), w1)
           | (Inr (status, raw), w1) \<Rightarrow>
               (if status = 429
                then (Inl (Wrap (''(status=429 body='' @ truncate_body raw @ '')'') ErrRateLimited), w1)
                else if status div 100 \<noteq> 2
                then (Inl (Errorf (''openai: '' @ path @ '' -> '' @ int_str status @ '': '' @ truncate_body raw)), w1)
                else case decode raw of
                    Inl e \<Rightarrow> (Inl (Wrap ''openai: decode'' e), w1)
                  | Inr x \<Rightarrow> (Inr (x, raw), w1))))"

definition convertMessage :: "message \<Rightarrow> chat_message" where
  "convertMessage m =
     \<lparr>cm_role = role_str (mg_role m), cm_content = mg_content m, cm_name = mg_name m,
      cm_tool_calls = map (\<lambda>t. \<lparr>ct_id = tc_id t, ct_type = ''function'', ct_fn_name = tc_name t,
                                ct_fn_arguments = tc_arguments t\<rparr>) (mg_tool_calls m),
      cm_tool_call_id = mg_tool_call_id m\<rparr>"

definition system_message :: "string \<Rightarrow> chat_message" where
  "system_message s = \<lparr>cm_role = ''system'', cm_content = s, cm_name = [], cm_tool_calls = [], cm_tool_call_id = []\<rparr>"

definition wire_tool :: "tool_spec \<Rightarrow> chat_tool" where
  "wire_tool t = \<lparr>cl_type = ''function'', cl_fn_name = ts_name t, cl_fn_description = ts_description t,
     cl_fn_parameters = ts_schema t\<rparr>"

definition nonzero :: "'a :: zero \<Rightarrow> 'a option" where
  "nonzero x = (if x = 0 then None else Some x)"

definition buildChatRequest :: "(string \<Rightarrow> bool) \<Rightarrow> inf_request \<Rightarrow> go_error + chat_request" where
  "buildChatRequest json_valid r =
     (let msgs = (if rq_system r = [] then [] else [system_message (rq_system r)]) @ map convertMessage (rq_messages r)
      in if msgs = [] then Inl (Errorf ''openai: at least one message (or System) is required'')
         else case find (\<lambda>t. \<not> json_valid (ts_schema t)) (rq_tools r) of
             Some t \<Rightarrow> Inl (Errorf (''openai: tool '' @ quoted (ts_name t) @ '': invalid JSON schema''))
           | None \<Rightarrow>
               (case rq_json_schema r of
                  Some sc \<Rightarrow>
                    if \<not> json_valid (sc_json sc) then Inl (Errorf ''openai: JSONSchema.JSON is not valid JSON'')
                    else Inr \<lparr>cq_model = rq_model r, cq_messages = msgs, cq_temperature = nonzero (rq_temperature r),
                      cq_top_p = nonzero (rq_top_p r), cq_max_tokens = nonzero (rq_max_tokens r), cq_stop = rq_stop r,
                      cq_user = rq_user r, cq_tools = map wire_tool (rq_tools r),
                      cq_response_format = Some \<lparr>rf_type = ''json_schema'', rf_name = sc_name sc,
                        rf_description = sc_description sc, rf_schema = sc_json sc, rf_strict = sc_strict sc\<rparr>\<rparr>
                | None \<Rightarrow>
                    Inr \<lparr>cq_model = rq_model r, cq_messages = msgs, cq_temperature = nonzero (rq_temperature r),
                      cq_top_p = nonzero (rq_top_p r), cq_max_tokens = nonzero (rq_max_tokens r), cq_stop = rq_stop r,
                      cq_user = rq_user r, cq_tools = map wire_tool (rq_tools r), cq_response_format = None\<rparr>))"

definition openai_Complete ::
  "'w openai_env \<Rightarrow> (string \<times> model_price) list \<Rightarrow> openai_client \<Rightarrow> inf_request \<Rightarrow> 'w
     \<Rightarrow> (go_error + inf_response) \<times> 'w" where
  "openai_Complete E table c r w =
     (case buildChatRequest (oe_valid E) r of
        Inl e \<Rightarrow> (Inl e, w)
      | Inr body \<Rightarrow>
          (let (t0, w0) = oe_now E w
           in case post E c ''/chat/completions'' (oe_marshal_chat E body) (oe_decode_chat E) w0 of
                (Inl e, w1) \<Rightarrow> (Inl e, w1)
              | (Inr (raw, bytes), w1) \<Rightarrow>
                  (case cr_error raw of
                     Some m \<Rightarrow> (Inl (Errorf (oc_name c @ '': '' @ m)), w1)
                   | None \<Rightarrow>
                       (case cr_choices raw of
                          [] \<Rightarrow> (Inl (Errorf ''openai: empty choices''), w1)
                        | (m, finish) # _ \<Rightarrow>
                            (let (t1, w2) = oe_now E w1
                             in (Inr \<lparr>rp_content = cm_content m,
                                   rp_tool_calls = map (\<lambda>t. \<lparr>tc_id = ct_id t, tc_name = ct_fn_name t,
                                                          tc_arguments = ct_fn_arguments t\<rparr>) (cm_tool_calls m),
                                   rp_finish_reason = finish, rp_tokens_in = cr_prompt_tokens raw,
                                   rp_tokens_out = cr_completion_tokens raw, rp_model = cr_model raw,
                                   rp_provider = oc_name c, rp_latency_ms = (t1 - t0) div 1000000,
                                   rp_cost_usd = estimateCost (oe_fl E) table (cr_model raw) (cr_prompt_tokens raw)
                                                   (cr_completion_tokens raw),
                                   rp_raw = bytes\<rparr>, w2))))))"

definition openai_Embed ::
  "'w openai_env \<Rightarrow> (string \<times> model_price) list \<Rightarrow> openai_client \<Rightarrow> embed_request \<Rightarrow> 'w
     \<Rightarrow> (go_error + embed_response) \<times> 'w" where
  "openai_Embed E table c r w =
     (case post E c ''/embeddings'' (oe_marshal_embed E r) (oe_decode_embed E) w of
        (Inl e, w1) \<Rightarrow> (Inl e, w1)
      | (Inr (raw, _), w1) \<Rightarrow>
          (case ew_error raw of
             Some m \<Rightarrow> (Inl (Errorf (oc_name c @ '': '' @ m)), w1)
           | None \<Rightarrow> (Inr \<lparr>ep_vectors = ew_data raw, ep_tokens_in = ew_prompt_tokens raw, ep_model = ew_model raw,
                          ep_provider = oc_name c,
                          ep_cost_usd = estimateCost (oe_fl E) table (ew_model raw) (ew_prompt_tokens raw) 0\<rparr>, w1)))"

definition openai_provider :: "'w openai_env \<Rightarrow> (string \<times> model_price) list \<Rightarrow> openai_client \<Rightarrow> 'w inf_provider" where
  "openai_provider E table c =
     \<lparr>ip_name = oc_name c, ip_complete = openai_Complete E table c, ip_embed = openai_Embed E table c\<rparr>"

definition NewProvider ::
  "'w openai_env \<Rightarrow> (string \<times> model_price) list \<Rightarrow> provider_config \<Rightarrow> go_error + 'w inf_provider" where
  "NewProvider E table cfg =
     (case openai_New cfg of Inl e \<Rightarrow> Inl e | Inr c \<Rightarrow> Inr (openai_provider E table c))"

section \<open>The mock provider (mock.go)\<close>

record mock_state =
  mk_queue :: "inf_response list"
  mk_static :: "inf_response option"
  mk_queue_set :: bool
  mk_calls :: "inf_request list"

definition WithResponse :: "inf_response \<Rightarrow> mock_state \<Rightarrow> mock_state" where
  "WithResponse r p = p\<lparr>mk_static := Some r\<rparr>"

definition WithQueue :: "inf_response list \<Rightarrow> mock_state \<Rightarrow> mock_state" where
  "WithQueue rs p = p\<lparr>mk_queue := mk_queue p @ rs, mk_queue_set := True\<rparr>"

definition new_mock :: "(mock_state \<Rightarrow> mock_state) list \<Rightarrow> mock_state" where
  "new_mock opts = foldl (\<lambda>p opt. opt p) \<lparr>mk_queue = [], mk_static = None, mk_queue_set = False, mk_calls = []\<rparr> opts"

definition ErrQueueExhausted :: go_error where
  "ErrQueueExhausted = Sentinel ''mock: response queue exhausted''"

definition mock_default :: inf_response where
  "mock_default = \<lparr>rp_content = [], rp_tool_calls = [], rp_finish_reason = ''stop'', rp_tokens_in = 0, rp_tokens_out = 0,
     rp_model = ''mock'', rp_provider = ''mock'', rp_latency_ms = 0, rp_cost_usd = 0, rp_raw = []\<rparr>"

definition mock_Complete :: "inf_request \<Rightarrow> mock_state \<Rightarrow> (go_error + inf_response) \<times> mock_state" where
  "mock_Complete r p0 =
     (let p = p0\<lparr>mk_calls := mk_calls p0 @ [r]\<rparr>
      in case mk_queue p of
           next # rest \<Rightarrow> (Inr next, p\<lparr>mk_queue := rest\<rparr>)
         | [] \<Rightarrow>
             (case mk_static p of
                None \<Rightarrow> if mk_queue_set p then (Inl ErrQueueExhausted, p) else (Inr mock_default, p)
              | Some s \<Rightarrow> (Inr s, p)))"

section \<open>Properties\<close>

lemma build_providers_ok:
  assumes "build_providers getenv factory es ps = Inr qs" "distinct (map fst es)" "set (map fst es) \<inter> set (map fst ps) = {}"
  shows "map fst qs = map fst ps @ map fst es"
    and "map_of qs n = (case map_of es n of
           Some e \<Rightarrow> (case factory (entry_config getenv n e) of Inl _ \<Rightarrow> None | Inr p \<Rightarrow> Some p)
         | None \<Rightarrow> map_of ps n)"
    and "list_all (\<lambda>(k, e). pe_base_url e \<noteq> [] \<and> (\<exists>p. factory (entry_config getenv k e) = Inr p)) es"
proof -
  have "map fst qs = map fst ps @ map fst es
    \<and> map_of qs n = (case map_of es n of
           Some e \<Rightarrow> (case factory (entry_config getenv n e) of Inl _ \<Rightarrow> None | Inr p \<Rightarrow> Some p)
         | None \<Rightarrow> map_of ps n)
    \<and> list_all (\<lambda>(k, e). pe_base_url e \<noteq> [] \<and> (\<exists>p. factory (entry_config getenv k e) = Inr p)) es"
    using assms
  proof (induction es arbitrary: ps)
    case (Cons a es)
    obtain k e where a: "a = (k, e)" by fastforce
    from Cons.prems(1) a obtain p where p: "factory (entry_config getenv k e) = Inr p" and url: "pe_base_url e \<noteq> []"
      and rest: "build_providers getenv factory es (AList.update k p ps) = Inr qs"
      by (auto split: if_splits sum.splits)
    have fresh: "k \<notin> fst ` set ps" using Cons.prems(3) a by auto
    then have upd: "AList.update k p ps = ps @ [(k, p)]"
      by (induction ps) auto
    have ih: "map fst qs = map fst (ps @ [(k, p)]) @ map fst es"
      "map_of qs n = (case map_of es n of
           Some e \<Rightarrow> (case factory (entry_config getenv n e) of Inl _ \<Rightarrow> None | Inr p \<Rightarrow> Some p)
         | None \<Rightarrow> map_of (ps @ [(k, p)]) n)"
      "list_all (\<lambda>(k, e). pe_base_url e \<noteq> [] \<and> (\<exists>p. factory (entry_config getenv k e) = Inr p)) es"
      using Cons.IH [of "ps @ [(k, p)]"] rest Cons.prems(2,3) a by (auto simp: upd)
    have "map_of es k = None" using Cons.prems(2) a by (simp add: map_of_eq_None_iff)
    moreover have "map_of ps k = None" using fresh by (simp add: map_of_eq_None_iff)
    ultimately show ?case
      using ih a p url by (cases "n = k") (auto simp: map_add_def split: option.splits)
  qed simp
  then show "map fst qs = map fst ps @ map fst es"
    "map_of qs n = (case map_of es n of
           Some e \<Rightarrow> (case factory (entry_config getenv n e) of Inl _ \<Rightarrow> None | Inr p \<Rightarrow> Some p)
         | None \<Rightarrow> map_of ps n)"
    "list_all (\<lambda>(k, e). pe_base_url e \<noteq> [] \<and> (\<exists>p. factory (entry_config getenv k e) = Inr p)) es"
    by blast+
qed

text \<open>
  The inference registry. When a registry is built from at least one provider entry (the names
  distinct and not empty), the default provider exists: it is the configured default if there is
  one, else the alphabetically first name. \<open>Get\<close> finds exactly the configured names,
  each with the client its own entry makes.
\<close>

theorem inference_registry_complete:
  assumes "NewRegistry getenv cfg factory = Inr r" "ic_providers cfg \<noteq> []"
    and "distinct (map fst (ic_providers cfg))" "[] \<notin> set (map fst (ic_providers cfg))"
  shows "ir_default r = (if ic_default cfg = [] then Min (set (map fst (ic_providers cfg))) else ic_default cfg)
    \<and> (\<exists>p. inf_Default r = Inr p \<and> inf_Get (ir_default r) r = Inr p)
    \<and> (case map_of (ic_providers cfg) n of
         Some e \<Rightarrow> inf_Get n r = factory (entry_config getenv n e)
       | None \<Rightarrow> inf_Get n r = Inl (Errorf (''inference: provider '' @ quoted n @ '' not registered'')))"
proof -
  let ?es = "ic_providers cfg"
  from assms(1,2) obtain ps where ps: "build_providers getenv factory ?es [] = Inr ps"
    by (auto simp: NewRegistry_def split: if_splits sum.splits)
  note ok = build_providers_ok [OF ps assms(3)]
  have keys: "map fst ps = map fst ?es" using ok(1) by simp
  define r0 where "r0 = \<lparr>ir_default = ic_default cfg, ir_provs = ps\<rparr>"
  define r1 where "r1 = (if ir_default r0 = [] \<and> inf_Names r0 \<noteq> [] then r0\<lparr>ir_default := hd (inf_Names r0)\<rparr> else r0)"
  have r: "r = r1" and known: "ir_default r1 = [] \<or> map_of (ir_provs r1) (ir_default r1) \<noteq> None"
    using assms(1,2) ps unfolding r1_def r0_def by (auto simp: NewRegistry_def Let_def split: if_splits)
  have provs: "ir_provs r1 = ps" by (simp add: r1_def r0_def)
  have names: "inf_Names r0 = sort (map fst ?es)" by (simp add: inf_Names_def r0_def keys)
  have ne: "map fst ?es \<noteq> []" using assms(2) by simp
  have "hd (sort (map fst ?es)) = Min (set (map fst ?es))"
  proof (rule Min_eqI [symmetric])
    obtain y ys where s: "sort (map fst ?es) = y # ys" using ne by (metis neq_Nil_conv set_sort set_empty)
    have "sorted (y # ys)" using sorted_sort [of "map fst ?es"] s by simp
    moreover have set: "set (map fst ?es) = insert y (set ys)" using arg_cong [OF s, of set] by simp
    ultimately show "\<And>x. x \<in> set (map fst ?es) \<Longrightarrow> hd (sort (map fst ?es)) \<le> x" using s by auto
    show "hd (sort (map fst ?es)) \<in> set (map fst ?es)" using s set by simp
  qed simp
  moreover have "sort (map fst ?es) \<noteq> []" using ne by (metis set_sort set_empty)
  ultimately have def: "ir_default r1 = (if ic_default cfg = [] then Min (set (map fst ?es)) else ic_default cfg)"
    using names \<open>sort (map fst ?es) \<noteq> []\<close> by (auto simp: r1_def r0_def)
  have "Min (set (map fst ?es)) \<in> set (map fst ?es)" using ne by (intro Min_in) auto
  then have "ir_default r1 \<noteq> []" using def assms(4) by (cases "ic_default cfg = []") metis+
  with known obtain p where "map_of ps (ir_default r1) = Some p" using provs by auto
  then have d: "inf_Default r1 = Inr p" "inf_Get (ir_default r1) r1 = Inr p"
    using \<open>ir_default r1 \<noteq> []\<close> by (simp_all add: inf_Default_def inf_Get_def provs)
  have g: "case map_of ?es n of
         Some e \<Rightarrow> inf_Get n r1 = factory (entry_config getenv n e)
       | None \<Rightarrow> inf_Get n r1 = Inl (Errorf (''inference: provider '' @ quoted n @ '' not registered''))"
  proof (cases "map_of ?es n")
    case None
    then have "map_of ps n = None" using ok(2) [of n] by simp
    with None show ?thesis by (simp add: inf_Get_def provs)
  next
    case (Some e)
    then have "\<exists>p. factory (entry_config getenv n e) = Inr p"
      using ok(3) by (auto simp: list_all_iff dest: map_of_SomeD)
    with Some ok(2) [of n] show ?thesis by (auto simp: inf_Get_def provs)
  qed
  from def d g show ?thesis unfolding r by blast
qed

definition two_providers :: inference_config where
  "two_providers = \<lparr>ic_default = [], ic_providers =
     [(''openrouter'', \<lparr>pe_base_url = ''https://openrouter.ai/api/v1/'', pe_api_key_env = ''KEY'', pe_api_key = [], pe_timeout_secs = 0\<rparr>),
      (''ollama'', \<lparr>pe_base_url = ''http://localhost:11434/v1'', pe_api_key_env = [], pe_api_key = [], pe_timeout_secs = 5\<rparr>)]\<rparr>"

theorem inference_registry_complete_witness:
  "\<exists>r. NewRegistry (\<lambda>v. ''secret'') two_providers openai_New = Inr r \<and> ir_default r = ''ollama''
     \<and> inf_Get ''openrouter'' r = Inr \<lparr>oc_name = ''openrouter'', oc_base_url = ''https://openrouter.ai/api/v1'',
         oc_api_key = ''secret'', oc_timeout = 60 * nano_second\<rparr>"
proof -
  have "(case NewRegistry (\<lambda>v. ''secret'') two_providers openai_New of Inl _ \<Rightarrow> False | Inr r \<Rightarrow> ir_default r = ''ollama'')"
    by code_simp
  then obtain r where r: "NewRegistry (\<lambda>v. ''secret'') two_providers openai_New = Inr r" "ir_default r = ''ollama''"
    by (auto split: sum.splits)
  have "case map_of (ic_providers two_providers) ''openrouter'' of
         Some e \<Rightarrow> inf_Get ''openrouter'' r = openai_New (entry_config (\<lambda>v. ''secret'') ''openrouter'' e)
       | None \<Rightarrow> inf_Get ''openrouter'' r = Inl (Errorf (''inference: provider '' @ quoted ''openrouter'' @ '' not registered''))"
    using inference_registry_complete [OF r(1), of "''openrouter''"] by (simp add: two_providers_def)
  then have "inf_Get ''openrouter'' r = Inr \<lparr>oc_name = ''openrouter'', oc_base_url = ''https://openrouter.ai/api/v1'',
         oc_api_key = ''secret'', oc_timeout = 60 * nano_second\<rparr>"
    by (simp add: two_providers_def entry_config_def openai_New_def wrap64_def)
  with r show ?thesis by blast
qed

lemma suffixes_nest: "has_suffix s a \<Longrightarrow> has_suffix s b \<Longrightarrow> length a \<le> length b \<Longrightarrow> has_suffix b a"
proof -
  assume a: "has_suffix s a" and b: "has_suffix s b" and l: "length a \<le> length b"
  have sb: "drop (length s - length b) s = b" and lb: "length b \<le> length s" using b by (simp_all add: has_suffix_def)
  have "drop (length b - length a) b = drop (length b - length a) (drop (length s - length b) s)" by (simp only: sb)
  also have "\<dots> = drop (length b - length a + (length s - length b)) s" by (simp only: drop_drop)
  also have "length b - length a + (length s - length b) = length s - length a" using lb l by simp
  also have "drop (length s - length a) s = a" using a by (simp add: has_suffix_def)
  finally show ?thesis using l by (simp add: has_suffix_def)
qed

lemma pricing_unambiguous:
  "list_all (\<lambda>a. list_all (\<lambda>b. a = b \<or> \<not> has_suffix a b) (map fst pricing)) (map fst pricing)"
  "distinct (map fst pricing)"
  by code_simp+

lemma pricing_one_suffix:
  assumes "has_suffix s a" "has_suffix s b" "a \<in> fst ` set pricing" "b \<in> fst ` set pricing"
  shows "a = b"
proof -
  have un: "x = y" if "has_suffix x y" "x \<in> fst ` set pricing" "y \<in> fst ` set pricing" for x y
    using that pricing_unambiguous(1) by (auto simp: list_all_iff)
  show ?thesis
    using assms suffixes_nest [of s a b] suffixes_nest [of s b a] un [of a b] un [of b a] by (cases "length a \<le> length b") auto
qed

lemma find_unique:
  assumes "set xs = set ys" "\<And>x y. x \<in> set xs \<Longrightarrow> y \<in> set xs \<Longrightarrow> P x \<Longrightarrow> P y \<Longrightarrow> x = y"
  shows "find P xs = find P ys"
proof (cases "find P xs")
  case None
  then show ?thesis using assms(1) by (metis find_None_iff)
next
  case (Some x)
  then have x: "x \<in> set xs" "P x" by (auto simp: find_Some_iff)
  then obtain y where y: "find P ys = Some y" using assms(1) by (metis find_None_iff not_None_eq)
  then have "y \<in> set ys" "P y" by (auto simp: find_Some_iff)
  with x y Some assms show ?thesis by auto
qed

text \<open>
  Prices do not depend on the iteration order of the price table. Although the code walks a Go map
  and takes the first name that is a suffix of the model, no name of the table is a suffix of
  another, so at most one matches and every arrangement of the table gives the same cost.
\<close>

theorem estimate_cost_deterministic:
  assumes "mset table = mset pricing"
  shows "estimateCost fl table model i out = estimateCost fl pricing model i out"
proof -
  have set: "set table = set pricing" using assms by (rule mset_eq_setD)
  have dist: "distinct (map fst table)"
    using assms pricing_unambiguous(2) by (metis mset_map mset_eq_imp_distinct_iff)
  have lookup: "map_of table = map_of pricing"
    using map_of_inject_set [OF dist pricing_unambiguous(2)] set by blast
  have f: "find (\<lambda>(k, p). has_suffix model k) table = find (\<lambda>(k, p). has_suffix model k) pricing"
  proof (rule find_unique [OF set])
    fix x y assume "x \<in> set table" "y \<in> set table"
      and m: "case x of (k, p) \<Rightarrow> has_suffix model k" "case y of (k, p) \<Rightarrow> has_suffix model k"
    then have xy: "x \<in> set pricing" "y \<in> set pricing" using set by simp_all
    then have "fst x = fst y" using pricing_one_suffix [of model "fst x" "fst y"] m by (auto split: prod.splits)
    with xy show "x = y" using pricing_unambiguous(2) by (metis eq_key_imp_eq_value prod.collapse)
  qed
  show ?thesis unfolding estimateCost_def lookup f ..
qed

theorem estimate_cost_deterministic_witness:
  "mset (rev pricing) = mset pricing
   \<and> estimateCost (\<lambda>x. x) (rev pricing) ''openrouter/gpt-4o-mini'' 1000000 1000000 = 3 / 4"
proof -
  have "estimateCost (\<lambda>x. x) pricing ''openrouter/gpt-4o-mini'' 1000000 1000000 = 3 / 4" by code_simp
  then show ?thesis using estimate_cost_deterministic [of "rev pricing" "\<lambda>x. x" "''openrouter/gpt-4o-mini''" 1000000 1000000] by simp
qed

end
