(* ===== verification/StrategyMaker.thy ===== *)
theory StrategyMaker
  imports StrategyConfig Inference
begin

text \<open>
  \<open>strategies/market_maker_basic\<close>: paired quotes around the mark price, with an optional veto by
  an inference provider. The strategy value is its configuration, the provider captured by the warm-up
  and the tick count; the provider acts on the world.
\<close>

section \<open>Configuration\<close>

record mm_config =
  mm_symbol :: string
  mm_spread_bps :: int
  mm_order_size :: decimal
  mm_refresh_ticks :: int
  mm_use_llm_veto :: bool
  mm_veto_model :: string

definition mm_parse :: "declib \<Rightarrow> any_config \<Rightarrow> go_error + mm_config" where
  "mm_parse L cfg =
     and_then (string_key ''market_maker_basic: symbol'' ''symbol'' cfg) (\<lambda>s.
     and_then (int_key ''market_maker_basic: spread_bps'' ''spread_bps'' cfg) (\<lambda>sp.
     and_then (decimal_key L ''market_maker_basic: order_size'' ''order_size'' cfg) (\<lambda>sz.
     and_then (int_key ''market_maker_basic: refresh_ticks'' ''refresh_ticks'' cfg) (\<lambda>r.
     and_then (bool_key ''market_maker_basic: use_llm_veto'' ''use_llm_veto'' cfg) (\<lambda>u.
     and_then (string_key ''market_maker_basic: veto_model'' ''veto_model'' cfg) (\<lambda>v.
       Inr \<lparr>mm_symbol = s, mm_spread_bps = sp, mm_order_size = sz, mm_refresh_ticks = r, mm_use_llm_veto = u,
            mm_veto_model = v\<rparr>))))))"

definition mm_Defaults :: "mm_config \<Rightarrow> mm_config" where
  "mm_Defaults c = c\<lparr>mm_spread_bps := (if mm_spread_bps c = 0 then 25 else mm_spread_bps c),
     mm_refresh_ticks := (if mm_refresh_ticks c = 0 then 1 else mm_refresh_ticks c)\<rparr>"

definition mm_Validate :: "mm_config \<Rightarrow> go_error option" where
  "mm_Validate c =
     (if mm_symbol c = [] then Some (Errorf ''market_maker_basic: symbol is required'')
      else if mm_spread_bps c \<le> 0 \<or> 1000 < mm_spread_bps c
        then Some (Errorf ''market_maker_basic: spread_bps out of range (1..1000)'')
      else if \<not> 0 < mm_order_size c then Some (Errorf ''market_maker_basic: order_size must be positive'')
      else if mm_refresh_ticks c \<le> 0 then Some (Errorf ''market_maker_basic: refresh_ticks must be positive'')
      else None)"

record 'w mm_strategy =
  ms_cfg :: mm_config
  ms_inference :: "'w inf_provider option"
  ms_tick_count :: int

definition mm_NewFromTypedConfig :: "mm_config \<Rightarrow> 'w inf_provider option \<Rightarrow> go_error + 'w mm_strategy" where
  "mm_NewFromTypedConfig c prov =
     (case mm_Validate (mm_Defaults c) of
        Some e \<Rightarrow> Inl e
      | None \<Rightarrow> Inr \<lparr>ms_cfg = mm_Defaults c, ms_inference = prov, ms_tick_count = 0\<rparr>)"

definition mm_New :: "declib \<Rightarrow> any_config \<Rightarrow> go_error + 'w mm_strategy" where
  "mm_New L cfg = and_then (mm_parse L cfg) (\<lambda>c. mm_NewFromTypedConfig c None)"

definition mm_Warmup ::
  "'w inf_provider option \<Rightarrow> string \<Rightarrow> 'w mm_strategy \<Rightarrow> go_error option \<times> 'w mm_strategy" where
  "mm_Warmup prov model s0 =
     (let c = ms_cfg s0;
          s = s0\<lparr>ms_inference := prov,
                 ms_cfg := (if mm_veto_model c = [] then c\<lparr>mm_veto_model := model\<rparr> else c)\<rparr>
      in if mm_use_llm_veto c \<and> prov = None
         then (Some (Errorf ''market_maker_basic: use_llm_veto=true but no inference provider configured for agent''), s)
         else (None, s))"

section \<open>The veto\<close>

definition nl :: string where
  "nl = [CHR 0x0A]"

definition dq :: "string \<Rightarrow> string" where
  "dq s = quoted s"

definition vetoSchemaJSON :: string where
  "vetoSchemaJSON =
     ''{'' @ nl @ ''  '' @ dq ''type'' @ '': '' @ dq ''object'' @ '','' @ nl
     @ ''  '' @ dq ''properties'' @ '': {'' @ nl
     @ ''    '' @ dq ''veto'' @ '':   {'' @ dq ''type'' @ '': '' @ dq ''boolean'' @ ''},'' @ nl
     @ ''    '' @ dq ''reason'' @ '': {'' @ dq ''type'' @ '': '' @ dq ''string'' @ '', '' @ dq ''maxLength'' @ '': 200}'' @ nl
     @ ''  },'' @ nl
     @ ''  '' @ dq ''required'' @ '': ['' @ dq ''veto'' @ '', '' @ dq ''reason'' @ ''],'' @ nl
     @ ''  '' @ dq ''additionalProperties'' @ '': false'' @ nl @ ''}''"

text \<open>The dash of the prompt is the UTF-8 em dash.\<close>

definition vetoSystemPrompt :: string where
  "vetoSystemPrompt =
     ''You are a volatility filter for a basic crypto perpetuals market maker.'' @ nl
     @ ''Decide whether the maker should SKIP this refresh cycle (do not requote).'' @ nl
     @ ''Default to NOT vetoing. Veto only when there's clear, present reason '' @ [CHR 0xE2, CHR 0x80, CHR 0x94] @ nl
     @ ''extreme volatility, breaking news, an obvious depeg/exploit/listing,'' @ nl
     @ ''funding-flip, or RPC degradation.'' @ nl
     @ ''Respond ONLY in the supplied JSON schema. Keep '' @ dq ''reason'' @ '' under 200 chars.''"

definition shouldConsultVeto :: "symbol_snap \<Rightarrow> bool" where
  "shouldConsultVeto snap = True"

definition veto_prompt :: "declib \<Rightarrow> (duration \<Rightarrow> string) \<Rightarrow> symbol_snap \<Rightarrow> string" where
  "veto_prompt L dur_str snap =
     (let f = ss_funding snap
      in ''Symbol: '' @ fr_symbol f @ nl @ ''Mark: '' @ d_str L (fr_mark_price f) @ nl
         @ ''Funding (annualised, from last interval): '' @ d_str L (Annualised L f) @ nl
         @ ''Funding interval: '' @ dur_str (fr_interval f) @ nl @ nl
         @ ''Should the maker SKIP requoting now?'')"

definition veto_request :: "declib \<Rightarrow> (duration \<Rightarrow> string) \<Rightarrow> mm_config \<Rightarrow> symbol_snap \<Rightarrow> inf_request" where
  "veto_request L dur_str c snap =
     \<lparr>rq_model = mm_veto_model c, rq_system = vetoSystemPrompt,
      rq_messages = [\<lparr>mg_role = RoleUser, mg_content = veto_prompt L dur_str snap, mg_name = [], mg_tool_calls = [],
                      mg_tool_call_id = []\<rparr>],
      rq_tools = [],
      rq_json_schema = Some \<lparr>sc_name = ''veto_decision'', sc_description = [], sc_json = vetoSchemaJSON, sc_strict = True\<rparr>,
      rq_temperature = 0, rq_top_p = 0, rq_max_tokens = 200, rq_stop = [], rq_user = []\<rparr>"

text \<open>\<open>parse\<close> is \<open>json.Unmarshal\<close> into the pair of the verdict and its reason.\<close>

definition askVeto ::
  "declib \<Rightarrow> (duration \<Rightarrow> string) \<Rightarrow> (string \<Rightarrow> go_error + bool \<times> string) \<Rightarrow> mm_config \<Rightarrow> 'w inf_provider
     \<Rightarrow> symbol_snap \<Rightarrow> 'w \<Rightarrow> (go_error + bool \<times> string) \<times> 'w" where
  "askVeto L dur_str parse c prov snap w =
     (case ip_complete prov (veto_request L dur_str c snap) w of
        (Inl e, w1) \<Rightarrow> (if errors_is e ''inference: unsupported feature'' then (Inr (False, []), w1) else (Inl e, w1))
      | (Inr resp, w1) \<Rightarrow> (wrap_result ''parse veto response'' (parse (rp_content resp)), w1))"

section \<open>The decision\<close>

definition half_spread :: "declib \<Rightarrow> mm_config \<Rightarrow> decimal" where
  "half_spread L c = d_div L (of_int (mm_spread_bps c)) 10000"

definition quote_order :: "mm_config \<Rightarrow> side \<Rightarrow> decimal \<Rightarrow> string \<Rightarrow> order_intent" where
  "quote_order c sd px tag =
     zero_order\<lparr>oi_venue := ''hyperliquid'', oi_symbol := mm_symbol c, oi_side := sd, oi_type := OrderTypeLimit,
       oi_price := px, oi_size := mm_order_size c, oi_tif := TIFGTC, oi_basis_key := ''mm:'' @ mm_symbol c, oi_tag := tag\<rparr>"

definition quotes :: "declib \<Rightarrow> mm_config \<Rightarrow> decimal \<Rightarrow> decision" where
  "quotes L c mid =
     (let half = half_spread L c; bidPx = mid * (1 - half); askPx = mid * (1 + half)
      in zero_decision\<lparr>dc_orders := [quote_order c SideBuy bidPx ''mm_quote_bid'', quote_order c SideSell askPx ''mm_quote_ask''],
           dc_notes := ''quote '' @ mm_symbol c @ '': bid='' @ d_str L bidPx @ '' ask='' @ d_str L askPx @ '' mid='' @ d_str L mid
             @ '' spread='' @ int_str (mm_spread_bps c) @ ''bps'',
           dc_confidence := 7 / 10\<rparr>)"

definition mm_Decide ::
  "declib \<Rightarrow> (duration \<Rightarrow> string) \<Rightarrow> (string \<Rightarrow> go_error + bool \<times> string) \<Rightarrow> decision_input
     \<Rightarrow> 'w mm_strategy \<times> 'w \<Rightarrow> (go_error + decision) \<times> 'w mm_strategy \<times> 'w" where
  "mm_Decide L dur_str parse i sw =
     (case sw of (s0, w) \<Rightarrow>
      let s = s0\<lparr>ms_tick_count := ms_tick_count s0 + 1\<rparr>; c = ms_cfg s
      in case map_of (ms_symbols (di_market i)) (mm_symbol c) of
           None \<Rightarrow> (Inr (zero_decision\<lparr>dc_notes := ''no market data for '' @ mm_symbol c\<rparr>), s, w)
         | Some snap \<Rightarrow>
             let mid = fr_mark_price (ss_funding snap)
             in if \<not> 0 < mid then (Inr (zero_decision\<lparr>dc_notes := ''no mark price; skipping''\<rparr>), s, w)
                else if ms_tick_count s mod mm_refresh_ticks c \<noteq> 0
                then (Inr (zero_decision\<lparr>dc_notes := ''skip: tick '' @ int_str (ms_tick_count s) @ '', refresh every ''
                             @ int_str (mm_refresh_ticks c)\<rparr>), s, w)
                else case (if mm_use_llm_veto c \<and> shouldConsultVeto snap then ms_inference s else None) of
                    None \<Rightarrow> (Inr (quotes L c mid), s, w)
                  | Some prov \<Rightarrow>
                      (case askVeto L dur_str parse c prov snap w of
                         (Inl e, w1) \<Rightarrow> (Inr (zero_decision\<lparr>dc_notes := ''veto error: '' @ error_text e\<rparr>), s, w1)
                       | (Inr (True, reason), w1) \<Rightarrow> (Inr (zero_decision\<lparr>dc_notes := ''vetoed: '' @ reason\<rparr>), s, w1)
                       | (Inr (False, _), w1) \<Rightarrow> (Inr (quotes L c mid), s, w1)))"

section \<open>Properties\<close>

lemma mm_Validate_None:
  "mm_Validate c = None \<longleftrightarrow>
     mm_symbol c \<noteq> [] \<and> 0 < mm_spread_bps c \<and> mm_spread_bps c \<le> 1000 \<and> 0 < mm_order_size c \<and> 0 < mm_refresh_ticks c"
  by (auto simp: mm_Validate_def)

text \<open>A strategy that was constructed and warmed up is valid, and deciding keeps its configuration.\<close>

lemma mm_New_valid: "mm_New L cfg = Inr s \<Longrightarrow> mm_Validate (ms_cfg s) = None"
  by (auto simp: mm_New_def mm_NewFromTypedConfig_def elim!: and_then_InrE split: option.splits)

lemma mm_Warmup_valid: "mm_Validate (ms_cfg s) = None \<Longrightarrow> mm_Validate (ms_cfg (snd (mm_Warmup p m s))) = None"
  by (simp add: mm_Warmup_def Let_def mm_Validate_None)

lemma mm_Decide_cfg: "mm_Decide L ds parse i (s, w) = (r, s', w') \<Longrightarrow> ms_cfg s' = ms_cfg s"
  by (auto simp: mm_Decide_def Let_def split: option.splits if_splits sum.splits prod.splits bool.splits)

lemma half_spread_exact:
  assumes "decimal_lib L"
  shows "half_spread L c = of_int (mm_spread_bps c) / 10000"
  using decimal_lib.div_int_exact [OF assms, of "of_int (mm_spread_bps c)" 10000] by (simp add: half_spread_def)

lemma mm_Decide_shape:
  assumes "mm_Decide L ds parse i (s, w) = (r, s', w')"
  obtains (silent) d where "r = Inr d" "dc_orders d = []" "dc_swaps d = []" "dc_cancels d = []"
  | (quote) snap where "map_of (ms_symbols (di_market i)) (mm_symbol (ms_cfg s)) = Some snap"
      "0 < fr_mark_price (ss_funding snap)"
      "(ms_tick_count s + 1) mod mm_refresh_ticks (ms_cfg s) = 0"
      "r = Inr (quotes L (ms_cfg s) (fr_mark_price (ss_funding snap)))"
  using assms
  by (auto simp: mm_Decide_def Let_def zero_decision_def split: option.splits if_splits sum.splits prod.splits bool.splits)

text \<open>
  Quotes straddle the mark. With a validated configuration (every constructed and warmed-up
  strategy has one) a decision of the market maker never swaps and never cancels, whatever the
  inference provider answers; it has no orders, or exactly a bid and an ask of the configured size,
  equally far from the market's positive mark price: \<open>spread_bps / 10000\<close> of it, at most a
  tenth, so the bid is positive and below the mark and the ask above it.
\<close>

theorem quotes_straddle_mark:
  assumes "decimal_lib L" "mm_Validate (ms_cfg s) = None"
    and "mm_Decide L dur_str parse i (s, w) = (r, s', w')"
  shows "\<exists>d. r = Inr d \<and> dc_swaps d = [] \<and> dc_cancels d = []
    \<and> (dc_orders d = [] \<or>
       (\<exists>snap bid ask mid. map_of (ms_symbols (di_market i)) (mm_symbol (ms_cfg s)) = Some snap
          \<and> mid = fr_mark_price (ss_funding snap) \<and> dc_orders d = [bid, ask]
          \<and> oi_side bid = SideBuy \<and> oi_side ask = SideSell
          \<and> oi_size bid = mm_order_size (ms_cfg s) \<and> oi_size ask = mm_order_size (ms_cfg s) \<and> 0 < oi_size bid
          \<and> oi_price bid = mid - mid * of_int (mm_spread_bps (ms_cfg s)) / 10000
          \<and> oi_price ask = mid + mid * of_int (mm_spread_bps (ms_cfg s)) / 10000
          \<and> mid * 9 / 10 \<le> oi_price bid \<and> 0 < oi_price bid \<and> oi_price bid < mid \<and> mid < oi_price ask))"
  using assms(3)
proof (cases rule: mm_Decide_shape)
  case (silent d)
  then show ?thesis by blast
next
  case (quote snap)
  let ?mid = "fr_mark_price (ss_funding snap)" and ?sp = "of_int (mm_spread_bps (ms_cfg s)) :: decimal"
  have v: "0 < ?sp" "?sp \<le> 1000" "0 < mm_order_size (ms_cfg s)"
    using assms(2) by (simp_all add: mm_Validate_None)
  have lo: "?mid * ?sp / 10000 \<le> ?mid / 10" using mult_left_mono [OF v(2), of ?mid] quote(2) by simp
  have pos: "0 < ?mid * ?sp / 10000" using quote(2) v(1) by simp
  let ?bid = "quote_order (ms_cfg s) SideBuy (?mid * (1 - half_spread L (ms_cfg s))) ''mm_quote_bid''"
  let ?ask = "quote_order (ms_cfg s) SideSell (?mid * (1 + half_spread L (ms_cfg s))) ''mm_quote_ask''"
  have px: "oi_price ?bid = ?mid - ?mid * ?sp / 10000" "oi_price ?ask = ?mid + ?mid * ?sp / 10000"
    by (simp_all add: quote_order_def half_spread_exact [OF assms(1)] algebra_simps)
  have "oi_side ?bid = SideBuy" "oi_side ?ask = SideSell" "oi_size ?bid = mm_order_size (ms_cfg s)"
    "oi_size ?ask = mm_order_size (ms_cfg s)" by (simp_all add: quote_order_def)
  moreover have "dc_orders (quotes L (ms_cfg s) ?mid) = [?bid, ?ask]" "dc_swaps (quotes L (ms_cfg s) ?mid) = []"
    "dc_cancels (quotes L (ms_cfg s) ?mid) = []" by (simp_all add: quotes_def Let_def zero_decision_def)
  moreover have "?mid * 9 / 10 \<le> oi_price ?bid \<and> 0 < oi_price ?bid \<and> oi_price ?bid < ?mid \<and> ?mid < oi_price ?ask"
    using lo pos quote(2) unfolding px by simp
  ultimately show ?thesis using quote(1,4) px v(3) by (smt (verit, best))
qed

definition sample_mm :: "unit mm_strategy" where
  "sample_mm = \<lparr>ms_cfg = \<lparr>mm_symbol = ''WIF'', mm_spread_bps = 25, mm_order_size = 10, mm_refresh_ticks = 1,
     mm_use_llm_veto = False, mm_veto_model = []\<rparr>, ms_inference = None, ms_tick_count = 0\<rparr>"

definition wif_market :: decision_input where
  "wif_market = \<lparr>di_agent_id = ''a'', di_now = 0,
     di_market = \<lparr>ms_time = 0, ms_symbols = [(''WIF'', \<lparr>ss_tick = zero_tick, ss_book = zero_book,
       ss_funding = zero_funding\<lparr>fr_mark_price := 2\<rparr>\<rparr>)]\<rparr>,
     di_perp_positions = [], di_spot_balances = [], di_basis_positions = [], di_cash = [], di_limits = zero_limits\<rparr>"

theorem quotes_straddle_mark_witness:
  "\<exists>d bid ask. fst (mm_Decide reference_declib (\<lambda>d. []) (\<lambda>t. Inr (False, [])) wif_market (sample_mm, ())) = Inr d
     \<and> dc_orders d = [bid, ask] \<and> oi_price bid = 1995 / 1000 \<and> oi_price ask = 2005 / 1000"
proof -
  obtain r s' w' where dec: "mm_Decide reference_declib (\<lambda>d. []) (\<lambda>t. Inr (False, [])) wif_market (sample_mm, ()) = (r, s', w')"
    by (metis prod_cases3)
  have valid: "mm_Validate (ms_cfg sample_mm) = None" by (simp add: sample_mm_def mm_Validate_def)
  from dec have r: "r = Inr (quotes reference_declib (ms_cfg sample_mm) 2)"
    by (simp add: mm_Decide_def sample_mm_def wif_market_def)
  then have "\<exists>d. r = Inr d \<and> dc_orders d \<noteq> []" by (simp add: quotes_def Let_def)
  with quotes_straddle_mark [OF reference.decimal_lib_axioms valid dec] show ?thesis
    unfolding dec fst_conv by (auto simp: sample_mm_def wif_market_def)
qed

end
