(* ===== verification/StrategyRotation.thy ===== *)
theory StrategyRotation
  imports StrategyDca Risk
begin

text \<open>
  The two rotation strategies over Bittensor subnets: \<open>strategies/alpha_momentum\<close> (hold the subnets with
  the best price momentum) and \<open>strategies/alpha_yield\<close> (hold the subnets with the steadiest
  price, on a cadence). A Go map is an association list; the strategy's sort (\<open>sort.Slice\<close>) and the iteration order
  of a set built in a decision are parameters. A decision is \<open>None\<close> where the code panics.
\<close>

section \<open>Shared steps\<close>

record held_position =
  hp_alpha :: decimal
  hp_entry_price :: decimal

type_synonym price_history = "(nat \<times> decimal list) list"

definition history_of :: "price_history \<Rightarrow> nat \<Rightarrow> decimal list" where
  "history_of h n = (case map_of h n of None \<Rightarrow> [] | Some xs \<Rightarrow> xs)"

text \<open>Keeping the last \<open>window\<close> prices: with a negative window the slice is out of range.\<close>

definition push_price :: "int \<Rightarrow> decimal \<Rightarrow> decimal list \<Rightarrow> decimal list option" where
  "push_price window p hist =
     (let h = hist @ [p]; n = int (length h)
      in if n \<le> window then Some h
         else if window < 0 then None
         else Some (drop (nat (n - window)) h))"

fun record_prices ::
  "declib \<Rightarrow> int \<Rightarrow> (string \<times> symbol_snap) list \<Rightarrow> nat list \<Rightarrow> price_history \<Rightarrow> price_history option" where
  "record_prices L window market [] h = Some h"
| "record_prices L window market (n # ns) h =
     (case map_of market (subnet_symbol n @ ''/TAO'') of
        None \<Rightarrow> record_prices L window market ns h
      | Some snap \<Rightarrow>
          let p = Mid L (ss_tick snap)
          in if p = 0 then record_prices L window market ns h
             else case push_price window p (history_of h n) of
                 None \<Rightarrow> None
               | Some xs \<Rightarrow> record_prices L window market ns (AList.update n xs h))"

definition exit_swap :: "string \<Rightarrow> int \<Rightarrow> nat \<Rightarrow> held_position \<Rightarrow> swap_intent" where
  "exit_swap name slip n pos =
     zero_swap\<lparr>si_chain := ChainBittensor, si_in_token := alpha_asset n, si_out_token := tao_asset,
       si_in_amount := hp_alpha pos, si_slippage_bps := slip, si_basis_key := name @ '':'' @ subnet_symbol n,
       si_tag := name @ ''_exit''\<rparr>"

definition enter_swap :: "string \<Rightarrow> int \<Rightarrow> decimal \<Rightarrow> nat \<Rightarrow> swap_intent" where
  "enter_swap name slip tao n =
     zero_swap\<lparr>si_chain := ChainBittensor, si_in_token := tao_asset, si_out_token := alpha_asset n,
       si_in_amount := tao, si_slippage_bps := slip, si_basis_key := name @ '':'' @ subnet_symbol n,
       si_tag := name @ ''_enter''\<rparr>"

fun exits ::
  "string \<Rightarrow> int \<Rightarrow> nat list \<Rightarrow> (nat \<times> held_position) list \<Rightarrow> swap_intent list \<times> (nat \<times> held_position) list" where
  "exits name slip target [] = ([], [])"
| "exits name slip target ((n, pos) # hs) =
     (let (sws, hs') = exits name slip target hs
      in if n \<in> set target then (sws, (n, pos) # hs')
         else if hp_alpha pos = 0 then (sws, hs')
         else (exit_swap name slip n pos # sws, hs'))"

definition last_price :: "price_history \<Rightarrow> nat \<Rightarrow> decimal" where
  "last_price h n = (if history_of h n = [] then 0 else last (history_of h n))"

definition entered :: "declib \<Rightarrow> decimal \<Rightarrow> price_history \<Rightarrow> nat \<Rightarrow> held_position" where
  "entered L tao h n =
     (let p = last_price h n in \<lparr>hp_alpha = (if p = 0 then 0 else d_div L tao p), hp_entry_price = p\<rparr>)"

fun entries ::
  "declib \<Rightarrow> string \<Rightarrow> int \<Rightarrow> decimal \<Rightarrow> price_history \<Rightarrow> nat list \<Rightarrow> nat list \<Rightarrow> (nat \<times> held_position) list
     \<Rightarrow> swap_intent list \<times> (nat \<times> held_position) list" where
  "entries L name slip tao h target [] held = ([], held)"
| "entries L name slip tao h target (n # ns) held =
     (if n \<notin> set target \<or> map_of held n \<noteq> None then entries L name slip tao h target ns held
      else let (sws, held') = entries L name slip tao h target ns (AList.update n (entered L tao h n) held)
           in (enter_swap name slip tao n # sws, held'))"

section \<open>alpha_momentum\<close>

record momentum_config =
  mo_universe :: "nat list"
  mo_window_ticks :: int
  mo_top_k :: int
  mo_exit_threshold :: float64
  mo_tao_per_position :: decimal
  mo_slippage_bps :: int

definition subnet_universe :: "string \<Rightarrow> any_config \<Rightarrow> go_error + nat list" where
  "subnet_universe what cfg = (case map_of cfg ''universe'' of Some (AnyList xs) \<Rightarrow> netuids what xs | _ \<Rightarrow> Inr [])"

definition momentum_parse :: "declib \<Rightarrow> any_config \<Rightarrow> go_error + momentum_config" where
  "momentum_parse L cfg =
     and_then (subnet_universe ''alpha_momentum: universe item'' cfg) (\<lambda>u.
       Inr \<lparr>mo_universe = u, mo_window_ticks = int_key_or_zero ''window_ticks'' cfg,
            mo_top_k = int_key_or_zero ''top_k'' cfg, mo_exit_threshold = float_key_or_zero ''exit_threshold'' cfg,
            mo_tao_per_position = decimal_key_or_zero L ''tao_per_position'' cfg,
            mo_slippage_bps = int_key_or_zero ''slippage_bps'' cfg\<rparr>)"

definition momentum_Defaults :: "declib \<Rightarrow> momentum_config \<Rightarrow> momentum_config" where
  "momentum_Defaults L c =
     \<lparr>mo_universe = (if mo_universe c = [] then map Suc [0..<64] else mo_universe c),
      mo_window_ticks = (if mo_window_ticks c = 0 then 30 else mo_window_ticks c),
      mo_top_k = (if mo_top_k c = 0 then 5 else mo_top_k c),
      mo_exit_threshold = (if mo_exit_threshold c = 0 then - (2 / 100) else mo_exit_threshold c),
      mo_tao_per_position = (if mo_tao_per_position c = 0 then d_of_float L 5 else mo_tao_per_position c),
      mo_slippage_bps = (if mo_slippage_bps c = 0 then 100 else mo_slippage_bps c)\<rparr>"

record momentum_strategy =
  mos_cfg :: momentum_config
  mos_history :: price_history
  mos_held :: "(nat \<times> held_position) list"

definition momentum_New :: "declib \<Rightarrow> any_config \<Rightarrow> go_error + momentum_strategy" where
  "momentum_New L cfg =
     and_then (momentum_parse L cfg) (\<lambda>c. Inr \<lparr>mos_cfg = momentum_Defaults L c, mos_history = [], mos_held = []\<rparr>)"

definition momentum_score :: "declib \<Rightarrow> price_history \<Rightarrow> nat \<Rightarrow> (nat \<times> float64) list" where
  "momentum_score L h n =
     (let hist = history_of h n
      in if length hist < 2 \<or> hd hist = 0 then []
         else [(n, d_to_float L (d_div L (last hist - hd hist) (hd hist)))])"

definition momentum_scores :: "declib \<Rightarrow> price_history \<Rightarrow> nat list \<Rightarrow> (nat \<times> float64) list" where
  "momentum_scores L h ns = concat (map (momentum_score L h) ns)"

definition momentum_target :: "momentum_config \<Rightarrow> (nat \<times> float64) list \<Rightarrow> nat list" where
  "momentum_target c scores =
     map fst (takeWhile (\<lambda>(n, m). \<not> m \<le> mo_exit_threshold c) (take (nat (mo_top_k c)) scores))"

definition momentum_Decide ::
  "declib \<Rightarrow> ((nat \<times> float64) list \<Rightarrow> (nat \<times> float64) list) \<Rightarrow> decision_input \<Rightarrow> momentum_strategy
     \<Rightarrow> ((go_error + decision) \<times> momentum_strategy) option" where
  "momentum_Decide L srt i s =
     (let c = mos_cfg s
      in case record_prices L (mo_window_ticks c) (ms_symbols (di_market i)) (mo_universe c) (mos_history s) of
           None \<Rightarrow> None
         | Some h \<Rightarrow>
             let scores = srt (momentum_scores L h (mo_universe c));
                 target = momentum_target c scores;
                 (out, held1) = exits ''alpha_momentum'' (mo_slippage_bps c) target (mos_held s);
                 (ins, held2) = entries L ''alpha_momentum'' (mo_slippage_bps c) (mo_tao_per_position c) h target
                                  (map fst scores) held1
             in Some (Inr (zero_decision\<lparr>dc_swaps := out @ ins,
                        dc_notes := ''alpha_momentum: holding '' @ nat_str (length held2) @ '' subnets, ''
                          @ nat_str (length ins) @ '' entries, '' @ nat_str (length out) @ '' exits'',
                        dc_confidence := 7 / 10\<rparr>),
                      s\<lparr>mos_history := h, mos_held := held2\<rparr>))"

section \<open>alpha_yield\<close>

record yield_config =
  yc_universe :: "nat list"
  yc_top_k :: int
  yc_rebalance_ticks :: int
  yc_min_yield_delta :: float64
  yc_volatility_window :: int
  yc_tao_per_position :: decimal
  yc_slippage_bps :: int

definition yield_parse :: "declib \<Rightarrow> any_config \<Rightarrow> go_error + yield_config" where
  "yield_parse L cfg =
     and_then (subnet_universe ''alpha_yield: universe item'' cfg) (\<lambda>u.
       Inr \<lparr>yc_universe = u, yc_top_k = int_key_or_zero ''top_k'' cfg,
            yc_rebalance_ticks = int_key_or_zero ''rebalance_ticks'' cfg,
            yc_min_yield_delta = float_key_or_zero ''min_yield_delta'' cfg,
            yc_volatility_window = int_key_or_zero ''volatility_window'' cfg,
            yc_tao_per_position = decimal_key_or_zero L ''tao_per_position'' cfg,
            yc_slippage_bps = int_key_or_zero ''slippage_bps'' cfg\<rparr>)"

definition yield_Defaults :: "declib \<Rightarrow> yield_config \<Rightarrow> yield_config" where
  "yield_Defaults L c =
     \<lparr>yc_universe = (if yc_universe c = [] then map Suc [0..<64] else yc_universe c),
      yc_top_k = (if yc_top_k c = 0 then 3 else yc_top_k c),
      yc_rebalance_ticks = (if yc_rebalance_ticks c = 0 then 50 else yc_rebalance_ticks c),
      yc_min_yield_delta = (if yc_min_yield_delta c = 0 then 5 / 100 else yc_min_yield_delta c),
      yc_volatility_window = (if yc_volatility_window c = 0 then 30 else yc_volatility_window c),
      yc_tao_per_position = (if yc_tao_per_position c = 0 then d_of_float L 10 else yc_tao_per_position c),
      yc_slippage_bps = (if yc_slippage_bps c = 0 then 100 else yc_slippage_bps c)\<rparr>"

record yield_strategy =
  ys_cfg :: yield_config
  ys_tick_count :: int
  ys_history :: price_history
  ys_held :: "(nat \<times> held_position) list"

definition yield_New :: "declib \<Rightarrow> any_config \<Rightarrow> go_error + yield_strategy" where
  "yield_New L cfg =
     and_then (yield_parse L cfg) (\<lambda>c.
       Inr \<lparr>ys_cfg = yield_Defaults L c, ys_tick_count = 0, ys_history = [], ys_held = []\<rparr>)"

text \<open>
  The \<open>float64\<close> arithmetic: \<open>fl\<close> rounds the exact result of an operation and \<open>fsqrt\<close> is \<open>math.Sqrt\<close>. NaN is
  \<open>None\<close>; overflow to an infinity is left out.
\<close>

fun price_returns :: "declib \<Rightarrow> (rat \<Rightarrow> float64) \<Rightarrow> decimal list \<Rightarrow> float64 list" where
  "price_returns L fl (p # q # ps) =
     (let prev = d_to_float L p; cur = d_to_float L q
      in if prev = 0 then price_returns L fl (q # ps)
         else fl (fl (cur - prev) / prev) # price_returns L fl (q # ps))"
| "price_returns L fl ps = []"

definition relativeStdDev ::
  "declib \<Rightarrow> (rat \<Rightarrow> float64) \<Rightarrow> (float64 \<Rightarrow> float64) \<Rightarrow> decimal list \<Rightarrow> float64 option" where
  "relativeStdDev L fl fsqrt prices =
     (let rs = price_returns L fl prices; n = fl (of_nat (length rs))
      in if length prices < 2 \<or> rs = [] then None
         else
           let mean = fl (foldl (\<lambda>a r. fl (a + r)) 0 rs / n);
               ss = foldl (\<lambda>a r. fl (a + fl (fl (r - mean) * fl (r - mean)))) 0 rs
           in Some (fsqrt (fl (ss / n))))"

definition yield_score ::
  "declib \<Rightarrow> (rat \<Rightarrow> float64) \<Rightarrow> (float64 \<Rightarrow> float64) \<Rightarrow> price_history \<Rightarrow> nat \<Rightarrow> (nat \<times> float64) list" where
  "yield_score L fl fsqrt h n =
     (if length (history_of h n) < 2 then []
      else case relativeStdDev L fl fsqrt (history_of h n) of
          None \<Rightarrow> []
        | Some vol \<Rightarrow> [(n, fl (1 / fl (1 + vol)))])"

definition yield_target :: "yield_config \<Rightarrow> (nat \<times> float64) list \<Rightarrow> nat list" where
  "yield_target c scores = remdups (map fst (take (nat (yc_top_k c)) scores))"

text \<open>The remainder of Go: its sign is that of the first operand.\<close>

definition go_rem :: "int \<Rightarrow> int \<Rightarrow> int" where
  "go_rem a b = (if a < 0 then - ((- a) mod \<bar>b\<bar>) else a mod \<bar>b\<bar>)"

definition yield_Decide ::
  "declib \<Rightarrow> (rat \<Rightarrow> float64) \<Rightarrow> (float64 \<Rightarrow> float64) \<Rightarrow> ((nat \<times> float64) list \<Rightarrow> (nat \<times> float64) list)
     \<Rightarrow> (nat list \<Rightarrow> nat list) \<Rightarrow> decision_input \<Rightarrow> yield_strategy
     \<Rightarrow> ((go_error + decision) \<times> yield_strategy) option" where
  "yield_Decide L fl fsqrt srt ord i s0 =
     (let s = s0\<lparr>ys_tick_count := ys_tick_count s0 + 1\<rparr>; c = ys_cfg s
      in case record_prices L (yc_volatility_window c) (ms_symbols (di_market i)) (yc_universe c) (ys_history s) of
           None \<Rightarrow> None
         | Some h \<Rightarrow>
             if go_rem (ys_tick_count s) (yc_rebalance_ticks c) \<noteq> 0 \<and> ys_held s \<noteq> []
             then Some (Inr (zero_decision\<lparr>dc_notes := ''alpha_yield: holding '' @ nat_str (length (ys_held s))
                          @ '' subnets, '' @ int_str (yc_rebalance_ticks c - go_rem (ys_tick_count s) (yc_rebalance_ticks c))
                          @ '' ticks until rebalance''\<rparr>), s\<lparr>ys_history := h\<rparr>)
             else
               let scores = srt (concat (map (yield_score L fl fsqrt h) (yc_universe c)));
                   target = yield_target c scores;
                   (out, held1) = exits ''alpha_yield'' (yc_slippage_bps c) target (ys_held s);
                   (ins, held2) = entries L ''alpha_yield'' (yc_slippage_bps c) (yc_tao_per_position c) h target
                                    (ord target) held1
               in Some (Inr (zero_decision\<lparr>dc_swaps := out @ ins,
                          dc_notes := ''alpha_yield: rebalance '' @ arrow @ '' holding '' @ nat_str (length held2)
                            @ '' subnets ('' @ nat_str (length ins) @ '' entries, '' @ nat_str (length out) @ '' exits)'',
                          dc_confidence := 7 / 10\<rparr>),
                        s\<lparr>ys_history := h, ys_held := held2\<rparr>))"

section \<open>What a rotation leaves behind\<close>

lemma exits_eq:
  "exits name slip target hs =
     (map (\<lambda>(n, p). exit_swap name slip n p) (filter (\<lambda>(n, p). n \<notin> set target \<and> hp_alpha p \<noteq> 0) hs),
      filter (\<lambda>(n, p). n \<in> set target) hs)"
  by (induction hs) (auto simp: Let_def split: prod.splits)

lemma map_of_filter_key: "map_of (filter (\<lambda>(n, p). n \<in> A) hs) k = (if k \<in> A then map_of hs k else None)"
  by (induction hs) (auto split: if_splits)

lemma entries_lookup:
  assumes "entries L name slip tao h target ns held = (sws, held')"
  shows "map_of held' k = (case map_of held k of Some p \<Rightarrow> Some p
     | None \<Rightarrow> if k \<in> set target \<inter> set ns then Some (entered L tao h k) else None)"
  using assms
proof (induction ns arbitrary: held sws)
  case (Cons n ns)
  show ?case
  proof (cases "n \<notin> set target \<or> map_of held n \<noteq> None")
    case True
    then have "entries L name slip tao h target ns held = (sws, held')" using Cons.prems by simp
    from Cons.IH [OF this] True show ?thesis by (auto split: option.splits)
  next
    case False
    then obtain sws' where "entries L name slip tao h target ns (AList.update n (entered L tao h n) held) = (sws', held')"
      using Cons.prems by (auto simp: Let_def split: prod.splits)
    from Cons.IH [OF this] False show ?thesis by (auto simp: update_conv' split: option.splits)
  qed
qed (auto split: option.splits)

lemma entries_distinct:
  "entries L name slip tao h target ns held = (sws, held') \<Longrightarrow> distinct (map fst held) \<Longrightarrow> distinct (map fst held')"
  by (induction ns arbitrary: held sws) (auto simp: Let_def distinct_update split: if_splits prod.splits)

lemma rotation_book:
  assumes "exits name slip target held = (out, held1)"
    and "entries L name slip tao h target ns held1 = (ins, held2)"
    and "distinct (map fst held)" "set target \<subseteq> set ns"
  shows "distinct (map fst held2)"
    and "map_of held2 n = (if n \<in> set target then Some (case map_of held n of Some p \<Rightarrow> p | None \<Rightarrow> entered L tao h n) else None)"
    and "set (map fst held2) = set target"
proof -
  have h1: "held1 = filter (\<lambda>(n, p). n \<in> set target) held" using assms(1) by (simp add: exits_eq)
  have "distinct (map fst held1)" unfolding h1 using assms(3) by (rule distinct_map_filter)
  with assms(2) show "distinct (map fst held2)" by (rule entries_distinct)
  have lk: "map_of held2 k = (if k \<in> set target then Some (case map_of held k of Some p \<Rightarrow> p | None \<Rightarrow> entered L tao h k) else None)" for k
    using entries_lookup [OF assms(2), of k] assms(4)
    by (auto simp: h1 map_of_filter_key split: option.splits if_splits)
  then show "map_of held2 n = (if n \<in> set target then Some (case map_of held n of Some p \<Rightarrow> p | None \<Rightarrow> entered L tao h n) else None)" .
  have "k \<in> fst ` set held2 \<longleftrightarrow> k \<in> set target" for k
    using lk [of k] map_of_eq_None_iff [of held2 k] by (auto split: if_splits)
  then show "set (map fst held2) = set target" by auto
qed

lemma momentum_Decide_cases:
  assumes "momentum_Decide L srt i s = Some (r, s')"
  obtains h out held1 ins held2 d
  where "r = Inr d" "dc_swaps d = out @ ins" "dc_orders d = []" "s' = s\<lparr>mos_history := h, mos_held := held2\<rparr>"
    and "exits ''alpha_momentum'' (mo_slippage_bps (mos_cfg s))
           (momentum_target (mos_cfg s) (srt (momentum_scores L h (mo_universe (mos_cfg s))))) (mos_held s) = (out, held1)"
    and "entries L ''alpha_momentum'' (mo_slippage_bps (mos_cfg s)) (mo_tao_per_position (mos_cfg s)) h
           (momentum_target (mos_cfg s) (srt (momentum_scores L h (mo_universe (mos_cfg s)))))
           (map fst (srt (momentum_scores L h (mo_universe (mos_cfg s))))) held1 = (ins, held2)"
  using assms
  by (auto simp: momentum_Decide_def Let_def zero_decision_def split: option.splits prod.splits)

section \<open>Momentum holds the best\<close>

lemma momentum_score_functional: "(n, m) \<in> set (momentum_scores L h ns) \<Longrightarrow> (n, m') \<in> set (momentum_scores L h ns') \<Longrightarrow> m = m'"
  by (auto simp: momentum_scores_def momentum_score_def Let_def split: if_splits)

lemma momentum_scores_distinct: "distinct ns \<Longrightarrow> distinct (map fst (momentum_scores L h ns))"
proof (induction ns)
  case (Cons n ns)
  have "fst ` set (momentum_scores L h ns) \<subseteq> set ns"
    by (induction ns) (auto simp: momentum_scores_def momentum_score_def Let_def split: if_splits)
  with Cons show ?case by (auto simp: momentum_scores_def momentum_score_def Let_def)
qed (simp add: momentum_scores_def)

text \<open>On a list sorted from the highest, cutting at the first failure of a threshold is filtering.\<close>

lemma takeWhile_sorted_desc:
  fixes xs :: "('a \<times> rat) list"
  assumes "sorted_wrt (\<lambda>a b. snd b \<le> snd a) xs"
  shows "takeWhile (\<lambda>(n, m). \<not> m \<le> t) xs = filter (\<lambda>(n, m). \<not> m \<le> t) xs"
  using assms
proof (induction xs)
  case (Cons x xs)
  then show ?case
    by (cases x) (auto simp: filter_empty_conv intro!: filter_False [symmetric])
qed simp

lemma takeWhile_take_prefix: "takeWhile P (take k xs) = take k (takeWhile P xs)"
  by (induction xs arbitrary: k) (auto simp: take_Cons split: nat.splits)

lemma momentum_target_sorted:
  assumes "sorted_wrt (\<lambda>a b. snd b \<le> snd a) xs"
  shows "momentum_target c xs = map fst (take (nat (mo_top_k c)) (filter (\<lambda>(n, m). mo_exit_threshold c < m) xs))"
  using takeWhile_sorted_desc [OF assms, of "mo_exit_threshold c"]
  by (simp add: momentum_target_def takeWhile_take_prefix not_le)

lemma taken_beat_dropped:
  assumes "sorted_wrt (\<lambda>a b. snd b \<le> snd a) xs" "x \<in> set (take k xs)" "y \<in> set xs" "y \<notin> set (take k xs)"
  shows "snd y \<le> (snd x :: rat)"
proof -
  have "y \<in> set (drop k xs)" using assms(3,4) by (metis UnE append_take_drop_id set_append)
  moreover have "sorted_wrt (\<lambda>a b. snd b \<le> snd a) (take k xs @ drop k xs)" using assms(1) by simp
  ultimately show ?thesis using assms(2) unfolding sorted_wrt_append by blast
qed

definition descending_sort :: "((nat \<times> float64) list \<Rightarrow> (nat \<times> float64) list) \<Rightarrow> bool" where
  "descending_sort srt \<longleftrightarrow> (\<forall>xs. mset (srt xs) = mset xs \<and> sorted_wrt (\<lambda>a b. snd b \<le> snd a) (srt xs))"


section \<open>Yield rotates on its cadence\<close>

lemma entries_swaps:
  assumes "entries L name slip tao h target ns held = (sws, held')"
  shows "\<exists>es. sws = map (enter_swap name slip tao) es \<and> distinct es \<and> set es = set target \<inter> set ns - set (map fst held)"
  using assms
proof (induction ns arbitrary: held sws)
  case (Cons n ns)
  show ?case
  proof (cases "n \<notin> set target \<or> map_of held n \<noteq> None")
    case True
    then have "entries L name slip tao h target ns held = (sws, held')" using Cons.prems by simp
    moreover have "set target \<inter> set (n # ns) - set (map fst held) = set target \<inter> set ns - set (map fst held)"
      using True map_of_eq_None_iff [of held n] by auto
    ultimately show ?thesis using Cons.IH by simp
  next
    case False
    then obtain sws' where rec: "entries L name slip tao h target ns (AList.update n (entered L tao h n) held) = (sws', held')"
      and sws: "sws = enter_swap name slip tao n # sws'"
      using Cons.prems by (auto simp: Let_def split: prod.splits)
    from Cons.IH [OF rec] obtain es where es: "sws' = map (enter_swap name slip tao) es" "distinct es"
      "set es = set target \<inter> set ns - set (map fst (AList.update n (entered L tao h n) held))" by blast
    have keys: "set (map fst (AList.update n (entered L tao h n) held)) = insert n (set (map fst held))"
      by (simp add: dom_update)
    have "n \<in> set target" "n \<notin> set (map fst held)" using False map_of_eq_None_iff [of held n] by auto
    then have "set (n # es) = set target \<inter> set (n # ns) - set (map fst held)" "distinct (n # es)"
      using es(2,3) unfolding keys by auto
    then show ?thesis using sws es(1) by (intro exI [of _ "n # es"]) simp
  qed
qed simp

lemma yield_Decide_cases:
  assumes "yield_Decide L fl fsqrt srt ord i s = Some (r, s')"
  obtains (hold) h d where "r = Inr d" "dc_swaps d = []" "dc_orders d = []" "s' = s\<lparr>ys_tick_count := ys_tick_count s + 1, ys_history := h\<rparr>"
      "go_rem (ys_tick_count s + 1) (yc_rebalance_ticks (ys_cfg s)) \<noteq> 0" "ys_held s \<noteq> []"
  | (rotate) h out held1 ins held2 d scores
  where "r = Inr d" "dc_swaps d = out @ ins" "dc_orders d = []"
    "s' = s\<lparr>ys_tick_count := ys_tick_count s + 1, ys_history := h, ys_held := held2\<rparr>"
    "go_rem (ys_tick_count s + 1) (yc_rebalance_ticks (ys_cfg s)) = 0 \<or> ys_held s = []"
    "scores = srt (concat (map (yield_score L fl fsqrt h) (yc_universe (ys_cfg s))))"
    "exits ''alpha_yield'' (yc_slippage_bps (ys_cfg s)) (yield_target (ys_cfg s) scores) (ys_held s) = (out, held1)"
    "entries L ''alpha_yield'' (yc_slippage_bps (ys_cfg s)) (yc_tao_per_position (ys_cfg s)) h
           (yield_target (ys_cfg s) scores) (ord (yield_target (ys_cfg s) scores)) held1 = (ins, held2)"
  using assms
  by (auto simp: yield_Decide_def Let_def zero_decision_def split: option.splits prod.splits if_splits)

text \<open>
  The yield strategy rotates on its cadence only. Take a book with one entry per subnet and any
  enumeration of the target set. On a tick off the cadence with a non-empty book a decision has no swaps and leaves
  the book alone. On any other tick the book becomes exactly the target, the at most \<open>top_k\<close>
  best-scored subnets, one entry each; what stays keeps its entry, and the swaps are one sale
  of exactly the recorded amount for each subnet that leaves (if that amount is not zero) and one
  purchase of the configured amount for each that enters.
\<close>

theorem yield_rotates_on_cadence:
  assumes dec: "yield_Decide L fl fsqrt srt ord i s = Some (r, s')"
    and ord: "\<And>ns. set (ord ns) = set ns" and dist: "distinct (map fst (ys_held s))"
  defines "target \<equiv> yield_target (ys_cfg s) (srt (concat (map (yield_score L fl fsqrt (ys_history s')) (yc_universe (ys_cfg s)))))"
  shows "if go_rem (ys_tick_count s') (yc_rebalance_ticks (ys_cfg s)) \<noteq> 0 \<and> ys_held s \<noteq> []
    then ys_held s' = ys_held s \<and> swaps_of r = []
    else distinct (map fst (ys_held s')) \<and> set (map fst (ys_held s')) = set target
      \<and> length (ys_held s') \<le> nat (yc_top_k (ys_cfg s))
      \<and> list_all (\<lambda>(n, p). map_of (ys_held s) n = None \<or> map_of (ys_held s) n = Some p) (ys_held s')
      \<and> (\<exists>ins. swaps_of r
           = map (\<lambda>(n, p). exit_swap ''alpha_yield'' (yc_slippage_bps (ys_cfg s)) n p)
               (filter (\<lambda>(n, p). n \<notin> set target \<and> hp_alpha p \<noteq> 0) (ys_held s))
             @ map (enter_swap ''alpha_yield'' (yc_slippage_bps (ys_cfg s)) (yc_tao_per_position (ys_cfg s))) ins
           \<and> distinct ins \<and> set ins = set target - set (map fst (ys_held s)))"
  using dec
proof (cases rule: yield_Decide_cases)
  case (hold h d)
  then show ?thesis by (simp add: swaps_of_def)
next
  case (rotate h out held1 ins held2 d scores)
  have s': "ys_history s' = h" "ys_held s' = held2" "ys_tick_count s' = ys_tick_count s + 1" using rotate(4) by simp_all
  have t: "yield_target (ys_cfg s) scores = target" by (simp add: target_def rotate(6) s')
  note steps = rotate(7,8)[unfolded t]
  have "set target \<subseteq> set (ord target)" using ord by simp
  note book = rotation_book [OF steps dist this]
  have "length held2 = card (set target)" using distinct_card [OF book(1)] book(3) by simp
  also have "\<dots> \<le> length (take (nat (yc_top_k (ys_cfg s))) scores)"
    unfolding t [symmetric] yield_target_def by (metis card_length length_map set_remdups)
  also have "\<dots> \<le> nat (yc_top_k (ys_cfg s))" by simp
  finally have len: "length held2 \<le> nat (yc_top_k (ys_cfg s))" .
  have "map_of (ys_held s) n = None \<or> map_of (ys_held s) n = Some p" if "(n, p) \<in> set held2" for n p
    using book(2) [of n] map_of_is_SomeI [OF book(1) that] by (cases "map_of (ys_held s) n") (auto split: if_splits)
  then have keep: "list_all (\<lambda>(n, p). map_of (ys_held s) n = None \<or> map_of (ys_held s) n = Some p) held2"
    by (auto simp: list_all_iff)
  have h1: "held1 = filter (\<lambda>(n, p). n \<in> set target) (ys_held s)"
    and out: "out = map (\<lambda>(n, p). exit_swap ''alpha_yield'' (yc_slippage_bps (ys_cfg s)) n p)
               (filter (\<lambda>(n, p). n \<notin> set target \<and> hp_alpha p \<noteq> 0) (ys_held s))"
    using steps(1) by (simp_all add: exits_eq)
  obtain ns where ns: "ins = map (enter_swap ''alpha_yield'' (yc_slippage_bps (ys_cfg s)) (yc_tao_per_position (ys_cfg s))) ns"
      "distinct ns" "set ns = set target - set (map fst held1)"
    using entries_swaps [OF steps(2)] ord by auto
  have "set target - set (map fst held1) = set target - set (map fst (ys_held s))"
    by (force simp: h1)
  with ns have "\<exists>ins'. out @ ins = out @ map (enter_swap ''alpha_yield'' (yc_slippage_bps (ys_cfg s)) (yc_tao_per_position (ys_cfg s))) ins'
      \<and> distinct ins' \<and> set ins' = set target - set (map fst (ys_held s))" by blast
  then show ?thesis
    using rotate(1,2,5) book(1,3) len keep unfolding s' out by (auto simp: swaps_of_def)
qed

section \<open>The position cap does not reach the subnet strategies\<close>

definition subnet_swap :: "swap_intent \<Rightarrow> bool" where
  "subnet_swap sw \<longleftrightarrow> (\<exists>n. as_symbol (si_in_token sw) = ''TAO'' \<and> as_symbol (si_out_token sw) = subnet_symbol n
     \<or> as_symbol (si_in_token sw) = subnet_symbol n \<and> as_symbol (si_out_token sw) = ''TAO'')"

lemma subnet_swap_not_opening: "subnet_swap sw \<Longrightarrow> \<not> isOpeningSwap sw"
  by (auto simp: subnet_swap_def isOpeningSwap_def subnet_symbol_def)

lemma built_swaps_subnet:
  "subnet_swap (exit_swap name slip n pos)" "subnet_swap (enter_swap name slip tao n)" "subnet_swap (alpha_dca_intent c n)"
  unfolding subnet_swap_def exit_swap_def enter_swap_def alpha_dca_intent_def alpha_asset_def tao_asset_def
  by (rule exI [of _ n], simp)+

lemma exits_subnet: "sw \<in> set (fst (exits name slip target hs)) \<Longrightarrow> subnet_swap sw"
  by (auto simp: exits_eq built_swaps_subnet)

lemma entries_subnet: "entries L name slip tao h target ns held = (sws, held') \<Longrightarrow> sw \<in> set sws \<Longrightarrow> subnet_swap sw"
  using entries_swaps [of L name slip tao h target ns held sws held'] by (auto simp: built_swaps_subnet)

lemma alpha_dca_subnet: "alpha_dca_Decide L i s = (r, s') \<Longrightarrow> sw \<in> set (swaps_of r) \<Longrightarrow> subnet_swap sw"
  by (auto simp: alpha_dca_Decide_def Let_def swaps_of_def zero_decision_def built_swaps_subnet split: if_splits)

lemma momentum_subnet:
  assumes "momentum_Decide L srt i s = Some (r, s')" "sw \<in> set (swaps_of r)"
  shows "subnet_swap sw"
  using assms(1)
proof (cases rule: momentum_Decide_cases)
  case (1 h out held1 ins held2 d)
  with assms(2) have "sw \<in> set out \<or> sw \<in> set ins" by (auto simp: swaps_of_def)
  with 1(5,6) show ?thesis using exits_subnet entries_subnet by (metis fst_conv)
qed

lemma yield_subnet:
  assumes "yield_Decide L fl fsqrt srt ord i s = Some (r, s')" "sw \<in> set (swaps_of r)"
  shows "subnet_swap sw"
  using assms(1)
proof (cases rule: yield_Decide_cases)
  case (hold h d)
  with assms(2) show ?thesis by (simp add: swaps_of_def)
next
  case (rotate h out held1 ins held2 d scores)
  with assms(2) have "sw \<in> set out \<or> sw \<in> set ins" by (auto simp: swaps_of_def)
  with rotate(7,8) show ?thesis using exits_subnet entries_subnet by (metis fst_conv)
qed

text \<open>
  The position cap does not reach the subnet strategies. No swap that \<open>alpha_dca\<close>, \<open>alpha_momentum\<close> or
  \<open>alpha_yield\<close> ever requests counts as an opening swap (an opening is a swap out of USDC, and
  they buy with TAO), so the pre-trade verdict on it is the same for every portfolio: however
  many subnets are held, \<open>max_concurrent_positions\<close> blocks none of them.
\<close>

theorem subnet_swaps_escape_cap:
  assumes "alpha_dca_Decide L i s1 = (r, s1') \<or> momentum_Decide L srt i s2 = Some (r, s2')
      \<or> yield_Decide L fl fsqrt srt ord i s3 = Some (r, s3')"
    and "sw \<in> set (swaps_of r)"
  shows "\<not> isOpeningSwap sw \<and> PreTrade L p (IntentSwap sw) snap = PreTrade L p (IntentSwap sw) empty_snapshot"
proof -
  have "subnet_swap sw"
    using assms(1) by (elim disjE) (erule alpha_dca_subnet momentum_subnet yield_subnet, rule assms(2))+
  then have "\<not> isOpeningSwap sw" by (rule subnet_swap_not_opening)
  then show ?thesis by (simp add: checkSwap_def Let_def)
qed

section \<open>Witnesses\<close>

text \<open>Two subnets with known prices: subnet 3 rose by half, subnet 8, which is held, fell.\<close>

definition falling_sort :: "(nat \<times> float64) list \<Rightarrow> (nat \<times> float64) list" where
  "falling_sort xs = rev (sort_key snd xs)"

lemma falling_sort_descending: "descending_sort falling_sort"
proof -
  have "sorted_wrt (\<lambda>a b. snd b \<le> snd a) (falling_sort xs)" for xs
    using sorted_sort_key [of snd xs] by (simp add: falling_sort_def sorted_wrt_rev sorted_wrt_map)
  then show ?thesis by (simp add: descending_sort_def falling_sort_def)
qed

definition priced :: "nat \<Rightarrow> decimal \<Rightarrow> string \<times> symbol_snap" where
  "priced n p = (subnet_symbol n @ ''/TAO'', \<lparr>ss_tick = zero_tick\<lparr>tk_last := p\<rparr>, ss_book = zero_book, ss_funding = zero_funding\<rparr>)"

definition subnet_market :: decision_input where
  "subnet_market = \<lparr>di_agent_id = ''a'', di_now = 0, di_market = \<lparr>ms_time = 0, ms_symbols = [priced 3 3, priced 8 1]\<rparr>,
     di_perp_positions = [], di_spot_balances = [], di_basis_positions = [], di_cash = [], di_limits = zero_limits\<rparr>"

definition sample_momentum :: momentum_strategy where
  "sample_momentum = \<lparr>mos_cfg = \<lparr>mo_universe = [3, 8], mo_window_ticks = 30, mo_top_k = 1, mo_exit_threshold = - (2 / 100),
     mo_tao_per_position = 6, mo_slippage_bps = 100\<rparr>, mos_history = [(3, [2]), (8, [2])],
     mos_held = [(8, \<lparr>hp_alpha = 4, hp_entry_price = 1\<rparr>)]\<rparr>"

definition sample_yield :: yield_strategy where
  "sample_yield = \<lparr>ys_cfg = \<lparr>yc_universe = [3, 8], yc_top_k = 1, yc_rebalance_ticks = 2, yc_min_yield_delta = 5 / 100,
     yc_volatility_window = 30, yc_tao_per_position = 6, yc_slippage_bps = 100\<rparr>, ys_tick_count = 1,
     ys_history = [(3, [2]), (8, [1])], ys_held = [(8, \<lparr>hp_alpha = 4, hp_entry_price = 1\<rparr>)]\<rparr>"

lemma decided_cases:
  "(case x of Some (Inr d, s) \<Rightarrow> P d s | _ \<Rightarrow> False) \<Longrightarrow> \<exists>d s. x = Some (Inr d, s) \<and> P d s"
  by (cases x; cases "fst (the x)") (auto split: prod.splits)

lemma sample_momentum_decides:
  "case momentum_Decide reference_declib falling_sort subnet_market sample_momentum of
     Some (Inr d, s') \<Rightarrow> map fst (mos_held s') = [3] \<and> map (\<lambda>sw. (as_symbol (si_in_token sw), si_in_amount sw)) (dc_swaps d) = [(''SN8'', 4), (''TAO'', 6)]
   | _ \<Rightarrow> False"
  by code_simp

lemma sample_yield_decides:
  "case yield_Decide reference_declib (\<lambda>x. x) (\<lambda>x. x) falling_sort (\<lambda>ns. ns) subnet_market sample_yield of
     Some (Inr d, s') \<Rightarrow> map fst (ys_held s') = [8] \<and> dc_swaps d = [] | _ \<Rightarrow> False"
  by code_simp


theorem yield_rotates_on_cadence_witness:
  "\<exists>r s'. yield_Decide reference_declib (\<lambda>x. x) (\<lambda>x. x) falling_sort (\<lambda>ns. ns) subnet_market sample_yield = Some (r, s')
     \<and> set (map fst (ys_held s')) = set (yield_target (ys_cfg sample_yield) (falling_sort
           (concat (map (yield_score reference_declib (\<lambda>x. x) (\<lambda>x. x) (ys_history s')) [3, 8]))))
     \<and> set (map fst (ys_held s')) = {8}"
proof -
  from decided_cases [OF sample_yield_decides] obtain r s' where
    dec: "yield_Decide reference_declib (\<lambda>x. x) (\<lambda>x. x) falling_sort (\<lambda>ns. ns) subnet_market sample_yield = Some (r, s')"
    and held: "map fst (ys_held s') = [8]" by auto
  have "distinct (map fst (ys_held sample_yield))" by (simp add: sample_yield_def)
  have "ys_tick_count s' = 2"
    using dec by (cases rule: yield_Decide_cases) (simp_all add: sample_yield_def)
  with yield_rotates_on_cadence [OF dec refl \<open>distinct (map fst (ys_held sample_yield))\<close>] dec held show ?thesis
    by (auto simp: sample_yield_def go_rem_def)
qed

theorem subnet_swaps_escape_cap_witness:
  "\<exists>r s' sw. momentum_Decide reference_declib falling_sort subnet_market sample_momentum = Some (r, s') \<and> sw \<in> set (swaps_of r)
     \<and> \<not> isOpeningSwap sw"
proof -
  from decided_cases [OF sample_momentum_decides] obtain d s' where
    dec: "momentum_Decide reference_declib falling_sort subnet_market sample_momentum = Some (Inr d, s')"
    and "map (\<lambda>sw. (as_symbol (si_in_token sw), si_in_amount sw)) (dc_swaps d) = [(''SN8'', 4), (''TAO'', 6)]" by auto
  then obtain sw where "sw \<in> set (swaps_of (Inr d))" by (cases "dc_swaps d") (auto simp: swaps_of_def)
  with subnet_swaps_escape_cap dec show ?thesis by blast
qed

end
