(* ===== verification/GoText.thy ===== *)
theory GoText
  imports Prelude "HOL-Library.Word" "HOL-Library.Sublist"
begin

text \<open>
  What the chain and venue clients use of Go's text and byte libraries: letter case, prefixes,
  \<open>strings.TrimRight\<close> and \<open>strings.Replace\<close>, \<open>strconv.ParseUint\<close>, \<open>fmt.Sscanf\<close>
  with \<open>%d\<close>, \<open>encoding/hex\<close> and the little-endian part of \<open>encoding/binary\<close>, with the
  round-trip laws of each encoder and its decoder. A byte is an \<open>8 word\<close>.
\<close>

type_synonym byte = "8 word"
type_synonym bytes = "byte list"

named_theorems roundtrips
  \<open>decoder (encoder x) = x\<close>

section \<open>Strings\<close>

definition lower_char :: "char \<Rightarrow> char" where
  "lower_char c =
     (if 65 \<le> (of_char c :: nat) \<and> (of_char c :: nat) \<le> 90 then char_of ((of_char c :: nat) + 32) else c)"

definition to_lower :: "string \<Rightarrow> string" where
  "to_lower s = map lower_char s"

definition has_prefix :: "string \<Rightarrow> string \<Rightarrow> bool" where
  "has_prefix s p \<longleftrightarrow> prefix p s"

definition TrimPrefix :: "string \<Rightarrow> string \<Rightarrow> string" where
  "TrimPrefix s p = (if has_prefix s p then drop (length p) s else s)"

definition TrimRight :: "string \<Rightarrow> char \<Rightarrow> string" where
  "TrimRight s c = rev (dropWhile (\<lambda>x. x = c) (rev s))"

text \<open>\<open>TrimSpace\<close> on the ASCII white space.\<close>

definition is_space :: "char \<Rightarrow> bool" where
  "is_space c \<longleftrightarrow> c \<in> set [CHR 0x09, CHR 0x0A, CHR 0x0B, CHR 0x0C, CHR 0x0D, CHR 0x20]"

definition TrimSpace :: "string \<Rightarrow> string" where
  "TrimSpace s = rev (dropWhile is_space (rev (dropWhile is_space s)))"

text \<open>\<open>strings.Index\<close> of a single byte, and \<open>strings.Replace\<close> with a limit of one.\<close>

fun index_of :: "char \<Rightarrow> string \<Rightarrow> nat option" where
  "index_of c [] = None"
| "index_of c (x # xs) = (if x = c then Some 0 else map_option Suc (index_of c xs))"

fun replace_first :: "string \<Rightarrow> string \<Rightarrow> string \<Rightarrow> string" where
  "replace_first old new s =
     (if has_prefix s old then new @ drop (length old) s
      else case s of [] \<Rightarrow> [] | c # cs \<Rightarrow> c # replace_first old new cs)"

declare replace_first.simps [simp del]

lemma has_prefix_append [simp]: "has_prefix (p @ s) p"
  by (simp add: has_prefix_def)

lemma TrimPrefix_append [simp]: "TrimPrefix (p @ s) p = s"
  by (simp add: TrimPrefix_def)

lemma index_of_append: "c \<notin> set xs \<Longrightarrow> index_of c (xs @ c # ys) = Some (length xs)"
  by (induction xs) auto

section \<open>Numbers in text\<close>

definition ErrSyntax :: go_error where
  "ErrSyntax = Sentinel ''invalid syntax''"

definition ErrRange :: go_error where
  "ErrRange = Sentinel ''value out of range''"

text \<open>
  \<open>strconv.ParseUint(s, 10, bits)\<close> reads left to right and stops at the first character that is
  no digit or at the first digit that takes the value out of range.
\<close>

fun parse_uint_from :: "nat \<Rightarrow> nat \<Rightarrow> string \<Rightarrow> go_error + nat" where
  "parse_uint_from bits n [] = Inr n"
| "parse_uint_from bits n (c # cs) =
     (if \<not> is_digit c then Inl ErrSyntax
      else let n1 = 10 * n + digit_val c
           in if 2 ^ bits \<le> n1 then Inl ErrRange else parse_uint_from bits n1 cs)"

definition ParseUint :: "string \<Rightarrow> nat \<Rightarrow> go_error + nat" where
  "ParseUint s bits =
     (if s = [] then Inl (Wrap (''strconv.ParseUint: parsing '' @ quoted s) ErrSyntax)
      else case parse_uint_from bits 0 s of
          Inl e \<Rightarrow> Inl (Wrap (''strconv.ParseUint: parsing '' @ quoted s) e)
        | Inr n \<Rightarrow> Inr n)"

lemma digits_val_snoc: "digits_val (s @ [c]) = 10 * digits_val s + digit_val c"
  by (simp add: digits_val_def)

lemma foldl_digits_ge: "n \<le> foldl (\<lambda>acc c. 10 * acc + digit_val c) n s"
proof (induction s arbitrary: n)
  case (Cons c s)
  have "n \<le> 10 * n + digit_val c" by simp
  also have "\<dots> \<le> foldl (\<lambda>acc c. 10 * acc + digit_val c) (10 * n + digit_val c) s" by (rule Cons.IH)
  finally show ?case by simp
qed simp

lemma parse_uint_from_ok:
  "\<forall>c \<in> set s. is_digit c \<Longrightarrow> foldl (\<lambda>acc c. 10 * acc + digit_val c) n s < 2 ^ bits
     \<Longrightarrow> parse_uint_from bits n s = Inr (foldl (\<lambda>acc c. 10 * acc + digit_val c) n s)"
proof (induction s arbitrary: n)
  case (Cons c s)
  have "10 * n + digit_val c < 2 ^ bits"
    using foldl_digits_ge [of "10 * n + digit_val c" s] Cons.prems(2) by simp
  with Cons show ?case by simp
qed simp

lemma parse_uint_from_sound:
  "n < 2 ^ bits \<Longrightarrow> parse_uint_from bits n s = Inr m
     \<Longrightarrow> m < 2 ^ bits \<and> (\<forall>c \<in> set s. is_digit c) \<and> m = foldl (\<lambda>acc c. 10 * acc + digit_val c) n s"
proof (induction s arbitrary: n)
  case (Cons c s)
  then have "is_digit c" "10 * n + digit_val c < 2 ^ bits" "parse_uint_from bits (10 * n + digit_val c) s = Inr m"
    by (auto simp: Let_def split: if_splits)
  with Cons.IH [of "10 * n + digit_val c"] show ?case by simp
qed simp

lemma ParseUint_nat_str [roundtrips]: "n < 2 ^ bits \<Longrightarrow> ParseUint (nat_str n) bits = Inr n"
  using parse_uint_from_ok [OF nat_str_digits, where n = 0 and bits = bits, of n] nat_str_val [of n]
  by (simp add: ParseUint_def digits_val_def)

lemma ParseUint_InrD: "ParseUint s bits = Inr n \<Longrightarrow> n < 2 ^ bits \<and> s \<noteq> [] \<and> (\<forall>c \<in> set s. is_digit c) \<and> digits_val s = n"
  using parse_uint_from_sound [of 0 bits s n] by (auto simp: ParseUint_def digits_val_def split: if_splits sum.splits)

text \<open>
  \<open>fmt.Sscanf\<close> with \<open>%d\<close> into an \<open>int64\<close>: leading blanks are skipped, a sign may come first, the longest run of
  digits is converted, and what follows is left unread.
\<close>

definition is_white :: "char \<Rightarrow> bool" where
  "is_white c \<longleftrightarrow> c \<in> set [CHR 0x09, CHR 0x0B, CHR 0x0C, CHR 0x0D, CHR 0x20]"

definition sscanf_d :: "string \<Rightarrow> go_error + int" where
  "sscanf_d s =
     (let t = dropWhile is_white s;
          neg = (t \<noteq> [] \<and> hd t = CHR ''-'');
          u = (if t \<noteq> [] \<and> (hd t = CHR ''-'' \<or> hd t = CHR ''+'') then tl t else t);
          ds = takeWhile is_digit u;
          v = (if neg then - int (digits_val ds) else int (digits_val ds))
      in if t = [] then Inl (Sentinel ''unexpected EOF'')
         else if ds = [] then Inl (Errorf ''expected integer'')
         else if v < - (2 ^ 63) \<or> 2 ^ 63 \<le> v then Inl (Errorf ''integer overflow on token'')
         else Inr v)"

lemma takeWhile_nat_str [simp]: "takeWhile is_digit (nat_str n) = nat_str n"
  using nat_str_digits [of n] by (simp add: takeWhile_eq_all_conv)

lemma byte_less [simp]: "unat (b :: byte) < 256"
  using unsigned_less [of b, where ?'a = nat] by simp

lemma digit_not_blank: "is_digit c \<Longrightarrow> \<not> is_white c \<and> c \<noteq> CHR ''-'' \<and> c \<noteq> CHR ''+''"
  by (auto simp: is_digit_def is_white_def)

lemma nat_str_Cons: obtains c cs where "nat_str n = c # cs" "is_digit c"
  using nat_str_not_Nil [of n] nat_str_digits [of n] by (cases "nat_str n") auto

lemma sscanf_int_str [roundtrips]:
  assumes "- (2 ^ 63) \<le> i" "i < 2 ^ 63"
  shows "sscanf_d (int_str i) = Inr i"
proof (cases "i < 0")
  case True
  then show ?thesis
    using assms
    by (simp add: sscanf_d_def int_str_def is_white_def Let_def)
next
  case False
  obtain c cs where n: "nat_str (nat i) = c # cs" "is_digit c" by (rule nat_str_Cons)
  have "dropWhile is_white (nat_str (nat i)) = nat_str (nat i)" using n digit_not_blank by simp
  moreover have "takeWhile is_digit cs = cs" using takeWhile_nat_str [of "nat i"] n by simp
  ultimately show ?thesis
    using False assms digit_not_blank [OF n(2)] nat_str_val [of "nat i"]
    by (simp add: sscanf_d_def int_str_def Let_def n del: takeWhile_eq_all_conv)
qed

section \<open>Hexadecimal text\<close>

definition hex_char :: "nat \<Rightarrow> char" where
  "hex_char d = (if d < 10 then char_of (48 + d) else char_of (87 + d))"

definition hex_val :: "char \<Rightarrow> nat option" where
  "hex_val c =
     (let n = (of_char c :: nat)
      in if 48 \<le> n \<and> n \<le> 57 then Some (n - 48)
         else if 97 \<le> n \<and> n \<le> 102 then Some (n - 87)
         else if 65 \<le> n \<and> n \<le> 70 then Some (n - 55) else None)"

definition hex_byte :: "byte \<Rightarrow> string" where
  "hex_byte b = [hex_char (unat b div 16), hex_char (unat b mod 16)]"

definition hex_encode :: "bytes \<Rightarrow> string" where
  "hex_encode bs = concat (map hex_byte bs)"

text \<open>\<open>hex.DecodeString\<close>: an odd length or a character outside the alphabet is an error.\<close>

fun hex_decode :: "string \<Rightarrow> bytes option" where
  "hex_decode [] = Some []"
| "hex_decode [c] = None"
| "hex_decode (c # d # cs) =
     (case (hex_val c, hex_val d, hex_decode cs) of
        (Some x, Some y, Some bs) \<Rightarrow> Some (word_of_nat (16 * x + y) # bs)
      | _ \<Rightarrow> None)"

lemma hex_val_char: "d < 16 \<Longrightarrow> hex_val (hex_char d) = Some d"
  by (auto simp: hex_val_def hex_char_def Let_def)

lemma hex_decode_encode [roundtrips]: "hex_decode (hex_encode bs) = Some bs"
proof (induction bs)
  case (Cons b bs)
  have "unat b < 256" by simp
  then have "unat b div 16 < 16" by (simp add: less_mult_imp_div_less)
  with Cons show ?case by (simp add: hex_encode_def hex_byte_def hex_val_char)
qed (simp add: hex_encode_def)

lemma hex_encode_length [simp]: "length (hex_encode bs) = 2 * length bs"
  by (induction bs) (simp_all add: hex_encode_def hex_byte_def)

lemma hex_encode_inject: "hex_encode as = hex_encode bs \<longleftrightarrow> as = bs"
  by (metis hex_decode_encode option.inject)

section \<open>Little-endian integers\<close>

text \<open>\<open>le_bytes n x\<close> is the \<open>n\<close> low bytes of \<open>x\<close>, lowest first, and \<open>le_value\<close> reads them back.\<close>

fun le_bytes :: "nat \<Rightarrow> nat \<Rightarrow> bytes" where
  "le_bytes 0 x = []"
| "le_bytes (Suc n) x = word_of_nat x # le_bytes n (x div 256)"

fun le_value :: "bytes \<Rightarrow> nat" where
  "le_value [] = 0"
| "le_value (b # bs) = unat b + 256 * le_value bs"

lemma le_bytes_length [simp]: "length (le_bytes n x) = n"
  by (induction n x rule: le_bytes.induct) simp_all

lemma le_value_bytes: "le_value (le_bytes n x) = x mod 256 ^ n"
proof (induction n x rule: le_bytes.induct)
  case (2 n x)
  have "x mod 256 ^ Suc n = 256 * (x div 256 mod 256 ^ n) + x mod 256"
    using mod_mult2_eq [of x 256 "256 ^ n"] by simp
  with 2 show ?case by (simp add: unat_of_nat)
qed simp

lemma le_value_bytes_small [roundtrips]: "x < 256 ^ n \<Longrightarrow> le_value (le_bytes n x) = x"
  by (simp add: le_value_bytes)

lemma le_value_less: "le_value bs < 256 ^ length bs"
proof (induction bs)
  case (Cons b bs)
  then show ?case using byte_less [of b] by (simp only: le_value.simps length_Cons power_Suc)
qed simp

text \<open>\<open>string(b)\<close> and \<open>[]byte(s)\<close> keep the bytes.\<close>

definition to_bytes :: "string \<Rightarrow> bytes" where
  "to_bytes s = map (\<lambda>c. word_of_nat (of_char c)) s"

definition from_bytes :: "bytes \<Rightarrow> string" where
  "from_bytes bs = map (\<lambda>b. char_of (unat b)) bs"

lemma from_to_bytes [roundtrips]: "from_bytes (to_bytes s) = s"
  by (simp add: from_bytes_def to_bytes_def o_def unat_of_nat map_idI)

end
