(* ===== verification/Builder.thy ===== *)
theory Builder
  imports Killswitch RuntimeCap StrategyConfig Inference GoText
begin

text \<open>
  \<open>internal/agent/builder.go\<close>: from an agent record and the operator's options to the dependencies of
  its runtime, and the loader that starts every running agent at boot. The constructors of the
  venues (\<open>hyperliquid.New\<close>, \<open>jupiter.New\<close>, \<open>oneinch.New\<close>, \<open>btswap.New\<close>) and the signers are
  parameters. The agent's configuration is stored as JSON text; its decoded form is an argument.
\<close>

section \<open>Risk limits from the configuration\<close>

fun builder_decimalFromAny :: "declib \<Rightarrow> go_any \<Rightarrow> go_error + decimal" where
  "builder_decimalFromAny L (AnyFloat x) = Inr (d_of_float L x)"
| "builder_decimalFromAny L (AnyInt i) = Inr (of_int i)"
| "builder_decimalFromAny L (AnyInt64 i) = Inr (of_int i)"
| "builder_decimalFromAny L (AnyString s) =
     (case d_parse L s of None \<Rightarrow> Inl (Errorf (''can't convert '' @ s @ '' to decimal'')) | Some d \<Rightarrow> Inr d)"
| "builder_decimalFromAny L v = Inl (Errorf (''agent: unrecognised numeric type '' @ type_name v))"

fun builder_intFromAny :: "go_any \<Rightarrow> go_error + int" where
  "builder_intFromAny (AnyFloat x) = Inr (float_to_int x)"
| "builder_intFromAny (AnyInt i) = Inr i"
| "builder_intFromAny (AnyInt64 i) = Inr i"
| "builder_intFromAny v = Inl (Errorf (''agent: unrecognised int type '' @ type_name v))"

definition risk_int :: "string \<Rightarrow> any_config \<Rightarrow> int" where
  "risk_int k m = (case map_of m k of None \<Rightarrow> 0
     | Some v \<Rightarrow> (case builder_intFromAny v of Inl _ \<Rightarrow> 0 | Inr i \<Rightarrow> i))"

definition risk_decimal :: "declib \<Rightarrow> string \<Rightarrow> any_config \<Rightarrow> decimal" where
  "risk_decimal L k m = (case map_of m k of None \<Rightarrow> 0
     | Some v \<Rightarrow> (case builder_decimalFromAny L v of Inl _ \<Rightarrow> 0 | Inr d \<Rightarrow> d))"

definition risk_section :: "any_config \<Rightarrow> any_config" where
  "risk_section cfg = (case map_of cfg ''risk'' of Some (AnyMap m) \<Rightarrow> m | _ \<Rightarrow> [])"

definition BuildRiskEngine :: "declib \<Rightarrow> any_config \<Rightarrow> policy" where
  "BuildRiskEngine L cfg =
     (let m = risk_section cfg
      in NewPolicy (zero_limits\<lparr>max_concurrent_positions := risk_int ''max_concurrent_positions'' m,
                     max_notional_per_leg := risk_decimal L ''max_notional_per_leg'' m,
                     max_total_basis_exposure := risk_decimal L ''max_total_basis_exposure'' m,
                     max_daily_loss := risk_decimal L ''max_daily_loss'' m,
                     max_spot_slippage_bps := risk_int ''max_spot_slippage_bps'' m\<rparr>)
           [MaxDrawdownBreaker (risk_decimal L ''max_drawdown'' m), DailyLossBreaker])"

section \<open>The inference provider of an agent\<close>

text \<open>\<open>strings.Cut\<close> at the first separator.\<close>

definition Cut :: "char \<Rightarrow> string \<Rightarrow> string \<times> string" where
  "Cut c s = (takeWhile (\<lambda>x. x \<noteq> c) s, tl (dropWhile (\<lambda>x. x \<noteq> c) s))"

definition resolveInference :: "string \<Rightarrow> 'p inf_registry option \<Rightarrow> go_error + ('p option \<times> string)" where
  "resolveInference spec0 reg =
     (let spec = TrimSpace spec0
      in if spec = [] then Inr (None, [])
         else
           let (p0, m0) = Cut (CHR '':'') spec; provName = TrimSpace p0; model = TrimSpace m0
           in if provName = [] then Inl (Errorf (''agent.inference '' @ quoted spec @ '' has empty provider name''))
              else case reg of
                  None \<Rightarrow> Inl (Errorf (''agent has inference='' @ quoted spec
                                    @ '' but no inference providers are configured in config.yaml''))
                | Some r \<Rightarrow>
                    (case inf_Get provName r of
                       Inl e \<Rightarrow> Inl (Wrap (''provider '' @ quoted provName @ '' (from agent.inference='' @ quoted spec @ '')'') e)
                     | Inr p \<Rightarrow> Inr (Some p, model)))"

section \<open>Venues from the options\<close>

record solana_spot =
  so_rpc_url :: string
  so_jupiter_base_url :: string
  so_jupiter_api_key :: string
  so_submit_mode :: string
  so_jito_bundle_url :: string
  so_priority_fee :: nat
  so_confirm_timeout_secs :: int

definition solana_IsEnabled :: "solana_spot \<Rightarrow> bool" where
  "solana_IsEnabled s \<longleftrightarrow> so_rpc_url s \<noteq> []"

record evm_spot =
  ev_rpc_url :: string
  ev_oneinch_api_key :: string
  ev_oneinch_base_url :: string
  ev_default_slippage_bps :: int
  ev_confirm_timeout_secs :: int

definition evm_IsEnabled :: "evm_spot \<Rightarrow> bool" where
  "evm_IsEnabled e \<longleftrightarrow> ev_rpc_url e \<noteq> [] \<and> ev_oneinch_api_key e \<noteq> []"

record bittensor_spot =
  bs_rpc_url :: string
  bs_allow_submit :: bool

definition bittensor_IsEnabled :: "bittensor_spot \<Rightarrow> bool" where
  "bittensor_IsEnabled b \<longleftrightarrow> bs_rpc_url b \<noteq> []"

record build_options =
  bo_hl_network :: string
  bo_hl_address :: string
  bo_solana :: solana_spot
  bo_evm :: "(chain_id \<times> evm_spot) list"
  bo_bittensor :: bittensor_spot

text \<open>
  A keystore gives the signer of a chain. The record \<open>constructors\<close> holds the venue constructors; the configurations
  they get are the fields the builder fills in. \<open>vc_evm_signer\<close> is \<open>NewEVMSigner\<close> on the Hyperliquid signer.
\<close>

type_synonym 's keystore = "chain_id \<Rightarrow> go_error + 's"

record jupiter_config =
  jc_rpc_url :: string
  jc_api_key :: string
  jc_base_url :: string
  jc_mode :: string
  jc_jito_url :: string
  jc_priority_fee :: nat
  jc_poll_timeout :: duration

record oneinch_config =
  oi1_api_key :: string
  oi1_base_url :: string
  oi1_rpc_url :: string
  oi1_chain :: chain_id
  oi1_default_slippage :: int
  oi1_poll_timeout :: duration

record ('w, 's) venue_constructors =
  vc_hyperliquid :: "string \<Rightarrow> string \<Rightarrow> 's option \<Rightarrow> go_error + 'w perp_venue"
  vc_jupiter :: "jupiter_config \<Rightarrow> 's \<Rightarrow> go_error + 'w swap_venue"
  vc_oneinch :: "oneinch_config \<Rightarrow> 's \<Rightarrow> go_error + 'w swap_venue"
  vc_bittensor :: "string \<Rightarrow> bool \<Rightarrow> 's \<Rightarrow> go_error + 'w swap_venue"
  vc_evm_signer :: "'s \<Rightarrow> chain_id \<Rightarrow> go_error + 's"
  vc_address :: "'s \<Rightarrow> string"

definition ErrNoSolanaSigner :: go_error where
  "ErrNoSolanaSigner = Sentinel ''agent: no Solana signer in keystore''"

definition ErrNoBittensorSigner :: go_error where
  "ErrNoBittensorSigner = Sentinel ''agent: no Bittensor signer in keystore''"

definition ErrNoEVMSigner :: go_error where
  "ErrNoEVMSigner = Sentinel ''wallet: no EVM signer in keystore (configure a Hyperliquid key)''"

definition BuildSolanaSwapVenue ::
  "('w, 's) venue_constructors \<Rightarrow> solana_spot \<Rightarrow> 's keystore option \<Rightarrow> go_error + 'w swap_venue" where
  "BuildSolanaSwapVenue V cfg ks =
     (if \<not> solana_IsEnabled cfg then Inl (Errorf ''agent: SolanaSpot is not configured'')
      else case ks of
          None \<Rightarrow> Inl ErrNoSolanaSigner
        | Some k \<Rightarrow>
            (case k ChainSolana of
               Inl _ \<Rightarrow> Inl ErrNoSolanaSigner
             | Inr s \<Rightarrow>
                 vc_jupiter V \<lparr>jc_rpc_url = so_rpc_url cfg, jc_api_key = so_jupiter_api_key cfg,
                   jc_base_url = so_jupiter_base_url cfg,
                   jc_mode = (if so_submit_mode cfg = [] then ''jito'' else so_submit_mode cfg),
                   jc_jito_url = so_jito_bundle_url cfg, jc_priority_fee = so_priority_fee cfg,
                   jc_poll_timeout = wrap64 (so_confirm_timeout_secs cfg * nano_second)\<rparr> s))"

definition EVMSignerFromKeystore ::
  "('w, 's) venue_constructors \<Rightarrow> 's keystore option \<Rightarrow> chain_id \<Rightarrow> go_error + 's" where
  "EVMSignerFromKeystore V ks chain =
     (case ks of
        None \<Rightarrow> Inl ErrNoEVMSigner
      | Some k \<Rightarrow> (case k ChainHyperliquid of Inl _ \<Rightarrow> Inl ErrNoEVMSigner | Inr s \<Rightarrow> vc_evm_signer V s chain))"

definition BuildEVMSwapVenue ::
  "('w, 's) venue_constructors \<Rightarrow> chain_id \<Rightarrow> evm_spot \<Rightarrow> 's keystore option \<Rightarrow> go_error + 'w swap_venue" where
  "BuildEVMSwapVenue V chain cfg ks =
     (if \<not> evm_IsEnabled cfg then Inl (Errorf (''agent: EVMSpot for '' @ chain_str chain @ '' is not configured''))
      else case EVMSignerFromKeystore V ks chain of
          Inl e \<Rightarrow> Inl e
        | Inr s \<Rightarrow> vc_oneinch V \<lparr>oi1_api_key = ev_oneinch_api_key cfg, oi1_base_url = ev_oneinch_base_url cfg,
              oi1_rpc_url = ev_rpc_url cfg, oi1_chain = chain, oi1_default_slippage = ev_default_slippage_bps cfg,
              oi1_poll_timeout = wrap64 (ev_confirm_timeout_secs cfg * nano_second)\<rparr> s)"

definition BuildBittensorSwapVenue ::
  "('w, 's) venue_constructors \<Rightarrow> bittensor_spot \<Rightarrow> 's keystore option \<Rightarrow> go_error + 'w swap_venue" where
  "BuildBittensorSwapVenue V cfg ks =
     (if \<not> bittensor_IsEnabled cfg then Inl (Errorf ''agent: BittensorSpot is not configured'')
      else case ks of
          None \<Rightarrow> Inl ErrNoBittensorSigner
        | Some k \<Rightarrow>
            (case k ChainBittensor of
               Inl _ \<Rightarrow> Inl ErrNoBittensorSigner
             | Inr s \<Rightarrow> vc_bittensor V (bs_rpc_url cfg) (bs_allow_submit cfg) s))"

definition BuildHyperliquidVenue ::
  "('w, 's) venue_constructors \<Rightarrow> 's keystore option \<Rightarrow> string \<Rightarrow> string \<Rightarrow> go_error + 'w perp_venue" where
  "BuildHyperliquidVenue V ks network0 address0 =
     (let signer = (case ks of None \<Rightarrow> None
            | Some k \<Rightarrow> (case k ChainHyperliquid of Inl _ \<Rightarrow> None | Inr s \<Rightarrow> Some s));
          addr = (case signer of None \<Rightarrow> address0 | Some s \<Rightarrow> if address0 = [] then vc_address V s else address0);
          network = (if network0 = [] then network_str NetworkMainnet else network0)
      in vc_hyperliquid V network addr signer)"

section \<open>The dependencies\<close>

text \<open>
  A chain with a venue, a chain without a signer (skipped with a warning), or a failure of the whole
  construction.
\<close>

definition wire ::
  "chain_id \<Rightarrow> go_error \<Rightarrow> string \<Rightarrow> go_error + 'w swap_venue \<Rightarrow> (chain_id \<times> 'w swap_venue) list
     \<Rightarrow> go_error + (chain_id \<times> 'w swap_venue) list" where
  "wire chain no_signer what r swaps =
     (case r of
        Inr v \<Rightarrow> Inr (AList.update chain v swaps)
      | Inl e \<Rightarrow> if (case no_signer of Sentinel n \<Rightarrow> errors_is e n | _ \<Rightarrow> False) then Inr swaps else Inl (Wrap what e))"

fun wire_evm ::
  "('w, 's) venue_constructors \<Rightarrow> 's keystore option \<Rightarrow> (chain_id \<times> evm_spot) list \<Rightarrow> (chain_id \<times> 'w swap_venue) list
     \<Rightarrow> go_error + (chain_id \<times> 'w swap_venue) list" where
  "wire_evm V ks [] swaps = Inr swaps"
| "wire_evm V ks ((c, e) # es) swaps =
     (if \<not> evm_IsEnabled e then wire_evm V ks es swaps
      else and_then (wire c ErrNoEVMSigner (''evm swap venue '' @ chain_str c) (BuildEVMSwapVenue V c e ks) swaps)
             (\<lambda>swaps'. wire_evm V ks es swaps'))"

definition wire_swaps ::
  "('w, 's) venue_constructors \<Rightarrow> 's keystore option \<Rightarrow> build_options \<Rightarrow> go_error + (chain_id \<times> 'w swap_venue) list" where
  "wire_swaps V ks opts =
     and_then (if solana_IsEnabled (bo_solana opts)
               then wire ChainSolana ErrNoSolanaSigner ''solana swap venue'' (BuildSolanaSwapVenue V (bo_solana opts) ks) []
               else Inr []) (\<lambda>s1.
     and_then (if bittensor_IsEnabled (bo_bittensor opts)
               then wire ChainBittensor ErrNoBittensorSigner ''bittensor swap venue''
                      (BuildBittensorSwapVenue V (bo_bittensor opts) ks) s1
               else Inr s1) (\<lambda>s2.
     wire_evm V ks (bo_evm opts) s2))"

text \<open>A constructed strategy: its warm-up and its decision function over the world.\<close>

record 'w built_strategy =
  bt_warmup :: "warmup_input \<Rightarrow> 'w \<Rightarrow> go_error option \<times> 'w"
  bt_decide :: "decision_input \<Rightarrow> 'w \<Rightarrow> (go_error + decision) \<times> 'w"

type_synonym 'w strategy_constructor = "any_config \<Rightarrow> go_error + 'w built_strategy"

definition BuildStrategy :: "'w strategy_constructor constructors \<Rightarrow> agent \<Rightarrow> any_config \<Rightarrow> go_error + 'w built_strategy" where
  "BuildStrategy cs a cfg = and_then (strategy_Get (ag_strategy a) cs) (\<lambda>ctor. ctor cfg)"

text \<open>\<open>base\<close> carries the process-wide parts of the dependencies: clock, store, libraries.\<close>

definition BuildDeps ::
  "('w, 's) venue_constructors \<Rightarrow> 'w strategy_constructor constructors \<Rightarrow> 'w deps \<Rightarrow> agent \<Rightarrow> any_config
     \<Rightarrow> 's keystore option \<Rightarrow> 'p inf_registry option \<Rightarrow> build_options
     \<Rightarrow> go_error + ('w deps \<times> 'p option \<times> string)" where
  "BuildDeps V cs base a cfg ks reg opts =
     and_then (wrap_result ''strategy'' (BuildStrategy cs a cfg)) (\<lambda>strat.
     and_then (wrap_result ''inference'' (resolveInference (ag_inference a) reg)) (\<lambda>(prov, model).
     and_then (wrap_result ''hyperliquid venue''
                (BuildHyperliquidVenue V ks
                  (if bo_hl_network opts = [] then network_str (OrDefault (ag_network a) NetworkMainnet)
                   else bo_hl_network opts)
                  (bo_hl_address opts))) (\<lambda>venue.
     and_then (wire_swaps V ks opts) (\<lambda>swaps.
       Inr (base\<lparr>dp_agent := a, dp_warmup := bt_warmup strat, dp_decide := bt_decide strat, dp_perp := Some venue,
                 dp_swaps := swaps, dp_risk := Some (policy_engine (dp_lib base) (BuildRiskEngine (dp_lib base) cfg)),
                 dp_store := True\<rparr>, prov, model)))))"

section \<open>The loader\<close>

text \<open>
  What the loader changes: the supervisor, the database and the world. \<open>decode\<close> reads the stored configuration;
  \<open>ctx\<close> is the state of the daemon's context. A fresh runtime is registered and started at
  once, so its warm-up result is that of the start.
\<close>

record 'w load_state =
  ls_sup :: "'w supervisor"
  ls_db :: agent_db
  ls_world :: 'w

record ('w, 's, 'p) loader =
  lo_ctors :: "('w, 's) venue_constructors"
  lo_strategies :: "'w strategy_constructor constructors"
  lo_base :: "'w deps"
  lo_keystore :: "'s keystore option"
  lo_inference :: "'p inf_registry option"
  lo_opts :: build_options
  lo_decode :: "string \<Rightarrow> any_config"
  lo_has_store :: bool
  lo_has_supervisor :: bool

definition loader_build :: "('w, 's, 'p) loader \<Rightarrow> agent \<Rightarrow> go_error + ('w deps \<times> 'p option \<times> string)" where
  "loader_build l a =
     BuildDeps (lo_ctors l) (lo_strategies l) (lo_base l) a (lo_decode l (ag_config a)) (lo_keystore l)
       (lo_inference l) (lo_opts l)"

definition load_one ::
  "('w, 's, 'p) loader \<Rightarrow> loop_ctx \<Rightarrow> agent \<Rightarrow> 'w load_state \<Rightarrow> bool \<times> 'w load_state" where
  "load_one l ctx a st =
     (let ((fail, _), w1) = dp_query (lo_base l) (ls_world st)
      in case store_Get fail (ag_id a) (ls_db st) of
           Inl _ \<Rightarrow> (False, st\<lparr>ls_world := w1\<rparr>)
         | Inr full \<Rightarrow>
             (case loader_build l full of
                Inl _ \<Rightarrow> (False, st\<lparr>ls_world := w1\<rparr>)
              | Inr (d, _, _) \<Rightarrow>
                  let (warm, rt) = Warmup d (NewRuntime d (ls_db st) w1);
                      r = \<lparr>ru_deps = d, ru_life = new_life, ru_open = rs_open rt, ru_warmup = rs_warmup rt\<rparr>;
                      (err, sv) = supervisor_Start (ag_id full) warm ctx (fst (Register (ag_id full) r (ls_sup st)))
                  in if err \<noteq> None then (False, \<lparr>ls_sup = sv, ls_db = rs_db rt, ls_world = rs_world rt\<rparr>)
                     else
                       let ((fail2, dbnow), w2) = dp_query (lo_base l) (rs_world rt)
                       in (True, \<lparr>ls_sup = sv, ls_db = snd (SetStatus fail2 dbnow (ag_id full) StatusRunning (rs_db rt)),
                                  ls_world = w2\<rparr>)))"

fun load_each ::
  "('w, 's, 'p) loader \<Rightarrow> loop_ctx \<Rightarrow> agent list \<Rightarrow> nat \<Rightarrow> 'w load_state \<Rightarrow> nat \<times> 'w load_state" where
  "load_each l ctx [] n st = (n, st)"
| "load_each l ctx (a # as) n st =
     (if ag_status a \<noteq> StatusRunning then load_each l ctx as n st
      else let (ok, st1) = load_one l ctx a st in load_each l ctx as (if ok then Suc n else n) st1)"

definition LoadAndStartRunning ::
  "('w, 's, 'p) loader \<Rightarrow> loop_ctx \<Rightarrow> 'w load_state \<Rightarrow> (go_error + nat) \<times> 'w load_state" where
  "LoadAndStartRunning l ctx st =
     (if \<not> lo_has_store l then (Inl (Errorf ''agent: loader Store is required''), st)
      else if \<not> lo_has_supervisor l then (Inl (Errorf ''agent: loader Supervisor is required''), st)
      else
        let ((fail, _), w1) = dp_query (lo_base l) (ls_world st)
        in case store_List fail (ls_db st) of
             Inl e \<Rightarrow> (Inl e, st\<lparr>ls_world := w1\<rparr>)
           | Inr as \<Rightarrow> (let (n, st') = load_each l ctx as 0 (st\<lparr>ls_world := w1\<rparr>) in (Inr n, st')))"

section \<open>Properties\<close>

text \<open>
  The limits of an agent are exactly what its configuration says, and nothing by default. With a \<open>risk\<close>
  section whose position cap is a number, that cap is the engine's; but without a section, or with a cap of another type
  (a string, even of digits), there is no cap at all: the engine allows every
  opening whatever the portfolio. The other limits fail open in the same way.
\<close>

theorem risk_limits_fail_open:
  "max_concurrent_positions (pl_limits (BuildRiskEngine L cfg))
     = (case map_of (risk_section cfg) ''max_concurrent_positions'' of
          Some (AnyInt i) \<Rightarrow> i | Some (AnyInt64 i) \<Rightarrow> i | Some (AnyFloat x) \<Rightarrow> float_to_int x | _ \<Rightarrow> 0)
   \<and> v_kind (PreTrade L (BuildRiskEngine L [(''risk'', AnyMap [(''max_concurrent_positions'', AnyString ''1''),
                                                        (''max_notional_per_leg'', AnyBool True),
                                                        (''max_spot_slippage_bps'', AnyString ''10'')])]) (IntentSwap sw) snap) = VerdictAllow
   \<and> v_kind (PreTrade L (BuildRiskEngine L []) i snap) = VerdictAllow"
proof -
  have "v_kind (PreTrade L (BuildRiskEngine L []) i snap) = VerdictAllow"
    by (cases i) (simp_all add: checkOrder_def checkSwap_def BuildRiskEngine_def NewPolicy_def risk_section_def
        risk_int_def risk_decimal_def zero_limits_def at_position_cap_def risk_allow_def Let_def)
  then show ?thesis
    by (auto simp: BuildRiskEngine_def NewPolicy_def risk_int_def risk_decimal_def risk_section_def checkSwap_def
        at_position_cap_def risk_allow_def zero_limits_def Let_def split: option.splits go_any.splits)
qed

text \<open>Which agents can be loaded, and what a started runtime looks like.\<close>

definition loadable :: "('w, 's, 'p) loader \<Rightarrow> agent \<Rightarrow> bool" where
  "loadable l a \<longleftrightarrow> (case ParseMode (mode_str (ag_mode a)) of Inl _ \<Rightarrow> False
     | Inr m \<Rightarrow> (case loader_build l (a\<lparr>ag_mode := m\<rparr>) of Inl _ \<Rightarrow> False | Inr _ \<Rightarrow> True))"

definition started :: "string \<Rightarrow> 'w runtime option \<Rightarrow> bool" where
  "started i r \<longleftrightarrow> (case r of None \<Rightarrow> False
     | Some x \<Rightarrow> ag_id (dp_agent (ru_deps x)) = i \<and> rl_running (ru_life x) \<and> rl_loops (ru_life x) = [LoopActive])"

definition row_of :: "agent_db \<Rightarrow> string \<Rightarrow> agent option" where
  "row_of db i = find (\<lambda>a. ag_id a = i) (ad_agents db)"

lemma row_of_SetStatus: "j \<noteq> i \<Longrightarrow> row_of (snd (SetStatus fail t j s db)) i = row_of db i"
proof -
  assume ji: "j \<noteq> i"
  have "find (\<lambda>a. ag_id a = i) (map (\<lambda>a. if ag_id a = j then a\<lparr>ag_status := s, ag_updated_at := t\<rparr> else a) as)
      = find (\<lambda>a. ag_id a = i) as" for as :: "agent list"
    using ji by (induction as) auto
  then show ?thesis by (simp add: row_of_def SetStatus_def update_agent_def split: option.splits)
qed

lemma store_Get_row:
  "store_Get None i db = (case row_of db i of None \<Rightarrow> Inl (Wrap ''agent: get'' ErrNoRows)
     | Some a \<Rightarrow> (case ParseMode (mode_str (ag_mode a)) of Inl e \<Rightarrow> Inl (Wrap (''agent: get '' @ i) e) | Inr m \<Rightarrow> Inr (a\<lparr>ag_mode := m\<rparr>)))"
  by (simp add: store_Get_def row_of_def)

lemma row_of_id: "row_of db i = Some a \<Longrightarrow> ag_id a = i"
  by (auto simp: row_of_def find_Some_iff)

lemma NewRuntime_db: "rs_db (NewRuntime d db w) = db" "rs_warmup (NewRuntime d db w) = None"
  by (auto simp: NewRuntime_def Let_def on_world_def split: prod.splits sum.splits)

lemma Warmup_db: "rs_db (snd (Warmup d st)) = rs_db st"
  by (auto simp: Warmup_def Let_def on_world_def split: option.splits prod.splits)

lemma BuildDeps_parts:
  assumes "BuildDeps V cs base a cfg ks reg opts = Inr (d, p, m)"
  shows "dp_agent d = a" "\<exists>strat. BuildStrategy cs a cfg = Inr strat \<and> dp_warmup d = bt_warmup strat" "dp_now d = dp_now base"
  using assms by (auto simp: BuildDeps_def wrap_result_def elim!: and_then_InrE split: sum.splits)

lemma supervisor_Start_fresh:
  assumes "ru_life r = new_life"
  shows "supervisor_Start i None LoopActive (fst (Register i r sv))
    = (None, AList.update i (r\<lparr>ru_life := \<lparr>rl_running = True, rl_loops = [LoopActive]\<rparr>\<rparr>) (AList.update i r sv))"
  using assms by (simp add: supervisor_Start_def supervisor_Get_def Register_def update_conv' life_Start_def new_life_def)

definition warmups_succeed :: "('w, 's, 'p) loader \<Rightarrow> bool" where
  "warmups_succeed l \<longleftrightarrow> (\<forall>a strat wi w. BuildStrategy (lo_strategies l) a (lo_decode l (ag_config a)) = Inr strat
     \<longrightarrow> fst (bt_warmup strat wi w) = None)"

lemma load_one_effect:
  assumes answers: "\<And>w. fst (fst (dp_query (lo_base l) w)) = None" and warm: "warmups_succeed l"
    and row: "row_of (ls_db st) (ag_id a) = Some b"
    and run: "load_one l LoopActive a st = (ok, st')"
  shows "ok = loadable l b"
    and "i \<noteq> ag_id a \<Longrightarrow> map_of (ls_sup st') i = map_of (ls_sup st) i \<and> row_of (ls_db st') i = row_of (ls_db st) i"
    and "if loadable l b then started (ag_id a) (map_of (ls_sup st') (ag_id a))
         else map_of (ls_sup st') (ag_id a) = map_of (ls_sup st) (ag_id a)"
proof -
  have bid: "ag_id b = ag_id a" using row by (rule row_of_id)
  obtain t1 w1 where q1: "dp_query (lo_base l) (ls_world st) = ((None, t1), w1)"
    using answers [of "ls_world st"] by (metis prod.collapse)
  have "ok = loadable l b \<and> (i \<noteq> ag_id a \<longrightarrow> map_of (ls_sup st') i = map_of (ls_sup st) i \<and> row_of (ls_db st') i = row_of (ls_db st) i)
    \<and> (if loadable l b then started (ag_id a) (map_of (ls_sup st') (ag_id a))
         else map_of (ls_sup st') (ag_id a) = map_of (ls_sup st) (ag_id a))"
  proof (cases "loadable l b")
    case False
    then have "ok = False \<and> st' = st\<lparr>ls_world := w1\<rparr>"
      using run row q1 by (auto simp: load_one_def store_Get_row loadable_def split: sum.splits)
    with False show ?thesis by simp
  next
    case True
    then obtain m d p md where m: "ParseMode (mode_str (ag_mode b)) = Inr m" and d: "loader_build l (b\<lparr>ag_mode := m\<rparr>) = Inr (d, p, md)"
      by (auto simp: loadable_def split: sum.splits)
    have agent: "dp_agent d = b\<lparr>ag_mode := m\<rparr>" using BuildDeps_parts(1) d unfolding loader_build_def by blast
    have wok: "fst (dp_warmup d wi w) = None" for wi w
      using BuildDeps_parts(2) [OF d [unfolded loader_build_def]] warm unfolding warmups_succeed_def by fastforce
    obtain wr rt where wu: "Warmup d (NewRuntime d (ls_db st) w1) = (wr, rt)" by fastforce
    have "wr = None" using wu wok by (auto simp: Warmup_def NewRuntime_db Let_def on_world_def split: prod.splits) (metis fst_conv)
    have db: "rs_db rt = ls_db st" using Warmup_db [of d "NewRuntime d (ls_db st) w1"] wu by (simp add: NewRuntime_db)
    obtain t2 w2 where q2: "dp_query (lo_base l) (rs_world rt) = ((None, t2), w2)"
      using answers [of "rs_world rt"] by (metis prod.collapse)
    let ?r = "\<lparr>ru_deps = d, ru_life = new_life, ru_open = rs_open rt, ru_warmup = rs_warmup rt\<rparr>"
    let ?sv = "AList.update (ag_id a) (?r\<lparr>ru_life := \<lparr>rl_running = True, rl_loops = [LoopActive]\<rparr>\<rparr>) (AList.update (ag_id a) ?r (ls_sup st))"
    have "supervisor_Start (ag_id a) None LoopActive (fst (Register (ag_id a) ?r (ls_sup st))) = (None, ?sv)"
      by (rule supervisor_Start_fresh) simp
    then have "ok = True \<and> st' = \<lparr>ls_sup = ?sv, ls_db = snd (SetStatus None t2 (ag_id a) StatusRunning (ls_db st)), ls_world = w2\<rparr>"
      using run row q1 m d wu \<open>wr = None\<close> q2 db bid by (simp add: load_one_def store_Get_row Let_def)
    with True agent bid show ?thesis by (auto simp: update_conv' started_def row_of_SetStatus)
  qed
  then show "ok = loadable l b"
    "i \<noteq> ag_id a \<Longrightarrow> map_of (ls_sup st') i = map_of (ls_sup st) i \<and> row_of (ls_db st') i = row_of (ls_db st) i"
    "if loadable l b then started (ag_id a) (map_of (ls_sup st') (ag_id a))
         else map_of (ls_sup st') (ag_id a) = map_of (ls_sup st) (ag_id a)"
    by blast+
qed

lemma load_each_effect:
  assumes answers: "\<And>w. fst (fst (dp_query (lo_base l) w)) = None" and warm: "warmups_succeed l"
  shows "distinct (map ag_id as) \<Longrightarrow> list_all (\<lambda>a. row_of (ls_db st) (ag_id a) = Some (full a)) as
    \<Longrightarrow> load_each l LoopActive as n st = (k, st')
    \<Longrightarrow> k = n + length (filter (\<lambda>a. ag_status a = StatusRunning \<and> loadable l (full a)) as)
      \<and> (if i \<in> ag_id ` set (filter (\<lambda>a. ag_status a = StatusRunning \<and> loadable l (full a)) as)
         then started i (map_of (ls_sup st') i) else map_of (ls_sup st') i = map_of (ls_sup st) i)"
proof (induction as arbitrary: n st)
  case (Cons a as)
  show ?case
  proof (cases "ag_status a = StatusRunning")
    case False
    then show ?thesis using Cons.IH [of st n] Cons.prems by auto
  next
    case True
    obtain ok st1 where one: "load_one l LoopActive a st = (ok, st1)" by fastforce
    have row: "row_of (ls_db st) (ag_id a) = Some (full a)" using Cons.prems(2) by simp
    note eff = load_one_effect [OF answers warm row one]
    have rows: "list_all (\<lambda>b. row_of (ls_db st1) (ag_id b) = Some (full b)) as"
    proof (unfold list_all_iff, rule ballI)
      fix b assume b: "b \<in> set as"
      then have "ag_id b \<noteq> ag_id a" using Cons.prems(1) by (metis distinct.simps(2) image_eqI list.set_map list.simps(9))
      then show "row_of (ls_db st1) (ag_id b) = Some (full b)"
        using eff(2) Cons.prems(2) b by (simp add: list_all_iff)
    qed
    have rest: "load_each l LoopActive as (if ok then Suc n else n) st1 = (k, st')"
      using Cons.prems(3) True one by simp
    note ih = Cons.IH [OF _ rows rest]
    have "distinct (map ag_id as)" "ag_id a \<notin> ag_id ` set as" using Cons.prems(1) by auto
    note ih = ih [OF this(1)]
    show ?thesis
    proof (cases "i = ag_id a")
      case True
      then have "i \<notin> ag_id ` set (filter (\<lambda>a. ag_status a = StatusRunning \<and> loadable l (full a)) as)"
        using \<open>ag_id a \<notin> ag_id ` set as\<close> by auto
      with ih have "map_of (ls_sup st') i = map_of (ls_sup st1) i" by presburger
      with True eff(1,3) ih \<open>ag_status a = StatusRunning\<close> show ?thesis by auto
    next
      case False
      with ih eff(1) eff(2) [OF False] \<open>ag_status a = StatusRunning\<close> show ?thesis by auto
    qed
  qed
qed simp

lemma find_by_key: "distinct (map f xs) \<Longrightarrow> a \<in> set xs \<Longrightarrow> find (\<lambda>x. f x = f a) xs = Some a"
  by (induction xs) auto

lemma row_of_member:
  "distinct (map ag_id (ad_agents db)) \<Longrightarrow> a \<in> set (ad_agents db) \<Longrightarrow> row_of db (ag_id a) = Some a"
  unfolding row_of_def by (rule find_by_key)

text \<open>What the list shows of a row, and the row behind it.\<close>

definition listed :: "agent \<Rightarrow> agent" where
  "listed a = a\<lparr>ag_inference := [], ag_universe := [], ag_config := []\<rparr>"

lemma listed_fields [simp]: "ag_id (listed a) = ag_id a" "ag_status (listed a) = ag_status a"
  by (simp_all add: listed_def)

lemma listed_runnable:
  assumes "distinct (map ag_id (ad_agents db))"
  shows "filter (\<lambda>a. ag_status a = StatusRunning \<and> loadable l (the (row_of db (ag_id a)))) (map listed (sort_key k (ad_agents db)))
    = map listed (sort_key k (filter (\<lambda>a. ag_status a = StatusRunning \<and> loadable l a) (ad_agents db)))"
proof -
  have "filter (\<lambda>a. ag_status a = StatusRunning \<and> loadable l (the (row_of db (ag_id a)))) (sort_key k (ad_agents db))
      = filter (\<lambda>a. ag_status a = StatusRunning \<and> loadable l a) (sort_key k (ad_agents db))"
    by (rule filter_cong) (simp_all add: row_of_member [OF assms])
  then show ?thesis by (simp add: filter_map o_def filter_sort)
qed


text \<open>Two running agents; the strategy of the second is not registered.\<close>

definition broken_agent :: agent where
  "broken_agent = sample_agent\<lparr>ag_id := ''a2'', ag_strategy := ''gone'', ag_mode := ModePaper, ag_status := StatusRunning\<rparr>"

definition good_agent :: agent where
  "good_agent = sample_agent\<lparr>ag_mode := ModePaper, ag_status := StatusRunning\<rparr>"

definition noop_constructors :: "(noop_world, unit) venue_constructors" where
  "noop_constructors = \<lparr>vc_hyperliquid = (\<lambda>_ _ _. Inr noop_venue), vc_jupiter = (\<lambda>_ _. Inr noop_swap_venue),
     vc_oneinch = (\<lambda>_ _. Inr noop_swap_venue), vc_bittensor = (\<lambda>_ _ _. Inr noop_swap_venue),
     vc_evm_signer = (\<lambda>_ _. Inr ()), vc_address = (\<lambda>_. ''addr'')\<rparr>"

definition no_options :: build_options where
  "no_options = \<lparr>bo_hl_network = [], bo_hl_address = [], bo_solana = \<lparr>so_rpc_url = [], so_jupiter_base_url = [],
     so_jupiter_api_key = [], so_submit_mode = [], so_jito_bundle_url = [], so_priority_fee = 0, so_confirm_timeout_secs = 0\<rparr>,
     bo_evm = [], bo_bittensor = \<lparr>bs_rpc_url = [], bs_allow_submit = False\<rparr>\<rparr>"

definition sample_loader :: "(noop_world, unit, unit) loader" where
  "sample_loader = \<lparr>lo_ctors = noop_constructors,
     lo_strategies = [(''noop'', \<lambda>_. Inr \<lparr>bt_warmup = (\<lambda>_ w. (None, w)), bt_decide = (\<lambda>_ w. (Inr zero_decision, w))\<rparr>)],
     lo_base = sample_deps None zero_decision, lo_keystore = None, lo_inference = None, lo_opts = no_options,
     lo_decode = (\<lambda>_. []), lo_has_store = True, lo_has_supervisor = True\<rparr>"

definition boot_state :: "noop_world load_state" where
  "boot_state = \<lparr>ls_sup = [], ls_db = empty_db\<lparr>ad_agents := [broken_agent, good_agent]\<rparr>, ls_world = sample_world\<rparr>"

lemma sample_loadable: "loadable sample_loader good_agent" "\<not> loadable sample_loader broken_agent"
  by (simp_all add: loadable_def loader_build_def BuildDeps_def BuildStrategy_def strategy_Get_def wrap_result_def
      resolveInference_def TrimSpace_def wire_swaps_def solana_IsEnabled_def bittensor_IsEnabled_def BuildHyperliquidVenue_def
      sample_loader_def good_agent_def broken_agent_def sample_agent_def zero_agent_def no_options_def noop_constructors_def
      ParseMode_def Let_def)


end
