(* ===== verification/Hyperliquid.thy ===== *)
theory Hyperliquid
  imports Killswitch StrategyDca GoText
begin

text \<open>
  \<open>internal/exchange/hyperliquid\<close>: the perp venue. The REST transport, JSON, SHA-256 and the signing
  SDK (\<open>sonirico/go-hyperliquid\<close>) are parameters, the record \<open>hl_env\<close>; a JSON response is the decoded
  structure of \<open>api.go\<close>. The mutable fields of \<open>Venue\<close> and \<open>sdkClient\<close> are the record
  \<open>hl_state\<close>, which every operation passes along with the world. An operation that can index a slice out of range returns
  an option, \<open>None\<close> for the panic. The mutexes are left out: one operation at a time.
\<close>

section \<open>Configuration (config.go)\<close>

definition VenueName :: string where
  "VenueName = ''hyperliquid''"

record endpoints =
  ep_rest :: string
  ep_ws :: string

definition EndpointsFor :: "string \<Rightarrow> go_error + endpoints" where
  "EndpointsFor n =
     (if n = ''mainnet'' then Inr \<lparr>ep_rest = ''https://api.hyperliquid.xyz'', ep_ws = ''wss://api.hyperliquid.xyz/ws''\<rparr>
      else if n = ''testnet'' \<or> n = []
        then Inr \<lparr>ep_rest = ''https://api.hyperliquid-testnet.xyz'', ep_ws = ''wss://api.hyperliquid-testnet.xyz/ws''\<rparr>
      else Inl (Errorf (''unknown hyperliquid network '' @ quoted n)))"

record hl_config =
  hc_network :: string
  hc_address :: string
  hc_rest_override :: string
  hc_ws_override :: string

definition hl_endpoints :: "hl_config \<Rightarrow> go_error + endpoints" where
  "hl_endpoints c =
     and_then (EndpointsFor (hc_network c)) (\<lambda>ep.
       let ep1 = (if hc_rest_override c \<noteq> [] then ep\<lparr>ep_rest := TrimRight (hc_rest_override c) (CHR ''/'')\<rparr> else ep)
       in Inr (if hc_ws_override c \<noteq> [] then ep1\<lparr>ep_ws := hc_ws_override c\<rparr> else ep1))"

definition hl_validate :: "hl_config \<Rightarrow> go_error option" where
  "hl_validate c =
     (if hc_address c = [] then None
      else if \<not> has_prefix (hc_address c) ''0x'' \<or> length (hc_address c) \<noteq> 42
        then Some (Errorf (''hyperliquid: Address '' @ quoted (hc_address c) @ '' must be 0x-prefixed 42-char hex''))
      else None)"

definition ErrAddressRequired :: go_error where
  "ErrAddressRequired = Sentinel ''hyperliquid: Address is required for this operation''"

definition ErrSignerRequired :: go_error where
  "ErrSignerRequired = Sentinel ''hyperliquid: signer required for write operations; configure with WithSigner''"

section \<open>Wire formats (api.go)\<close>

record info_request =
  ir_type :: string
  ir_user :: string
  ir_coin :: string
  ir_start_time :: int
  ir_end_time :: int

definition info_of :: "string \<Rightarrow> string \<Rightarrow> info_request" where
  "info_of ty user = \<lparr>ir_type = ty, ir_user = user, ir_coin = [], ir_start_time = 0, ir_end_time = 0\<rparr>"

record wire_position =
  wp_coin :: string
  wp_szi :: string
  wp_entry_px :: string
  wp_liquidation_px :: string
  wp_margin_used :: string
  wp_unrealized_pnl :: string
  wp_leverage_value :: int

record clearinghouse_state =
  cs_positions :: "wire_position list"
  cs_cross_margin_used :: string
  cs_withdrawable :: string
  cs_time :: int

record universe_item =
  un_name :: string
  un_sz_decimals :: int

record asset_ctx =
  ac_funding :: string
  ac_mark_px :: string

record meta_ctxs =
  me_universe :: "universe_item list"
  me_ctxs :: "asset_ctx list"

record wire_level =
  wl_px :: string
  wl_sz :: string

record l2_book =
  l2_coin :: string
  l2_time :: int
  l2_bids :: "wire_level list"
  l2_asks :: "wire_level list"

record wire_open_order =
  wo_coin :: string
  wo_oid :: int
  wo_side :: string

record wire_trade =
  wt_coin :: string
  wt_side :: string
  wt_px :: string
  wt_sz :: string
  wt_time :: int

section \<open>The environment\<close>

text \<open>
  The SDK's request and status. \<open>he_key\<close> is the outcome of converting the signer's key; the order and
  cancel calls name the network whose API URL the SDK was given.
\<close>

datatype sdk_tif = TifGtc | TifIoc | TifAlo

datatype sdk_api = MainnetAPI | TestnetAPI

record create_order =
  co_coin :: string
  co_is_buy :: bool
  co_size :: float64
  co_price :: float64
  co_reduce_only :: bool
  co_tif :: sdk_tif
  co_cloid :: "string option"

record sdk_fill =
  sf_oid :: int
  sf_total_sz :: string
  sf_avg_px :: string

record sdk_status =
  st_resting :: "int option"
  st_filled :: "sdk_fill option"
  st_error :: "string option"

record 'w hl_env =
  he_lib :: declib
  he_http :: "string \<Rightarrow> string \<Rightarrow> 'w \<Rightarrow> (go_error + int \<times> string) \<times> 'w"
  he_marshal :: "info_request \<Rightarrow> go_error + string"
  he_json_state :: "string \<Rightarrow> go_error + clearinghouse_state"
  he_json_pair :: "string \<Rightarrow> go_error + string \<times> string"
  he_json_universe :: "string \<Rightarrow> go_error + universe_item list"
  he_json_ctxs :: "string \<Rightarrow> go_error + asset_ctx list"
  he_json_orders :: "string \<Rightarrow> go_error + wire_open_order list"
  he_now :: "'w \<Rightarrow> time \<times> 'w"
  he_sha256 :: "bytes \<Rightarrow> bytes"
  he_key :: "go_error option"
  he_order :: "sdk_api \<Rightarrow> create_order \<Rightarrow> 'w \<Rightarrow> (go_error + sdk_status) \<times> 'w"
  he_cancel :: "sdk_api \<Rightarrow> string \<Rightarrow> int \<Rightarrow> 'w \<Rightarrow> go_error option \<times> 'w"

record hl_venue =
  hv_cfg :: hl_config
  hv_endpoints :: endpoints
  hv_sdk :: bool

record hl_state =
  hs_exchange :: bool
  hs_order_sym :: "(string \<times> string) list"
  hs_index :: "(string \<times> nat) list"
  hs_snapshot :: "meta_ctxs option"
  hs_meta_at :: time

definition fresh_hl_state :: hl_state where
  "fresh_hl_state = \<lparr>hs_exchange = False, hs_order_sym = [], hs_index = [], hs_snapshot = None, hs_meta_at = zero_time\<rparr>"

text \<open>\<open>New\<close>: \<open>hl_signer\<close> says whether the option installed a Hyperliquid signer.\<close>

definition hl_New :: "hl_config \<Rightarrow> bool \<Rightarrow> go_error + hl_venue \<times> hl_state" where
  "hl_New cfg hl_signer =
     (case hl_validate cfg of
        Some e \<Rightarrow> Inl e
      | None \<Rightarrow> and_then (hl_endpoints cfg) (\<lambda>ep.
          Inr (\<lparr>hv_cfg = cfg, hv_endpoints = ep, hv_sdk = hl_signer\<rparr>, fresh_hl_state)))"

section \<open>The REST client (client.go)\<close>

definition hl_post ::
  "'w hl_env \<Rightarrow> hl_venue \<Rightarrow> string \<Rightarrow> (string \<Rightarrow> go_error + 'a) \<Rightarrow> info_request \<Rightarrow> 'w \<Rightarrow> (go_error + 'a) \<times> 'w" where
  "hl_post E v path decode req w =
     (case he_marshal E req of
        Inl e \<Rightarrow> (Inl (Wrap ''hyperliquid: marshal body'' e), w)
      | Inr body \<Rightarrow>
          (let url = ep_rest (hv_endpoints v) @ path
           in case he_http E url body w of
             (Inl e, w1) \<Rightarrow> (Inl (Wrap ''hyperliquid: do request'' e), w1)
           | (Inr (status, raw), w1) \<Rightarrow>
               (if status div 100 \<noteq> 2
                then (Inl (Errorf (''hyperliquid: '' @ url @ '' -> '' @ int_str status @ '': '' @ take 4096 raw)), w1)
                else (case decode raw of
                        Inl e \<Rightarrow> Inl (Wrap ''hyperliquid: decode response'' e)
                      | Inr x \<Rightarrow> Inr x, w1))))"

definition hl_info ::
  "'w hl_env \<Rightarrow> hl_venue \<Rightarrow> (string \<Rightarrow> go_error + 'a) \<Rightarrow> info_request \<Rightarrow> 'w \<Rightarrow> (go_error + 'a) \<times> 'w" where
  "hl_info E v = hl_post E v ''/info''"

definition unmarshal_meta :: "'w hl_env \<Rightarrow> string \<Rightarrow> go_error + meta_ctxs" where
  "unmarshal_meta E b =
     and_then (he_json_pair E b) (\<lambda>(r0, r1).
     and_then (he_json_universe E r0) (\<lambda>us.
     and_then (he_json_ctxs E r1) (\<lambda>cs. Inr \<lparr>me_universe = us, me_ctxs = cs\<rparr>)))"

section \<open>The cached universe (venue.go)\<close>

definition index_universe :: "universe_item list \<Rightarrow> (string \<times> nat) list" where
  "index_universe us = foldl (\<lambda>idx (i, u). AList.update (un_name u) i idx) [] (zip [0..<length us] us)"

definition refreshMeta ::
  "'w hl_env \<Rightarrow> hl_venue \<Rightarrow> bool \<Rightarrow> hl_state \<times> 'w \<Rightarrow> go_error option \<times> hl_state \<times> 'w" where
  "refreshMeta E v force sw =
     (let (s, w) = sw;
          (cached, w1) = (if \<not> force \<and> hs_snapshot s \<noteq> None
                          then (let (t, w') = he_now E w in (time_Sub t (hs_meta_at s) < 30 * nano_second, w'))
                          else (False, w))
      in if cached then (None, s, w1)
         else case hl_info E v (unmarshal_meta E) (info_of ''metaAndAssetCtxs'' []) w1 of
             (Inl e, w2) \<Rightarrow> (Some (Wrap ''metaAndAssetCtxs'' e), s, w2)
           | (Inr m, w2) \<Rightarrow>
               (let (t, w3) = he_now E w2
                in (None, s\<lparr>hs_snapshot := Some m, hs_index := index_universe (me_universe m), hs_meta_at := t\<rparr>, w3)))"

definition SzDecimals ::
  "'w hl_env \<Rightarrow> hl_venue \<Rightarrow> string \<Rightarrow> hl_state \<times> 'w \<Rightarrow> (go_error + int) option \<times> hl_state \<times> 'w" where
  "SzDecimals E v coin sw =
     (case refreshMeta E v False sw of
        (Some e, s, w) \<Rightarrow> (Some (Inl e), s, w)
      | (None, s, w) \<Rightarrow>
          (case map_of (hs_index s) coin of
             None \<Rightarrow> (Some (Inl (Errorf (''hyperliquid: unknown coin '' @ quoted coin))), s, w)
           | Some i \<Rightarrow>
               (case hs_snapshot s of
                  None \<Rightarrow> (None, s, w)
                | Some m \<Rightarrow>
                    if i < length (me_universe m) then (Some (Inr (un_sz_decimals (me_universe m ! i))), s, w)
                    else (None, s, w))))"

section \<open>Orders (sdk.go)\<close>

text \<open>\<open>init\<close> builds the SDK's exchange once.\<close>

definition sdk_init :: "'w hl_env \<Rightarrow> hl_state \<Rightarrow> go_error option \<times> hl_state" where
  "sdk_init E s =
     (if hs_exchange s then (None, s)
      else case he_key E of
          Some e \<Rightarrow> (Some (Wrap ''hyperliquid: convert key'' e), s)
        | None \<Rightarrow> (None, s\<lparr>hs_exchange := True\<rparr>))"

definition sdk_api_of :: "hl_venue \<Rightarrow> sdk_api" where
  "sdk_api_of v = (if hc_network (hv_cfg v) = ''testnet'' then TestnetAPI else MainnetAPI)"

definition mapTIF :: "time_in_force \<Rightarrow> sdk_tif \<Rightarrow> sdk_tif" where
  "mapTIF tif fallback =
     (let s = to_lower (tif_str tif)
      in if s = ''gtc'' then TifGtc
         else if s = ''ioc'' then TifIoc
         else if s = ''fok'' then TifIoc
         else if s = ''alo'' then TifAlo
         else fallback)"

definition decimalFromString :: "declib \<Rightarrow> string \<Rightarrow> decimal" where
  "decimalFromString L s = (case d_parse L s of None \<Rightarrow> 0 | Some d \<Rightarrow> d)"

definition mapOrderStatus :: "declib \<Rightarrow> time \<Rightarrow> sdk_status \<Rightarrow> order_intent \<Rightarrow> order_ack" where
  "mapOrderStatus L now s i =
     (let ack = \<lparr>oa_id = [], oa_client_id = oi_client_id i, oa_accepted_at = now, oa_status = OrderStatusOpen,
                 oa_filled = 0, oa_remaining = oi_size i, oa_avg_price = 0\<rparr>
      in case st_resting s of
           Some oid \<Rightarrow> ack\<lparr>oa_id := int_str oid\<rparr>
         | None \<Rightarrow>
             (case st_filled s of
                Some f \<Rightarrow> ack\<lparr>oa_id := int_str (sf_oid f), oa_status := OrderStatusFilled,
                            oa_filled := decimalFromString L (sf_total_sz f),
                            oa_avg_price := decimalFromString L (sf_avg_px f), oa_remaining := 0\<rparr>
              | None \<Rightarrow>
                  (case st_error s of
                     Some m \<Rightarrow> if m \<noteq> [] then ack\<lparr>oa_status := OrderStatusRejected\<rparr> else ack
                   | None \<Rightarrow> ack)))"

definition normaliseCloid :: "(bytes \<Rightarrow> bytes) \<Rightarrow> string \<Rightarrow> string" where
  "normaliseCloid sha s = ''0x'' @ hex_encode (take 16 (sha (to_bytes s)))"

definition parseOID :: "string \<Rightarrow> go_error + int" where
  "parseOID s =
     (if has_prefix s ''0x''
      then Inl (Errorf ''hyperliquid: client-order-id cancellation needs CancelByCloid; pass the venue oid'')
      else case sscanf_d s of
          Inl e \<Rightarrow> Inl (Wrap (''hyperliquid: parse oid '' @ quoted s) e)
        | Inr n \<Rightarrow> Inr n)"

text \<open>The conversion \<open>int32(dec)\<close>, and the size the venue accepts: rounded towards zero.\<close>

definition to_int32 :: "int \<Rightarrow> int" where
  "to_int32 n = (n + 2 ^ 31) mod 2 ^ 32 - 2 ^ 31"

definition sized_order :: "declib \<Rightarrow> (go_error + int) \<Rightarrow> decimal \<Rightarrow> decimal" where
  "sized_order L r sz =
     (case r of
        Inl _ \<Rightarrow> sz
      | Inr dec \<Rightarrow> if 0 \<le> dec \<and> 0 \<le> to_int32 dec then d_trunc L (nat (to_int32 dec)) sz else sz)"

definition order_tif :: "order_intent \<Rightarrow> go_error + sdk_tif" where
  "order_tif i =
     (case oi_type i of
        OrderTypeLimit \<Rightarrow> Inr (mapTIF (oi_tif i) TifGtc)
      | OrderTypeMarket \<Rightarrow> Inr TifIoc
      | OrderTypeOther t \<Rightarrow> Inl (Errorf (''hyperliquid: unsupported order type '' @ quoted t)))"

definition order_request :: "'w hl_env \<Rightarrow> order_intent \<Rightarrow> decimal \<Rightarrow> sdk_tif \<Rightarrow> create_order" where
  "order_request E i sz tif =
     \<lparr>co_coin = oi_symbol i, co_is_buy = (oi_side i = SideBuy), co_size = d_to_float (he_lib E) sz,
      co_price = d_to_float (he_lib E) (oi_price i), co_reduce_only = oi_reduce_only i, co_tif = tif,
      co_cloid = (if oi_client_id i \<noteq> [] then Some (normaliseCloid (he_sha256 E) (oi_client_id i)) else None)\<rparr>"

definition sdk_Place ::
  "'w hl_env \<Rightarrow> hl_venue \<Rightarrow> order_intent \<Rightarrow> hl_state \<times> 'w \<Rightarrow> ((go_error + order_ack) \<times> hl_state \<times> 'w) option" where
  "sdk_Place E v i sw =
     (case sdk_init E (fst sw) of
        (Some e, s) \<Rightarrow> Some (Inl e, s, snd sw)
      | (None, s) \<Rightarrow>
          (case SzDecimals E v (oi_symbol i) (s, snd sw) of
             (None, _) \<Rightarrow> None
           | (Some r, s1, w1) \<Rightarrow>
               (let sz = sized_order (he_lib E) r (oi_size i)
                in if sz \<le> 0
                   then Some (Inl (Errorf (''hyperliquid: size '' @ d_str (he_lib E) (oi_size i)
                                       @ '' rounds to zero at the venue's szDecimals'')), s1, w1)
                   else case order_tif i of
                       Inl e \<Rightarrow> Some (Inl e, s1, w1)
                     | Inr tif \<Rightarrow>
                         (case he_order E (sdk_api_of v) (order_request E i sz tif) w1 of
                            (Inl e, w2) \<Rightarrow> Some (Inl (Wrap ''hyperliquid: place'' e), s1, w2)
                          | (Inr status, w2) \<Rightarrow>
                              (let (t, w3) = he_now E w2
                               in Some (Inr (mapOrderStatus (he_lib E) t status i), s1, w3))))))"

definition sdk_Cancel ::
  "'w hl_env \<Rightarrow> hl_venue \<Rightarrow> string \<Rightarrow> string \<Rightarrow> hl_state \<times> 'w \<Rightarrow> go_error option \<times> hl_state \<times> 'w" where
  "sdk_Cancel E v oid symb sw =
     (case sdk_init E (fst sw) of
        (Some e, s) \<Rightarrow> (Some e, s, snd sw)
      | (None, s) \<Rightarrow>
          if symb = [] then (Some (Errorf ''hyperliquid: cancel requires the order's symbol (coin)''), s, snd sw)
          else case parseOID oid of
              Inl e \<Rightarrow> (Some e, s, snd sw)
            | Inr n \<Rightarrow>
                (case he_cancel E (sdk_api_of v) symb n (snd sw) of
                   (Some e, w) \<Rightarrow> (Some (Wrap ''hyperliquid: cancel'' e), s, w)
                 | (None, w) \<Rightarrow> (None, s, w)))"

section \<open>The venue's methods (venue.go)\<close>

definition rememberOrder :: "string \<Rightarrow> string \<Rightarrow> hl_state \<Rightarrow> hl_state" where
  "rememberOrder i symb s = s\<lparr>hs_order_sym := AList.update i symb (hs_order_sym s)\<rparr>"

definition forgetOrder :: "string \<Rightarrow> hl_state \<Rightarrow> hl_state" where
  "forgetOrder i s = s\<lparr>hs_order_sym := AList.delete i (hs_order_sym s)\<rparr>"

definition hl_Place ::
  "'w hl_env \<Rightarrow> hl_venue \<Rightarrow> order_intent \<Rightarrow> hl_state \<times> 'w \<Rightarrow> ((go_error + order_ack) \<times> hl_state \<times> 'w) option" where
  "hl_Place E v i sw =
     (if \<not> hv_sdk v then Some (Inl ErrSignerRequired, sw)
      else case sdk_Place E v i sw of
          None \<Rightarrow> None
        | Some (Inl e, sw1) \<Rightarrow> Some (Inl e, sw1)
        | Some (Inr ack, s1, w1) \<Rightarrow>
            Some (Inr ack, (if oa_id ack \<noteq> [] then rememberOrder (oa_id ack) (oi_symbol i) s1 else s1), w1))"

definition CancelWithSymbol ::
  "'w hl_env \<Rightarrow> hl_venue \<Rightarrow> string \<Rightarrow> string \<Rightarrow> hl_state \<times> 'w \<Rightarrow> go_error option \<times> hl_state \<times> 'w" where
  "CancelWithSymbol E v oid symb sw =
     (if \<not> hv_sdk v then (Some ErrSignerRequired, sw)
      else case sdk_Cancel E v oid symb sw of
          (Some e, sw1) \<Rightarrow> (Some e, sw1)
        | (None, s, w) \<Rightarrow> (None, forgetOrder oid s, w))"

definition hl_Cancel ::
  "'w hl_env \<Rightarrow> hl_venue \<Rightarrow> string \<Rightarrow> hl_state \<times> 'w \<Rightarrow> go_error option \<times> hl_state \<times> 'w" where
  "hl_Cancel E v oid sw =
     (if \<not> hv_sdk v then (Some ErrSignerRequired, sw)
      else case map_of (hs_order_sym (fst sw)) oid of
          None \<Rightarrow> (Some (Errorf (''hyperliquid: cancel: unknown order '' @ quoted oid
                            @ '' in this Venue's session '' @ em_dash @ '' use CancelWithSymbol'')), sw)
        | Some symb \<Rightarrow>
            (case sdk_Cancel E v oid symb sw of
               (Some e, sw1) \<Rightarrow> (Some e, sw1)
             | (None, s, w) \<Rightarrow> (None, forgetOrder oid s, w)))"

definition open_order_of :: "wire_open_order \<Rightarrow> open_order" where
  "open_order_of r = \<lparr>oo_id = int_str (wo_oid r), oo_symbol = wo_coin r,
     oo_side = (if wo_side r = ''A'' then SideSell else SideBuy)\<rparr>"

definition remember_all :: "wire_open_order list \<Rightarrow> hl_state \<Rightarrow> hl_state" where
  "remember_all rs s = foldl (\<lambda>s r. rememberOrder (int_str (wo_oid r)) (wo_coin r) s) s rs"

definition hl_OpenOrders ::
  "'w hl_env \<Rightarrow> hl_venue \<Rightarrow> hl_state \<times> 'w \<Rightarrow> (go_error + open_order list) \<times> hl_state \<times> 'w" where
  "hl_OpenOrders E v sw =
     (if hc_address (hv_cfg v) = [] then (Inl ErrAddressRequired, sw)
      else case hl_info E v (he_json_orders E) (info_of ''openOrders'' (hc_address (hv_cfg v))) (snd sw) of
          (Inl e, w) \<Rightarrow> (Inl (Wrap ''hyperliquid: openOrders'' e), fst sw, w)
        | (Inr rs, w) \<Rightarrow> (Inr (map open_order_of rs), remember_all rs (fst sw), w))"

definition position_of_wire :: "declib \<Rightarrow> time \<Rightarrow> wire_position \<Rightarrow> position" where
  "position_of_wire L now p =
     zero_position\<lparr>po_venue := VenueName, po_symbol := wp_coin p, po_qty := decimalFromString L (wp_szi p),
       po_entry_price := decimalFromString L (wp_entry_px p), po_liq_price := decimalFromString L (wp_liquidation_px p),
       po_margin := decimalFromString L (wp_margin_used p), po_upnl := decimalFromString L (wp_unrealized_pnl p),
       po_leverage := of_int (wp_leverage_value p), po_updated_at := now\<rparr>"

definition hl_Positions ::
  "'w hl_env \<Rightarrow> hl_venue \<Rightarrow> hl_state \<times> 'w \<Rightarrow> (go_error + position list) \<times> hl_state \<times> 'w" where
  "hl_Positions E v sw =
     (if hc_address (hv_cfg v) = [] then (Inl ErrAddressRequired, sw)
      else case hl_info E v (he_json_state E) (info_of ''clearinghouseState'' (hc_address (hv_cfg v))) (snd sw) of
          (Inl e, w) \<Rightarrow> (Inl e, fst sw, w)
        | (Inr cs, w) \<Rightarrow>
            (Inr (map (position_of_wire (he_lib E) (wrap64 (cs_time cs * 1000000)))
                   (filter (\<lambda>p. decimalFromString (he_lib E) (wp_szi p) \<noteq> 0) (cs_positions cs))), fst sw, w))"

definition hl_Balances ::
  "'w hl_env \<Rightarrow> hl_venue \<Rightarrow> hl_state \<times> 'w \<Rightarrow> (go_error + balance list) \<times> hl_state \<times> 'w" where
  "hl_Balances E v sw =
     (if hc_address (hv_cfg v) = [] then (Inl ErrAddressRequired, sw)
      else case hl_info E v (he_json_state E) (info_of ''clearinghouseState'' (hc_address (hv_cfg v))) (snd sw) of
          (Inl e, w) \<Rightarrow> (Inl e, fst sw, w)
        | (Inr cs, w) \<Rightarrow>
            (Inr [\<lparr>bal_asset = ''USDC'', bal_venue = VenueName,
                   bal_free = decimalFromString (he_lib E) (cs_withdrawable cs),
                   bal_locked = decimalFromString (he_lib E) (cs_cross_margin_used cs)\<rparr>], fst sw, w))"

definition wanted_coins :: "string list \<Rightarrow> nat \<Rightarrow> (string \<times> nat) list \<Rightarrow> (string \<times> nat) list" where
  "wanted_coins symbols n idx = filter (\<lambda>(coin, i). (symbols = [] \<or> coin \<in> set symbols) \<and> i < n) idx"

definition hl_FundingRates ::
  "'w hl_env \<Rightarrow> hl_venue \<Rightarrow> string list \<Rightarrow> hl_state \<times> 'w \<Rightarrow> ((go_error + funding_rate list) \<times> hl_state \<times> 'w) option" where
  "hl_FundingRates E v symbols sw =
     (case refreshMeta E v False sw of
        (Some e, s, w) \<Rightarrow> Some (Inl e, s, w)
      | (None, s, w) \<Rightarrow>
          (case hs_snapshot s of
             None \<Rightarrow> None
           | Some m \<Rightarrow>
               (let (now, w1) = he_now E w;
                    rate = (\<lambda>(coin, i). zero_funding\<lparr>fr_time := now, fr_venue := VenueName, fr_symbol := coin,
                              fr_rate := decimalFromString (he_lib E) (ac_funding (me_ctxs m ! i)), fr_interval := nano_hour,
                              fr_mark_price := decimalFromString (he_lib E) (ac_mark_px (me_ctxs m ! i))\<rparr>)
                in Some (Inr (sort_key fr_symbol (map rate (wanted_coins symbols (length (me_ctxs m)) (hs_index s)))), s, w1))))"

text \<open>The venue as the runtime and the kill switch see it; a panic is an error of its own.\<close>

definition ErrPanic :: go_error where
  "ErrPanic = Sentinel ''panic''"

definition hl_perp_venue :: "'w hl_env \<Rightarrow> hl_venue \<Rightarrow> (hl_state \<times> 'w) perp_venue" where
  "hl_perp_venue E v = \<lparr>pv_name = VenueName,
     pv_place = (\<lambda>i sw. case hl_Place E v i sw of None \<Rightarrow> (Inl ErrPanic, sw) | Some r \<Rightarrow> r),
     pv_cancel = hl_Cancel E v, pv_open_orders = hl_OpenOrders E v, pv_positions = hl_Positions E v,
     pv_balances = hl_Balances E v,
     pv_funding_rates = (\<lambda>ss sw. case hl_FundingRates E v ss sw of None \<Rightarrow> (Inl ErrPanic, sw) | Some r \<Rightarrow> r)\<rparr>"

section \<open>The cached universe stays consistent\<close>

definition meta_ok :: "hl_state \<Rightarrow> bool" where
  "meta_ok s \<longleftrightarrow> (case hs_snapshot s of
     None \<Rightarrow> hs_index s = []
   | Some m \<Rightarrow> (\<forall>coin i. map_of (hs_index s) coin = Some i
       \<longrightarrow> i < length (me_universe m) \<and> un_name (me_universe m ! i) = coin))"

lemma index_fold:
  assumes "\<And>i u. (i, u) \<in> set ps \<Longrightarrow> i < length us \<and> us ! i = u"
    and "\<forall>c i. map_of acc c = Some i \<longrightarrow> i < length us \<and> un_name (us ! i) = c"
  shows "\<forall>c i. map_of (foldl (\<lambda>idx (i, u). AList.update (un_name u) i idx) acc ps) c = Some i
    \<longrightarrow> i < length us \<and> un_name (us ! i) = c"
  using assms
proof (induction ps arbitrary: acc)
  case (Cons p ps)
  obtain i u where p: "p = (i, u)" by fastforce
  have "i < length us" "us ! i = u" using Cons.prems(1) [of i u] p by simp_all
  then have acc: "\<forall>c j. map_of (AList.update (un_name u) i acc) c = Some j \<longrightarrow> j < length us \<and> un_name (us ! j) = c"
    using Cons.prems(2) by (simp add: update_conv')
  have "\<And>k x. (k, x) \<in> set ps \<Longrightarrow> k < length us \<and> us ! k = x" by (rule Cons.prems(1)) simp
  from Cons.IH [OF this acc] show ?case by (simp add: p)
qed simp

lemma index_universe_ok:
  assumes "map_of (index_universe us) coin = Some i"
  shows "i < length us \<and> un_name (us ! i) = coin"
proof -
  have pos: "\<And>i u. (i, u) \<in> set (zip [0..<length us] us) \<Longrightarrow> i < length us \<and> us ! i = u" by (auto simp: set_zip)
  have "\<forall>c i. map_of (index_universe us) c = Some i \<longrightarrow> i < length us \<and> un_name (us ! i) = c"
    unfolding index_universe_def by (rule index_fold [OF pos]) simp_all
  with assms show ?thesis by blast
qed

lemma refreshMeta_cases:
  assumes "refreshMeta E v force sw = (r, sw')"
  obtains (kept) "fst sw' = fst sw" "r = None \<longrightarrow> hs_snapshot (fst sw) \<noteq> None"
  | (fetched) m t where "r = None"
      "fst sw' = (fst sw)\<lparr>hs_snapshot := Some m, hs_index := index_universe (me_universe m), hs_meta_at := t\<rparr>"
proof -
  obtain s w where sw: "sw = (s, w)" by (cases sw)
  obtain c w1 where c: "(if \<not> force \<and> hs_snapshot s \<noteq> None
      then (let (t, w') = he_now E w in (time_Sub t (hs_meta_at s) < 30 * nano_second, w')) else (False, w)) = (c, w1)"
    by (metis surj_pair)
  have "c \<longrightarrow> hs_snapshot s \<noteq> None" using c by (auto split: if_splits)
  then show thesis
    using assms kept fetched unfolding sw refreshMeta_def Let_def split_conv c
    by (auto split: if_splits prod.splits sum.splits)
qed

lemma refreshMeta_ok:
  assumes "meta_ok (fst sw)" and "refreshMeta E v force sw = (r, sw')"
  shows "meta_ok (fst sw')" and "r = None \<Longrightarrow> hs_snapshot (fst sw') \<noteq> None"
    and "hs_order_sym (fst sw') = hs_order_sym (fst sw)" and "hs_exchange (fst sw') = hs_exchange (fst sw)"
  using assms(2,1) index_universe_ok by (cases rule: refreshMeta_cases; force simp: meta_ok_def)+

lemma SzDecimals_ok:
  assumes "meta_ok (fst sw)" and "SzDecimals E v coin sw = (r, sw')"
  shows "r \<noteq> None" and "meta_ok (fst sw')" and "hs_order_sym (fst sw') = hs_order_sym (fst sw)"
    and "hs_exchange (fst sw') = hs_exchange (fst sw)"
    and "r = Some (Inr n) \<Longrightarrow> \<exists>m k. hs_snapshot (fst sw') = Some m \<and> k < length (me_universe m) \<and> un_name (me_universe m ! k) = coin \<and> n = un_sz_decimals (me_universe m ! k)"
proof -
  obtain e sw1 where ref: "refreshMeta E v False sw = (e, sw1)" by (metis surj_pair)
  note ok = refreshMeta_ok [OF assms(1) ref]
  have "sw' = sw1" using assms(2) ref by (auto simp: SzDecimals_def split: option.splits prod.splits if_splits)
  with ok show "meta_ok (fst sw')" "hs_order_sym (fst sw') = hs_order_sym (fst sw)" "hs_exchange (fst sw') = hs_exchange (fst sw)"
    by simp_all
  show "r \<noteq> None"
    using assms(2) ref ok by (auto simp: SzDecimals_def meta_ok_def split: option.splits prod.splits if_splits)
  show "\<exists>m k. hs_snapshot (fst sw') = Some m \<and> k < length (me_universe m) \<and> un_name (me_universe m ! k) = coin \<and> n = un_sz_decimals (me_universe m ! k)"
    if "r = Some (Inr n)"
  proof -
    from that assms(2) ref obtain m k where "map_of (hs_index (fst sw')) coin = Some k" "hs_snapshot (fst sw') = Some m"
      "n = un_sz_decimals (me_universe m ! k)"
      by (auto simp: SzDecimals_def split: option.splits prod.splits if_splits)
    with \<open>meta_ok (fst sw')\<close> show ?thesis by (auto simp: meta_ok_def)
  qed
qed

lemma sdk_init_frame: "sdk_init E s = (r, s') \<Longrightarrow> s' = s\<lparr>hs_exchange := hs_exchange s'\<rparr> \<and> (r = None \<longrightarrow> hs_exchange s')"
  by (auto simp: sdk_init_def split: if_splits option.splits)

lemma meta_ok_frame [simp]:
  "meta_ok (s\<lparr>hs_exchange := b\<rparr>) = meta_ok s" "meta_ok (s\<lparr>hs_order_sym := os\<rparr>) = meta_ok s"
  "meta_ok (rememberOrder i c s) = meta_ok s" "meta_ok (forgetOrder i s) = meta_ok s"
  by (simp_all add: meta_ok_def rememberOrder_def forgetOrder_def split: option.splits)

lemma fresh_meta [simp]: "meta_ok fresh_hl_state"
  by (simp add: meta_ok_def fresh_hl_state_def)

lemma remember_all_meta [simp]: "meta_ok (remember_all rs s) = meta_ok s"
  by (induction rs arbitrary: s) (simp_all add: remember_all_def)

text \<open>What a placement does: it stops early, or one order of a positive size goes to the SDK.\<close>

lemma sdk_Place_cases:
  assumes "meta_ok (fst sw)"
  obtains (failed) e sw' where "sdk_Place E v i sw = Some (Inl e, sw')" "meta_ok (fst sw')"
  | (sent) r s1 w1 tif status w2 t w3 where
      "SzDecimals E v (oi_symbol i) (snd (sdk_init E (fst sw)), snd sw) = (Some r, s1, w1)"
      "0 < sized_order (he_lib E) r (oi_size i)" "order_tif i = Inr tif"
      "he_order E (sdk_api_of v) (order_request E i (sized_order (he_lib E) r (oi_size i)) tif) w1 = (Inr status, w2)"
      "he_now E w2 = (t, w3)" "meta_ok s1" "hs_exchange s1"
      "sdk_Place E v i sw = Some (Inr (mapOrderStatus (he_lib E) t status i), s1, w3)"
proof -
  obtain r0 s0 where i0: "sdk_init E (fst sw) = (r0, s0)" by fastforce
  have s0: "meta_ok s0" using sdk_init_frame [OF i0] assms by (metis meta_ok_frame(1))
  show thesis
  proof (cases r0)
    case (Some e)
    then show thesis using failed i0 s0 by (simp add: sdk_Place_def)
  next
    case None
    obtain r1 s1 w1 where sz: "SzDecimals E v (oi_symbol i) (s0, snd sw) = (r1, s1, w1)" by (metis prod_cases3)
    have ok: "r1 \<noteq> None" "meta_ok s1" "hs_exchange s1"
      using SzDecimals_ok [OF _ sz] s0 sdk_init_frame [OF i0] None by auto
    then obtain r where r: "r1 = Some r" by auto
    let ?sz = "sized_order (he_lib E) r (oi_size i)"
    have place: "sdk_Place E v i sw =
        (if ?sz \<le> 0 then Some (Inl (Errorf (''hyperliquid: size '' @ d_str (he_lib E) (oi_size i) @ '' rounds to zero at the venue's szDecimals'')), s1, w1)
         else case order_tif i of Inl e \<Rightarrow> Some (Inl e, s1, w1)
            | Inr tif \<Rightarrow> (case he_order E (sdk_api_of v) (order_request E i ?sz tif) w1 of
                (Inl e, w2) \<Rightarrow> Some (Inl (Wrap ''hyperliquid: place'' e), s1, w2)
              | (Inr status, w2) \<Rightarrow> (let (t, w3) = he_now E w2 in Some (Inr (mapOrderStatus (he_lib E) t status i), s1, w3))))"
      using i0 None sz r by (simp add: sdk_Place_def Let_def)
    show thesis
    proof (cases "\<exists>tif status w2. 0 < ?sz \<and> order_tif i = Inr tif \<and> he_order E (sdk_api_of v) (order_request E i ?sz tif) w1 = (Inr status, w2)")
      case False
      then have "\<exists>e sw'. sdk_Place E v i sw = Some (Inl e, sw') \<and> fst sw' = s1"
        unfolding place by (auto simp: not_less split: sum.splits prod.splits)
      with failed ok show thesis by blast
    next
      case True
      then obtain tif status w2 where o: "0 < ?sz" "order_tif i = Inr tif" "he_order E (sdk_api_of v) (order_request E i ?sz tif) w1 = (Inr status, w2)"
        by blast
      obtain t w3 where t: "he_now E w2 = (t, w3)" by fastforce
      show thesis using sent [of r s1 w1 tif status w2 t w3] o t i0 sz r ok unfolding place by simp
    qed
  qed
qed

section \<open>Properties\<close>

text \<open>
  The signer's orders and the reader's data agree on the network only if it is named. A venue configured without a network reads
  positions, balances and prices from the testnet, but sends its orders and cancels to the mainnet
  API; with \<open>mainnet\<close> or \<open>testnet\<close> both go to the same network.
\<close>

definition reads_testnet :: "hl_venue \<Rightarrow> bool" where
  "reads_testnet v \<longleftrightarrow> ep_rest (hv_endpoints v) = ''https://api.hyperliquid-testnet.xyz''"

theorem unnamed_network_splits:
  assumes "hl_New cfg signer = Inr (v, s)" and "hc_rest_override cfg = []"
  shows "hc_network cfg \<in> {[], ''mainnet'', ''testnet''}
    \<and> (reads_testnet v \<longleftrightarrow> hc_network cfg \<noteq> ''mainnet'')
    \<and> (sdk_api_of v = TestnetAPI \<longleftrightarrow> hc_network cfg = ''testnet'')
    \<and> meta_ok s \<and> hs_order_sym s = []"
  using assms
  by (auto simp: hl_New_def hl_endpoints_def EndpointsFor_def reads_testnet_def sdk_api_of_def meta_ok_def fresh_hl_state_def Let_def
      split: option.splits if_splits elim!: and_then_InrE)

theorem unnamed_network_splits_witness:
  "\<exists>v s. hl_New \<lparr>hc_network = [], hc_address = [], hc_rest_override = [], hc_ws_override = []\<rparr> True = Inr (v, s)
     \<and> reads_testnet v \<and> sdk_api_of v = MainnetAPI"
proof -
  let ?c = "\<lparr>hc_network = [], hc_address = [], hc_rest_override = [], hc_ws_override = []\<rparr>"
  obtain v s where v: "hl_New ?c True = Inr (v, s)"
    by (simp add: hl_New_def hl_validate_def hl_endpoints_def EndpointsFor_def Let_def)
  from unnamed_network_splits [OF v] have "reads_testnet v" "sdk_api_of v \<noteq> TestnetAPI" by simp_all
  with v show ?thesis by (cases "sdk_api_of v") blast+
qed

text \<open>The states a venue can be in: fresh, or after one of its operations; the world may change at any time.\<close>

inductive hl_reach :: "'w hl_env \<Rightarrow> hl_venue \<Rightarrow> hl_state \<times> 'w \<Rightarrow> bool" for E :: "'w hl_env" and v :: hl_venue where
  fresh: "hl_reach E v (fresh_hl_state, w)"
| outside: "hl_reach E v (s, w) \<Longrightarrow> hl_reach E v (s, w')"
| place: "hl_reach E v sw \<Longrightarrow> hl_Place E v i sw = Some (r, sw') \<Longrightarrow> hl_reach E v sw'"
| cancel: "hl_reach E v sw \<Longrightarrow> hl_Cancel E v oid sw = (e, sw') \<Longrightarrow> hl_reach E v sw'"
| cancel_symbol: "hl_reach E v sw \<Longrightarrow> CancelWithSymbol E v oid c sw = (e, sw') \<Longrightarrow> hl_reach E v sw'"
| open_orders: "hl_reach E v sw \<Longrightarrow> hl_OpenOrders E v sw = (os, sw') \<Longrightarrow> hl_reach E v sw'"
| positions: "hl_reach E v sw \<Longrightarrow> hl_Positions E v sw = (ps, sw') \<Longrightarrow> hl_reach E v sw'"
| balances: "hl_reach E v sw \<Longrightarrow> hl_Balances E v sw = (bs, sw') \<Longrightarrow> hl_reach E v sw'"
| funding: "hl_reach E v sw \<Longrightarrow> hl_FundingRates E v ss sw = Some (fs, sw') \<Longrightarrow> hl_reach E v sw'"

lemma sdk_Cancel_state:
  "sdk_Cancel E v oid c sw = (e, sw') \<Longrightarrow> fst sw' = snd (sdk_init E (fst sw))"
  by (auto simp: sdk_Cancel_def split: prod.splits option.splits if_splits sum.splits)

lemma sdk_init_meta [simp]: "meta_ok (snd (sdk_init E s)) = meta_ok s"
  by (metis meta_ok_frame(1) prod.collapse sdk_init_frame)

lemma hl_Place_ok:
  assumes "meta_ok (fst sw)"
  shows "\<exists>r sw'. hl_Place E v i sw = Some (r, sw') \<and> meta_ok (fst sw')"
proof (cases "hv_sdk v")
  case True
  then show ?thesis
    by (cases rule: sdk_Place_cases [OF assms, of E v i]) (auto simp: hl_Place_def)
qed (simp add: hl_Place_def assms)

lemma reach_meta: "hl_reach E v sw \<Longrightarrow> meta_ok (fst sw)"
proof (induction rule: hl_reach.induct)
  case (place sw i r sw')
  then show ?case using hl_Place_ok [of sw E v i] by auto
next
  case (cancel sw oid e sw')
  then show ?case using sdk_Cancel_state [of E v oid _ sw]
    by (auto simp: hl_Cancel_def split: if_splits option.splits prod.splits) (metis fst_conv meta_ok_frame(4) sdk_init_meta)+
next
  case (cancel_symbol sw oid c e sw')
  then show ?case using sdk_Cancel_state [of E v oid c sw]
    by (auto simp: CancelWithSymbol_def split: if_splits option.splits prod.splits)
next
  case (funding sw ss fs sw')
  obtain e s w where ref: "refreshMeta E v False sw = (e, s, w)" by (metis prod_cases3)
  with refreshMeta_ok(1) [OF funding.IH ref] funding.hyps(2) show ?case
    by (auto simp: hl_FundingRates_def Let_def split: option.splits prod.splits)
qed (auto simp: hl_OpenOrders_def hl_Positions_def hl_Balances_def split: if_splits sum.splits prod.splits)

text \<open>
  C25: The cached universe never misleads an index. In every reachable state of the venue, a placement and a funding query
  return (they do not index out of range), and a size precision that is found is the one of the
  universe entry with that very coin name, even after the universe was refreshed any number of times.
\<close>

theorem meta_cache_well_formed:
  assumes "hl_reach E v sw"
  shows "hl_Place E v i sw \<noteq> None \<and> hl_FundingRates E v ss sw \<noteq> None \<and> fst (SzDecimals E v coin sw) \<noteq> None
    \<and> (\<forall>n s w. SzDecimals E v coin sw = (Some (Inr n), s, w) \<longrightarrow>
         (\<exists>m k. hs_snapshot s = Some m \<and> k < length (me_universe m) \<and> un_name (me_universe m ! k) = coin
            \<and> n = un_sz_decimals (me_universe m ! k)))"
proof -
  note ok = reach_meta [OF assms]
  obtain e s w where ref: "refreshMeta E v False sw = (e, s, w)" by (metis prod_cases3)
  obtain r sw' where sz: "SzDecimals E v coin sw = (r, sw')" by (metis surj_pair)
  have "e = None \<longrightarrow> hs_snapshot s \<noteq> None" using refreshMeta_ok(2) [OF ok ref] by simp
  then have "hl_FundingRates E v ss sw \<noteq> None"
    using ref by (auto simp: hl_FundingRates_def Let_def split: option.splits prod.splits)
  then show ?thesis using hl_Place_ok [OF ok, of E v i] SzDecimals_ok(1,5) [OF ok sz] sz by auto
qed

text \<open>A concrete environment: the world counts the calls; the universe has one coin with two size decimals.\<close>

record hl_world =
  hw_now :: time
  hw_orders :: "create_order list"
  hw_cancels :: "(string \<times> int) list"
  hw_open :: "wire_open_order list"

definition sample_hl_env :: "hl_world hl_env" where
  "sample_hl_env = \<lparr>he_lib = reference_declib, he_http = (\<lambda>_ _ w. (Inr (200, []), w)), he_marshal = (\<lambda>_. Inr []),
     he_json_state = (\<lambda>_. Inl ErrPanic), he_json_pair = (\<lambda>_. Inr ([], [])),
     he_json_universe = (\<lambda>_. Inr [\<lparr>un_name = ''WIF'', un_sz_decimals = 2\<rparr>]),
     he_json_ctxs = (\<lambda>_. Inr [\<lparr>ac_funding = ''0'', ac_mark_px = ''2''\<rparr>]),
     he_json_orders = (\<lambda>_. Inr [\<lparr>wo_coin = ''WIF'', wo_oid = 7, wo_side = ''B''\<rparr>, \<lparr>wo_coin = ''SOL'', wo_oid = 12, wo_side = ''A''\<rparr>]),
     he_now = (\<lambda>w. (hw_now w, w)), he_sha256 = (\<lambda>_. replicate 32 0), he_key = None,
     he_order = (\<lambda>_ r w. (Inr \<lparr>st_resting = Some 41, st_filled = None, st_error = None\<rparr>, w\<lparr>hw_orders := hw_orders w @ [r]\<rparr>)),
     he_cancel = (\<lambda>_ c n w. (None, w\<lparr>hw_cancels := hw_cancels w @ [(c, n)]\<rparr>))\<rparr>"

definition sample_hl_world :: hl_world where
  "sample_hl_world = \<lparr>hw_now = 1000, hw_orders = [], hw_cancels = [], hw_open = []\<rparr>"

definition sample_hl_venue :: hl_venue where
  "sample_hl_venue = \<lparr>hv_cfg = \<lparr>hc_network = ''mainnet'', hc_address = ''0x1'', hc_rest_override = [], hc_ws_override = []\<rparr>,
     hv_endpoints = \<lparr>ep_rest = ''https://api.hyperliquid.xyz'', ep_ws = []\<rparr>, hv_sdk = True\<rparr>"

theorem meta_cache_well_formed_witness:
  "\<exists>m k. hs_snapshot (fst (snd (SzDecimals sample_hl_env sample_hl_venue ''WIF'' (fresh_hl_state, sample_hl_world)))) = Some m
     \<and> k < length (me_universe m) \<and> un_name (me_universe m ! k) = ''WIF'' \<and> un_sz_decimals (me_universe m ! k) = 2"
proof -
  obtain s w where "SzDecimals sample_hl_env sample_hl_venue ''WIF'' (fresh_hl_state, sample_hl_world) = (Some (Inr 2), s, w)"
    by (simp add: SzDecimals_def refreshMeta_def fresh_hl_state_def hl_info_def hl_post_def sample_hl_env_def unmarshal_meta_def
        index_universe_def Let_def)
  with meta_cache_well_formed [OF hl_reach.fresh, of sample_hl_env sample_hl_venue zero_order sample_hl_world "[]" "''WIF''"]
  show ?thesis by auto
qed

text \<open>Order ids of the SDK are \<open>int64\<close> values.\<close>

definition int64 :: "int \<Rightarrow> bool" where
  "int64 n \<longleftrightarrow> - (2 ^ 63) \<le> n \<and> n < 2 ^ 63"

definition oids_fit :: "sdk_status \<Rightarrow> bool" where
  "oids_fit st \<longleftrightarrow> (\<forall>n. st_resting st = Some n \<longrightarrow> int64 n) \<and> (\<forall>f. st_filled st = Some f \<longrightarrow> int64 (sf_oid f))"

lemma int_str_chars: "c \<in> set (int_str n) \<Longrightarrow> is_digit c \<or> c = CHR ''-''"
  using nat_str_digits [of "nat n"] nat_str_digits [of "nat (- n)"] by (auto simp: int_str_def split: if_splits)

lemma parseOID_int_str [roundtrips]: "int64 n \<Longrightarrow> parseOID (int_str n) = Inr n"
proof -
  assume n: "int64 n"
  have "\<not> has_prefix (int_str n) ''0x''"
  proof
    assume "has_prefix (int_str n) ''0x''"
    then have "CHR ''x'' \<in> set (int_str n)" by (auto simp: has_prefix_def prefix_def)
    then show False using int_str_chars [of "CHR ''x''" n] by (simp add: is_digit_def)
  qed
  with n show ?thesis by (simp add: parseOID_def int64_def sscanf_int_str)
qed

lemma sdk_Cancel_sent:
  assumes "hs_exchange s" "c \<noteq> []" "int64 n"
  shows "sdk_Cancel E v (int_str n) c (s, w) =
    (let (e, w') = he_cancel E (sdk_api_of v) c n w in (map_option (Wrap ''hyperliquid: cancel'') e, s, w'))"
  using assms by (auto simp: sdk_Cancel_def sdk_init_def parseOID_int_str split: prod.splits option.splits)

lemma sized_order_le:
  assumes "decimal_lib L" "0 < sized_order L r x"
  shows "sized_order L r x \<le> x"
proof (cases "0 \<le> x")
  case True
  then show ?thesis using decimal_lib.trunc_bounds [OF assms(1)] by (simp add: sized_order_def split: sum.splits)
next
  case False
  then have "d_trunc L k x \<le> 0" for k
    using decimal_lib.trunc_bounds [OF assms(1), of "- x" k] decimal_lib.trunc_neg [OF assms(1), of k "- x"] by simp
  with False assms(2) show ?thesis by (auto simp: sized_order_def not_less split: sum.splits if_splits dest: leD)
qed

lemma mapOrderStatus_id:
  "oids_fit st \<Longrightarrow> oa_id (mapOrderStatus L t st i) \<noteq> [] \<Longrightarrow> \<exists>n. oa_id (mapOrderStatus L t st i) = int_str n \<and> int64 n"
  by (auto simp: mapOrderStatus_def oids_fit_def Let_def split: option.splits if_splits)

text \<open>
  What \<open>Place\<close> sends and remembers. When a placement succeeds, the SDK accepted one order for the intent's coin, on
  the venue's network, with its reduce-only flag, whose size is positive and at most the
  requested size, cut to the precision the venue reports for the coin. If the acknowledgement has an
  id, a later \<open>Cancel\<close> of that id alone reaches the SDK with the right coin and number.
\<close>

theorem placed_order_can_be_cancelled:
  assumes lib: "decimal_lib (he_lib E)" and ok: "meta_ok (fst sw)"
    and fit: "\<forall>a q w st w'. he_order E a q w = (Inr st, w') \<longrightarrow> oids_fit st"
    and place: "hl_Place E v i sw = Some (Inr ack, s', w')"
  shows "(\<exists>sz tif w1 st w2. he_order E (sdk_api_of v) (order_request E i sz tif) w1 = (Inr st, w2)
        \<and> order_tif i = Inr tif \<and> 0 < sz \<and> sz \<le> oi_size i)
    \<and> (oi_symbol i \<noteq> [] \<and> oa_id ack \<noteq> [] \<longrightarrow> (\<exists>n. oa_id ack = int_str n
      \<and> hl_Cancel E v (oa_id ack) (s', w) =
          (let (e, w2) = he_cancel E (sdk_api_of v) (oi_symbol i) n w
           in (map_option (Wrap ''hyperliquid: cancel'') e, (if e = None then forgetOrder (oa_id ack) s' else s'), w2))))"
  using ok
proof (cases rule: sdk_Place_cases [where E = E and v = v and i = i])
  case (failed e sw')
  with place show ?thesis by (auto simp: hl_Place_def split: if_splits)
next
  case (sent r s1 w1 tif status w2 t w3)
  have sdk: "hv_sdk v" using place by (auto simp: hl_Place_def split: if_splits)
  have ack: "ack = mapOrderStatus (he_lib E) t status i"
    and s': "s' = (if oa_id ack \<noteq> [] then rememberOrder (oa_id ack) (oi_symbol i) s1 else s1)"
    using place sent(8) sdk by (auto simp: hl_Place_def)
  have "sized_order (he_lib E) r (oi_size i) \<le> oi_size i"
    using sent(2) sized_order_le [OF lib, of r "oi_size i"] by simp
  moreover have "\<exists>n. oa_id ack = int_str n \<and> hl_Cancel E v (oa_id ack) (s', w) =
      (let (e, w2) = he_cancel E (sdk_api_of v) (oi_symbol i) n w
       in (map_option (Wrap ''hyperliquid: cancel'') e, (if e = None then forgetOrder (oa_id ack) s' else s'), w2))"
    if symb: "oi_symbol i \<noteq> []" and id: "oa_id ack \<noteq> []"
  proof -
    obtain n where n: "oa_id ack = int_str n" "int64 n"
      using id ack mapOrderStatus_id fit sent(4) by blast
    have "hs_exchange s'" "map_of (hs_order_sym s') (int_str n) = Some (oi_symbol i)"
      using s' id n sent(7) by (simp_all add: rememberOrder_def update_conv')
    then have eq: "hl_Cancel E v (int_str n) (s', w) =
      (let (e, w2) = he_cancel E (sdk_api_of v) (oi_symbol i) n w
       in (map_option (Wrap ''hyperliquid: cancel'') e, (if e = None then forgetOrder (int_str n) s' else s'), w2))"
      using sdk sdk_Cancel_sent [of s' "oi_symbol i" n E v w] symb n(2)
      by (auto simp: hl_Cancel_def Let_def split: prod.splits option.splits)
    show ?thesis by (rule exI [of _ n]) (simp only: n(1) eq)
  qed
  ultimately show ?thesis using sent(2-4) by blast
qed

theorem placed_order_can_be_cancelled_witness:
  "\<exists>ack s' w'. hl_Place sample_hl_env sample_hl_venue
        (zero_order\<lparr>oi_symbol := ''WIF'', oi_type := OrderTypeMarket, oi_size := 1001 / 1000\<rparr>) (fresh_hl_state, sample_hl_world)
        = Some (Inr ack, s', w')
     \<and> oa_id ack = ''41''
     \<and> fst (hl_Cancel sample_hl_env sample_hl_venue ''41'' (s', w')) = None"
proof -
  let ?i = "zero_order\<lparr>oi_symbol := ''WIF'', oi_type := OrderTypeMarket, oi_size := 1001 / 1000\<rparr>"
  let ?sw = "(fresh_hl_state, sample_hl_world)"
  have fit: "\<forall>a q w st w'. he_order sample_hl_env a q w = (Inr st, w') \<longrightarrow> oids_fit st"
    by (auto simp: sample_hl_env_def oids_fit_def int64_def)
  have lib: "decimal_lib (he_lib sample_hl_env)" by (simp add: sample_hl_env_def reference.decimal_lib_axioms)
  have id: "int_str 41 = ''41''" by code_simp
  obtain ack s' w' where place: "hl_Place sample_hl_env sample_hl_venue ?i ?sw = Some (Inr ack, s', w')" and ack: "oa_id ack = ''41''"
    using id by (simp add: hl_Place_def sdk_Place_def sdk_init_def SzDecimals_def refreshMeta_def fresh_hl_state_def hl_info_def
        hl_post_def sample_hl_env_def unmarshal_meta_def index_universe_def sample_hl_venue_def sized_order_def to_int32_def
        order_tif_def zero_order_def mapOrderStatus_def reference_declib_def trunc_to_def Let_def)
  have ok: "meta_ok (fst ?sw)" by simp
  have cancel: "snd (he_cancel sample_hl_env a c n w) = w\<lparr>hw_cancels := hw_cancels w @ [(c, n)]\<rparr>"
    "fst (he_cancel sample_hl_env a c n w) = None" for a c n w by (simp_all add: sample_hl_env_def)
  have "fst (hl_Cancel sample_hl_env sample_hl_venue ''41'' (s', w')) = None"
    using placed_order_can_be_cancelled [OF lib ok fit place, where w = w'] ack cancel
    by (auto simp: zero_order_def split_beta)
  with place ack show ?thesis by blast
qed

text \<open>The cancels the kill switch should send, in the order of the list: the reference.\<close>

fun sdk_cancel_all :: "'w hl_env \<Rightarrow> sdk_api \<Rightarrow> wire_open_order list \<Rightarrow> 'w \<Rightarrow> go_error option \<times> 'w" where
  "sdk_cancel_all E a [] w = (None, w)"
| "sdk_cancel_all E a (r # rs) w =
     (let (e, w1) = he_cancel E a (wo_coin r) (wo_oid r) w;
          (e', w2) = sdk_cancel_all E a rs w1
      in (first_error (map_option (Wrap ''hyperliquid: cancel'') e) e', w2))"

definition cancellable :: "wire_open_order \<Rightarrow> bool" where
  "cancellable r \<longleftrightarrow> wo_coin r \<noteq> [] \<and> int64 (wo_oid r)"

lemma int_str_inject: "int64 m \<Longrightarrow> int64 n \<Longrightarrow> int_str m = int_str n \<longleftrightarrow> m = n"
  by (metis parseOID_int_str sum.inject(2))

definition knows :: "hl_state \<Rightarrow> wire_open_order list \<Rightarrow> bool" where
  "knows s rs \<longleftrightarrow> (\<forall>r \<in> set rs. map_of (hs_order_sym s) (int_str (wo_oid r)) = Some (wo_coin r))"

lemma hl_Cancel_known:
  assumes "hv_sdk v" "hs_exchange s \<or> he_key E = None" "cancellable r" "knows s (r # rs)" "wo_oid r \<notin> wo_oid ` set rs"
    "\<forall>x \<in> set rs. cancellable x"
  shows "\<exists>s'. hl_Cancel E v (int_str (wo_oid r)) (s, w) =
      (let (e, w1) = he_cancel E (sdk_api_of v) (wo_coin r) (wo_oid r) w
       in (map_option (Wrap ''hyperliquid: cancel'') e, s', w1)) \<and> hs_exchange s' \<and> knows s' rs"
proof -
  let ?s = "snd (sdk_init E s)"
  have init: "sdk_init E s = (None, ?s)" "hs_exchange ?s" "hs_order_sym ?s = hs_order_sym s"
    using assms(2) by (auto simp: sdk_init_def)
  have sent: "sdk_Cancel E v (int_str (wo_oid r)) (wo_coin r) (s, w) =
      (let (e, w') = he_cancel E (sdk_api_of v) (wo_coin r) (wo_oid r) w in (map_option (Wrap ''hyperliquid: cancel'') e, ?s, w'))"
    using init assms(3) by (auto simp: sdk_Cancel_def parseOID_int_str cancellable_def split: prod.splits option.splits)
  have known: "map_of (hs_order_sym s) (int_str (wo_oid r)) = Some (wo_coin r)" using assms(4) by (simp add: knows_def)
  obtain e w1 where c: "he_cancel E (sdk_api_of v) (wo_coin r) (wo_oid r) w = (e, w1)" by fastforce
  let ?t = "if e = None then forgetOrder (int_str (wo_oid r)) ?s else ?s"
  have "knows ?t rs"
    using assms(3-6) init by (auto simp: knows_def forgetOrder_def delete_conv' cancellable_def int_str_inject image_iff)
  moreover have "hl_Cancel E v (int_str (wo_oid r)) (s, w) = (map_option (Wrap ''hyperliquid: cancel'') e, ?t, w1)"
    using sent c known assms(1) by (auto simp: hl_Cancel_def split: option.splits)
  ultimately show ?thesis using init c by (intro exI [of _ ?t]) (simp add: forgetOrder_def)
qed

lemma hl_perp_venue_sel [simp]:
  "pv_cancel (hl_perp_venue E v) = hl_Cancel E v" "pv_open_orders (hl_perp_venue E v) = hl_OpenOrders E v"
  "oo_id (open_order_of r) = int_str (wo_oid r)"
  by (simp_all add: hl_perp_venue_def open_order_of_def)

lemma cancel_each_hl:
  assumes "hv_sdk v" "hs_exchange s \<or> he_key E = None" "distinct (map wo_oid rs)" "\<forall>r \<in> set rs. cancellable r" "knows s rs"
  shows "\<exists>s'. cancel_each (hl_perp_venue E v) (map open_order_of rs) (st\<lparr>rs_world := (s, w)\<rparr>) =
    (let (e, w') = sdk_cancel_all E (sdk_api_of v) rs w in (e, st\<lparr>rs_world := (s', w')\<rparr>))"
  using assms(2-)
proof (induction rs arbitrary: s w)
  case (Cons r rs)
  obtain s1 where c: "hl_Cancel E v (int_str (wo_oid r)) (s, w) =
      (let (e, w1) = he_cancel E (sdk_api_of v) (wo_coin r) (wo_oid r) w in (map_option (Wrap ''hyperliquid: cancel'') e, s1, w1))"
    and s1: "hs_exchange s1" "knows s1 rs"
    using hl_Cancel_known [OF assms(1) Cons.prems(1) _ Cons.prems(4), of w] Cons.prems(2,3) by auto
  obtain e w1 where e: "he_cancel E (sdk_api_of v) (wo_coin r) (wo_oid r) w = (e, w1)" by fastforce
  obtain s2 where r: "cancel_each (hl_perp_venue E v) (map open_order_of rs) (st\<lparr>rs_world := (s1, w1)\<rparr>) =
    (let (e, w') = sdk_cancel_all E (sdk_api_of v) rs w1 in (e, st\<lparr>rs_world := (s2, w')\<rparr>))"
    using Cons.IH [of s1 w1] s1 Cons.prems(2,3) by auto
  then show ?case
    using c e by (intro exI [of _ s2]) (simp add: on_world_def split: prod.splits)
qed (auto intro: exI [of _ s])

lemma remember_all_knows:
  "distinct (map wo_oid rs) \<Longrightarrow> \<forall>r \<in> set rs. cancellable r \<Longrightarrow> knows (remember_all rs s) rs"
proof (induction rs rule: rev_induct)
  case (snoc r rs)
  then have "knows (remember_all rs s) rs" by simp
  then show ?case
    using snoc.prems
    by (auto simp: knows_def remember_all_def rememberOrder_def update_conv' cancellable_def int_str_inject image_iff)
qed (simp add: knows_def)

lemma remember_all_exchange: "hs_exchange (remember_all rs s) = hs_exchange s"
  by (induction rs arbitrary: s) (simp_all add: remember_all_def rememberOrder_def)

text \<open>
  C18: The kill switch's cancel pass works on Hyperliquid, even in a fresh process that placed none of the orders. Whenever the
  open-orders query answers with distinct order ids, the pass sends one cancel per open order, in the order of the answer, each with
  the order's own coin and number, whatever earlier cancels answered, and returns the first error.
\<close>

theorem kill_switch_cancels_on_hyperliquid:
  assumes "hv_sdk v" and "he_key E = None" and "hc_address (hv_cfg v) \<noteq> []"
    and answer: "hl_info E v (he_json_orders E) (info_of ''openOrders'' (hc_address (hv_cfg v))) w = (Inr rs, w1)"
    and "distinct (map wo_oid rs)" and "\<forall>r \<in> set rs. cancellable r"
    and "rs_world st = (s, w)"
  shows "\<exists>s'. cancelOpenOrders (hl_perp_venue E v) st =
    (let (e, w2) = sdk_cancel_all E (sdk_api_of v) rs w1 in (e, st\<lparr>rs_world := (s', w2)\<rparr>))"
proof -
  have "on_world (hl_OpenOrders E v) st = (Inr (map open_order_of rs), st\<lparr>rs_world := (remember_all rs s, w1)\<rparr>)"
    using assms(3,7) answer by (simp add: on_world_def hl_OpenOrders_def)
  then show ?thesis
    using cancel_each_hl [OF assms(1) _ assms(5,6) remember_all_knows [OF assms(5,6)], where st = st and w = w1] assms(2)
    by (simp add: cancelOpenOrders_def)
qed

theorem kill_switch_cancels_on_hyperliquid_witness:
  "\<exists>s' w2. cancelOpenOrders (hl_perp_venue sample_hl_env sample_hl_venue)
      \<lparr>rs_world = (fresh_hl_state, sample_hl_world), rs_db = empty_db, rs_open = [], rs_warmup = None\<rparr>
      = (None, \<lparr>rs_world = (s', w2), rs_db = empty_db, rs_open = [], rs_warmup = None\<rparr>)
    \<and> hw_cancels w2 = [(''WIF'', 7), (''SOL'', 12)]"
proof -
  let ?rs = "[\<lparr>wo_coin = ''WIF'', wo_oid = 7, wo_side = ''B''\<rparr>, \<lparr>wo_coin = ''SOL'', wo_oid = 12, wo_side = ''A''\<rparr>]"
  let ?st = "\<lparr>rs_world = (fresh_hl_state, sample_hl_world), rs_db = empty_db, rs_open = [], rs_warmup = None\<rparr>"
  have answer: "hl_info sample_hl_env sample_hl_venue (he_json_orders sample_hl_env) (info_of ''openOrders'' (hc_address (hv_cfg sample_hl_venue)))
      sample_hl_world = (Inr ?rs, sample_hl_world)"
    by (simp add: hl_info_def hl_post_def sample_hl_env_def Let_def)
  have "\<exists>s'. cancelOpenOrders (hl_perp_venue sample_hl_env sample_hl_venue) ?st =
      (let (e, w2) = sdk_cancel_all sample_hl_env (sdk_api_of sample_hl_venue) ?rs sample_hl_world in (e, ?st\<lparr>rs_world := (s', w2)\<rparr>))"
    by (rule kill_switch_cancels_on_hyperliquid [OF _ _ _ answer])
      (simp_all add: sample_hl_env_def sample_hl_venue_def cancellable_def int64_def)
  then show ?thesis by (auto simp: sample_hl_env_def sample_hl_world_def)
qed

end
