(* ===== verification/HyperliquidFeed.thy ===== *)
theory HyperliquidFeed
  imports Hyperliquid
begin

text \<open>
  The WebSocket feed of the Hyperliquid venue (\<open>ws.go\<close>): the subscription frames, and how a frame becomes a
  market event (\<open>pkg/types/market.go\<close>). Dialling, writing and reading the socket and decoding JSON
  are parameters, the record \<open>ws_env\<close>; the ping loop, which changes no state, is left out. Reading ends with
  the list of frames the peer sent, when the connection fails or the context is cancelled.
\<close>

record market_trade =
  tr_time :: time
  tr_venue :: string
  tr_symbol :: string
  tr_price :: decimal
  tr_size :: decimal
  tr_side :: side

text \<open>Exactly one member of the Go union is set, according to its kind.\<close>

datatype market_event = EventTick tick | EventBook book_snapshot | EventTrade market_trade | EventFunding funding_rate

record ws_env =
  we_lib :: declib
  we_envelope :: "string \<Rightarrow> (string \<times> string) option"
  we_mids :: "string \<Rightarrow> (string \<times> string) list option"
  we_book :: "string \<Rightarrow> l2_book option"
  we_trades :: "string \<Rightarrow> wire_trade list option"

definition millis_time :: "int \<Rightarrow> time" where
  "millis_time t = wrap64 (t * 1000000)"

text \<open>The first coin, in map order, whose price parses.\<close>

fun first_mid :: "declib \<Rightarrow> (string \<times> string) list \<Rightarrow> (string \<times> decimal) option" where
  "first_mid L [] = None"
| "first_mid L ((coin, m) # ms) = (case d_parse L m of None \<Rightarrow> first_mid L ms | Some d \<Rightarrow> Some (coin, d))"

definition parseAllMids :: "ws_env \<Rightarrow> time \<Rightarrow> string \<Rightarrow> market_event option" where
  "parseAllMids E now data =
     (case we_mids E data of
        None \<Rightarrow> None
      | Some ms \<Rightarrow>
          (case first_mid (we_lib E) ms of
             None \<Rightarrow> None
           | Some (coin, d) \<Rightarrow>
               Some (EventTick (zero_tick\<lparr>tk_time := now, tk_venue := VenueName, tk_symbol := coin, tk_last := d\<rparr>))))"

fun convert_levels :: "declib \<Rightarrow> wire_level list \<Rightarrow> book_level list" where
  "convert_levels L [] = []"
| "convert_levels L (l # ls) =
     (case (d_parse L (wl_px l), d_parse L (wl_sz l)) of
        (Some p, Some z) \<Rightarrow> \<lparr>bl_price = p, bl_size = z\<rparr> # convert_levels L ls
      | _ \<Rightarrow> convert_levels L ls)"

definition parseL2Book :: "ws_env \<Rightarrow> string \<Rightarrow> market_event option" where
  "parseL2Book E data =
     (case we_book E data of
        None \<Rightarrow> None
      | Some b \<Rightarrow>
          Some (EventBook \<lparr>bk_time = millis_time (l2_time b), bk_venue = VenueName, bk_symbol = l2_coin b,
            bk_bids = convert_levels (we_lib E) (l2_bids b), bk_asks = convert_levels (we_lib E) (l2_asks b)\<rparr>))"

definition parseTrades :: "ws_env \<Rightarrow> string \<Rightarrow> market_event option" where
  "parseTrades E data =
     (case we_trades E data of
        None \<Rightarrow> None
      | Some [] \<Rightarrow> None
      | Some (t # _) \<Rightarrow>
          Some (EventTrade \<lparr>tr_time = millis_time (wt_time t), tr_venue = VenueName, tr_symbol = wt_coin t,
            tr_price = decimalFromString (we_lib E) (wt_px t), tr_size = decimalFromString (we_lib E) (wt_sz t),
            tr_side = (if to_lower (wt_side t) = ''a'' then SideSell else SideBuy)\<rparr>))"

definition parseMessage :: "ws_env \<Rightarrow> time \<Rightarrow> string \<Rightarrow> market_event option" where
  "parseMessage E now raw =
     (case we_envelope E raw of
        None \<Rightarrow> None
      | Some (channel, data) \<Rightarrow>
          if channel = ''subscriptionResponse'' \<or> channel = ''pong'' then None
          else if channel = ''allMids'' then parseAllMids E now data
          else if channel = ''l2Book'' then parseL2Book E data
          else if channel = ''trades'' then parseTrades E data
          else None)"

text \<open>The frames \<open>subscribe\<close> writes: kind and coin, one for all mids, then two per symbol.\<close>

definition subscription_frames :: "string list \<Rightarrow> (string \<times> string) list" where
  "subscription_frames symbols = (''allMids'', []) # concat (map (\<lambda>s. [(''l2Book'', s), (''trades'', s)]) symbols)"

fun write_all :: "('f \<Rightarrow> 'w \<Rightarrow> go_error option \<times> 'w) \<Rightarrow> 'f list \<Rightarrow> 'w \<Rightarrow> go_error option \<times> 'w" where
  "write_all wr [] w = (None, w)"
| "write_all wr (f # fs) w =
     (case wr f w of
        (Some e, w1) \<Rightarrow> (Some e, w1)
      | (None, w1) \<Rightarrow> write_all wr fs w1)"

text \<open>\<open>events\<close> is what the channel delivers for the frames read at the given times.\<close>

fun events :: "ws_env \<Rightarrow> (time \<times> string) list \<Rightarrow> market_event list" where
  "events E [] = []"
| "events E ((now, raw) # rs) =
     (case parseMessage E now raw of None \<Rightarrow> events E rs | Some ev \<Rightarrow> ev # events E rs)"

definition subscribe ::
  "('w \<Rightarrow> go_error option \<times> 'w) \<Rightarrow> (string \<times> string \<Rightarrow> 'w \<Rightarrow> go_error option \<times> 'w) \<Rightarrow> string list \<Rightarrow> 'w
     \<Rightarrow> go_error option \<times> 'w" where
  "subscribe dial wr symbols w =
     (case dial w of
        (Some e, w1) \<Rightarrow> (Some (Wrap ''hyperliquid: ws dial'' e), w1)
      | (None, w1) \<Rightarrow> write_all wr (subscription_frames symbols) w1)"

definition hl_Subscribe ::
  "(string \<Rightarrow> 'w \<Rightarrow> go_error option \<times> 'w) \<Rightarrow> (string \<times> string \<Rightarrow> 'w \<Rightarrow> go_error option \<times> 'w) \<Rightarrow> hl_venue \<Rightarrow> string list
     \<Rightarrow> 'w \<Rightarrow> go_error option \<times> 'w" where
  "hl_Subscribe dial wr v symbols w =
     (case hl_endpoints (hv_cfg v) of
        Inl e \<Rightarrow> (Some e, w)
      | Inr ep \<Rightarrow> subscribe (dial (ep_ws ep)) wr symbols w)"

section \<open>Properties\<close>

definition event_symbol :: "market_event \<Rightarrow> string" where
  "event_symbol e = (case e of EventTick t \<Rightarrow> tk_symbol t | EventBook b \<Rightarrow> bk_symbol b
     | EventTrade t \<Rightarrow> tr_symbol t | EventFunding f \<Rightarrow> fr_symbol f)"

lemma events_append: "events E (xs @ ys) = events E xs @ events E ys"
  by (induction E xs rule: events.induct) (auto split: option.splits)

lemma convert_levels_filter:
  "convert_levels L ls = map (\<lambda>l. \<lparr>bl_price = decimalFromString L (wl_px l), bl_size = decimalFromString L (wl_sz l)\<rparr>)
     (filter (\<lambda>l. d_parse L (wl_px l) \<noteq> None \<and> d_parse L (wl_sz l) \<noteq> None) ls)"
  by (induction ls) (auto simp: decimalFromString_def split: option.splits)

text \<open>What an event has to do with the frame it came from.\<close>

definition event_of_frame :: "ws_env \<Rightarrow> string \<Rightarrow> string \<Rightarrow> market_event \<Rightarrow> bool" where
  "event_of_frame E channel data e \<longleftrightarrow>
     (case e of
        EventTick t \<Rightarrow> channel = ''allMids''
          \<and> (\<exists>ms m. we_mids E data = Some ms \<and> (tk_symbol t, m) \<in> set ms \<and> d_parse (we_lib E) m = Some (tk_last t))
      | EventBook b \<Rightarrow> channel = ''l2Book''
          \<and> (\<exists>k. we_book E data = Some k \<and> bk_symbol b = l2_coin k
              \<and> bk_bids b = map (\<lambda>l. \<lparr>bl_price = decimalFromString (we_lib E) (wl_px l), bl_size = decimalFromString (we_lib E) (wl_sz l)\<rparr>)
                  (filter (\<lambda>l. d_parse (we_lib E) (wl_px l) \<noteq> None \<and> d_parse (we_lib E) (wl_sz l) \<noteq> None) (l2_bids k)))
      | EventTrade t \<Rightarrow> channel = ''trades'' \<and> (\<exists>x xs. we_trades E data = Some (x # xs) \<and> tr_symbol t = wt_coin x)
      | EventFunding _ \<Rightarrow> False)"

lemma first_mid_in: "first_mid L ms = Some (c, d) \<Longrightarrow> \<exists>m. (c, m) \<in> set ms \<and> d_parse L m = Some d"
  by (induction L ms rule: first_mid.induct) (auto split: option.splits)

lemma parseAllMids_frame: "parseAllMids E now data = Some e \<Longrightarrow> event_of_frame E ''allMids'' data e"
  by (auto simp: parseAllMids_def event_of_frame_def zero_tick_def split: option.splits dest: first_mid_in)

lemma parseL2Book_frame: "parseL2Book E data = Some e \<Longrightarrow> event_of_frame E ''l2Book'' data e"
  by (auto simp: parseL2Book_def event_of_frame_def convert_levels_filter split: option.splits)

lemma parseTrades_frame: "parseTrades E data = Some e \<Longrightarrow> event_of_frame E ''trades'' data e"
  by (auto simp: parseTrades_def event_of_frame_def split: option.splits list.splits)

text \<open>
  The feed drops what it cannot read and invents nothing. Each frame yields at most one event, in the order the frames came; a book event
  lists exactly the levels of the frame whose price and size parse, in the frame's order; a trade event is the first trade of its frame,
  and a price event shows one coin of the frame with a price that parses.
\<close>

theorem feed_events_faithful:
  "length (events E fs) \<le> length fs
   \<and> events E (fs @ [(now, raw)]) = events E fs @ (case parseMessage E now raw of None \<Rightarrow> [] | Some e \<Rightarrow> [e])
   \<and> (case parseMessage E now raw of
        None \<Rightarrow> True
      | Some e \<Rightarrow> (\<exists>channel data. we_envelope E raw = Some (channel, data) \<and> event_of_frame E channel data e))"
proof -
  have "length (events E fs) \<le> length fs"
    by (induction E fs rule: events.induct) (auto split: option.splits)
  moreover have "\<exists>channel data. we_envelope E raw = Some (channel, data) \<and> event_of_frame E channel data e"
    if "parseMessage E now raw = Some e" for e
    using that by (auto simp: parseMessage_def split: option.splits if_splits
        intro: parseAllMids_frame parseL2Book_frame parseTrades_frame)
  ultimately show ?thesis by (simp add: events_append split: option.splits)
qed

end
