(* ===== verification/Base64.thy ===== *)
theory Base64
  imports GoText
begin

text \<open>
  \<open>base64.StdEncoding\<close> of Go's standard library: the padded alphabet of RFC 4648. The decoder skips line ends,
  does not check the unused bits of the last group, and rejects everything else that is not
  whole groups of four. Decoding what was encoded gives the bytes back.
\<close>

definition b64_char :: "nat \<Rightarrow> char" where
  "b64_char n =
     (if n < 26 then char_of (65 + n) else if n < 52 then char_of (71 + n)
      else if n < 62 then char_of (n - 4) else if n = 62 then CHR ''+'' else CHR ''/'')"

definition b64_val :: "char \<Rightarrow> nat option" where
  "b64_val c =
     (let n = (of_char c :: nat)
      in if 65 \<le> n \<and> n \<le> 90 then Some (n - 65)
         else if 97 \<le> n \<and> n \<le> 122 then Some (n - 71)
         else if 48 \<le> n \<and> n \<le> 57 then Some (n + 4)
         else if c = CHR ''+'' then Some 62 else if c = CHR ''/'' then Some 63 else None)"

fun b64_encode :: "bytes \<Rightarrow> string" where
  "b64_encode [] = []"
| "b64_encode [a] = [b64_char (unat a div 4), b64_char (unat a mod 4 * 16), CHR ''='', CHR ''='']"
| "b64_encode [a, b] =
     [b64_char (unat a div 4), b64_char (unat a mod 4 * 16 + unat b div 16), b64_char (unat b mod 16 * 4), CHR ''='']"
| "b64_encode (a # b # c # bs) =
     [b64_char (unat a div 4), b64_char (unat a mod 4 * 16 + unat b div 16),
      b64_char (unat b mod 16 * 4 + unat c div 64), b64_char (unat c mod 64)] @ b64_encode bs"

fun b64_groups :: "string \<Rightarrow> bytes option" where
  "b64_groups [] = Some []"
| "b64_groups (p # q # r # s # cs) =
     (case (b64_val p, b64_val q) of
        (Some x, Some y) \<Rightarrow>
          (if cs = [] \<and> r = CHR ''='' \<and> s = CHR ''='' then Some [word_of_nat (x * 4 + y div 16)]
           else case b64_val r of
               None \<Rightarrow> None
             | Some z \<Rightarrow>
                 (if cs = [] \<and> s = CHR ''='' then Some [word_of_nat (x * 4 + y div 16), word_of_nat (y mod 16 * 16 + z div 4)]
                  else case b64_val s of
                      None \<Rightarrow> None
                    | Some u \<Rightarrow> map_option (\<lambda>bs. word_of_nat (x * 4 + y div 16) # word_of_nat (y mod 16 * 16 + z div 4)
                                   # word_of_nat (z mod 4 * 64 + u) # bs) (b64_groups cs)))
      | _ \<Rightarrow> None)"
| "b64_groups _ = None"

definition b64_decode :: "string \<Rightarrow> bytes option" where
  "b64_decode s = b64_groups (filter (\<lambda>c. c \<noteq> CHR 0x0A \<and> c \<noteq> CHR 0x0D) s)"

lemma b64_encode_Nil [simp]: "b64_encode bs = [] \<longleftrightarrow> bs = []"
  by (cases bs rule: b64_encode.cases) simp_all

lemma b64_val_char [simp]: "n < 64 \<Longrightarrow> b64_val (b64_char n) = Some n"
  by (auto simp: b64_val_def b64_char_def Let_def)

lemma b64_char_clean:
  assumes "n < 64"
  shows "b64_char n \<noteq> CHR ''=''" "b64_char n \<noteq> CHR 0x0A" "b64_char n \<noteq> CHR 0x0D"
proof -
  have "b64_val (CHR ''='') = None" "b64_val (CHR 0x0A) = None" "b64_val (CHR 0x0D) = None" by code_simp+
  then show "b64_char n \<noteq> CHR ''=''" "b64_char n \<noteq> CHR 0x0A" "b64_char n \<noteq> CHR 0x0D"
    using b64_val_char [OF assms] by auto
qed

lemma byte_groups:
  fixes a b c :: byte
  shows "unat a div 4 < 64" "unat a mod 4 * 16 < 64" "unat a mod 4 * 16 + unat b div 16 < 64" "unat b mod 16 * 4 < 64"
    "unat b mod 16 * 4 + unat c div 64 < 64" "unat c mod 64 < 64"
  using byte_less [of a] byte_less [of b] byte_less [of c] by linarith+

lemma byte_parts:
  fixes b :: byte
  shows "unat b div 16 div 16 = 0" "unat b div 64 div 4 = 0" "unat b div 16 mod 16 = unat b div 16" "unat b div 64 mod 4 = unat b div 64"
proof -
  have "unat b div 16 < 16" "unat b div 64 < 4" using byte_less [of b] by linarith+
  then show "unat b div 16 div 16 = 0" "unat b div 64 div 4 = 0" "unat b div 16 mod 16 = unat b div 16" "unat b div 64 mod 4 = unat b div 64"
    by simp_all
qed

lemma b64_encode_clean: "filter (\<lambda>c. c \<noteq> CHR 0x0A \<and> c \<noteq> CHR 0x0D) (b64_encode bs) = b64_encode bs"
  by (induction bs rule: b64_encode.induct) (simp_all add: b64_char_clean byte_groups)

lemma b64_groups_encode: "b64_groups (b64_encode bs) = Some bs"
  by (induction bs rule: b64_encode.induct)
    (simp_all del: of_nat_add of_nat_mult add: b64_char_clean byte_groups byte_parts)

lemma b64_decode_encode [roundtrips]: "b64_decode (b64_encode bs) = Some bs"
  by (simp only: b64_decode_def b64_encode_clean b64_groups_encode)

end
