(* ===== verification/SolanaChain.thy ===== *)
theory SolanaChain
  imports Venues Base64
begin

text \<open>
  \<open>internal/chain/solana\<close>: the JSON-RPC client (rpc.go) and the client of the Jito block engine (jito.go). HTTP and
  JSON are parameters, the record \<open>sol_env\<close>; the RPC client's request counter is passed with the world. An
  error while reading a body is ignored, as in the code: the reply carries what was read.
\<close>

type_synonym sol_word = "64 word"

text \<open>The JSON values the code builds its requests from; \<open>JRaw\<close> is text that is JSON already.\<close>

datatype json =
    JText string | JBool bool | JNum int | JList "json list" | JObj "(string \<times> json) list" | JRaw string

record sol_error =
  so_code :: int
  so_message :: string
  so_data :: string

record sol_response =
  sp_jsonrpc :: string
  sp_id :: sol_word
  sp_result :: string
  sp_error :: "sol_error option"

record token_balance =
  tb_amount :: string
  tb_decimals :: int
  tb_ui_amount :: string

record token_account =
  ta_pubkey :: string
  ta_mint :: string
  ta_balance :: token_balance

record signature_status =
  sg_slot :: sol_word
  sg_confirmations :: "sol_word option"
  sg_confirmation :: string
  sg_err :: string

text \<open>\<open>se_http\<close> is one request: a transport error, or the status with the body read so far.\<close>

record 'w sol_env =
  se_marshal :: "json \<Rightarrow> go_error + string"
  se_new_request :: "string \<Rightarrow> string \<Rightarrow> go_error option"
  se_http :: "string \<Rightarrow> string \<Rightarrow> (string \<times> string) list \<Rightarrow> string option \<Rightarrow> 'w \<Rightarrow> (go_error + nat \<times> string) \<times> 'w"
  se_unmarshal :: "string \<Rightarrow> go_error + sol_response"
  se_json_value :: "string \<Rightarrow> go_error + sol_word"
  se_json_string :: "string \<Rightarrow> go_error + string"
  se_json_accounts :: "string \<Rightarrow> go_error + token_account list"
  se_json_statuses :: "string \<Rightarrow> go_error + signature_status option list"
  se_json_blockhash :: "string \<Rightarrow> go_error + string \<times> sol_word"
  se_json_bundle :: "string \<Rightarrow> go_error + string \<times> sol_error option"
  se_now :: "'w \<Rightarrow> time \<times> 'w"
  se_tick :: "'w \<Rightarrow> go_error option \<times> 'w"

type_synonym 'w sol_state = "sol_word \<times> 'w"

definition sol_error_text :: "sol_error \<Rightarrow> go_error" where
  "sol_error_text e = Errorf (''solana rpc '' @ int_str (so_code e) @ '': '' @ so_message e)"

definition sol_truncate :: "string \<Rightarrow> string" where
  "sol_truncate b = (if 1024 < length b then take 1024 b @ ''...'' else b)"

definition sol_NewClient :: "string \<Rightarrow> string" where
  "sol_NewClient url = TrimRight url (CHR ''/'')"

text \<open>\<open>z\<close> is the value of \<open>out\<close> before the call, which an absent result leaves alone.\<close>

definition sol_result ::
  "'w sol_env \<Rightarrow> string \<Rightarrow> 'a \<Rightarrow> (string \<Rightarrow> go_error + 'a) \<Rightarrow> nat \<Rightarrow> string \<Rightarrow> go_error + 'a" where
  "sol_result E method z decode status raw =
     (if status div 100 \<noteq> 2
      then Inl (Errorf (''solana: '' @ method @ '' '' @ nat_str status @ '': '' @ sol_truncate raw))
      else case se_unmarshal E raw of
          Inl e \<Rightarrow> Inl (Wrap ''solana: decode'' e)
        | Inr r \<Rightarrow>
            (case sp_error r of
               Some e \<Rightarrow> Inl (sol_error_text e)
             | None \<Rightarrow> if sp_result r = [] then Inr z else wrap_result ''solana: decode result'' (decode (sp_result r))))"

definition sol_call ::
  "'w sol_env \<Rightarrow> string \<Rightarrow> string \<Rightarrow> json \<Rightarrow> 'a \<Rightarrow> (string \<Rightarrow> go_error + 'a) \<Rightarrow> 'w sol_state \<Rightarrow> (go_error + 'a) \<times> 'w sol_state" where
  "sol_call E url method params z decode st =
     (let n = fst st + 1; w = snd st
      in case se_marshal E (JObj [(''jsonrpc'', JText ''2.0''), (''id'', JNum (uint n)), (''method'', JText method),
                                  (''params'', params)]) of
           Inl e \<Rightarrow> (Inl (Wrap ''solana: marshal'' e), n, w)
         | Inr body \<Rightarrow>
             (case se_new_request E ''POST'' url of
                Some e \<Rightarrow> (Inl e, n, w)
              | None \<Rightarrow>
                  (case se_http E ''POST'' url [(''Content-Type'', ''application/json'')] (Some body) w of
                     (Inl e, w1) \<Rightarrow> (Inl (Wrap ''solana: do'' e), n, w1)
                   | (Inr (status, raw), w1) \<Rightarrow> (sol_result E method z decode status raw, n, w1))))"

definition sol_GetBalance ::
  "'w sol_env \<Rightarrow> string \<Rightarrow> string \<Rightarrow> 'w sol_state \<Rightarrow> (go_error + sol_word) \<times> 'w sol_state" where
  "sol_GetBalance E url addr st =
     sol_call E url ''getBalance'' (JList [JText addr, JObj [(''commitment'', JText ''confirmed'')]]) 0 (se_json_value E) st"

definition GetTokenAccountsByOwner ::
  "'w sol_env \<Rightarrow> string \<Rightarrow> string \<Rightarrow> string \<Rightarrow> 'w sol_state \<Rightarrow> (go_error + token_account list) \<times> 'w sol_state" where
  "GetTokenAccountsByOwner E url owner mint st =
     sol_call E url ''getTokenAccountsByOwner''
       (JList [JText owner, JObj [(''mint'', JText mint)],
               JObj [(''encoding'', JText ''jsonParsed''), (''commitment'', JText ''confirmed'')]]) [] (se_json_accounts E) st"

definition SendTransaction ::
  "'w sol_env \<Rightarrow> string \<Rightarrow> string \<Rightarrow> bool \<Rightarrow> 'w sol_state \<Rightarrow> (go_error + string) \<times> 'w sol_state" where
  "SendTransaction E url b64tx skip_preflight st =
     sol_call E url ''sendTransaction''
       (JList [JText b64tx, JObj [(''encoding'', JText ''base64''), (''skipPreflight'', JBool skip_preflight), (''maxRetries'', JNum 0)]])
       [] (se_json_string E) st"

definition GetSignatureStatuses ::
  "'w sol_env \<Rightarrow> string \<Rightarrow> string list \<Rightarrow> bool \<Rightarrow> 'w sol_state \<Rightarrow> (go_error + signature_status option list) \<times> 'w sol_state" where
  "GetSignatureStatuses E url sigs history st =
     sol_call E url ''getSignatureStatuses''
       (JList [JList (map JText sigs), JObj [(''searchTransactionHistory'', JBool history)]]) [] (se_json_statuses E) st"

definition GetLatestBlockhash ::
  "'w sol_env \<Rightarrow> string \<Rightarrow> 'w sol_state \<Rightarrow> (go_error + string \<times> sol_word) \<times> 'w sol_state" where
  "GetLatestBlockhash E url st =
     sol_call E url ''getLatestBlockhash'' (JList [JObj [(''commitment'', JText ''confirmed'')]]) ([], 0) (se_json_blockhash E) st"

text \<open>The block engine: at most five transactions, one request without a counter. A body that does not marshal is sent empty.\<close>

definition SendBundle ::
  "'w sol_env \<Rightarrow> string \<Rightarrow> string list \<Rightarrow> 'w \<Rightarrow> (go_error + string) \<times> 'w" where
  "SendBundle E url txs w =
     (if txs = [] then (Inl (Errorf ''jito: empty bundle''), w)
      else if 5 < length txs then (Inl (Errorf ''jito: bundle exceeds 5 transactions''), w)
      else
        let body = (case se_marshal E (JObj [(''jsonrpc'', JText ''2.0''), (''id'', JNum 1), (''method'', JText ''sendBundle''),
                      (''params'', JList [JList (map JText txs), JObj [(''encoding'', JText ''base64'')]])]) of
                      Inl _ \<Rightarrow> [] | Inr b \<Rightarrow> b)
        in case se_new_request E ''POST'' url of
             Some e \<Rightarrow> (Inl e, w)
           | None \<Rightarrow>
               (case se_http E ''POST'' url [(''Content-Type'', ''application/json'')] (Some body) w of
                  (Inl e, w1) \<Rightarrow> (Inl (Wrap ''jito: do'' e), w1)
                | (Inr (status, raw), w1) \<Rightarrow>
                    (if status div 100 \<noteq> 2 then Inl (Errorf (''jito: '' @ nat_str status @ '': '' @ sol_truncate raw))
                     else case se_json_bundle E raw of
                         Inl e \<Rightarrow> Inl (Wrap ''jito: decode'' e)
                       | Inr (result, Some e) \<Rightarrow> Inl (sol_error_text e)
                       | Inr (result, None) \<Rightarrow> Inr result, w1)))"

end
