(* ===== verification/Polling.thy ===== *)
theory Polling
  imports Prelude
begin

text \<open>
  The polling loop the chain clients share (\<open>WaitForReceipt\<close> of \<open>internal/chain/evm/rpc.go\<close>, \<open>WaitConfirm\<close> of
  \<open>internal/swap/jupiter/venue.go\<close>): try; give up once the clock is past the deadline; wait for the ticker or
  the end of the context. \<open>None\<close> is a loop that never ends; it does end on every clock that moves with the ticks.
\<close>

partial_function (option) poll_until ::
  "('s \<Rightarrow> 'r option \<times> 's) \<Rightarrow> ('s \<Rightarrow> time \<times> 's) \<Rightarrow> ('s \<Rightarrow> go_error option \<times> 's) \<Rightarrow> time \<Rightarrow> 'r \<Rightarrow> (go_error \<Rightarrow> 'r)
     \<Rightarrow> 's \<Rightarrow> ('r \<times> 's) option" where
  "poll_until attempt now tick deadline expired cancelled s =
     (let (r, s1) = attempt s
      in if r \<noteq> None then Some (the r, s1)
         else
           (let (t, s2) = now s1
            in if deadline < t then Some (expired, s2)
               else
                 (let (err, s3) = tick s2
                  in if err \<noteq> None then Some (cancelled (the err), s3)
                     else poll_until attempt now tick deadline expired cancelled s3)))"

declare poll_until.simps [code]

text \<open>
  \<open>moving_clock\<close>: reading the clock tells the time of the state, neither a reading nor an attempt sets it
  back, and a tick that is not interrupted takes time.
\<close>

definition moving_clock ::
  "('s \<Rightarrow> time) \<Rightarrow> ('s \<Rightarrow> 'r option \<times> 's) \<Rightarrow> ('s \<Rightarrow> time \<times> 's) \<Rightarrow> ('s \<Rightarrow> go_error option \<times> 's) \<Rightarrow> bool" where
  "moving_clock clock attempt now tick \<longleftrightarrow>
     (\<forall>s. fst (now s) = clock s \<and> clock s \<le> clock (snd (now s))) \<and>
     (\<forall>s. clock s \<le> clock (snd (attempt s))) \<and>
     (\<forall>s s'. tick s = (None, s') \<longrightarrow> clock s < clock s')"

text \<open>The three ways the loop ends.\<close>

definition poll_outcome ::
  "('s \<Rightarrow> 'r option \<times> 's) \<Rightarrow> 'r \<Rightarrow> (go_error \<Rightarrow> 'r) \<Rightarrow> ('s \<Rightarrow> go_error option \<times> 's) \<Rightarrow> 'r \<Rightarrow> bool" where
  "poll_outcome attempt expired cancelled tick r \<longleftrightarrow>
     r = expired \<or> (\<exists>s. fst (attempt s) = Some r) \<or> (\<exists>s e. fst (tick s) = Some e \<and> r = cancelled e)"

lemma poll_until_sound:
  assumes "poll_until attempt now tick deadline expired cancelled s = Some y"
  shows "poll_outcome attempt expired cancelled tick (fst y)"
  using assms
proof (induction rule: poll_until.raw_induct [rotated, consumes 1])
  case (1 self attempt now tick deadline expired cancelled s y)
  obtain a s1 where a: "attempt s = (a, s1)" by fastforce
  obtain t s2 where t: "now s1 = (t, s2)" by fastforce
  obtain e s3 where e: "tick s2 = (e, s3)" by fastforce
  note run = 1(2) [unfolded a t e Let_def prod.case]
  show ?case
  proof (cases a)
    case (Some x)
    with run a have "fst (attempt s) = Some (fst y)" by auto
    then show ?thesis unfolding poll_outcome_def by blast
  next
    case None
    show ?thesis
    proof (cases "deadline < t")
      case True
      with run None show ?thesis by (auto simp: poll_outcome_def)
    next
      case False
      show ?thesis
      proof (cases e)
        case (Some x)
        with run e None False have "fst (tick s2) = Some x \<and> fst y = cancelled x" by auto
        then show ?thesis unfolding poll_outcome_def by blast
      next
        case no_error: None
        with run None False have "self attempt now tick deadline expired cancelled s3 = Some y" by simp
        then show ?thesis by (rule 1(1))
      qed
    qed
  qed
qed

lemma poll_until_returns:
  assumes "moving_clock clock attempt now tick"
  shows "\<exists>r s'. poll_until attempt now tick deadline expired cancelled s = Some (r, s')"
proof (induction "nat (deadline + 1 - clock s)" arbitrary: s rule: less_induct)
  case less
  obtain a s1 where a: "attempt s = (a, s1)" by fastforce
  obtain t s2 where t: "now s1 = (t, s2)" by fastforce
  obtain e s3 where e: "tick s2 = (e, s3)" by fastforce
  show ?case
  proof (cases "a = None \<and> \<not> deadline < t \<and> e = None")
    case False
    with a t e show ?thesis by (subst poll_until.simps) auto
  next
    case True
    have "clock s \<le> clock s1" "t = clock s1" "clock s1 \<le> clock s2" "clock s2 < clock s3"
      using assms a t e True unfolding moving_clock_def by (metis fst_conv snd_conv)+
    with True have "nat (deadline + 1 - clock s3) < nat (deadline + 1 - clock s)" by simp
    from less.hyps [OF this] show ?thesis using True a t e by (subst poll_until.simps) simp
  qed
qed

lemma poll_until_ends:
  assumes "moving_clock clock attempt now tick"
  shows "\<exists>r s'. poll_until attempt now tick deadline expired cancelled s = Some (r, s')
    \<and> poll_outcome attempt expired cancelled tick r"
  using poll_until_returns [OF assms] poll_until_sound by (metis fst_conv)

text \<open>A function of the world, on a state that has the world as its second part.\<close>

definition on_second :: "('w \<Rightarrow> 'a \<times> 'w) \<Rightarrow> 'c \<times> 'w \<Rightarrow> 'a \<times> 'c \<times> 'w" where
  "on_second f s = (let (x, w) = f (snd s) in (x, fst s, w))"

lemma fst_on_second [simp]: "fst (on_second f s) = fst (f (snd s))"
  by (simp add: on_second_def split: prod.splits)

lemma world_on_second [simp]: "snd (snd (on_second f s)) = snd (f (snd s))"
  by (simp add: on_second_def split: prod.splits)

end
