(* ===== verification/SubtensorChain.thy ===== *)
theory SubtensorChain
  imports StrategyConfig GoText
begin

text \<open>
  \<open>internal/chain/bittensor\<close>: the client of the Subtensor chain. \<open>codec.go\<close>: the hand-written SCALE pieces;
  \<open>client.go\<close>: connection, storage reads, custom RPCs and units; \<open>extrinsic.go\<close>: building, signing and submitting
  extrinsics. The library \<open>gsrpc\<close> (dialling, storage keys, SCALE of its own types), the sr25519 key and the
  RPC endpoint are parameters, the record \<open>chain_env\<close>. An operation that may not return (a polling loop) or that
  may slice out of range returns an option.
\<close>

unbundle bit_operations_syntax

type_synonym u16 = "16 word"
type_synonym u32 = "32 word"
type_synonym u64 = "64 word"

section \<open>Codec (codec.go)\<close>

definition encodeU16Compact :: "u16 \<Rightarrow> go_error + bytes" where
  "encodeU16Compact n =
     (if n < 2 ^ 6 then Inr [push_bit 2 (ucast n)]
      else if n < 2 ^ 14 then Inr (le_bytes 2 (unat (push_bit 2 n OR 1)))
      else Inr (le_bytes 4 (unat (push_bit 2 (ucast n :: u32) OR 2))))"

record simulated_swap =
  sim_amount_in :: u64
  sim_amount_out :: u64
  sim_fee :: u64

definition le_u64 :: "bytes \<Rightarrow> u64" where
  "le_u64 bs = word_of_nat (le_value (take 8 bs))"

text \<open>The second argument of the Go function is not used.\<close>

definition decodeSimSwapResult :: "bytes \<Rightarrow> u64 \<Rightarrow> go_error + simulated_swap" where
  "decodeSimSwapResult raw fallback_in =
     (if length raw < 24
      then Inl (Errorf (''subtensor: simSwap result truncated (got '' @ nat_str (length raw) @ '' bytes, need 24)''))
      else Inr \<lparr>sim_amount_in = le_u64 raw, sim_amount_out = le_u64 (drop 8 raw), sim_fee = le_u64 (drop 16 raw)\<rparr>)"

definition SS58Prefix :: u16 where
  "SS58Prefix = 42"

text \<open>\<open>ss58\<close> is the library's decoder: network prefix and payload.\<close>

definition decodeSS58 :: "(string \<Rightarrow> go_error + u16 \<times> bytes) \<Rightarrow> string \<Rightarrow> go_error + bytes" where
  "decodeSS58 ss58 s =
     (if s = [] then Inl (Errorf ''ss58: empty address'')
      else case ss58 s of
          Inl e \<Rightarrow> Inl (Wrap ''ss58 decode'' e)
        | Inr (pre, pub) \<Rightarrow>
            if pre \<noteq> SS58Prefix \<and> pre \<noteq> 0
            then Inl (Errorf (''ss58: unexpected network prefix '' @ nat_str (unat pre) @ '' (want 42 or 0)''))
            else if length pub \<noteq> 32
              then Inl (Errorf (''ss58: expected 32-byte payload, got '' @ nat_str (length pub)))
            else Inr pub)"

section \<open>Units and URLs (client.go)\<close>

definition RAOPerTAO :: int where
  "RAOPerTAO = 1000000000"

definition RAOToTAO :: "declib \<Rightarrow> u64 \<Rightarrow> decimal" where
  "RAOToTAO L rao = d_div L (of_nat (unat rao)) (of_int RAOPerTAO)"

definition TAOToRAO :: "declib \<Rightarrow> decimal \<Rightarrow> u64" where
  "TAOToRAO L tao =
     (let scaled = d_trunc L 0 (tao * of_int RAOPerTAO)
      in if scaled < 0 then 0
         else if 2 ^ 64 \<le> \<lfloor>scaled\<rfloor> then - 1
         else of_int \<lfloor>scaled\<rfloor>)"

definition normaliseWSURL :: "string \<Rightarrow> string" where
  "normaliseWSURL url =
     replace_first ''http://'' ''ws://'' (replace_first ''https://'' ''wss://'' (TrimRight url (CHR ''/'')))"

section \<open>The environment and the client\<close>

text \<open>\<open>SubtensorAccountInfo\<close>; a call names its pallet function and arguments, and may nest another call.\<close>

record account_info =
  ai_nonce :: u32
  ai_consumers :: u32
  ai_providers :: u32
  ai_sufficients :: u32
  ai_free :: u64
  ai_reserved :: u64
  ai_misc_frozen :: u64
  ai_fee_frozen :: u64

definition zero_account :: account_info where
  "zero_account = \<lparr>ai_nonce = 0, ai_consumers = 0, ai_providers = 0, ai_sufficients = 0, ai_free = 0, ai_reserved = 0,
     ai_misc_frozen = 0, ai_fee_frozen = 0\<rparr>"

datatype call_arg =
    ArgAccount bytes | ArgMultiAddress bytes | ArgU16 u16 | ArgU64 u64 | ArgCompact u64 | ArgBool bool | ArgCall chain_call
and chain_call = ChainCall string "call_arg list"

text \<open>The payload that is signed (always the immortal era) and the signature part of an extrinsic.\<close>

record sign_payload =
  sp_method :: bytes
  sp_nonce :: u64
  sp_tip :: u64
  sp_spec_version :: u32
  sp_tx_version :: u32
  sp_genesis :: bytes
  sp_block :: bytes

record ext_signature =
  xs_signer :: bytes
  xs_sig :: bytes
  xs_nonce :: u64
  xs_tip :: u64

record extrinsic =
  xt_version :: byte
  xt_method :: chain_call
  xt_signature :: "ext_signature option"

record 'w chain_env =
  ce_lib :: declib
  ce_ss58 :: "string \<Rightarrow> go_error + u16 \<times> bytes"
  ce_dial :: "string \<Rightarrow> 'w \<Rightarrow> go_error option \<times> 'w"
  ce_metadata :: "'w \<Rightarrow> go_error option \<times> 'w"
  ce_close :: "'w \<Rightarrow> 'w"
  ce_chain_name :: "'w \<Rightarrow> (go_error + string) \<times> 'w"
  ce_finalized_head :: "'w \<Rightarrow> (go_error + bytes) \<times> 'w"
  ce_header :: "bytes \<Rightarrow> 'w \<Rightarrow> (go_error + u32) \<times> 'w"
  ce_storage_key :: "string \<Rightarrow> string \<Rightarrow> bytes list \<Rightarrow> go_error + bytes"
  ce_get_account :: "bytes \<Rightarrow> 'w \<Rightarrow> (go_error + account_info option) \<times> 'w"
  ce_get_u64 :: "bytes \<Rightarrow> 'w \<Rightarrow> (go_error + u64 option) \<times> 'w"
  ce_get_u16 :: "bytes \<Rightarrow> 'w \<Rightarrow> (go_error + u16 option) \<times> 'w"
  ce_call_u64 :: "string \<Rightarrow> nat list \<Rightarrow> 'w \<Rightarrow> (go_error + u64) \<times> 'w"
  ce_call_bytes :: "string \<Rightarrow> nat list \<Rightarrow> 'w \<Rightarrow> (go_error + bytes) \<times> 'w"
  ce_genesis :: "'w \<Rightarrow> (go_error + bytes) \<times> 'w"
  ce_runtime :: "'w \<Rightarrow> (go_error + u32 \<times> u32) \<times> 'w"
  ce_submit :: "string \<Rightarrow> 'w \<Rightarrow> (go_error + bytes) \<times> 'w"
  ce_account_id :: "bytes \<Rightarrow> go_error + bytes"
  ce_multi_address :: "bytes \<Rightarrow> go_error + bytes"
  ce_new_call :: "chain_call \<Rightarrow> go_error option"
  ce_encode_call :: "chain_call \<Rightarrow> go_error + bytes"
  ce_encode_payload :: "sign_payload \<Rightarrow> go_error + bytes"
  ce_encode_signature :: "ext_signature \<Rightarrow> go_error + bytes"
  ce_compact :: "nat \<Rightarrow> go_error + bytes"
  ce_now :: "'w \<Rightarrow> time \<times> 'w"
  ce_wait :: "'w \<Rightarrow> go_error option \<times> 'w"
  ce_ctx_err :: "'w \<Rightarrow> go_error option \<times> 'w"

record chain_client =
  cl_url :: string
  cl_connected :: bool

type_synonym 'w on_chain = "chain_client \<times> 'w"

definition NewClient :: "string \<Rightarrow> chain_client" where
  "NewClient url = \<lparr>cl_url = normaliseWSURL url, cl_connected = False\<rparr>"

definition connect :: "'w chain_env \<Rightarrow> 'w on_chain \<Rightarrow> go_error option \<times> 'w on_chain" where
  "connect E cw =
     (let (c, w) = cw
      in if cl_connected c then (None, cw)
         else case ce_dial E (cl_url c) w of
             (Some e, w1) \<Rightarrow> (Some (Wrap (''subtensor: dial '' @ cl_url c) e), c, w1)
           | (None, w1) \<Rightarrow>
               (case ce_metadata E w1 of
                  (Some e, w2) \<Rightarrow> (Some (Wrap ''subtensor: get metadata'' e), c, w2)
                | (None, w2) \<Rightarrow> (None, c\<lparr>cl_connected := True\<rparr>, w2)))"

definition chain_Close :: "'w chain_env \<Rightarrow> 'w on_chain \<Rightarrow> 'w on_chain" where
  "chain_Close E cw = (if cl_connected (fst cw) then ((fst cw)\<lparr>cl_connected := False\<rparr>, ce_close E (snd cw)) else cw)"

text \<open>Every read connects first; \<open>connected\<close> runs the rest on the world.\<close>

definition connected ::
  "'w chain_env \<Rightarrow> ('w \<Rightarrow> (go_error + 'a) \<times> 'w) \<Rightarrow> 'w on_chain \<Rightarrow> (go_error + 'a) \<times> 'w on_chain" where
  "connected E f cw =
     (case connect E cw of
        (Some e, cw1) \<Rightarrow> (Inl e, cw1)
      | (None, c, w) \<Rightarrow> (let (r, w1) = f w in (r, c, w1)))"

definition GetChain :: "'w chain_env \<Rightarrow> 'w on_chain \<Rightarrow> (go_error + string) \<times> 'w on_chain" where
  "GetChain E = connected E (ce_chain_name E)"

definition GetBlockNumber :: "'w chain_env \<Rightarrow> 'w on_chain \<Rightarrow> (go_error + u64) \<times> 'w on_chain" where
  "GetBlockNumber E = connected E (\<lambda>w.
     case ce_finalized_head E w of
       (Inl e, w1) \<Rightarrow> (Inl e, w1)
     | (Inr h, w1) \<Rightarrow>
         (case ce_header E h w1 of
            (Inl e, w2) \<Rightarrow> (Inl e, w2)
          | (Inr n, w2) \<Rightarrow> (Inr (ucast n), w2)))"

text \<open>A read of one storage value: the key may be refused, the value may be absent.\<close>

definition read_storage ::
  "'w chain_env \<Rightarrow> string \<Rightarrow> string \<Rightarrow> string \<Rightarrow> string \<Rightarrow> bytes list \<Rightarrow> (bytes \<Rightarrow> 'w \<Rightarrow> (go_error + 'a) \<times> 'w) \<Rightarrow> 'w
     \<Rightarrow> (go_error + 'a) \<times> 'w" where
  "read_storage E key_msg msg pallet item keys get w =
     (case ce_storage_key E pallet item keys of
        Inl e \<Rightarrow> (Inl (Wrap key_msg e), w)
      | Inr k \<Rightarrow> wrap_error msg (get k w))"

definition GetAccount ::
  "'w chain_env \<Rightarrow> string \<Rightarrow> 'w on_chain \<Rightarrow> (go_error + account_info option) \<times> 'w on_chain" where
  "GetAccount E ss58 = connected E (\<lambda>w.
     case decodeSS58 (ce_ss58 E) ss58 of
       Inl e \<Rightarrow> (Inl (Wrap (''subtensor: decode ss58 '' @ quoted ss58) e), w)
     | Inr pub \<Rightarrow>
         read_storage E ''subtensor: create storage key'' ''subtensor: get account'' ''System'' ''Account'' [pub] (ce_get_account E) w)"

definition GetTAOBalance :: "'w chain_env \<Rightarrow> string \<Rightarrow> 'w on_chain \<Rightarrow> (go_error + u64) \<times> 'w on_chain" where
  "GetTAOBalance E ss58 cw =
     (case GetAccount E ss58 cw of
        (Inl e, cw1) \<Rightarrow> (Inl e, cw1)
      | (Inr None, cw1) \<Rightarrow> (Inr 0, cw1)
      | (Inr (Some a), cw1) \<Rightarrow> (Inr (ai_free a), cw1))"

definition netuid_le :: "u16 \<Rightarrow> bytes" where
  "netuid_le n = [ucast n, ucast (drop_bit 8 n)]"

definition present :: "'a \<Rightarrow> (go_error + 'a option) \<times> 'w \<Rightarrow> (go_error + 'a) \<times> 'w" where
  "present z r = (case r of (Inl e, w) \<Rightarrow> (Inl e, w) | (Inr None, w) \<Rightarrow> (Inr z, w) | (Inr (Some x), w) \<Rightarrow> (Inr x, w))"

definition GetAlphaStake ::
  "'w chain_env \<Rightarrow> string \<Rightarrow> string \<Rightarrow> u16 \<Rightarrow> 'w on_chain \<Rightarrow> (go_error + u64) \<times> 'w on_chain" where
  "GetAlphaStake E hotkey coldkey netuid = connected E (\<lambda>w.
     case decodeSS58 (ce_ss58 E) hotkey of
       Inl e \<Rightarrow> (Inl (Wrap ''subtensor: decode hotkey'' e), w)
     | Inr h \<Rightarrow>
         (case decodeSS58 (ce_ss58 E) coldkey of
            Inl e \<Rightarrow> (Inl (Wrap ''subtensor: decode coldkey'' e), w)
          | Inr c \<Rightarrow>
              present 0 (read_storage E (''subtensor: alpha storage key (netuid='' @ nat_str (unat netuid) @ '')'')
                ''subtensor: get alpha'' ''SubtensorModule'' ''Alpha'' [h, c, netuid_le netuid] (ce_get_u64 E) w)))"

definition GetTotalHotkeyAlpha ::
  "'w chain_env \<Rightarrow> string \<Rightarrow> u16 \<Rightarrow> 'w on_chain \<Rightarrow> (go_error + u64) \<times> 'w on_chain" where
  "GetTotalHotkeyAlpha E hotkey netuid = connected E (\<lambda>w.
     case decodeSS58 (ce_ss58 E) hotkey of
       Inl e \<Rightarrow> (Inl (Wrap ''subtensor: decode hotkey'' e), w)
     | Inr h \<Rightarrow>
         present 0 (read_storage E ''subtensor: TotalHotkeyAlpha key'' ''subtensor: TotalHotkeyAlpha''
           ''SubtensorModule'' ''TotalHotkeyAlpha'' [h, netuid_le netuid] (ce_get_u64 E) w))"

definition SubnetCount :: "'w chain_env \<Rightarrow> 'w on_chain \<Rightarrow> (go_error + u16) \<times> 'w on_chain" where
  "SubnetCount E = connected E (\<lambda>w.
     present 0 (read_storage E ''subtensor: total networks key'' ''subtensor: total networks''
       ''SubtensorModule'' ''TotalNetworks'' [[]] (ce_get_u16 E) w))"

section \<open>Prices and simulations\<close>

definition CurrentAlphaPrice :: "'w chain_env \<Rightarrow> u16 \<Rightarrow> 'w on_chain \<Rightarrow> (go_error + decimal) \<times> 'w on_chain" where
  "CurrentAlphaPrice E netuid = connected E (\<lambda>w.
     case ce_call_u64 E ''swap_currentAlphaPrice'' [unat netuid] w of
       (Inl e, w1) \<Rightarrow> (Inl (Wrap (''subtensor: swap_currentAlphaPrice('' @ nat_str (unat netuid) @ '')'') e), w1)
     | (Inr p, w1) \<Rightarrow> (Inr (RAOToTAO (ce_lib E) p), w1))"

definition simulate ::
  "'w chain_env \<Rightarrow> string \<Rightarrow> string \<Rightarrow> u16 \<Rightarrow> u64 \<Rightarrow> 'w on_chain \<Rightarrow> (go_error + simulated_swap) \<times> 'w on_chain" where
  "simulate E rpc msg netuid amount = connected E (\<lambda>w.
     case ce_call_bytes E rpc [unat netuid, unat amount] w of
       (Inl e, w1) \<Rightarrow> (Inl (Wrap msg e), w1)
     | (Inr raw, w1) \<Rightarrow> (decodeSimSwapResult raw amount, w1))"

definition SimSwapTaoForAlpha ::
  "'w chain_env \<Rightarrow> u16 \<Rightarrow> u64 \<Rightarrow> 'w on_chain \<Rightarrow> (go_error + simulated_swap) \<times> 'w on_chain" where
  "SimSwapTaoForAlpha E = simulate E ''swap_simSwapTaoForAlpha'' ''subtensor: simSwapTaoForAlpha''"

definition SimSwapAlphaForTao ::
  "'w chain_env \<Rightarrow> u16 \<Rightarrow> u64 \<Rightarrow> 'w on_chain \<Rightarrow> (go_error + simulated_swap) \<times> 'w on_chain" where
  "SimSwapAlphaForTao E = simulate E ''swap_simSwapAlphaForTao'' ''subtensor: simSwapAlphaForTao''"

record subnet_summary =
  sn_netuid :: u16
  sn_alpha_price :: decimal

text \<open>
  The loop counter is a \<open>uint16\<close>, which wraps around. The results are gathered with an error: the
  context's, with what was found so far.
\<close>

partial_function (option) list_from ::
  "'w chain_env \<Rightarrow> u16 \<Rightarrow> u16 \<Rightarrow> subnet_summary list \<Rightarrow> 'w on_chain
     \<Rightarrow> ((subnet_summary list \<times> go_error option) \<times> 'w on_chain) option" where
  "list_from E mx netuid out cw =
     (if \<not> netuid \<le> mx then Some ((out, None), cw)
      else
        (let (err, w1) = ce_ctx_err E (snd cw)
         in if err \<noteq> None then Some ((out, err), fst cw, w1)
            else
              (let (r, cw2) = CurrentAlphaPrice E netuid (fst cw, w1);
                   out' = (case r of Inl _ \<Rightarrow> out | Inr p \<Rightarrow> out @ [\<lparr>sn_netuid = netuid, sn_alpha_price = p\<rparr>])
               in list_from E mx (netuid + 1) out' cw2)))"

definition ListSubnets ::
  "'w chain_env \<Rightarrow> u16 \<Rightarrow> 'w on_chain \<Rightarrow> ((subnet_summary list \<times> go_error option) \<times> 'w on_chain) option" where
  "ListSubnets E mx0 cw = (let mx = (if mx0 = 0 then 128 else mx0) in list_from E mx 1 [] cw)"

declare list_from.simps [code]

section \<open>Properties of the codec and the units\<close>

text \<open>
  The SCALE specification of compact integers: the low two bits of the first byte give the number of
  bytes, the rest is little-endian. The decoder hands back what it did not read.
\<close>

fun decode_compact :: "bytes \<Rightarrow> (nat \<times> bytes) option" where
  "decode_compact [] = None"
| "decode_compact (b # bs) =
     (if unat b mod 4 = 0 then Some (unat b div 4, bs)
      else if unat b mod 4 = 1 then
        (if length bs < 1 then None else Some (le_value (b # take 1 bs) div 4, drop 1 bs))
      else if unat b mod 4 = 2 then
        (if length bs < 3 then None else Some (le_value (b # take 3 bs) div 4, drop 3 bs))
      else None)"

lemma unat_ucast_mod: "unat (ucast (w :: 'a :: len word) :: 'b :: len word) = unat w mod 2 ^ LENGTH('b)"
  by (simp add: unsigned_ucast_eq take_bit_eq_mod)

lemma unat_mode:
  "n < 2 ^ 14 \<Longrightarrow> unat (push_bit 2 n OR 1 :: u16) = 4 * unat n + 1"
  "unat (push_bit 2 (ucast n :: u32) OR 2) = 4 * unat (n :: u16) + 2"
proof -
  have low1: "push_bit 2 x OR 1 = push_bit 2 x + 1" for x :: "'a :: len word"
    by (rule disjunctive_add [symmetric]) (auto simp: bit_simps)
  have low2: "push_bit 2 x OR 2 = push_bit 2 x + 2" for x :: "'a :: len word"
    by (rule disjunctive_add [symmetric]) (auto simp: bit_simps)
  show "unat (push_bit 2 n OR 1 :: u16) = 4 * unat n + 1" if "n < 2 ^ 14"
  proof -
    have "unat n < 2 ^ 14" using that by (simp add: word_less_nat_alt)
    then show ?thesis unfolding low1 by (simp add: push_bit_eq_mult unat_word_ariths)
  qed
  have "unat n < 2 ^ 16" using unsigned_less [of n, where ?'a = nat] by simp
  then show "unat (push_bit 2 (ucast n :: u32) OR 2) = 4 * unat n + 2"
    unfolding low2 by (simp add: push_bit_eq_mult unat_word_ariths unat_ucast_mod)
qed

lemma le_bytes_head: "0 < n \<Longrightarrow> le_bytes n x = word_of_nat x # le_bytes (n - 1) (x div 256)"
  by (cases n) simp_all

lemma decode_le_bytes:
  assumes "x mod 4 = m" "m = 1 \<and> n = 2 \<or> m = 2 \<and> n = 4" "x < 256 ^ n"
  shows "decode_compact (le_bytes n x @ rest) = Some (x div 4, rest)"
proof -
  have "x mod 256 mod 4 = x mod 4" using mod_mod_cancel [of 4 256 x] by simp
  then have mode: "unat (word_of_nat x :: byte) mod 4 = m" using assms(1) by (simp add: unat_of_nat)
  have val: "le_value (le_bytes n x) = x" using assms(3) by (rule le_value_bytes_small)
  have "le_bytes n x = word_of_nat x # le_bytes (n - 1) (x div 256)" using assms(2) by (intro le_bytes_head) auto
  with mode val assms(2) show ?thesis by auto
qed

text \<open>
  The compact encoding of a netuid is the canonical SCALE one. Every 16-bit number encodes without error to one, two or four
  bytes, the fewest the format allows for it, and the decoder of the SCALE specification reads the number back and leaves
  whatever follows untouched.
\<close>

theorem compact_netuid_roundtrip:
  "\<exists>bs. encodeU16Compact n = Inr bs
     \<and> decode_compact (bs @ rest) = Some (unat n, rest)
     \<and> length bs = (if unat n < 64 then 1 else if unat n < 16384 then 2 else 4)"
proof -
  have lt: "unat n < 2 ^ 16" using unsigned_less [of n, where ?'a = nat] by simp
  have 1: "n < 64 \<longleftrightarrow> unat n < 64" "n < 16384 \<longleftrightarrow> unat n < 16384" by (simp_all add: word_less_nat_alt)
  show ?thesis
  proof (cases "unat n < 64")
    case True
    then have "unat (push_bit 2 (ucast n) :: byte) = 4 * unat n"
      by (simp add: push_bit_eq_mult unat_word_ariths unat_ucast_mod)
    with True show ?thesis by (simp add: encodeU16Compact_def 1)
  next
    case False
    show ?thesis
    proof (cases "unat n < 16384")
      case True
      with False show ?thesis
        using decode_le_bytes [of "4 * unat n + 1" 1 2 rest] by (simp add: encodeU16Compact_def 1 unat_mode)
    next
      case big: False
      have "(4 * unat n + 2) mod 4 = 2" "(4 * unat n + 2) div 4 = unat n" by presburger+
      with decode_le_bytes [of "4 * unat n + 2" 2 4 rest] lt
      have "decode_compact (le_bytes 4 (4 * unat n + 2) @ rest) = Some (unat n, rest)" by simp
      with False big show ?thesis by (simp add: encodeU16Compact_def 1 unat_mode)
    qed
  qed
qed

text \<open>
  The result of a swap simulation is read field by field. Three 64-bit numbers written little-endian one after the
  other decode to those three numbers, whatever bytes follow; an answer
  shorter than the three numbers is an error, never a result with zeros.
\<close>

theorem simulation_roundtrip:
  "decodeSimSwapResult (le_bytes 8 (unat a) @ le_bytes 8 (unat b) @ le_bytes 8 (unat c) @ rest) f
     = Inr \<lparr>sim_amount_in = a, sim_amount_out = b, sim_fee = c\<rparr>
   \<and> ((\<exists>e. decodeSimSwapResult raw f = Inl e) \<longleftrightarrow> length raw < 24)"
proof -
  have u: "unat (x :: u64) < 256 ^ 8" for x using unsigned_less [of x, where ?'a = nat] by simp
  have "le_value (le_bytes 8 (unat (x :: u64))) = unat x" for x by (rule le_value_bytes_small [OF u])
  then show ?thesis by (simp add: decodeSimSwapResult_def le_u64_def)
qed

text \<open>
  Amounts survive the change of unit. Every \<open>uint64\<close> of RAO becomes TAO and back without loss; and whatever TAO amount is converted,
  the RAO never exceed it, fall short by less than one RAO, and saturate instead of wrapping around.
\<close>

theorem tao_rao_roundtrip:
  assumes "decimal_lib L"
  shows "TAOToRAO L (RAOToTAO L n) = n
    \<and> (0 \<le> t \<longrightarrow> of_nat (unat (TAOToRAO L t)) \<le> t * of_int RAOPerTAO
        \<and> (t * of_int RAOPerTAO < 2 ^ 64 \<longrightarrow> t * of_int RAOPerTAO < of_nat (unat (TAOToRAO L t)) + 1))"
proof -
  define k where "k = unat n"
  have k: "unat n = k" "n = word_of_nat k" by (simp_all add: k_def)
  have lt: "k < 2 ^ 64" using unsigned_less [of n, where ?'a = nat] k(1) by simp
  have "RAOToTAO L n = of_nat (unat n) / of_int RAOPerTAO"
    unfolding RAOToTAO_def
  proof (rule decimal_lib.div_exact [OF assms])
    have "of_nat (unat n) / of_int RAOPerTAO * 10 ^ 16 = (of_nat (unat n * 10000000) :: decimal)" by (simp add: RAOPerTAO_def)
    then show "of_nat (unat n) / of_int RAOPerTAO * 10 ^ 16 \<in> (\<int> :: decimal set)" by (simp only: Ints_of_nat)
  qed (simp add: RAOPerTAO_def)
  then have "RAOToTAO L n * of_int RAOPerTAO = of_nat k" unfolding k(1) by (simp add: RAOPerTAO_def)
  moreover have tr: "d_trunc L 0 x = of_int \<lfloor>x\<rfloor>" if "0 \<le> x" for x
  proof -
    obtain k where k: "d_trunc L 0 x = of_int k" using decimal_lib.trunc_int [OF assms, of x] by (auto elim: Ints_cases)
    with decimal_lib.trunc_bounds [OF assms that, of 0] have "\<lfloor>x\<rfloor> = k" by (simp add: floor_eq_iff)
    with k show ?thesis by simp
  qed
  ultimately have "TAOToRAO L (RAOToTAO L n) = word_of_nat k"
    using lt tr [of "of_nat k"] by (simp add: TAOToRAO_def Let_def)
  then have "TAOToRAO L (RAOToTAO L n) = n" unfolding k(2) .
  moreover have "of_nat (unat (TAOToRAO L t)) \<le> t * of_int RAOPerTAO
      \<and> (t * of_int RAOPerTAO < 2 ^ 64 \<longrightarrow> t * of_int RAOPerTAO < of_nat (unat (TAOToRAO L t)) + 1)" if t: "0 \<le> t"
  proof -
    let ?x = "t * of_int RAOPerTAO"
    have x: "0 \<le> ?x" using t by (simp add: RAOPerTAO_def)
    show ?thesis
    proof (cases "2 ^ 64 \<le> \<lfloor>?x\<rfloor>")
      case True
      then have "TAOToRAO L t = - 1" using tr [OF x] x by (simp add: TAOToRAO_def Let_def)
      moreover have "2 ^ 64 \<le> ?x" using True by (simp add: le_floor_iff)
      moreover have "unat (- 1 :: u64) = 2 ^ 64 - 1" by (simp add: unsigned_minus_1_eq_mask mask_eq_exp_minus_1)
      ultimately show ?thesis by (simp del: of_nat_unat)
    next
      case False
      then have "TAOToRAO L t = of_int \<lfloor>?x\<rfloor>" using tr [OF x] x by (simp add: TAOToRAO_def Let_def)
      moreover obtain m where m: "\<lfloor>?x\<rfloor> = int m" using x by (metis nonneg_int_cases zero_le_floor)
      moreover have "m < 2 ^ 64" using False m by simp
      ultimately have "unat (TAOToRAO L t) = m" by (simp add: unat_of_nat)
      moreover have "of_nat m \<le> ?x" "?x < of_nat m + 1" using floor_correct [of ?x] m by simp_all
      ultimately show ?thesis by (simp del: of_nat_unat)
    qed
  qed
  ultimately show ?thesis by blast
qed

theorem tao_rao_roundtrip_witness:
  "TAOToRAO reference_declib (RAOToTAO reference_declib 1500000000) = 1500000000"
  using tao_rao_roundtrip [OF reference.decimal_lib_axioms] by blast

section \<open>Listing the subnets terminates, or not\<close>

definition ascending :: "nat \<Rightarrow> subnet_summary list \<Rightarrow> bool" where
  "ascending b out \<longleftrightarrow> sorted_wrt (<) (map (unat \<circ> sn_netuid) out)
     \<and> (\<forall>x \<in> set out. 1 \<le> unat (sn_netuid x) \<and> unat (sn_netuid x) < b)"

lemma unat_suc: "unat (n :: u16) < 65535 \<Longrightarrow> unat (n + 1) = unat n + 1"
  by (simp add: unat_word_ariths)

lemma ascending_snoc:
  "ascending (unat n) out \<Longrightarrow> 1 \<le> unat n \<Longrightarrow> ascending (Suc (unat n)) (out @ [\<lparr>sn_netuid = n, sn_alpha_price = p\<rparr>])"
  by (auto simp: ascending_def sorted_wrt_append)

lemma ascending_weaken: "ascending b out \<Longrightarrow> b \<le> c \<Longrightarrow> ascending c out"
  by (auto simp: ascending_def)

lemma list_from_returns:
  assumes "unat mx < 65535" "1 \<le> unat netuid" "unat netuid \<le> unat mx + 1" "ascending (unat netuid) out"
  shows "\<exists>res err cw'. list_from E mx netuid out cw = Some ((res, err), cw') \<and> ascending (unat mx + 1) res"
  using assms(2-)
proof (induction "unat mx + 1 - unat netuid" arbitrary: netuid out cw rule: less_induct)
  case less
  show ?case
  proof (cases "netuid \<le> mx")
    case False
    then show ?thesis using less.prems by (subst list_from.simps) (auto intro: ascending_weaken)
  next
    case True
    then have le: "unat netuid \<le> unat mx" by (simp add: word_le_nat_alt)
    then have nxt: "unat (netuid + 1) = unat netuid + 1" using assms(1) by (intro unat_suc) simp
    obtain err w1 where c: "ce_ctx_err E (snd cw) = (err, w1)" by fastforce
    obtain r cw2 where p: "CurrentAlphaPrice E netuid (fst cw, w1) = (r, cw2)" by (metis surj_pair)
    let ?out = "case r of Inl _ \<Rightarrow> out | Inr p \<Rightarrow> out @ [\<lparr>sn_netuid = netuid, sn_alpha_price = p\<rparr>]"
    have "ascending (unat (netuid + 1)) ?out"
      using less.prems nxt by (auto split: sum.splits intro: ascending_weaken) (simp add: ascending_snoc)
    moreover have "unat mx + 1 - unat (netuid + 1) < unat mx + 1 - unat netuid" "1 \<le> unat (netuid + 1)" "unat (netuid + 1) \<le> unat mx + 1"
      using le nxt by simp_all
    ultimately obtain res e cw' where "list_from E mx (netuid + 1) ?out cw2 = Some ((res, e), cw')" "ascending (unat mx + 1) res"
      using less.hyps by blast
    then show ?thesis
      using True c p less.prems by (subst list_from.simps) (auto simp: Let_def intro: ascending_weaken)
  qed
qed

lemma list_from_endless:
  "list_from E mx netuid out cw = Some y \<Longrightarrow> mx = - 1 \<Longrightarrow> (\<forall>w. fst (ce_ctx_err E w) = None) \<Longrightarrow> False"
proof (induction rule: list_from.raw_induct [rotated, consumes 1])
  case (1 lf E mx netuid out cw y)
  obtain w1 where w1: "ce_ctx_err E (snd cw) = (None, w1)" using 1(4) by (metis prod.collapse)
  obtain r cw2 where p: "CurrentAlphaPrice E netuid (fst cw, w1) = (r, cw2)" by (metis surj_pair)
  have "lf E mx (netuid + 1) (case r of Inl _ \<Rightarrow> out | Inr p \<Rightarrow> out @ [\<lparr>sn_netuid = netuid, sn_alpha_price = p\<rparr>]) cw2 = Some y"
    using 1(2,3) w1 p by (simp add: Let_def)
  from 1(1) [OF this 1(3,4)] show ?case .
qed

text \<open>
  Listing the subnets ends, except at the largest bound. For any bound below 65535 (0 standing for 128) \<open>ListSubnets\<close> returns, with each subnet
  at most once, in ascending order and within the bound. With the bound 65535 the 16-bit loop
  counter wraps around before it exceeds the bound, so unless the context is cancelled it never returns.
\<close>

theorem list_subnets_terminates:
  "(unat mx < 65535 \<longrightarrow> (\<exists>res err cw'. ListSubnets E mx cw = Some ((res, err), cw')
      \<and> ascending ((if mx = 0 then 128 else unat mx) + 1) res))
   \<and> ((\<forall>w. fst (ce_ctx_err E w) = None) \<longrightarrow> ListSubnets E (- 1) cw = None)"
proof -
  have "\<exists>res err cw'. ListSubnets E mx cw = Some ((res, err), cw') \<and> ascending ((if mx = 0 then 128 else unat mx) + 1) res"
    if mx: "unat mx < 65535"
  proof -
    let ?m = "if mx = 0 then 128 else mx"
    have "unat ?m < 65535" "1 \<le> unat ?m" using mx by (auto simp: unat_eq_zero Suc_le_eq intro: gr0I)
    from list_from_returns [OF this(1), of 1 "[]" E cw] this(2) show ?thesis
      by (auto simp: ListSubnets_def Let_def ascending_def split: if_splits)
  qed
  moreover have "ListSubnets E (- 1) cw = None" if "\<forall>w. fst (ce_ctx_err E w) = None"
    using list_from_endless [OF _ _ that, of "- 1" 1 "[]" cw] by (cases "ListSubnets E (- 1) cw") (auto simp: ListSubnets_def)
  ultimately show ?thesis by blast
qed

end
