(* ===== verification/SubtensorExtrinsic.thy ===== *)
theory SubtensorExtrinsic
  imports SubtensorChain
begin

text \<open>
  \<open>extrinsic.go\<close>: the calls the trading agent submits to Subtensor, how an extrinsic is signed and written with Subtensor's extra signed
  extensions, and the wait for its inclusion. \<open>SubmitResult\<close> is returned together with an error, as the Go functions do. The
  result \<open>None\<close> stands for a call that does not come back: the wait loop does not end, or a
  slice expression is out of range.
\<close>

record chain_signer =
  sg_address :: string
  sg_public :: bytes
  sg_sign :: "(bytes \<Rightarrow> go_error + bytes) option"

record submit_result =
  sb_tx_hash :: bytes
  sb_block_hash :: bytes
  sb_finalized :: bool

definition zero_submit :: submit_result where
  "zero_submit = \<lparr>sb_tx_hash = replicate 32 0, sb_block_hash = replicate 32 0, sb_finalized = False\<rparr>"

record submit_options =
  su_tip_rao :: u64
  su_wait_timeout :: duration

type_synonym submit_outcome = "submit_result \<times> go_error option"

section \<open>Signing and encoding\<close>

definition ext_type :: "extrinsic \<Rightarrow> byte" where
  "ext_type x = xt_version x AND 0x7F"

definition is_signed :: "extrinsic \<Rightarrow> bool" where
  "is_signed x \<longleftrightarrow> xt_version x AND 0x80 = 0x80"

text \<open>The mode byte goes before the last 72 bytes, the absent metadata hash after them.\<close>

definition signing_payload :: "bytes \<Rightarrow> bytes option" where
  "signing_payload std =
     (if length std < 72 then None
      else let n = length std - 72 in Some (take n std @ [0x00] @ drop n std @ [0x00]))"

definition signExtrinsicWithKeypair ::
  "'w chain_env \<Rightarrow> extrinsic \<Rightarrow> (bytes \<Rightarrow> go_error + bytes) \<Rightarrow> bytes \<Rightarrow> sign_payload \<Rightarrow> (go_error + extrinsic) option" where
  "signExtrinsicWithKeypair E x sign pub o1 =
     (if ext_type x \<noteq> 4
      then Some (Inl (Errorf (''unsupported extrinsic version: '' @ nat_str (unat (xt_version x)))))
      else case ce_encode_call E (xt_method x) of
          Inl e \<Rightarrow> Some (Inl e)
        | Inr mb \<Rightarrow>
            (case ce_encode_payload E (o1\<lparr>sp_method := mb\<rparr>) of
               Inl e \<Rightarrow> Some (Inl (Wrap ''encode payload'' e))
             | Inr std \<Rightarrow>
                 (case signing_payload std of
                    None \<Rightarrow> None
                  | Some pay \<Rightarrow>
                      (case sign pay of
                         Inl e \<Rightarrow> Some (Inl (Wrap ''sign payload'' e))
                       | Inr sg \<Rightarrow>
                           if length sg \<noteq> 64
                           then Some (Inl (Errorf (''expected 64-byte sr25519 signature, got '' @ nat_str (length sg))))
                           else (case ce_multi_address E pub of
                                   Inl e \<Rightarrow> Some (Inl (Wrap ''build signer multiaddress'' e))
                                 | Inr addr \<Rightarrow>
                                     Some (Inr (x\<lparr>xt_signature := Some \<lparr>xs_signer = addr, xs_sig = sg,
                                                    xs_nonce = sp_nonce o1, xs_tip = sp_tip o1\<rparr>,
                                                  xt_version := xt_version x OR 0x80\<rparr>)))))))"

definition encodeSubtensorExtrinsic :: "'w chain_env \<Rightarrow> extrinsic \<Rightarrow> go_error + bytes" where
  "encodeSubtensorExtrinsic E x =
     (if ext_type x \<noteq> 4 then Inl (Errorf (''unsupported extrinsic version: '' @ nat_str (unat (xt_version x))))
      else case xt_signature x of
          None \<Rightarrow> Inl (Errorf ''subtensor: extrinsic is not signed'')
        | Some sg \<Rightarrow>
            if \<not> is_signed x then Inl (Errorf ''subtensor: extrinsic is not signed'')
            else and_then (ce_encode_signature E sg) (\<lambda>sb.
                 and_then (ce_encode_call E (xt_method x)) (\<lambda>mb.
                   let body = [xt_version x] @ sb @ [0x00] @ mb
                   in and_then (ce_compact E (length body)) (\<lambda>pre. Inr (pre @ body)))))"

section \<open>Submission\<close>

partial_function (option) wait_loop ::
  "'w chain_env \<Rightarrow> chain_client \<Rightarrow> time \<Rightarrow> submit_result \<Rightarrow> 'w \<Rightarrow> (submit_outcome \<times> 'w) option" where
  "wait_loop E c deadline res w =
     (let (now, w1) = ce_now E w
      in if \<not> now < deadline then Some ((res, None), w1)
         else case ce_wait E w1 of
             (Some e, w2) \<Rightarrow> Some ((res, Some e), w2)
           | (None, w2) \<Rightarrow>
               (if \<not> cl_connected c then Some ((res, Some (Errorf ''connection closed'')), w2)
                else case ce_finalized_head E w2 of
                    (Inl _, w3) \<Rightarrow> wait_loop E c deadline res w3
                  | (Inr h, w3) \<Rightarrow> Some ((res\<lparr>sb_block_hash := h, sb_finalized := True\<rparr>, None), w3)))"

declare wait_loop.simps [code]

text \<open>The hash to wait for is an argument of the Go function, which does not look at it.\<close>

definition waitForInclusion ::
  "'w chain_env \<Rightarrow> chain_client \<Rightarrow> bytes \<Rightarrow> duration \<Rightarrow> submit_result \<Rightarrow> 'w \<Rightarrow> (submit_outcome \<times> 'w) option" where
  "waitForInclusion E c hash timeout res w =
     (let (now, w1) = ce_now E w in wait_loop E c (now + timeout) res w1)"

definition submit_failed :: "go_error \<Rightarrow> chain_client \<Rightarrow> 'w \<Rightarrow> (submit_outcome \<times> 'w on_chain) option" where
  "submit_failed e c w = Some ((zero_submit, Some e), c, w)"

definition signed_submit ::
  "'w chain_env \<Rightarrow> chain_signer \<Rightarrow> chain_call \<Rightarrow> submit_options \<Rightarrow> account_info \<Rightarrow> bytes \<Rightarrow> u32 \<times> u32
     \<Rightarrow> chain_client \<Rightarrow> 'w \<Rightarrow> (submit_outcome \<times> 'w on_chain) option" where
  "signed_submit E sg call opts info genesis rv c w =
     (case sg_sign sg of
        None \<Rightarrow> submit_failed (Errorf ''subtensor: signer has no keypair'') c w
      | Some sign \<Rightarrow>
          (case signExtrinsicWithKeypair E \<lparr>xt_version = 4, xt_method = call, xt_signature = None\<rparr> sign (sg_public sg)
                  \<lparr>sp_method = [], sp_nonce = ucast (ai_nonce info), sp_tip = su_tip_rao opts, sp_spec_version = fst rv,
                   sp_tx_version = snd rv, sp_genesis = genesis, sp_block = genesis\<rparr> of
             None \<Rightarrow> None
           | Some (Inl e) \<Rightarrow> submit_failed (Wrap ''subtensor: sign extrinsic'' e) c w
           | Some (Inr x) \<Rightarrow>
               (case encodeSubtensorExtrinsic E x of
                  Inl e \<Rightarrow> submit_failed (Wrap ''subtensor: encode wire extrinsic'' e) c w
                | Inr wire \<Rightarrow>
                    (case ce_submit E (''0x'' @ hex_encode wire) w of
                       (Inl e, w1) \<Rightarrow> submit_failed (Wrap ''subtensor: submit'' e) c w1
                     | (Inr hash, w1) \<Rightarrow>
                         (case waitForInclusion E c hash
                                 (if su_wait_timeout opts \<le> 0 then 60 * nano_second else su_wait_timeout opts)
                                 (zero_submit\<lparr>sb_tx_hash := hash\<rparr>) w1 of
                            None \<Rightarrow> None
                          | Some ((res, e), w2) \<Rightarrow>
                              Some ((res, map_option (Wrap ''subtensor: wait inclusion'') e), c, w2))))))"

definition signAndSubmit ::
  "'w chain_env \<Rightarrow> chain_signer \<Rightarrow> chain_call \<Rightarrow> submit_options \<Rightarrow> 'w on_chain \<Rightarrow> (submit_outcome \<times> 'w on_chain) option" where
  "signAndSubmit E sg call opts cw =
     (let (c, w) = cw
      in if \<not> cl_connected c then submit_failed (Errorf ''subtensor: not connected'') c w
         else case ce_genesis E w of
             (Inl e, w1) \<Rightarrow> submit_failed (Wrap ''subtensor: genesis hash'' e) c w1
           | (Inr genesis, w1) \<Rightarrow>
               (case ce_runtime E w1 of
                  (Inl e, w2) \<Rightarrow> submit_failed (Wrap ''subtensor: runtime version'' e) c w2
                | (Inr rv, w2) \<Rightarrow>
                    (case ce_storage_key E ''System'' ''Account'' [sg_public sg] of
                       Inl e \<Rightarrow> submit_failed (Wrap ''subtensor: account key'' e) c w2
                     | Inr key \<Rightarrow>
                         (case ce_get_account E key w2 of
                            (Inl e, w3) \<Rightarrow> submit_failed (Wrap ''subtensor: get account'' e) c w3
                          | (Inr None, w3) \<Rightarrow>
                              submit_failed (Errorf (''subtensor: account '' @ sg_address sg
                                               @ '' does not exist on-chain (fund it with TAO first)'')) c w3
                          | (Inr (Some info), w3) \<Rightarrow> signed_submit E sg call opts info genesis rv c w3))))"

text \<open>
  The common shape of the exported submissions: a signer, a 32-byte key where one is needed, a connection, and a call the metadata
  knows. \<open>what\<close> is the text of the error for a call it does not.
\<close>

definition submit_call ::
  "'w chain_env \<Rightarrow> chain_signer \<Rightarrow> string \<Rightarrow> chain_call \<Rightarrow> submit_options \<Rightarrow> 'w on_chain
     \<Rightarrow> (submit_outcome \<times> 'w on_chain) option" where
  "submit_call E sg what call opts cw =
     (case ce_new_call E call of
        Some e \<Rightarrow> submit_failed (Wrap (''subtensor: '' @ what) e) (fst cw) (snd cw)
      | None \<Rightarrow> signAndSubmit E sg call opts cw)"

definition with_signer ::
  "'w chain_env \<Rightarrow> chain_signer option \<Rightarrow> (chain_signer \<Rightarrow> 'w on_chain \<Rightarrow> (submit_outcome \<times> 'w on_chain) option)
     \<Rightarrow> 'w on_chain \<Rightarrow> (submit_outcome \<times> 'w on_chain) option" where
  "with_signer E signer f cw =
     (case signer of
        None \<Rightarrow> submit_failed (Errorf ''subtensor: signer required'') (fst cw) (snd cw)
      | Some sg \<Rightarrow>
          (case connect E cw of
             (Some e, cw1) \<Rightarrow> submit_failed e (fst cw1) (snd cw1)
           | (None, cw1) \<Rightarrow> f sg cw1))"

definition with_key ::
  "'w chain_env \<Rightarrow> chain_signer option \<Rightarrow> string \<Rightarrow> string \<Rightarrow> (bytes \<Rightarrow> go_error + bytes) \<Rightarrow> bytes
     \<Rightarrow> (bytes \<Rightarrow> chain_signer \<Rightarrow> 'w on_chain \<Rightarrow> (submit_outcome \<times> 'w on_chain) option)
     \<Rightarrow> 'w on_chain \<Rightarrow> (submit_outcome \<times> 'w on_chain) option" where
  "with_key E signer what msg conv key f cw =
     (if signer \<noteq> None \<and> length key \<noteq> 32
      then submit_failed (Errorf (''subtensor: '' @ what @ '' must be 32 bytes, got '' @ nat_str (length key))) (fst cw) (snd cw)
      else with_signer E signer (\<lambda>sg cw1.
        case conv key of
          Inl e \<Rightarrow> submit_failed (Wrap (''subtensor: '' @ msg) e) (fst cw1) (snd cw1)
        | Inr a \<Rightarrow> f a sg cw1) cw)"

definition with_hotkey where
  "with_hotkey E signer hotkey = with_key E signer ''hotkey'' ''hotkey accountID'' (ce_account_id E) hotkey"

definition AddStake ::
  "'w chain_env \<Rightarrow> chain_signer option \<Rightarrow> u16 \<Rightarrow> bytes \<Rightarrow> u64 \<Rightarrow> submit_options \<Rightarrow> 'w on_chain
     \<Rightarrow> (submit_outcome \<times> 'w on_chain) option" where
  "AddStake E signer netuid hotkey amount opts = with_hotkey E signer hotkey (\<lambda>acc sg.
     submit_call E sg ''build add_stake_limit call'' (ChainCall ''SubtensorModule.add_stake_limit''
       [ArgAccount acc, ArgU16 netuid, ArgU64 amount, ArgU64 (- 1), ArgBool True]) opts)"

definition RemoveStake ::
  "'w chain_env \<Rightarrow> chain_signer option \<Rightarrow> u16 \<Rightarrow> bytes \<Rightarrow> u64 \<Rightarrow> submit_options \<Rightarrow> 'w on_chain
     \<Rightarrow> (submit_outcome \<times> 'w on_chain) option" where
  "RemoveStake E signer netuid hotkey amount opts = with_hotkey E signer hotkey (\<lambda>acc sg.
     submit_call E sg ''build remove_stake_limit call'' (ChainCall ''SubtensorModule.remove_stake_limit''
       [ArgAccount acc, ArgU16 netuid, ArgU64 amount, ArgU64 0, ArgBool True]) opts)"

definition RegisterNetwork ::
  "'w chain_env \<Rightarrow> chain_signer option \<Rightarrow> bytes \<Rightarrow> submit_options \<Rightarrow> 'w on_chain \<Rightarrow> (submit_outcome \<times> 'w on_chain) option" where
  "RegisterNetwork E signer hotkey opts = with_hotkey E signer hotkey (\<lambda>acc sg.
     submit_call E sg ''build register_network'' (ChainCall ''SubtensorModule.register_network'' [ArgAccount acc]) opts)"

definition BurnedRegister ::
  "'w chain_env \<Rightarrow> chain_signer option \<Rightarrow> u16 \<Rightarrow> bytes \<Rightarrow> submit_options \<Rightarrow> 'w on_chain
     \<Rightarrow> (submit_outcome \<times> 'w on_chain) option" where
  "BurnedRegister E signer netuid hotkey opts = with_hotkey E signer hotkey (\<lambda>acc sg.
     submit_call E sg ''build burned_register'' (ChainCall ''SubtensorModule.burned_register'' [ArgU16 netuid, ArgAccount acc]) opts)"

definition SudoSetSubtokenEnabled ::
  "'w chain_env \<Rightarrow> chain_signer option \<Rightarrow> u16 \<Rightarrow> bool \<Rightarrow> submit_options \<Rightarrow> 'w on_chain
     \<Rightarrow> (submit_outcome \<times> 'w on_chain) option" where
  "SudoSetSubtokenEnabled E signer netuid enabled opts = with_signer E signer (\<lambda>sg cw.
     let inner = ChainCall ''AdminUtils.sudo_set_subtoken_enabled'' [ArgU16 netuid, ArgBool enabled]
     in case ce_new_call E inner of
          Some e \<Rightarrow> submit_failed (Wrap ''subtensor: build sudo_set_subtoken_enabled'' e) (fst cw) (snd cw)
        | None \<Rightarrow> submit_call E sg ''build Sudo.sudo'' (ChainCall ''Sudo.sudo'' [ArgCall inner]) opts cw)"

definition StartCall ::
  "'w chain_env \<Rightarrow> chain_signer option \<Rightarrow> u16 \<Rightarrow> submit_options \<Rightarrow> 'w on_chain \<Rightarrow> (submit_outcome \<times> 'w on_chain) option" where
  "StartCall E signer netuid opts = with_signer E signer (\<lambda>sg.
     submit_call E sg ''build start_call'' (ChainCall ''SubtensorModule.start_call'' [ArgU16 netuid]) opts)"

definition BalancesTransfer ::
  "'w chain_env \<Rightarrow> chain_signer option \<Rightarrow> bytes \<Rightarrow> u64 \<Rightarrow> submit_options \<Rightarrow> 'w on_chain
     \<Rightarrow> (submit_outcome \<times> 'w on_chain) option" where
  "BalancesTransfer E signer dest amount opts =
     with_key E signer ''dest'' ''dest multiaddress'' (ce_multi_address E) dest (\<lambda>ma sg.
       submit_call E sg ''build transfer call'' (ChainCall ''Balances.transfer_keep_alive''
         [ArgMultiAddress ma, ArgCompact amount]) opts)"

section \<open>Properties\<close>

lemma extrinsic_layout:
  assumes "signExtrinsicWithKeypair E x sign pub o1 = Some (Inr x')" and "encodeSubtensorExtrinsic E x' = Inr wire"
  shows "\<exists>mb pay add sg sb pre addr. ce_encode_call E (xt_method x) = Inr mb
    \<and> ce_encode_payload E (o1\<lparr>sp_method := mb\<rparr>) = Inr (pay @ add) \<and> length add = 72
    \<and> sign (pay @ [0] @ add @ [0]) = Inr sg \<and> length sg = 64
    \<and> ce_encode_signature E \<lparr>xs_signer = addr, xs_sig = sg, xs_nonce = sp_nonce o1, xs_tip = sp_tip o1\<rparr> = Inr sb
    \<and> ce_compact E (length (sb @ mb) + 2) = Inr pre
    \<and> wire = pre @ [xt_version x OR 0x80] @ sb @ [0] @ mb"
proof -
  from assms(1) obtain mb std sg addr where mb: "ce_encode_call E (xt_method x) = Inr mb"
    and std: "ce_encode_payload E (o1\<lparr>sp_method := mb\<rparr>) = Inr std" "\<not> length std < 72"
    and sg: "sign (take (length std - 72) std @ [0] @ drop (length std - 72) std @ [0]) = Inr sg" "length sg = 64"
    and x': "x' = x\<lparr>xt_signature := Some \<lparr>xs_signer = addr, xs_sig = sg, xs_nonce = sp_nonce o1, xs_tip = sp_tip o1\<rparr>,
                   xt_version := xt_version x OR 0x80\<rparr>"
    by (auto simp: signExtrinsicWithKeypair_def signing_payload_def Let_def split: if_splits sum.splits option.splits)
  from assms(2) x' mb obtain sb pre where
    "ce_encode_signature E \<lparr>xs_signer = addr, xs_sig = sg, xs_nonce = sp_nonce o1, xs_tip = sp_tip o1\<rparr> = Inr sb"
    "ce_compact E (length (sb @ mb) + 2) = Inr pre" "wire = pre @ [xt_version x OR 0x80] @ sb @ [0] @ mb"
    by (auto simp: encodeSubtensorExtrinsic_def Let_def split: if_splits elim!: and_then_InrE)
  moreover have "length (drop (length std - 72) std) = 72" "std = take (length std - 72) std @ drop (length std - 72) std"
    using std(2) by simp_all
  ultimately show ?thesis using mb std(1) sg by metis
qed

text \<open>
  C23: What is signed and what is sent agree. When an extrinsic is signed and encoded without error, the signature (64 bytes) is over
  the library's payload with one zero byte inserted before its 72-byte tail and one appended; the bytes sent
  are their own length, the version with the signed bit set, the signature part, the mode byte and, last, the very
  bytes of the call that was signed.
\<close>

theorem signed_extrinsic_layout:
  assumes "signExtrinsicWithKeypair E x sign pub o1 = Some (Inr x')" and "encodeSubtensorExtrinsic E x' = Inr wire"
  shows "\<exists>mb pay add sg sb pre addr. ce_encode_call E (xt_method x) = Inr mb
    \<and> ce_encode_payload E (o1\<lparr>sp_method := mb\<rparr>) = Inr (pay @ add) \<and> length add = 72
    \<and> sign (pay @ [0] @ add @ [0]) = Inr sg \<and> length sg = 64
    \<and> ce_encode_signature E \<lparr>xs_signer = addr, xs_sig = sg, xs_nonce = sp_nonce o1, xs_tip = sp_tip o1\<rparr> = Inr sb
    \<and> ce_compact E (length (sb @ mb) + 2) = Inr pre
    \<and> wire = pre @ [xt_version x OR 0x80] @ sb @ [0] @ mb"
  by (rule extrinsic_layout [OF assms])

lemma wait_loop_returns:
  assumes now: "\<And>w. clock (snd (ce_now E w)) \<ge> clock w" "\<And>w. fst (ce_now E w) = clock w"
    and wait: "\<And>w w'. ce_wait E w = (None, w') \<Longrightarrow> clock w < clock w'"
    and head: "\<And>w. clock w \<le> clock (snd (ce_finalized_head E w))"
  shows "\<exists>res' e w'. wait_loop E c deadline res w = Some ((res', e), w') \<and> sb_tx_hash res' = sb_tx_hash res
    \<and> (res' \<noteq> res \<longrightarrow> sb_finalized res' \<and> (\<exists>u. fst (ce_finalized_head E u) = Inr (sb_block_hash res')))"
proof (induction "nat (deadline - clock w)" arbitrary: w rule: less_induct)
  case less
  obtain t w1 where t: "ce_now E w = (t, w1)" by fastforce
  have tw: "t = clock w" "clock w \<le> clock w1" using now [of w] t by simp_all
  show ?case
  proof (cases "t < deadline")
    case False
    with t show ?thesis by (subst wait_loop.simps) simp
  next
    case True
    obtain e w2 where e: "ce_wait E w1 = (e, w2)" by fastforce
    show ?thesis
    proof (cases "e = None \<and> cl_connected c")
      case False
      with t True e show ?thesis by (subst wait_loop.simps) (auto split: option.splits)
    next
      case tick: True
      obtain h w3 where h: "ce_finalized_head E w2 = (h, w3)" by fastforce
      have "clock w < clock w3" using tw wait [of w1 w2] e tick head [of w2] h by force
      then have "nat (deadline - clock w3) < nat (deadline - clock w)" using True tw by simp
      note ih = less.hyps [OF this]
      show ?thesis
      proof (cases h)
        case (Inl x)
        with ih t True e tick h show ?thesis by (subst wait_loop.simps) simp
      next
        case (Inr b)
        with t True e tick h show ?thesis
          by (subst wait_loop.simps) (auto intro!: exI [of _ w2])
      qed
    qed
  qed
qed

text \<open>
  The wait for inclusion always comes back. If the clock never runs backwards and each tick takes time, \<open>waitForInclusion\<close> returns,
  whatever the RPC endpoint answers. It claims finality only with the hash of a finalized head
  the endpoint reported (any finalized head: the submitted hash plays no part), and keeps the transaction hash.
\<close>

theorem inclusion_wait_returns:
  assumes "\<forall>w. clock (snd (ce_now E w)) \<ge> clock w \<and> fst (ce_now E w) = clock w"
    and "\<forall>w w'. ce_wait E w = (None, w') \<longrightarrow> clock w < clock w'"
    and "\<forall>w. clock w \<le> clock (snd (ce_finalized_head E w))"
  shows "\<exists>res' e w'. waitForInclusion E c hash timeout res w = Some ((res', e), w') \<and> sb_tx_hash res' = sb_tx_hash res
    \<and> (res' \<noteq> res \<longrightarrow> sb_finalized res' \<and> (\<exists>u. fst (ce_finalized_head E u) = Inr (sb_block_hash res')))
    \<and> waitForInclusion E c hash timeout res w = waitForInclusion E c other_hash timeout res w"
  using wait_loop_returns [of clock E] assms by (simp add: waitForInclusion_def split: prod.splits)

section \<open>A concrete chain\<close>

text \<open>A chain whose encodings are plain bytes; the world is its clock and the submitted texts.\<close>

record chain_world =
  kw_now :: int
  kw_submitted :: "string list"

definition sample_chain :: "chain_world chain_env" where
  "sample_chain = \<lparr>ce_lib = reference_declib, ce_ss58 = (\<lambda>_. Inr (42, replicate 32 1)),
     ce_dial = (\<lambda>_ w. (None, w)), ce_metadata = (\<lambda>w. (None, w)), ce_close = (\<lambda>w. w),
     ce_chain_name = (\<lambda>w. (Inr ''Bittensor'', w)), ce_finalized_head = (\<lambda>w. (Inr (replicate 32 9), w)),
     ce_header = (\<lambda>_ w. (Inr 5, w)), ce_storage_key = (\<lambda>_ _ _. Inr []),
     ce_get_account = (\<lambda>_ w. (Inr (Some (zero_account\<lparr>ai_nonce := 3, ai_free := 2000000000\<rparr>)), w)),
     ce_get_u64 = (\<lambda>_ w. (Inr (Some 500000000), w)), ce_get_u16 = (\<lambda>_ w. (Inr (Some 129), w)),
     ce_call_u64 = (\<lambda>_ _ w. (Inr 20000000, w)),
     ce_call_bytes = (\<lambda>_ _ w. (Inr (le_bytes 8 1000000000 @ le_bytes 8 49000000000 @ le_bytes 8 1000), w)),
     ce_genesis = (\<lambda>w. (Inr (replicate 32 7), w)), ce_runtime = (\<lambda>w. (Inr (1, 1), w)),
     ce_submit = (\<lambda>x w. (Inr (replicate 32 8), w\<lparr>kw_submitted := kw_submitted w @ [x]\<rparr>)),
     ce_account_id = Inr, ce_multi_address = Inr, ce_new_call = (\<lambda>_. None), ce_encode_call = (\<lambda>_. Inr [1, 2, 3]),
     ce_encode_payload = (\<lambda>p. Inr (sp_method p @ replicate 72 0)), ce_encode_signature = (\<lambda>x. Inr (xs_sig x)),
     ce_compact = (\<lambda>n. Inr [word_of_nat (4 * n)]), ce_now = (\<lambda>w. (kw_now w, w)),
     ce_wait = (\<lambda>w. (None, w\<lparr>kw_now := kw_now w + 2\<rparr>)), ce_ctx_err = (\<lambda>w. (None, w))\<rparr>"

definition sample_signer :: chain_signer where
  "sample_signer = \<lparr>sg_address = ''5C'', sg_public = replicate 32 1, sg_sign = Some (\<lambda>_. Inr (replicate 64 6))\<rparr>"

definition live_client :: chain_client where
  "live_client = \<lparr>cl_url = ''wss://x'', cl_connected = True\<rparr>"

definition start_chain :: chain_world where
  "start_chain = \<lparr>kw_now = 0, kw_submitted = []\<rparr>"

theorem inclusion_wait_returns_witness:
  "\<exists>res' e w'. waitForInclusion sample_chain live_client [] (60 * nano_second) zero_submit start_chain = Some ((res', e), w')
     \<and> sb_tx_hash res' = sb_tx_hash zero_submit"
proof -
  have "\<forall>w. kw_now (snd (ce_now sample_chain w)) \<ge> kw_now w \<and> fst (ce_now sample_chain w) = kw_now w"
    "\<forall>w w'. ce_wait sample_chain w = (None, w') \<longrightarrow> kw_now w < kw_now w'"
    "\<forall>w. kw_now w \<le> kw_now (snd (ce_finalized_head sample_chain w))"
    by (simp_all add: sample_chain_def)
  from inclusion_wait_returns [OF this, of live_client "[]" "60 * nano_second" zero_submit start_chain "[]"]
  show ?thesis by blast
qed

definition sample_call :: chain_call where
  "sample_call = ChainCall ''SubtensorModule.start_call'' [ArgU16 8]"

theorem signed_extrinsic_layout_witness:
  "\<exists>x' wire. signExtrinsicWithKeypair sample_chain \<lparr>xt_version = 4, xt_method = sample_call, xt_signature = None\<rparr>
      (\<lambda>_. Inr (replicate 64 6)) [] \<lparr>sp_method = [], sp_nonce = 0, sp_tip = 0, sp_spec_version = 1, sp_tx_version = 1,
        sp_genesis = [], sp_block = []\<rparr> = Some (Inr x')
    \<and> encodeSubtensorExtrinsic sample_chain x' = Inr wire \<and> (\<exists>front. wire = front @ [0, 1, 2, 3])"
proof -
  let ?x = "\<lparr>xt_version = 4, xt_method = sample_call, xt_signature = None\<rparr>"
  let ?o = "\<lparr>sp_method = [], sp_nonce = 0, sp_tip = 0, sp_spec_version = 1, sp_tx_version = 1, sp_genesis = [], sp_block = []\<rparr>"
  obtain x' wire where s: "signExtrinsicWithKeypair sample_chain ?x (\<lambda>_. Inr (replicate 64 6)) [] ?o = Some (Inr x')"
    and e: "encodeSubtensorExtrinsic sample_chain x' = Inr wire"
    by (simp add: signExtrinsicWithKeypair_def encodeSubtensorExtrinsic_def ext_type_def is_signed_def sample_chain_def
        signing_payload_def Let_def)
  from signed_extrinsic_layout [OF s e] have "\<exists>front. wire = front @ [0, 1, 2, 3]" by (auto simp: sample_chain_def)
  with s e show ?thesis by blast
qed

theorem list_subnets_terminates_witness:
  "(\<exists>res err cw'. ListSubnets sample_chain 3 (live_client, start_chain) = Some ((res, err), cw') \<and> ascending 4 res)
   \<and> ListSubnets sample_chain (- 1) (live_client, start_chain) = None"
proof -
  have "\<forall>w. fst (ce_ctx_err sample_chain w) = None" by (simp add: sample_chain_def)
  with list_subnets_terminates [of 3 sample_chain "(live_client, start_chain)"] show ?thesis by simp
qed

section \<open>What a successful submission sent\<close>

text \<open>
  \<open>sent E call hash\<close>: the endpoint was given, and answered with \<open>hash\<close>, the hexadecimal text of an
  extrinsic that ends with the bytes of \<open>call\<close>.
\<close>

definition sent :: "'w chain_env \<Rightarrow> chain_call \<Rightarrow> bytes \<Rightarrow> bool" where
  "sent E call hash \<longleftrightarrow> (\<exists>front mb w w'. ce_encode_call E call = Inr mb
     \<and> ce_submit E (''0x'' @ hex_encode (front @ mb)) w = (Inr hash, w'))"

lemma wait_loop_hash:
  "wait_loop E c deadline res w = Some ((res', e), w') \<Longrightarrow> sb_tx_hash res' = sb_tx_hash res"
proof -
  have "wait_loop E c deadline res w = Some y \<Longrightarrow> sb_tx_hash (fst (fst y)) = sb_tx_hash res" for y
    by (induction rule: wait_loop.raw_induct [rotated, consumes 1])
      (auto simp: Let_def split: prod.splits if_splits option.splits sum.splits)
  then show "wait_loop E c deadline res w = Some ((res', e), w') \<Longrightarrow> sb_tx_hash res' = sb_tx_hash res" by fastforce
qed

lemma signed_submit_sent:
  assumes "signed_submit E sg call opts info genesis rv c w = Some ((res, None), cw')"
  shows "sent E call (sb_tx_hash res)"
proof -
  let ?x = "\<lparr>xt_version = 4, xt_method = call, xt_signature = None\<rparr>"
  let ?o = "\<lparr>sp_method = [], sp_nonce = ucast (ai_nonce info), sp_tip = su_tip_rao opts, sp_spec_version = fst rv,
                   sp_tx_version = snd rv, sp_genesis = genesis, sp_block = genesis\<rparr>"
  from assms obtain sign x wire hash w1 w2 t where s: "signExtrinsicWithKeypair E ?x sign (sg_public sg) ?o = Some (Inr x)"
    and e: "encodeSubtensorExtrinsic E x = Inr wire" and sub: "ce_submit E (''0x'' @ hex_encode wire) w = (Inr hash, w1)"
    and wt: "waitForInclusion E c hash t (zero_submit\<lparr>sb_tx_hash := hash\<rparr>) w1 = Some ((res, None), w2)"
    by (auto simp: signed_submit_def submit_failed_def split: option.splits sum.splits prod.splits)
  have "sb_tx_hash res = hash"
    using wt wait_loop_hash by (fastforce simp: waitForInclusion_def Let_def split: prod.splits)
  with extrinsic_layout [OF s e] sub show ?thesis unfolding sent_def by simp (metis append.assoc append_Cons append_Nil)
qed

lemma submit_call_sent:
  "submit_call E sg what call opts cw = Some ((res, None), cw') \<Longrightarrow> sent E call (sb_tx_hash res)"
  by (auto simp: submit_call_def signAndSubmit_def submit_failed_def Let_def
      split: option.splits sum.splits prod.splits if_splits dest: signed_submit_sent)

lemma with_hotkey_Some:
  assumes "with_hotkey E signer hotkey f cw = Some ((res, None), cw')"
  shows "\<exists>acc sg cw1. length hotkey = 32 \<and> ce_account_id E hotkey = Inr acc \<and> signer = Some sg \<and> f acc sg cw1 = Some ((res, None), cw')"
  using assms
  by (auto simp: with_hotkey_def with_key_def with_signer_def submit_failed_def split: if_splits option.splits sum.splits prod.splits)

lemma AddStake_sent:
  assumes "AddStake E signer netuid hotkey amount opts cw = Some ((res, None), cw')"
  shows "\<exists>acc. length hotkey = 32 \<and> ce_account_id E hotkey = Inr acc \<and> sent E (ChainCall ''SubtensorModule.add_stake_limit''
       [ArgAccount acc, ArgU16 netuid, ArgU64 amount, ArgU64 (- 1), ArgBool True]) (sb_tx_hash res)"
  using with_hotkey_Some [OF assms [unfolded AddStake_def]] by (blast dest: submit_call_sent)

lemma RemoveStake_sent:
  assumes "RemoveStake E signer netuid hotkey amount opts cw = Some ((res, None), cw')"
  shows "\<exists>acc. length hotkey = 32 \<and> ce_account_id E hotkey = Inr acc \<and> sent E (ChainCall ''SubtensorModule.remove_stake_limit''
       [ArgAccount acc, ArgU16 netuid, ArgU64 amount, ArgU64 0, ArgBool True]) (sb_tx_hash res)"
  using with_hotkey_Some [OF assms [unfolded RemoveStake_def]] by (blast dest: submit_call_sent)

end
