(* ===== verification/BittensorVenue.thy ===== *)
theory BittensorVenue
  imports StrategyRotation SubtensorExtrinsic
begin

text \<open>
  \<open>internal/swap/bittensor/venue.go\<close>: the swap venue for subnet alpha tokens. Buying alpha stakes TAO, selling unstakes it, and quotes
  come from the chain's own simulation. The venue's state is the chain client's.
\<close>

definition bt_VenueName :: string where
  "bt_VenueName = ''bittensor''"

definition TAOMint :: string where
  "TAOMint = ''TAO''"

definition AlphaMintPrefix :: string where
  "AlphaMintPrefix = ''SN''"

definition ErrSubmitDisabled :: go_error where
  "ErrSubmitDisabled = Sentinel ''bittensor: live extrinsic submission not enabled (set bittensor.allow_submit: true in config to enable)''"

section \<open>Construction\<close>

text \<open>A wallet signer: its chain, its dynamic type, and the Bittensor key if it has one.\<close>

record wallet_signer =
  ws_chain :: chain_id
  ws_type :: string
  ws_bittensor :: "chain_signer option"

record bt_config =
  bc_rpc_url :: string
  bc_poll_timeout :: duration
  bc_allow_submit :: bool

record bt_venue =
  bt_signer :: chain_signer
  bt_poll_timeout :: duration
  bt_allow_submit :: bool

definition bt_New :: "bt_config \<Rightarrow> wallet_signer option \<Rightarrow> go_error + bt_venue \<times> chain_client" where
  "bt_New cfg signer =
     (case signer of
        None \<Rightarrow> Inl (Errorf ''bittensor: signer is required'')
      | Some s \<Rightarrow>
          if ws_chain s \<noteq> ChainBittensor
          then Inl (Errorf (''bittensor: signer chain must be bittensor, got '' @ quoted (chain_str (ws_chain s))))
          else case ws_bittensor s of
              None \<Rightarrow> Inl (Errorf (''bittensor: signer must be *wallet.BittensorSigner, got '' @ ws_type s))
            | Some b \<Rightarrow>
                if bc_rpc_url cfg = [] then Inl (Errorf ''bittensor: RPCURL is required'')
                else Inr (\<lparr>bt_signer = b,
                           bt_poll_timeout = (if bc_poll_timeout cfg = 0 then 60 * nano_second else bc_poll_timeout cfg),
                           bt_allow_submit = bc_allow_submit cfg\<rparr>, NewClient (bc_rpc_url cfg)))"

section \<open>Subnet names\<close>

definition parseSubnetMint :: "string \<Rightarrow> go_error + u16" where
  "parseSubnetMint mint =
     (if \<not> has_prefix mint AlphaMintPrefix \<or> length mint \<le> length AlphaMintPrefix
      then Inl (Errorf (''bittensor: invalid subnet mint '' @ quoted mint @ '' (expected SN{netuid})''))
      else case ParseUint (drop (length AlphaMintPrefix) mint) 16 of
          Inl e \<Rightarrow> Inl (Wrap (''bittensor: invalid subnet mint '' @ quoted mint) e)
        | Inr n \<Rightarrow> Inr (word_of_nat n))"

definition parseSubnetMints :: "string \<Rightarrow> string \<Rightarrow> go_error + u16 \<times> bool" where
  "parseSubnetMints in_mint out_mint =
     (if in_mint = TAOMint then and_then (parseSubnetMint out_mint) (\<lambda>n. Inr (n, True))
      else if out_mint = TAOMint then and_then (parseSubnetMint in_mint) (\<lambda>n. Inr (n, False))
      else Inl (Errorf (''bittensor: one of in/out mints must be '' @ quoted TAOMint @ '', got '' @ quoted in_mint @ ''/''
                  @ quoted out_mint)))"

definition parseFeedSymbol :: "string \<Rightarrow> u16 option" where
  "parseFeedSymbol s =
     (if \<not> has_prefix s AlphaMintPrefix then None
      else let rest = TrimPrefix s AlphaMintPrefix
           in case index_of (CHR ''/'') rest of
                None \<Rightarrow> None
              | Some k \<Rightarrow> (case ParseUint (take k rest) 16 of Inl _ \<Rightarrow> None | Inr n \<Rightarrow> Some (word_of_nat n)))"

section \<open>The venue's methods\<close>

definition price_impact :: "declib \<Rightarrow> bool \<Rightarrow> decimal \<Rightarrow> decimal \<Rightarrow> decimal \<Rightarrow> decimal" where
  "price_impact L buy in_amt out_amt spot =
     (if buy then
        (if spot \<noteq> 0 \<and> out_amt \<noteq> 0
         then (let spot_out = d_div L in_amt spot
               in if spot_out \<noteq> 0 then \<bar>d_div L (spot_out - out_amt) spot_out\<bar> else 0)
         else 0)
      else (let spot_out = in_amt * spot
            in if spot_out \<noteq> 0 then \<bar>d_div L (spot_out - out_amt) spot_out\<bar> else 0))"

definition bt_Quote ::
  "'w chain_env \<Rightarrow> quote_request \<Rightarrow> 'w on_chain \<Rightarrow> (go_error + quote) \<times> 'w on_chain" where
  "bt_Quote E q cw =
     (case parseSubnetMints (as_mint (qr_in_token q)) (as_mint (qr_out_token q)) of
        Inl e \<Rightarrow> (Inl e, cw)
      | Inr (netuid, buy) \<Rightarrow>
          (let in_rao = TAOToRAO (ce_lib E) (qr_amount q)
           in case (if buy then SimSwapTaoForAlpha E netuid in_rao cw else SimSwapAlphaForTao E netuid in_rao cw) of
                (Inl e, cw1) \<Rightarrow> (Inl e, cw1)
              | (Inr sim, cw1) \<Rightarrow>
                  (case CurrentAlphaPrice E netuid cw1 of
                     (Inl e, cw2) \<Rightarrow> (Inl e, cw2)
                   | (Inr spot, c2, w2) \<Rightarrow>
                       (let in_amt = RAOToTAO (ce_lib E) (sim_amount_in sim);
                            out_amt = RAOToTAO (ce_lib E) (sim_amount_out sim);
                            (now, w3) = ce_now E w2
                        in (Inr \<lparr>q_in_token = qr_in_token q, q_out_token = qr_out_token q, q_in_amount = in_amt,
                                 q_out_amount = out_amt, q_price_impact = price_impact (ce_lib E) buy in_amt out_amt spot,
                                 q_route = bt_VenueName, q_expires_at = now + 24 * nano_second,
                                 q_raw = nat_str (unat netuid)\<rparr>, c2, w3)))))"

text \<open>The slippage bound is an argument the code does not use.\<close>

definition bt_Swap ::
  "'w chain_env \<Rightarrow> bt_venue \<Rightarrow> quote \<Rightarrow> int \<Rightarrow> 'w on_chain \<Rightarrow> ((go_error + string) \<times> 'w on_chain) option" where
  "bt_Swap E v q slippage_bps cw =
     (let (now, w1) = ce_now E (snd cw); cw1 = (fst cw, w1)
      in if q_expires_at q < now then Some (Inl ErrQuoteExpired, cw1)
         else if \<not> bt_allow_submit v then Some (Inl ErrSubmitDisabled, cw1)
         else case parseSubnetMints (as_mint (q_in_token q)) (as_mint (q_out_token q)) of
             Inl e \<Rightarrow> Some (Inl e, cw1)
           | Inr (netuid, buy) \<Rightarrow>
               (let hotkey = sg_public (bt_signer v);
                    opts = \<lparr>su_tip_rao = 0, su_wait_timeout = bt_poll_timeout v\<rparr>;
                    rao = TAOToRAO (ce_lib E) (q_in_amount q)
                in case (if buy then AddStake E (Some (bt_signer v)) netuid hotkey rao opts cw1
                         else RemoveStake E (Some (bt_signer v)) netuid hotkey rao opts cw1) of
                     None \<Rightarrow> None
                   | Some ((res, Some e), cw2) \<Rightarrow> Some (Inl e, cw2)
                   | Some ((res, None), cw2) \<Rightarrow> Some (Inr (''0x'' @ hex_encode (sb_tx_hash res)), cw2)))"

definition bt_WaitConfirm :: "'w chain_env \<Rightarrow> string \<Rightarrow> 'w on_chain \<Rightarrow> (go_error + swap_result) \<times> 'w on_chain" where
  "bt_WaitConfirm E tx cw =
     (let (now, w) = ce_now E (snd cw)
      in (Inr \<lparr>sr_tx_hash = tx, sr_status = SwapStatusConfirmed, sr_slot = 0, sr_block_time = now, sr_in_amount = 0,
               sr_out_amount = 0, sr_gas_native = 0, sr_gas_usd = 0, sr_error = []\<rparr>, fst cw, w))"

definition alpha_snap :: "time \<Rightarrow> string \<Rightarrow> decimal \<Rightarrow> symbol_snap" where
  "alpha_snap now s p = \<lparr>ss_tick = zero_tick\<lparr>tk_time := now, tk_venue := bt_VenueName, tk_symbol := s, tk_bid := p,
     tk_ask := p, tk_last := p\<rparr>, ss_book = zero_book, ss_funding = zero_funding\<rparr>"

fun snapshot_symbols ::
  "'w chain_env \<Rightarrow> string list \<Rightarrow> (string \<times> symbol_snap) list \<Rightarrow> 'w on_chain \<Rightarrow> (string \<times> symbol_snap) list \<times> 'w on_chain" where
  "snapshot_symbols E [] out cw = (out, cw)"
| "snapshot_symbols E (s # ss) out cw =
     (case parseFeedSymbol s of
        None \<Rightarrow> snapshot_symbols E ss out cw
      | Some n \<Rightarrow>
          (case CurrentAlphaPrice E n cw of
             (Inl _, cw1) \<Rightarrow> snapshot_symbols E ss out cw1
           | (Inr p, c1, w1) \<Rightarrow>
               (let (now, w2) = ce_now E w1
                in snapshot_symbols E ss (AList.update s (alpha_snap now s p) out) (c1, w2))))"

definition bt_MarketSnapshot ::
  "'w chain_env \<Rightarrow> string list \<Rightarrow> 'w on_chain \<Rightarrow> (go_error + (string \<times> symbol_snap) list) \<times> 'w on_chain" where
  "bt_MarketSnapshot E symbols cw = (let (out, cw1) = snapshot_symbols E symbols [] cw in (Inr out, cw1))"

definition bt_Balance ::
  "'w chain_env \<Rightarrow> bt_venue \<Rightarrow> asset \<Rightarrow> 'w on_chain \<Rightarrow> (go_error + decimal) \<times> 'w on_chain" where
  "bt_Balance E v a cw =
     (if as_chain a \<noteq> ChainBittensor
      then (Inl (Errorf (''bittensor: asset chain '' @ quoted (chain_str (as_chain a)) @ '' is not bittensor'')), cw)
      else if as_mint a = TAOMint \<or> as_mint a = []
        then (case GetTAOBalance E (sg_address (bt_signer v)) cw of
                (Inl e, cw1) \<Rightarrow> (Inl e, cw1)
              | (Inr r, cw1) \<Rightarrow> (Inr (RAOToTAO (ce_lib E) r), cw1))
      else case parseSubnetMint (as_mint a) of
          Inl e \<Rightarrow> (Inl e, cw)
        | Inr n \<Rightarrow>
            (case GetAlphaStake E (sg_address (bt_signer v)) (sg_address (bt_signer v)) n cw of
               (Inl e, cw1) \<Rightarrow> (Inl e, cw1)
             | (Inr r, cw1) \<Rightarrow> (Inr (RAOToTAO (ce_lib E) r), cw1)))"

text \<open>The venue as the runtime sees it; a call that does not come back is an error of its own.\<close>

definition ErrNoReturn :: go_error where
  "ErrNoReturn = Sentinel ''no return''"

definition bt_swap_venue :: "'w chain_env \<Rightarrow> bt_venue \<Rightarrow> 'w on_chain swap_venue" where
  "bt_swap_venue E v = \<lparr>sv_name = bt_VenueName, sv_chain = ChainBittensor, sv_quote = bt_Quote E,
     sv_swap = (\<lambda>q s cw. case bt_Swap E v q s cw of None \<Rightarrow> (Inl ErrNoReturn, cw) | Some r \<Rightarrow> r),
     sv_wait_confirm = bt_WaitConfirm E, sv_balance = bt_Balance E v, sv_market_snapshot = Some (bt_MarketSnapshot E)\<rparr>"

section \<open>Properties\<close>

lemma parseSubnetMint_SN: "n < 2 ^ 16 \<Longrightarrow> parseSubnetMint (''SN'' @ nat_str n) = Inr (word_of_nat n)"
  using ParseUint_nat_str [of n 16] has_prefix_append [of "''SN''" "nat_str n"]
  by (simp add: parseSubnetMint_def AlphaMintPrefix_def)

lemma parseFeedSymbol_SN: "n < 2 ^ 16 \<Longrightarrow> parseFeedSymbol (''SN'' @ nat_str n @ ''/'' @ q) = Some (word_of_nat n)"
proof -
  assume n: "n < 2 ^ 16"
  have "CHR ''/'' \<notin> set (nat_str n)" using nat_str_digits [of n] by (auto simp: is_digit_def)
  then have "index_of (CHR ''/'') (nat_str n @ CHR ''/'' # q) = Some (length (nat_str n))" by (rule index_of_append)
  then show ?thesis
    using n ParseUint_nat_str [of n 16] has_prefix_append [of "''SN''" "nat_str n @ CHR ''/'' # q"]
      TrimPrefix_append [of "''SN''" "nat_str n @ CHR ''/'' # q"]
    by (simp add: parseFeedSymbol_def AlphaMintPrefix_def)
qed

lemma subnet_names:
  assumes "n < 2 ^ 16"
  shows "parseSubnetMints (as_mint tao_asset) (as_mint (alpha_asset n)) = Inr (word_of_nat n, True)"
    and "parseSubnetMints (as_mint (alpha_asset n)) (as_mint tao_asset) = Inr (word_of_nat n, False)"
proof -
  have "parseSubnetMint (subnet_symbol n) = Inr (word_of_nat n)" unfolding subnet_symbol_def by (rule parseSubnetMint_SN [OF assms])
  moreover have "subnet_symbol n \<noteq> TAOMint" by (simp add: subnet_symbol_def TAOMint_def)
  ultimately show "parseSubnetMints (as_mint tao_asset) (as_mint (alpha_asset n)) = Inr (word_of_nat n, True)"
    "parseSubnetMints (as_mint (alpha_asset n)) (as_mint tao_asset) = Inr (word_of_nat n, False)"
    by (simp_all add: parseSubnetMints_def tao_asset_def alpha_asset_def TAOMint_def)
qed

text \<open>
  The names the strategies write are the names the venue reads. For every 16-bit netuid, the TAO and alpha assets of the subnet strategies parse at the
  venue to that netuid, as a purchase one way round and a sale the other, and the market symbol under which they look
  up its price parses to it too.
\<close>

theorem subnet_names_roundtrip:
  assumes "n < 2 ^ 16"
  shows "parseSubnetMints (as_mint tao_asset) (as_mint (alpha_asset n)) = Inr (word_of_nat n, True)
    \<and> parseSubnetMints (as_mint (alpha_asset n)) (as_mint tao_asset) = Inr (word_of_nat n, False)
    \<and> parseFeedSymbol (subnet_symbol n @ ''/TAO'') = Some (word_of_nat n)"
  using subnet_names [OF assms] parseFeedSymbol_SN [OF assms, of "''TAO''"] by (simp add: subnet_symbol_def)

theorem subnet_names_roundtrip_witness:
  "parseSubnetMints (as_mint tao_asset) (as_mint (alpha_asset 8)) = Inr (8, True)"
  using subnet_names_roundtrip [of 8] by simp

text \<open>
  Without the operator's opt-in nothing is ever submitted. A venue whose \<open>allow_submit\<close> is off answers every swap with an error, and the swap does nothing
  but read the clock: the chain client does not even connect.
\<close>

theorem no_submission_without_opt_in:
  assumes "\<not> bt_allow_submit v"
  shows "\<exists>e. bt_Swap E v q slippage (c, w) = Some (Inl e, c, snd (ce_now E w)) \<and> e \<in> {ErrQuoteExpired, ErrSubmitDisabled}"
  using assms by (auto simp: bt_Swap_def Let_def split: prod.splits)

text \<open>
  C19: A live swap submits exactly the quoted stake, at any price. When \<open>Swap\<close> returns a hash, submission was enabled and the quote not yet expired; the extrinsic the endpoint
  answered with that hash stakes (for a purchase) or unstakes the quoted amount, in RAO, on the
  subnet of the quote, with the signer's own key as hotkey. Its limit price is the loosest one, partial fills are allowed, and the
  caller's slippage bound changes nothing.
\<close>

theorem swap_submits_quoted_stake:
  assumes "bt_Swap E v q slippage cw = Some (Inr h, cw')"
  shows "bt_allow_submit v \<and> fst (ce_now E (snd cw)) \<le> q_expires_at q \<and> bt_Swap E v q slippage' cw = Some (Inr h, cw')
    \<and> (\<exists>netuid buy acc hash. parseSubnetMints (as_mint (q_in_token q)) (as_mint (q_out_token q)) = Inr (netuid, buy)
        \<and> ce_account_id E (sg_public (bt_signer v)) = Inr acc \<and> h = ''0x'' @ hex_encode hash
        \<and> sent E (ChainCall (if buy then ''SubtensorModule.add_stake_limit'' else ''SubtensorModule.remove_stake_limit'')
              [ArgAccount acc, ArgU16 netuid, ArgU64 (TAOToRAO (ce_lib E) (q_in_amount q)), ArgU64 (if buy then - 1 else 0),
               ArgBool True]) hash)"
proof -
  obtain now w1 where t: "ce_now E (snd cw) = (now, w1)" by fastforce
  have guard: "\<not> q_expires_at q < now" "bt_allow_submit v"
    using assms t by (auto simp: bt_Swap_def Let_def split: if_splits)
  then obtain netuid buy where p: "parseSubnetMints (as_mint (q_in_token q)) (as_mint (q_out_token q)) = Inr (netuid, buy)"
    using assms t by (auto simp: bt_Swap_def Let_def split: sum.splits)
  let ?opts = "\<lparr>su_tip_rao = 0, su_wait_timeout = bt_poll_timeout v\<rparr>"
  let ?rao = "TAOToRAO (ce_lib E) (q_in_amount q)"
  let ?r = "if buy then AddStake E (Some (bt_signer v)) netuid (sg_public (bt_signer v)) ?rao ?opts (fst cw, w1)
    else RemoveStake E (Some (bt_signer v)) netuid (sg_public (bt_signer v)) ?rao ?opts (fst cw, w1)"
  from assms t guard p obtain res where res: "?r = Some ((res, None), cw')" and h: "h = ''0x'' @ hex_encode (sb_tx_hash res)"
    by (auto simp: bt_Swap_def Let_def split: option.splits prod.splits)
  have "\<exists>acc. ce_account_id E (sg_public (bt_signer v)) = Inr acc
      \<and> sent E (ChainCall (if buy then ''SubtensorModule.add_stake_limit'' else ''SubtensorModule.remove_stake_limit'')
              [ArgAccount acc, ArgU16 netuid, ArgU64 ?rao, ArgU64 (if buy then - 1 else 0), ArgBool True]) (sb_tx_hash res)"
    using res AddStake_sent [of E _ netuid _ ?rao ?opts _ res cw'] RemoveStake_sent [of E _ netuid _ ?rao ?opts _ res cw']
    by (cases buy) fastforce+
  moreover have "bt_Swap E v q slippage' cw = bt_Swap E v q slippage cw" by (simp add: bt_Swap_def)
  ultimately show ?thesis using guard p h t assms by auto
qed

definition sample_bt_venue :: "bool \<Rightarrow> bt_venue" where
  "sample_bt_venue allow = \<lparr>bt_signer = sample_signer, bt_poll_timeout = 60 * nano_second, bt_allow_submit = allow\<rparr>"

definition sample_quote :: quote where
  "sample_quote = \<lparr>q_in_token = tao_asset, q_out_token = alpha_asset 8, q_in_amount = 1, q_out_amount = 49, q_price_impact = 0,
     q_route = bt_VenueName, q_expires_at = 24 * nano_second, q_raw = ''8''\<rparr>"

theorem no_submission_without_opt_in_witness:
  "\<exists>e. bt_Swap sample_chain (sample_bt_venue False) sample_quote 50 (live_client, start_chain) = Some (Inl e, live_client, start_chain)"
proof -
  have "\<not> bt_allow_submit (sample_bt_venue False)" by (simp add: sample_bt_venue_def)
  from no_submission_without_opt_in [OF this, of sample_chain sample_quote 50 live_client start_chain]
  show ?thesis by (auto simp: sample_chain_def)
qed

theorem swap_submits_quoted_stake_witness:
  "\<exists>h cw'. bt_Swap sample_chain (sample_bt_venue True) sample_quote 50 (live_client, start_chain) = Some (Inr h, cw')
     \<and> (\<exists>acc hash. sent sample_chain (ChainCall ''SubtensorModule.add_stake_limit''
          [ArgAccount acc, ArgU16 8, ArgU64 1000000000, ArgU64 (- 1), ArgBool True]) hash)"
proof -
  have sub: "parseSubnetMints (as_mint (q_in_token sample_quote)) (as_mint (q_out_token sample_quote)) = Inr (8, True)"
    using subnet_names(1) [of 8] by (simp add: sample_quote_def)
  have rao: "TAOToRAO reference_declib 1 = 1000000000" by (simp add: TAOToRAO_def reference_declib_def trunc_to_def RAOPerTAO_def)
  obtain res cw' where stake: "AddStake sample_chain (Some sample_signer) 8 (replicate 32 1) 1000000000
      \<lparr>su_tip_rao = 0, su_wait_timeout = 60 * nano_second\<rparr> (live_client, start_chain) = Some ((res, None), cw')"
    by (simp add: AddStake_def with_hotkey_def with_key_def with_signer_def connect_def live_client_def submit_call_def
        signAndSubmit_def signed_submit_def sample_signer_def sample_chain_def signExtrinsicWithKeypair_def ext_type_def is_signed_def
        signing_payload_def encodeSubtensorExtrinsic_def waitForInclusion_def start_chain_def nano_second_def wait_loop.simps Let_def)
  have swap: "bt_Swap sample_chain (sample_bt_venue True) sample_quote 50 (live_client, start_chain)
      = Some (Inr (''0x'' @ hex_encode (sb_tx_hash res)), cw')"
    using stake rao sub by (simp add: bt_Swap_def sample_bt_venue_def sample_chain_def start_chain_def sample_quote_def sample_signer_def
        nano_second_def Let_def)
  have amount: "TAOToRAO (ce_lib sample_chain) (q_in_amount sample_quote) = 1000000000"
    using rao by (simp add: sample_chain_def sample_quote_def)
  from swap_submits_quoted_stake [OF swap, of 0] obtain netuid buy acc hash
    where p: "parseSubnetMints (as_mint (q_in_token sample_quote)) (as_mint (q_out_token sample_quote)) = Inr (netuid, buy)"
    and s: "sent sample_chain (ChainCall (if buy then ''SubtensorModule.add_stake_limit'' else ''SubtensorModule.remove_stake_limit'')
        [ArgAccount acc, ArgU16 netuid, ArgU64 (TAOToRAO (ce_lib sample_chain) (q_in_amount sample_quote)),
         ArgU64 (if buy then - 1 else 0), ArgBool True]) hash" by blast
  have "netuid = 8" "buy" using p unfolding sub by simp_all
  with s have "sent sample_chain (ChainCall ''SubtensorModule.add_stake_limit''
          [ArgAccount acc, ArgU16 8, ArgU64 1000000000, ArgU64 (- 1), ArgBool True]) hash" unfolding amount by simp
  with swap show ?thesis by blast
qed

end
