(* ===== verification/EvmChain.thy ===== *)
theory EvmChain
  imports Venues SubtensorChain Polling
begin

text \<open>
  \<open>internal/chain/evm\<close>: the registry of EVM chains (chains.go), the JSON-RPC client with its receipt poller
  (rpc.go), the hand-built ERC-20 calldata (erc20.go) and the filling, signing and sending of
  transactions (tx.go). HTTP, JSON, the clock, and go-ethereum's addresses, signatures and transaction
  encoding are parameters, the record \<open>evm_env\<close>. The client's request counter is the only state of
  its own; it is passed with the world. A \<open>*big.Int\<close> that may be nil is an option.
\<close>

section \<open>Chains (chains.go)\<close>

datatype gas_model = GasModelEIP1559 | GasModelLegacy | GasModelOther string

fun gas_model_str :: "gas_model \<Rightarrow> string" where
  "gas_model_str GasModelEIP1559 = ''eip1559''"
| "gas_model_str GasModelLegacy = ''legacy''"
| "gas_model_str (GasModelOther s) = s"

record evm_chain =
  ch_id :: chain_id
  ch_numeric :: u64
  ch_native :: string
  ch_native_dec :: int
  ch_explorer :: string
  ch_gas_model :: gas_model
  ch_testnet :: bool
  ch_display :: string

definition evm_Chains :: "(chain_id \<times> evm_chain) list" where
  "evm_Chains =
     [(ChainEthereum, \<lparr>ch_id = ChainEthereum, ch_numeric = 1, ch_native = ''ETH'', ch_native_dec = 18,
         ch_explorer = ''https://etherscan.io/tx/%s'', ch_gas_model = GasModelEIP1559, ch_testnet = False,
         ch_display = ''Ethereum mainnet''\<rparr>),
      (ChainBase, \<lparr>ch_id = ChainBase, ch_numeric = 8453, ch_native = ''ETH'', ch_native_dec = 18,
         ch_explorer = ''https://basescan.org/tx/%s'', ch_gas_model = GasModelEIP1559, ch_testnet = False,
         ch_display = ''Base mainnet''\<rparr>),
      (ChainAvalanche, \<lparr>ch_id = ChainAvalanche, ch_numeric = 43114, ch_native = ''AVAX'', ch_native_dec = 18,
         ch_explorer = ''https://snowtrace.io/tx/%s'', ch_gas_model = GasModelLegacy, ch_testnet = False,
         ch_display = ''Avalanche C-Chain''\<rparr>),
      (ChainBSC, \<lparr>ch_id = ChainBSC, ch_numeric = 56, ch_native = ''BNB'', ch_native_dec = 18,
         ch_explorer = ''https://bscscan.com/tx/%s'', ch_gas_model = GasModelLegacy, ch_testnet = False,
         ch_display = ''BNB Smart Chain''\<rparr>)]"

definition evm_Testnets :: "(string \<times> evm_chain) list" where
  "evm_Testnets =
     [(''sepolia'', \<lparr>ch_id = ChainOther ''sepolia'', ch_numeric = 11155111, ch_native = ''ETH'', ch_native_dec = 18,
         ch_explorer = ''https://sepolia.etherscan.io/tx/%s'', ch_gas_model = GasModelEIP1559, ch_testnet = True,
         ch_display = ''Ethereum Sepolia''\<rparr>),
      (''base-sepolia'', \<lparr>ch_id = ChainOther ''base-sepolia'', ch_numeric = 84532, ch_native = ''ETH'', ch_native_dec = 18,
         ch_explorer = ''https://sepolia.basescan.org/tx/%s'', ch_gas_model = GasModelEIP1559, ch_testnet = True,
         ch_display = ''Base Sepolia''\<rparr>),
      (''fuji'', \<lparr>ch_id = ChainOther ''fuji'', ch_numeric = 43113, ch_native = ''AVAX'', ch_native_dec = 18,
         ch_explorer = ''https://testnet.snowtrace.io/tx/%s'', ch_gas_model = GasModelLegacy, ch_testnet = True,
         ch_display = ''Avalanche Fuji''\<rparr>),
      (''bsc-testnet'', \<lparr>ch_id = ChainOther ''bsc-testnet'', ch_numeric = 97, ch_native = ''BNB'', ch_native_dec = 18,
         ch_explorer = ''https://testnet.bscscan.com/tx/%s'', ch_gas_model = GasModelLegacy, ch_testnet = True,
         ch_display = ''BSC testnet''\<rparr>)]"

definition LookupChain :: "chain_id \<Rightarrow> go_error + evm_chain" where
  "LookupChain i =
     (case map_of evm_Chains i of
        Some c \<Rightarrow> Inr c
      | None \<Rightarrow>
          (case map_of evm_Testnets (to_lower (chain_str i)) of
             Some c \<Rightarrow> Inr c
           | None \<Rightarrow> Inl (Errorf (''evm: unknown chain '' @ quoted (chain_str i)))))"

text \<open>The explorer texts of the registry hold one \<open>%s\<close> and no other verb.\<close>

definition ExplorerURL :: "evm_chain \<Rightarrow> string \<Rightarrow> string" where
  "ExplorerURL c hash = (if ch_explorer c = [] then [] else replace_first ''%s'' hash (ch_explorer c))"

section \<open>Big integers and hexadecimal text\<close>

text \<open>
  \<open>big.Int.SetString(s, 16)\<close>: an optional sign and one or more digits of either case. \<open>be_bytes\<close> is
  \<open>big.Int.Bytes\<close> (big-endian, no leading zero), \<open>be_value\<close> is \<open>SetBytes\<close>, \<open>nat_hex\<close> is \<open>Text(16)\<close>.
\<close>

definition hex_digits_val :: "nat list \<Rightarrow> nat" where
  "hex_digits_val ds = foldl (\<lambda>a d. 16 * a + d) 0 ds"

definition unsigned_part :: "string \<Rightarrow> string" where
  "unsigned_part s = (if s \<noteq> [] \<and> (hd s = CHR ''-'' \<or> hd s = CHR ''+'') then tl s else s)"

definition hex_int :: "string \<Rightarrow> int option" where
  "hex_int s =
     (let u = unsigned_part s
      in if u = [] then None
         else case those (map hex_val u) of
             None \<Rightarrow> None
           | Some ds \<Rightarrow> Some (if hd s = CHR ''-'' then - int (hex_digits_val ds) else int (hex_digits_val ds)))"

fun nat_hex :: "nat \<Rightarrow> string" where
  "nat_hex n = (if n < 16 then [hex_char n] else nat_hex (n div 16) @ [hex_char (n mod 16)])"

declare nat_hex.simps [simp del]

fun be_bytes :: "nat \<Rightarrow> bytes" where
  "be_bytes n = (if n = 0 then [] else be_bytes (n div 256) @ [word_of_nat n])"

declare be_bytes.simps [simp del]

definition be_value :: "bytes \<Rightarrow> nat" where
  "be_value bs = foldl (\<lambda>a b. 256 * a + unat b) 0 bs"

text \<open>\<open>Uint64\<close> of a big integer keeps the low 64 bits of its magnitude.\<close>

definition hexToUint64 :: "string \<Rightarrow> go_error + u64" where
  "hexToUint64 s0 =
     (let s = TrimPrefix s0 ''0x''
      in if s = [] then Inr 0
         else case hex_int s of
             None \<Rightarrow> Inl (Errorf (''evm: bad hex uint '' @ quoted s))
           | Some n \<Rightarrow> Inr (word_of_int \<bar>n\<bar>))"

definition hexToBigInt :: "string \<Rightarrow> go_error + int" where
  "hexToBigInt s0 =
     (let s = TrimPrefix s0 ''0x''
      in if s = [] then Inr 0
         else case hex_int s of
             None \<Rightarrow> Inl (Errorf (''evm: bad hex bigint '' @ quoted s))
           | Some n \<Rightarrow> Inr n)"

definition hexToBytes :: "string \<Rightarrow> go_error + bytes" where
  "hexToBytes s0 =
     (let s = TrimPrefix s0 ''0x''
      in if s = [] then Inr []
         else case hex_decode (if length s mod 2 = 1 then CHR ''0'' # s else s) of
             None \<Rightarrow> Inl (Errorf ''encoding/hex: invalid byte'')
           | Some bs \<Rightarrow> Inr bs)"

section \<open>The JSON-RPC client (rpc.go)\<close>

datatype rpc_param = PText string | PFields "(string \<times> string) list" | PNoFloats

record rpc_request =
  rq_version :: string
  rq_id :: u64
  rq_method :: string
  rq_params :: "rpc_param list"

record rpc_error =
  re_code :: int
  re_message :: string
  re_data :: string

record rpc_response =
  rr_version :: string
  rr_id :: u64
  rr_result :: string
  rr_error :: "rpc_error option"

text \<open>An error of \<open>call\<close>: the RPC error itself, which \<open>errors.As\<close> can find again, or another one.\<close>

datatype rpc_failure = RpcError rpc_error | OtherError go_error

fun failure_error :: "rpc_failure \<Rightarrow> go_error" where
  "failure_error (RpcError e) = Errorf (''evm rpc '' @ int_str (re_code e) @ '': '' @ re_message e)"
| "failure_error (OtherError e) = e"

fun IsNotFound :: "rpc_failure \<Rightarrow> bool" where
  "IsNotFound (RpcError e) = (re_code e = - 32601 \<or> re_code e = - 32602)"
| "IsNotFound (OtherError e) = False"

datatype http_reply = HttpFailed go_error | BodyFailed go_error | HttpReply nat string

record receipt =
  rc_hash :: string
  rc_block_number :: string
  rc_block_hash :: string
  rc_gas_used :: string
  rc_gas_price :: string
  rc_status :: string

text \<open>The two transaction formats of go-ethereum the code builds.\<close>

record dynamic_fee_tx =
  dt_chain :: u64
  dt_nonce :: u64
  dt_tip_cap :: int
  dt_fee_cap :: int
  dt_gas :: u64
  dt_to :: bytes
  dt_value :: int
  dt_data :: bytes

record legacy_tx =
  lt_nonce :: u64
  lt_gas_price :: int
  lt_gas :: u64
  lt_to :: bytes
  lt_value :: int
  lt_data :: bytes

datatype evm_tx = DynamicFeeTx dynamic_fee_tx | LegacyTx legacy_tx

text \<open>
  \<open>ee_tick\<close> is one wait for the ticker or the end of the context; \<open>ee_address\<close> is \<open>common.HexToAddress\<close>;
  \<open>ee_sign\<close> signs for a chain id, \<open>ee_encode\<close> is \<open>MarshalBinary\<close> of a signed transaction.
\<close>

record 'w evm_env =
  ee_marshal :: "rpc_request \<Rightarrow> go_error + string"
  ee_new_request :: "string \<Rightarrow> go_error option"
  ee_http :: "string \<Rightarrow> string \<Rightarrow> 'w \<Rightarrow> http_reply \<times> 'w"
  ee_unmarshal :: "string \<Rightarrow> go_error + rpc_response"
  ee_json_string :: "string \<Rightarrow> go_error + string"
  ee_json_fees :: "string \<Rightarrow> go_error + string list"
  ee_json_receipt :: "string \<Rightarrow> go_error + receipt"
  ee_now :: "'w \<Rightarrow> time \<times> 'w"
  ee_tick :: "duration \<Rightarrow> 'w \<Rightarrow> go_error option \<times> 'w"
  ee_address :: "string \<Rightarrow> bytes"
  ee_sign :: "u64 \<Rightarrow> evm_tx \<Rightarrow> bytes \<Rightarrow> go_error + bytes"
  ee_encode :: "evm_tx \<Rightarrow> bytes \<Rightarrow> go_error + bytes"
  ee_key_address :: "bytes \<Rightarrow> string"

record evm_client =
  ec_url :: string
  ec_chain :: evm_chain

type_synonym 'w evm_state = "u64 \<times> 'w"

definition evm_NewClient :: "string \<Rightarrow> evm_chain \<Rightarrow> evm_client" where
  "evm_NewClient url ch = \<lparr>ec_url = TrimRight url (CHR ''/''), ec_chain = ch\<rparr>"

text \<open>\<open>z\<close> is the value of \<open>out\<close> before the call, which an empty result leaves alone.\<close>

definition rpc_result :: "'w evm_env \<Rightarrow> 'a \<Rightarrow> (string \<Rightarrow> go_error + 'a) \<Rightarrow> nat \<Rightarrow> string \<Rightarrow> rpc_failure + 'a" where
  "rpc_result E z decode status raw =
     (if status div 100 \<noteq> 2
      then Inl (OtherError (Errorf (''evm: http '' @ nat_str status @ '': '' @ TrimSpace raw)))
      else case ee_unmarshal E raw of
          Inl e \<Rightarrow> Inl (OtherError (Wrap ''evm: parse response'' e))
        | Inr r \<Rightarrow>
            (case rr_error r of
               Some e \<Rightarrow> Inl (RpcError e)
             | None \<Rightarrow>
                 if rr_result r = [] \<or> rr_result r = ''null'' then Inr z
                 else case decode (rr_result r) of
                     Inl e \<Rightarrow> Inl (OtherError (Wrap ''evm: parse result'' e))
                   | Inr x \<Rightarrow> Inr x))"

definition evm_call ::
  "'w evm_env \<Rightarrow> evm_client \<Rightarrow> string \<Rightarrow> rpc_param list \<Rightarrow> 'a \<Rightarrow> (string \<Rightarrow> go_error + 'a) \<Rightarrow> 'w evm_state
     \<Rightarrow> (rpc_failure + 'a) \<times> 'w evm_state" where
  "evm_call E c method params z decode st =
     (let n = fst st + 1; w = snd st
      in case ee_marshal E \<lparr>rq_version = ''2.0'', rq_id = n, rq_method = method, rq_params = params\<rparr> of
           Inl e \<Rightarrow> (Inl (OtherError (Wrap ''evm: marshal'' e)), n, w)
         | Inr body \<Rightarrow>
             (case ee_new_request E (ec_url c) of
                Some e \<Rightarrow> (Inl (OtherError e), n, w)
              | None \<Rightarrow>
                  (case ee_http E (ec_url c) body w of
                     (HttpFailed e, w1) \<Rightarrow> (Inl (OtherError (Wrap ''evm: http'' e)), n, w1)
                   | (BodyFailed e, w1) \<Rightarrow> (Inl (OtherError (Wrap ''evm: read body'' e)), n, w1)
                   | (HttpReply status raw, w1) \<Rightarrow> (rpc_result E z decode status raw, n, w1))))"

definition plain_error :: "(rpc_failure + 'a) \<times> 's \<Rightarrow> (go_error + 'a) \<times> 's" where
  "plain_error r = (case r of (Inl e, s) \<Rightarrow> (Inl (failure_error e), s) | (Inr x, s) \<Rightarrow> (Inr x, s))"

definition call_string ::
  "'w evm_env \<Rightarrow> evm_client \<Rightarrow> string \<Rightarrow> rpc_param list \<Rightarrow> 'w evm_state \<Rightarrow> (go_error + string) \<times> 'w evm_state" where
  "call_string E c method params st = plain_error (evm_call E c method params [] (ee_json_string E) st)"

definition evm_ChainID :: "'w evm_env \<Rightarrow> evm_client \<Rightarrow> 'w evm_state \<Rightarrow> (go_error + u64) \<times> 'w evm_state" where
  "evm_ChainID E c st = run_then (call_string E c ''eth_chainId'' [] st) (\<lambda>s st. (hexToUint64 s, st))"

definition evm_BlockNumber :: "'w evm_env \<Rightarrow> evm_client \<Rightarrow> 'w evm_state \<Rightarrow> (go_error + u64) \<times> 'w evm_state" where
  "evm_BlockNumber E c st = run_then (call_string E c ''eth_blockNumber'' [] st) (\<lambda>s st. (hexToUint64 s, st))"

definition evm_GetBalance ::
  "'w evm_env \<Rightarrow> evm_client \<Rightarrow> string \<Rightarrow> 'w evm_state \<Rightarrow> (go_error + int) \<times> 'w evm_state" where
  "evm_GetBalance E c addr st =
     run_then (call_string E c ''eth_getBalance'' [PText addr, PText ''latest''] st) (\<lambda>s st. (hexToBigInt s, st))"

definition GetTransactionCount ::
  "'w evm_env \<Rightarrow> evm_client \<Rightarrow> string \<Rightarrow> 'w evm_state \<Rightarrow> (go_error + u64) \<times> 'w evm_state" where
  "GetTransactionCount E c addr st =
     run_then (call_string E c ''eth_getTransactionCount'' [PText addr, PText ''pending''] st) (\<lambda>s st. (hexToUint64 s, st))"

definition evm_GasPrice :: "'w evm_env \<Rightarrow> evm_client \<Rightarrow> 'w evm_state \<Rightarrow> (go_error + int) \<times> 'w evm_state" where
  "evm_GasPrice E c st = run_then (call_string E c ''eth_gasPrice'' [] st) (\<lambda>s st. (hexToBigInt s, st))"

text \<open>A failing RPC call gives the default of one gwei; a result that does not parse is an error.\<close>

definition MaxPriorityFeePerGas :: "'w evm_env \<Rightarrow> evm_client \<Rightarrow> 'w evm_state \<Rightarrow> (go_error + int) \<times> 'w evm_state" where
  "MaxPriorityFeePerGas E c st =
     (case call_string E c ''eth_maxPriorityFeePerGas'' [] st of
        (Inl _, st1) \<Rightarrow> (Inr 1000000000, st1)
      | (Inr s, st1) \<Rightarrow> (hexToBigInt s, st1))"

definition FeeHistory ::
  "'w evm_env \<Rightarrow> evm_client \<Rightarrow> u64 \<Rightarrow> string \<Rightarrow> 'w evm_state \<Rightarrow> (go_error + string list) \<times> 'w evm_state" where
  "FeeHistory E c blocks newest st =
     plain_error (evm_call E c ''eth_feeHistory'' [PText (''0x'' @ nat_hex (unat blocks)), PText newest, PNoFloats] []
       (ee_json_fees E) st)"

definition eth_call ::
  "'w evm_env \<Rightarrow> evm_client \<Rightarrow> string \<Rightarrow> string \<Rightarrow> string \<Rightarrow> 'w evm_state \<Rightarrow> (go_error + bytes) \<times> 'w evm_state" where
  "eth_call E c from_addr to_addr data st =
     run_then (call_string E c ''eth_call''
         [PFields ([(''to'', to_addr), (''data'', data)] @ (if from_addr \<noteq> [] then [(''from'', from_addr)] else [])),
          PText ''latest''] st)
       (\<lambda>s st. (hexToBytes s, st))"

definition EstimateGas ::
  "'w evm_env \<Rightarrow> evm_client \<Rightarrow> string \<Rightarrow> string \<Rightarrow> string \<Rightarrow> string \<Rightarrow> 'w evm_state \<Rightarrow> (go_error + u64) \<times> 'w evm_state" where
  "EstimateGas E c from_addr to_addr data val st =
     run_then (call_string E c ''eth_estimateGas''
         [PFields ([(''from'', from_addr), (''to'', to_addr), (''data'', data)] @ (if val \<noteq> [] then [(''value'', val)] else []))] st)
       (\<lambda>s st. (hexToUint64 s, st))"

definition SendRawTransaction ::
  "'w evm_env \<Rightarrow> evm_client \<Rightarrow> string \<Rightarrow> 'w evm_state \<Rightarrow> (go_error + string) \<times> 'w evm_state" where
  "SendRawTransaction E c raw st = call_string E c ''eth_sendRawTransaction'' [PText raw] st"

definition IsSuccess :: "receipt \<Rightarrow> bool" where
  "IsSuccess r \<longleftrightarrow> rc_status r = ''0x1''"

definition GasUsedUint :: "receipt \<Rightarrow> go_error + u64" where
  "GasUsedUint r = hexToUint64 (rc_gas_used r)"

definition EffectiveGasPriceBig :: "receipt \<Rightarrow> go_error + int" where
  "EffectiveGasPriceBig r = hexToBigInt (rc_gas_price r)"

definition GetTransactionReceipt ::
  "'w evm_env \<Rightarrow> evm_client \<Rightarrow> string \<Rightarrow> 'w evm_state \<Rightarrow> (rpc_failure + receipt option) \<times> 'w evm_state" where
  "GetTransactionReceipt E c hash st =
     evm_call E c ''eth_getTransactionReceipt'' [PText hash] None (\<lambda>s. and_then (ee_json_receipt E s) (\<lambda>r. Inr (Some r))) st"

text \<open>What a poll decides: an error or a receipt ends the wait, \<open>None\<close> goes on.\<close>

definition poll_answer :: "rpc_failure + receipt option \<Rightarrow> (go_error + receipt) option" where
  "poll_answer r =
     (case r of
        Inl e \<Rightarrow> if IsNotFound e then None else Some (Inl (failure_error e))
      | Inr rc \<Rightarrow> map_option Inr rc)"

definition receipt_attempt ::
  "'w evm_env \<Rightarrow> evm_client \<Rightarrow> string \<Rightarrow> 'w evm_state \<Rightarrow> (go_error + receipt) option \<times> 'w evm_state" where
  "receipt_attempt E c hash st = (let (r, st1) = GetTransactionReceipt E c hash st in (poll_answer r, st1))"

definition WaitForReceipt ::
  "'w evm_env \<Rightarrow> evm_client \<Rightarrow> string \<Rightarrow> duration \<Rightarrow> duration \<Rightarrow> 'w evm_state
     \<Rightarrow> ((go_error + receipt) \<times> 'w evm_state) option" where
  "WaitForReceipt E c hash budget interval0 st =
     (let interval = (if interval0 = 0 then 2 * nano_second else interval0);
          (now, st1) = on_second (ee_now E) st
      in poll_until (receipt_attempt E c hash) (on_second (ee_now E)) (on_second (ee_tick E interval)) (now + budget)
           (Inl (Errorf (''evm: receipt timeout for '' @ hash))) Inl st1)"

section \<open>The chain registry\<close>

lemma LookupChain_cases:
  assumes "LookupChain i = Inr c"
  shows "c \<in> snd ` set evm_Chains \<and> ch_id c = i \<and> IsEVM i \<and> \<not> ch_testnet c
    \<or> c \<in> snd ` set evm_Testnets \<and> to_lower (chain_str i) = chain_str (ch_id c) \<and> \<not> IsEVM i \<and> ch_testnet c"
proof (cases "map_of evm_Chains i")
  case None
  with assms have t: "map_of evm_Testnets (to_lower (chain_str i)) = Some c"
    by (auto simp: LookupChain_def split: option.splits)
  then have "c \<in> snd ` set evm_Testnets" by (force dest: map_of_SomeD)
  moreover have "to_lower (chain_str i) = chain_str (ch_id c) \<and> ch_testnet c"
    using t by (auto simp: evm_Testnets_def split: if_splits)
  moreover have "\<not> IsEVM i" using None by (cases i) (auto simp: evm_Chains_def)
  ultimately show ?thesis by blast
next
  case (Some d)
  with assms have "map_of evm_Chains i = Some c" by (simp add: LookupChain_def)
  then have "c \<in> snd ` set evm_Chains" by (force dest: map_of_SomeD)
  moreover have "ch_id c = i \<and> IsEVM i \<and> \<not> ch_testnet c"
    using \<open>map_of evm_Chains i = Some c\<close> by (auto simp: evm_Chains_def split: if_splits)
  ultimately show ?thesis by blast
qed

lemma registry_distinct:
  "distinct (map ch_numeric (map snd evm_Chains @ map snd evm_Testnets))"
  "distinct (map (\<lambda>c. chain_str (ch_id c)) (map snd evm_Chains @ map snd evm_Testnets))"
  by (simp_all add: evm_Chains_def evm_Testnets_def)

text \<open>
  No two chains share a number. The names of \<open>pkg/types\<close> that count as EVM chains are exactly those that resolve to a mainnet; a name
  resolves to itself up to letter case; and names that resolve to the same EIP-155 number resolve to the same chain, so a transaction
  signed for one chain of the registry is for no other. Testnets resolve too.
\<close>

theorem chain_numbers_identify:
  "(IsEVM i \<longleftrightarrow> (\<exists>c. LookupChain i = Inr c \<and> \<not> ch_testnet c))
   \<and> (case (LookupChain i, LookupChain j) of
        (Inr c, Inr d) \<Rightarrow> to_lower (chain_str i) = chain_str (ch_id c)
          \<and> (ch_numeric c = ch_numeric d \<longleftrightarrow> c = d) \<and> (c = d \<longleftrightarrow> to_lower (chain_str i) = to_lower (chain_str j))
      | _ \<Rightarrow> True)"
proof -
  have low: "to_lower (chain_str k) = chain_str k" if "IsEVM k" for k
    using that by (cases k) (simp_all add: to_lower_def lower_char_def)
  have name: "to_lower (chain_str k) = chain_str (ch_id c)" and mem: "c \<in> snd ` (set evm_Chains) \<union> snd ` (set evm_Testnets)"
    if "LookupChain k = Inr c" for k c
    using LookupChain_cases [OF that] low by auto
  have inj: "inj_on ch_numeric (snd ` (set evm_Chains) \<union> snd ` (set evm_Testnets))"
    "inj_on (\<lambda>c. chain_str (ch_id c)) (snd ` (set evm_Chains) \<union> snd ` (set evm_Testnets))"
    using registry_distinct by (simp_all only: distinct_map set_append set_map)
  have num: "ch_numeric c = ch_numeric d \<longleftrightarrow> c = d" "c = d \<longleftrightarrow> chain_str (ch_id c) = chain_str (ch_id d)"
    if "c \<in> snd ` (set evm_Chains) \<union> snd ` (set evm_Testnets)" "d \<in> snd ` (set evm_Chains) \<union> snd ` (set evm_Testnets)" for c d
    using inj_on_eq_iff [OF inj(1) that] inj_on_eq_iff [OF inj(2) that] by blast+
  have "IsEVM i \<longleftrightarrow> (\<exists>c. LookupChain i = Inr c \<and> \<not> ch_testnet c)"
  proof
    assume "IsEVM i"
    then show "\<exists>c. LookupChain i = Inr c \<and> \<not> ch_testnet c"
      by (cases i) (auto simp: LookupChain_def evm_Chains_def)
  qed (use LookupChain_cases in blast)
  moreover have "case (LookupChain i, LookupChain j) of
        (Inr c, Inr d) \<Rightarrow> to_lower (chain_str i) = chain_str (ch_id c)
          \<and> (ch_numeric c = ch_numeric d \<longleftrightarrow> c = d) \<and> (c = d \<longleftrightarrow> to_lower (chain_str i) = to_lower (chain_str j))
      | _ \<Rightarrow> True"
  proof (cases "LookupChain i")
    case c: (Inr c)
    show ?thesis
    proof (cases "LookupChain j")
      case d: (Inr d)
      show ?thesis
        using name [OF c] name [OF d] num [OF mem [OF c] mem [OF d]] by (simp only: c d prod.case sum.case)
    qed (simp add: c)
  qed simp
  ultimately show ?thesis by blast
qed

end
