(* ===== verification/EvmTransactions.thy ===== *)
theory EvmTransactions
  imports EvmChain
begin

text \<open>
  \<open>erc20.go\<close> and \<open>tx.go\<close>: ERC-20 calldata and token reads, filling the gas, nonce and fee fields of a
  transaction, signing and sending it. Encoding a negative amount or one of more than 256 bits panics,
  \<open>None\<close>. \<open>EstimateAndFill\<close> changes its argument; after an error every caller
  drops it, so the model returns the filled request only on success.
\<close>

section \<open>ERC-20 (erc20.go)\<close>

definition selBalanceOf :: string where "selBalanceOf = ''70a08231''"
definition selAllowance :: string where "selAllowance = ''dd62ed3e''"
definition selApprove :: string where "selApprove = ''095ea7b3''"
definition selTransfer :: string where "selTransfer = ''a9059cbb''"
definition selDecimals :: string where "selDecimals = ''313ce567''"

definition MaxUint256 :: int where
  "MaxUint256 = 2 ^ 256 - 1"

definition padAddress :: "string \<Rightarrow> string" where
  "padAddress addr =
     (let clean0 = to_lower (TrimPrefix addr ''0x'');
          clean = (if 40 < length clean0 then drop (length clean0 - 40) clean0 else clean0)
      in replicate (64 - length clean) (CHR ''0'') @ clean)"

definition padUint256 :: "int option \<Rightarrow> string option" where
  "padUint256 n0 =
     (case n0 of
        None \<Rightarrow> Some (replicate 64 (CHR ''0''))
      | Some n \<Rightarrow>
          (if n < 0 then None
           else let h = hex_encode (be_bytes (nat n))
                in if 64 < length h then None else Some (replicate (64 - length h) (CHR ''0'') @ h)))"

definition EncodeApprove :: "string \<Rightarrow> int option \<Rightarrow> string option" where
  "EncodeApprove spender amount =
     map_option (\<lambda>a. ''0x'' @ selApprove @ padAddress spender @ a) (padUint256 amount)"

definition EncodeTransfer :: "string \<Rightarrow> int option \<Rightarrow> string option" where
  "EncodeTransfer recipient amount =
     map_option (\<lambda>a. ''0x'' @ selTransfer @ padAddress recipient @ a) (padUint256 amount)"

definition EncodeBalanceOf :: "string \<Rightarrow> string" where
  "EncodeBalanceOf owner = ''0x'' @ selBalanceOf @ padAddress owner"

definition EncodeAllowance :: "string \<Rightarrow> string \<Rightarrow> string" where
  "EncodeAllowance owner spender = ''0x'' @ selAllowance @ padAddress owner @ padAddress spender"

text \<open>A token handle is its lowercased contract address next to the client.\<close>

definition NewERC20Token :: "string \<Rightarrow> string" where
  "NewERC20Token contract = to_lower contract"

definition erc20_BalanceOf ::
  "'w evm_env \<Rightarrow> evm_client \<Rightarrow> string \<Rightarrow> string \<Rightarrow> 'w evm_state \<Rightarrow> (go_error + nat) \<times> 'w evm_state" where
  "erc20_BalanceOf E c token owner st =
     run_then (wrap_error ''erc20.balanceOf'' (eth_call E c [] token (''0x'' @ selBalanceOf @ padAddress owner) st))
       (\<lambda>out st. (Inr (be_value out), st))"

definition erc20_Allowance ::
  "'w evm_env \<Rightarrow> evm_client \<Rightarrow> string \<Rightarrow> string \<Rightarrow> string \<Rightarrow> 'w evm_state \<Rightarrow> (go_error + nat) \<times> 'w evm_state" where
  "erc20_Allowance E c token owner spender st =
     run_then (wrap_error ''erc20.allowance''
         (eth_call E c [] token (''0x'' @ selAllowance @ padAddress owner @ padAddress spender) st))
       (\<lambda>out st. (Inr (be_value out), st))"

definition erc20_Decimals ::
  "'w evm_env \<Rightarrow> evm_client \<Rightarrow> string \<Rightarrow> 'w evm_state \<Rightarrow> (go_error + byte) \<times> 'w evm_state" where
  "erc20_Decimals E c token st =
     run_then (wrap_error ''erc20.decimals'' (eth_call E c [] token (''0x'' @ selDecimals) st))
       (\<lambda>out st. (if out = [] then Inl (Errorf ''erc20.decimals: empty response'') else Inr (word_of_nat (be_value out)), st))"

section \<open>Transactions (tx.go)\<close>

record tx_request =
  tq_from :: string
  tq_to :: string
  tq_data :: string
  tq_value :: "int option"
  tq_gas :: u64
  tq_nonce :: "u64 option"
  tq_gas_price :: "int option"
  tq_max_fee :: "int option"
  tq_tip :: "int option"

text \<open>The steps of \<open>EstimateAndFill\<close>, each for one field the caller left empty.\<close>

definition fill_nonce ::
  "'w evm_env \<Rightarrow> evm_client \<Rightarrow> tx_request \<Rightarrow> 'w evm_state \<Rightarrow> (go_error + tx_request) \<times> 'w evm_state" where
  "fill_nonce E c r st =
     (case tq_nonce r of
        Some _ \<Rightarrow> (Inr r, st)
      | None \<Rightarrow> run_then (wrap_error ''evm: nonce'' (GetTransactionCount E c (tq_from r) st))
                  (\<lambda>n st. (Inr (r\<lparr>tq_nonce := Some n\<rparr>), st)))"

definition value_hex :: "int \<Rightarrow> string" where
  "value_hex v = (if 0 < v then ''0x'' @ nat_hex (nat v) else ''0x0'')"

definition fill_gas ::
  "'w evm_env \<Rightarrow> evm_client \<Rightarrow> tx_request \<Rightarrow> 'w evm_state \<Rightarrow> (go_error + tx_request) \<times> 'w evm_state" where
  "fill_gas E c r st =
     (if tq_gas r \<noteq> 0 then (Inr r, st)
      else run_then (wrap_error ''evm: estimate gas''
               (EstimateGas E c (tq_from r) (tq_to r) (tq_data r) (value_hex (the (tq_value r))) st))
             (\<lambda>gas st. (Inr (r\<lparr>tq_gas := gas + gas div 4\<rparr>), st)))"

definition fill_tip ::
  "'w evm_env \<Rightarrow> evm_client \<Rightarrow> tx_request \<Rightarrow> 'w evm_state \<Rightarrow> (go_error + tx_request) \<times> 'w evm_state" where
  "fill_tip E c r st =
     (case tq_tip r of
        Some _ \<Rightarrow> (Inr r, st)
      | None \<Rightarrow> run_then (wrap_error ''evm: priority fee'' (MaxPriorityFeePerGas E c st))
                  (\<lambda>tip st. (Inr (r\<lparr>tq_tip := Some tip\<rparr>), st)))"

text \<open>Twice the latest base fee plus the tip; twice the gas price when there is no fee history.\<close>

definition max_fee :: "'w evm_env \<Rightarrow> evm_client \<Rightarrow> int \<Rightarrow> 'w evm_state \<Rightarrow> (go_error + int) \<times> 'w evm_state" where
  "max_fee E c tip st =
     (case FeeHistory E c 1 ''latest'' st of
        (Inr (b # bs), st1) \<Rightarrow>
          (case hex_int (TrimPrefix (last (b # bs)) ''0x'') of
             None \<Rightarrow> Inl (Errorf (''evm: parse base fee: '' @ b))
           | Some base \<Rightarrow> Inr (base * 2 + tip), st1)
      | (_, st1) \<Rightarrow> run_then (wrap_error ''evm: fallback gas price'' (evm_GasPrice E c st1)) (\<lambda>gp st. (Inr (gp * 2 + tip), st)))"

definition fill_max_fee ::
  "'w evm_env \<Rightarrow> evm_client \<Rightarrow> tx_request \<Rightarrow> 'w evm_state \<Rightarrow> (go_error + tx_request) \<times> 'w evm_state" where
  "fill_max_fee E c r st =
     (case tq_max_fee r of
        Some _ \<Rightarrow> (Inr r, st)
      | None \<Rightarrow> run_then (max_fee E c (the (tq_tip r)) st) (\<lambda>m st. (Inr (r\<lparr>tq_max_fee := Some m\<rparr>), st)))"

definition fill_gas_price ::
  "'w evm_env \<Rightarrow> evm_client \<Rightarrow> tx_request \<Rightarrow> 'w evm_state \<Rightarrow> (go_error + tx_request) \<times> 'w evm_state" where
  "fill_gas_price E c r st =
     (case tq_gas_price r of
        Some _ \<Rightarrow> (Inr r, st)
      | None \<Rightarrow> run_then (wrap_error ''evm: gas price'' (evm_GasPrice E c st))
                  (\<lambda>gp st. (Inr (r\<lparr>tq_gas_price := Some gp\<rparr>), st)))"

definition fill_fees ::
  "'w evm_env \<Rightarrow> evm_client \<Rightarrow> tx_request \<Rightarrow> 'w evm_state \<Rightarrow> (go_error + tx_request) \<times> 'w evm_state" where
  "fill_fees E c r st =
     (case ch_gas_model (ec_chain c) of
        GasModelEIP1559 \<Rightarrow> run_then (fill_tip E c r st) (fill_max_fee E c)
      | GasModelLegacy \<Rightarrow> fill_gas_price E c r st
      | GasModelOther m \<Rightarrow> (Inl (Errorf (''evm: unknown gas model '' @ quoted m)), st))"

definition EstimateAndFill ::
  "'w evm_env \<Rightarrow> evm_client \<Rightarrow> tx_request \<Rightarrow> 'w evm_state \<Rightarrow> (go_error + tx_request) \<times> 'w evm_state" where
  "EstimateAndFill E c r0 st =
     (if tq_from r0 = [] then (Inl (Errorf ''evm: tx From is required''), st)
      else
        let r = (case tq_value r0 of None \<Rightarrow> r0\<lparr>tq_value := Some 0\<rparr> | Some _ \<Rightarrow> r0)
        in run_then (run_then (fill_nonce E c r st) (fill_gas E c)) (fill_fees E c))"

text \<open>\<open>build_tx\<close> is the switch of \<open>SignAndSend\<close> over the gas model.\<close>

definition build_tx :: "'w evm_env \<Rightarrow> evm_client \<Rightarrow> tx_request \<Rightarrow> u64 \<Rightarrow> bytes \<Rightarrow> go_error + evm_tx" where
  "build_tx E c r nonce data =
     (let to_addr = ee_address E (tq_to r); v = (case tq_value r of None \<Rightarrow> 0 | Some v \<Rightarrow> v)
      in case ch_gas_model (ec_chain c) of
           GasModelEIP1559 \<Rightarrow>
             (case (tq_max_fee r, tq_tip r) of
                (Some m, Some t) \<Rightarrow>
                  Inr (DynamicFeeTx \<lparr>dt_chain = ch_numeric (ec_chain c), dt_nonce = nonce, dt_tip_cap = t, dt_fee_cap = m,
                    dt_gas = tq_gas r, dt_to = to_addr, dt_value = v, dt_data = data\<rparr>)
              | _ \<Rightarrow> Inl (Errorf ''evm: EIP-1559 requires maxFee and tip''))
         | GasModelLegacy \<Rightarrow>
             (case tq_gas_price r of
                Some g \<Rightarrow>
                  Inr (LegacyTx \<lparr>lt_nonce = nonce, lt_gas_price = g, lt_gas = tq_gas r, lt_to = to_addr, lt_value = v,
                    lt_data = data\<rparr>)
              | None \<Rightarrow> Inl (Errorf ''evm: legacy requires GasPriceWei''))
         | GasModelOther m \<Rightarrow> Inl (Errorf (''evm: unknown gas model '' @ quoted m)))"

text \<open>The bytes \<open>SignAndSend\<close> broadcasts, before anything is sent.\<close>

definition signed_tx :: "'w evm_env \<Rightarrow> evm_client \<Rightarrow> tx_request \<Rightarrow> bytes option \<Rightarrow> go_error + bytes" where
  "signed_tx E c r key =
     (case (key, tq_nonce r) of
        (None, _) \<Rightarrow> Inl (Errorf ''evm: private key is nil'')
      | (Some _, None) \<Rightarrow> Inl (Errorf ''evm: nonce is required (call EstimateAndFill first)'')
      | (Some k, Some nonce) \<Rightarrow>
          (if tq_gas r = 0 then Inl (Errorf ''evm: gas limit is required (call EstimateAndFill first)'')
           else and_then (wrap_result ''evm: data hex'' (hexToBytes (tq_data r))) (\<lambda>data.
                and_then (build_tx E c r nonce data) (\<lambda>tx.
                and_then (wrap_result ''evm: sign'' (ee_sign E (ch_numeric (ec_chain c)) tx k)) (\<lambda>sg.
                wrap_result ''evm: marshal tx'' (ee_encode E tx sg))))))"

definition SignAndSend ::
  "'w evm_env \<Rightarrow> evm_client \<Rightarrow> tx_request \<Rightarrow> bytes option \<Rightarrow> 'w evm_state \<Rightarrow> (go_error + string) \<times> 'w evm_state" where
  "SignAndSend E c r key st =
     (case signed_tx E c r key of
        Inl e \<Rightarrow> (Inl e, st)
      | Inr raw \<Rightarrow> wrap_error ''evm: broadcast'' (SendRawTransaction E c (''0x'' @ hex_encode raw) st))"

text \<open>The receipt, the hash (empty if nothing was sent) and the error.\<close>

definition SendAndWait ::
  "'w evm_env \<Rightarrow> evm_client \<Rightarrow> tx_request \<Rightarrow> bytes option \<Rightarrow> duration \<Rightarrow> 'w evm_state
     \<Rightarrow> ((receipt option \<times> string \<times> go_error option) \<times> 'w evm_state) option" where
  "SendAndWait E c r key budget0 st =
     (let budget = (if budget0 = 0 then 90 * nano_second else budget0)
      in case run_then (EstimateAndFill E c r st) (\<lambda>r st. SignAndSend E c r key st) of
           (Inl e, st1) \<Rightarrow> Some ((None, [], Some e), st1)
         | (Inr hash, st1) \<Rightarrow>
             (case WaitForReceipt E c hash budget (2 * nano_second) st1 of
                None \<Rightarrow> None
              | Some (Inl e, st2) \<Rightarrow> Some ((None, hash, Some e), st2)
              | Some (Inr rc, st2) \<Rightarrow> Some ((Some rc, hash, None), st2)))"

definition AddressFromPrivateKey :: "'w evm_env \<Rightarrow> bytes \<Rightarrow> string" where
  "AddressFromPrivateKey E key = to_lower (ee_key_address E key)"

section \<open>Encodings\<close>

lemma hex_char_lower [simp]: "d < 16 \<Longrightarrow> lower_char (hex_char d) = hex_char d"
  by (auto simp: lower_char_def hex_char_def)

lemma hex_byte_lower: "map lower_char (hex_byte b) = hex_byte b"
proof -
  have "unat b < 256" by simp
  then have "unat b div 16 < 16" by (simp add: less_mult_imp_div_less)
  then show ?thesis by (simp add: hex_byte_def)
qed

lemma hex_encode_lower [simp]: "to_lower (hex_encode bs) = hex_encode bs"
  unfolding to_lower_def hex_encode_def by (induction bs) (simp_all add: hex_byte_lower)

lemma hex_encode_append: "hex_encode (as @ bs) = hex_encode as @ hex_encode bs"
  by (simp add: hex_encode_def)

lemma hex_encode_zeros: "hex_encode (replicate n 0) = replicate (2 * n) (CHR ''0'')"
proof -
  have "hex_char 0 = CHR ''0''" by code_simp
  then show ?thesis by (induction n) (simp_all add: hex_encode_def hex_byte_def)
qed

lemma hexToBytes_encode [roundtrips]: "hexToBytes (''0x'' @ hex_encode bs) = Inr bs"
proof (cases "bs = []")
  case False
  then have "hex_encode bs \<noteq> []" by (simp flip: length_greater_0_conv)
  moreover have "TrimPrefix (''0x'' @ hex_encode bs) ''0x'' = hex_encode bs" by (rule TrimPrefix_append)
  ultimately show ?thesis by (simp add: hexToBytes_def Let_def hex_decode_encode del: append_Cons)
qed (use TrimPrefix_append [of "''0x''" "[]"] in \<open>simp add: hexToBytes_def hex_encode_def\<close>)

lemma foldl_be: "foldl (\<lambda>a b. 256 * a + unat b) n bs = n * 256 ^ length bs + be_value bs" for bs :: bytes
proof (induction bs rule: rev_induct)
  case (snoc b bs)
  then show ?case by (simp add: be_value_def algebra_simps)
qed (simp add: be_value_def)

lemma be_value_append: "be_value (as @ bs) = be_value as * 256 ^ length bs + be_value bs"
  using foldl_be [of "be_value as" bs] by (simp add: be_value_def)

lemma be_value_zeros [simp]: "be_value (replicate n 0) = 0"
  by (induction n) (simp_all add: be_value_def)

lemma be_value_bytes [roundtrips, simp]: "be_value (be_bytes n) = n"
proof (induction n rule: be_bytes.induct)
  case (1 n)
  show ?case
  proof (cases "n = 0")
    case False
    with 1 have "be_value (be_bytes (n div 256)) = n div 256" by simp
    with False show ?thesis
      by (subst be_bytes.simps) (simp add: be_value_append, simp add: be_value_def unat_of_nat)
  qed (simp add: be_bytes.simps be_value_def)
qed

lemma be_bytes_length: "length (be_bytes n) \<le> k \<longleftrightarrow> n < 256 ^ k"
proof (induction n arbitrary: k rule: be_bytes.induct)
  case (1 n)
  show ?case
  proof (cases "n = 0")
    case True
    then show ?thesis by (simp add: be_bytes.simps)
  next
    case False
    show ?thesis
    proof (cases k)
      case 0
      with False show ?thesis by (subst be_bytes.simps) simp
    next
      case (Suc m)
      have "n div 256 < 256 ^ m \<longleftrightarrow> n < 256 ^ Suc m" by (simp add: div_less_iff_less_mult mult.commute)
      with 1 [OF False, of m] False Suc show ?thesis by (subst be_bytes.simps) simp
    qed
  qed
qed

lemma padAddress_bytes:
  assumes "length a = 20"
  shows "padAddress (''0x'' @ hex_encode a) = hex_encode (replicate 12 0 @ a)"
  using assms by (simp only: padAddress_def TrimPrefix_append hex_encode_lower Let_def hex_encode_length hex_encode_append hex_encode_zeros)
    simp

lemma padUint256_bytes:
  assumes "0 \<le> n" and "n \<le> MaxUint256"
  shows "padUint256 (Some n) = Some (hex_encode (replicate (32 - length (be_bytes (nat n))) 0 @ be_bytes (nat n)))"
    and "length (be_bytes (nat n)) \<le> 32"
proof -
  have "nat n < 256 ^ 32" using assms by (simp add: MaxUint256_def)
  then show len: "length (be_bytes (nat n)) \<le> 32" by (simp only: be_bytes_length)
  then have "64 - 2 * length (be_bytes (nat n)) = 2 * (32 - length (be_bytes (nat n)))" by simp
  with assms len show "padUint256 (Some n) = Some (hex_encode (replicate (32 - length (be_bytes (nat n))) 0 @ be_bytes (nat n)))"
    by (simp add: padUint256_def Let_def hex_encode_append hex_encode_zeros)
qed

lemma padUint256_None: "padUint256 (Some n) = None \<longleftrightarrow> n < 0 \<or> MaxUint256 < n"
proof (cases "n < 0")
  case False
  have "64 < 2 * length (be_bytes (nat n)) \<longleftrightarrow> \<not> length (be_bytes (nat n)) \<le> 32" by linarith
  also have "\<dots> \<longleftrightarrow> MaxUint256 < n"
    using False unfolding be_bytes_length by (simp add: MaxUint256_def not_less le_nat_iff) linarith
  finally show ?thesis using False by (simp add: padUint256_def Let_def)
qed (simp add: padUint256_def)

lemma selApprove_bytes: "selApprove = hex_encode [0x09, 0x5e, 0xa7, 0xb3]"
  by code_simp

text \<open>
  C24: The approval calldata says what it should. For a 20-byte spender and any amount a \<open>uint256\<close> can hold, the calldata of
  \<open>EncodeApprove\<close> decodes to 68 bytes: the selector of \<open>approve\<close>, the spender and the amount, each in its own 32-byte word. It is refused
  (the code panics) exactly for negative amounts and amounts beyond \<open>MaxUint256\<close>.
\<close>

theorem approve_calldata_roundtrip:
  assumes "length a = 20" and "0 \<le> n" and "n \<le> MaxUint256"
  shows "\<exists>data bs. EncodeApprove (''0x'' @ hex_encode a) (Some n) = Some data \<and> hexToBytes data = Inr bs \<and> length bs = 68
    \<and> take 4 bs = [0x09, 0x5e, 0xa7, 0xb3] \<and> take 32 (drop 4 bs) = replicate 12 0 @ a
    \<and> int (be_value (drop 36 bs)) = n
    \<and> (EncodeApprove s (Some m) = None \<longleftrightarrow> m < 0 \<or> MaxUint256 < m)"
proof -
  let ?z = "replicate (32 - length (be_bytes (nat n))) 0 :: bytes"
  let ?bs = "[0x09, 0x5e, 0xa7, 0xb3] @ (replicate 12 0 @ a) @ (?z @ be_bytes (nat n))"
  note len = padUint256_bytes(2) [OF assms(2,3)]
  have "EncodeApprove (''0x'' @ hex_encode a) (Some n) = Some (''0x'' @ hex_encode ?bs)"
    using padAddress_bytes [OF assms(1)] padUint256_bytes(1) [OF assms(2,3)]
    by (simp only: EncodeApprove_def option.map selApprove_bytes hex_encode_append)
  moreover have "hexToBytes (''0x'' @ hex_encode ?bs) = Inr ?bs" by (rule hexToBytes_encode)
  moreover have "length ?bs = 68" "take 4 ?bs = [0x09, 0x5e, 0xa7, 0xb3]" "take 32 (drop 4 ?bs) = replicate 12 0 @ a"
    "drop 36 ?bs = ?z @ be_bytes (nat n)" using assms(1) len by simp_all
  moreover have "int (be_value (?z @ be_bytes (nat n))) = n" using assms(2) by (simp add: be_value_append)
  moreover have "EncodeApprove s (Some m) = None \<longleftrightarrow> m < 0 \<or> MaxUint256 < m"
    by (simp add: EncodeApprove_def padUint256_None)
  ultimately show ?thesis by metis
qed

theorem approve_calldata_roundtrip_witness:
  "\<exists>data bs. EncodeApprove (''0x'' @ hex_encode (replicate 20 0xAB)) (Some MaxUint256) = Some data \<and> hexToBytes data = Inr bs
     \<and> take 32 (drop 4 bs) = replicate 12 0 @ replicate 20 0xAB \<and> int (be_value (drop 36 bs)) = MaxUint256"
proof -
  have "length (replicate 20 0xAB :: bytes) = 20" "0 \<le> MaxUint256" "MaxUint256 \<le> MaxUint256" by (simp_all add: MaxUint256_def)
  from approve_calldata_roundtrip [OF this] show ?thesis by blast
qed

section \<open>Filling and signing\<close>

lemma fill_steps:
  "fill_nonce E c r st = (Inr r', st') \<Longrightarrow> \<exists>n. r' = r\<lparr>tq_nonce := Some n\<rparr> \<and> (\<forall>m. tq_nonce r = Some m \<longrightarrow> n = m)"
  "fill_gas E c r st = (Inr r', st') \<Longrightarrow> \<exists>g. r' = r\<lparr>tq_gas := g\<rparr> \<and> (tq_gas r \<noteq> 0 \<longrightarrow> g = tq_gas r)"
  "fill_tip E c r st = (Inr r', st') \<Longrightarrow> \<exists>t. r' = r\<lparr>tq_tip := Some t\<rparr> \<and> (\<forall>m. tq_tip r = Some m \<longrightarrow> t = m)"
  "fill_max_fee E c r st = (Inr r', st') \<Longrightarrow> \<exists>t. r' = r\<lparr>tq_max_fee := Some t\<rparr> \<and> (\<forall>m. tq_max_fee r = Some m \<longrightarrow> t = m)"
  "fill_gas_price E c r st = (Inr r', st') \<Longrightarrow> \<exists>t. r' = r\<lparr>tq_gas_price := Some t\<rparr> \<and> (\<forall>m. tq_gas_price r = Some m \<longrightarrow> t = m)"
  by (auto simp: fill_nonce_def fill_gas_def fill_tip_def fill_max_fee_def fill_gas_price_def
      split: option.splits if_splits elim!: run_then_InrE)

text \<open>\<open>extends r r'\<close>: \<open>r'\<close> has every field the caller set in \<open>r\<close>.\<close>

definition extends :: "tx_request \<Rightarrow> tx_request \<Rightarrow> bool" where
  "extends r r' \<longleftrightarrow> tq_from r' = tq_from r \<and> tq_to r' = tq_to r \<and> tq_data r' = tq_data r
     \<and> tq_value r' = Some (case tq_value r of None \<Rightarrow> 0 | Some v \<Rightarrow> v)
     \<and> (tq_gas r \<noteq> 0 \<longrightarrow> tq_gas r' = tq_gas r)
     \<and> (tq_nonce r \<noteq> None \<longrightarrow> tq_nonce r' = tq_nonce r) \<and> (tq_gas_price r \<noteq> None \<longrightarrow> tq_gas_price r' = tq_gas_price r)
     \<and> (tq_max_fee r \<noteq> None \<longrightarrow> tq_max_fee r' = tq_max_fee r) \<and> (tq_tip r \<noteq> None \<longrightarrow> tq_tip r' = tq_tip r)"

lemma EstimateAndFill_steps:
  assumes "EstimateAndFill E c r st = (Inr r', st')"
  obtains n g r2 st2 where
    "fill_fees E c r2 st2 = (Inr r', st')" and "\<forall>m. tq_nonce r = Some m \<longrightarrow> n = m" and "tq_gas r \<noteq> 0 \<longrightarrow> g = tq_gas r"
    and "r2 = r\<lparr>tq_value := Some (case tq_value r of None \<Rightarrow> 0 | Some v \<Rightarrow> v), tq_nonce := Some n, tq_gas := g\<rparr>"
proof -
  let ?r = "case tq_value r of None \<Rightarrow> r\<lparr>tq_value := Some 0\<rparr> | Some _ \<Rightarrow> r"
  have r: "?r = r\<lparr>tq_value := Some (case tq_value r of None \<Rightarrow> 0 | Some v \<Rightarrow> v)\<rparr>" by (cases r) (simp split: option.splits)
  from assms have "run_then (run_then (fill_nonce E c ?r st) (fill_gas E c)) (fill_fees E c) = (Inr r', st')"
    by (simp add: EstimateAndFill_def Let_def split: if_splits)
  then obtain r2 st2 where f: "fill_fees E c r2 st2 = (Inr r', st')"
    and "run_then (fill_nonce E c ?r st) (fill_gas E c) = (Inr r2, st2)" by (rule run_then_InrE)
  from this(2) obtain r1 st1 where "fill_nonce E c ?r st = (Inr r1, st1)" and "fill_gas E c r1 st1 = (Inr r2, st2)"
    by (rule run_then_InrE)
  with fill_steps(1) [of E c ?r st r1 st1] fill_steps(2) [of E c r1 st1 r2 st2] obtain n g where
    "r1 = ?r\<lparr>tq_nonce := Some n\<rparr>" "\<forall>m. tq_nonce ?r = Some m \<longrightarrow> n = m" "r2 = r1\<lparr>tq_gas := g\<rparr>" "tq_gas r1 \<noteq> 0 \<longrightarrow> g = tq_gas r1"
    by blast
  then show thesis by (intro that [of r2 st2 n g] f) (simp_all add: r)
qed

lemma fill_fees_result:
  assumes "fill_fees E c r st = (Inr r', st')"
  shows "\<exists>gp mf t. r' = r\<lparr>tq_gas_price := gp, tq_max_fee := mf, tq_tip := t\<rparr>
    \<and> (tq_gas_price r \<noteq> None \<longrightarrow> gp = tq_gas_price r) \<and> (tq_max_fee r \<noteq> None \<longrightarrow> mf = tq_max_fee r) \<and> (tq_tip r \<noteq> None \<longrightarrow> t = tq_tip r)
    \<and> (case ch_gas_model (ec_chain c) of GasModelEIP1559 \<Rightarrow> mf \<noteq> None \<and> t \<noteq> None | GasModelLegacy \<Rightarrow> gp \<noteq> None
        | GasModelOther _ \<Rightarrow> False)"
proof (cases "ch_gas_model (ec_chain c)")
  case GasModelEIP1559
  with assms obtain r1 st1 where "fill_tip E c r st = (Inr r1, st1)" "fill_max_fee E c r1 st1 = (Inr r', st')"
    by (auto simp: fill_fees_def elim: run_then_InrE)
  with fill_steps(3) [of E c r st r1 st1] fill_steps(4) [of E c r1 st1 r' st'] obtain t m where
    "r1 = r\<lparr>tq_tip := Some t\<rparr>" "\<forall>m. tq_tip r = Some m \<longrightarrow> t = m" "r' = r1\<lparr>tq_max_fee := Some m\<rparr>"
    "\<forall>k. tq_max_fee r1 = Some k \<longrightarrow> m = k" by blast
  with GasModelEIP1559 show ?thesis
    by (intro exI [of _ "tq_gas_price r"] exI [of _ "Some m"] exI [of _ "Some t"]) auto
next
  case GasModelLegacy
  with assms fill_steps(5) [of E c r st r' st'] obtain g where
    "r' = r\<lparr>tq_gas_price := Some g\<rparr>" "\<forall>m. tq_gas_price r = Some m \<longrightarrow> g = m" by (auto simp: fill_fees_def)
  with GasModelLegacy show ?thesis
    by (intro exI [of _ "Some g"] exI [of _ "tq_max_fee r"] exI [of _ "tq_tip r"]) auto
next
  case (GasModelOther x)
  with assms show ?thesis by (simp add: fill_fees_def)
qed

text \<open>
  A filled transaction is complete and still the caller's. When \<open>EstimateAndFill\<close> succeeds, everything the caller had set is unchanged
  (recipient, calldata, value, and any gas, nonce or fee given), a nonce and the fees of the chain's gas model are there, so that building
  the transaction cannot fail; the transaction built for an EIP-1559 chain is bound to the chain's number.
\<close>

theorem filled_transaction_complete:
  assumes "EstimateAndFill E c r st = (Inr r', st')"
  shows "extends r r' \<and> (\<exists>nonce. tq_nonce r' = Some nonce \<and>
    (\<forall>data. \<exists>tx. build_tx E c r' nonce data = Inr tx \<and>
       (case tx of
          DynamicFeeTx t \<Rightarrow> dt_chain t = ch_numeric (ec_chain c) \<and> dt_nonce t = nonce \<and> dt_gas t = tq_gas r'
            \<and> dt_to t = ee_address E (tq_to r) \<and> dt_value t = the (tq_value r') \<and> dt_data t = data
            \<and> tq_max_fee r' = Some (dt_fee_cap t) \<and> tq_tip r' = Some (dt_tip_cap t)
        | LegacyTx t \<Rightarrow> lt_nonce t = nonce \<and> lt_gas t = tq_gas r' \<and> lt_to t = ee_address E (tq_to r)
            \<and> lt_value t = the (tq_value r') \<and> lt_data t = data \<and> tq_gas_price r' = Some (lt_gas_price t))))"
proof -
  from assms obtain n g r2 st2 where f: "fill_fees E c r2 st2 = (Inr r', st')" and n: "\<forall>m. tq_nonce r = Some m \<longrightarrow> n = m"
    and g: "tq_gas r \<noteq> 0 \<longrightarrow> g = tq_gas r"
    and r2: "r2 = r\<lparr>tq_value := Some (case tq_value r of None \<Rightarrow> 0 | Some v \<Rightarrow> v), tq_nonce := Some n, tq_gas := g\<rparr>"
    by (rule EstimateAndFill_steps)
  from fill_fees_result [OF f] obtain gp mf t where r': "r' = r2\<lparr>tq_gas_price := gp, tq_max_fee := mf, tq_tip := t\<rparr>"
    and keep: "tq_gas_price r \<noteq> None \<longrightarrow> gp = tq_gas_price r" "tq_max_fee r \<noteq> None \<longrightarrow> mf = tq_max_fee r"
      "tq_tip r \<noteq> None \<longrightarrow> t = tq_tip r"
    and fees: "case ch_gas_model (ec_chain c) of GasModelEIP1559 \<Rightarrow> mf \<noteq> None \<and> t \<noteq> None | GasModelLegacy \<Rightarrow> gp \<noteq> None
        | GasModelOther _ \<Rightarrow> False" unfolding r2 by auto
  have "extends r r'" using n g keep by (auto simp: extends_def r' r2)
  moreover have "tq_nonce r' = Some n" by (simp add: r' r2)
  moreover have "\<exists>tx. build_tx E c r' n data = Inr tx \<and>
       (case tx of
          DynamicFeeTx t \<Rightarrow> dt_chain t = ch_numeric (ec_chain c) \<and> dt_nonce t = n \<and> dt_gas t = tq_gas r'
            \<and> dt_to t = ee_address E (tq_to r) \<and> dt_value t = the (tq_value r') \<and> dt_data t = data
            \<and> tq_max_fee r' = Some (dt_fee_cap t) \<and> tq_tip r' = Some (dt_tip_cap t)
        | LegacyTx t \<Rightarrow> lt_nonce t = n \<and> lt_gas t = tq_gas r' \<and> lt_to t = ee_address E (tq_to r)
            \<and> lt_value t = the (tq_value r') \<and> lt_data t = data \<and> tq_gas_price r' = Some (lt_gas_price t))" for data
    using fees by (cases "ch_gas_model (ec_chain c)") (auto simp: build_tx_def r' r2)
  ultimately show ?thesis by blast
qed

section \<open>Waiting for a receipt\<close>

definition evm_clock :: "('w \<Rightarrow> time) \<Rightarrow> 'w evm_env \<Rightarrow> bool" where
  "evm_clock clk E \<longleftrightarrow>
     (\<forall>w. fst (ee_now E w) = clk w \<and> clk w \<le> clk (snd (ee_now E w))) \<and>
     (\<forall>url body w. clk w \<le> clk (snd (ee_http E url body w))) \<and>
     (\<forall>d w w'. ee_tick E d w = (None, w') \<longrightarrow> clk w < clk w')"

lemma evm_call_world:
  "snd (snd (evm_call E c m p z f st)) = snd st \<or> (\<exists>url body. snd (snd (evm_call E c m p z f st)) = snd (ee_http E url body (snd st)))"
  by (auto simp: evm_call_def Let_def split: sum.splits option.splits prod.splits http_reply.splits) (metis snd_conv)+

lemma evm_clock_moving:
  assumes "evm_clock clk E"
  shows "moving_clock (clk \<circ> snd) (receipt_attempt E c hash) (on_second (ee_now E)) (on_second (ee_tick E d))"
proof -
  have http: "clk w \<le> clk (snd (ee_http E url body w))" for url body w using assms by (simp add: evm_clock_def)
  have "clk (snd st) \<le> clk (snd (snd (receipt_attempt E c hash st)))" for st
  proof -
    have "snd (receipt_attempt E c hash st) = snd (GetTransactionReceipt E c hash st)"
      by (simp add: receipt_attempt_def split: prod.splits)
    then show ?thesis
      unfolding GetTransactionReceipt_def by (metis evm_call_world http order_refl)
  qed
  moreover have "clk (snd s) < clk (snd s')" if "on_second (ee_tick E d) s = (None, s')" for s s'
    using that assms by (auto simp: on_second_def evm_clock_def split: prod.splits)
  ultimately show ?thesis using assms by (auto simp: moving_clock_def evm_clock_def)
qed

lemma receipt_attempt_decoded:
  "fst (receipt_attempt E c hash st) = Some (Inr rc) \<Longrightarrow> \<exists>raw. ee_json_receipt E raw = Inr rc"
  by (auto simp: receipt_attempt_def GetTransactionReceipt_def evm_call_def rpc_result_def poll_answer_def and_then_def Let_def
      split: sum.splits option.splits prod.splits http_reply.splits if_splits)

text \<open>
  Waiting for a receipt ends. If the clock moves with the ticks, \<open>WaitForReceipt\<close> returns whatever the
  endpoint answers, even if it never has a receipt; and a receipt it returns is one the endpoint sent.
\<close>

theorem receipt_wait_ends:
  assumes "evm_clock clk E"
  shows "\<exists>r st'. WaitForReceipt E c hash budget interval st = Some (r, st') \<and> (\<forall>rc. r = Inr rc \<longrightarrow> (\<exists>raw. ee_json_receipt E raw = Inr rc))"
proof -
  let ?iv = "if interval = 0 then 2 * nano_second else interval"
  let ?late = "Inl (Errorf (''evm: receipt timeout for '' @ hash)) :: go_error + receipt"
  obtain now st1 where t: "on_second (ee_now E) st = (now, st1)" by (metis surj_pair)
  from poll_until_ends [OF evm_clock_moving [OF assms], of c hash ?iv "now + budget" ?late Inl st1]
  obtain r st' where r: "poll_until (receipt_attempt E c hash) (on_second (ee_now E)) (on_second (ee_tick E ?iv)) (now + budget)
      ?late Inl st1 = Some (r, st')" and o: "poll_outcome (receipt_attempt E c hash) ?late Inl (on_second (ee_tick E ?iv)) r" by blast
  from o have "\<forall>rc. r = Inr rc \<longrightarrow> (\<exists>raw. ee_json_receipt E raw = Inr rc)"
    by (auto simp: poll_outcome_def dest: receipt_attempt_decoded)
  with r t show ?thesis by (simp add: WaitForReceipt_def)
qed

section \<open>A concrete endpoint\<close>

text \<open>The endpoint of the examples answers every query, and its world records the bodies it was sent.\<close>

record evm_world =
  vw_now :: time
  vw_bodies :: "string list"

definition sample_body :: "rpc_request \<Rightarrow> string" where
  "sample_body r = rq_method r @ concat (map (\<lambda>p. case p of PText t \<Rightarrow> '' '' @ t | _ \<Rightarrow> []) (rq_params r))"

definition sample_evm :: "evm_world evm_env" where
  "sample_evm = \<lparr>ee_marshal = (\<lambda>r. Inr (sample_body r)), ee_new_request = (\<lambda>_. None),
     ee_http = (\<lambda>_ body w. (HttpReply 200 ''0x10'', w\<lparr>vw_bodies := vw_bodies w @ [body]\<rparr>)),
     ee_unmarshal = (\<lambda>raw. Inr \<lparr>rr_version = ''2.0'', rr_id = 1, rr_result = raw, rr_error = None\<rparr>),
     ee_json_string = Inr, ee_json_fees = (\<lambda>_. Inr [''0x7'']),
     ee_json_receipt = (\<lambda>_. Inr \<lparr>rc_hash = ''0x10'', rc_block_number = ''0x2'', rc_block_hash = ''0x3'', rc_gas_used = ''0x5208'',
        rc_gas_price = ''0x7'', rc_status = ''0x1''\<rparr>),
     ee_now = (\<lambda>w. (vw_now w, w)), ee_tick = (\<lambda>_ w. (None, w\<lparr>vw_now := vw_now w + 2 * nano_second\<rparr>)),
     ee_address = (\<lambda>_. replicate 20 1), ee_sign = (\<lambda>_ _ _. Inr (replicate 65 2)), ee_encode = (\<lambda>_ sg. Inr (0x02 # sg)),
     ee_key_address = (\<lambda>_. ''0xAB'')\<rparr>"

definition sample_evm_client :: evm_client where
  "sample_evm_client = evm_NewClient ''https://rpc'' (snd (hd evm_Chains))"

definition sample_request :: tx_request where
  "sample_request = \<lparr>tq_from = ''0xab'', tq_to = ''0xcd'', tq_data = ''0x'', tq_value = Some 3, tq_gas = 0, tq_nonce = None,
     tq_gas_price = None, tq_max_fee = None, tq_tip = None\<rparr>"

lemma sample_evm_clock: "evm_clock vw_now sample_evm"
  by (simp add: evm_clock_def sample_evm_def nano_second_def)

lemma sample_call:
  "evm_call sample_evm c m ps z f (n, w)
     = (case f ''0x10'' of Inl e \<Rightarrow> Inl (OtherError (Wrap ''evm: parse result'' e)) | Inr x \<Rightarrow> Inr x, n + 1,
        w\<lparr>vw_bodies := vw_bodies w @ [sample_body \<lparr>rq_version = ''2.0'', rq_id = n + 1, rq_method = m, rq_params = ps\<rparr>]\<rparr>)"
  by (simp add: evm_call_def rpc_result_def sample_evm_def Let_def)

lemma sample_json: "ee_json_string sample_evm = Inr" "ee_json_fees sample_evm = (\<lambda>_. Inr [''0x7''])"
  by (simp_all add: sample_evm_def)

lemma sample_hex [simp]: "hexToUint64 ''0x10'' = Inr 16" "hexToBigInt ''0x10'' = Inr 16" "hex_int (TrimPrefix ''0x7'' ''0x'') = Some 7"
  by code_simp+

lemma sample_fill:
  "\<exists>r' st'. EstimateAndFill sample_evm sample_evm_client sample_request (0, w) = (Inr r', st')"
  by (simp add: EstimateAndFill_def sample_request_def fill_nonce_def fill_gas_def fill_fees_def fill_tip_def fill_max_fee_def
      max_fee_def GetTransactionCount_def EstimateGas_def MaxPriorityFeePerGas_def FeeHistory_def call_string_def sample_call
      sample_json plain_error_def wrap_error_def sample_evm_client_def evm_NewClient_def evm_Chains_def Let_def)

theorem filled_transaction_complete_witness:
  "\<exists>r' st' nonce. EstimateAndFill sample_evm sample_evm_client sample_request (0, \<lparr>vw_now = 0, vw_bodies = []\<rparr>) = (Inr r', st')
     \<and> tq_to r' = ''0xcd'' \<and> tq_value r' = Some 3 \<and> (\<exists>tx. build_tx sample_evm sample_evm_client r' nonce [] = Inr tx)"
proof -
  obtain r' st' where f: "EstimateAndFill sample_evm sample_evm_client sample_request (0, \<lparr>vw_now = 0, vw_bodies = []\<rparr>) = (Inr r', st')"
    using sample_fill by blast
  from filled_transaction_complete [OF f] have "extends sample_request r'"
    and "\<exists>nonce. \<exists>tx. build_tx sample_evm sample_evm_client r' nonce [] = Inr tx" by blast+
  moreover from this(1) have "tq_to r' = ''0xcd''" "tq_value r' = Some 3" by (simp_all add: extends_def sample_request_def)
  ultimately show ?thesis using f by blast
qed

theorem receipt_wait_ends_witness:
  "\<exists>r st'. WaitForReceipt sample_evm sample_evm_client ''0x10'' (90 * nano_second) 0 (0, \<lparr>vw_now = 0, vw_bodies = []\<rparr>) = Some (r, st')"
  using receipt_wait_ends [OF sample_evm_clock] by blast

end
