(* ===== verification/OneInchVenue.thy ===== *)
theory OneInchVenue
  imports BittensorVenue EvmTransactions
begin

text \<open>
  \<open>internal/swap/oneinch\<close>: the 1inch API client (client.go) and the swap venue over it (venue.go), which
  approves the router once per token and then sends the transaction 1inch prepares. HTTP, URL encoding and JSON are
  parameters, the record \<open>one_env\<close>; the state of the venue is the set of tokens it takes for approved and the
  state of its RPC client. A call that waits for a receipt returns an option.
\<close>

section \<open>The API client (client.go)\<close>

record one_client =
  oc_base :: string
  oc_key :: string
  oc_chain :: u64

record one_quote =
  oq_dst_amount :: string
  oq_gas :: u64

record one_tx =
  ot_from :: string
  ot_to :: string
  ot_data :: string
  ot_value :: string
  ot_gas :: u64
  ot_gas_price :: string

record one_swap =
  os_dst_amount :: string
  os_tx :: one_tx
  os_protocols :: string

record one_approve =
  op_to :: string
  op_data :: string
  op_value :: string
  op_gas_price :: string

text \<open>
  \<open>on_query\<close> is \<open>url.Values.Encode\<close>; \<open>on_description\<close> reads the description out of an error body, empty if there is
  none. \<open>on_bad_int\<close> is what a failed \<open>SetString\<close> leaves in a big integer, which its documentation leaves undefined.
\<close>

record 'w one_env =
  on_evm :: "'w evm_env"
  on_lib :: declib
  on_query :: "(string \<times> string) list \<Rightarrow> string"
  on_new_request :: "string \<Rightarrow> go_error option"
  on_http :: "string \<Rightarrow> (string \<times> string) list \<Rightarrow> 'w \<Rightarrow> http_reply \<times> 'w"
  on_description :: "string \<Rightarrow> string"
  on_json_quote :: "string \<Rightarrow> go_error + one_quote"
  on_json_swap :: "string \<Rightarrow> go_error + one_swap"
  on_json_allowance :: "string \<Rightarrow> go_error + string"
  on_json_approve :: "string \<Rightarrow> go_error + one_approve"
  on_json_spender :: "string \<Rightarrow> go_error + string"
  on_bad_int :: "string \<Rightarrow> int"

definition DefaultBaseURL :: string where
  "DefaultBaseURL = ''https://api.1inch.dev''"

definition WithBaseURL :: "string \<Rightarrow> one_client \<Rightarrow> one_client" where
  "WithBaseURL u c = (if u \<noteq> [] then c\<lparr>oc_base := TrimRight u (CHR ''/'')\<rparr> else c)"

definition one_NewClient :: "u64 \<Rightarrow> string \<Rightarrow> string \<Rightarrow> one_client" where
  "one_NewClient chain key base = WithBaseURL base \<lparr>oc_base = DefaultBaseURL, oc_key = key, oc_chain = chain\<rparr>"

definition one_get ::
  "'w one_env \<Rightarrow> one_client \<Rightarrow> string \<Rightarrow> (string \<times> string) list \<Rightarrow> (string \<Rightarrow> go_error + 'a) \<Rightarrow> 'w \<Rightarrow> (go_error + 'a) \<times> 'w" where
  "one_get E c path q decode w =
     (let u = oc_base c @ path @ (if q \<noteq> [] then ''?'' @ on_query E q else []);
          headers = [(''Accept'', ''application/json'')]
                      @ (if oc_key c \<noteq> [] then [(''Authorization'', ''Bearer '' @ oc_key c)] else [])
      in case on_new_request E u of
           Some e \<Rightarrow> (Inl e, w)
         | None \<Rightarrow>
             (case on_http E u headers w of
                (HttpFailed e, w1) \<Rightarrow> (Inl (Wrap ''oneinch: http'' e), w1)
              | (BodyFailed e, w1) \<Rightarrow> (Inl (Wrap ''oneinch: read body'' e), w1)
              | (HttpReply status body, w1) \<Rightarrow>
                  (if status div 100 \<noteq> 2
                   then (let d = on_description E body; msg = (if d = [] then TrimSpace body else d)
                         in Inl (Errorf (''oneinch '' @ nat_str status @ '': '' @ msg)))
                   else wrap_result ''oneinch: parse response'' (decode body), w1)))"

definition one_path :: "one_client \<Rightarrow> string \<Rightarrow> string" where
  "one_path c p = ''/swap/v6.0/'' @ nat_str (unat (oc_chain c)) @ p"

definition one_Quote ::
  "'w one_env \<Rightarrow> one_client \<Rightarrow> string \<Rightarrow> string \<Rightarrow> string \<Rightarrow> bool \<Rightarrow> 'w \<Rightarrow> (go_error + one_quote) \<times> 'w" where
  "one_Quote E c src dst amount gas w =
     one_get E c (one_path c ''/quote'')
       ([(''src'', src), (''dst'', dst), (''amount'', amount)] @ (if gas then [(''includeGas'', ''true'')] else []))
       (on_json_quote E) w"

record swap_params =
  sp_src :: string
  sp_dst :: string
  sp_amount :: string
  sp_from :: string
  sp_slippage :: string
  sp_disable_estimate :: bool
  sp_partial_fill :: bool
  sp_protocols :: bool
  sp_include_gas :: bool
  sp_receiver :: string
  sp_referrer :: string
  sp_permit :: string

definition swap_query :: "swap_params \<Rightarrow> (string \<times> string) list" where
  "swap_query p =
     [(''src'', sp_src p), (''dst'', sp_dst p), (''amount'', sp_amount p), (''from'', sp_from p),
      (''slippage'', if sp_slippage p = [] then ''0.5'' else sp_slippage p)]
     @ (if sp_disable_estimate p then [(''disableEstimate'', ''true'')] else [])
     @ (if sp_partial_fill p then [(''allowPartialFill'', ''true'')] else [])
     @ (if sp_protocols p then [(''includeProtocols'', ''true'')] else [])
     @ (if sp_include_gas p then [(''includeGas'', ''true'')] else [])
     @ (if sp_receiver p \<noteq> [] then [(''receiver'', sp_receiver p)] else [])
     @ (if sp_referrer p \<noteq> [] then [(''referrer'', sp_referrer p)] else [])
     @ (if sp_permit p \<noteq> [] then [(''permit'', sp_permit p)] else [])"

definition one_client_Swap ::
  "'w one_env \<Rightarrow> one_client \<Rightarrow> swap_params \<Rightarrow> 'w \<Rightarrow> (go_error + one_swap) \<times> 'w" where
  "one_client_Swap E c p w =
     (if sp_from p = [] then (Inl (Errorf ''oneinch: From is required''), w)
      else one_get E c (one_path c ''/swap'') (swap_query p) (on_json_swap E) w)"

definition one_Allowance ::
  "'w one_env \<Rightarrow> one_client \<Rightarrow> string \<Rightarrow> string \<Rightarrow> 'w \<Rightarrow> (go_error + string) \<times> 'w" where
  "one_Allowance E c token wallet w =
     one_get E c (one_path c ''/approve/allowance'') [(''tokenAddress'', token), (''walletAddress'', wallet)] (on_json_allowance E) w"

definition one_ApproveTx ::
  "'w one_env \<Rightarrow> one_client \<Rightarrow> string \<Rightarrow> string \<Rightarrow> 'w \<Rightarrow> (go_error + one_approve) \<times> 'w" where
  "one_ApproveTx E c token amount w =
     one_get E c (one_path c ''/approve/transaction'')
       ([(''tokenAddress'', token)] @ (if amount \<noteq> [] then [(''amount'', amount)] else [])) (on_json_approve E) w"

definition one_Spender :: "'w one_env \<Rightarrow> one_client \<Rightarrow> 'w \<Rightarrow> (go_error + string) \<times> 'w" where
  "one_Spender E c w = one_get E c (one_path c ''/approve/spender'') [] (on_json_spender E) w"

definition one_ParseUint :: "string \<Rightarrow> go_error + nat" where
  "one_ParseUint s = ParseUint (TrimSpace s) 64"

section \<open>The venue's helpers (venue.go)\<close>

definition one_VenueName :: string where
  "one_VenueName = ''oneinch''"

definition nativeAddress :: string where
  "nativeAddress = ''0xeeeeeeeeeeeeeeeeeeeeeeeeeeeeeeeeeeeeeeee''"

definition isNativeMint :: "string \<Rightarrow> bool" where
  "isNativeMint m \<longleftrightarrow> to_lower m = nativeAddress"

definition guardNative :: "asset \<Rightarrow> asset \<Rightarrow> go_error option" where
  "guardNative i out =
     (if isNativeMint (as_mint i) \<or> isNativeMint (as_mint out)
      then Some (Errorf ''oneinch: native gas-token swaps are not supported in v1'') else None)"

definition ensureHexPrefix :: "string \<Rightarrow> string" where
  "ensureHexPrefix s = (if has_prefix s ''0x'' \<or> has_prefix s ''0X'' then s else ''0x'' @ s)"

text \<open>\<open>Shift\<close> moves the decimal point and is exact; the scaled amount is cut to whole base units.\<close>

definition shift10 :: "int \<Rightarrow> decimal \<Rightarrow> decimal" where
  "shift10 n x = (if 0 \<le> n then x * 10 ^ nat n else x / 10 ^ nat (- n))"

definition one_scaleAmount :: "declib \<Rightarrow> decimal \<Rightarrow> int \<Rightarrow> int" where
  "one_scaleAmount L amount decimals =
     (let scaled = d_trunc L 0 (shift10 (max 0 decimals) amount)
      in if scaled < 0 then 0 else \<lfloor>scaled\<rfloor>)"

definition one_unscaleAmount :: "int \<Rightarrow> int \<Rightarrow> decimal" where
  "one_unscaleAmount units decimals = shift10 (- decimals) (of_int units)"

text \<open>\<open>big.Int.SetString(s, 10)\<close>: an optional sign and one or more digits.\<close>

definition dec_int :: "string \<Rightarrow> int option" where
  "dec_int s =
     (let u = unsigned_part s
      in if u = [] \<or> \<not> list_all is_digit u then None
         else Some (if hd s = CHR ''-'' then - int (digits_val u) else int (digits_val u)))"

definition parseBigInt :: "'w one_env \<Rightarrow> string \<Rightarrow> int" where
  "parseBigInt E s =
     (if s = [] then 0
      else case dec_int (TrimSpace s) of None \<Rightarrow> on_bad_int E (TrimSpace s) | Some n \<Rightarrow> n)"

definition bpsToPercent :: "declib \<Rightarrow> int \<Rightarrow> string" where
  "bpsToPercent L bps = (if bps \<le> 0 then ''0.5'' else d_str L (of_int bps / 100))"

section \<open>The venue (venue.go)\<close>

record evm_signer =
  vs_address :: string
  vs_chain :: chain_id
  vs_key :: "bytes option"

record one_config =
  cf_key :: string
  cf_base :: string
  cf_rpc :: string
  cf_chain :: chain_id
  cf_slippage :: int
  cf_timeout :: duration

record one_venue =
  ov_one :: one_client
  ov_rpc :: evm_client
  ov_signer :: evm_signer
  ov_slippage :: int
  ov_timeout :: duration

text \<open>The state: the approved tokens, and the RPC client's counter with the world.\<close>

type_synonym 'w one_state = "string list \<times> 'w evm_state"

definition one_New :: "one_config \<Rightarrow> evm_signer option \<Rightarrow> go_error + one_venue" where
  "one_New cfg signer =
     (case signer of
        None \<Rightarrow> Inl (Errorf ''oneinch: signer is required'')
      | Some sg \<Rightarrow>
          if vs_chain sg \<noteq> cf_chain cfg
          then Inl (Errorf (''oneinch: signer chain '' @ quoted (chain_str (vs_chain sg)) @ '' != venue chain ''
                     @ quoted (chain_str (cf_chain cfg))))
          else if cf_rpc cfg = [] then Inl (Errorf ''oneinch: RPCURL is required'')
          else and_then (wrap_result ''oneinch'' (LookupChain (cf_chain cfg))) (\<lambda>ch.
            Inr \<lparr>ov_one = one_NewClient (ch_numeric ch) (cf_key cfg) (cf_base cfg), ov_rpc = evm_NewClient (cf_rpc cfg) ch,
                 ov_signer = sg, ov_slippage = (if cf_slippage cfg \<le> 0 then 50 else cf_slippage cfg),
                 ov_timeout = (if cf_timeout cfg = 0 then 90 * nano_second else cf_timeout cfg)\<rparr>))"

text \<open>Running a call of the API client, or of the RPC client, on the venue's state.\<close>

definition via_world :: "('w \<Rightarrow> 'a \<times> 'w) \<Rightarrow> 'w one_state \<Rightarrow> 'a \<times> 'w one_state" where
  "via_world f = on_second (on_second f)"

definition ovenue_Quote ::
  "'w one_env \<Rightarrow> one_venue \<Rightarrow> quote_request \<Rightarrow> 'w one_state \<Rightarrow> (go_error + quote) \<times> 'w one_state" where
  "ovenue_Quote E v q s =
     (case guardNative (qr_in_token q) (qr_out_token q) of
        Some e \<Rightarrow> (Inl e, s)
      | None \<Rightarrow>
          if qr_mode q = QuoteExactOut then (Inl (Errorf ''oneinch: ExactOut is not supported''), s)
          else
            (let amt = one_scaleAmount (on_lib E) (qr_amount q) (as_decimals (qr_in_token q))
             in run_then (via_world (one_Quote E (ov_one v) (as_mint (qr_in_token q)) (as_mint (qr_out_token q)) (int_str amt) False) s)
                  (\<lambda>r s1.
                     let (now, s2) = via_world (ee_now (on_evm E)) s1
                     in (Inr \<lparr>q_in_token = qr_in_token q, q_out_token = qr_out_token q, q_in_amount = qr_amount q,
                              q_out_amount = one_unscaleAmount (parseBigInt E (oq_dst_amount r)) (as_decimals (qr_out_token q)),
                              q_price_impact = 0, q_route = one_VenueName, q_expires_at = now + 20 * nano_second, q_raw = []\<rparr>,
                         s2))))"

text \<open>Filling, signing and sending one transaction; \<open>what\<close> names it in the errors.\<close>

definition fill_and_send ::
  "'w one_env \<Rightarrow> one_venue \<Rightarrow> string \<Rightarrow> tx_request \<Rightarrow> 'w one_state \<Rightarrow> (go_error + string) \<times> 'w one_state" where
  "fill_and_send E v what r =
     on_second (\<lambda>st.
       run_then (wrap_error (''oneinch: fill '' @ what) (EstimateAndFill (on_evm E) (ov_rpc v) r st))
         (\<lambda>r st. wrap_error (''oneinch: send '' @ what) (SignAndSend (on_evm E) (ov_rpc v) r (vs_key (ov_signer v)) st)))"

definition approve_request :: "one_venue \<Rightarrow> one_approve \<Rightarrow> tx_request" where
  "approve_request v a =
     \<lparr>tq_from = vs_address (ov_signer v), tq_to = op_to a, tq_data = ensureHexPrefix (op_data a), tq_value = None, tq_gas = 0,
      tq_nonce = None, tq_gas_price = None, tq_max_fee = None, tq_tip = None\<rparr>"

text \<open>Installing the allowance: the approve transaction must be confirmed before anything else.\<close>

definition install_approval ::
  "'w one_env \<Rightarrow> one_venue \<Rightarrow> asset \<Rightarrow> 'w one_state \<Rightarrow> ((go_error + unit) \<times> 'w one_state) option" where
  "install_approval E v token s =
     (case via_world (one_ApproveTx E (ov_one v) (as_mint token) []) s of
        (Inl e, s1) \<Rightarrow> Some (Inl (Wrap ''oneinch: approve calldata'' e), s1)
      | (Inr a, s1) \<Rightarrow>
          (case fill_and_send E v ''approve tx'' (approve_request v a) s1 of
             (Inl e, s2) \<Rightarrow> Some (Inl e, s2)
           | (Inr hash, approved, st2) \<Rightarrow>
               (case WaitForReceipt (on_evm E) (ov_rpc v) hash (ov_timeout v) (2 * nano_second) st2 of
                  None \<Rightarrow> None
                | Some (Inl e, st3) \<Rightarrow> Some (Inl (Wrap ''oneinch: approve receipt'' e), approved, st3)
                | Some (Inr r, st3) \<Rightarrow>
                    Some (if IsSuccess r then Inr ()
                          else Inl (Errorf (''oneinch: approve tx '' @ hash @ '' reverted on chain'')), approved, st3))))"

definition mark_approved :: "string \<Rightarrow> 'w one_state \<Rightarrow> 'w one_state" where
  "mark_approved k s = (List.insert k (fst s), snd s)"

definition ensureApproved ::
  "'w one_env \<Rightarrow> one_venue \<Rightarrow> asset \<Rightarrow> 'w one_state \<Rightarrow> ((go_error + unit) \<times> 'w one_state) option" where
  "ensureApproved E v token s =
     (let k = to_lower (as_mint token)
      in if isNativeMint (as_mint token) \<or> k \<in> set (fst s) then Some (Inr (), s)
         else case via_world (one_Allowance E (ov_one v) (as_mint token) (vs_address (ov_signer v))) s of
             (Inl e, s1) \<Rightarrow> Some (Inl (Wrap ''oneinch: allowance'' e), s1)
           | (Inr allowed, s1) \<Rightarrow>
               if allowed = [] \<or> allowed = ''0''
               then (case install_approval E v token s1 of
                       None \<Rightarrow> None
                     | Some (Inl e, s2) \<Rightarrow> Some (Inl e, s2)
                     | Some (Inr _, s2) \<Rightarrow> Some (Inr (), mark_approved k s2))
               else Some (Inr (), mark_approved k s1))"

definition one_swap_params :: "'w one_env \<Rightarrow> one_venue \<Rightarrow> quote \<Rightarrow> int \<Rightarrow> swap_params" where
  "one_swap_params E v q bps =
     \<lparr>sp_src = as_mint (q_in_token q), sp_dst = as_mint (q_out_token q),
      sp_amount = int_str (one_scaleAmount (on_lib E) (q_in_amount q) (as_decimals (q_in_token q))),
      sp_from = vs_address (ov_signer v), sp_slippage = bpsToPercent (on_lib E) bps, sp_disable_estimate = True,
      sp_partial_fill = False, sp_protocols = False, sp_include_gas = False, sp_receiver = [], sp_referrer = [], sp_permit = []\<rparr>"

definition swap_request :: "one_venue \<Rightarrow> one_tx \<Rightarrow> tx_request" where
  "swap_request v t =
     \<lparr>tq_from = vs_address (ov_signer v), tq_to = ot_to t, tq_data = ensureHexPrefix (ot_data t),
      tq_value = Some (case dec_int (TrimPrefix (ot_value t) ''0x'') of Some n \<Rightarrow> n | None \<Rightarrow> 0), tq_gas = ot_gas t,
      tq_nonce = None, tq_gas_price = None, tq_max_fee = None, tq_tip = None\<rparr>"

text \<open>What \<open>Swap\<close> does once the allowance is there.\<close>

definition send_swap ::
  "'w one_env \<Rightarrow> one_venue \<Rightarrow> quote \<Rightarrow> int \<Rightarrow> 'w one_state \<Rightarrow> (go_error + string) \<times> 'w one_state" where
  "send_swap E v q bps s =
     run_then (wrap_error ''oneinch: /swap'' (via_world (one_client_Swap E (ov_one v) (one_swap_params E v q bps)) s))
       (\<lambda>r. fill_and_send E v ''tx'' (swap_request v (os_tx r)))"

definition ovenue_Swap ::
  "'w one_env \<Rightarrow> one_venue \<Rightarrow> quote \<Rightarrow> int \<Rightarrow> 'w one_state \<Rightarrow> ((go_error + string) \<times> 'w one_state) option" where
  "ovenue_Swap E v q bps0 s =
     (let (now, s1) = via_world (ee_now (on_evm E)) s
      in if q_expires_at q < now then Some (Inl ErrQuoteExpired, s1)
         else case guardNative (q_in_token q) (q_out_token q) of
             Some e \<Rightarrow> Some (Inl e, s1)
           | None \<Rightarrow>
               (let bps = (if bps0 \<le> 0 then ov_slippage v else bps0)
                in case ensureApproved E v (q_in_token q) s1 of
                     None \<Rightarrow> None
                   | Some (Inl e, s2) \<Rightarrow> Some (Inl (Wrap ''oneinch: approve'' e), s2)
                   | Some (Inr _, s2) \<Rightarrow> Some (send_swap E v q bps s2)))"

definition ovenue_WaitConfirm ::
  "'w one_env \<Rightarrow> one_venue \<Rightarrow> string \<Rightarrow> 'w one_state \<Rightarrow> ((go_error + swap_result) \<times> 'w one_state) option" where
  "ovenue_WaitConfirm E v tx s =
     (case WaitForReceipt (on_evm E) (ov_rpc v) tx (ov_timeout v) (2 * nano_second) (snd s) of
        None \<Rightarrow> None
      | Some (Inl e, st) \<Rightarrow>
          Some (Inr \<lparr>sr_tx_hash = tx, sr_status = SwapStatusPending, sr_slot = 0, sr_block_time = zero_time, sr_in_amount = 0,
                     sr_out_amount = 0, sr_gas_native = 0, sr_gas_usd = 0, sr_error = error_text e\<rparr>, fst s, st)
      | Some (Inr r, st) \<Rightarrow>
          (let gas = (case (GasUsedUint r, EffectiveGasPriceBig r) of
                        (Inr used, Inr price) \<Rightarrow> of_int (sint used * price) / 10 ^ 18 | _ \<Rightarrow> 0);
               (now, st1) = on_second (ee_now (on_evm E)) st
           in Some (Inr \<lparr>sr_tx_hash = tx, sr_status = (if IsSuccess r then SwapStatusConfirmed else SwapStatusFailed), sr_slot = 0,
                         sr_block_time = now, sr_in_amount = 0, sr_out_amount = 0, sr_gas_native = gas, sr_gas_usd = 0,
                         sr_error = []\<rparr>, fst s, st1)))"

definition ovenue_Balance ::
  "'w one_env \<Rightarrow> one_venue \<Rightarrow> asset \<Rightarrow> 'w one_state \<Rightarrow> (go_error + decimal) \<times> 'w one_state" where
  "ovenue_Balance E v a s =
     (if as_chain a \<noteq> vs_chain (ov_signer v)
      then (Inl (Errorf (''oneinch: asset chain '' @ quoted (chain_str (as_chain a)) @ '' != venue chain ''
                   @ quoted (chain_str (vs_chain (ov_signer v))))), s)
      else if isNativeMint (as_mint a)
        then run_then (on_second (evm_GetBalance (on_evm E) (ov_rpc v) (vs_address (ov_signer v))) s)
               (\<lambda>b s. (Inr (of_int b / 10 ^ 18), s))
        else run_then (on_second (erc20_BalanceOf (on_evm E) (ov_rpc v) (NewERC20Token (as_mint a)) (vs_address (ov_signer v))) s)
               (\<lambda>b s. (Inr (one_unscaleAmount (int b) (as_decimals a)), s)))"

section \<open>Approvals\<close>

text \<open>
  \<open>approval_shown\<close>: the API reported an allowance for the token that is not zero, or an approve
  transaction it prepared for the token was broadcast and its receipt reports success.
\<close>

definition approval_shown :: "'w one_env \<Rightarrow> one_venue \<Rightarrow> asset \<Rightarrow> bool" where
  "approval_shown E v token \<longleftrightarrow>
     (\<exists>w a. fst (one_Allowance E (ov_one v) (as_mint token) (vs_address (ov_signer v)) w) = Inr a \<and> a \<noteq> [] \<and> a \<noteq> ''0'')
   \<or> (\<exists>w a s hash st rc. fst (one_ApproveTx E (ov_one v) (as_mint token) [] w) = Inr a
        \<and> fst (fill_and_send E v ''approve tx'' (approve_request v a) s) = Inr hash
        \<and> map_option fst (WaitForReceipt (on_evm E) (ov_rpc v) hash (ov_timeout v) (2 * nano_second) st) = Some (Inr rc) \<and> IsSuccess rc)"

lemma via_world_simps [simp]:
  "fst (snd (via_world f s)) = fst s" "fst (via_world f s) = fst (f (snd (snd s)))"
  by (simp_all add: via_world_def on_second_def split: prod.splits)

lemma via_worldD: "via_world f s = (x, s') \<Longrightarrow> fst s' = fst s \<and> fst (f (snd (snd s))) = x"
  using via_world_simps [of f s] by simp

lemma fst_snd_on_second [simp]: "fst (snd (on_second f s)) = fst s"
  by (simp add: on_second_def split: prod.splits)

lemma fill_and_send_approved [simp]: "fst (snd (fill_and_send E v what r s)) = fst s"
  by (simp add: fill_and_send_def)

lemma install_approval_result:
  assumes "install_approval E v token s = Some (r, s')"
  shows "fst s' = fst s \<and> (\<forall>u. r = Inr u \<longrightarrow> approval_shown E v token)"
proof -
  obtain x s1 where Pair: "via_world (one_ApproveTx E (ov_one v) (as_mint token) []) s = (x, s1)" by (metis surj_pair)
  note a = via_worldD [OF Pair]
  show ?thesis
  proof (cases x)
    case (Inl e)
    with assms Pair a show ?thesis by (auto simp: install_approval_def)
  next
    case (Inr ap)
    obtain y s2 where f: "fill_and_send E v ''approve tx'' (approve_request v ap) s1 = (y, s2)" by (metis surj_pair)
    have s2: "fst s2 = fst s" using fill_and_send_approved [of E v "''approve tx''" "approve_request v ap" s1] f a by simp
    show ?thesis
    proof (cases y)
      case (Inl e)
      with assms Pair Inr f s2 show ?thesis by (auto simp: install_approval_def)
    next
      case hash: (Inr hash)
      from assms Pair Inr f hash obtain z st3 where
        z: "WaitForReceipt (on_evm E) (ov_rpc v) hash (ov_timeout v) (2 * nano_second) (snd s2) = Some (z, st3)"
        and r: "fst s' = fst s2" "\<And>u. r = Inr u \<Longrightarrow> \<exists>rc. z = Inr rc \<and> IsSuccess rc"
        by (cases s2) (auto simp: install_approval_def split: option.splits sum.splits if_splits)
      have "approval_shown E v token" if ok: "r = Inr u" for u
      proof -
        obtain rc where "z = Inr rc" "IsSuccess rc" using r(2) [OF ok] by blast
        with z f hash a Inr show ?thesis unfolding approval_shown_def by (metis fst_conv option.map(2))
      qed
      with r s2 show ?thesis by simp
    qed
  qed
qed

lemma ensureApproved_result:
  assumes "ensureApproved E v token s = Some (r, s')"
  shows "(fst s' = fst s \<or> fst s' = List.insert (to_lower (as_mint token)) (fst s) \<and> approval_shown E v token)
    \<and> (\<forall>u. r = Inr u \<longrightarrow> isNativeMint (as_mint token) \<or> to_lower (as_mint token) \<in> set (fst s'))"
proof (cases "isNativeMint (as_mint token) \<or> to_lower (as_mint token) \<in> set (fst s)")
  case True
  with assms show ?thesis by (auto simp: ensureApproved_def Let_def)
next
  case False
  obtain x s1 where al: "via_world (one_Allowance E (ov_one v) (as_mint token) (vs_address (ov_signer v))) s = (x, s1)"
    by (metis surj_pair)
  note a = via_worldD [OF al]
  show ?thesis
  proof (cases x)
    case (Inl e)
    with assms False al a show ?thesis by (auto simp: ensureApproved_def Let_def)
  next
    case (Inr amount)
    show ?thesis
    proof (cases "amount = [] \<or> amount = ''0''")
      case False
      then have "approval_shown E v token" using a Inr unfolding approval_shown_def by blast
      with assms \<open>\<not> (isNativeMint (as_mint token) \<or> to_lower (as_mint token) \<in> set (fst s))\<close> al a Inr False show ?thesis
        by (auto simp: ensureApproved_def mark_approved_def Let_def)
    next
      case True
      with assms False al Inr obtain y s2 where i: "install_approval E v token s1 = Some (y, s2)"
        and r: "case y of Inl e \<Rightarrow> r = Inl e \<and> s' = s2 | Inr _ \<Rightarrow> r = Inr () \<and> s' = mark_approved (to_lower (as_mint token)) s2"
        by (auto simp: ensureApproved_def Let_def split: option.splits sum.splits)
      from install_approval_result [OF i] r a show ?thesis by (cases y) (auto simp: mark_approved_def)
    qed
  qed
qed

text \<open>The states of the venue: any sequence of its operations, between which the world may do anything.\<close>

inductive one_reach :: "'w one_env \<Rightarrow> one_venue \<Rightarrow> 'w one_state \<Rightarrow> bool" for E v where
  new: "one_reach E v ([], n, w)"
| outside: "one_reach E v (ap, n, w) \<Longrightarrow> one_reach E v (ap, n, w')"
| quoting: "one_reach E v s \<Longrightarrow> ovenue_Quote E v q s = (r, s') \<Longrightarrow> one_reach E v s'"
| swapping: "one_reach E v s \<Longrightarrow> ovenue_Swap E v q bps s = Some (r, s') \<Longrightarrow> one_reach E v s'"
| waiting: "one_reach E v s \<Longrightarrow> ovenue_WaitConfirm E v tx s = Some (r', s') \<Longrightarrow> one_reach E v s'"
| asking: "one_reach E v s \<Longrightarrow> ovenue_Balance E v a s = (r'', s') \<Longrightarrow> one_reach E v s'"

definition approvals_shown :: "'w one_env \<Rightarrow> one_venue \<Rightarrow> 'w one_state \<Rightarrow> bool" where
  "approvals_shown E v s \<longleftrightarrow> (\<forall>k \<in> set (fst s). \<exists>token. to_lower (as_mint token) = k \<and> approval_shown E v token)"

lemma fst_run_then: "(\<And>x s. fst (snd (f x s)) = fst s) \<Longrightarrow> fst (snd (run_then r f)) = fst (snd r)"
  by (cases r; cases "fst r") auto

lemma fst_wrap_error [simp]: "snd (wrap_error m r) = snd r"
  by (simp add: wrap_error_def split: prod.splits sum.splits)

lemma ovenue_Quote_approved: "ovenue_Quote E v q s = (r, s') \<Longrightarrow> fst s' = fst s"
proof -
  have "fst (snd (ovenue_Quote E v q s)) = fst s"
    by (auto simp: ovenue_Quote_def Let_def fst_run_then via_worldD split: option.splits prod.splits)
  then show "ovenue_Quote E v q s = (r, s') \<Longrightarrow> fst s' = fst s" by simp
qed

lemma ovenue_Balance_approved: "ovenue_Balance E v a s = (r, s') \<Longrightarrow> fst s' = fst s"
proof -
  have "fst (snd (ovenue_Balance E v a s)) = fst s" by (simp add: ovenue_Balance_def fst_run_then)
  then show "ovenue_Balance E v a s = (r, s') \<Longrightarrow> fst s' = fst s" by simp
qed

lemma ovenue_WaitConfirm_approved: "ovenue_WaitConfirm E v tx s = Some (r, s') \<Longrightarrow> fst s' = fst s"
  by (auto simp: ovenue_WaitConfirm_def Let_def split: option.splits sum.splits prod.splits)

lemma send_swap_approved: "fst (snd (send_swap E v q bps s)) = fst s"
  by (simp add: send_swap_def fst_run_then)

lemma ovenue_Swap_approved:
  assumes "ovenue_Swap E v q bps s = Some (r, s')"
  shows "fst s' = fst s \<or> fst s' = List.insert (to_lower (as_mint (q_in_token q))) (fst s) \<and> approval_shown E v (q_in_token q)"
proof -
  obtain now s1 where n: "via_world (ee_now (on_evm E)) s = (now, s1)" by (metis surj_pair)
  note s1 = via_worldD [OF n]
  show ?thesis
  proof (cases "q_expires_at q < now \<or> guardNative (q_in_token q) (q_out_token q) \<noteq> None")
    case True
    with assms n s1 show ?thesis by (auto simp: ovenue_Swap_def split: option.splits if_splits)
  next
    case False
    with assms n obtain y s2 where e: "ensureApproved E v (q_in_token q) s1 = Some (y, s2)"
      by (auto simp: ovenue_Swap_def Let_def split: option.splits)
    have "fst s' = fst s2"
    proof (cases y)
      case (Inl x)
      with assms n False e show ?thesis by (auto simp: ovenue_Swap_def Let_def)
    next
      case (Inr u)
      with assms n False e have "(r, s') = send_swap E v q (if bps \<le> 0 then ov_slippage v else bps) s2"
        by (auto simp: ovenue_Swap_def Let_def)
      then show ?thesis by (metis send_swap_approved snd_conv)
    qed
    with ensureApproved_result [OF e] s1 show ?thesis by simp
  qed
qed

lemma approvals_shown_invariant: "one_reach E v s \<Longrightarrow> approvals_shown E v s"
proof (induction rule: one_reach.induct)
  case (swapping s q bps r s')
  with ovenue_Swap_approved [OF swapping.hyps(2)] show ?case by (auto simp: approvals_shown_def)
qed (auto simp: approvals_shown_def dest: ovenue_Quote_approved ovenue_WaitConfirm_approved ovenue_Balance_approved)

section \<open>What a swap sends\<close>

text \<open>
  \<open>swap_sent E v q bps hash\<close>: 1inch prepared a transaction for the scaled amount of the quote; filled, and signed with the venue's
  key, its bytes were broadcast, and \<open>hash\<close> is the endpoint's answer.
\<close>

definition swap_sent :: "'w one_env \<Rightarrow> one_venue \<Rightarrow> quote \<Rightarrow> int \<Rightarrow> string \<Rightarrow> bool" where
  "swap_sent E v q bps hash \<longleftrightarrow>
     (\<exists>w r req st st' raw. fst (one_client_Swap E (ov_one v) (one_swap_params E v q bps) w) = Inr r
        \<and> EstimateAndFill (on_evm E) (ov_rpc v) (swap_request v (os_tx r)) st = (Inr req, st')
        \<and> signed_tx (on_evm E) (ov_rpc v) req (vs_key (ov_signer v)) = Inr raw
        \<and> fst (SendRawTransaction (on_evm E) (ov_rpc v) (''0x'' @ hex_encode raw) st') = Inr hash)"

lemma send_swap_sent:
  assumes "send_swap E v q bps s = (Inr hash, s')"
  shows "swap_sent E v q bps hash"
proof -
  from assms obtain r s1 where "wrap_error ''oneinch: /swap''
      (via_world (one_client_Swap E (ov_one v) (one_swap_params E v q bps)) s) = (Inr r, s1)"
    and f: "fill_and_send E v ''tx'' (swap_request v (os_tx r)) s1 = (Inr hash, s')"
    unfolding send_swap_def by (rule run_then_InrE)
  then have c: "fst (one_client_Swap E (ov_one v) (one_swap_params E v q bps) (snd (snd s))) = Inr r"
    by (auto dest!: wrap_error_InrD dest: via_worldD)
  obtain req st1 where e: "EstimateAndFill (on_evm E) (ov_rpc v) (swap_request v (os_tx r)) (snd s1) = (Inr req, st1)"
    and g: "SignAndSend (on_evm E) (ov_rpc v) req (vs_key (ov_signer v)) st1 = (Inr hash, snd s')"
    using f by (auto simp: fill_and_send_def on_second_def split: prod.splits elim!: run_then_InrE dest!: wrap_error_InrD)
  obtain raw where "signed_tx (on_evm E) (ov_rpc v) req (vs_key (ov_signer v)) = Inr raw"
    and "fst (SendRawTransaction (on_evm E) (ov_rpc v) (''0x'' @ hex_encode raw) st1) = Inr hash"
    using g by (auto simp: SignAndSend_def split: sum.splits dest!: wrap_error_InrD)
  with c e show ?thesis unfolding swap_sent_def by blast
qed


definition sample_one :: "evm_world one_env" where
  "sample_one = \<lparr>on_evm = sample_evm, on_lib = reference_declib, on_query = (\<lambda>_. ''q''), on_new_request = (\<lambda>_. None),
     on_http = (\<lambda>_ _ w. (HttpReply 200 ''{}'', w)), on_description = (\<lambda>_. []),
     on_json_quote = (\<lambda>_. Inr \<lparr>oq_dst_amount = ''999500'', oq_gas = 0\<rparr>),
     on_json_swap = (\<lambda>_. Inr \<lparr>os_dst_amount = ''999500'', os_tx = \<lparr>ot_from = ''0xfrom'', ot_to = ''0x11'', ot_data = ''0xabcd'',
        ot_value = ''0'', ot_gas = 200000, ot_gas_price = []\<rparr>, os_protocols = []\<rparr>),
     on_json_allowance = (\<lambda>_. Inr ''5''), on_json_approve = (\<lambda>_. Inl (Errorf ''unused'')),
     on_json_spender = (\<lambda>_. Inr ''0x11''), on_bad_int = (\<lambda>_. 0)\<rparr>"

definition sample_one_venue :: one_venue where
  "sample_one_venue = \<lparr>ov_one = one_NewClient 1 ''key'' [], ov_rpc = sample_evm_client,
     ov_signer = \<lparr>vs_address = ''0xab'', vs_chain = ChainEthereum, vs_key = Some (replicate 32 1)\<rparr>,
     ov_slippage = 50, ov_timeout = 90 * nano_second\<rparr>"

definition sample_one_quote :: quote where
  "sample_one_quote = \<lparr>q_in_token = \<lparr>as_symbol = ''USDC'', as_chain = ChainEthereum, as_mint = ''0xa0'', as_decimals = 6\<rparr>,
     q_out_token = \<lparr>as_symbol = ''WETH'', as_chain = ChainEthereum, as_mint = ''0xc0'', as_decimals = 18\<rparr>,
     q_in_amount = 1, q_out_amount = 1, q_price_impact = 0, q_route = one_VenueName, q_expires_at = 20 * nano_second, q_raw = []\<rparr>"

lemma sample_one_get: "one_get sample_one c p q decode w = (wrap_result ''oneinch: parse response'' (decode ''{}''), w)"
  by (simp add: one_get_def sample_one_def Let_def)

lemma sample_one_calls:
  "one_Allowance sample_one c t a w = (Inr ''5'', w)"
  "on_evm sample_one = sample_evm" "ov_rpc sample_one_venue = sample_evm_client"
  by (simp_all add: one_Allowance_def sample_one_get sample_one_venue_def wrap_result_def) (simp_all add: sample_one_def)

lemma sample_signed:
  "tq_nonce r = Some n \<Longrightarrow> tq_gas r \<noteq> 0 \<Longrightarrow> hexToBytes (tq_data r) = Inr d \<Longrightarrow> tq_max_fee r = Some m \<Longrightarrow> tq_tip r = Some t
     \<Longrightarrow> signed_tx sample_evm sample_evm_client r (Some k) = Inr (2 # replicate 65 2)"
  by (simp add: signed_tx_def build_tx_def wrap_result_def sample_evm_client_def evm_NewClient_def evm_Chains_def Let_def)
    (simp add: sample_evm_def)

lemma sample_fill_send:
  assumes "tq_from r \<noteq> []" and "tq_gas r \<noteq> 0" and "hexToBytes (tq_data r) = Inr d"
  shows "\<exists>s'. fill_and_send sample_one sample_one_venue what r s = (Inr ''0x10'', s')"
proof -
  obtain ap n w where s: "s = (ap, n, w)" by (cases s) auto
  have "\<exists>r' st'. EstimateAndFill sample_evm sample_evm_client r (n, w) = (Inr r', st') \<and> tq_nonce r' \<noteq> None \<and> tq_gas r' = tq_gas r
      \<and> tq_data r' = tq_data r \<and> tq_max_fee r' \<noteq> None \<and> tq_tip r' \<noteq> None"
    using assms(1,2)
    by (cases r; cases "tq_value r"; cases "tq_nonce r"; cases "tq_tip r"; cases "tq_max_fee r")
      (simp_all add: EstimateAndFill_def fill_nonce_def fill_gas_def fill_fees_def fill_tip_def fill_max_fee_def
      max_fee_def GetTransactionCount_def MaxPriorityFeePerGas_def FeeHistory_def call_string_def sample_call
      sample_json plain_error_def wrap_error_def sample_evm_client_def evm_NewClient_def evm_Chains_def Let_def)
  then obtain r' st' where e: "EstimateAndFill sample_evm sample_evm_client r (n, w) = (Inr r', st')"
    and r': "tq_nonce r' \<noteq> None" "tq_gas r' \<noteq> 0" "hexToBytes (tq_data r') = Inr d" "tq_max_fee r' \<noteq> None" "tq_tip r' \<noteq> None"
    using assms by auto
  then have "signed_tx sample_evm sample_evm_client r' (vs_key (ov_signer sample_one_venue)) = Inr (2 # replicate 65 2)"
    by (auto simp: sample_one_venue_def intro: sample_signed)
  with e show ?thesis
    by (cases st') (simp add: s fill_and_send_def on_second_def sample_one_calls SignAndSend_def SendRawTransaction_def call_string_def
        sample_call sample_json plain_error_def wrap_error_def split: prod.splits)
qed


end
