(* ===== verification/JupiterVenue.thy ===== *)
theory JupiterVenue
  imports SolanaChain Polling OneInchVenue
begin

text \<open>
  \<open>internal/swap/jupiter\<close>: the Jupiter API client (client.go) and the swap venue over it (venue.go), which signs the
  transaction Jupiter prepares and submits it as a Jito bundle or by RPC. HTTP and JSON are those of \<open>sol_env\<close>; URL
  encoding, the Solana transaction format and base58, which come from libraries, are the
  record \<open>jup_env\<close>. Base64 is the standard library's.
\<close>

section \<open>The API client (client.go)\<close>

record jup_client =
  jc_base :: string
  jc_key :: string

record jup_quote =
  jq_input_mint :: string
  jq_output_mint :: string
  jq_in_amount :: string
  jq_out_amount :: string
  jq_threshold :: string
  jq_swap_mode :: string
  jq_slippage :: int
  jq_impact :: string
  jq_route_plan :: string
  jq_context_slot :: sol_word
  jq_route_json :: string

record jup_swap =
  jw_transaction :: string
  jw_last_valid :: sol_word
  jw_fee :: sol_word

text \<open>A Solana transaction: its signature slots and the message, as the library parses it.\<close>

record sol_tx =
  st_signatures :: "bytes list"
  st_message :: bytes

record 'w jup_env =
  je_sol :: "'w sol_env"
  je_lib :: declib
  je_query :: "(string \<times> string) list \<Rightarrow> string"
  je_json_quote :: "string \<Rightarrow> go_error + jup_quote"
  je_json_swap :: "string \<Rightarrow> go_error + jup_swap"
  je_parse_tx :: "bytes \<Rightarrow> go_error + sol_tx"
  je_message :: "sol_tx \<Rightarrow> go_error + bytes"
  je_encode_tx :: "sol_tx \<Rightarrow> go_error + bytes"
  je_base58 :: "bytes \<Rightarrow> string"

definition jup_defaultBaseURL :: string where
  "jup_defaultBaseURL = ''https://api.jup.ag''"

definition jup_WithBaseURL :: "string \<Rightarrow> jup_client \<Rightarrow> jup_client" where
  "jup_WithBaseURL u c = (if u = [] then c else c\<lparr>jc_base := TrimRight u (CHR ''/'')\<rparr>)"

definition jup_WithAPIKey :: "string \<Rightarrow> jup_client \<Rightarrow> jup_client" where
  "jup_WithAPIKey k c = c\<lparr>jc_key := k\<rparr>"

definition jup_NewClient :: "(jup_client \<Rightarrow> jup_client) list \<Rightarrow> jup_client" where
  "jup_NewClient opts = fold (\<lambda>opt c. opt c) opts \<lparr>jc_base = jup_defaultBaseURL, jc_key = []\<rparr>"

definition jup_do ::
  "'w jup_env \<Rightarrow> jup_client \<Rightarrow> string \<Rightarrow> string \<Rightarrow> json option \<Rightarrow> 'w \<Rightarrow> (go_error + string) \<times> 'w" where
  "jup_do E c method url body w =
     (case (case body of None \<Rightarrow> Inr None | Some j \<Rightarrow> (case se_marshal (je_sol E) j of Inl e \<Rightarrow> Inl e | Inr b \<Rightarrow> Inr (Some b))) of
        Inl e \<Rightarrow> (Inl (Wrap ''jupiter: marshal'' e), w)
      | Inr b \<Rightarrow>
          (case se_new_request (je_sol E) method url of
             Some e \<Rightarrow> (Inl e, w)
           | None \<Rightarrow>
               (let headers = [(''Accept'', ''application/json'')]
                      @ (if body \<noteq> None then [(''Content-Type'', ''application/json'')] else [])
                      @ (if jc_key c \<noteq> [] then [(''x-api-key'', jc_key c)] else [])
                in case se_http (je_sol E) method url headers b w of
                     (Inl e, w1) \<Rightarrow> (Inl (Wrap ''jupiter: do'' e), w1)
                   | (Inr (status, raw), w1) \<Rightarrow>
                       (if status div 100 \<noteq> 2
                        then Inl (Errorf (''jupiter: '' @ url @ '' -> '' @ nat_str status @ '': '' @ sol_truncate raw))
                        else Inr raw, w1))))"

record jup_quote_params =
  jp_input :: string
  jp_output :: string
  jp_amount :: sol_word
  jp_slippage :: int
  jp_mode :: string
  jp_direct :: bool
  jp_restrict :: bool
  jp_max_accounts :: int

definition jup_quote_query :: "jup_quote_params \<Rightarrow> (string \<times> string) list" where
  "jup_quote_query p =
     [(''inputMint'', jp_input p), (''outputMint'', jp_output p), (''amount'', nat_str (unat (jp_amount p)))]
     @ (if 0 < jp_slippage p then [(''slippageBps'', int_str (jp_slippage p))] else [])
     @ (if jp_mode p \<noteq> [] then [(''swapMode'', jp_mode p)] else [])
     @ (if jp_direct p then [(''onlyDirectRoutes'', ''true'')] else [])
     @ (if jp_restrict p then [(''restrictIntermediateTokens'', ''true'')] else [])
     @ (if 0 < jp_max_accounts p then [(''maxAccounts'', int_str (jp_max_accounts p))] else [])"

definition jup_client_Quote ::
  "'w jup_env \<Rightarrow> jup_client \<Rightarrow> jup_quote_params \<Rightarrow> 'w \<Rightarrow> (go_error + jup_quote) \<times> 'w" where
  "jup_client_Quote E c p w =
     run_then (jup_do E c ''GET'' (jc_base c @ ''/swap/v1/quote?'' @ je_query E (jup_quote_query p)) None w)
       (\<lambda>body w. (case je_json_quote E body of
                      Inl e \<Rightarrow> Inl (Wrap ''jupiter: decode quote'' e)
                    | Inr q \<Rightarrow> Inr (q\<lparr>jq_route_json := body\<rparr>), w))"

record jup_swap_params =
  jr_quote :: string
  jr_user :: string
  jr_wrap :: bool
  jr_shared :: bool
  jr_fee_account :: string
  jr_unit_price :: "sol_word option"
  jr_legacy :: bool
  jr_dynamic :: bool
  jr_skip_user :: bool

definition jup_swap_body :: "jup_swap_params \<Rightarrow> json" where
  "jup_swap_body p = JObj
     ([(''quoteResponse'', JRaw (jr_quote p)), (''userPublicKey'', JText (jr_user p)), (''wrapAndUnwrapSol'', JBool (jr_wrap p)),
       (''useSharedAccounts'', JBool (jr_shared p)), (''asLegacyTransaction'', JBool (jr_legacy p)),
       (''dynamicComputeUnitLimit'', JBool (jr_dynamic p)), (''skipUserAccountsRpcCalls'', JBool (jr_skip_user p))]
      @ (if jr_fee_account p \<noteq> [] then [(''feeAccount'', JText (jr_fee_account p))] else [])
      @ (case jr_unit_price p of None \<Rightarrow> [] | Some f \<Rightarrow> [(''computeUnitPriceMicroLamports'', JNum (uint f))]))"

definition jup_client_Swap ::
  "'w jup_env \<Rightarrow> jup_client \<Rightarrow> jup_swap_params \<Rightarrow> 'w \<Rightarrow> (go_error + jup_swap) \<times> 'w" where
  "jup_client_Swap E c p w =
     (if jr_user p = [] then (Inl (Errorf ''jupiter: UserPublicKey is required''), w)
      else if jr_quote p = [] then (Inl (Errorf ''jupiter: QuoteResponse is required''), w)
      else run_then (jup_do E c ''POST'' (jc_base c @ ''/swap/v1/swap'') (Some (jup_swap_body p)) w)
             (\<lambda>raw w. (case je_json_swap E raw of
                            Inl e \<Rightarrow> Inl (Wrap ''jupiter: decode swap'' e)
                          | Inr r \<Rightarrow> if jw_transaction r = [] then Inl (Errorf ''jupiter: empty swapTransaction in response'')
                                     else Inr r, w)))"

section \<open>The venue (venue.go)\<close>

datatype submit_mode = SubmitJito | SubmitRPC | SubmitOther string

fun submit_mode_str :: "submit_mode \<Rightarrow> string" where
  "submit_mode_str SubmitJito = ''jito''"
| "submit_mode_str SubmitRPC = ''rpc''"
| "submit_mode_str (SubmitOther s) = s"

definition jup_VenueName :: string where
  "jup_VenueName = ''jupiter''"

record sol_signer =
  ss_address :: string
  ss_chain :: chain_id
  ss_sign :: "bytes \<Rightarrow> go_error + bytes"

record jup_config =
  jf_key :: string
  jf_base :: string
  jf_rpc :: string
  jf_jito :: string
  jf_mode :: submit_mode
  jf_priority :: sol_word
  jf_timeout :: duration

record jup_venue =
  jv_jup :: jup_client
  jv_rpc :: string
  jv_jito :: "string option"
  jv_signer :: sol_signer
  jv_mode :: submit_mode
  jv_priority :: sol_word
  jv_timeout :: duration

definition jup_New :: "jup_config \<Rightarrow> sol_signer option \<Rightarrow> go_error + jup_venue" where
  "jup_New cfg signer =
     (case signer of
        None \<Rightarrow> Inl (Errorf ''jupiter: signer is required'')
      | Some sg \<Rightarrow>
          if ss_chain sg \<noteq> ChainSolana
          then Inl (Errorf (''jupiter: signer chain must be solana, got '' @ quoted (chain_str (ss_chain sg))))
          else if jf_rpc cfg = [] then Inl (Errorf ''jupiter: RPCURL is required'')
          else
            let mode = (if jf_mode cfg = SubmitOther [] then SubmitJito else jf_mode cfg)
            in if mode = SubmitJito \<and> jf_jito cfg = []
               then Inl (Errorf ''jupiter: JitoBundleURL is required when Mode=jito'')
               else Inr \<lparr>jv_jup = jup_NewClient [jup_WithBaseURL (jf_base cfg), jup_WithAPIKey (jf_key cfg)],
                         jv_rpc = sol_NewClient (jf_rpc cfg),
                         jv_jito = (if mode = SubmitJito then Some (TrimRight (jf_jito cfg) (CHR ''/'')) else None), jv_signer = sg,
                         jv_mode = mode, jv_priority = jf_priority cfg,
                         jv_timeout = (if jf_timeout cfg = 0 then 90 * nano_second else jf_timeout cfg)\<rparr>)"

definition wrappedSOL :: string where
  "wrappedSOL = ''So11111111111111111111111111111111111111112''"

text \<open>\<open>Uint64\<close> of a big integer keeps its low 64 bits.\<close>

definition jup_scaleAmount :: "declib \<Rightarrow> decimal \<Rightarrow> int \<Rightarrow> sol_word" where
  "jup_scaleAmount L amount decimals =
     (let scaled = d_trunc L 0 (shift10 (max 0 decimals) amount)
      in if scaled < 0 then 0 else word_of_int \<lfloor>scaled\<rfloor>)"

definition jup_unscaleAmount :: "sol_word \<Rightarrow> int \<Rightarrow> decimal" where
  "jup_unscaleAmount units decimals = shift10 (- decimals) (of_nat (unat units))"

definition unscaleAmountDec :: "decimal \<Rightarrow> int \<Rightarrow> decimal" where
  "unscaleAmountDec d decimals = shift10 (- decimals) d"

text \<open>The error is dropped; the value \<open>strconv.ParseUint\<close> returns with a range error is the largest one.\<close>

definition jup_parseUint :: "string \<Rightarrow> sol_word" where
  "jup_parseUint s =
     (case ParseUint (TrimSpace s) 64 of
        Inr n \<Rightarrow> word_of_nat n
      | Inl e \<Rightarrow> if errors_is e ''value out of range'' then - 1 else 0)"

text \<open>\<open>decimal.NewFromString\<close> with the error dropped.\<close>

definition parse_or_zero :: "declib \<Rightarrow> string \<Rightarrow> decimal" where
  "parse_or_zero L s = (case d_parse L s of None \<Rightarrow> 0 | Some d \<Rightarrow> d)"

definition priorityFeePtr :: "sol_word \<Rightarrow> sol_word option" where
  "priorityFeePtr fee = (if fee = 0 then None else Some fee)"

definition jup_Quote ::
  "'w jup_env \<Rightarrow> jup_venue \<Rightarrow> quote_request \<Rightarrow> 'w sol_state \<Rightarrow> (go_error + quote) \<times> 'w sol_state" where
  "jup_Quote E v q s =
     (let amount = (if qr_mode q = QuoteExactOut then jup_scaleAmount (je_lib E) (qr_amount q) (as_decimals (qr_out_token q))
                    else jup_scaleAmount (je_lib E) (qr_amount q) (as_decimals (qr_in_token q)));
          mode = (if qr_mode q = QuoteExactOut then ''ExactOut'' else ''ExactIn'')
      in run_then (on_second (jup_client_Quote E (jv_jup v)
             \<lparr>jp_input = as_mint (qr_in_token q), jp_output = as_mint (qr_out_token q), jp_amount = amount, jp_slippage = 50,
              jp_mode = mode, jp_direct = False, jp_restrict = False, jp_max_accounts = 0\<rparr>) s)
           (\<lambda>r s1.
              let (now, s2) = on_second (se_now (je_sol E)) s1
              in (Inr \<lparr>q_in_token = qr_in_token q, q_out_token = qr_out_token q,
                       q_in_amount = jup_unscaleAmount (jup_parseUint (jq_in_amount r)) (as_decimals (qr_in_token q)),
                       q_out_amount = jup_unscaleAmount (jup_parseUint (jq_out_amount r)) (as_decimals (qr_out_token q)),
                       q_price_impact = parse_or_zero (je_lib E) (TrimSpace (jq_impact r)), q_route = jup_VenueName,
                       q_expires_at = now + 20 * nano_second, q_raw = jq_route_json r\<rparr>, s2)))"

definition signSerializedTransaction :: "'w jup_env \<Rightarrow> string \<Rightarrow> sol_signer \<Rightarrow> go_error + bytes" where
  "signSerializedTransaction E b64 signer =
     (case b64_decode b64 of
        None \<Rightarrow> Inl (Wrap ''jupiter: base64 decode tx'' (Errorf ''illegal base64 data''))
      | Some raw \<Rightarrow>
          and_then (wrap_result ''jupiter: parse tx'' (je_parse_tx E raw)) (\<lambda>tx.
          and_then (wrap_result ''jupiter: marshal message'' (je_message E tx)) (\<lambda>msg.
          and_then (wrap_result ''jupiter: sign'' (ss_sign signer msg)) (\<lambda>sig.
            if length sig \<noteq> 64
            then Inl (Errorf (''jupiter: expected 64-byte ed25519 signature, got '' @ nat_str (length sig)))
            else if st_signatures tx = [] then Inl (Errorf ''jupiter: tx has no signature slots'')
            else je_encode_tx E (tx\<lparr>st_signatures := (st_signatures tx)[0 := sig]\<rparr>)))))"

definition firstSignature :: "'w jup_env \<Rightarrow> bytes \<Rightarrow> go_error + string" where
  "firstSignature E serialised =
     and_then (je_parse_tx E serialised) (\<lambda>tx.
       case st_signatures tx of [] \<Rightarrow> Inl (Errorf ''no signatures'') | sg # _ \<Rightarrow> Inr (je_base58 E sg))"

definition jup_swap_request :: "jup_venue \<Rightarrow> quote \<Rightarrow> jup_swap_params" where
  "jup_swap_request v q =
     \<lparr>jr_quote = q_raw q, jr_user = ss_address (jv_signer v), jr_wrap = True, jr_shared = False, jr_fee_account = [],
      jr_unit_price = priorityFeePtr (jv_priority v), jr_legacy = False, jr_dynamic = True, jr_skip_user = False\<rparr>"

text \<open>Submission of the signed bytes; a nil Jito client, which \<open>New\<close> rules out, is an error of its own.\<close>

definition jup_submit ::
  "'w jup_env \<Rightarrow> jup_venue \<Rightarrow> bytes \<Rightarrow> 'w sol_state \<Rightarrow> (go_error + string) \<times> 'w sol_state" where
  "jup_submit E v stx s =
     (case jv_mode v of
        SubmitJito \<Rightarrow>
          (case jv_jito v of
             None \<Rightarrow> (Inl (Errorf ''nil pointer dereference''), s)
           | Some url \<Rightarrow>
               run_then (wrap_error ''jupiter: jito send'' (on_second (SendBundle (je_sol E) url [b64_encode stx]) s))
                 (\<lambda>_ s1. (firstSignature E stx, s1)))
      | SubmitRPC \<Rightarrow> SendTransaction (je_sol E) (jv_rpc v) (b64_encode stx) False s
      | SubmitOther m \<Rightarrow> (Inl (Errorf (''jupiter: unknown submit mode '' @ quoted m)), s))"

text \<open>The slippage bound is an argument the code does not use: it is part of Jupiter's quote.\<close>

definition jup_Swap ::
  "'w jup_env \<Rightarrow> jup_venue \<Rightarrow> quote \<Rightarrow> int \<Rightarrow> 'w sol_state \<Rightarrow> (go_error + string) \<times> 'w sol_state" where
  "jup_Swap E v q slippage_bps s =
     (let (now, s1) = on_second (se_now (je_sol E)) s
      in if q_expires_at q < now then (Inl ErrQuoteExpired, s1)
         else run_then (on_second (jup_client_Swap E (jv_jup v) (jup_swap_request v q)) s1)
                (\<lambda>r s2. case signSerializedTransaction E (jw_transaction r) (jv_signer v) of
                            Inl e \<Rightarrow> (Inl e, s2)
                          | Inr stx \<Rightarrow> jup_submit E v stx s2))"

definition zero_swap_result :: swap_result where
  "zero_swap_result = \<lparr>sr_tx_hash = [], sr_status = SwapStatusPending, sr_slot = 0, sr_block_time = zero_time, sr_in_amount = 0,
     sr_out_amount = 0, sr_gas_native = 0, sr_gas_usd = 0, sr_error = []\<rparr>"

text \<open>One look at the status: failed, confirmed, or nothing yet. A failed query counts as nothing yet.\<close>

definition confirm_attempt ::
  "'w jup_env \<Rightarrow> jup_venue \<Rightarrow> string \<Rightarrow> 'w sol_state \<Rightarrow> (go_error + swap_result) option \<times> 'w sol_state" where
  "confirm_attempt E v tx s =
     (case GetSignatureStatuses (je_sol E) (jv_rpc v) [tx] True s of
        (Inr [Some g], s1) \<Rightarrow>
          (if sg_err g \<noteq> [] \<and> sg_err g \<noteq> ''null''
           then (Some (Inr (zero_swap_result\<lparr>sr_tx_hash := tx, sr_status := SwapStatusFailed, sr_slot := unat (sg_slot g),
                              sr_error := sg_err g\<rparr>)), s1)
           else if sg_confirmation g = ''confirmed'' \<or> sg_confirmation g = ''finalized''
           then (let (now, s2) = on_second (se_now (je_sol E)) s1
                 in (Some (Inr (zero_swap_result\<lparr>sr_tx_hash := tx, sr_status := SwapStatusConfirmed, sr_slot := unat (sg_slot g),
                              sr_block_time := now\<rparr>)), s2))
           else (None, s1))
      | (_, s1) \<Rightarrow> (None, s1))"

definition jup_WaitConfirm ::
  "'w jup_env \<Rightarrow> jup_venue \<Rightarrow> string \<Rightarrow> 'w sol_state \<Rightarrow> ((go_error + swap_result) \<times> 'w sol_state) option" where
  "jup_WaitConfirm E v tx s =
     (let (now, s1) = on_second (se_now (je_sol E)) s
      in poll_until (confirm_attempt E v tx) (on_second (se_now (je_sol E))) (on_second (se_tick (je_sol E)))
           (now + jv_timeout v) (Inr (zero_swap_result\<lparr>sr_tx_hash := tx\<rparr>)) Inl s1)"

definition jup_Balance ::
  "'w jup_env \<Rightarrow> jup_venue \<Rightarrow> asset \<Rightarrow> 'w sol_state \<Rightarrow> (go_error + decimal) \<times> 'w sol_state" where
  "jup_Balance E v a s =
     (if as_chain a \<noteq> ChainSolana
      then (Inl (Errorf (''jupiter: asset chain '' @ quoted (chain_str (as_chain a)) @ '' is not solana'')), s)
      else if as_mint a = wrappedSOL \<or> as_mint a = []
      then run_then (sol_GetBalance (je_sol E) (jv_rpc v) (ss_address (jv_signer v)) s) (\<lambda>l s. (Inr (jup_unscaleAmount l 9), s))
      else run_then (GetTokenAccountsByOwner (je_sol E) (jv_rpc v) (ss_address (jv_signer v)) (as_mint a) s)
             (\<lambda>as s. (Inr (unscaleAmountDec (sum_list (map (\<lambda>a. parse_or_zero (je_lib E) (tb_amount (ta_balance a))) as))
                              (as_decimals a)), s)))"

section \<open>What a swap submits\<close>

text \<open>\<open>wallet_signed E v tx sg bs\<close>: \<open>bs\<close> is the transaction \<open>tx\<close> with the wallet's signature \<open>sg\<close> of its message in the first slot.\<close>

definition wallet_signed :: "'w jup_env \<Rightarrow> jup_venue \<Rightarrow> sol_tx \<Rightarrow> bytes \<Rightarrow> bytes \<Rightarrow> bool" where
  "wallet_signed E v tx sg bs \<longleftrightarrow>
     (\<exists>msg. je_message E tx = Inr msg \<and> ss_sign (jv_signer v) msg = Inr sg) \<and> length sg = 64 \<and> st_signatures tx \<noteq> []
     \<and> je_encode_tx E (tx\<lparr>st_signatures := (st_signatures tx)[0 := sg]\<rparr>) = Inr bs"

lemma signSerializedTransaction_InrD:
  assumes "signSerializedTransaction E b64 (jv_signer v) = Inr bs"
  shows "\<exists>raw tx sg. b64_decode b64 = Some raw \<and> je_parse_tx E raw = Inr tx \<and> wallet_signed E v tx sg bs"
proof -
  from assms obtain raw where raw: "b64_decode b64 = Some raw" by (auto simp: signSerializedTransaction_def split: option.splits)
  from assms raw obtain tx where tx: "je_parse_tx E raw = Inr tx"
    by (auto simp: signSerializedTransaction_def wrap_result_def split: sum.splits)
  from assms raw tx obtain msg where msg: "je_message E tx = Inr msg"
    by (auto simp: signSerializedTransaction_def wrap_result_def split: sum.splits)
  from assms raw tx msg obtain sg where "ss_sign (jv_signer v) msg = Inr sg"
    by (auto simp: signSerializedTransaction_def wrap_result_def split: sum.splits)
  with assms raw tx msg show ?thesis
    by (auto simp: signSerializedTransaction_def wrap_result_def wallet_signed_def split: if_splits)
qed

lemma on_secondD: "on_second f s = (x, s') \<Longrightarrow> f (snd s) = (x, snd s')"
  by (auto simp: on_second_def split: prod.splits)

lemma jup_Swap_InrD:
  assumes "jup_Swap E v q b s = (Inr h, s')"
  obtains now s1 r s2 stx where "on_second (se_now (je_sol E)) s = (now, s1)" "now \<le> q_expires_at q"
    "jup_client_Swap E (jv_jup v) (jup_swap_request v q) (snd s1) = (Inr r, snd s2)"
    "signSerializedTransaction E (jw_transaction r) (jv_signer v) = Inr stx" "jup_submit E v stx s2 = (Inr h, s')"
proof -
  obtain now s1 where n: "on_second (se_now (je_sol E)) s = (now, s1)" by (metis surj_pair)
  with assms have now: "now \<le> q_expires_at q" by (auto simp: jup_Swap_def split: if_splits)
  with assms n have "run_then (on_second (jup_client_Swap E (jv_jup v) (jup_swap_request v q)) s1)
      (\<lambda>r s2. case signSerializedTransaction E (jw_transaction r) (jv_signer v) of
                 Inl e \<Rightarrow> (Inl e, s2) | Inr stx \<Rightarrow> jup_submit E v stx s2) = (Inr h, s')"
    by (simp add: jup_Swap_def)
  then obtain r s2 where "on_second (jup_client_Swap E (jv_jup v) (jup_swap_request v q)) s1 = (Inr r, s2)"
    and c: "(case signSerializedTransaction E (jw_transaction r) (jv_signer v) of
                 Inl e \<Rightarrow> (Inl e, s2) | Inr stx \<Rightarrow> jup_submit E v stx s2) = (Inr h, s')" by (rule run_then_InrE)
  from on_secondD [OF this(1)] c that [OF n now] show thesis by (auto split: sum.splits)
qed

lemma jup_client_Swap_request:
  assumes "jup_client_Swap E c p w = (Inr r, w')"
  shows "\<exists>body url hs. se_marshal (je_sol E) (jup_swap_body p) = Inr body
    \<and> (\<exists>status raw. se_http (je_sol E) ''POST'' url hs (Some body) w = (Inr (status, raw), w') \<and> je_json_swap E raw = Inr r)"
  using assms
  by (auto simp: jup_client_Swap_def jup_do_def Let_def split: if_splits sum.splits option.splits prod.splits elim!: run_then_InrE)

text \<open>
  C22: The hash of a Jupiter swap is the wallet's own signature. When a swap in bundle mode returns a hash before the quote expired, the quote's opaque route went back to
  Jupiter unchanged; the transaction Jupiter answered with was signed by the wallet over its message; the block engine accepted
  exactly the signed bytes, as the only transaction of the bundle; and the hash is that signature, so that waiting for it waits for this
  transaction. The transaction library reads back what it writes.
\<close>

theorem jupiter_hash_is_own_signature:
  assumes "jup_Swap E v q b s = (Inr h, s')" and "jv_mode v = SubmitJito"
    and codec: "\<forall>tx bs. je_encode_tx E tx = Inr bs \<longrightarrow> je_parse_tx E bs = Inr tx"
  shows "fst (se_now (je_sol E) (snd s)) \<le> q_expires_at q
    \<and> (\<exists>fields body. jup_swap_body (jup_swap_request v q) = JObj ((''quoteResponse'', JRaw (q_raw q)) # fields)
         \<and> se_marshal (je_sol E) (jup_swap_body (jup_swap_request v q)) = Inr body
         \<and> (\<exists>url hs w status raw r bin tx sg bs.
              fst (se_http (je_sol E) ''POST'' url hs (Some body) w) = Inr (status, raw) \<and> je_json_swap E raw = Inr r
            \<and> b64_decode (jw_transaction r) = Some bin \<and> je_parse_tx E bin = Inr tx \<and> wallet_signed E v tx sg bs
            \<and> (\<exists>jito w uuid. jv_jito v = Some jito \<and> fst (SendBundle (je_sol E) jito [b64_encode bs] w) = Inr uuid)
            \<and> h = je_base58 E sg))"
proof -
  from assms(1) obtain now s1 r s2 stx where n: "on_second (se_now (je_sol E)) s = (now, s1)" "now \<le> q_expires_at q"
    and c: "jup_client_Swap E (jv_jup v) (jup_swap_request v q) (snd s1) = (Inr r, snd s2)"
    and sign: "signSerializedTransaction E (jw_transaction r) (jv_signer v) = Inr stx"
    and sub: "jup_submit E v stx s2 = (Inr h, s')" by (rule jup_Swap_InrD)
  from jup_client_Swap_request [OF c] obtain body url hs status raw where body: "se_marshal (je_sol E) (jup_swap_body (jup_swap_request v q)) = Inr body"
    and http: "fst (se_http (je_sol E) ''POST'' url hs (Some body) (snd s1)) = Inr (status, raw)" "je_json_swap E raw = Inr r"
    by (metis fst_conv)
  from signSerializedTransaction_InrD [OF sign] obtain bin tx sg where tx: "b64_decode (jw_transaction r) = Some bin"
    "je_parse_tx E bin = Inr tx" "wallet_signed E v tx sg stx" by blast
  from sub assms(2) obtain jito s3 uuid where jito: "jv_jito v = Some jito"
    and bun: "on_second (SendBundle (je_sol E) jito [b64_encode stx]) s2 = (Inr uuid, s3)"
    and sig: "firstSignature E stx = Inr h"
    by (auto simp: jup_submit_def split: option.splits elim!: run_then_InrE dest!: wrap_error_InrD)
  have "je_parse_tx E stx = Inr (tx\<lparr>st_signatures := (st_signatures tx)[0 := sg]\<rparr>)"
    using tx(3) codec by (simp add: wallet_signed_def)
  then have "h = je_base58 E sg"
    using sig tx(3) by (cases "st_signatures tx") (auto simp: firstSignature_def wallet_signed_def)
  moreover have "\<exists>fields. jup_swap_body (jup_swap_request v q) = JObj ((''quoteResponse'', JRaw (q_raw q)) # fields)"
    by (simp add: jup_swap_body_def jup_swap_request_def)
  moreover have "fst (SendBundle (je_sol E) jito [b64_encode stx] (snd s2)) = Inr uuid" using on_secondD [OF bun] by simp
  moreover have "fst (se_now (je_sol E) (snd s)) \<le> q_expires_at q" using on_secondD [OF n(1)] n(2) by simp
  ultimately show ?thesis using body http tx jito by blast
qed

section \<open>Waiting for confirmation\<close>

definition sol_clock :: "('w \<Rightarrow> time) \<Rightarrow> 'w sol_env \<Rightarrow> bool" where
  "sol_clock clk E \<longleftrightarrow>
     (\<forall>w. fst (se_now E w) = clk w \<and> clk w \<le> clk (snd (se_now E w))) \<and>
     (\<forall>m url hs b w. clk w \<le> clk (snd (se_http E m url hs b w))) \<and>
     (\<forall>w w'. se_tick E w = (None, w') \<longrightarrow> clk w < clk w')"

lemma sol_call_world:
  "snd (snd (sol_call E url m p z f st)) = snd st \<or> (\<exists>mm hs b. snd (snd (sol_call E url m p z f st)) = snd (se_http E mm url hs b (snd st)))"
  by (auto simp: sol_call_def Let_def split: sum.splits option.splits prod.splits) (metis snd_conv)+

lemma confirm_attempt_world:
  "snd (confirm_attempt E v tx s) = snd (GetSignatureStatuses (je_sol E) (jv_rpc v) [tx] True s)
   \<or> snd (confirm_attempt E v tx s) = snd (on_second (se_now (je_sol E)) (snd (GetSignatureStatuses (je_sol E) (jv_rpc v) [tx] True s)))"
  by (auto simp: confirm_attempt_def split: sum.splits list.splits option.splits prod.splits)

lemma sol_clock_moving:
  assumes "sol_clock clk (je_sol E)"
  shows "moving_clock (clk \<circ> snd) (confirm_attempt E v tx) (on_second (se_now (je_sol E))) (on_second (se_tick (je_sol E)))"
proof -
  have http: "clk w \<le> clk (snd (se_http (je_sol E) m url hs b w))" for m url hs b w using assms by (simp add: sol_clock_def)
  have now: "clk w \<le> clk (snd (se_now (je_sol E) w))" for w using assms by (simp add: sol_clock_def)
  have "clk (snd s) \<le> clk (snd (snd (confirm_attempt E v tx s)))" for s
  proof -
    have g: "clk (snd s) \<le> clk (snd (snd (GetSignatureStatuses (je_sol E) (jv_rpc v) [tx] True s)))"
      unfolding GetSignatureStatuses_def by (metis sol_call_world http order_refl)
    have n: "clk (snd t) \<le> clk (snd (snd (on_second (se_now (je_sol E)) t)))" for t using now [of "snd t"] by simp
    from confirm_attempt_world [of E v tx s] show ?thesis
    proof
      assume *: "snd (confirm_attempt E v tx s) = snd (GetSignatureStatuses (je_sol E) (jv_rpc v) [tx] True s)"
      show ?thesis unfolding * by (rule g)
    next
      assume *: "snd (confirm_attempt E v tx s) = snd (on_second (se_now (je_sol E)) (snd (GetSignatureStatuses (je_sol E) (jv_rpc v) [tx] True s)))"
      show ?thesis unfolding * by (rule order_trans [OF g n])
    qed
  qed
  moreover have "clk (snd s) < clk (snd s')" if "on_second (se_tick (je_sol E)) s = (None, s')" for s s'
    using that assms by (auto simp: on_second_def sol_clock_def split: prod.splits)
  ultimately show ?thesis using assms by (auto simp: moving_clock_def sol_clock_def)
qed

text \<open>What a result says of the transaction is what the endpoint said.\<close>

definition reported :: "'w jup_env \<Rightarrow> swap_result \<Rightarrow> bool" where
  "reported E res \<longleftrightarrow>
     (case sr_status res of
        SwapStatusPending \<Rightarrow> True
      | SwapStatusConfirmed \<Rightarrow> (\<exists>raw g. se_json_statuses (je_sol E) raw = Inr [Some g] \<and> (sg_err g = [] \<or> sg_err g = ''null'')
            \<and> sg_confirmation g \<in> {''confirmed'', ''finalized''})
      | SwapStatusFailed \<Rightarrow> (\<exists>raw g. se_json_statuses (je_sol E) raw = Inr [Some g] \<and> sg_err g = sr_error res \<and> sr_error res \<noteq> []))"

lemma statuses_decoded:
  assumes "fst (GetSignatureStatuses E url sigs h s) = Inr gs" and "gs \<noteq> []"
  shows "\<exists>raw. se_json_statuses E raw = Inr gs"
  using assms
  by (auto simp: GetSignatureStatuses_def sol_call_def sol_result_def wrap_result_def Let_def
      split: sum.splits option.splits prod.splits if_splits)

lemma confirm_attempt_reported:
  assumes "fst (confirm_attempt E v tx s) = Some r"
  shows "\<exists>res. r = Inr res \<and> sr_tx_hash res = tx \<and> reported E res"
proof -
  obtain x s1 where x: "GetSignatureStatuses (je_sol E) (jv_rpc v) [tx] True s = (x, s1)" by (metis surj_pair)
  with assms obtain g where g: "x = Inr [Some g]"
    by (auto simp: confirm_attempt_def split: sum.splits list.splits option.splits)
  with statuses_decoded [of "je_sol E" "jv_rpc v" "[tx]" True s "[Some g]"] x obtain raw where
    "se_json_statuses (je_sol E) raw = Inr [Some g]" by auto
  with assms x g show ?thesis
    by (fastforce simp: confirm_attempt_def reported_def zero_swap_result_def split: if_splits prod.splits)
qed

text \<open>
  Waiting for a Solana transaction ends. If the clock moves with the ticks, \<open>WaitConfirm\<close> returns whatever the endpoint answers, and failing queries count as no answer. Its result is
  for the given hash; it says confirmed only when the endpoint reported that status without an error, and failed only
  with the error the endpoint reported; at the deadline it says pending. Only the end of the context is an error.
\<close>

theorem confirmation_wait_ends:
  assumes "sol_clock clk (je_sol E)"
  shows "\<exists>r s'. jup_WaitConfirm E v tx s = Some (r, s')
    \<and> (case r of Inr res \<Rightarrow> sr_tx_hash res = tx \<and> reported E res | Inl e \<Rightarrow> \<exists>w. fst (se_tick (je_sol E) w) = Some e)"
proof -
  let ?late = "Inr (zero_swap_result\<lparr>sr_tx_hash := tx\<rparr>) :: go_error + swap_result"
  obtain now s1 where t: "on_second (se_now (je_sol E)) s = (now, s1)" by (metis surj_pair)
  from poll_until_ends [OF sol_clock_moving [OF assms], of v tx "now + jv_timeout v" ?late Inl s1]
  obtain r s' where r: "poll_until (confirm_attempt E v tx) (on_second (se_now (je_sol E))) (on_second (se_tick (je_sol E)))
      (now + jv_timeout v) ?late Inl s1 = Some (r, s')"
    and o: "poll_outcome (confirm_attempt E v tx) ?late Inl (on_second (se_tick (je_sol E))) r" by blast
  have "case r of Inr res \<Rightarrow> sr_tx_hash res = tx \<and> reported E res | Inl e \<Rightarrow> \<exists>w. fst (se_tick (je_sol E) w) = Some e"
    using o unfolding poll_outcome_def
  proof (elim disjE exE conjE)
    assume "r = ?late"
    then show ?thesis by (simp add: reported_def zero_swap_result_def)
  next
    fix s assume "fst (confirm_attempt E v tx s) = Some r"
    from confirm_attempt_reported [OF this] show ?thesis by auto
  next
    fix s e assume "fst (on_second (se_tick (je_sol E)) s) = Some e" "r = Inl e"
    then show ?thesis by auto
  qed
  with r t show ?thesis by (simp add: jup_WaitConfirm_def)
qed

section \<open>Amounts\<close>

lemma scaled_amount:
  assumes "decimal_lib L" and "0 \<le> x" and "0 \<le> d"
  shows "0 \<le> one_scaleAmount L x d" and "of_int (one_scaleAmount L x d) \<le> x * 10 ^ nat d"
    and "x * 10 ^ nat d < of_int (one_scaleAmount L x d) + 1"
proof -
  let ?y = "x * 10 ^ nat d"
  have y: "0 \<le> ?y" using assms by simp
  note b = decimal_lib.trunc_bounds [OF assms(1) y, of 0]
  have "one_scaleAmount L x d = \<lfloor>d_trunc L 0 ?y\<rfloor>"
    using assms b by (simp add: one_scaleAmount_def shift10_def Let_def max_def)
  moreover have "d_trunc L 0 ?y = of_int \<lfloor>d_trunc L 0 ?y\<rfloor>"
    using decimal_lib.trunc_int [OF assms(1), of ?y] by (metis Ints_cases floor_of_int)
  ultimately have e: "of_int (one_scaleAmount L x d) = d_trunc L 0 ?y" by simp
  then show "0 \<le> one_scaleAmount L x d" using b by (metis of_int_0_le_iff)
  show "of_int (one_scaleAmount L x d) \<le> ?y" "?y < of_int (one_scaleAmount L x d) + 1" using e b by simp_all
qed

text \<open>
  Amounts reach the venues cut, never rounded up. For a non-negative amount and number of decimals, the base units the
  1inch venue asks for are worth at most the amount and fall short of it by less than one base unit. Jupiter's are the
  same as long as they fit 64 bits; beyond that they wrap around, and the swap asked for is smaller.
\<close>

theorem amounts_cut_to_base_units:
  assumes "decimal_lib L" and "0 \<le> x" and "0 \<le> d"
  shows "one_unscaleAmount (one_scaleAmount L x d) d \<le> x \<and> x < one_unscaleAmount (one_scaleAmount L x d) d + 1 / 10 ^ nat d
    \<and> jup_unscaleAmount (jup_scaleAmount L x d) d = one_unscaleAmount (one_scaleAmount L x d mod 2 ^ 64) d
    \<and> (one_scaleAmount L x d < 2 ^ 64 \<longleftrightarrow> jup_unscaleAmount (jup_scaleAmount L x d) d = one_unscaleAmount (one_scaleAmount L x d) d)"
proof -
  note b = scaled_amount [OF assms]
  have un: "one_unscaleAmount n d = of_int n / 10 ^ nat d" for n
    using assms(3) by (cases "d = 0") (simp_all add: one_unscaleAmount_def shift10_def)
  have "jup_scaleAmount L x d = word_of_int (one_scaleAmount L x d)"
    by (simp add: jup_scaleAmount_def one_scaleAmount_def Let_def)
  then have "int (unat (jup_scaleAmount L x d)) = one_scaleAmount L x d mod 2 ^ 64"
    by (simp add: uint_word_of_int)
  moreover have "jup_unscaleAmount u d = one_unscaleAmount (int (unat u)) d" for u
    by (simp only: jup_unscaleAmount_def one_unscaleAmount_def of_int_of_nat_eq)
  ultimately have j: "jup_unscaleAmount (jup_scaleAmount L x d) d = one_unscaleAmount (one_scaleAmount L x d mod 2 ^ 64) d" by simp
  have inj: "one_unscaleAmount m d = one_unscaleAmount n d \<longleftrightarrow> m = n" for m n unfolding un by simp
  have "one_scaleAmount L x d < 2 ^ 64 \<longleftrightarrow> one_scaleAmount L x d mod 2 ^ 64 = one_scaleAmount L x d"
    using b(1) pos_mod_bound [of "2 ^ 64" "one_scaleAmount L x d"] by (auto simp: mod_pos_pos_trivial)
  with j b show ?thesis unfolding inj un by (simp add: field_simps)
qed

section \<open>A concrete endpoint\<close>

text \<open>An endpoint that answers every request; its world is the clock. The transaction format is one signature before the message.\<close>

definition sample_parse_tx :: "bytes \<Rightarrow> go_error + sol_tx" where
  "sample_parse_tx bs = (if 64 \<le> length bs then Inr \<lparr>st_signatures = [take 64 bs], st_message = drop 64 bs\<rparr>
     else Inl (Errorf ''short transaction''))"

definition sample_encode_tx :: "sol_tx \<Rightarrow> go_error + bytes" where
  "sample_encode_tx tx = (case st_signatures tx of
       [sg] \<Rightarrow> if length sg = 64 then Inr (sg @ st_message tx) else Inl (Errorf ''bad signature'')
     | _ \<Rightarrow> Inl (Errorf ''bad signature''))"

definition sample_jup :: "time jup_env" where
  "sample_jup = \<lparr>je_sol = \<lparr>se_marshal = (\<lambda>_. Inr ''body''), se_new_request = (\<lambda>_ _. None),
       se_http = (\<lambda>_ _ _ _ w. (Inr (200, ''{}''), w)),
       se_unmarshal = (\<lambda>raw. Inr \<lparr>sp_jsonrpc = ''2.0'', sp_id = 1, sp_result = raw, sp_error = None\<rparr>),
       se_json_value = (\<lambda>_. Inr 5), se_json_string = Inr, se_json_accounts = (\<lambda>_. Inr []), se_json_statuses = (\<lambda>_. Inr [None]),
       se_json_blockhash = (\<lambda>_. Inr ([], 0)), se_json_bundle = (\<lambda>_. Inr (''uuid'', None)), se_now = (\<lambda>w. (w, w)),
       se_tick = (\<lambda>w. (None, w + 800000000))\<rparr>,
     je_lib = reference_declib, je_query = (\<lambda>_. ''q''), je_json_quote = (\<lambda>_. Inr \<lparr>jq_input_mint = ''in'', jq_output_mint = ''out'', jq_in_amount = ''1'', jq_out_amount = ''1'',
       jq_threshold = ''1'', jq_swap_mode = ''ExactIn'', jq_slippage = 50, jq_impact = ''0'', jq_route_plan = ''[]'',
       jq_context_slot = 0, jq_route_json = []\<rparr>),
     je_json_swap = (\<lambda>_. Inr \<lparr>jw_transaction = b64_encode (replicate 64 0 @ [1, 2, 3]), jw_last_valid = 9, jw_fee = 0\<rparr>),
     je_parse_tx = sample_parse_tx, je_message = (\<lambda>tx. Inr (st_message tx)), je_encode_tx = sample_encode_tx,
     je_base58 = from_bytes\<rparr>"

definition sample_jup_venue :: jup_venue where
  "sample_jup_venue = \<lparr>jv_jup = jup_NewClient [], jv_rpc = ''https://rpc'', jv_jito = Some ''https://jito'',
     jv_signer = \<lparr>ss_address = ''9xQ'', ss_chain = ChainSolana, ss_sign = (\<lambda>_. Inr (replicate 64 7))\<rparr>,
     jv_mode = SubmitJito, jv_priority = 0, jv_timeout = 90 * nano_second\<rparr>"

definition sample_jup_request :: quote_request where
  "sample_jup_request = \<lparr>qr_in_token = q_in_token sample_one_quote, qr_out_token = q_out_token sample_one_quote,
     qr_amount = 1, qr_mode = QuoteExactIn\<rparr>"

lemma sample_jup_sign:
  "signSerializedTransaction sample_jup (b64_encode (replicate 64 0 @ [1, 2, 3])) (jv_signer sample_jup_venue)
     = Inr (replicate 64 7 @ [1, 2, 3])"
proof -
  have "je_parse_tx sample_jup (replicate 64 0 @ [1, 2, 3]) = Inr \<lparr>st_signatures = [replicate 64 0], st_message = [1, 2, 3]\<rparr>"
    by (simp add: sample_jup_def sample_parse_tx_def)
  moreover have "je_message sample_jup tx = Inr (st_message tx)" for tx by (simp add: sample_jup_def)
  moreover have "je_encode_tx sample_jup \<lparr>st_signatures = [replicate 64 7], st_message = [1, 2, 3]\<rparr> = Inr (replicate 64 7 @ [1, 2, 3])"
    by (simp add: sample_jup_def sample_encode_tx_def)
  moreover have "ss_sign (jv_signer sample_jup_venue) m = Inr (replicate 64 7)" for m by (simp add: sample_jup_venue_def)
  ultimately show ?thesis by (simp add: signSerializedTransaction_def b64_decode_encode wrap_result_def)
qed

lemma sample_jup_quote:
  "\<exists>q. jup_Quote sample_jup sample_jup_venue sample_jup_request (0, 0) = (Inr q, (0, 0)) \<and> q_raw q = ''{}'' \<and> q_expires_at q = 20 * nano_second"
proof -
  have "\<exists>jq. jup_client_Quote sample_jup c p w = (Inr jq, w) \<and> jq_route_json jq = ''{}''" for c p w
    by (simp add: jup_client_Quote_def jup_do_def sample_jup_def)
  moreover have "se_now (je_sol sample_jup) w = (w, w)" for w by (simp add: sample_jup_def)
  ultimately obtain jq where "\<forall>c p w. jup_client_Quote sample_jup c p w = (Inr (jq c p w), w) \<and> jq_route_json (jq c p w) = ''{}''"
    "\<forall>w. se_now (je_sol sample_jup) w = (w, w)" by metis
  then show ?thesis by (simp add: jup_Quote_def on_second_def Let_def)
qed

lemma sample_jup_swap:
  assumes "q_raw q \<noteq> []" and "0 \<le> q_expires_at q"
  shows "jup_Swap sample_jup sample_jup_venue q 50 (0, 0) = (Inr (from_bytes (replicate 64 7)), (0, 0))"
proof -
  have "ss_address (jv_signer sample_jup_venue) \<noteq> []" by (simp add: sample_jup_venue_def)
  then have c: "jup_client_Swap sample_jup c (jup_swap_request sample_jup_venue q) w
      = (Inr \<lparr>jw_transaction = b64_encode (replicate 64 0 @ [1, 2, 3]), jw_last_valid = 9, jw_fee = 0\<rparr>, w)" for c w
    using assms by (simp add: jup_client_Swap_def jup_do_def jup_swap_request_def sample_jup_def)
  have b: "SendBundle (je_sol sample_jup) url [x] w = (Inr ''uuid'', w)" for url x w
    by (simp add: SendBundle_def sample_jup_def)
  have f: "firstSignature sample_jup (replicate 64 7 @ [1, 2, 3]) = Inr (from_bytes (replicate 64 7))"
    by (simp add: firstSignature_def sample_jup_def sample_parse_tx_def)
  have "jv_mode sample_jup_venue = SubmitJito" "jv_jito sample_jup_venue = Some ''https://jito''"
    by (simp_all add: sample_jup_venue_def)
  then have s: "jup_submit sample_jup sample_jup_venue (replicate 64 7 @ [1, 2, 3]) st = (Inr (from_bytes (replicate 64 7)), st)" for st
    by (simp add: jup_submit_def on_second_def b f wrap_error_def)
  have "se_now (je_sol sample_jup) w = (w, w)" for w by (simp add: sample_jup_def)
  with assms show ?thesis by (simp add: jup_Swap_def on_second_def c sample_jup_sign s)
qed

theorem jupiter_hash_is_own_signature_witness:
  "\<exists>q s' sg tx bs. jup_Swap sample_jup sample_jup_venue q 50 (0, 0) = (Inr (je_base58 sample_jup sg), s')
     \<and> wallet_signed sample_jup sample_jup_venue tx sg bs"
proof -
  obtain q where "jup_Quote sample_jup sample_jup_venue sample_jup_request (0, 0) = (Inr q, (0, 0))"
    and q: "q_raw q = ''{}''" "q_expires_at q = 20 * nano_second" using sample_jup_quote by blast
  have sw: "jup_Swap sample_jup sample_jup_venue q 50 (0, 0) = (Inr (from_bytes (replicate 64 7)), (0, 0))"
    by (rule sample_jup_swap) (simp_all add: q nano_second_def)
  have mode: "jv_mode sample_jup_venue = SubmitJito" by (simp add: sample_jup_venue_def)
  have codec: "\<forall>tx bs. je_encode_tx sample_jup tx = Inr bs \<longrightarrow> je_parse_tx sample_jup bs = Inr tx"
    by (auto simp: sample_jup_def sample_encode_tx_def sample_parse_tx_def split: list.splits if_splits)
  from jupiter_hash_is_own_signature [OF sw mode codec] sw show ?thesis by metis
qed

theorem confirmation_wait_ends_witness:
  "\<exists>r s'. jup_WaitConfirm sample_jup sample_jup_venue ''sig'' (0, 0) = Some (r, s')"
proof -
  have "sol_clock (\<lambda>w. w) (je_sol sample_jup)" by (simp add: sol_clock_def sample_jup_def)
  from confirmation_wait_ends [OF this] show ?thesis by blast
qed

theorem amounts_cut_to_base_units_witness:
  "one_unscaleAmount (one_scaleAmount reference_declib (5 / 2) 6) 6 \<le> 5 / 2
   \<and> jup_unscaleAmount (jup_scaleAmount reference_declib (5 / 2) 6) 6
       = one_unscaleAmount (one_scaleAmount reference_declib (5 / 2) 6 mod 2 ^ 64) 6"
  using amounts_cut_to_base_units [OF reference.decimal_lib_axioms, of "5 / 2" 6] by simp

end
