(* ===== verification/SwapContract.thy ===== *)
theory SwapContract
  imports JupiterVenue
begin

text \<open>
  What the interface of \<open>internal/swap/swap.go\<close> promises of a swap venue, as a locale over \<open>swap_venue\<close>: a quote is for the tokens asked for, and a swap on an
  expired quote is refused with \<open>ErrQuoteExpired\<close>. The Bittensor, 1inch and Jupiter venues interpret it. The
  runtime's client code, a quote followed by a swap of that quote, is proved once against it.
\<close>

section \<open>The venues behind the interface\<close>

definition one_swap_venue :: "'w one_env \<Rightarrow> one_venue \<Rightarrow> 'w one_state swap_venue" where
  "one_swap_venue E v = \<lparr>sv_name = one_VenueName, sv_chain = vs_chain (ov_signer v), sv_quote = ovenue_Quote E v,
     sv_swap = (\<lambda>q b s. case ovenue_Swap E v q b s of None \<Rightarrow> (Inl ErrNoReturn, s) | Some r \<Rightarrow> r),
     sv_wait_confirm = (\<lambda>tx s. case ovenue_WaitConfirm E v tx s of None \<Rightarrow> (Inl ErrNoReturn, s) | Some r \<Rightarrow> r),
     sv_balance = ovenue_Balance E v, sv_market_snapshot = None\<rparr>"

definition jup_swap_venue :: "'w jup_env \<Rightarrow> jup_venue \<Rightarrow> 'w sol_state swap_venue" where
  "jup_swap_venue E v = \<lparr>sv_name = jup_VenueName, sv_chain = ChainSolana, sv_quote = jup_Quote E v, sv_swap = jup_Swap E v,
     sv_wait_confirm = (\<lambda>tx s. case jup_WaitConfirm E v tx s of None \<Rightarrow> (Inl ErrNoReturn, s) | Some r \<Rightarrow> r),
     sv_balance = jup_Balance E v, sv_market_snapshot = None\<rparr>"

section \<open>The contract\<close>

locale quoting_venue =
  fixes venue :: "'s swap_venue"
  assumes quote_tokens: "sv_quote venue r s = (Inr q, s') \<Longrightarrow> q_in_token q = qr_in_token r \<and> q_out_token q = qr_out_token r"

locale expiring_venue = quoting_venue venue for venue :: "'s swap_venue" +
  fixes clock :: "'s \<Rightarrow> time \<times> 's"
  assumes swap_expired: "q_expires_at q < fst (clock s) \<Longrightarrow> sv_swap venue q b s = (Inl ErrQuoteExpired, snd (clock s))"
begin

lemma swap_in_time: "sv_swap venue q b s = (Inr h, s') \<Longrightarrow> fst (clock s) \<le> q_expires_at q"
  using swap_expired [of q s b] by (cases "q_expires_at q < fst (clock s)") auto

text \<open>What the runtime does: quote a request and swap the quote, with any delay in between.\<close>

lemma quoted_swap:
  assumes "sv_quote venue r s = (Inr q, s1)" and "sv_swap venue q b s2 = (Inr h, s3)"
  shows "q_in_token q = qr_in_token r \<and> q_out_token q = qr_out_token r \<and> fst (clock s2) \<le> q_expires_at q"
  using quote_tokens [OF assms(1)] swap_in_time [OF assms(2)] by blast

end

section \<open>The three venues keep it\<close>

lemma bt_Quote_tokens: "bt_Quote E r s = (Inr q, s') \<Longrightarrow> q_in_token q = qr_in_token r \<and> q_out_token q = qr_out_token r"
  by (auto simp: bt_Quote_def Let_def split: sum.splits prod.splits if_splits)

lemma ovenue_Quote_tokens: "ovenue_Quote E v r s = (Inr q, s') \<Longrightarrow> q_in_token q = qr_in_token r \<and> q_out_token q = qr_out_token r"
  by (auto simp: ovenue_Quote_def Let_def split: option.splits prod.splits if_splits elim!: run_then_InrE)

lemma jup_Quote_tokens: "jup_Quote E v r s = (Inr q, s') \<Longrightarrow> q_in_token q = qr_in_token r \<and> q_out_token q = qr_out_token r"
  by (auto simp: jup_Quote_def Let_def split: prod.splits elim!: run_then_InrE)

lemma noop_Quote_tokens: "noop_Quote r s = (Inr q, s') \<Longrightarrow> q_in_token q = qr_in_token r \<and> q_out_token q = qr_out_token r"
  by (auto simp: noop_Quote_def)

interpretation noop_quoting: quoting_venue noop_swap_venue
  by unfold_locales (simp add: noop_swap_venue_def noop_Quote_tokens)

interpretation bittensor: expiring_venue "bt_swap_venue E v" "on_second (ce_now E)" for E v
  by unfold_locales
    (simp_all add: bt_swap_venue_def bt_Quote_tokens bt_Swap_def on_second_def Let_def split: prod.splits)

interpretation oneinch: expiring_venue "one_swap_venue E v" "via_world (ee_now (on_evm E))" for E v
  by unfold_locales (simp_all add: one_swap_venue_def ovenue_Quote_tokens ovenue_Swap_def via_world_def on_second_def Let_def split_beta)

interpretation jupiter: expiring_venue "jup_swap_venue E v" "on_second (se_now (je_sol E))" for E v
  by unfold_locales (simp_all add: jup_swap_venue_def jup_Quote_tokens jup_Swap_def on_second_def Let_def split_beta)



end
