(* ===== verification/Wallet.thy ===== *)
theory Wallet
  imports Builder "HOL-Library.AList"
begin

text \<open>
  The signers and the encrypted keystore of \<open>internal/wallet\<close>: one Solana, one Hyperliquid and one Bittensor key, the
  EVM view of the Hyperliquid key, the file they are stored in, and the stub keystore of \<open>wallet/noop\<close>. Curve arithmetic, hashes, the key
  derivation, the cipher and the file system are parameters. The locale \<open>key_source\<close> is what the builder needs of a keystore; both
  keystores interpret it.
\<close>

section \<open>The cryptographic libraries\<close>

text \<open>
  An ed25519 private key is its seed followed by its public key. The other keys are opaque: \<open>'k\<close> is a secp256k1 key of
  the decred library, \<open>'p\<close> an sr25519 key pair, \<open>'e\<close> a key of go-ethereum.
\<close>

record ('k, 'p, 'e) crypto_lib =
  cl_ed_public :: "bytes \<Rightarrow> bytes"
  cl_ed_sign :: "bytes \<Rightarrow> bytes \<Rightarrow> bytes"
  cl_base58 :: "bytes \<Rightarrow> string"
  cl_base58_decode :: "string \<Rightarrow> go_error + bytes"
  cl_secp :: "bytes \<Rightarrow> 'k"
  cl_serialize :: "'k \<Rightarrow> bytes"
  cl_uncompressed :: "'k \<Rightarrow> bytes"
  cl_compact :: "'k \<Rightarrow> bytes \<Rightarrow> bytes"
  cl_keccak :: "bytes \<Rightarrow> bytes"
  cl_ecdsa :: "bytes \<Rightarrow> go_error + 'e"
  cl_sr_seed :: "bytes \<Rightarrow> go_error + 'p"
  cl_sr_phrase :: "string \<Rightarrow> string \<Rightarrow> go_error + 'p"
  cl_sr_uri :: "string \<Rightarrow> go_error + 'p"
  cl_sr_secret :: "'p \<Rightarrow> bytes"
  cl_sr_public :: "'p \<Rightarrow> bytes"
  cl_sr_sign :: "'p \<Rightarrow> bytes \<Rightarrow> go_error + bytes"
  cl_ss58 :: "'p \<Rightarrow> 16 word \<Rightarrow> string"
  cl_ss58_encode :: "bytes \<Rightarrow> 16 word \<Rightarrow> string"
  cl_sha256 :: "bytes \<Rightarrow> bytes"

text \<open>\<open>hex.DecodeString\<close>, with one error for both kinds of bad input.\<close>

definition hex_DecodeString :: "string \<Rightarrow> go_error + bytes" where
  "hex_DecodeString s = (case hex_decode s of None \<Rightarrow> Inl (Errorf ''encoding/hex: invalid input'') | Some bs \<Rightarrow> Inr bs)"

lemma hex_DecodeString_encode [roundtrips, simp]: "hex_DecodeString (hex_encode bs) = Inr bs"
  by (simp add: hex_DecodeString_def hex_decode_encode)

section \<open>Solana keys (solana.go)\<close>

record sol_key =
  sk_priv :: bytes
  sk_addr :: string

definition NewSolanaSignerFromPrivate :: "('k, 'p, 'e) crypto_lib \<Rightarrow> bytes \<Rightarrow> go_error + sol_key" where
  "NewSolanaSignerFromPrivate C secret =
     (if length secret = 64 then Inr \<lparr>sk_priv = secret, sk_addr = cl_base58 C (drop 32 secret)\<rparr>
      else if length secret = 32
      then Inr \<lparr>sk_priv = secret @ cl_ed_public C secret, sk_addr = cl_base58 C (drop 32 (secret @ cl_ed_public C secret))\<rparr>
      else Inl (Errorf (''solana: secret must be 32 or 64 bytes, got '' @ nat_str (length secret))))"

definition NewSolanaSignerFromBase58 :: "('k, 'p, 'e) crypto_lib \<Rightarrow> string \<Rightarrow> go_error + sol_key" where
  "NewSolanaSignerFromBase58 C b58 =
     and_then (wrap_result ''solana: base58 decode'' (cl_base58_decode C b58)) (NewSolanaSignerFromPrivate C)"

definition sol_Sign :: "('k, 'p, 'e) crypto_lib \<Rightarrow> sol_key \<Rightarrow> bytes \<Rightarrow> go_error + bytes" where
  "sol_Sign C k payload = Inr (cl_ed_sign C (sk_priv k) payload)"

section \<open>Hyperliquid keys (hyperliquid.go)\<close>

record 'k hl_key =
  hk_priv :: 'k
  hk_addr :: string

definition deriveEVMAddress :: "('k, 'p, 'e) crypto_lib \<Rightarrow> 'k \<Rightarrow> string" where
  "deriveEVMAddress C k = ''0x'' @ hex_encode (drop 12 (cl_keccak C (drop 1 (cl_uncompressed C k))))"

definition NewHyperliquidSignerFromPrivate :: "('k, 'p, 'e) crypto_lib \<Rightarrow> bytes \<Rightarrow> go_error + 'k hl_key" where
  "NewHyperliquidSignerFromPrivate C raw =
     (if length raw \<noteq> 32 then Inl (Errorf (''hyperliquid: private key must be 32 bytes, got '' @ nat_str (length raw)))
      else Inr \<lparr>hk_priv = cl_secp C raw, hk_addr = deriveEVMAddress C (cl_secp C raw)\<rparr>)"

definition trim_0x :: "string \<Rightarrow> string" where
  "trim_0x s = TrimPrefix (TrimPrefix s ''0x'') ''0X''"

definition NewHyperliquidSignerFromHex :: "('k, 'p, 'e) crypto_lib \<Rightarrow> string \<Rightarrow> go_error + 'k hl_key" where
  "NewHyperliquidSignerFromHex C s =
     and_then (wrap_result ''hyperliquid: hex decode'' (hex_DecodeString (trim_0x (TrimSpace s))))
       (NewHyperliquidSignerFromPrivate C)"

definition PrivateKeyHex :: "('k, 'p, 'e) crypto_lib \<Rightarrow> 'k hl_key \<Rightarrow> string" where
  "PrivateKeyHex C k = ''0x'' @ hex_encode (cl_serialize C (hk_priv k))"

text \<open>
  The library answers recovery byte, R, S; the signer reorders them. A compact signature shorter than 65 bytes would make the slicing
  panic, which is \<open>None\<close>.
\<close>

definition hl_Sign :: "('k, 'p, 'e) crypto_lib \<Rightarrow> 'k hl_key \<Rightarrow> bytes \<Rightarrow> (go_error + bytes) option" where
  "hl_Sign C k payload =
     (if length payload \<noteq> 32
      then Some (Inl (Errorf (''hyperliquid: Sign expects a 32-byte hash, got '' @ nat_str (length payload) @ '' bytes'')))
      else let sig = cl_compact C (hk_priv k) payload
           in if length sig < 65 then None
              else Some (Inr (take 32 (drop 1 sig) @ take 32 (drop 33 sig) @ [sig ! 0 - 27])))"

section \<open>Bittensor keys (bittensor.go)\<close>

record 'p bt_key =
  bk_pair :: 'p
  bk_addr :: string

definition bittensorSS58Prefix :: "16 word" where
  "bittensorSS58Prefix = 42"

definition bittensor_key :: "('k, 'p, 'e) crypto_lib \<Rightarrow> 'p \<Rightarrow> 'p bt_key" where
  "bittensor_key C kp = \<lparr>bk_pair = kp, bk_addr = cl_ss58 C kp bittensorSS58Prefix\<rparr>"

definition NewBittensorSignerFromPrivate :: "('k, 'p, 'e) crypto_lib \<Rightarrow> bytes \<Rightarrow> go_error + 'p bt_key" where
  "NewBittensorSignerFromPrivate C secret =
     map_sum id (bittensor_key C) (wrap_result ''bittensor: derive keypair'' (cl_sr_seed C secret))"

definition NewBittensorSignerFromSeed :: "('k, 'p, 'e) crypto_lib \<Rightarrow> bytes \<Rightarrow> go_error + 'p bt_key" where
  "NewBittensorSignerFromSeed C seed =
     (if length seed \<noteq> 32 then Inl (Errorf (''bittensor: seed must be 32 bytes, got '' @ nat_str (length seed)))
      else map_sum id (bittensor_key C) (wrap_result ''bittensor: derive keypair'' (cl_sr_seed C seed)))"

definition NewBittensorSignerFromPhrase :: "('k, 'p, 'e) crypto_lib \<Rightarrow> string \<Rightarrow> string \<Rightarrow> go_error + 'p bt_key" where
  "NewBittensorSignerFromPhrase C phrase password =
     map_sum id (bittensor_key C) (wrap_result ''bittensor: from phrase'' (cl_sr_phrase C phrase password))"

definition NewBittensorSignerFromURI :: "('k, 'p, 'e) crypto_lib \<Rightarrow> string \<Rightarrow> go_error + 'p bt_key" where
  "NewBittensorSignerFromURI C uri =
     map_sum id (bittensor_key C) (wrap_result (''bittensor: derive from URI '' @ quoted uri) (cl_sr_uri C uri))"

definition bt_SecretKey :: "('k, 'p, 'e) crypto_lib \<Rightarrow> 'p bt_key \<Rightarrow> bytes" where
  "bt_SecretKey C k = cl_sr_secret C (bk_pair k)"

definition bt_PublicKey :: "('k, 'p, 'e) crypto_lib \<Rightarrow> 'p bt_key \<Rightarrow> bytes" where
  "bt_PublicKey C k = cl_sr_public C (bk_pair k)"

definition bt_Sign :: "('k, 'p, 'e) crypto_lib \<Rightarrow> 'p bt_key \<Rightarrow> bytes \<Rightarrow> go_error + bytes" where
  "bt_Sign C k payload = cl_sr_sign C (bk_pair k) payload"

definition ss58Encode :: "('k, 'p, 'e) crypto_lib \<Rightarrow> bytes \<Rightarrow> byte \<Rightarrow> go_error + string" where
  "ss58Encode C pub pfx =
     (if length pub \<noteq> 32 then Inl (Errorf (''ss58: expected 32-byte pubkey, got '' @ nat_str (length pub)))
      else Inr (cl_ss58_encode C pub (ucast pfx)))"

section \<open>The EVM view and the stub (evm.go, noop/noop.go)\<close>

record ('k, 'e) evm_key =
  ek_hl :: "'k hl_key"
  ek_chain :: chain_id
  ek_priv :: 'e

record noop_key =
  nk_chain :: chain_id
  nk_addr :: string

text \<open>
  The values behind the \<open>Signer\<close> interface. The constructors above are the only way a signer is made, so the code's checks for a nil key in
  \<open>Sign\<close> never fire and are left out.
\<close>

datatype ('k, 'p, 'e) signer =
    SolanaKey sol_key | HyperliquidKey "'k hl_key" | BittensorKey "'p bt_key"
  | EVMKey "('k, 'e) evm_key" | NoopKey noop_key

fun signer_type :: "('k, 'p, 'e) signer \<Rightarrow> string" where
  "signer_type (SolanaKey _) = ''*wallet.SolanaSigner''"
| "signer_type (HyperliquidKey _) = ''*wallet.HyperliquidSigner''"
| "signer_type (BittensorKey _) = ''*wallet.BittensorSigner''"
| "signer_type (EVMKey _) = ''*wallet.EVMSigner''"
| "signer_type (NoopKey _) = ''*noop.Signer''"

fun signer_address :: "('k, 'p, 'e) signer \<Rightarrow> string" where
  "signer_address (SolanaKey k) = sk_addr k"
| "signer_address (HyperliquidKey k) = hk_addr k"
| "signer_address (BittensorKey k) = bk_addr k"
| "signer_address (EVMKey k) = hk_addr (ek_hl k)"
| "signer_address (NoopKey k) = nk_addr k"

fun signer_chain :: "('k, 'p, 'e) signer \<Rightarrow> chain_id" where
  "signer_chain (SolanaKey _) = ChainSolana"
| "signer_chain (HyperliquidKey _) = ChainHyperliquid"
| "signer_chain (BittensorKey _) = ChainBittensor"
| "signer_chain (EVMKey k) = ek_chain k"
| "signer_chain (NoopKey k) = nk_chain k"

definition noop_Sign :: "('k, 'p, 'e) crypto_lib \<Rightarrow> noop_key \<Rightarrow> bytes \<Rightarrow> go_error + bytes" where
  "noop_Sign C k payload = Inr (cl_sha256 C (to_bytes (nk_addr k @ '':'') @ payload))"

fun signer_Sign :: "('k, 'p, 'e) crypto_lib \<Rightarrow> ('k, 'p, 'e) signer \<Rightarrow> bytes \<Rightarrow> (go_error + bytes) option" where
  "signer_Sign C (SolanaKey k) p = Some (sol_Sign C k p)"
| "signer_Sign C (HyperliquidKey k) p = hl_Sign C k p"
| "signer_Sign C (BittensorKey k) p = Some (bt_Sign C k p)"
| "signer_Sign C (EVMKey k) p = hl_Sign C (ek_hl k) p"
| "signer_Sign C (NoopKey k) p = Some (noop_Sign C k p)"

definition NewEVMSigner :: "('k, 'p, 'e) crypto_lib \<Rightarrow> 'k hl_key option \<Rightarrow> chain_id \<Rightarrow> go_error + ('k, 'e) evm_key" where
  "NewEVMSigner C hl chain =
     (case hl of
        None \<Rightarrow> Inl (Errorf ''evm: nil hyperliquid signer'')
      | Some k \<Rightarrow>
          (if \<not> IsEVM chain then Inl (Errorf (''evm: chain '' @ quoted (chain_str chain) @ '' is not an EVM chain''))
           else map_sum id (\<lambda>priv. \<lparr>ek_hl = k, ek_chain = chain, ek_priv = priv\<rparr>)
                  (wrap_result ''evm: bad secp256k1 secret'' (cl_ecdsa C (cl_serialize C (hk_priv k))))))"

definition evm_signer_of ::
  "('k, 'p, 'e) crypto_lib \<Rightarrow> ('k, 'p, 'e) signer \<Rightarrow> chain_id \<Rightarrow> go_error + ('k, 'p, 'e) signer" where
  "evm_signer_of C s chain =
     (case s of
        HyperliquidKey k \<Rightarrow> map_sum id EVMKey (NewEVMSigner C (Some k) chain)
      | _ \<Rightarrow> Inl (Errorf (''evm: keystore signer for hyperliquid is '' @ signer_type s @ '', not *HyperliquidSigner'')))"

definition noop_NewSigner :: "('k, 'p, 'e) crypto_lib \<Rightarrow> chain_id \<Rightarrow> noop_key" where
  "noop_NewSigner C chain =
     \<lparr>nk_chain = chain, nk_addr = ''noop_'' @ hex_encode (take 8 (cl_sha256 C (to_bytes (''noop-signer:'' @ chain_str chain))))\<rparr>"

text \<open>A Go map is an association list whose order stands for the unspecified order of iteration.\<close>

type_synonym ('k, 'p, 'e) signer_map = "(chain_id \<times> ('k, 'p, 'e) signer) list"

definition noop_NewKeystore :: "('k, 'p, 'e) crypto_lib \<Rightarrow> chain_id list \<Rightarrow> ('k, 'p, 'e) signer_map" where
  "noop_NewKeystore C cs = fold (\<lambda>c m. AList.update c (NoopKey (noop_NewSigner C c)) m) cs []"

definition noop_Signer :: "('k, 'p, 'e) signer_map \<Rightarrow> chain_id \<Rightarrow> go_error + ('k, 'p, 'e) signer" where
  "noop_Signer m chain =
     (case map_of m chain of None \<Rightarrow> Inl (Errorf (''no signer for chain '' @ quoted (chain_str chain))) | Some s \<Rightarrow> Inr s)"

definition noop_Chains :: "('k, 'p, 'e) signer_map \<Rightarrow> chain_id list" where
  "noop_Chains m = map fst m"

end
