(* ===== verification/Keystore.thy ===== *)
theory Keystore
  imports Wallet
begin

text \<open>
  \<open>LocalKeystore\<close> of \<open>internal/wallet/keystore.go\<close>: the keys in memory, the encrypted file, opening and saving. The laws of the cipher, of
  the JSON codecs and of the disk are the locale \<open>sealed_disk\<close>, in which saving and reopening is shown to restore every key.
\<close>

section \<open>The file\<close>

record kdf_params =
  kd_name :: string
  kd_n :: int
  kd_r :: int
  kd_p :: int
  kd_salt :: string

record address_entry =
  ae_chain :: chain_id
  ae_address :: string

record keystore_file =
  kf_version :: int
  kf_kdf :: kdf_params
  kf_nonce :: string
  kf_ciphertext :: string
  kf_addresses :: "address_entry list"

record secrets_blob =
  sb_solana :: "bytes option"
  sb_hyperliquid :: "bytes option"
  sb_bittensor :: "bytes option"

datatype stat_result = StatOk | StatNotExist | StatError go_error

text \<open>
  The file system, the random source, scrypt, AES-GCM and the JSON codecs. The world \<open>'w\<close> is the disk and the random source. The cipher's open
  answers nothing when the authentication fails.
\<close>

record 'w ks_env =
  kv_stat :: "string \<Rightarrow> 'w \<Rightarrow> stat_result \<times> 'w"
  kv_read :: "string \<Rightarrow> 'w \<Rightarrow> (go_error + string) \<times> 'w"
  kv_mkdir :: "string \<Rightarrow> nat \<Rightarrow> 'w \<Rightarrow> (go_error + unit) \<times> 'w"
  kv_write :: "string \<Rightarrow> string \<Rightarrow> nat \<Rightarrow> 'w \<Rightarrow> (go_error + unit) \<times> 'w"
  kv_rand :: "nat \<Rightarrow> 'w \<Rightarrow> (go_error + bytes) \<times> 'w"
  kv_dir :: "string \<Rightarrow> string"
  kv_scrypt :: "bytes \<Rightarrow> bytes \<Rightarrow> int \<Rightarrow> int \<Rightarrow> int \<Rightarrow> nat \<Rightarrow> go_error + bytes"
  kv_seal :: "bytes \<Rightarrow> bytes \<Rightarrow> string \<Rightarrow> bytes"
  kv_open :: "bytes \<Rightarrow> bytes \<Rightarrow> bytes \<Rightarrow> string option"
  kv_json_file :: "keystore_file \<Rightarrow> go_error + string"
  kv_parse_file :: "string \<Rightarrow> go_error + keystore_file"
  kv_json_blob :: "secrets_blob \<Rightarrow> go_error + string"
  kv_parse_blob :: "string \<Rightarrow> go_error + secrets_blob"

record ('k, 'p, 'e) keystore_state =
  ks_path :: string
  ks_pass :: string
  ks_signers :: "('k, 'p, 'e) signer_map"
  ks_addrs :: "address_entry list"

text \<open>\<open>aes.NewCipher\<close> takes keys of three sizes.\<close>

definition newGCM :: "bytes \<Rightarrow> go_error + bytes" where
  "newGCM key = (if length key \<in> {16, 24, 32} then Inr key
     else Inl (Wrap ''keystore: aes'' (Errorf (''crypto/aes: invalid key size '' @ nat_str (length key)))))"

fun upsertAddr :: "address_entry \<Rightarrow> address_entry list \<Rightarrow> address_entry list" where
  "upsertAddr e [] = [e]"
| "upsertAddr e (a # as) = (if ae_chain a = ae_chain e then e # as else a # upsertAddr e as)"

section \<open>Keys in memory\<close>

definition install :: "('k, 'p, 'e) signer \<Rightarrow> ('k, 'p, 'e) keystore_state \<Rightarrow> ('k, 'p, 'e) keystore_state" where
  "install s ks = ks\<lparr>ks_signers := AList.update (signer_chain s) s (ks_signers ks),
     ks_addrs := upsertAddr \<lparr>ae_chain = signer_chain s, ae_address = signer_address s\<rparr> (ks_addrs ks)\<rparr>"

definition SetSolana :: "sol_key \<Rightarrow> ('k, 'p, 'e) keystore_state \<Rightarrow> ('k, 'p, 'e) keystore_state" where
  "SetSolana k = install (SolanaKey k)"

definition SetHyperliquid :: "'k hl_key \<Rightarrow> ('k, 'p, 'e) keystore_state \<Rightarrow> ('k, 'p, 'e) keystore_state" where
  "SetHyperliquid k = install (HyperliquidKey k)"

definition SetBittensor :: "'p bt_key \<Rightarrow> ('k, 'p, 'e) keystore_state \<Rightarrow> ('k, 'p, 'e) keystore_state" where
  "SetBittensor k = install (BittensorKey k)"

definition ks_Signer :: "('k, 'p, 'e) keystore_state \<Rightarrow> chain_id \<Rightarrow> go_error + ('k, 'p, 'e) signer" where
  "ks_Signer ks chain =
     (case map_of (ks_signers ks) chain of
        None \<Rightarrow> Inl (Errorf (''keystore: no signer for chain '' @ quoted (chain_str chain))) | Some s \<Rightarrow> Inr s)"

definition ks_Chains :: "('k, 'p, 'e) keystore_state \<Rightarrow> chain_id list" where
  "ks_Chains ks = filter (\<lambda>c. map_of (ks_signers ks) c \<noteq> None) (map ae_chain (ks_addrs ks))"

definition wallet_EVMSignerFromKeystore ::
  "('k, 'p, 'e) crypto_lib \<Rightarrow> ('k, 'p, 'e) keystore_state option \<Rightarrow> chain_id \<Rightarrow> go_error + ('k, 'p, 'e) signer" where
  "wallet_EVMSignerFromKeystore C ks chain =
     (case ks of
        None \<Rightarrow> Inl ErrNoEVMSigner
      | Some k \<Rightarrow> (case ks_Signer k ChainHyperliquid of Inl _ \<Rightarrow> Inl ErrNoEVMSigner | Inr s \<Rightarrow> evm_signer_of C s chain))"

section \<open>Opening\<close>

text \<open>The checks on the file before the cipher: the cipher's key, the nonce and the ciphertext.\<close>

definition unlock_key :: "'w ks_env \<Rightarrow> string \<Rightarrow> keystore_file \<Rightarrow> go_error + bytes \<times> bytes \<times> bytes" where
  "unlock_key E pass f =
     (if kf_version f \<noteq> 1 then Inl (Errorf (''keystore: unsupported version '' @ int_str (kf_version f)))
      else if kd_name (kf_kdf f) \<noteq> ''scrypt'' then Inl (Errorf (''keystore: unsupported KDF '' @ quoted (kd_name (kf_kdf f))))
      else and_then (wrap_result ''keystore: salt decode'' (hex_DecodeString (kd_salt (kf_kdf f)))) (\<lambda>salt.
           and_then (wrap_result ''keystore: nonce decode'' (hex_DecodeString (kf_nonce f))) (\<lambda>nonce.
           and_then (wrap_result ''keystore: ciphertext decode'' (hex_DecodeString (kf_ciphertext f))) (\<lambda>ct.
           and_then (wrap_result ''keystore: scrypt''
             (kv_scrypt E (to_bytes pass) salt (kd_n (kf_kdf f)) (kd_r (kf_kdf f)) (kd_p (kf_kdf f)) 32)) (\<lambda>dk.
           and_then (newGCM dk) (\<lambda>gcm. Inr (gcm, nonce, ct)))))))"

definition load_key ::
  "string \<Rightarrow> chain_id \<Rightarrow> (bytes \<Rightarrow> go_error + ('k, 'p, 'e) signer) \<Rightarrow> bytes option \<Rightarrow> ('k, 'p, 'e) signer_map
     \<Rightarrow> go_error + ('k, 'p, 'e) signer_map" where
  "load_key what chain mk raw m =
     (case raw of None \<Rightarrow> Inr m | Some bs \<Rightarrow> map_sum id (\<lambda>s. AList.update chain s m) (wrap_result what (mk bs)))"

definition load_keys :: "('k, 'p, 'e) crypto_lib \<Rightarrow> secrets_blob \<Rightarrow> ('k, 'p, 'e) signer_map \<Rightarrow> go_error + ('k, 'p, 'e) signer_map" where
  "load_keys C b m =
     and_then (load_key ''keystore: load solana'' ChainSolana
       (\<lambda>bs. map_sum id SolanaKey (NewSolanaSignerFromPrivate C bs)) (sb_solana b) m) (\<lambda>m1.
     and_then (load_key ''keystore: load hyperliquid'' ChainHyperliquid
       (\<lambda>bs. map_sum id HyperliquidKey (NewHyperliquidSignerFromPrivate C bs)) (sb_hyperliquid b) m1) (\<lambda>m2.
     load_key ''keystore: load bittensor'' ChainBittensor
       (\<lambda>bs. map_sum id BittensorKey (NewBittensorSignerFromPrivate C bs)) (sb_bittensor b) m2))"

definition refresh_addrs :: "('k, 'p, 'e) signer_map \<Rightarrow> address_entry list \<Rightarrow> address_entry list" where
  "refresh_addrs m as = fold (\<lambda>(c, s). upsertAddr \<lparr>ae_chain = c, ae_address = signer_address s\<rparr>) m as"

text \<open>The decrypted secrets become the keys, and the addresses of the file are refreshed from them.\<close>

definition adopt_secrets ::
  "('k, 'p, 'e) crypto_lib \<Rightarrow> 'w ks_env \<Rightarrow> string \<Rightarrow> address_entry list \<Rightarrow> ('k, 'p, 'e) keystore_state
     \<Rightarrow> go_error + ('k, 'p, 'e) keystore_state" where
  "adopt_secrets C E plain as ks =
     and_then (wrap_result ''keystore: blob decode'' (kv_parse_blob E plain)) (\<lambda>b.
     and_then (load_keys C b (ks_signers ks)) (\<lambda>m.
     Inr (ks\<lparr>ks_signers := m, ks_addrs := refresh_addrs m as\<rparr>)))"

text \<open>
  Decrypting the body of the file. The cipher's \<open>Open\<close> panics on a nonce that is not 12 bytes long, which no check rules out; the panic is
  \<open>None\<close>.
\<close>

definition unlock ::
  "('k, 'p, 'e) crypto_lib \<Rightarrow> 'w ks_env \<Rightarrow> string \<Rightarrow> ('k, 'p, 'e) keystore_state
     \<Rightarrow> (go_error + ('k, 'p, 'e) keystore_state) option" where
  "unlock C E body ks =
     (case wrap_result ''keystore: parse'' (kv_parse_file E body) of
        Inl e \<Rightarrow> Some (Inl e)
      | Inr f \<Rightarrow>
          (case unlock_key E (ks_pass ks) f of
             Inl e \<Rightarrow> Some (Inl e)
           | Inr (gcm, nonce, ct) \<Rightarrow>
               (if length nonce \<noteq> 12 then None
                else Some (case kv_open E gcm nonce ct of
                    None \<Rightarrow> Inl (Errorf ''keystore: decrypt failed (wrong passphrase?)'')
                  | Some plain \<Rightarrow> adopt_secrets C E plain (kf_addresses f) ks))))"

definition ks_load ::
  "('k, 'p, 'e) crypto_lib \<Rightarrow> 'w ks_env \<Rightarrow> ('k, 'p, 'e) keystore_state \<Rightarrow> 'w
     \<Rightarrow> ((go_error + ('k, 'p, 'e) keystore_state) \<times> 'w) option" where
  "ks_load C E ks w =
     (case kv_read E (ks_path ks) w of
        (Inl e, w1) \<Rightarrow> Some (Inl (Wrap ''keystore: read'' e), w1)
      | (Inr body, w1) \<Rightarrow> map_option (\<lambda>r. (r, w1)) (unlock C E body ks))"

definition NewLocalKeystore ::
  "('k, 'p, 'e) crypto_lib \<Rightarrow> 'w ks_env \<Rightarrow> string \<Rightarrow> string \<Rightarrow> 'w \<Rightarrow> ((go_error + ('k, 'p, 'e) keystore_state) \<times> 'w) option" where
  "NewLocalKeystore C E path pass w =
     (if path = [] then Some (Inl (Errorf ''keystore: path is required''), w)
      else if pass = [] then Some (Inl (Errorf ''keystore: passphrase is required''), w)
      else let fresh = \<lparr>ks_path = path, ks_pass = pass, ks_signers = [], ks_addrs = []\<rparr>
           in case kv_stat E path w of
               (StatOk, w1) \<Rightarrow> ks_load C E fresh w1
             | (StatNotExist, w1) \<Rightarrow> Some (Inr fresh, w1)
             | (StatError e, w1) \<Rightarrow> Some (Inl (Wrap ''keystore: stat'' e), w1))"

section \<open>Saving\<close>

definition ks_blob :: "('k, 'p, 'e) crypto_lib \<Rightarrow> ('k, 'p, 'e) keystore_state \<Rightarrow> secrets_blob" where
  "ks_blob C ks =
     \<lparr>sb_solana = (case map_of (ks_signers ks) ChainSolana of Some (SolanaKey k) \<Rightarrow> Some (sk_priv k) | _ \<Rightarrow> None),
      sb_hyperliquid = (case map_of (ks_signers ks) ChainHyperliquid of
          Some (HyperliquidKey k) \<Rightarrow> Some (cl_serialize C (hk_priv k)) | _ \<Rightarrow> None),
      sb_bittensor = (case map_of (ks_signers ks) ChainBittensor of
          Some (BittensorKey k) \<Rightarrow> Some (bt_SecretKey C k) | _ \<Rightarrow> None)\<rparr>"

definition sealed_file :: "bytes \<Rightarrow> bytes \<Rightarrow> bytes \<Rightarrow> address_entry list \<Rightarrow> keystore_file" where
  "sealed_file salt nonce ct as =
     \<lparr>kf_version = 1, kf_kdf = \<lparr>kd_name = ''scrypt'', kd_n = 32768, kd_r = 8, kd_p = 1, kd_salt = hex_encode salt\<rparr>,
      kf_nonce = hex_encode nonce, kf_ciphertext = hex_encode ct, kf_addresses = as\<rparr>"

definition sealing_key :: "'w ks_env \<Rightarrow> string \<Rightarrow> bytes \<Rightarrow> go_error + bytes" where
  "sealing_key E pass salt = and_then (wrap_result ''keystore: scrypt'' (kv_scrypt E (to_bytes pass) salt 32768 8 1 32)) newGCM"

definition write_keystore :: "'w ks_env \<Rightarrow> string \<Rightarrow> keystore_file \<Rightarrow> 'w \<Rightarrow> (go_error + unit) \<times> 'w" where
  "write_keystore E path f w =
     (case wrap_result ''keystore: marshal file'' (kv_json_file E f) of
        Inl e \<Rightarrow> (Inl e, w)
      | Inr body \<Rightarrow> run_then (wrap_error ''keystore: mkdir'' (kv_mkdir E (kv_dir E path) 448 w)) (\<lambda>_ w1.
                    wrap_error ''keystore: write'' (kv_write E path body 384 w1)))"

definition ks_Save :: "('k, 'p, 'e) crypto_lib \<Rightarrow> 'w ks_env \<Rightarrow> ('k, 'p, 'e) keystore_state \<Rightarrow> 'w \<Rightarrow> (go_error + unit) \<times> 'w" where
  "ks_Save C E ks w =
     (case wrap_result ''keystore: marshal blob'' (kv_json_blob E (ks_blob C ks)) of
        Inl e \<Rightarrow> (Inl e, w)
      | Inr plain \<Rightarrow>
          run_then (wrap_error ''keystore: rand salt'' (kv_rand E 16 w)) (\<lambda>salt w1.
          case sealing_key E (ks_pass ks) salt of
              Inl e \<Rightarrow> (Inl e, w1)
            | Inr gcm \<Rightarrow>
                run_then (wrap_error ''keystore: rand nonce'' (kv_rand E 12 w1)) (\<lambda>nonce w2.
                write_keystore E (ks_path ks) (sealed_file salt nonce (kv_seal E gcm nonce plain) (ks_addrs ks)) w2)))"

text \<open>Fresh keys from the random source. The ed25519 generator draws 32 bytes of seed.\<close>

definition GenerateSolanaKey :: "('k, 'p, 'e) crypto_lib \<Rightarrow> 'w ks_env \<Rightarrow> 'w \<Rightarrow> (go_error + sol_key) \<times> 'w" where
  "GenerateSolanaKey C E w =
     run_then (kv_rand E 32 w) (\<lambda>seed w1. (NewSolanaSignerFromPrivate C (seed @ cl_ed_public C seed), w1))"

definition GenerateHyperliquidKey :: "('k, 'p, 'e) crypto_lib \<Rightarrow> 'w ks_env \<Rightarrow> 'w \<Rightarrow> (go_error + 'k hl_key) \<times> 'w" where
  "GenerateHyperliquidKey C E w = run_then (kv_rand E 32 w) (\<lambda>raw w1. (NewHyperliquidSignerFromPrivate C raw, w1))"

definition GenerateBittensorKey :: "('k, 'p, 'e) crypto_lib \<Rightarrow> 'w ks_env \<Rightarrow> 'w \<Rightarrow> (go_error + 'p bt_key) \<times> 'w" where
  "GenerateBittensorKey C E w =
     run_then (wrap_error ''bittensor: generate'' (kv_rand E 32 w)) (\<lambda>seed w1. (NewBittensorSignerFromSeed C seed, w1))"


section \<open>The state of a keystore\<close>

definition addr_of :: "address_entry list \<Rightarrow> chain_id \<Rightarrow> string option" where
  "addr_of as = map_of (map (\<lambda>e. (ae_chain e, ae_address e)) as)"

lemma addr_of_simps [simp]: "addr_of [] = (\<lambda>_. None)" "addr_of (e # as) = (addr_of as)(ae_chain e \<mapsto> ae_address e)"
  by (simp_all add: addr_of_def fun_eq_iff)

lemma addr_of_upsert [simp]: "addr_of (upsertAddr e as) = (addr_of as)(ae_chain e \<mapsto> ae_address e)"
  by (induction e as rule: upsertAddr.induct) (auto simp: fun_eq_iff)

lemma upsert_same: "addr_of as (ae_chain e) = Some (ae_address e) \<Longrightarrow> upsertAddr e as = as"
  by (induction e as rule: upsertAddr.induct) (auto split: if_splits)

lemma refresh_addrs_Nil [simp]: "refresh_addrs [] as = as"
  by (simp add: refresh_addrs_def)

lemma refresh_addrs_Cons [simp]:
  "refresh_addrs ((c, s) # m) as = refresh_addrs m (upsertAddr \<lparr>ae_chain = c, ae_address = signer_address s\<rparr> as)"
  by (simp add: refresh_addrs_def)

lemma addr_of_refresh:
  assumes "distinct (map fst m)"
  shows "addr_of (refresh_addrs m as) c = (case map_of m c of Some s \<Rightarrow> Some (signer_address s) | None \<Rightarrow> addr_of as c)"
  using assms
proof (induction m arbitrary: as)
  case (Cons x m)
  obtain d s where x: "x = (d, s)" by (cases x)
  with Cons.prems have "map_of m d = None" by (simp add: map_of_eq_None_iff)
  with Cons x show ?case by (simp split: option.split)
qed simp

lemma refresh_same: "(\<And>c s. (c, s) \<in> set m \<Longrightarrow> addr_of as c = Some (signer_address s)) \<Longrightarrow> refresh_addrs m as = as"
proof (induction m)
  case (Cons x m)
  obtain c s where x: "x = (c, s)" by (cases x)
  have "addr_of as c = Some (signer_address s)" using Cons.prems x by simp
  then have "upsertAddr \<lparr>ae_chain = c, ae_address = signer_address s\<rparr> as = as" by (simp add: upsert_same)
  with Cons x show ?case by simp
qed simp

text \<open>What the constructors establish of a key: its length, and an address that is the key's own.\<close>

fun made_key :: "('k, 'p, 'e) crypto_lib \<Rightarrow> ('k, 'p, 'e) signer \<Rightarrow> bool" where
  "made_key C (SolanaKey k) \<longleftrightarrow> length (sk_priv k) = 64 \<and> sk_addr k = cl_base58 C (drop 32 (sk_priv k))"
| "made_key C (HyperliquidKey k) \<longleftrightarrow> hk_addr k = deriveEVMAddress C (hk_priv k)"
| "made_key C (BittensorKey k) \<longleftrightarrow> k = bittensor_key C (bk_pair k)"
| "made_key C (EVMKey _) \<longleftrightarrow> False"
| "made_key C (NoopKey _) \<longleftrightarrow> False"

definition keys_ok :: "('k, 'p, 'e) crypto_lib \<Rightarrow> ('k, 'p, 'e) signer_map \<Rightarrow> bool" where
  "keys_ok C m \<longleftrightarrow> distinct (map fst m) \<and> (\<forall>c s. map_of m c = Some s \<longrightarrow> signer_chain s = c \<and> made_key C s)"

definition keystore_ok :: "('k, 'p, 'e) crypto_lib \<Rightarrow> ('k, 'p, 'e) keystore_state \<Rightarrow> bool" where
  "keystore_ok C ks \<longleftrightarrow> ks_path ks \<noteq> [] \<and> ks_pass ks \<noteq> [] \<and> keys_ok C (ks_signers ks)
     \<and> (\<forall>c s. map_of (ks_signers ks) c = Some s \<longrightarrow> addr_of (ks_addrs ks) c = Some (signer_address s))"

lemma keys_ok_Nil [simp]: "keys_ok C []"
  by (simp add: keys_ok_def)

lemma keys_ok_update: "keys_ok C m \<Longrightarrow> made_key C s \<Longrightarrow> signer_chain s = c \<Longrightarrow> keys_ok C (AList.update c s m)"
  unfolding keys_ok_def by (simp add: distinct_update update_conv')

lemma keys_ok_map_of: "keys_ok C m \<Longrightarrow> map_of m c = Some s \<Longrightarrow> signer_chain s = c \<and> made_key C s"
  unfolding keys_ok_def by blast

lemma keystore_ok_addr:
  "keystore_ok C ks \<Longrightarrow> map_of (ks_signers ks) c = Some s \<Longrightarrow> addr_of (ks_addrs ks) c = Some (signer_address s)"
  unfolding keystore_ok_def by blast

lemma install_ok: "keystore_ok C ks \<Longrightarrow> made_key C s \<Longrightarrow> keystore_ok C (install s ks)"
  unfolding keystore_ok_def install_def by (simp add: keys_ok_update update_conv')

lemma load_key_ok:
  assumes "load_key what c mk raw m = Inr m'" and "keys_ok C m" and "\<And>bs s. mk bs = Inr s \<Longrightarrow> made_key C s \<and> signer_chain s = c"
  shows "keys_ok C m'"
  using assms keys_ok_update [of C m _ c]
  by (cases raw) (auto simp: load_key_def wrap_result_def map_sum_def split: sum.splits)

text \<open>Every constructor makes a key; a seed's public key is 32 bytes long.\<close>

definition ed_public_32 :: "('k, 'p, 'e) crypto_lib \<Rightarrow> bool" where
  "ed_public_32 C \<longleftrightarrow> (\<forall>seed. length seed = 32 \<longrightarrow> length (cl_ed_public C seed) = 32)"

lemma NewSolana_made: "ed_public_32 C \<Longrightarrow> NewSolanaSignerFromPrivate C bs = Inr k \<Longrightarrow> made_key C (SolanaKey k)"
  by (auto simp: NewSolanaSignerFromPrivate_def ed_public_32_def split: if_splits)

lemma NewHyperliquid_made: "NewHyperliquidSignerFromPrivate C bs = Inr k \<Longrightarrow> made_key C (HyperliquidKey k)"
  by (auto simp: NewHyperliquidSignerFromPrivate_def split: if_splits)

lemma bittensor_key_made [simp]: "made_key C (BittensorKey (bittensor_key C kp))"
  by (simp add: bittensor_key_def)

lemma NewBittensor_made: "NewBittensorSignerFromPrivate C bs = Inr k \<Longrightarrow> made_key C (BittensorKey k)"
  by (auto simp: NewBittensorSignerFromPrivate_def map_sum_def split: sum.splits simp del: made_key.simps)

lemma map_sum_InrD: "map_sum f g r = Inr b \<Longrightarrow> \<exists>a. r = Inr a \<and> b = g a"
  by (cases r) auto

lemma load_keys_ok:
  assumes "ed_public_32 C" and "load_keys C b m = Inr m'" and "keys_ok C m"
  shows "keys_ok C m'"
proof -
  from assms(2) obtain m1 m2 where
    "load_key ''keystore: load solana'' ChainSolana (\<lambda>bs. map_sum id SolanaKey (NewSolanaSignerFromPrivate C bs)) (sb_solana b) m = Inr m1"
    "load_key ''keystore: load hyperliquid'' ChainHyperliquid
       (\<lambda>bs. map_sum id HyperliquidKey (NewHyperliquidSignerFromPrivate C bs)) (sb_hyperliquid b) m1 = Inr m2"
    "load_key ''keystore: load bittensor'' ChainBittensor
       (\<lambda>bs. map_sum id BittensorKey (NewBittensorSignerFromPrivate C bs)) (sb_bittensor b) m2 = Inr m'"
    by (auto simp: load_keys_def elim!: and_then_InrE)
  then show ?thesis
    using load_key_ok [where C = C] assms(1,3) NewSolana_made NewHyperliquid_made NewBittensor_made
    by (smt (verit, best) map_sum_InrD signer_chain.simps(1) signer_chain.simps(2) signer_chain.simps(3))
qed


lemma adopt_ok:
  assumes "ed_public_32 C" and "adopt_secrets C E plain as ks = Inr ks'" and "keystore_ok C ks"
  shows "keystore_ok C ks'"
proof -
  from assms(2) obtain b m where m: "load_keys C b (ks_signers ks) = Inr m" "ks' = ks\<lparr>ks_signers := m, ks_addrs := refresh_addrs m as\<rparr>"
    by (auto simp: adopt_secrets_def elim!: and_then_InrE)
  have "keys_ok C m" using load_keys_ok [OF assms(1) m(1)] assms(3) by (simp add: keystore_ok_def)
  then have "addr_of (refresh_addrs m as) c = Some (signer_address s)" if "map_of m c = Some s" for c s
    using that by (simp add: addr_of_refresh keys_ok_def)
  with \<open>keys_ok C m\<close> assms(3) show ?thesis by (simp add: keystore_ok_def m(2))
qed

lemma unlock_ok: "ed_public_32 C \<Longrightarrow> unlock C E body ks = Some (Inr ks') \<Longrightarrow> keystore_ok C ks \<Longrightarrow> keystore_ok C ks'"
  by (auto simp: unlock_def adopt_ok split: sum.splits prod.splits option.splits if_splits)

lemma NewLocalKeystore_ok:
  assumes "ed_public_32 C" and "NewLocalKeystore C E path pass w = Some (Inr ks, w')"
  shows "keystore_ok C ks"
proof -
  have "keystore_ok C \<lparr>ks_path = path, ks_pass = pass, ks_signers = [], ks_addrs = []\<rparr>" if "path \<noteq> []" "pass \<noteq> []"
    using that by (simp add: keystore_ok_def)
  then show ?thesis
    using assms(2) unlock_ok [OF assms(1)]
    by (auto simp: NewLocalKeystore_def ks_load_def Let_def split: if_splits prod.splits stat_result.splits sum.splits)
qed

text \<open>The lives of a keystore: opened, then given keys made by the constructors.\<close>

inductive ks_reach :: "('k, 'p, 'e) crypto_lib \<Rightarrow> 'w ks_env \<Rightarrow> ('k, 'p, 'e) keystore_state \<Rightarrow> bool"
  for C :: "('k, 'p, 'e) crypto_lib" and E :: "'w ks_env" where
  opened: "NewLocalKeystore C E path pass w = Some (Inr ks, w') \<Longrightarrow> ks_reach C E ks"
| solana: "ks_reach C E ks \<Longrightarrow> NewSolanaSignerFromPrivate C secret = Inr k \<Longrightarrow> ks_reach C E (SetSolana k ks)"
| hyperliquid: "ks_reach C E ks \<Longrightarrow> NewHyperliquidSignerFromPrivate C secret = Inr h \<Longrightarrow> ks_reach C E (SetHyperliquid h ks)"
| bittensor: "ks_reach C E ks \<Longrightarrow> ks_reach C E (SetBittensor (bittensor_key C kp) ks)"

inductive_cases ks_reachE: "ks_reach C E ks"

lemma ks_reach_ok: "ks_reach C E ks \<Longrightarrow> ed_public_32 C \<Longrightarrow> keystore_ok C ks"
  by (induction rule: ks_reach.induct) (simp_all only: NewLocalKeystore_ok SetSolana_def SetHyperliquid_def SetBittensor_def install_ok NewSolana_made
      NewHyperliquid_made bittensor_key_made)

section \<open>Saving and reopening\<close>

text \<open>An empty byte slice is left out of the file and read back as no key.\<close>

definition omit_empty :: "secrets_blob \<Rightarrow> secrets_blob" where
  "omit_empty b = \<lparr>sb_solana = (if sb_solana b = Some [] then None else sb_solana b),
     sb_hyperliquid = (if sb_hyperliquid b = Some [] then None else sb_hyperliquid b),
     sb_bittensor = (if sb_bittensor b = Some [] then None else sb_bittensor b)\<rparr>"

locale sealed_disk =
  fixes C :: "('k, 'p, 'e) crypto_lib" and E :: "'w ks_env"
  assumes public_32: "ed_public_32 C"
    and serialize_32: "length (cl_serialize C k) = 32"
    and serialize_secp: "cl_secp C (cl_serialize C k) = k"
    and file_codec: "kv_json_file E f = Inr text \<Longrightarrow> kv_parse_file E text = Inr f"
    and blob_codec: "kv_json_blob E b = Inr text \<Longrightarrow> kv_parse_blob E text = Inr (omit_empty b)"
    and open_seal: "length nonce = 12 \<Longrightarrow> kv_open E key nonce (kv_seal E key nonce plain) = Some plain"
    and rand_length: "kv_rand E n w = (Inr bs, w') \<Longrightarrow> length bs = n"
    and disk: "kv_write E path text perm w = (Inr (), w') \<Longrightarrow>
      \<exists>w1 w2. kv_stat E path w' = (StatOk, w1) \<and> kv_read E path w1 = (Inr text, w2)"
begin

text \<open>What is on the disk after a save.\<close>

lemma Save_writes:
  assumes "ks_Save C E ks w = (Inr (), w')"
  obtains salt gcm nonce plain body w1 where "sealing_key E (ks_pass ks) salt = Inr gcm" "length nonce = 12"
    "kv_json_blob E (ks_blob C ks) = Inr plain"
    "kv_json_file E (sealed_file salt nonce (kv_seal E gcm nonce plain) (ks_addrs ks)) = Inr body"
    "kv_write E (ks_path ks) body 384 w1 = (Inr (), w')"
  using assms that rand_length
  by (fastforce simp: ks_Save_def write_keystore_def wrap_result_def split: sum.splits elim!: run_then_InrE dest!: wrap_error_InrD)

text \<open>Reading that file with any passphrase that derives a key.\<close>

lemma unlock_sealed:
  assumes "kv_parse_file E body = Inr (sealed_file salt nonce ct as)" and "length nonce = 12"
    and "sealing_key E (ks_pass ks) salt = Inr gcm"
  shows "unlock C E body ks = Some (case kv_open E gcm nonce ct of
      None \<Rightarrow> Inl (Errorf ''keystore: decrypt failed (wrong passphrase?)'')
    | Some plain \<Rightarrow> adopt_secrets C E plain as ks)"
proof -
  from assms(3) obtain dk where "kv_scrypt E (to_bytes (ks_pass ks)) salt 32768 8 1 32 = Inr dk" "newGCM dk = Inr gcm"
    by (cases "kv_scrypt E (to_bytes (ks_pass ks)) salt 32768 8 1 32") (auto simp: sealing_key_def wrap_result_def)
  then have "unlock_key E (ks_pass ks) (sealed_file salt nonce ct as) = Inr (gcm, nonce, ct)"
    by (simp add: unlock_key_def sealed_file_def wrap_result_def)
  moreover have "kf_addresses (sealed_file salt nonce ct as) = as" by (simp add: sealed_file_def)
  ultimately show ?thesis using assms(1,2) by (simp add: unlock_def wrap_result_def split: option.split)
qed

lemma reopened_file:
  assumes "keystore_ok C ks" and "ks_Save C E ks w = (Inr (), w')" and "pass \<noteq> []"
  obtains salt gcm nonce plain w2 where "sealing_key E (ks_pass ks) salt = Inr gcm" "length nonce = 12"
    "kv_json_blob E (ks_blob C ks) = Inr plain"
    "NewLocalKeystore C E (ks_path ks) pass w' = Some ((case sealing_key E pass salt of
        Inl e \<Rightarrow> Inl e
      | Inr gcm' \<Rightarrow> (case kv_open E gcm' nonce (kv_seal E gcm nonce plain) of
          None \<Rightarrow> Inl (Errorf ''keystore: decrypt failed (wrong passphrase?)'')
        | Some plain \<Rightarrow> adopt_secrets C E plain (ks_addrs ks)
            \<lparr>ks_path = ks_path ks, ks_pass = pass, ks_signers = [], ks_addrs = []\<rparr>)), w2)"
proof -
  from assms(2) obtain salt gcm nonce plain body w1 where g: "sealing_key E (ks_pass ks) salt = Inr gcm" "length nonce = 12"
    and p: "kv_json_blob E (ks_blob C ks) = Inr plain"
    and f: "kv_json_file E (sealed_file salt nonce (kv_seal E gcm nonce plain) (ks_addrs ks)) = Inr body"
    and d: "kv_write E (ks_path ks) body 384 w1 = (Inr (), w')" by (rule Save_writes)
  let ?f = "sealed_file salt nonce (kv_seal E gcm nonce plain) (ks_addrs ks)"
  let ?fresh = "\<lparr>ks_path = ks_path ks, ks_pass = pass, ks_signers = [], ks_addrs = []\<rparr> :: ('k, 'p, 'e) keystore_state"
  from disk [OF d] obtain wa wb where "kv_stat E (ks_path ks) w' = (StatOk, wa)" "kv_read E (ks_path ks) wa = (Inr body, wb)" by blast
  then have "NewLocalKeystore C E (ks_path ks) pass w' = map_option (\<lambda>r. (r, wb)) (unlock C E body ?fresh)"
    using assms(1,3) by (simp add: NewLocalKeystore_def ks_load_def keystore_ok_def)
  moreover have "unlock C E body ?fresh = Some (case sealing_key E pass salt of
        Inl e \<Rightarrow> Inl e
      | Inr gcm' \<Rightarrow> (case kv_open E gcm' nonce (kv_seal E gcm nonce plain) of
          None \<Rightarrow> Inl (Errorf ''keystore: decrypt failed (wrong passphrase?)'')
        | Some plain \<Rightarrow> adopt_secrets C E plain (ks_addrs ks) ?fresh))"
  proof (cases "sealing_key E pass salt")
    case (Inl e)
    then have "unlock_key E pass ?f = Inl e"
      by (cases "kv_scrypt E (to_bytes pass) salt 32768 8 1 32")
        (auto simp: sealing_key_def unlock_key_def sealed_file_def wrap_result_def and_then_def split: sum.splits)
    with Inl file_codec [OF f] show ?thesis by (simp add: unlock_def wrap_result_def)
  next
    case (Inr gcm')
    with unlock_sealed [OF file_codec [OF f] g(2), of ?fresh gcm'] show ?thesis by simp
  qed
  ultimately show ?thesis using that [OF g p] by simp
qed

lemma wrong_passphrase:
  assumes "keystore_ok C ks" and "ks_Save C E ks w = (Inr (), w')" and "pass \<noteq> []"
    and keys: "\<And>salt. sealing_key E pass salt \<noteq> sealing_key E (ks_pass ks) salt"
    and authentic: "\<And>k k' nonce plain. k' \<noteq> k \<Longrightarrow> length nonce = 12 \<Longrightarrow> kv_open E k' nonce (kv_seal E k nonce plain) = None"
  shows "\<exists>e w2. NewLocalKeystore C E (ks_path ks) pass w' = Some (Inl e, w2)"
proof -
  from reopened_file [OF assms(1,2,3)] obtain salt gcm nonce plain w2 where g: "sealing_key E (ks_pass ks) salt = Inr gcm"
    "length nonce = 12" and r: "NewLocalKeystore C E (ks_path ks) pass w' = Some ((case sealing_key E pass salt of
        Inl e \<Rightarrow> Inl e
      | Inr gcm' \<Rightarrow> (case kv_open E gcm' nonce (kv_seal E gcm nonce plain) of
          None \<Rightarrow> Inl (Errorf ''keystore: decrypt failed (wrong passphrase?)'')
        | Some plain \<Rightarrow> adopt_secrets C E plain (ks_addrs ks)
            \<lparr>ks_path = ks_path ks, ks_pass = pass, ks_signers = [], ks_addrs = []\<rparr>)), w2)" by metis
  show ?thesis
  proof (cases "sealing_key E pass salt")
    case (Inl e)
    with r show ?thesis by simp
  next
    case (Inr gcm')
    with keys [of salt] g have "kv_open E gcm' nonce (kv_seal E gcm nonce plain) = None" by (intro authentic) auto
    with Inr r show ?thesis by simp
  qed
qed

end

text \<open>A key is stored unless it is a Bittensor key without a seed, as a key derived from a URI may be.\<close>

definition storable :: "('k, 'p, 'e) crypto_lib \<Rightarrow> ('k, 'p, 'e) signer \<Rightarrow> bool" where
  "storable C s \<longleftrightarrow> (\<forall>k. s = BittensorKey k \<longrightarrow> bt_SecretKey C k \<noteq> [])"

definition kept :: "('k, 'p, 'e) crypto_lib \<Rightarrow> ('k, 'p, 'e) signer_map \<Rightarrow> chain_id \<Rightarrow> ('k, 'p, 'e) signer option" where
  "kept C m c = (case map_of m c of None \<Rightarrow> None | Some s \<Rightarrow> if storable C s then Some s else None)"

lemma load_key_back:
  assumes "(raw = None \<and> r = None) \<or> (\<exists>bs s. raw = Some bs \<and> mk bs = Inr s \<and> r = Some s)"
  shows "load_key what c mk raw m = Inr (case r of None \<Rightarrow> m | Some s \<Rightarrow> AList.update c s m)"
  using assms by (auto simp: load_key_def wrap_result_def)

lemma map_of_case_update:
  "map_of (case r of None \<Rightarrow> m | Some s \<Rightarrow> AList.update c s m) = (case r of None \<Rightarrow> map_of m | Some s \<Rightarrow> (map_of m)(c \<mapsto> s))"
  by (cases r) (simp_all add: update_conv')

lemma made_key_cases:
  assumes "keys_ok C m" and "map_of m c = Some s"
  obtains (sol) k where "s = SolanaKey k" "c = ChainSolana" "length (sk_priv k) = 64" "sk_addr k = cl_base58 C (drop 32 (sk_priv k))"
  | (hl) h where "s = HyperliquidKey h" "c = ChainHyperliquid" "hk_addr h = deriveEVMAddress C (hk_priv h)"
  | (bt) b where "s = BittensorKey b" "c = ChainBittensor" "b = bittensor_key C (bk_pair b)"
  using keys_ok_map_of [OF assms] by (cases s) auto

context sealed_disk
begin

lemma load_blob_back:
  assumes "keys_ok C m" and "\<And>k. map_of m ChainBittensor = Some (BittensorKey k) \<Longrightarrow>
      bt_SecretKey C k = [] \<or> cl_sr_seed C (bt_SecretKey C k) = Inr (bk_pair k)"
  obtains m' where "load_keys C (omit_empty (ks_blob C \<lparr>ks_path = p, ks_pass = q, ks_signers = m, ks_addrs = as\<rparr>)) [] = Inr m'"
    "map_of m' = kept C m"
proof -
  let ?b = "omit_empty (ks_blob C \<lparr>ks_path = p, ks_pass = q, ks_signers = m, ks_addrs = as\<rparr>)"
  have 1: "(sb_solana ?b = None \<and> kept C m ChainSolana = None) \<or> (\<exists>bs s. sb_solana ?b = Some bs
      \<and> map_sum id SolanaKey (NewSolanaSignerFromPrivate C bs) = Inr s \<and> kept C m ChainSolana = Some s)"
  proof (cases "map_of m ChainSolana")
    case (Some s)
    with assms(1) show ?thesis
      by (cases rule: made_key_cases [OF assms(1) Some])
        (auto simp: omit_empty_def ks_blob_def kept_def storable_def NewSolanaSignerFromPrivate_def)
  qed (simp add: omit_empty_def ks_blob_def kept_def)
  have 2: "(sb_hyperliquid ?b = None \<and> kept C m ChainHyperliquid = None) \<or> (\<exists>bs s. sb_hyperliquid ?b = Some bs
      \<and> map_sum id HyperliquidKey (NewHyperliquidSignerFromPrivate C bs) = Inr s \<and> kept C m ChainHyperliquid = Some s)"
  proof (cases "map_of m ChainHyperliquid")
    case (Some s)
    then obtain h where s: "s = HyperliquidKey h" and a: "hk_addr h = deriveEVMAddress C (hk_priv h)"
      by (cases rule: made_key_cases [OF assms(1) Some]) auto
    have "cl_serialize C (hk_priv h) \<noteq> []" using serialize_32 [of "hk_priv h"] by auto
    then show ?thesis
      using Some s a by (simp add: omit_empty_def ks_blob_def kept_def storable_def NewHyperliquidSignerFromPrivate_def
          serialize_32 serialize_secp flip: a)
  qed (simp add: omit_empty_def ks_blob_def kept_def)
  have 3: "(sb_bittensor ?b = None \<and> kept C m ChainBittensor = None) \<or> (\<exists>bs s. sb_bittensor ?b = Some bs
      \<and> map_sum id BittensorKey (NewBittensorSignerFromPrivate C bs) = Inr s \<and> kept C m ChainBittensor = Some s)"
  proof (cases "map_of m ChainBittensor")
    case (Some s)
    then obtain b where s: "s = BittensorKey b" and a: "b = bittensor_key C (bk_pair b)"
      by (cases rule: made_key_cases [OF assms(1) Some]) auto
    have "bt_SecretKey C b = [] \<or> cl_sr_seed C (bt_SecretKey C b) = Inr (bk_pair b)" using assms(2) Some s by simp
    then show ?thesis
      using Some s by (auto simp: omit_empty_def ks_blob_def kept_def storable_def NewBittensorSignerFromPrivate_def wrap_result_def
          simp flip: a)
  qed (simp add: omit_empty_def ks_blob_def kept_def)
  let ?put = "\<lambda>c m1. case kept C m c of None \<Rightarrow> m1 | Some s \<Rightarrow> AList.update c s m1"
  let ?m = "?put ChainBittensor (?put ChainHyperliquid (?put ChainSolana []))"
  have "load_keys C ?b [] = Inr ?m"
    unfolding load_keys_def load_key_back [OF 1] and_then_simps load_key_back [OF 2] load_key_back [OF 3] ..
  moreover have "kept C m c = None" if "c \<noteq> ChainSolana" "c \<noteq> ChainHyperliquid" "c \<noteq> ChainBittensor" for c
    using that by (auto simp: kept_def split: option.split elim: made_key_cases [OF assms(1)])
  then have "map_of ?m c = kept C m c" for c
    by (cases "c = ChainSolana"; cases "c = ChainHyperliquid"; cases "c = ChainBittensor")
      (simp_all add: map_of_case_update split: option.split)
  ultimately show ?thesis using that [of ?m] by blast
qed

lemma reopened:
  assumes "keystore_ok C ks" and "ks_Save C E ks w = (Inr (), w')"
    and "\<And>k. map_of (ks_signers ks) ChainBittensor = Some (BittensorKey k) \<Longrightarrow>
      bt_SecretKey C k = [] \<or> cl_sr_seed C (bt_SecretKey C k) = Inr (bk_pair k)"
  shows "\<exists>m w2. NewLocalKeystore C E (ks_path ks) (ks_pass ks) w' = Some (Inr (ks\<lparr>ks_signers := m\<rparr>), w2)
    \<and> map_of m = kept C (ks_signers ks)"
proof -
  have pass: "ks_pass ks \<noteq> []" and m: "keys_ok C (ks_signers ks)" using assms(1) by (simp_all add: keystore_ok_def)
  let ?fresh = "\<lparr>ks_path = ks_path ks, ks_pass = ks_pass ks, ks_signers = [], ks_addrs = []\<rparr> :: ('k, 'p, 'e) keystore_state"
  from reopened_file [OF assms(1,2) pass] obtain salt gcm nonce plain w2 where g: "sealing_key E (ks_pass ks) salt = Inr gcm"
    "length nonce = 12" "kv_json_blob E (ks_blob C ks) = Inr plain"
    and r: "NewLocalKeystore C E (ks_path ks) (ks_pass ks) w' = Some ((case sealing_key E (ks_pass ks) salt of
        Inl e \<Rightarrow> Inl e
      | Inr gcm' \<Rightarrow> (case kv_open E gcm' nonce (kv_seal E gcm nonce plain) of
          None \<Rightarrow> Inl (Errorf ''keystore: decrypt failed (wrong passphrase?)'')
        | Some plain \<Rightarrow> adopt_secrets C E plain (ks_addrs ks) ?fresh)), w2)" by metis
  have "ks = \<lparr>ks_path = ks_path ks, ks_pass = ks_pass ks, ks_signers = ks_signers ks, ks_addrs = ks_addrs ks\<rparr>" by simp
  with load_blob_back [OF m assms(3)] obtain m' where m': "load_keys C (omit_empty (ks_blob C ks)) [] = Inr m'" "map_of m' = kept C (ks_signers ks)"
    by metis
  have ok: "keys_ok C m'" by (rule load_keys_ok [OF public_32 m'(1) keys_ok_Nil])
  have "addr_of (ks_addrs ks) c = Some (signer_address s)" if "(c, s) \<in> set m'" for c s
  proof -
    have "map_of m' c = Some s" using that ok by (simp add: keys_ok_def)
    then have "map_of (ks_signers ks) c = Some s" using m'(2) by (auto simp: kept_def split: option.splits if_splits)
    then show ?thesis by (rule keystore_ok_addr [OF assms(1)])
  qed
  then have "refresh_addrs m' (ks_addrs ks) = ks_addrs ks" by (rule refresh_same)
  then have "adopt_secrets C E plain (ks_addrs ks) ?fresh = Inr (ks\<lparr>ks_signers := m'\<rparr>)"
    using m'(1) blob_codec [OF g(3)] by (simp add: adopt_secrets_def wrap_result_def)
  with r g m'(2) show ?thesis by (auto simp: open_seal intro!: exI [of _ m'])
qed

end

section \<open>Properties of the keystore\<close>

text \<open>
  C29: A saved keystore reopens to the same keys. Whatever keys a keystore was given since it was opened, once \<open>Save\<close> has
  succeeded, opening the file with the same passphrase succeeds and answers, for every chain, exactly the signer the saved keystore had, with the
  same address list; only a Bittensor key that has no seed is not in the file, although its address is still listed.
\<close>

theorem saved_keystore_reopens:
  assumes "sealed_disk C E" and "ks_reach C E ks" and "ks_Save C E ks w = (Inr (), w')"
    and "\<forall>k. ks_Signer ks ChainBittensor = Inr (BittensorKey k) \<longrightarrow>
      bt_SecretKey C k = [] \<or> cl_sr_seed C (bt_SecretKey C k) = Inr (bk_pair k)"
  shows "\<exists>ks' w2. NewLocalKeystore C E (ks_path ks) (ks_pass ks) w' = Some (Inr ks', w2) \<and> ks_addrs ks' = ks_addrs ks
    \<and> (\<forall>c s. ks_Signer ks' c = Inr s \<longleftrightarrow> ks_Signer ks c = Inr s \<and> storable C s)"
proof -
  have ok: "keystore_ok C ks" using ks_reach_ok [OF assms(2) sealed_disk.public_32 [OF assms(1)]] .
  have "map_of (ks_signers ks) ChainBittensor = Some (BittensorKey k) \<Longrightarrow>
      bt_SecretKey C k = [] \<or> cl_sr_seed C (bt_SecretKey C k) = Inr (bk_pair k)" for k
    using assms(4) by (simp add: ks_Signer_def)
  from sealed_disk.reopened [OF assms(1) ok assms(3) this] obtain m w2
    where "NewLocalKeystore C E (ks_path ks) (ks_pass ks) w' = Some (Inr (ks\<lparr>ks_signers := m\<rparr>), w2)"
      and "map_of m = kept C (ks_signers ks)" by blast
  then show ?thesis by (auto simp: ks_Signer_def kept_def split: option.splits if_splits)
qed


text \<open>
  A Hyperliquid or EVM signature is the library's compact signature in Ethereum's order: R, S and then the recovery byte less 27, for
  a 32-byte hash; everything else is refused without signing. The EVM signer of any EVM chain signs exactly as the Hyperliquid signer does and has its address.
\<close>

theorem evm_signature_layout:
  assumes "\<forall>k p. length (cl_compact C k p) = 65"
  shows "(length hash = 32 \<longrightarrow> (\<exists>v r sg. cl_compact C (hk_priv h) hash = v # r @ sg \<and> length r = 32 \<and> length sg = 32
        \<and> signer_Sign C (HyperliquidKey h) hash = Some (Inr (r @ sg @ [v - 27]))))
    \<and> (length hash \<noteq> 32 \<longrightarrow> (\<exists>e. signer_Sign C (HyperliquidKey h) hash = Some (Inl e)))
    \<and> (evm_signer_of C (HyperliquidKey h) chain = Inr s \<longrightarrow> IsEVM chain \<and> signer_chain s = chain
        \<and> signer_address s = signer_address (HyperliquidKey h :: ('k, 'p, 'e) signer)
        \<and> signer_Sign C s hash = signer_Sign C (HyperliquidKey h) hash)"
proof -
  let ?c = "cl_compact C (hk_priv h) hash"
  have len: "length ?c = 65" using assms by simp
  then obtain v rest where c: "?c = v # rest" "length rest = 64" by (cases ?c) auto
  have "\<exists>v r sg. ?c = v # r @ sg \<and> length r = 32 \<and> length sg = 32 \<and> signer_Sign C (HyperliquidKey h) hash = Some (Inr (r @ sg @ [v - 27]))"
    if "length hash = 32"
  proof (intro exI conjI)
    show "?c = v # take 32 rest @ drop 32 rest" "length (take 32 rest) = 32" "length (drop 32 rest) = 32" using c by simp_all
    show "signer_Sign C (HyperliquidKey h) hash = Some (Inr (take 32 rest @ drop 32 rest @ [v - 27]))"
      using that c by (simp add: hl_Sign_def)
  qed
  moreover have "\<exists>e. signer_Sign C (HyperliquidKey h) hash = Some (Inl e)" if "length hash \<noteq> 32"
    using that by (simp add: hl_Sign_def)
  ultimately show ?thesis
    by (auto simp: evm_signer_of_def NewEVMSigner_def dest!: map_sum_InrD split: if_splits)
qed

section \<open>What the builder needs of a keystore\<close>

locale key_source =
  fixes inv :: "'q \<Rightarrow> bool" and lookup :: "'q \<Rightarrow> chain_id \<Rightarrow> go_error + 's" and listed :: "'q \<Rightarrow> chain_id list"
    and chain_of :: "'s \<Rightarrow> chain_id"
  assumes lookup_chain: "inv q \<Longrightarrow> lookup q c = Inr s \<Longrightarrow> chain_of s = c"
    and lookup_listed: "inv q \<Longrightarrow> (\<exists>s. lookup q c = Inr s) \<longleftrightarrow> c \<in> set (listed q)"
begin

text \<open>Each builder passes the venue a signer of the venue's own chain, and refuses exactly when the chain is not listed.\<close>

lemma solana_venue:
  assumes "inv q" and "solana_IsEnabled cfg"
  shows "BuildSolanaSwapVenue V cfg (Some (lookup q)) = Inl ErrNoSolanaSigner
    \<or> (\<exists>jc s. BuildSolanaSwapVenue V cfg (Some (lookup q)) = vc_jupiter V jc s \<and> chain_of s = ChainSolana \<and> ChainSolana \<in> set (listed q))"
  using assms lookup_chain [of q ChainSolana] lookup_listed [of q ChainSolana]
  by (auto simp: BuildSolanaSwapVenue_def split: sum.split)

lemma bittensor_venue:
  assumes "inv q" and "bittensor_IsEnabled cfg"
  shows "BuildBittensorSwapVenue V cfg (Some (lookup q)) = Inl ErrNoBittensorSigner
    \<or> (\<exists>s. BuildBittensorSwapVenue V cfg (Some (lookup q)) = vc_bittensor V (bs_rpc_url cfg) (bs_allow_submit cfg) s
        \<and> chain_of s = ChainBittensor \<and> ChainBittensor \<in> set (listed q))"
  using assms lookup_chain [of q ChainBittensor] lookup_listed [of q ChainBittensor]
  by (auto simp: BuildBittensorSwapVenue_def split: sum.split)

lemma evm_signer:
  assumes "inv q"
  shows "EVMSignerFromKeystore V (Some (lookup q)) chain = Inl ErrNoEVMSigner
    \<or> (\<exists>s. EVMSignerFromKeystore V (Some (lookup q)) chain = vc_evm_signer V s chain \<and> chain_of s = ChainHyperliquid
        \<and> lookup q ChainHyperliquid = Inr s)"
  using assms lookup_chain [of q ChainHyperliquid] by (auto simp: EVMSignerFromKeystore_def split: sum.split)

lemma missing_key: "inv q \<Longrightarrow> c \<notin> set (listed q) \<Longrightarrow> \<exists>e. lookup q c = Inl e"
  using lookup_listed [of q c] by (cases "lookup q c") auto

end

lemma addr_of_listed: "addr_of as c \<noteq> None \<longleftrightarrow> c \<in> set (map ae_chain as)"
  by (induction as) auto

interpretation local_keys: key_source "keystore_ok C" ks_Signer ks_Chains signer_chain for C
proof
  fix q c s
  assume "keystore_ok C q" "ks_Signer q c = Inr s"
  then show "signer_chain s = c" by (auto simp: ks_Signer_def keystore_ok_def keys_ok_def split: option.splits)
next
  fix q :: "('a, 'b, 'c) keystore_state" and c
  assume ok: "keystore_ok C q"
  have "c \<in> set (map ae_chain (ks_addrs q))" if "map_of (ks_signers q) c \<noteq> None"
  proof -
    from that obtain s where "map_of (ks_signers q) c = Some s" by auto
    then have "addr_of (ks_addrs q) c \<noteq> None" using keystore_ok_addr [OF ok] by simp
    then show ?thesis using addr_of_listed by blast
  qed
  then show "(\<exists>s. ks_Signer q c = Inr s) \<longleftrightarrow> c \<in> set (ks_Chains q)"
    by (auto simp: ks_Signer_def ks_Chains_def split: option.splits)
qed

definition noop_ok :: "('k, 'p, 'e) signer_map \<Rightarrow> bool" where
  "noop_ok m \<longleftrightarrow> (\<forall>c s. map_of m c = Some s \<longrightarrow> signer_chain s = c)"

interpretation noop_keys: key_source noop_ok noop_Signer noop_Chains signer_chain
proof
  fix q :: "('a, 'b, 'c) signer_map" and c
  show "(\<exists>s. noop_Signer q c = Inr s) \<longleftrightarrow> c \<in> set (noop_Chains q)"
    using map_of_eq_None_iff [of q c] by (auto simp: noop_Signer_def noop_Chains_def split: option.split)
qed (auto simp: noop_Signer_def noop_ok_def split: option.splits)

lemma noop_NewKeystore_ok: "noop_ok (noop_NewKeystore (C :: ('a, 'b, 'c) crypto_lib) cs)"
proof -
  have step: "noop_ok (AList.update c (NoopKey (noop_NewSigner C c)) m)" if "noop_ok m" for c and m :: "('a, 'b, 'c) signer_map"
    using that by (simp add: noop_ok_def update_conv' noop_NewSigner_def)
  have "noop_ok (fold (\<lambda>c m. AList.update c (NoopKey (noop_NewSigner C c)) m) cs m)" if "noop_ok m" for m :: "('a, 'b, 'c) signer_map"
    using that by (induction cs arbitrary: m) (simp_all only: fold.simps o_apply id_apply step)
  moreover have "noop_ok []" by (simp add: noop_ok_def)
  ultimately show ?thesis by (simp only: noop_NewKeystore_def)
qed


section \<open>A concrete disk\<close>

text \<open>A file system of strings. The sample cipher writes the key before the text; the codecs know the one file and the one body of the sample.\<close>

definition sample_crypto :: "(256 word, bytes, unit) crypto_lib" where
  "sample_crypto = \<lparr>cl_ed_public = (\<lambda>seed. seed), cl_ed_sign = (\<lambda>k m. take 64 (k @ m)), cl_base58 = from_bytes,
     cl_base58_decode = (\<lambda>s. Inr (to_bytes s)), cl_secp = (\<lambda>bs. word_of_nat (le_value bs)), cl_serialize = (\<lambda>k. le_bytes 32 (unat k)),
     cl_uncompressed = (\<lambda>k. 4 # replicate 64 1), cl_compact = (\<lambda>k m. 27 # replicate 32 2 @ replicate 32 3), cl_keccak = take 32,
     cl_ecdsa = (\<lambda>_. Inr ()), cl_sr_seed = Inr, cl_sr_phrase = (\<lambda>_ _. Inl (Errorf ''phrase'')), cl_sr_uri = (\<lambda>_. Inl (Errorf ''uri'')),
     cl_sr_secret = (\<lambda>p. p), cl_sr_public = (\<lambda>p. p), cl_sr_sign = (\<lambda>_ m. Inr m), cl_ss58 = (\<lambda>p _. from_bytes p),
     cl_ss58_encode = (\<lambda>p _. from_bytes p), cl_sha256 = take 32\<rparr>"

definition sample_sol_key :: sol_key where
  "sample_sol_key = \<lparr>sk_priv = replicate 64 9, sk_addr = from_bytes (replicate 32 9)\<rparr>"

definition sample_empty_keystore :: "(256 word, bytes, unit) keystore_state" where
  "sample_empty_keystore = \<lparr>ks_path = ''/k'', ks_pass = ''p'', ks_signers = [], ks_addrs = []\<rparr>"

definition sample_keystore :: "(256 word, bytes, unit) keystore_state" where
  "sample_keystore = SetSolana sample_sol_key sample_empty_keystore"

definition sample_seal :: "bytes \<Rightarrow> bytes \<Rightarrow> string \<Rightarrow> bytes" where
  "sample_seal key nonce plain = to_bytes (hex_encode key @ '':'' @ plain)"

definition sample_open :: "bytes \<Rightarrow> bytes \<Rightarrow> bytes \<Rightarrow> string option" where
  "sample_open key nonce ct =
     (let s = from_bytes ct; k = takeWhile (\<lambda>c. c \<noteq> CHR '':'') s
      in if k = hex_encode key then Some (drop (Suc (length k)) s) else None)"

definition sample_dk :: "bytes \<Rightarrow> bytes" where
  "sample_dk pass = take 32 (pass @ replicate 32 0)"

lemma sample_dk_length: "length (sample_dk pass) = 32"
  by (simp add: sample_dk_def)

definition sample_file :: keystore_file where
  "sample_file = sealed_file (replicate 16 7) (replicate 12 7) (sample_seal (sample_dk (to_bytes ''p'')) (replicate 12 7) ''blob'')
     (ks_addrs sample_keystore)"

definition sample_ks_env :: "(string \<Rightarrow> string option) ks_env" where
  "sample_ks_env = \<lparr>kv_stat = (\<lambda>p w. (case w p of None \<Rightarrow> StatNotExist | Some _ \<Rightarrow> StatOk, w)),
     kv_read = (\<lambda>p w. (case w p of None \<Rightarrow> Inl (Errorf ''no file'') | Some t \<Rightarrow> Inr t, w)), kv_mkdir = (\<lambda>_ _ w. (Inr (), w)),
     kv_write = (\<lambda>p t _ w. (Inr (), w(p \<mapsto> t))), kv_rand = (\<lambda>n w. (Inr (replicate n 7), w)), kv_dir = (\<lambda>_. ''/''),
     kv_scrypt = (\<lambda>pass _ _ _ _ _. Inr (sample_dk pass)), kv_seal = sample_seal, kv_open = sample_open,
     kv_json_file = (\<lambda>f. if f = sample_file then Inr ''file'' else Inl (Errorf ''other'')), kv_parse_file = (\<lambda>_. Inr sample_file),
     kv_json_blob = (\<lambda>b. if b = ks_blob sample_crypto sample_keystore then Inr ''blob'' else Inl (Errorf ''other'')),
     kv_parse_blob = (\<lambda>_. Inr (omit_empty (ks_blob sample_crypto sample_keystore)))\<rparr>"

definition sample_saved :: "string \<Rightarrow> string option" where
  "sample_saved = [''/k'' \<mapsto> ''file'']"

lemma sample_crypto_simps [simp]:
  "cl_ed_public sample_crypto s = s" "cl_serialize sample_crypto k = le_bytes 32 (unat k)"
  "cl_secp sample_crypto bs = word_of_nat (le_value bs)" "cl_base58 sample_crypto = from_bytes"
  by (simp_all add: sample_crypto_def)

lemma byte_nibbles: "unat b div 16 < 16 \<and> unat b mod 16 < 16" for b :: byte
  using byte_less [of b] by linarith

lemma hex_no_colon: "CHR '':'' \<notin> set (hex_encode bs)"
proof -
  have "hex_char n \<noteq> CHR '':''" if "n < 16" for n
  proof
    assume "hex_char n = CHR '':''"
    then have "hex_val (CHR '':'') = Some n" using hex_val_char [OF that] by simp
    moreover have "hex_val (CHR '':'') = None" by code_simp
    ultimately show False by simp
  qed
  then have "CHR '':'' \<noteq> hex_char (unat b div 16)" "CHR '':'' \<noteq> hex_char (unat b mod 16)" for b :: byte
    using byte_nibbles [of b] by metis+
  then show ?thesis by (auto simp: hex_encode_def hex_byte_def)
qed

lemma takeWhile_hex [simp]: "takeWhile (\<lambda>c. c \<noteq> CHR '':'') (hex_encode bs @ CHR '':'' # s) = hex_encode bs"
  using hex_no_colon [of bs] by (simp add: takeWhile_append)

lemma sample_cipher: "sample_open key' nonce (sample_seal key nonce plain) = (if key' = key then Some plain else None)"
  by (auto simp: sample_open_def sample_seal_def from_to_bytes hex_encode_inject Let_def)

lemma sample_sealed_disk: "sealed_disk sample_crypto sample_ks_env"
proof
  show "ed_public_32 sample_crypto" by (simp add: ed_public_32_def)
  show "length (cl_serialize sample_crypto k) = 32" for k by simp
  show "cl_secp sample_crypto (cl_serialize sample_crypto k) = k" for k
    by (simp add: le_value_bytes_small unsigned_less [of k, where ?'a = nat, simplified])
qed (auto simp: sample_ks_env_def sample_cipher split: if_splits)

interpretation sample_disk: sealed_disk sample_crypto sample_ks_env
  by (rule sample_sealed_disk)

lemma sample_reach: "ks_reach sample_crypto sample_ks_env sample_keystore"
proof -
  have "NewLocalKeystore sample_crypto sample_ks_env ''/k'' ''p'' (\<lambda>_. None) = Some (Inr sample_empty_keystore, \<lambda>_. None)"
    by (simp add: NewLocalKeystore_def sample_ks_env_def sample_empty_keystore_def)
  then have 1: "ks_reach sample_crypto sample_ks_env sample_empty_keystore" by (rule ks_reach.opened)
  have "NewSolanaSignerFromPrivate sample_crypto (replicate 64 9) = Inr sample_sol_key"
    by (simp add: NewSolanaSignerFromPrivate_def sample_sol_key_def)
  from ks_reach.solana [OF 1 this] show ?thesis by (simp add: sample_keystore_def)
qed

lemma sample_save: "ks_Save sample_crypto sample_ks_env sample_keystore (\<lambda>_. None) = (Inr (), sample_saved)"
proof -
  have id: "ks_path sample_keystore = ''/k''" "ks_pass sample_keystore = ''p''"
    by (simp_all add: sample_keystore_def sample_empty_keystore_def SetSolana_def install_def)
  show ?thesis
    by (simp add: sample_dk_length ks_Save_def sample_ks_env_def wrap_result_def wrap_error_def sealing_key_def newGCM_def id write_keystore_def
        sample_saved_def flip: sample_file_def)
qed

theorem saved_keystore_reopens_witness:
  "\<exists>ks' w2. NewLocalKeystore sample_crypto sample_ks_env ''/k'' ''p'' sample_saved = Some (Inr ks', w2)
     \<and> ks_Signer ks' ChainSolana = Inr (SolanaKey sample_sol_key)"
proof -
  have k: "ks_path sample_keystore = ''/k''" "ks_pass sample_keystore = ''p''" "ks_Signer sample_keystore ChainSolana = Inr (SolanaKey sample_sol_key)"
    "ks_Signer sample_keystore ChainBittensor \<noteq> Inr s" for s
    by (simp_all add: sample_keystore_def sample_empty_keystore_def SetSolana_def install_def ks_Signer_def)
  from saved_keystore_reopens [OF sample_sealed_disk sample_reach sample_save] k show ?thesis by (auto simp: storable_def)
qed


theorem evm_signature_layout_witness:
  "\<exists>r sg v. signer_Sign sample_crypto (HyperliquidKey \<lparr>hk_priv = 5, hk_addr = ''0x''\<rparr>) (replicate 32 1) = Some (Inr (r @ sg @ [v]))
     \<and> length r = 32 \<and> length sg = 32"
proof -
  have "\<forall>k p. length (cl_compact sample_crypto k p) = 65" by (simp add: sample_crypto_def)
  from conjunct1 [OF evm_signature_layout [OF this, of "replicate 32 1" "\<lparr>hk_priv = 5, hk_addr = ''0x''\<rparr>"]]
  show ?thesis unfolding length_replicate by metis
qed

definition sample_ctors :: "(noop_world, (256 word, bytes, unit) signer) venue_constructors" where
  "sample_ctors = \<lparr>vc_hyperliquid = (\<lambda>_ _ _. Inl (Errorf ''none'')), vc_jupiter = (\<lambda>_ _. Inr noop_swap_venue),
     vc_oneinch = (\<lambda>_ _. Inl (Errorf ''none'')), vc_bittensor = (\<lambda>_ _ _. Inl (Errorf ''none'')),
     vc_evm_signer = evm_signer_of sample_crypto, vc_address = signer_address\<rparr>"

definition sample_solana_spot :: solana_spot where
  "sample_solana_spot = \<lparr>so_rpc_url = ''https://rpc'', so_jupiter_base_url = [], so_jupiter_api_key = [], so_submit_mode = [],
     so_jito_bundle_url = [], so_priority_fee = 0, so_confirm_timeout_secs = 0\<rparr>"


end
