(* ===== verification/Api.thy ===== *)
theory Api
  imports Config Store
begin

text \<open>
  The HTTP API of \<open>internal/api\<close>: the middleware chain with the bearer-token check, the routes, and the health, agents and
  decisions handlers over the agent store. The Fiber framework's router, the database's answers and the clock are parameters; a request is
  answered with a status and a body, and only its method, path, \<open>Authorization\<close> header and \<open>limit\<close> matter.
\<close>

section \<open>Requests and responses\<close>

record api_request =
  rq_method :: string
  rq_path :: string
  rq_auth :: string
  rq_limit :: string

record check_result =
  ck_status :: string
  ck_detail :: string

record health_response =
  hr_status :: string
  hr_service :: string
  hr_time :: time
  hr_checks :: "(string \<times> check_result) list"
  hr_version :: string

record agent_lite =
  al_id :: string
  al_name :: string
  al_strategy :: string
  al_perp_venue :: string
  al_spot_venue :: string
  al_mode :: string
  al_status :: string
  al_alloc_usd :: string
  al_network :: string
  al_tick_secs :: int
  al_updated_at :: time

record decision_lite =
  dl_id :: string
  dl_agent_id :: string
  dl_ts :: time
  dl_confidence :: float64
  dl_notes :: string
  dl_num_orders :: nat
  dl_num_swaps :: nat
  dl_llm_used :: bool

datatype api_body = BodyError string | BodyHealth health_response | BodyAgents "agent_lite list" | BodyDecisions "decision_lite list"

type_synonym api_response = "nat \<times> api_body"

datatype api_route = RouteHealth | RouteAgents | RouteDecisions string

text \<open>
  \<open>ae_route\<close> is the framework's match of a method and a path against the registered routes; \<open>ae_query\<close> says whether the next query of the
  store fails.
\<close>

record 'w api_env =
  ae_route :: "string \<Rightarrow> string \<Rightarrow> api_route option"
  ae_ping :: "'w \<Rightarrow> go_error option \<times> 'w"
  ae_query :: "'w \<Rightarrow> go_error option \<times> 'w"
  ae_now :: "'w \<Rightarrow> time \<times> 'w"
  ae_fixed :: "nat \<Rightarrow> decimal \<Rightarrow> string"
  ae_sql :: sqltypes

record api_server =
  as_cfg :: config
  as_has_db :: bool

type_synonym 'w api_handler = "api_request \<Rightarrow> 'w \<Rightarrow> api_response \<times> 'w"

section \<open>Middleware (middleware.go, server.go)\<close>

definition publicRoutes :: "string list" where
  "publicRoutes = [''/v1/health'']"

definition authMiddleware :: "string \<Rightarrow> 'w api_handler \<Rightarrow> 'w api_handler" where
  "authMiddleware token next rq w =
     (if rq_path rq \<in> set publicRoutes then next rq w
      else if token = [] then ((401, BodyError ''auth token not configured''), w)
      else if rq_auth rq \<noteq> ''Bearer '' @ token then ((401, BodyError ''invalid auth token''), w)
      else next rq w)"

text \<open>Recovery, request ids and logging pass every request on; only the check can answer in place of the handler.\<close>

datatype middleware = MwRecover | MwRequestID | MwLog | MwAuth string

fun apply_middleware :: "middleware \<Rightarrow> 'w api_handler \<Rightarrow> 'w api_handler" where
  "apply_middleware (MwAuth token) next = authMiddleware token next"
| "apply_middleware MwRecover next = next"
| "apply_middleware MwRequestID next = next"
| "apply_middleware MwLog next = next"

definition registerMiddleware :: "config \<Rightarrow> middleware list" where
  "registerMiddleware cfg =
     [MwRecover, MwRequestID, MwLog] @ (if \<not> IsLoopback cfg then [MwAuth (sc_auth_token (cfg_server cfg))] else [])"

section \<open>Handlers (health.go, agents.go)\<close>

definition buildVersion :: string where
  "buildVersion = ''dev''"

definition healthHandler :: "'w api_env \<Rightarrow> api_server \<Rightarrow> 'w \<Rightarrow> api_response \<times> 'w" where
  "healthHandler E s w =
     (let (status, check, w1) =
            (if \<not> as_has_db s then (''degraded'', \<lparr>ck_status = ''unconfigured'', ck_detail = []\<rparr>, w)
             else case ae_ping E w of
                 (Some e, w1) \<Rightarrow> (''degraded'', \<lparr>ck_status = ''error'', ck_detail = error_text e\<rparr>, w1)
               | (None, w1) \<Rightarrow> (''ok'', \<lparr>ck_status = ''ok'', ck_detail = []\<rparr>, w1));
          (now, w2) = ae_now E w1
      in ((200, BodyHealth \<lparr>hr_status = status, hr_service = ''permafrostd'', hr_time = now,
             hr_checks = [(''database'', check)], hr_version = buildVersion\<rparr>), w2))"

definition store_unavailable :: api_response where
  "store_unavailable = (503, BodyError ''agent store unavailable (database not configured?)'')"

fun status_str :: "agent_status \<Rightarrow> string" where
  "status_str StatusStopped = ''stopped''"
| "status_str StatusRunning = ''running''"
| "status_str StatusHalted = ''halted''"
| "status_str (StatusOther s) = s"

definition agent_lite_of :: "'w api_env \<Rightarrow> agent \<Rightarrow> agent_lite" where
  "agent_lite_of E a =
     \<lparr>al_id = ag_id a, al_name = ag_name a, al_strategy = ag_strategy a, al_perp_venue = ag_perp_venue a,
      al_spot_venue = ag_spot_venue a, al_mode = mode_str (ag_mode a), al_status = status_str (ag_status a),
      al_alloc_usd = ae_fixed E 2 (ag_allocation_usdc a), al_network = network_str (ag_network a),
      al_tick_secs = ag_tick_secs a, al_updated_at = ag_updated_at a\<rparr>"

definition listAgentsHandler :: "'w api_env \<Rightarrow> api_server \<Rightarrow> agent_db \<Rightarrow> 'w \<Rightarrow> api_response \<times> 'w" where
  "listAgentsHandler E s db w =
     (if \<not> as_has_db s then (store_unavailable, w)
      else let (fail, w1) = ae_query E w
           in case store_List fail db of
               Inl e \<Rightarrow> ((500, BodyError (''list agents: '' @ error_text e)), w1)
             | Inr agents \<Rightarrow> ((200, BodyAgents (map (agent_lite_of E) agents)), w1))"

text \<open>\<open>strconv.Atoi\<close> for 64-bit integers, and \<open>strings.Contains\<close>.\<close>

definition Atoi :: "string \<Rightarrow> int option" where
  "Atoi s =
     (let (neg, d) = (case s of [] \<Rightarrow> (False, []) | c # cs \<Rightarrow>
            (if c = CHR ''-'' then (True, cs) else if c = CHR ''+'' then (False, cs) else (False, s)));
          v = int (digits_val d)
      in if d = [] \<or> \<not> list_all is_digit d then None
         else if neg then (if v \<le> 2 ^ 63 then Some (- v) else None)
         else (if v < 2 ^ 63 then Some v else None))"

definition str_contains :: "string \<Rightarrow> string \<Rightarrow> bool" where
  "str_contains s sub \<longleftrightarrow> list_ex (\<lambda>n. has_prefix (drop n s) sub) [0 ..< Suc (length s)]"

definition page_limit :: "string \<Rightarrow> int" where
  "page_limit v =
     (let limit = (if v = [] then 20 else case Atoi v of None \<Rightarrow> 20 | Some n \<Rightarrow> n);
          limit1 = (if limit < 1 then 1 else limit)
      in if limit1 > 200 then 200 else limit1)"

definition decision_lite_of :: "string \<Rightarrow> decision_summary \<Rightarrow> decision_lite" where
  "decision_lite_of i r =
     \<lparr>dl_id = ds_decision_id r, dl_agent_id = i, dl_ts = ds_time r, dl_confidence = 0, dl_notes = ds_rationale r,
      dl_num_orders = ds_num_orders r, dl_num_swaps = ds_num_swaps r, dl_llm_used = (ds_provider r \<noteq> [])\<rparr>"

definition listDecisionsHandler ::
  "'w api_env \<Rightarrow> api_server \<Rightarrow> agent_db \<Rightarrow> string \<Rightarrow> string \<Rightarrow> 'w \<Rightarrow> api_response \<times> 'w" where
  "listDecisionsHandler E s db i limit w =
     (if \<not> as_has_db s then (store_unavailable, w)
      else if i = [] then ((400, BodyError ''agent id required''), w)
      else let (fail, w1) = ae_query E w
           in case store_Get fail i db of
               Inl e \<Rightarrow> ((if errors_is e ''no rows in result set'' \<or> str_contains (error_text e) ''no rows in result set''
                         then (404, BodyError ''agent not found'') else (500, BodyError (error_text e))), w1)
             | Inr _ \<Rightarrow>
                 (let (now, w2) = ae_now E w1; (fail2, w3) = ae_query E w2
                  in case RecentDecisions (ae_sql E) fail2 i (now - 24 * nano_hour) (nat (page_limit limit)) db of
                      Inl e \<Rightarrow> ((500, BodyError (''decisions: '' @ error_text e)), w3)
                    | Inr rows \<Rightarrow> ((200, BodyDecisions (map (decision_lite_of i) rows)), w3)))"

definition registerRoutes :: "'w api_env \<Rightarrow> api_server \<Rightarrow> agent_db \<Rightarrow> 'w api_handler" where
  "registerRoutes E s db rq w =
     (case ae_route E (rq_method rq) (rq_path rq) of
        None \<Rightarrow> ((404, BodyError (''Cannot '' @ rq_method rq @ '' '' @ rq_path rq)), w)
      | Some RouteHealth \<Rightarrow> healthHandler E s w
      | Some RouteAgents \<Rightarrow> listAgentsHandler E s db w
      | Some (RouteDecisions i) \<Rightarrow> listDecisionsHandler E s db i (rq_limit rq) w)"

definition api_respond :: "'w api_env \<Rightarrow> api_server \<Rightarrow> agent_db \<Rightarrow> 'w api_handler" where
  "api_respond E s db = foldr apply_middleware (registerMiddleware (as_cfg s)) (registerRoutes E s db)"

section \<open>Properties\<close>

lemma api_respond_eq:
  "api_respond E s db =
     (if IsLoopback (as_cfg s) then registerRoutes E s db
      else authMiddleware (sc_auth_token (cfg_server (as_cfg s))) (registerRoutes E s db))"
  by (simp add: api_respond_def registerMiddleware_def)

lemma IsLoopback_host:
  assumes "sc_bind (cfg_server cfg) = host @ '':'' @ port" and "CHR '':'' \<notin> set port" and "CHR ''['' \<notin> set host" and "CHR '']'' \<notin> set host"
  shows "IsLoopback cfg \<longleftrightarrow> host \<in> {''127.0.0.1'', ''::1'', ''localhost'', []}"
  using assms bind_host_port [of port host] by (simp add: IsLoopback_def)

text \<open>
  C33: Every route but the health check needs the token, except on addresses taken for loopback. For a bind address \<open>host:port\<close>, the check is off exactly
  when the host is \<open>127.0.0.1\<close>, \<open>::1\<close>, \<open>localhost\<close> or empty, although an empty host listens on every interface. Where
  it is on, a request for any other path than \<open>/v1/health\<close> is answered 401 and no handler runs, unless a token is configured and sent exactly;
  then, and for the health check, the answer is the route's own.
\<close>

theorem api_requires_token:
  assumes "sc_bind (cfg_server (as_cfg s)) = host @ '':'' @ port"
    and "CHR '':'' \<notin> set port" and "CHR ''['' \<notin> set host" and "CHR '']'' \<notin> set host"
  shows "if host \<in> {''127.0.0.1'', ''::1'', ''localhost'', []} then api_respond E s db rq w = registerRoutes E s db rq w
    else if rq_path rq = ''/v1/health'' \<or> sc_auth_token (cfg_server (as_cfg s)) \<noteq> [] \<and> rq_auth rq = ''Bearer '' @ sc_auth_token (cfg_server (as_cfg s))
    then api_respond E s db rq w = registerRoutes E s db rq w
    else \<exists>msg. api_respond E s db rq w = ((401, BodyError msg), w)"
proof -
  note h = IsLoopback_host [OF assms]
  have auth: "authMiddleware token next rq w =
      (if rq_path rq = ''/v1/health'' \<or> token \<noteq> [] \<and> rq_auth rq = ''Bearer '' @ token then next rq w
       else ((401, BodyError (if token = [] then ''auth token not configured'' else ''invalid auth token'')), w))" for token and "next" :: "'a api_handler"
    by (simp add: authMiddleware_def publicRoutes_def)
  show ?thesis unfolding api_respond_eq h by (simp add: auth)
qed

lemma page_limit_range: "1 \<le> page_limit v \<and> page_limit v \<le> 200"
  by (simp add: page_limit_def Let_def)

lemma Atoi_int_str [roundtrips]: "0 \<le> n \<Longrightarrow> n < 2 ^ 63 \<Longrightarrow> Atoi (nat_str (nat n)) = Some n"
proof -
  assume n: "0 \<le> n" "n < 2 ^ 63"
  obtain c cs where s: "nat_str (nat n) = c # cs" "is_digit c" by (rule nat_str_Cons)
  have d: "list_all is_digit (nat_str (nat n))" using nat_str_digits [of "nat n"] by (simp add: list_all_iff)
  have "c \<noteq> CHR ''-''" "c \<noteq> CHR ''+''" using digit_not_blank [OF s(2)] by blast+
  then have "Atoi (nat_str (nat n)) = (if int (digits_val (nat_str (nat n))) < 2 ^ 63 then Some (int (digits_val (nat_str (nat n)))) else None)"
    using d s by (simp add: Atoi_def)
  then show ?thesis using n by simp
qed

text \<open>
  A page of decisions is bounded and about the agent asked for. A 200 answer means the agent is in the store; it lists at most as many decisions as the clamped limit (between 1 and 200), all
  of this agent and none older than a day; an unknown agent gives 404, and a database that is not configured 503.
\<close>

theorem decisions_page:
  assumes "listDecisionsHandler E s db i limit w = ((code, body), w')"
  shows "(code = 200 \<longrightarrow> as_has_db s \<and> has_agent db i \<and> (\<exists>rows. body = BodyDecisions rows \<and> int (length rows) \<le> page_limit limit
        \<and> page_limit limit \<le> 200 \<and> (\<forall>r \<in> set rows. dl_agent_id r = i \<and> sq_time (ae_sql E) (fst (ae_now E (snd (ae_query E w))) - 24 * nano_hour) \<le> dl_ts r)))
    \<and> (as_has_db s \<and> i \<noteq> [] \<and> \<not> has_agent db i \<and> fst (ae_query E w) = None \<longrightarrow> code = 404)
    \<and> (\<not> as_has_db s \<longrightarrow> code = 503)"
proof (rule conjI; (rule conjI)?; rule impI)
  assume c: "code = 200"
  then have db: "as_has_db s" "i \<noteq> []"
    using assms by (auto simp: listDecisionsHandler_def store_unavailable_def split: if_splits)
  then obtain a where g: "store_Get (fst (ae_query E w)) i db = Inr a"
    using assms c by (auto simp: listDecisionsHandler_def split_beta Let_def split: sum.splits if_splits)
  then have "has_agent db i"
    by (auto simp: store_Get_def has_agent_def list_ex_iff find_Some_iff split: option.splits sum.splits)
  moreover let ?since = "fst (ae_now E (snd (ae_query E w))) - 24 * nano_hour"
  obtain fail rows where r: "RecentDecisions (ae_sql E) fail i ?since (nat (page_limit limit)) db = Inr rows"
    "body = BodyDecisions (map (decision_lite_of i) rows)"
    using assms c db g by (auto simp: listDecisionsHandler_def split_beta Let_def split: sum.splits)
  then have "length rows \<le> nat (page_limit limit)" "\<forall>r \<in> set rows. sq_time (ae_sql E) ?since \<le> ds_time r"
    by (auto simp: RecentDecisions_def split: option.splits dest!: in_set_takeD)
  ultimately show "as_has_db s \<and> has_agent db i \<and> (\<exists>rows. body = BodyDecisions rows \<and> int (length rows) \<le> page_limit limit
      \<and> page_limit limit \<le> 200 \<and> (\<forall>r \<in> set rows. dl_agent_id r = i \<and> sq_time (ae_sql E) (fst (ae_now E (snd (ae_query E w))) - 24 * nano_hour) \<le> dl_ts r))"
    using db r(2) page_limit_range [of limit] by (auto simp: decision_lite_of_def)
next
  assume "as_has_db s \<and> i \<noteq> [] \<and> \<not> has_agent db i \<and> fst (ae_query E w) = None"
  moreover from this have "find (\<lambda>a. ag_id a = i) (ad_agents db) = None"
    by (simp add: has_agent_def list_ex_iff find_None_iff)
  moreover have "errors_is (Wrap ''agent: get'' ErrNoRows) ''no rows in result set''" by (simp add: ErrNoRows_def)
  ultimately show "code = 404" using assms by (simp add: listDecisionsHandler_def store_Get_def split_beta Let_def)
next
  assume "\<not> as_has_db s"
  then show "code = 503" using assms by (simp add: listDecisionsHandler_def store_unavailable_def)
qed

section \<open>A concrete server\<close>

definition sample_router :: "string \<Rightarrow> string \<Rightarrow> api_route option" where
  "sample_router m p =
     (if p = ''/v1/health'' then Some RouteHealth else if p = ''/v1/agents'' then Some RouteAgents
      else if p = ''/v1/agents/a/decisions'' then Some (RouteDecisions ''a'') else None)"

definition sample_api :: "time api_env" where
  "sample_api = \<lparr>ae_route = sample_router, ae_ping = (\<lambda>w. (None, w)), ae_query = (\<lambda>w. (None, w)), ae_now = (\<lambda>w. (w, w)),
     ae_fixed = (\<lambda>_ _. ''0.00''), ae_sql = reference_sql\<rparr>"

definition sample_server :: api_server where
  "sample_server = \<lparr>as_cfg = sample_config\<lparr>cfg_server := \<lparr>sc_bind = ''0.0.0.0:8080'', sc_auth_token = ''secret''\<rparr>\<rparr>, as_has_db = True\<rparr>"

theorem api_requires_token_witness:
  "\<exists>msg. api_respond sample_api sample_server empty_db
     \<lparr>rq_method = ''GET'', rq_path = ''/v1/agents'', rq_auth = ''Bearer guess'', rq_limit = []\<rparr> 0 = ((401, BodyError msg), 0)"
proof -
  have b: "sc_bind (cfg_server (as_cfg sample_server)) = ''0.0.0.0'' @ '':'' @ ''8080''" by (simp add: sample_server_def)
  have "sc_auth_token (cfg_server (as_cfg sample_server)) = ''secret''" by (simp add: sample_server_def)
  with api_requires_token [OF b, of sample_api empty_db
      "\<lparr>rq_method = ''GET'', rq_path = ''/v1/agents'', rq_auth = ''Bearer guess'', rq_limit = []\<rparr>" 0] show ?thesis by simp
qed

theorem decisions_page_witness:
  "fst (fst (listDecisionsHandler sample_api sample_server empty_db ''a'' ''5'' 0)) = 404"
proof -
  obtain code body w' where r: "listDecisionsHandler sample_api sample_server empty_db ''a'' ''5'' 0 = ((code, body), w')"
    by (metis surj_pair)
  from decisions_page [OF r] have "code = 404"
    by (simp add: sample_server_def sample_api_def has_agent_def empty_db_def)
  with r show ?thesis by simp
qed

end
