(* ===== verification/BittensorFeed.thy ===== *)
theory BittensorFeed
  imports SubtensorExtrinsic
begin

text \<open>
  The price feed of \<open>internal/feed/bittensor/feed.go\<close>: one poll asks the chain for the price of each subnet and offers a tick with a
  synthetic spread to a bounded channel. The channel is the list of buffered ticks; what its consumer takes, and which ready case
  a \<open>select\<close> picks, are answers of the world.
\<close>

record feed =
  fd_interval :: duration
  fd_reference :: decimal
  fd_db :: bool

record feed_config =
  fc_rpc_url :: string
  fc_interval :: duration
  fc_reference :: decimal
  fc_db :: bool

record pool_snapshot =
  pn_time :: time
  pn_netuid :: int
  pn_tao_reserve :: decimal
  pn_alpha_reserve :: decimal
  pn_price :: decimal

record 'w feed_env =
  fe_chain :: "'w chain_env"
  fe_taken :: "'w \<Rightarrow> nat \<times> 'w"
  fe_pick :: "'w \<Rightarrow> bool \<times> 'w"
  fe_insert :: "pool_snapshot \<Rightarrow> 'w \<Rightarrow> go_error option \<times> 'w"

record 'w feed_state =
  fs_buffer :: "tick list"
  fs_received :: "tick list"
  fs_chain :: "'w on_chain"

definition NewFeed :: "feed_config \<Rightarrow> feed \<times> chain_client" where
  "NewFeed cfg =
     (\<lparr>fd_interval = (if fc_interval cfg = 0 then 12 * nano_second else fc_interval cfg),
       fd_reference = (if fc_reference cfg = 0 then 10 else fc_reference cfg), fd_db = fc_db cfg\<rparr>,
      NewClient (fc_rpc_url cfg))"

text \<open>The counter of the discovery loop is a \<open>uint16\<close>, which wraps around.\<close>

partial_function (option) count_from :: "u16 \<Rightarrow> u16 \<Rightarrow> u16 list \<Rightarrow> u16 list option" where
  "count_from i count_up out = (if i \<le> count_up then count_from (i + 1) count_up (out @ [i]) else Some out)"

declare count_from.simps [code]

definition on_world_chain :: "('w \<Rightarrow> 'a \<times> 'w) \<Rightarrow> 'w feed_state \<Rightarrow> 'a \<times> 'w feed_state" where
  "on_world_chain f s = (let (x, w) = f (snd (fs_chain s)) in (x, s\<lparr>fs_chain := (fst (fs_chain s), w)\<rparr>))"

definition on_client :: "('w on_chain \<Rightarrow> 'a \<times> 'w on_chain) \<Rightarrow> 'w feed_state \<Rightarrow> 'a \<times> 'w feed_state" where
  "on_client f s = (let (x, cw) = f (fs_chain s) in (x, s\<lparr>fs_chain := cw\<rparr>))"

text \<open>Half a percent of the price when the simulation fails or gives nothing.\<close>

definition fallback_spread :: "decimal \<Rightarrow> decimal" where
  "fallback_spread spot = spot * (5 / 1000)"

definition estimateHalfSpread ::
  "'w feed_env \<Rightarrow> feed \<Rightarrow> u16 \<Rightarrow> decimal \<Rightarrow> 'w feed_state \<Rightarrow> decimal \<times> 'w feed_state" where
  "estimateHalfSpread F fd netuid spot s =
     (let L = ce_lib (fe_chain F);
          (sim, s1) = on_client (SimSwapTaoForAlpha (fe_chain F) netuid (TAOToRAO L (fd_reference fd))) s
      in (case sim of
            Inl _ \<Rightarrow> fallback_spread spot
          | Inr r \<Rightarrow>
              (if sim_amount_out r = 0 then fallback_spread spot
               else let actual = d_div L (fd_reference fd) (RAOToTAO L (sim_amount_out r))
                    in if actual \<le> spot then 0 else actual - spot), s1))"

definition subnet_tick :: "time \<Rightarrow> u16 \<Rightarrow> decimal \<Rightarrow> decimal \<Rightarrow> tick" where
  "subnet_tick now netuid price half =
     \<lparr>tk_time = now, tk_venue = ''bittensor'', tk_symbol = ''SN'' @ nat_str (unat netuid) @ ''/TAO'',
      tk_bid = price - half, tk_ask = price + half, tk_last = price, tk_volume = 0\<rparr>"

text \<open>The consumer takes what it takes; then the event is sent, dropped on a full channel, or the context ends the poll.\<close>

definition channel_capacity :: nat where
  "channel_capacity = 256"

definition consume :: "nat \<Rightarrow> 'w feed_state \<Rightarrow> 'w feed_state" where
  "consume n s = s\<lparr>fs_buffer := drop n (fs_buffer s), fs_received := fs_received s @ take n (fs_buffer s)\<rparr>"

definition send_event :: "'w feed_env \<Rightarrow> tick \<Rightarrow> 'w feed_state \<Rightarrow> bool \<times> 'w feed_state" where
  "send_event F ev s =
     (let (n, s1) = on_world_chain (fe_taken F) s;
          s2 = consume n s1;
          (err, s3) = on_world_chain (ce_ctx_err (fe_chain F)) s2;
          room = (length (fs_buffer s3) < channel_capacity);
          sent = s3\<lparr>fs_buffer := fs_buffer s3 @ [ev]\<rparr>
      in if err = None then (True, if room then sent else s3)
         else if \<not> room then (False, s3)
         else let (pick, s4) = on_world_chain (fe_pick F) s3
              in if pick then (True, s4\<lparr>fs_buffer := fs_buffer s4 @ [ev]\<rparr>) else (False, s4))"

text \<open>\<open>int16(netuid)\<close> is the two's complement reading; the insert's error is only logged.\<close>

definition writeSnapshot :: "'w feed_env \<Rightarrow> time \<Rightarrow> u16 \<Rightarrow> decimal \<Rightarrow> 'w feed_state \<Rightarrow> 'w feed_state" where
  "writeSnapshot F t netuid price s =
     snd (on_world_chain (fe_insert F \<lparr>pn_time = t, pn_netuid = sint netuid, pn_tao_reserve = 0, pn_alpha_reserve = 0, pn_price = price\<rparr>) s)"

text \<open>One subnet of a poll; the flag says whether the poll goes on.\<close>

definition poll_one :: "'w feed_env \<Rightarrow> feed \<Rightarrow> time \<Rightarrow> u16 \<Rightarrow> 'w feed_state \<Rightarrow> bool \<times> 'w feed_state" where
  "poll_one F fd now netuid s =
     (let (err, s1) = on_world_chain (ce_ctx_err (fe_chain F)) s
      in if err \<noteq> None then (False, s1)
         else let (r, s2) = on_client (CurrentAlphaPrice (fe_chain F) netuid) s1
              in case r of
                  Inl _ \<Rightarrow> (True, s2)
                | Inr price \<Rightarrow>
                    (let (half, s3) = estimateHalfSpread F fd netuid price s2;
                         (go, s4) = send_event F (subnet_tick now netuid price half) s3
                     in if \<not> go then (False, s4)
                        else (True, if fd_db fd then writeSnapshot F now netuid price s4 else s4)))"

fun poll_each :: "'w feed_env \<Rightarrow> feed \<Rightarrow> time \<Rightarrow> u16 list \<Rightarrow> 'w feed_state \<Rightarrow> 'w feed_state" where
  "poll_each F fd now [] s = s"
| "poll_each F fd now (n # ns) s = (let (go, s1) = poll_one F fd now n s in if go then poll_each F fd now ns s1 else s1)"

definition poll :: "'w feed_env \<Rightarrow> feed \<Rightarrow> u16 list \<Rightarrow> 'w feed_state \<Rightarrow> 'w feed_state option" where
  "poll F fd nets s =
     (let (now, s1) = on_world_chain (ce_now (fe_chain F)) s
      in if nets \<noteq> [] then Some (poll_each F fd now nets s1)
         else let (r, s2) = on_client (SubnetCount (fe_chain F)) s1
              in case r of
                  Inl _ \<Rightarrow> Some s2
                | Inr n \<Rightarrow> map_option (\<lambda>targets. poll_each F fd now targets s2) (count_from 1 n []))"

text \<open>\<open>Subscribe\<close>: the lives of the feed, polls and receipts in any order.\<close>

inductive feed_reach :: "'w feed_env \<Rightarrow> feed \<Rightarrow> u16 list \<Rightarrow> 'w feed_state \<Rightarrow> bool"
  for F :: "'w feed_env" and fd :: feed and nets :: "u16 list" where
  started: "feed_reach F fd nets \<lparr>fs_buffer = [], fs_received = [], fs_chain = cw\<rparr>"
| polled: "feed_reach F fd nets s \<Longrightarrow> poll F fd nets s = Some s' \<Longrightarrow> feed_reach F fd nets s'"
| took: "feed_reach F fd nets s \<Longrightarrow> feed_reach F fd nets (consume n s)"

section \<open>Discovery\<close>

lemma count_from_done: "\<not> i \<le> n \<Longrightarrow> count_from i n out = Some out"
  by (subst count_from.simps) simp

lemma count_from_step: "i \<le> n \<Longrightarrow> count_from i n out = count_from (i + 1) n (out @ [i])"
  by (subst count_from.simps) simp

lemma count_from_lists:
  assumes "unat n < 65535"
  shows "count_from i n out = Some (out @ map word_of_nat [unat i ..< Suc (unat n)])"
proof (induction "Suc (unat n) - unat i" arbitrary: i out)
  case 0
  then have "\<not> i \<le> n" by (simp add: word_le_nat_alt)
  with 0 show ?case by (simp add: count_from_done)
next
  case (Suc k)
  then have le: "unat i \<le> unat n" by simp
  have up: "unat (i + 1) = Suc (unat i)" using le assms by (simp add: unat_word_ariths)
  have "count_from i n out = count_from (i + 1) n (out @ [i])" using le by (simp add: count_from_step word_le_nat_alt)
  also have "\<dots> = Some ((out @ [i]) @ map word_of_nat [unat (i + 1) ..< Suc (unat n)])" using Suc up by (intro Suc.hyps(1)) simp
  finally show ?case using le up by (simp add: upt_conv_Cons del: upt_Suc)
qed

lemma count_from_endless: "count_from i n out = Some y \<Longrightarrow> n = - 1 \<Longrightarrow> False"
proof (induction rule: count_from.raw_induct [rotated, consumes 1])
  case (1 self i count_up out y)
  then show ?case by (auto split: if_splits)
qed

lemma below_max: "n \<noteq> - 1 \<Longrightarrow> unat n < 65535" for n :: u16
proof -
  assume "n \<noteq> - 1"
  then have "unat n \<noteq> unat (- 1 :: u16)" by (simp add: word_unat_eq_iff)
  moreover have "unat (- 1 :: u16) = 65535" by (simp add: unsigned_minus_1_eq_mask mask_eq_exp_minus_1)
  moreover have "unat n < 2 ^ 16" using unsigned_less [of n, where ?'a = nat] by simp
  ultimately show "unat n < 65535" by simp
qed

text \<open>
  C38: A poll returns unless the chain counts 65535 subnets. With an explicit list, or any answer to the discovery below 65535, the poll ends; with 65535
  the 16-bit counter of the discovery loop wraps around and the poll never ends. The discovered targets are the subnets 1 to the count, in order.
\<close>

theorem feed_poll_returns:
  "(nets \<noteq> [] \<longrightarrow> (\<exists>s'. poll F fd nets s = Some s'))
   \<and> (nets = [] \<longrightarrow> (case fst (on_client (SubnetCount (fe_chain F)) (snd (on_world_chain (ce_now (fe_chain F)) s))) of
         Inl _ \<Rightarrow> \<exists>s'. poll F fd [] s = Some s'
       | Inr n \<Rightarrow> (poll F fd [] s = None \<longleftrightarrow> n = - 1) \<and> (n \<noteq> - 1 \<longrightarrow> count_from 1 n [] = Some (map word_of_nat [1 ..< Suc (unat n)]))))"
proof -
  have "count_from 1 n [] = None \<longleftrightarrow> n = - 1" for n
    using count_from_endless [of 1 "- 1" "[]"] count_from_lists [OF below_max, of n 1 "[]"] by (cases "count_from 1 n []") auto
  moreover have "count_from 1 n [] = Some (map word_of_nat [1 ..< Suc (unat n)])" if "n \<noteq> - 1" for n
    using count_from_lists [OF below_max [OF that], of 1 "[]"] by simp
  ultimately show ?thesis by (auto simp: poll_def Let_def split_beta split: sum.split)
qed

section \<open>The ticks\<close>

text \<open>A tick the feed may emit: the venue, a symbol, a price, and a spread around it.\<close>

definition feed_tick :: "tick \<Rightarrow> bool" where
  "feed_tick t \<longleftrightarrow> tk_venue t = ''bittensor'' \<and> (\<exists>netuid :: u16. tk_symbol t = ''SN'' @ nat_str (unat netuid) @ ''/TAO'') \<and> 0 \<le> tk_last t
     \<and> tk_bid t \<le> tk_last t \<and> tk_last t \<le> tk_ask t \<and> tk_ask t - tk_last t = tk_last t - tk_bid t"

definition feed_ok :: "'w feed_state \<Rightarrow> bool" where
  "feed_ok s \<longleftrightarrow> length (fs_buffer s) \<le> channel_capacity \<and> (\<forall>t \<in> set (fs_buffer s) \<union> set (fs_received s). feed_tick t)"

lemma on_world_chain_ok [simp]: "feed_ok (snd (on_world_chain f s)) \<longleftrightarrow> feed_ok s"
  "fs_buffer (snd (on_world_chain f s)) = fs_buffer s"
  by (simp_all add: on_world_chain_def feed_ok_def Let_def split_beta)

lemma on_client_ok [simp]: "feed_ok (snd (on_client f s)) \<longleftrightarrow> feed_ok s"
  by (simp add: on_client_def feed_ok_def Let_def split_beta)

lemma consume_ok: "feed_ok s \<Longrightarrow> feed_ok (consume n s)"
  by (auto simp: feed_ok_def consume_def dest: in_set_dropD in_set_takeD)

lemma buffer_add_ok:
  "feed_ok s \<Longrightarrow> feed_tick t \<Longrightarrow> fs_buffer s = b \<Longrightarrow> length b < channel_capacity \<Longrightarrow> feed_ok (s\<lparr>fs_buffer := b @ [t]\<rparr>)"
  by (auto simp: feed_ok_def)

lemma send_event_ok: "feed_ok s \<Longrightarrow> feed_tick t \<Longrightarrow> feed_ok (snd (send_event F t s))"
  by (simp add: send_event_def Let_def split_beta buffer_add_ok consume_ok)

lemma estimateHalfSpread_ok [simp]: "feed_ok (snd (estimateHalfSpread F fd n p s)) \<longleftrightarrow> feed_ok s"
  by (simp add: estimateHalfSpread_def Let_def split_beta)

lemma half_spread_nonneg: "0 \<le> p \<Longrightarrow> 0 \<le> fst (estimateHalfSpread F fd n p s)"
  by (simp add: estimateHalfSpread_def Let_def split_beta fallback_spread_def split: sum.split)

lemma CurrentAlphaPrice_nonneg:
  assumes "decimal_lib (ce_lib E)" and "fst (CurrentAlphaPrice E n cw) = Inr p"
  shows "0 \<le> p"
proof -
  from assms(2) obtain q where "p = RAOToTAO (ce_lib E) q"
    by (auto simp: CurrentAlphaPrice_def connected_def Let_def split: prod.splits sum.splits option.splits if_splits)
  moreover have "0 \<le> d_div (ce_lib E) (of_nat (unat q)) (of_int RAOPerTAO)"
    by (rule decimal_lib.div_nonneg [OF assms(1) of_nat_0_le_iff]) (simp add: RAOPerTAO_def)
  ultimately show ?thesis unfolding RAOToTAO_def by simp
qed

lemma poll_one_ok:
  assumes "decimal_lib (ce_lib (fe_chain F))" and "feed_ok s"
  shows "feed_ok (snd (poll_one F fd now n s))"
proof -
  have "feed_tick (subnet_tick now n p (fst (estimateHalfSpread F fd n p s')))" if "0 \<le> p" for p s'
    using half_spread_nonneg [OF that, of F fd n s'] that by (auto simp: feed_tick_def subnet_tick_def)
  moreover have "0 \<le> p" if "fst (on_client (CurrentAlphaPrice (fe_chain F) n) s') = Inr p" for p s'
    using that CurrentAlphaPrice_nonneg [OF assms(1)] by (auto simp: on_client_def Let_def split_beta)
  ultimately show ?thesis
    using assms(2) by (simp add: poll_one_def Let_def split_beta writeSnapshot_def send_event_ok split: sum.split)
qed

lemma poll_each_ok: "decimal_lib (ce_lib (fe_chain F)) \<Longrightarrow> feed_ok s \<Longrightarrow> feed_ok (poll_each F fd now ns s)"
  by (induction ns arbitrary: s) (simp_all add: poll_one_ok Let_def split_beta)

lemma poll_ok: "decimal_lib (ce_lib (fe_chain F)) \<Longrightarrow> feed_ok s \<Longrightarrow> poll F fd nets s = Some s' \<Longrightarrow> feed_ok s'"
  by (auto simp: poll_def Let_def split_beta poll_each_ok split: sum.splits if_splits)

text \<open>
  The feed only ever offers centred ticks. Whatever the chain answers and however fast the consumer is, every tick in the channel and every tick
  received names a subnet, has a price that is not negative and the same spread, not negative, on either side of it; and the channel never holds more than 256 ticks.
\<close>

theorem feed_ticks_centred:
  assumes "decimal_lib (ce_lib (fe_chain F))" and "feed_reach F fd nets s"
  shows "length (fs_buffer s) \<le> 256 \<and> (\<forall>t \<in> set (fs_buffer s) \<union> set (fs_received s). feed_tick t)"
proof -
  have "feed_ok s" using assms(2)
  proof induction
    case (started cw)
    then show ?case by (simp add: feed_ok_def)
  next
    case (polled s s')
    then show ?case using poll_ok [OF assms(1)] by blast
  qed (rule consume_ok)
  then show ?thesis by (simp add: feed_ok_def channel_capacity_def)
qed

section \<open>A concrete feed\<close>

definition sample_feed_env where
  "sample_feed_env = \<lparr>fe_chain = sample_chain, fe_taken = (\<lambda>w. (0, w)), fe_pick = (\<lambda>w. (True, w)), fe_insert = (\<lambda>_ w. (None, w))\<rparr>"

definition sample_feed :: feed where
  "sample_feed = fst (NewFeed \<lparr>fc_rpc_url = ''ws://localhost:9944'', fc_interval = 0, fc_reference = 0, fc_db = False\<rparr>)"

definition sample_feed_start where
  "sample_feed_start = \<lparr>fs_buffer = [], fs_received = [], fs_chain = (live_client, start_chain)\<rparr>"

theorem feed_poll_returns_witness: "\<exists>s'. poll sample_feed_env sample_feed [8] sample_feed_start = Some s'"
  using feed_poll_returns [of "[8]" sample_feed_env sample_feed sample_feed_start] by simp

theorem feed_ticks_centred_witness:
  "\<exists>s. feed_reach sample_feed_env sample_feed [8] s \<and> poll sample_feed_env sample_feed [8] sample_feed_start = Some s
     \<and> (\<forall>t \<in> set (fs_buffer s). tk_bid t \<le> tk_last t)"
proof -
  have lib: "decimal_lib (ce_lib (fe_chain sample_feed_env))"
    using reference.decimal_lib_axioms by (simp add: sample_feed_env_def sample_chain_def)
  have start: "feed_reach sample_feed_env sample_feed [8] sample_feed_start"
    unfolding sample_feed_start_def by (rule feed_reach.started)
  obtain s where s: "poll sample_feed_env sample_feed [8] sample_feed_start = Some s"
    by (auto simp: poll_def Let_def split_beta)
  from feed_reach.polled [OF start this] have r: "feed_reach sample_feed_env sample_feed [8] s" .
  from feed_ticks_centred [OF lib r] have "\<forall>t \<in> set (fs_buffer s). tk_bid t \<le> tk_last t" by (auto simp: feed_tick_def)
  with r s show ?thesis by blast
qed

end
