(* ===== verification/Database.thy ===== *)
theory Database
  imports Config
begin

text \<open>
  The database connection (\<open>internal/store/db.go\<close>) and the migration runner (\<open>internal/store/migrate.go\<close>). The pgx pool and goose are
  libraries: records of functions over the world \<open>'w\<close>. The locale \<open>pool_count\<close> counts the open pools of the process.
\<close>

section \<open>The connection pool (db.go)\<close>

text \<open>\<open>'c\<close> stands for the settings the URL parser fills in, \<open>'q\<close> for a pool.\<close>

record 'c pool_config =
  pl_parsed :: 'c
  pl_max_conns :: "32 word"
  pl_min_conns :: "32 word"
  pl_max_lifetime :: duration
  pl_max_idle :: duration

record ('w, 'c, 'q) pgx_lib =
  px_parse :: "string \<Rightarrow> go_error + 'c pool_config"
  px_new :: "'c pool_config \<Rightarrow> 'w \<Rightarrow> (go_error + 'q) \<times> 'w"
  px_ping :: "'q \<Rightarrow> duration option \<Rightarrow> 'w \<Rightarrow> go_error option \<times> 'w"
  px_close :: "'q \<Rightarrow> 'w \<Rightarrow> 'w"

definition pool_settings :: "database_config \<Rightarrow> 'c pool_config \<Rightarrow> 'c pool_config" where
  "pool_settings cfg p = p
     \<lparr>pl_max_conns := (if 0 < sint (dc_max_conns cfg) then dc_max_conns cfg else pl_max_conns p),
      pl_min_conns := (if 0 < sint (dc_min_conns cfg) then dc_min_conns cfg else pl_min_conns p),
      pl_max_lifetime := 30 * 60 * nano_second, pl_max_idle := 5 * 60 * nano_second\<rparr>"

definition store_Open :: "('w, 'c, 'q) pgx_lib \<Rightarrow> database_config \<Rightarrow> 'w \<Rightarrow> (go_error + 'q) \<times> 'w" where
  "store_Open P cfg w =
     (case wrap_result ''parse db url'' (px_parse P (dc_url cfg)) of
        Inl e \<Rightarrow> (Inl e, w)
      | Inr pc \<Rightarrow>
          run_then (wrap_error ''new pool'' (px_new P (pool_settings cfg pc) w)) (\<lambda>pool w1.
          case px_ping P pool (Some (5 * nano_second)) w1 of
              (Some e, w2) \<Rightarrow> (Inl (Wrap ''ping db'' e), px_close P pool w2)
            | (None, w2) \<Rightarrow> (Inr pool, w2)))"

text \<open>\<open>DB\<close> wraps a pool; the outer option is the pointer to it, the inner one the field.\<close>

definition db_Close :: "('w, 'c, 'q) pgx_lib \<Rightarrow> 'q option option \<Rightarrow> 'w \<Rightarrow> 'w" where
  "db_Close P d w = (case d of Some (Some pool) \<Rightarrow> px_close P pool w | _ \<Rightarrow> w)"

definition db_Ping :: "('w, 'c, 'q) pgx_lib \<Rightarrow> 'q option option \<Rightarrow> 'w \<Rightarrow> go_error option \<times> 'w" where
  "db_Ping P d w = (case d of Some (Some pool) \<Rightarrow> px_ping P pool None w | _ \<Rightarrow> (Some (Errorf ''db not initialised''), w))"

section \<open>Migrations (migrate.go)\<close>

record goose_status =
  gt_version :: int
  gt_path :: string
  gt_applied :: bool

text \<open>\<open>sql.Open\<close> with its driver and URL, a provider over the directory of embedded migrations, and the provider's operations.\<close>

record ('w, 'd, 'g) goose_lib =
  gs_open :: "string \<Rightarrow> string \<Rightarrow> 'w \<Rightarrow> (go_error + 'd) \<times> 'w"
  gs_provider :: "string \<Rightarrow> 'd \<Rightarrow> string \<Rightarrow> 'w \<Rightarrow> (go_error + 'g) \<times> 'w"
  gs_up :: "'g \<Rightarrow> 'w \<Rightarrow> (go_error + unit) \<times> 'w"
  gs_down :: "'g \<Rightarrow> 'w \<Rightarrow> (go_error + unit) \<times> 'w"
  gs_status :: "'g \<Rightarrow> 'w \<Rightarrow> (go_error + goose_status list) \<times> 'w"
  gs_close :: "'g \<Rightarrow> 'w \<Rightarrow> 'w"

definition migrator_open :: "('w, 'd, 'g) goose_lib \<Rightarrow> string \<Rightarrow> 'w \<Rightarrow> (go_error + 'd) \<times> 'w" where
  "migrator_open G url w = wrap_error ''open db'' (gs_open G ''pgx'' url w)"

definition migrator_configure :: "('w, 'd, 'g) goose_lib \<Rightarrow> string \<Rightarrow> 'w \<Rightarrow> (go_error + 'g) \<times> 'w" where
  "migrator_configure G url w = run_then (migrator_open G url w) (\<lambda>d. gs_provider G ''postgres'' d ''migrations'')"

definition with_provider ::
  "('w, 'd, 'g) goose_lib \<Rightarrow> string \<Rightarrow> ('g \<Rightarrow> 'w \<Rightarrow> (go_error + 'a) \<times> 'w) \<Rightarrow> 'w \<Rightarrow> (go_error + 'a) \<times> 'w" where
  "with_provider G url f w = run_then (migrator_configure G url w) (\<lambda>g w1. let (r, w2) = f g w1 in (r, gs_close G g w2))"

definition migrator_Up :: "('w, 'd, 'g) goose_lib \<Rightarrow> string \<Rightarrow> 'w \<Rightarrow> (go_error + unit) \<times> 'w" where
  "migrator_Up G url = with_provider G url (gs_up G)"

definition migrator_Down :: "('w, 'd, 'g) goose_lib \<Rightarrow> string \<Rightarrow> 'w \<Rightarrow> (go_error + unit) \<times> 'w" where
  "migrator_Down G url = with_provider G url (gs_down G)"

record migration_status =
  mg_version :: int
  mg_name :: string
  mg_applied :: bool

definition migrator_Status :: "('w, 'd, 'g) goose_lib \<Rightarrow> string \<Rightarrow> 'w \<Rightarrow> (go_error + migration_status list) \<times> 'w" where
  "migrator_Status G url = with_provider G url (\<lambda>g w.
     run_then (gs_status G g w) (\<lambda>ss w1. (Inr (map (\<lambda>s. \<lparr>mg_version = gt_version s, mg_name = gt_path s, mg_applied = gt_applied s\<rparr>) ss), w1)))"

section \<open>Properties\<close>

locale pool_count =
  fixes P :: "('w, 'c, 'q) pgx_lib" and live :: "'w \<Rightarrow> int"
  assumes new_live: "px_new P c w = (r, w1) \<Longrightarrow> live w1 = live w + (case r of Inl _ \<Rightarrow> 0 | Inr _ \<Rightarrow> 1)"
    and ping_live: "live (snd (px_ping P q t w)) = live w"
    and close_live: "live (px_close P q w) = live w - 1"
begin

text \<open>A connection that does not answer the first ping is closed again, so only a successful \<open>Open\<close> holds a pool.\<close>

lemma Open_live: "store_Open P cfg w = (r, w1) \<Longrightarrow> live w1 = live w + (case r of Inl _ \<Rightarrow> 0 | Inr _ \<Rightarrow> 1)"
proof (cases "px_parse P (dc_url cfg)")
  case (Inr pc)
  assume o: "store_Open P cfg w = (r, w1)"
  obtain n u where n: "px_new P (pool_settings cfg pc) w = (n, u)" by fastforce
  show ?thesis
  proof (cases n)
    case (Inr q)
    obtain e v where p: "px_ping P q (Some (5 * nano_second)) u = (e, v)" by fastforce
    have "live v = live w + 1" using ping_live [of q "Some (5 * nano_second)" u] new_live [OF n] p Inr by simp
    then show ?thesis using o n p Inr \<open>px_parse P (dc_url cfg) = Inr pc\<close>
      by (auto simp: store_Open_def wrap_result_def wrap_error_def close_live split: option.splits)
  qed (use o n new_live [OF n] Inr in \<open>auto simp: store_Open_def wrap_result_def wrap_error_def\<close>)
qed (auto simp: store_Open_def wrap_result_def)

lemma Close_live: "live (db_Close P (Some (Some q)) w) = live w - 1"
  by (simp add: db_Close_def close_live)

end

text \<open>A process whose world is the number of its open pools; a pool is the answer its ping gives.\<close>

definition counting_pgx :: "(int, unit, go_error option) pgx_lib" where
  "counting_pgx = \<lparr>px_parse = (\<lambda>url. if url = [] then Inl (Errorf ''invalid url'')
       else Inr \<lparr>pl_parsed = (), pl_max_conns = 4, pl_min_conns = 0, pl_max_lifetime = 0, pl_max_idle = 0\<rparr>),
     px_new = (\<lambda>c n. if pl_max_conns c = 0 then (Inl (Errorf ''no connections''), n) else (Inr None, n + 1)),
     px_ping = (\<lambda>q t n. (q, n)), px_close = (\<lambda>q n. n - 1)\<rparr>"

interpretation counting: pool_count counting_pgx "\<lambda>n. n"
  by unfold_locales (auto simp: counting_pgx_def split: if_splits)

text \<open>A database that is always there.\<close>

definition null_pgx :: "('w, unit, unit) pgx_lib" where
  "null_pgx = \<lparr>px_parse = (\<lambda>_. Inr \<lparr>pl_parsed = (), pl_max_conns = 4, pl_min_conns = 0, pl_max_lifetime = 0, pl_max_idle = 0\<rparr>),
     px_new = (\<lambda>_ w. (Inr (), w)), px_ping = (\<lambda>_ _ w. (None, w)), px_close = (\<lambda>_ w. w)\<rparr>"

end
