(* ===== verification/Cli.thy ===== *)
theory Cli
  imports Database Keystore
begin

text \<open>
  What the commands share (\<open>internal/cli/root.go\<close>, and the helpers at the end of \<open>wallet.go\<close> and \<open>agent.go\<close>): the globals set before a command
  runs, the database a command opens and closes, the keystore it opens, and its output. A command is a function on a \<open>cli_state\<close>: the
  world, the tables of the database and the text printed so far. Flags and arguments are the function's arguments; the texts of the help pages are left out.
\<close>

section \<open>Text and paths\<close>

fun str_Split :: "char \<Rightarrow> string \<Rightarrow> string list" where
  "str_Split c [] = [[]]"
| "str_Split c (x # xs) =
     (if x = c then [] # str_Split c xs
      else case str_Split c xs of [] \<Rightarrow> [[x]] | p # ps \<Rightarrow> (x # p) # ps)"

fun str_Join :: "string \<Rightarrow> string list \<Rightarrow> string" where
  "str_Join sep [] = []"
| "str_Join sep [s] = s"
| "str_Join sep (s # t # ss) = s @ sep @ str_Join sep (t # ss)"

definition newline :: string where
  "newline = [CHR 0x0A]"

text \<open>
  \<open>utf8.RuneCountInString\<close>: the bytes of the first rune of a text, one when they are no valid encoding, and the number of runes.
\<close>

definition byte_in :: "nat \<Rightarrow> nat \<Rightarrow> char \<Rightarrow> bool" where
  "byte_in lo hi c \<longleftrightarrow> lo \<le> of_char c \<and> of_char c \<le> hi"

definition second_byte :: "nat \<Rightarrow> char \<Rightarrow> bool" where
  "second_byte b c = (if b = 0xE0 then byte_in 0xA0 0xBF c else if b = 0xED then byte_in 0x80 0x9F c
     else if b = 0xF0 then byte_in 0x90 0xBF c else if b = 0xF4 then byte_in 0x80 0x8F c else byte_in 0x80 0xBF c)"

definition rune_size :: "string \<Rightarrow> nat" where
  "rune_size s =
     (case s of
        c # d # t \<Rightarrow>
          if byte_in 0xC2 0xDF c \<and> second_byte (of_char c) d then 2
          else if byte_in 0xE0 0xEF c \<and> second_byte (of_char c) d \<and> 1 \<le> length t \<and> list_all (byte_in 0x80 0xBF) (take 1 t) then 3
          else if byte_in 0xF0 0xF4 c \<and> second_byte (of_char c) d \<and> 2 \<le> length t \<and> list_all (byte_in 0x80 0xBF) (take 2 t) then 4
          else 1
      | _ \<Rightarrow> 1)"

fun rune_count :: "string \<Rightarrow> nat" where
  "rune_count [] = 0"
| "rune_count (c # s) = Suc (rune_count (drop (rune_size (c # s) - 1) s))"

text \<open>\<open>%-ns\<close> pads on the right, counting runes.\<close>

definition pad_right :: "nat \<Rightarrow> string \<Rightarrow> string" where
  "pad_right n s = s @ replicate (n - rune_count s) CHR '' ''"

text \<open>
  \<open>text/tabwriter\<close> with no minimal width and a padding of two spaces, on a text whose control characters are tabs and newlines. A cell
  ended by a tab is as wide as the widest one of its column in the unbroken run of lines that have that column.
\<close>

definition tab :: string where
  "tab = [CHR 0x09]"

definition tab_cells :: "string \<Rightarrow> string list list" where
  "tab_cells t = map (str_Split CHR 0x09) (str_Split CHR 0x0A t)"

definition has_column :: "nat \<Rightarrow> string list \<Rightarrow> bool" where
  "has_column j cells \<longleftrightarrow> Suc j < length cells"

definition column_block :: "string list list \<Rightarrow> nat \<Rightarrow> nat \<Rightarrow> string list list" where
  "column_block lines i j = rev (takeWhile (has_column j) (rev (take i lines))) @ takeWhile (has_column j) (drop i lines)"

definition column_width :: "string list list \<Rightarrow> nat \<Rightarrow> nat \<Rightarrow> nat" where
  "column_width lines i j = foldr max (map (\<lambda>l. rune_count (l ! j) + 2) (column_block lines i j)) 0"

definition tab_line :: "string list list \<Rightarrow> nat \<Rightarrow> string" where
  "tab_line lines i =
     concat (map (\<lambda>j. if has_column j (lines ! i) then pad_right (column_width lines i j) (lines ! i ! j) else lines ! i ! j)
       [0..<length (lines ! i)])"

definition tab_format :: "string \<Rightarrow> string" where
  "tab_format t = (let lines = tab_cells t in str_Join newline (map (tab_line lines) [0..<length lines]))"

text \<open>A table: its rows, each with its cells separated by tabs and ended by a newline.\<close>

definition table_text :: "string list list \<Rightarrow> string" where
  "table_text rows = tab_format (concat (map (\<lambda>cells. str_Join tab cells @ newline) rows))"

text \<open>\<open>filepath.Clean\<close> on slash-separated paths: the elements kept so far, innermost first.\<close>

definition clean_step :: "bool \<Rightarrow> string list \<Rightarrow> string \<Rightarrow> string list" where
  "clean_step rooted acc e =
     (if e = [] \<or> e = ''.'' then acc
      else if e \<noteq> ''..'' then e # acc
      else case acc of
          [] \<Rightarrow> if rooted then [] else [''..'']
        | k # ks \<Rightarrow> if k = ''..'' then ''..'' # acc else ks)"

definition path_Clean :: "string \<Rightarrow> string" where
  "path_Clean p =
     (let rooted = has_prefix p ''/'';
          body = str_Join ''/'' (rev (foldl (clean_step rooted) [] (str_Split CHR ''/'' p)))
      in if rooted then ''/'' @ body else if body = [] then ''.'' else body)"

definition path_Join :: "string list \<Rightarrow> string" where
  "path_Join es = (let ne = dropWhile (\<lambda>e. e = []) es in if ne = [] then [] else path_Clean (str_Join ''/'' ne))"

section \<open>The state of a command\<close>

record ('w, 'd) cli_state =
  ct_world :: 'w
  ct_db :: 'd
  ct_out :: string

definition on_cli :: "('w \<Rightarrow> 'a \<times> 'w) \<Rightarrow> ('w, 'd) cli_state \<Rightarrow> 'a \<times> ('w, 'd) cli_state" where
  "on_cli f st = (let (r, w) = f (ct_world st) in (r, st\<lparr>ct_world := w\<rparr>))"

definition print :: "string \<Rightarrow> ('w, 'd) cli_state \<Rightarrow> ('w, 'd) cli_state" where
  "print s st = st\<lparr>ct_out := ct_out st @ s\<rparr>"

definition println :: "string \<Rightarrow> ('w, 'd) cli_state \<Rightarrow> ('w, 'd) cli_state" where
  "println s = print (s @ newline)"

text \<open>
  The environment of the process: the pool library, the outcome of the next query with the database clock, the clock, the
  home directory and the environment variables.
\<close>

record ('w, 'c, 'q) cli_env =
  cx_pg :: "('w, 'c, 'q) pgx_lib"
  cx_query :: "'w \<Rightarrow> (go_error option \<times> time) \<times> 'w"
  cx_now :: "'w \<Rightarrow> time \<times> 'w"
  cx_home :: "'w \<Rightarrow> go_error + string"
  cx_getenv :: "'w \<Rightarrow> string \<Rightarrow> string"

text \<open>The globals of a command, absent when \<open>PersistentPreRun\<close> has not run.\<close>

type_synonym globals = "config option"

definition no_globals :: go_error where
  "no_globals = Errorf ''globals not initialised''"

definition pre_run :: "'w viper \<Rightarrow> string \<Rightarrow> 'w \<Rightarrow> go_error + globals" where
  "pre_run V path w = and_then (wrap_result ''load config'' (config_Load V path w)) (\<lambda>cfg. Inr (Some cfg))"

section \<open>Commands over the database\<close>

text \<open>\<open>openAgentStore\<close>, the body of a command and the deferred close.\<close>

definition open_store :: "('w, 'c, 'q) cli_env \<Rightarrow> globals \<Rightarrow> ('w, 'd) cli_state \<Rightarrow> (go_error + 'q) \<times> ('w, 'd) cli_state" where
  "open_store E g st =
     (case g of
        None \<Rightarrow> (Inl no_globals, st)
      | Some cfg \<Rightarrow> wrap_error ''open db'' (on_cli (store_Open (cx_pg E) (cfg_database cfg)) st))"

definition close_store :: "('w, 'c, 'q) cli_env \<Rightarrow> 'q \<Rightarrow> ('w, 'd) cli_state \<Rightarrow> ('w, 'd) cli_state" where
  "close_store E pool st = st\<lparr>ct_world := db_Close (cx_pg E) (Some (Some pool)) (ct_world st)\<rparr>"

definition with_store ::
  "('w, 'c, 'q) cli_env \<Rightarrow> globals \<Rightarrow> (('w, 'd) cli_state \<Rightarrow> (go_error + 'a) \<times> ('w, 'd) cli_state)
     \<Rightarrow> ('w, 'd) cli_state \<Rightarrow> (go_error + 'a) \<times> ('w, 'd) cli_state" where
  "with_store E g body st = run_then (open_store E g st) (\<lambda>pool st1. let (r, st2) = body st1 in (r, close_store E pool st2))"

text \<open>The same around a body that may panic or not return.\<close>

definition with_store_option ::
  "('w, 'c, 'q) cli_env \<Rightarrow> globals \<Rightarrow> (('w, 'd) cli_state \<Rightarrow> ((go_error + 'a) \<times> ('w, 'd) cli_state) option)
     \<Rightarrow> ('w, 'd) cli_state \<Rightarrow> ((go_error + 'a) \<times> ('w, 'd) cli_state) option" where
  "with_store_option E g body st =
     (case open_store E g st of
        (Inl e, st1) \<Rightarrow> Some (Inl e, st1)
      | (Inr pool, st1) \<Rightarrow> map_option (\<lambda>(r, st2). (r, close_store E pool st2)) (body st1))"

text \<open>One query of a store: reading, and writing with the database clock.\<close>

definition db_read ::
  "('w, 'c, 'q) cli_env \<Rightarrow> (go_error option \<Rightarrow> 'd \<Rightarrow> go_error + 'a) \<Rightarrow> ('w, 'd) cli_state \<Rightarrow> (go_error + 'a) \<times> ('w, 'd) cli_state" where
  "db_read E f st = (let ((fail, _), st1) = on_cli (cx_query E) st in (f fail (ct_db st1), st1))"

definition db_write ::
  "('w, 'c, 'q) cli_env \<Rightarrow> (go_error option \<Rightarrow> time \<Rightarrow> 'd \<Rightarrow> (go_error + 'a) \<times> 'd) \<Rightarrow> ('w, 'd) cli_state
     \<Rightarrow> (go_error + 'a) \<times> ('w, 'd) cli_state" where
  "db_write E f st =
     (let ((fail, now), st1) = on_cli (cx_query E) st; (r, d) = f fail now (ct_db st1) in (r, st1\<lparr>ct_db := d\<rparr>))"

definition error_only :: "go_error option \<times> 'd \<Rightarrow> (go_error + unit) \<times> 'd" where
  "error_only r = (case r of (Some e, d) \<Rightarrow> (Inl e, d) | (None, d) \<Rightarrow> (Inr (), d))"

section \<open>The keystore of a command (wallet.go)\<close>

definition default_keystore_path :: "string \<Rightarrow> string" where
  "default_keystore_path home = path_Join [home, ''.permafrost'', ''keystore.json'']"

definition keystorePath :: "('w, 'c, 'q) cli_env \<Rightarrow> globals \<Rightarrow> 'w \<Rightarrow> go_error + string" where
  "keystorePath E g w =
     (case g of
        None \<Rightarrow> Inl no_globals
      | Some cfg \<Rightarrow>
          if wc_keystore_path (cfg_wallet cfg) \<noteq> [] then Inr (wc_keystore_path (cfg_wallet cfg))
          else and_then (wrap_result ''resolve home'' (cx_home E w)) (\<lambda>home. Inr (default_keystore_path home)))"

definition passphrase_env :: "config \<Rightarrow> string" where
  "passphrase_env cfg =
     (if wc_passphrase_env (cfg_wallet cfg) = [] then ''PERMAFROST_KEYSTORE_PASSPHRASE'' else wc_passphrase_env (cfg_wallet cfg))"

definition keystorePassphrase :: "('w, 'c, 'q) cli_env \<Rightarrow> globals \<Rightarrow> 'w \<Rightarrow> go_error + string" where
  "keystorePassphrase E g w =
     (case g of
        None \<Rightarrow> Inl no_globals
      | Some cfg \<Rightarrow>
          let pass = cx_getenv E w (passphrase_env cfg)
          in if pass = [] then Inl (Errorf (''set '' @ passphrase_env cfg @ '' to unlock the keystore'')) else Inr pass)"

definition openKeystore ::
  "('k, 'p, 'e) crypto_lib \<Rightarrow> 'w ks_env \<Rightarrow> ('w, 'c, 'q) cli_env \<Rightarrow> globals \<Rightarrow> 'w
     \<Rightarrow> ((go_error + ('k, 'p, 'e) keystore_state) \<times> 'w) option" where
  "openKeystore C K E g w =
     (case and_then (keystorePath E g w) (\<lambda>path. and_then (keystorePassphrase E g w) (\<lambda>pass. Inr (path, pass))) of
        Inl e \<Rightarrow> Some (Inl e, w)
      | Inr (path, pass) \<Rightarrow> NewLocalKeystore C K path pass w)"

section \<open>Migration commands (db.go)\<close>

definition migrate_up_cmd :: "('w, 'd, 'g) goose_lib \<Rightarrow> globals \<Rightarrow> ('w, 'b) cli_state \<Rightarrow> (go_error + unit) \<times> ('w, 'b) cli_state" where
  "migrate_up_cmd G g st =
     (case g of
        None \<Rightarrow> (Inl no_globals, st)
      | Some cfg \<Rightarrow> wrap_error ''migrate up'' (on_cli (migrator_Up G (dc_url (cfg_database cfg))) st))"

definition migrate_down_cmd :: "('w, 'd, 'g) goose_lib \<Rightarrow> globals \<Rightarrow> ('w, 'b) cli_state \<Rightarrow> (go_error + unit) \<times> ('w, 'b) cli_state" where
  "migrate_down_cmd G g st =
     (case g of
        None \<Rightarrow> (Inl no_globals, st)
      | Some cfg \<Rightarrow> wrap_error ''migrate down'' (on_cli (migrator_Down G (dc_url (cfg_database cfg))) st))"

definition migration_line :: "migration_status \<Rightarrow> string" where
  "migration_line s = pad_right 10 (int_str (mg_version s)) @ '' ''
     @ pad_right 10 (if mg_applied s then ''applied'' else ''pending'') @ '' '' @ mg_name s"

definition migrate_status_cmd :: "('w, 'd, 'g) goose_lib \<Rightarrow> globals \<Rightarrow> ('w, 'b) cli_state \<Rightarrow> (go_error + unit) \<times> ('w, 'b) cli_state" where
  "migrate_status_cmd G g st =
     (case g of
        None \<Rightarrow> (Inl no_globals, st)
      | Some cfg \<Rightarrow>
          run_then (wrap_error ''migrate status'' (on_cli (migrator_Status G (dc_url (cfg_database cfg))) st)) (\<lambda>ss st1.
          (Inr (), fold (\<lambda>s. println (migration_line s)) ss st1)))"

section \<open>Properties\<close>

lemma on_cli_simps [simp]:
  "fst (on_cli f st) = fst (f (ct_world st))" "ct_world (snd (on_cli f st)) = snd (f (ct_world st))"
  "ct_db (snd (on_cli f st)) = ct_db st" "ct_out (snd (on_cli f st)) = ct_out st"
  by (simp_all add: on_cli_def split_beta)

lemma print_simps [simp]:
  "ct_world (print s st) = ct_world st" "ct_db (print s st) = ct_db st" "ct_out (print s st) = ct_out st @ s"
  "ct_world (println s st) = ct_world st" "ct_db (println s st) = ct_db st" "ct_out (println s st) = ct_out st @ s @ newline"
  by (simp_all add: print_def println_def)

lemma on_cliD: "on_cli f st = (r, st') \<Longrightarrow> f (ct_world st) = (r, ct_world st') \<and> st' = st\<lparr>ct_world := ct_world st'\<rparr>"
  by (auto simp: on_cli_def split: prod.splits)

lemma open_store_db: "ct_db (snd (open_store E g st)) = ct_db st"
  by (auto simp: open_store_def wrap_error_def on_cli_def split: option.split sum.split prod.split)

lemma close_store_db [simp]: "ct_db (close_store E pool st) = ct_db st" "ct_out (close_store E pool st) = ct_out st"
  by (simp_all add: close_store_def)

text \<open>What a command leaves in the tables is what its body leaves there.\<close>

lemma with_store_cases:
  assumes "with_store E g body st = (r, st')"
  obtains (refused) e where "r = Inl e" "ct_db st' = ct_db st"
  | (ran) pool st1 st2 where "open_store E g st = (Inr pool, st1)" "ct_db st1 = ct_db st" "body st1 = (r, st2)" "st' = close_store E pool st2"
proof -
  obtain oo st1 where o: "open_store E g st = (oo, st1)" by fastforce
  then have d: "ct_db st1 = ct_db st" using open_store_db [of E g st] by simp
  show thesis
  proof (cases oo)
    case (Inl e)
    then show ?thesis using assms o d refused by (auto simp: with_store_def)
  next
    case (Inr pool)
    then show ?thesis using assms o d ran [of pool st1] by (auto simp: with_store_def split: prod.splits)
  qed
qed

text \<open>
  A property of the tables and the result of a command, part by part: what holds of the tables before a part gives \<open>Q\<close> after it, and gives
  \<open>Q\<close> of an error when the command stops there.
\<close>

lemma run_then_post:
  assumes "P (ct_db (snd p))" and "\<And>e d. P d \<Longrightarrow> Q (Inl e) d"
    and "\<And>a s. fst p = Inr a \<Longrightarrow> P (ct_db s) \<Longrightarrow> Q (fst (f a s)) (ct_db (snd (f a s)))"
  shows "Q (fst (run_then p f)) (ct_db (snd (run_then p f)))"
proof -
  obtain r s where p: "p = (r, s)" by fastforce
  have "P (ct_db s)" using assms(1) p by simp
  then show ?thesis using assms(2) [of "ct_db s"] assms(3) [of _ s] p by (cases r) simp_all
qed

lemma with_store_post:
  assumes "P (ct_db st)" and "\<And>e d. P d \<Longrightarrow> Q (Inl e) d"
    and "\<And>s. P (ct_db s) \<Longrightarrow> Q (fst (body s)) (ct_db (snd (body s)))"
  shows "Q (fst (with_store E g body st)) (ct_db (snd (with_store E g body st)))"
proof -
  obtain r st' where w: "with_store E g body st = (r, st')" by fastforce
  then show ?thesis
  proof (cases rule: with_store_cases)
    case (refused e)
    then show ?thesis using assms(1) assms(2) [of "ct_db st'" e] w by simp
  next
    case (ran pool st1 st2)
    then show ?thesis using assms(3) [of st1] assms(1) w by simp
  qed
qed

lemma run_then_keeps:
  assumes "P (ct_db (snd p))" and "\<And>a s. fst p = Inr a \<Longrightarrow> P (ct_db s) \<Longrightarrow> P (ct_db (snd (f a s)))"
  shows "P (ct_db (snd (run_then p f)))"
  using run_then_post [of P p "\<lambda>_. P" f] assms by blast

lemma with_store_keeps:
  assumes "P (ct_db st)" and "\<And>s. P (ct_db s) \<Longrightarrow> P (ct_db (snd (body s)))"
  shows "P (ct_db (snd (with_store E g body st)))"
  using with_store_post [of P st "\<lambda>_. P" body] assms by blast

lemma db_read_db [simp]: "ct_db (snd (db_read E f st)) = ct_db st"
  by (simp add: db_read_def on_cli_def split_beta)

lemma db_write_keeps: "(\<And>fail now. P (snd (f fail now (ct_db st)))) \<Longrightarrow> P (ct_db (snd (db_write E f st)))"
  by (simp add: db_write_def on_cli_def split_beta)

lemma db_write_post:
  "(\<And>fail now. Q (fst (f fail now (ct_db st))) (snd (f fail now (ct_db st)))) \<Longrightarrow> Q (fst (db_write E f st)) (ct_db (snd (db_write E f st)))"
  by (simp add: db_write_def on_cli_def split_beta)

lemma fold_println_db [simp]: "ct_db (fold (\<lambda>x. println (f x)) xs st) = ct_db st"
  by (induction xs arbitrary: st) simp_all

text \<open>Every command over the database releases its connections.\<close>

lemma with_store_releases:
  assumes P: "pool_count (cx_pg E) live" and body: "\<And>s. live (ct_world (snd (body s))) = live (ct_world s)"
  shows "live (ct_world (snd (with_store E g body st))) = live (ct_world st)"
proof (cases g)
  case (Some cfg)
  obtain r w where o: "store_Open (cx_pg E) (cfg_database cfg) (ct_world st) = (r, w)" by fastforce
  note l = pool_count.Open_live [OF P o]
  show ?thesis
  proof (cases r)
    case (Inr pool)
    then show ?thesis
      using Some o l body [of "st\<lparr>ct_world := w\<rparr>"] pool_count.Close_live [OF P, of pool]
      by (simp add: with_store_def open_store_def on_cli_def wrap_error_def close_store_def split_beta)
  qed (use Some o l in \<open>simp add: with_store_def open_store_def on_cli_def wrap_error_def\<close>)
qed (simp add: with_store_def open_store_def)

end
