(* ===== verification/CliWallet.thy ===== *)
theory CliWallet
  imports Cli
begin

text \<open>
  The wallet commands (\<open>internal/cli/wallet.go\<close>): showing the addresses, generating and importing keys, and the parsing of key files. The JSON
  decoders are parameters: \<open>public\<close> reads the address section of a keystore file, \<open>ints\<close> an array of integers.
\<close>

section \<open>Hexadecimal keys\<close>

definition hexish :: "string \<Rightarrow> bool" where
  "hexish s = (let t = trim_0x s in (length t = 64 \<or> length t = 128) \<and> list_all (\<lambda>c. hex_val c \<noteq> None) t)"

definition unhex :: "char \<Rightarrow> byte \<times> bool" where
  "unhex c =
     (let n = (of_char c :: nat)
      in if 48 \<le> n \<and> n \<le> 57 then (word_of_nat n - 48, True)
         else if 97 \<le> n \<and> n \<le> 102 then (word_of_nat n - 97 + 10, True)
         else if 65 \<le> n \<and> n \<le> 70 then (word_of_nat n - 65 + 10, True)
         else (0, False))"

fun hex_pairs :: "nat \<Rightarrow> string \<Rightarrow> go_error + bytes" where
  "hex_pairs i (c # d # cs) =
     (let (hi, ok1) = unhex c; (lo, ok2) = unhex d
      in if \<not> ok1 \<or> \<not> ok2 then Inl (Errorf (''hex: invalid byte at '' @ nat_str i))
         else and_then (hex_pairs (Suc i) cs) (\<lambda>bs. Inr (or (push_bit 4 hi) lo # bs)))"
| "hex_pairs i cs = Inr []"

definition hexDecodeStrict :: "string \<Rightarrow> go_error + bytes" where
  "hexDecodeStrict s = (if odd (length s) then Inl (Errorf ''hex: odd-length string'') else hex_pairs 0 s)"

section \<open>Key files\<close>

fun check_bytes :: "nat \<Rightarrow> int list \<Rightarrow> go_error + bytes" where
  "check_bytes i [] = Inr []"
| "check_bytes i (n # ns) =
     (if n < 0 \<or> 255 < n then Inl (Errorf (''byte '' @ nat_str i @ '' out of range: '' @ int_str n))
      else and_then (check_bytes (Suc i) ns) (\<lambda>bs. Inr (word_of_int n # bs)))"

definition solanaFromHex :: "('k, 'p, 'e) crypto_lib \<Rightarrow> string \<Rightarrow> go_error + sol_key" where
  "solanaFromHex C s = and_then (hexDecodeStrict (trim_0x s)) (NewSolanaSignerFromPrivate C)"

definition parseSolanaImport :: "('k, 'p, 'e) crypto_lib \<Rightarrow> (string \<Rightarrow> go_error + int list) \<Rightarrow> string \<Rightarrow> go_error + sol_key" where
  "parseSolanaImport C ints text =
     (if has_prefix text ''[''
      then and_then (wrap_result ''parse JSON array'' (ints text)) (\<lambda>ns. and_then (check_bytes 0 ns) (NewSolanaSignerFromPrivate C))
      else if hexish text then solanaFromHex C text
      else NewSolanaSignerFromBase58 C text)"

definition parseBittensorImport :: "('k, 'p, 'e) crypto_lib \<Rightarrow> string \<Rightarrow> go_error + 'p bt_key" where
  "parseBittensorImport C text =
     (if hexish text then and_then (hexDecodeStrict (trim_0x text)) (NewBittensorSignerFromPrivate C)
      else if 11 \<le> length (filter (\<lambda>c. c = CHR '' '') text) then NewBittensorSignerFromPhrase C text []
      else Inl (Errorf ''bittensor: input must be 32-byte hex seed or BIP-39 mnemonic phrase''))"

section \<open>The commands\<close>

text \<open>A command over the keystore: the keystore is opened, \<open>body\<close> runs with it.\<close>

definition with_keystore ::
  "('k, 'p, 'e) crypto_lib \<Rightarrow> 'w ks_env \<Rightarrow> ('w, 'c, 'q) cli_env \<Rightarrow> globals
     \<Rightarrow> (('k, 'p, 'e) keystore_state \<Rightarrow> ('w, 'd) cli_state \<Rightarrow> (go_error + unit) \<times> ('w, 'd) cli_state)
     \<Rightarrow> ('w, 'd) cli_state \<Rightarrow> ((go_error + unit) \<times> ('w, 'd) cli_state) option" where
  "with_keystore C K E g body st =
     (case openKeystore C K E g (ct_world st) of
        None \<Rightarrow> None
      | Some (Inl e, w) \<Rightarrow> Some (Inl e, st\<lparr>ct_world := w\<rparr>)
      | Some (Inr ks, w) \<Rightarrow> Some (body ks (st\<lparr>ct_world := w\<rparr>)))"

definition set_and_save ::
  "('k, 'p, 'e) crypto_lib \<Rightarrow> 'w ks_env \<Rightarrow> string \<Rightarrow> ('k, 'p, 'e) keystore_state \<Rightarrow> ('k, 'p, 'e) signer
     \<Rightarrow> ('w, 'd) cli_state \<Rightarrow> (go_error + unit) \<times> ('w, 'd) cli_state" where
  "set_and_save C K label ks s st = on_cli (ks_Save C K (install s ks)) (println (label @ signer_address s) st)"

definition unknown_chain :: "string \<Rightarrow> go_error" where
  "unknown_chain chain = Errorf (''unknown chain '' @ quoted chain @ '' (use solana | hyperliquid | bittensor)'')"

definition bittensor_notice :: string where
  "bittensor_notice = newline @ ''Fund this address with TAO before trading. Send TAO from'' @ newline
     @ ''an exchange (Coinbase, Kraken, MEXC) or another Bittensor wallet.''"

definition wallet_generate_cmd ::
  "('k, 'p, 'e) crypto_lib \<Rightarrow> 'w ks_env \<Rightarrow> ('w, 'c, 'q) cli_env \<Rightarrow> globals \<Rightarrow> string
     \<Rightarrow> ('w, 'd) cli_state \<Rightarrow> ((go_error + unit) \<times> ('w, 'd) cli_state) option" where
  "wallet_generate_cmd C K E g chain =
     with_keystore C K E g (\<lambda>ks st.
       if chain = ''solana''
       then run_then (on_cli (GenerateSolanaKey C K) st) (\<lambda>k. set_and_save C K ''solana       '' ks (SolanaKey k))
       else if chain = ''hyperliquid''
       then run_then (on_cli (GenerateHyperliquidKey C K) st) (\<lambda>k. set_and_save C K ''hyperliquid  '' ks (HyperliquidKey k))
       else if chain = ''bittensor''
       then run_then (on_cli (GenerateBittensorKey C K) st) (\<lambda>k st1.
              on_cli (ks_Save C K (SetBittensor k ks)) (println bittensor_notice (println (''bittensor    '' @ bk_addr k) st1)))
       else (Inl (unknown_chain chain), st))"

text \<open>The key of an import: from a derivation URI, or from the text of a file.\<close>

definition import_key ::
  "('k, 'p, 'e) crypto_lib \<Rightarrow> (string \<Rightarrow> go_error + int list) \<Rightarrow> string \<Rightarrow> string \<Rightarrow> go_error + ('k, 'p, 'e) signer" where
  "import_key C ints chain text =
     (if chain = ''solana'' then map_sum id SolanaKey (parseSolanaImport C ints text)
      else if chain = ''hyperliquid'' then map_sum id HyperliquidKey (NewHyperliquidSignerFromHex C text)
      else if chain = ''bittensor'' then map_sum id BittensorKey (parseBittensorImport C text)
      else Inl (unknown_chain chain))"

definition chain_label :: "string \<Rightarrow> string" where
  "chain_label chain = (if chain = ''solana'' then ''solana       '' else if chain = ''hyperliquid'' then ''hyperliquid  '' else ''bittensor    '')"

definition wallet_import_cmd ::
  "('k, 'p, 'e) crypto_lib \<Rightarrow> 'w ks_env \<Rightarrow> ('w, 'c, 'q) cli_env \<Rightarrow> globals \<Rightarrow> (string \<Rightarrow> go_error + int list) \<Rightarrow> string \<Rightarrow> string \<Rightarrow> string
     \<Rightarrow> ('w, 'd) cli_state \<Rightarrow> ((go_error + unit) \<times> ('w, 'd) cli_state) option" where
  "wallet_import_cmd C K E g ints chain from uri =
     with_keystore C K E g (\<lambda>ks st.
       if chain = ''bittensor'' \<and> uri \<noteq> []
       then (case NewBittensorSignerFromURI C uri of
               Inl e \<Rightarrow> (Inl e, st)
             | Inr k \<Rightarrow> set_and_save C K ''bittensor    '' ks (BittensorKey k) st)
       else if from = [] then (Inl (Errorf ''--from <file> is required (or --from-uri for bittensor)''), st)
       else run_then (wrap_error (''read '' @ from) (on_cli (kv_read K from) st)) (\<lambda>body st1.
            case import_key C ints chain (TrimSpace body) of
                Inl e \<Rightarrow> (Inl e, st1)
              | Inr s \<Rightarrow> set_and_save C K (chain_label chain) ks s st1))"

definition wallet_path_cmd :: "('w, 'c, 'q) cli_env \<Rightarrow> globals \<Rightarrow> ('w, 'd) cli_state \<Rightarrow> (go_error + unit) \<times> ('w, 'd) cli_state" where
  "wallet_path_cmd E g st =
     (case keystorePath E g (ct_world st) of Inl e \<Rightarrow> (Inl e, st) | Inr p \<Rightarrow> (Inr (), println p st))"

definition address_line :: "string \<times> string \<Rightarrow> string" where
  "address_line a = pad_right 12 (fst a) @ '' '' @ snd a"

definition wallet_show_cmd ::
  "'w ks_env \<Rightarrow> ('w, 'c, 'q) cli_env \<Rightarrow> globals \<Rightarrow> (string \<Rightarrow> go_error + (string \<times> string) list) \<Rightarrow> ('w, 'd) cli_state
     \<Rightarrow> (go_error + unit) \<times> ('w, 'd) cli_state" where
  "wallet_show_cmd K E g public st =
     (case keystorePath E g (ct_world st) of
        Inl e \<Rightarrow> (Inl e, st)
      | Inr path \<Rightarrow>
          (case on_cli (kv_read K path) st of
             (Inl e, st1) \<Rightarrow>
               if errors_is e ''file does not exist'' then (Inr (), println (''(no keystore at '' @ path @ '')'') st1) else (Inl e, st1)
           | (Inr body, st1) \<Rightarrow>
               (case wrap_result ''parse keystore'' (public body) of
                  Inl e \<Rightarrow> (Inl e, st1)
                | Inr as \<Rightarrow> (Inr (), if as = [] then println ''(empty keystore)'' st1 else fold (\<lambda>a. println (address_line a)) as st1))))"

section \<open>Decoding\<close>

lemma unhex_val: "unhex c = (case hex_val c of None \<Rightarrow> (0, False) | Some x \<Rightarrow> (word_of_nat x, True))"
proof -
  have w: "word_of_nat (a + k) - of_nat a + of_nat b = (word_of_nat (b + k) :: byte)" for a b k :: nat
    by (simp add: algebra_simps)
  have 1: "word_of_nat n - 48 = (word_of_nat (n - 48) :: byte)" if "48 \<le> n" for n :: nat
    using w [of 48 "n - 48" 0] that by simp
  have 2: "word_of_nat n - 97 + 10 = (word_of_nat (n - 87) :: byte)" if "97 \<le> n" for n :: nat
    using w [of 97 "n - 97" 10] that by simp
  have 3: "word_of_nat n - 65 + 10 = (word_of_nat (n - 55) :: byte)" if "65 \<le> n" for n :: nat
    using w [of 65 "n - 65" 10] that by simp
  show ?thesis unfolding unhex_def hex_val_def Let_def using 1 2 3 by (simp del: of_nat_diff)
qed

lemma hex_val_less: "hex_val c = Some x \<Longrightarrow> x < 16"
  by (auto simp: hex_val_def Let_def split: if_splits)

lemma nibbles: "x < 16 \<Longrightarrow> y < 16 \<Longrightarrow> or (push_bit 4 (word_of_nat x)) (word_of_nat y) = (word_of_nat (16 * x + y) :: byte)"
proof -
  have "list_all (\<lambda>x. list_all (\<lambda>y. or (push_bit 4 (word_of_nat x)) (word_of_nat y) = (word_of_nat (16 * x + y) :: byte)) [0..<16]) [0..<16]"
    by code_simp
  then show "x < 16 \<Longrightarrow> y < 16 \<Longrightarrow> ?thesis" by (simp add: list_all_iff)
qed

lemma and_then_Inr_iff: "and_then r f = Inr b \<longleftrightarrow> (\<exists>a. r = Inr a \<and> f a = Inr b)"
  by (cases r) simp_all

lemma hex_pairs_decode: "even (length s) \<Longrightarrow> hex_pairs i s = Inr bs \<longleftrightarrow> hex_decode s = Some bs"
proof (induction s arbitrary: i bs rule: hex_decode.induct)
  case (3 c d cs)
  show ?case
  proof (cases "hex_val c"; cases "hex_val d")
    fix x y
    assume v: "hex_val c = Some x" "hex_val d = Some y"
    then have n: "or (push_bit 4 (word_of_nat x)) (word_of_nat y) = (word_of_nat (16 * x + y) :: byte)"
      using nibbles hex_val_less by blast
    have h: "hex_pairs (Suc i) cs = Inr r \<longleftrightarrow> hex_decode cs = Some r" for r using 3 by simp
    have "hex_pairs i (c # d # cs) = and_then (hex_pairs (Suc i) cs) (\<lambda>bs. Inr (word_of_nat (16 * x + y) # bs))"
      by (simp add: unhex_val v n)
    then show ?thesis by (auto simp: and_then_Inr_iff h v split: option.split)
  qed (simp_all add: unhex_val)
qed simp_all

text \<open>The hand-written decoder accepts the same texts as the standard library's and reads the same bytes.\<close>

lemma hexDecodeStrict_decode: "hexDecodeStrict s = Inr bs \<longleftrightarrow> hex_decode s = Some bs"
proof (cases "even (length s)")
  case False
  then have "hex_decode s = None" by (induction s rule: hex_decode.induct) (auto split: option.split)
  with False show ?thesis by (simp add: hexDecodeStrict_def)
qed (simp add: hexDecodeStrict_def hex_pairs_decode)

lemma hex_encode_val: "c \<in> set (hex_encode bs) \<Longrightarrow> hex_val c \<noteq> None"
proof (induction bs)
  case (Cons b bs)
  have "unat b < 256" by simp
  then have "unat b div 16 < 16" by (simp add: less_mult_imp_div_less)
  with Cons show ?case by (auto simp: hex_encode_def hex_byte_def hex_val_char)
qed (simp add: hex_encode_def)

lemma no_hex_val: "hex_val CHR ''x'' = None" "hex_val CHR ''X'' = None" "hex_val CHR ''['' = None"
  by (simp_all add: hex_val_def)

lemma TrimPrefix_other: "c \<in> set p \<Longrightarrow> c \<notin> set s \<Longrightarrow> TrimPrefix s p = s"
  by (auto simp: TrimPrefix_def has_prefix_def dest: set_mono_prefix)

lemma trim_0x_hex [simp]: "trim_0x (hex_encode bs) = hex_encode bs" "trim_0x (''0x'' @ hex_encode bs) = hex_encode bs"
proof -
  have "CHR ''x'' \<notin> set (hex_encode bs)" "CHR ''X'' \<notin> set (hex_encode bs)"
    using hex_encode_val no_hex_val by blast+
  then have 1: "TrimPrefix (hex_encode bs) ''0x'' = hex_encode bs" "TrimPrefix (hex_encode bs) ''0X'' = hex_encode bs"
    by (intro TrimPrefix_other [of "CHR ''x''"] TrimPrefix_other [of "CHR ''X''"]; simp)+
  then show "trim_0x (hex_encode bs) = hex_encode bs" by (simp add: trim_0x_def)
  show "trim_0x (''0x'' @ hex_encode bs) = hex_encode bs"
    unfolding trim_0x_def TrimPrefix_append 1 ..
qed

lemma hexish_hex: "length bs = 32 \<or> length bs = 64 \<Longrightarrow> hexish (hex_encode bs)"
  using hex_encode_val [of _ bs] by (auto simp: hexish_def list_all_iff)

lemma not_bracket_hex: "\<not> has_prefix (hex_encode bs) ''[''"
proof
  assume "has_prefix (hex_encode bs) ''[''"
  then have "CHR ''['' \<in> set (hex_encode bs)" by (cases "hex_encode bs") (auto simp: has_prefix_def)
  then show False using hex_encode_val no_hex_val by blast
qed

lemma hexDecodeStrict_encode [simp]: "hexDecodeStrict (hex_encode bs) = Inr bs"
  by (simp add: hexDecodeStrict_decode hex_decode_encode)

lemma TrimSpace_none: "(\<And>c. c \<in> set s \<Longrightarrow> \<not> is_space c) \<Longrightarrow> TrimSpace s = s"
proof -
  have d: "dropWhile P xs = xs" if "\<And>x. x \<in> set xs \<Longrightarrow> \<not> P x" for P and xs :: string
    using that by (cases xs) auto
  assume n: "\<And>c. c \<in> set s \<Longrightarrow> \<not> is_space c"
  have "dropWhile is_space s = s" "dropWhile is_space (rev s) = rev s" by (rule d, simp add: n)+
  then show ?thesis by (simp add: TrimSpace_def)
qed

lemma check_bytes_uint: "check_bytes i (map uint bs) = Inr (bs :: bytes)"
proof (induction bs arbitrary: i)
  case (Cons b bs)
  have "0 \<le> uint b" "uint b < 2 ^ LENGTH(8)" by (rule unsigned_greater_eq, rule unsigned_less)
  with Cons show ?case by simp
qed simp

lemma import_hl:
  assumes "made_key C (HyperliquidKey h)" and "length (cl_serialize C (hk_priv h)) = 32" and "cl_secp C (cl_serialize C (hk_priv h)) = hk_priv h"
  shows "NewHyperliquidSignerFromHex C (PrivateKeyHex C h) = Inr h"
proof -
  have "\<not> is_space c" if "c \<in> set (''0x'' @ hex_encode (cl_serialize C (hk_priv h)))" for c
  proof -
    have "hex_val c \<noteq> None \<or> c = CHR ''x''"
      using that hex_encode_val [of c] by (auto simp: hex_val_def)
    then show ?thesis by (auto simp: is_space_def hex_val_def)
  qed
  then have "TrimSpace (PrivateKeyHex C h) = ''0x'' @ hex_encode (cl_serialize C (hk_priv h))"
    unfolding PrivateKeyHex_def by (rule TrimSpace_none)
  then have "NewHyperliquidSignerFromHex C (PrivateKeyHex C h) = NewHyperliquidSignerFromPrivate C (cl_serialize C (hk_priv h))"
    unfolding NewHyperliquidSignerFromHex_def by (simp only: trim_0x_hex hex_DecodeString_encode) (simp add: wrap_result_def)
  also have "\<dots> = Inr h" using assms by (simp add: NewHyperliquidSignerFromPrivate_def)
  finally show ?thesis .
qed

lemma import_sol:
  assumes "made_key C (SolanaKey k)"
  shows "parseSolanaImport C ints (hex_encode (sk_priv k)) = Inr k"
    and "has_prefix text ''['' \<Longrightarrow> ints text = Inr (map uint (sk_priv k)) \<Longrightarrow> parseSolanaImport C ints text = Inr k"
proof -
  have k: "NewSolanaSignerFromPrivate C (sk_priv k) = Inr k" using assms by (simp add: NewSolanaSignerFromPrivate_def)
  then show "parseSolanaImport C ints (hex_encode (sk_priv k)) = Inr k"
    using assms by (simp add: parseSolanaImport_def not_bracket_hex hexish_hex solanaFromHex_def)
  show "has_prefix text ''['' \<Longrightarrow> ints text = Inr (map uint (sk_priv k)) \<Longrightarrow> parseSolanaImport C ints text = Inr k"
    using k by (simp add: parseSolanaImport_def check_bytes_uint wrap_result_def)
qed

text \<open>
  What a wallet exports is what the import reads back. The hexadecimal form of a Hyperliquid key, the hexadecimal form and the array form of a Solana
  secret and the hexadecimal form of a 32-byte Bittensor seed are imported as exactly the key they came from.
\<close>

theorem exported_keys_import:
  assumes "sealed_disk C K"
  shows "(made_key C (HyperliquidKey h) \<longrightarrow> import_key C ints ''hyperliquid'' (PrivateKeyHex C h) = Inr (HyperliquidKey h))
    \<and> (made_key C (SolanaKey k) \<longrightarrow> import_key C ints ''solana'' (hex_encode (sk_priv k)) = Inr (SolanaKey k)
        \<and> (has_prefix text ''['' \<and> ints text = Inr (map uint (sk_priv k)) \<longrightarrow> import_key C ints ''solana'' text = Inr (SolanaKey k)))
    \<and> (length seed = 32 \<longrightarrow> import_key C ints ''bittensor'' (hex_encode seed) = map_sum id BittensorKey (NewBittensorSignerFromSeed C seed))"
proof (intro conjI impI)
  show "import_key C ints ''hyperliquid'' (PrivateKeyHex C h) = Inr (HyperliquidKey h)" if "made_key C (HyperliquidKey h)"
    using import_hl [OF that sealed_disk.serialize_32 [OF assms] sealed_disk.serialize_secp [OF assms]] by (simp add: import_key_def)
  show "import_key C ints ''bittensor'' (hex_encode seed) = map_sum id BittensorKey (NewBittensorSignerFromSeed C seed)" if "length seed = 32"
    using that by (simp add: import_key_def parseBittensorImport_def hexish_hex NewBittensorSignerFromPrivate_def NewBittensorSignerFromSeed_def)
qed (simp_all add: import_key_def import_sol)

theorem exported_keys_import_witness:
  "import_key sample_crypto (\<lambda>_. Inl ErrSyntax) ''solana'' (hex_encode (sk_priv sample_sol_key)) = Inr (SolanaKey sample_sol_key)"
proof -
  have "made_key sample_crypto (SolanaKey sample_sol_key)" by (simp add: sample_sol_key_def)
  then show ?thesis using exported_keys_import [OF sample_disk.sealed_disk_axioms] by blast
qed

section \<open>The commands keep the other keys\<close>

text \<open>A wallet command that succeeded has installed one key of the named chain in the keystore it opened, and saved it.\<close>

lemma openKeystore_reach: "openKeystore C K E g w = Some (Inr ks, w1) \<Longrightarrow> ks_reach C K ks"
  by (auto simp: openKeystore_def split: sum.splits intro: ks_reach.opened)

lemma with_keystore_InrE:
  assumes "with_keystore C K E g body st = Some (Inr (), st')"
  obtains ks w where "openKeystore C K E g (ct_world st) = Some (Inr ks, w)" "body ks (st\<lparr>ct_world := w\<rparr>) = (Inr (), st')"
  using assms by (auto simp: with_keystore_def split: option.splits sum.splits)

lemma set_and_save_saved: "set_and_save C K label ks s st = (Inr (), st') \<Longrightarrow> \<exists>w. ks_Save C K (install s ks) w = (Inr (), ct_world st')"
  unfolding set_and_save_def by (drule on_cliD [THEN conjunct1]) blast

lemma map_sum_InrE: "map_sum f h r = Inr s \<Longrightarrow> (\<And>k. r = Inr k \<Longrightarrow> s = h k \<Longrightarrow> P) \<Longrightarrow> P"
  by (cases r) auto

text \<open>A key that a constructor made.\<close>

definition constructed :: "('k, 'p, 'e) crypto_lib \<Rightarrow> ('k, 'p, 'e) signer \<Rightarrow> bool" where
  "constructed C s \<longleftrightarrow> (\<exists>raw k. NewSolanaSignerFromPrivate C raw = Inr k \<and> s = SolanaKey k)
     \<or> (\<exists>raw h. NewHyperliquidSignerFromPrivate C raw = Inr h \<and> s = HyperliquidKey h) \<or> (\<exists>kp. s = BittensorKey (bittensor_key C kp))"

lemma constructed_sol: "NewSolanaSignerFromPrivate C raw = Inr k \<Longrightarrow> constructed C (SolanaKey k)"
  by (auto simp: constructed_def)

lemma constructed_hl: "NewHyperliquidSignerFromPrivate C raw = Inr h \<Longrightarrow> constructed C (HyperliquidKey h)"
  by (auto simp: constructed_def)

lemma constructed_bt [simp]: "constructed C (BittensorKey (bittensor_key C kp))"
  by (auto simp: constructed_def)

lemma reach_install: "ks_reach C K ks \<Longrightarrow> constructed C s \<Longrightarrow> ks_reach C K (install s ks)"
  using ks_reach.solana [of C K ks] ks_reach.hyperliquid [of C K ks] ks_reach.bittensor [of C K ks]
  unfolding constructed_def SetSolana_def SetHyperliquid_def SetBittensor_def by blast

lemma import_constructed:
  assumes "import_key C ints chain text = Inr s"
  shows "constructed C s \<and> chain_str (signer_chain s) = chain"
proof -
  consider (sol) "chain = ''solana''" | (hl) "chain = ''hyperliquid''" | (bt) "chain = ''bittensor''"
    using assms by (auto simp: import_key_def split: if_splits)
  then show ?thesis
  proof cases
    case sol
    then show ?thesis
      using assms by (auto simp: import_key_def parseSolanaImport_def solanaFromHex_def NewSolanaSignerFromBase58_def
          intro: constructed_sol elim!: map_sum_InrE and_then_InrE split: if_splits)
  next
    case hl
    then show ?thesis
      using assms by (auto simp: import_key_def NewHyperliquidSignerFromHex_def intro: constructed_hl elim!: map_sum_InrE and_then_InrE)
  next
    case bt
    then show ?thesis
      using assms by (auto simp: import_key_def parseBittensorImport_def NewBittensorSignerFromPrivate_def NewBittensorSignerFromPhrase_def
          elim!: map_sum_InrE and_then_InrE split: if_splits)
  qed
qed

text \<open>What the two commands have done when they succeed.\<close>

definition added_key ::
  "('k, 'p, 'e) crypto_lib \<Rightarrow> 'w ks_env \<Rightarrow> ('w, 'c, 'q) cli_env \<Rightarrow> globals \<Rightarrow> string \<Rightarrow> ('w, 'd) cli_state \<Rightarrow> ('w, 'd) cli_state
     \<Rightarrow> ('k, 'p, 'e) keystore_state \<Rightarrow> ('k, 'p, 'e) signer \<Rightarrow> bool" where
  "added_key C K E g chain st st' ks s \<longleftrightarrow> (\<exists>w. openKeystore C K E g (ct_world st) = Some (Inr ks, w)) \<and> constructed C s
     \<and> chain_str (signer_chain s) = chain \<and> (\<exists>w. ks_Save C K (install s ks) w = (Inr (), ct_world st'))"

lemma import_adds:
  assumes "wallet_import_cmd C K E g ints chain from uri st = Some (Inr (), st')"
  shows "\<exists>ks s. added_key C K E g chain st st' ks s"
  using assms unfolding wallet_import_cmd_def
proof (elim with_keystore_InrE)
  fix ks w
  assume o: "openKeystore C K E g (ct_world st) = Some (Inr ks, w)"
    and b: "(if chain = ''bittensor'' \<and> uri \<noteq> []
       then (case NewBittensorSignerFromURI C uri of Inl e \<Rightarrow> (Inl e, st\<lparr>ct_world := w\<rparr>)
             | Inr k \<Rightarrow> set_and_save C K ''bittensor    '' ks (BittensorKey k) (st\<lparr>ct_world := w\<rparr>))
       else if from = [] then (Inl (Errorf ''--from <file> is required (or --from-uri for bittensor)''), st\<lparr>ct_world := w\<rparr>)
       else run_then (wrap_error (''read '' @ from) (on_cli (kv_read K from) (st\<lparr>ct_world := w\<rparr>))) (\<lambda>body st1.
            case import_key C ints chain (TrimSpace body) of
                Inl e \<Rightarrow> (Inl e, st1)
              | Inr s \<Rightarrow> set_and_save C K (chain_label chain) ks s st1)) = (Inr (), st')"
  show ?thesis
  proof (cases "chain = ''bittensor'' \<and> uri \<noteq> []")
    case True
    then obtain k where k: "NewBittensorSignerFromURI C uri = Inr k" "set_and_save C K ''bittensor    '' ks (BittensorKey k) (st\<lparr>ct_world := w\<rparr>) = (Inr (), st')"
      using b by (auto split: sum.splits)
    have "constructed C (BittensorKey k)" using k(1) by (auto simp: NewBittensorSignerFromURI_def elim!: map_sum_InrE)
    then have "added_key C K E g chain st st' ks (BittensorKey k)"
      using o True set_and_save_saved [OF k(2)] by (simp add: added_key_def)
    then show ?thesis by blast
  next
    case False
    then obtain body st1 s where s: "import_key C ints chain (TrimSpace body) = Inr s" "set_and_save C K (chain_label chain) ks s st1 = (Inr (), st')"
      using b by (auto elim!: run_then_InrE split: if_splits sum.splits)
    have "added_key C K E g chain st st' ks s"
      using o import_constructed [OF s(1)] set_and_save_saved [OF s(2)] by (simp add: added_key_def)
    then show ?thesis by blast
  qed
qed

lemma generate_adds:
  assumes "wallet_generate_cmd C K E g chain st = Some (Inr (), st')"
  shows "\<exists>ks s. added_key C K E g chain st st' ks s"
  using assms unfolding wallet_generate_cmd_def
proof (elim with_keystore_InrE)
  fix ks w
  let ?st = "st\<lparr>ct_world := w\<rparr>"
  assume o: "openKeystore C K E g (ct_world st) = Some (Inr ks, w)"
    and b: "(if chain = ''solana''
       then run_then (on_cli (GenerateSolanaKey C K) ?st) (\<lambda>k. set_and_save C K ''solana       '' ks (SolanaKey k))
       else if chain = ''hyperliquid''
       then run_then (on_cli (GenerateHyperliquidKey C K) ?st) (\<lambda>k. set_and_save C K ''hyperliquid  '' ks (HyperliquidKey k))
       else if chain = ''bittensor''
       then run_then (on_cli (GenerateBittensorKey C K) ?st) (\<lambda>k st1.
              on_cli (ks_Save C K (SetBittensor k ks)) (println bittensor_notice (println (''bittensor    '' @ bk_addr k) st1)))
       else (Inl (unknown_chain chain), ?st)) = (Inr (), st')"
  consider (sol) "chain = ''solana''" | (hl) "chain = ''hyperliquid''" | (bt) "chain = ''bittensor''"
    using b by (auto split: if_splits)
  then show ?thesis
  proof cases
    case sol
    then obtain k st1 where k: "on_cli (GenerateSolanaKey C K) ?st = (Inr k, st1)" "set_and_save C K ''solana       '' ks (SolanaKey k) st1 = (Inr (), st')"
      using b by (auto elim: run_then_InrE)
    have "constructed C (SolanaKey k)"
      using on_cliD [OF k(1), THEN conjunct1] by (auto simp: GenerateSolanaKey_def intro: constructed_sol elim!: run_then_InrE)
    then have "added_key C K E g chain st st' ks (SolanaKey k)" using o sol set_and_save_saved [OF k(2)] by (simp add: added_key_def)
    then show ?thesis by blast
  next
    case hl
    then obtain k st1 where k: "on_cli (GenerateHyperliquidKey C K) ?st = (Inr k, st1)"
        "set_and_save C K ''hyperliquid  '' ks (HyperliquidKey k) st1 = (Inr (), st')"
      using b by (auto elim: run_then_InrE)
    have "constructed C (HyperliquidKey k)"
      using on_cliD [OF k(1), THEN conjunct1] by (auto simp: GenerateHyperliquidKey_def intro: constructed_hl elim!: run_then_InrE)
    then have "added_key C K E g chain st st' ks (HyperliquidKey k)" using o hl set_and_save_saved [OF k(2)] by (simp add: added_key_def)
    then show ?thesis by blast
  next
    case bt
    then obtain k st1 where k: "on_cli (GenerateBittensorKey C K) ?st = (Inr k, st1)"
        "on_cli (ks_Save C K (SetBittensor k ks)) (println bittensor_notice (println (''bittensor    '' @ bk_addr k) st1)) = (Inr (), st')"
      using b by (auto elim: run_then_InrE)
    have "constructed C (BittensorKey k)"
      using on_cliD [OF k(1), THEN conjunct1]
      by (auto simp: GenerateBittensorKey_def NewBittensorSignerFromSeed_def elim!: run_then_InrE map_sum_InrE split: if_splits)
    moreover have "\<exists>w. ks_Save C K (install (BittensorKey k) ks) w = (Inr (), ct_world st')"
      using on_cliD [OF k(2), THEN conjunct1] unfolding SetBittensor_def by blast
    ultimately have "added_key C K E g chain st st' ks (BittensorKey k)" using o bt by (simp add: added_key_def)
    then show ?thesis by blast
  qed
qed

lemma ks_Signer_install: "ks_Signer (install s ks) c = (if c = signer_chain s then Inr s else ks_Signer ks c)"
  by (simp add: ks_Signer_def install_def update_conv')


section \<open>A concrete import\<close>

definition sample_cli_env :: "(string \<Rightarrow> string option, unit, unit) cli_env" where
  "sample_cli_env = \<lparr>cx_pg = null_pgx, cx_query = (\<lambda>w. ((None, 0), w)), cx_now = (\<lambda>w. (0, w)), cx_home = (\<lambda>_. Inr ''/root''),
     cx_getenv = (\<lambda>_ n. if n = ''PASS'' then ''p'' else [])\<rparr>"

definition sample_import :: "(string \<Rightarrow> string option, unit) cli_state" where
  "sample_import = \<lparr>ct_world = [''/i'' \<mapsto> hex_encode (sk_priv sample_sol_key)], ct_db = (), ct_out = []\<rparr>"

lemma sample_import_runs:
  "\<exists>st'. wallet_import_cmd sample_crypto sample_ks_env sample_cli_env (Some sample_config) (\<lambda>_. Inl ErrSyntax) ''solana'' ''/i'' [] sample_import
     = Some (Inr (), st')"
proof -
  have o: "openKeystore sample_crypto sample_ks_env sample_cli_env (Some sample_config) (ct_world sample_import)
      = Some (Inr sample_empty_keystore, ct_world sample_import)"
    by (simp add: openKeystore_def keystorePath_def keystorePassphrase_def passphrase_env_def sample_config_def sample_cli_env_def
        NewLocalKeystore_def sample_ks_env_def sample_empty_keystore_def sample_import_def)
  have "\<not> is_space c" if "c \<in> set (hex_encode (sk_priv sample_sol_key))" for c
    using hex_encode_val [OF that] by (auto simp: is_space_def hex_val_def)
  then have "TrimSpace (hex_encode (sk_priv sample_sol_key)) = hex_encode (sk_priv sample_sol_key)" by (rule TrimSpace_none)
  moreover have "made_key sample_crypto (SolanaKey sample_sol_key)" by (simp add: sample_sol_key_def)
  ultimately have i: "import_key sample_crypto (\<lambda>_. Inl ErrSyntax) ''solana'' (TrimSpace (hex_encode (sk_priv sample_sol_key)))
      = Inr (SolanaKey sample_sol_key)" by (simp add: import_key_def import_sol)
  have r: "on_cli (kv_read sample_ks_env ''/i'') sample_import = (Inr (hex_encode (sk_priv sample_sol_key)), sample_import)"
    by (simp add: on_cli_def sample_ks_env_def sample_import_def)
  have id: "ks_path sample_keystore = ''/k''" "ks_pass sample_keystore = ''p''"
    by (simp_all add: sample_keystore_def sample_empty_keystore_def SetSolana_def install_def)
  have "\<exists>w'. ks_Save sample_crypto sample_ks_env sample_keystore w = (Inr (), w')" for w
    by (simp add: sample_dk_length ks_Save_def sample_ks_env_def wrap_result_def wrap_error_def sealing_key_def newGCM_def id write_keystore_def
        flip: sample_file_def)
  then show ?thesis
    using o i r by (simp add: wallet_import_cmd_def with_keystore_def wrap_error_def set_and_save_def on_cli_def split_beta
        sample_keystore_def SetSolana_def) (metis fst_conv)
qed


end
