(* ===== verification/Doctor.thy ===== *)
theory Doctor
  imports Cli Api
begin

text \<open>
  The preflight checker (\<open>internal/cli/doctor.go\<close>): every check as a function of the configuration and the world, their order, and the printed
  verdict. The Go runtime's version, the docker binary, HTTP and the JSON decoder are parameters.
\<close>

section \<open>Results\<close>

datatype check_status = CheckOK | CheckWarn | CheckFail | CheckSkip

record doctor_check =
  dk_name :: string
  dk_status :: check_status
  dk_detail :: string
  dk_err :: "go_error option"

definition check_ok :: "string \<Rightarrow> string \<Rightarrow> doctor_check" where
  "check_ok name detail = \<lparr>dk_name = name, dk_status = CheckOK, dk_detail = detail, dk_err = None\<rparr>"

definition check_warn :: "string \<Rightarrow> string \<Rightarrow> doctor_check" where
  "check_warn name detail = \<lparr>dk_name = name, dk_status = CheckWarn, dk_detail = detail, dk_err = None\<rparr>"

definition check_fail :: "string \<Rightarrow> string \<Rightarrow> go_error \<Rightarrow> doctor_check" where
  "check_fail name detail e = \<lparr>dk_name = name, dk_status = CheckFail, dk_detail = detail, dk_err = Some e\<rparr>"

definition check_skip :: "string \<Rightarrow> string \<Rightarrow> doctor_check" where
  "check_skip name detail = \<lparr>dk_name = name, dk_status = CheckSkip, dk_detail = detail, dk_err = None\<rparr>"

section \<open>Helpers\<close>

text \<open>\<open>strings.Index\<close> of a text; the first position.\<close>

fun sub_index :: "string \<Rightarrow> string \<Rightarrow> nat option" where
  "sub_index s sub =
     (if has_prefix s sub then Some 0 else case s of [] \<Rightarrow> None | c # cs \<Rightarrow> map_option Suc (sub_index cs sub))"

declare sub_index.simps [simp del]

definition redactURL :: "string \<Rightarrow> string" where
  "redactURL raw =
     (case index_of CHR ''@'' raw of
        Some i \<Rightarrow>
          if 0 < i then (case sub_index raw ''://'' of
              Some j \<Rightarrow> if j < i then take (j + 3) raw @ ''REDACTED@'' @ drop (i + 1) raw else raw
            | None \<Rightarrow> raw)
          else raw
      | None \<Rightarrow> raw)"

definition str_truncate :: "string \<Rightarrow> nat \<Rightarrow> string" where
  "str_truncate s n = (if length s \<le> n then s else take n s @ ellipsis)"

fun atoi_from :: "int \<Rightarrow> string \<Rightarrow> int" where
  "atoi_from n [] = n"
| "atoi_from n (c # cs) = (if is_digit c then atoi_from (wrap64 (n * 10 + int (digit_val c))) cs else 0)"

definition atoiSafe :: "string \<Rightarrow> int" where
  "atoiSafe s = atoi_from 0 s"

section \<open>The checks\<close>

text \<open>
  What the checks see of the process: \<open>runtime.Version\<close>, docker's path and version output, the size of a file, one HTTP POST with a 5 second
  limit (\<open>Inl\<close> for a request that cannot be built or is not answered, \<open>Inr\<close> a status and a body), and the decoded answers: the error
  of the decoder, the result and the message of the error object.
\<close>

datatype post_failure = BadRequest go_error | NoAnswer go_error

record 'w doctor_env =
  dx_version :: string
  dx_lookpath :: "'w \<Rightarrow> go_error + string"
  dx_docker :: "string \<Rightarrow> 'w \<Rightarrow> (go_error + string) \<times> 'w"
  dx_size :: "string \<Rightarrow> 'w \<Rightarrow> nat"
  dx_post :: "string \<Rightarrow> string \<Rightarrow> 'w \<Rightarrow> (post_failure + int \<times> string) \<times> 'w"
  dx_slot :: "string \<Rightarrow> go_error option \<times> nat option \<times> string option"
  dx_text :: "string \<Rightarrow> go_error option \<times> string \<times> string option"

definition checkGoVersion :: "string \<Rightarrow> doctor_check" where
  "checkGoVersion v =
     (if \<not> has_prefix v ''go1.'' then check_warn ''go version'' (v @ '' (unrecognised version string)'')
      else let rest = TrimPrefix v ''go1.'';
               minor = (case index_of CHR ''.'' rest of Some i \<Rightarrow> take i rest | None \<Rightarrow> rest)
           in if atoiSafe minor < 25
              then check_fail ''go version'' (v @ '' (need Go 1.25+)'') (Errorf (''go version too old: '' @ v))
              else check_ok ''go version'' v)"

definition checkDocker :: "'w doctor_env \<Rightarrow> 'w \<Rightarrow> doctor_check \<times> 'w" where
  "checkDocker D w =
     (case dx_lookpath D w of
        Inl _ \<Rightarrow> (check_warn ''docker'' ''not on PATH (only required for `make up`)'', w)
      | Inr path \<Rightarrow>
          (case dx_docker D path w of
             (Inl e, w1) \<Rightarrow>
               ((check_warn ''docker'' (''found at '' @ path @ '' but `docker version` failed (daemon not running?)''))\<lparr>dk_err := Some e\<rparr>, w1)
           | (Inr out, w1) \<Rightarrow> (check_ok ''docker'' (TrimSpace out), w1)))"

definition checkConfigLoaded :: "config option \<Rightarrow> doctor_check" where
  "checkConfigLoaded cfg =
     (case cfg of
        None \<Rightarrow> \<lparr>dk_name = ''config loaded'', dk_status = CheckFail, dk_detail = ''config is nil'', dk_err = None\<rparr>
      | Some c \<Rightarrow> check_ok ''config loaded'' (''env='' @ env_str (cfg_env c)))"

definition checkDatabase :: "('w, 'c, 'q) cli_env \<Rightarrow> config \<Rightarrow> 'w \<Rightarrow> doctor_check \<times> 'w" where
  "checkDatabase E cfg w =
     (let url = redactURL (dc_url (cfg_database cfg))
      in case store_Open (cx_pg E) (cfg_database cfg) w of
           (Inl e, w1) \<Rightarrow> (check_fail ''database reachable'' url e, w1)
         | (Inr pool, w1) \<Rightarrow> (check_ok ''database reachable'' url, db_Close (cx_pg E) (Some (Some pool)) w1))"

definition checkKeystorePassphrase :: "('w, 'c, 'q) cli_env \<Rightarrow> config \<Rightarrow> 'w \<Rightarrow> doctor_check" where
  "checkKeystorePassphrase E cfg w =
     (if cx_getenv E w (passphrase_env cfg) = []
      then check_warn ''keystore passphrase env'' (passphrase_env cfg @ '' not set (only required for keystore-using commands)'')
      else check_ok ''keystore passphrase env'' (passphrase_env cfg @ '' set''))"

definition checkKeystoreFile :: "'w ks_env \<Rightarrow> 'w doctor_env \<Rightarrow> ('w, 'c, 'q) cli_env \<Rightarrow> globals \<Rightarrow> 'w \<Rightarrow> doctor_check \<times> 'w" where
  "checkKeystoreFile K D E g w =
     (case keystorePath E g w of
        Inl e \<Rightarrow> (check_fail ''keystore file'' ''cannot resolve path'' e, w)
      | Inr path \<Rightarrow>
          (case kv_stat K path w of
             (StatNotExist, w1) \<Rightarrow>
               (check_warn ''keystore file'' (path @ '' (not yet created '' @ em_dash @ '' run `permafrost wallet generate` or `wallet import`)''), w1)
           | (StatError e, w1) \<Rightarrow> (check_fail ''keystore file'' path e, w1)
           | (StatOk, w1) \<Rightarrow> (check_ok ''keystore file'' (path @ '' ('' @ nat_str (dx_size D path w1) @ '' bytes)''), w1)))"

definition check_provider :: "(string \<Rightarrow> string) \<Rightarrow> string \<Rightarrow> provider_entry \<Rightarrow> doctor_check" where
  "check_provider getenv name p =
     (let has_key = pe_api_key p \<noteq> [] \<or> pe_api_key_env p \<noteq> [] \<and> getenv (pe_api_key_env p) \<noteq> []
      in if pe_base_url p = [] then check_fail (''inference: '' @ name) ''base_url is required'' (Errorf ''base_url is empty'')
         else if pe_api_key_env p \<noteq> [] \<and> \<not> has_key
         then check_warn (''inference: '' @ name)
                (''base_url='' @ pe_base_url p @ '' but '' @ pe_api_key_env p @ '' not set (provider may reject auth)'')
         else check_ok (''inference: '' @ name) (''base_url='' @ pe_base_url p))"

definition checkInferenceProviders :: "('w, 'c, 'q) cli_env \<Rightarrow> config \<Rightarrow> 'w \<Rightarrow> doctor_check list" where
  "checkInferenceProviders E cfg w =
     (let ps = ic_providers (cfg_inference cfg)
      in if ps = [] then [check_warn ''inference providers'' ''none configured (only required for LLM-using strategies)'']
         else map (\<lambda>name. check_provider (cx_getenv E w) name (the (map_of ps name))) (sort (map fst ps)))"

text \<open>The answers common to the three RPC checks: a request that fails, a full endpoint, another status.\<close>

definition http_check ::
  "string \<Rightarrow> string \<Rightarrow> string \<Rightarrow> string \<Rightarrow> (string \<Rightarrow> string) \<Rightarrow> (string \<Rightarrow> doctor_check) \<Rightarrow> post_failure + int \<times> string \<Rightarrow> doctor_check" where
  "http_check name url net_hint rate_hint shorten good r =
     (case r of
        Inl (BadRequest e) \<Rightarrow> check_fail name (redactURL url) e
      | Inl (NoAnswer e) \<Rightarrow> check_fail name (redactURL url @ net_hint) e
      | Inr (code, body) \<Rightarrow>
          if code = 429 then check_warn name (redactURL url @ rate_hint)
          else if code \<noteq> 200
          then check_fail name (redactURL url @ '' (HTTP '' @ int_str code @ '')'') (Errorf (''http '' @ int_str code @ '': '' @ shorten body))
          else good body)"

definition checkSolanaRPC :: "'w doctor_env \<Rightarrow> config \<Rightarrow> 'w \<Rightarrow> doctor_check \<times> 'w" where
  "checkSolanaRPC D cfg w =
     (let name = ''solana RPC''; url = nc_rpc_url (cfg_solana cfg)
      in if url = [] then (check_skip name ''not configured'', w)
         else let (r, w1) = dx_post D url ''{\"jsonrpc\":\"2.0\",\"id\":1,\"method\":\"getSlot\"}'' w
              in (http_check name url '' (network error)'' '' (rate-limited; try a paid provider like Helius/Triton)'' (\<lambda>b. str_truncate b 200)
                   (\<lambda>body. case dx_slot D (take 4096 body) of
                        (Some e, _) \<Rightarrow> check_fail name (redactURL url @ '' (unparseable response)'') e
                      | (None, _, Some m) \<Rightarrow> check_fail name (redactURL url @ '' (rpc error: '' @ m @ '')'') (Errorf m)
                      | (None, None, None) \<Rightarrow> check_warn name (redactURL url @ '' (no result; method may be restricted)'')
                      | (None, Some slot, None) \<Rightarrow> check_ok name (redactURL url @ '' (slot '' @ nat_str slot @ '')''))
                   (map_sum id (\<lambda>(c, b). (c, take 4096 b)) r), w1))"

definition check_evm :: "'w doctor_env \<Rightarrow> string \<Rightarrow> string \<Rightarrow> 'w \<Rightarrow> doctor_check \<times> 'w" where
  "check_evm D chain url w =
     (let name = ''evm RPC: '' @ chain
      in if url = [] then (check_fail name ''rpc_url is empty (try chainlist.org for a fresh one)'' (Errorf ''rpc_url empty''), w)
         else let (r, w1) = dx_post D url ''{\"jsonrpc\":\"2.0\",\"id\":1,\"method\":\"eth_blockNumber\",\"params\":[]}'' w
              in (http_check name url '' (network error; try a different RPC from chainlist.org)''
                   '' (rate-limited; try a different RPC from chainlist.org)'' (\<lambda>b. b)
                   (\<lambda>body. case dx_text D body of
                        (_, _, Some m) \<Rightarrow> check_fail name (redactURL url @ '' (rpc error: '' @ m @ '')'') (Errorf m)
                      | (_, block, None) \<Rightarrow> check_ok name (redactURL url @ '' (block '' @ block @ '')''))
                   (map_sum id (\<lambda>(c, b). (c, take 1024 b)) r), w1))"

fun check_evms :: "'w doctor_env \<Rightarrow> (string \<times> string) list \<Rightarrow> string list \<Rightarrow> 'w \<Rightarrow> doctor_check list \<times> 'w" where
  "check_evms D chs [] w = ([], w)"
| "check_evms D chs (n # ns) w =
     (let (r, w1) = check_evm D n (the (map_of chs n)) w; (rs, w2) = check_evms D chs ns w1 in (r # rs, w2))"

definition checkEVMRPCs :: "'w doctor_env \<Rightarrow> config \<Rightarrow> 'w \<Rightarrow> doctor_check list \<times> 'w" where
  "checkEVMRPCs D cfg w =
     (let chs = ec_chains (cfg_evm cfg)
      in if chs = [] then ([check_skip ''evm RPCs'' ''no chains configured''], w) else check_evms D chs (sort (map fst chs)) w)"

definition checkBittensorRPC :: "'w doctor_env \<Rightarrow> config \<Rightarrow> 'w \<Rightarrow> doctor_check \<times> 'w" where
  "checkBittensorRPC D cfg w =
     (let name = ''bittensor RPC''; url = ResolvedRPCURL (cfg_bittensor cfg);
          http_url = replace_first ''ws://'' ''http://'' (replace_first ''wss://'' ''https://'' url)
      in if url = [] then (check_skip name ''not configured'', w)
         else let (r, w1) = dx_post D http_url ''{\"jsonrpc\":\"2.0\",\"id\":1,\"method\":\"system_chain\",\"params\":[]}'' w
              in (http_check name url '' (network error)'' '' (rate-limited; try a paid provider like Dwellir or self-host)''
                   (\<lambda>b. str_truncate b 200)
                   (\<lambda>body. case dx_text D body of
                        (Some e, _) \<Rightarrow> check_fail name (redactURL url @ '' (unparseable response)'') e
                      | (None, _, Some m) \<Rightarrow> check_fail name (redactURL url @ '' (rpc error: '' @ m @ '')'') (Errorf m)
                      | (None, chain, None) \<Rightarrow> check_ok name (redactURL url @ '' ('' @ chain @ '')''))
                   (map_sum id (\<lambda>(c, b). (c, take 4096 b)) r), w1))"

definition checkStrategiesRegistered :: "'s constructors \<Rightarrow> doctor_check" where
  "checkStrategiesRegistered cs =
     (if strategy_List cs = []
      then check_fail ''strategies registered''
             ''no strategies registered (cmd/permafrost(d)/strategies.go missing imports?)'' (Errorf ''registry empty'')
      else check_ok ''strategies registered'' (str_Join '', '' (strategy_List cs)))"

section \<open>The run and its verdict\<close>

definition runDoctor ::
  "'w ks_env \<Rightarrow> 'w doctor_env \<Rightarrow> ('w, 'c, 'q) cli_env \<Rightarrow> 's constructors \<Rightarrow> globals \<Rightarrow> 'w \<Rightarrow> doctor_check list \<times> 'w" where
  "runDoctor K D E cs g w =
     (let (docker, w1) = checkDocker D w
      in case g of
           None \<Rightarrow> ([checkGoVersion (dx_version D), docker,
               \<lparr>dk_name = ''config loaded'', dk_status = CheckFail,
                dk_detail = ''globals not initialised; cannot run config-dependent checks'', dk_err = None\<rparr>], w1)
         | Some cfg \<Rightarrow>
             (let (db, w2) = checkDatabase E cfg w1;
                  (file, w3) = checkKeystoreFile K D E g w2;
                  (sol, w4) = checkSolanaRPC D cfg w3;
                  (evms, w5) = checkEVMRPCs D cfg w4;
                  (bt, w6) = checkBittensorRPC D cfg w5
              in ([checkGoVersion (dx_version D), docker, checkConfigLoaded g, db, checkKeystorePassphrase E cfg w2, file]
                  @ checkInferenceProviders E cfg w3 @ [sol] @ evms @ [bt, checkStrategiesRegistered cs], w6)))"

definition rule_line :: "nat \<Rightarrow> string" where
  "rule_line n = concat (replicate n [CHR 0xE2, CHR 0x94, CHR 0x80])"

fun statusGlyph :: "check_status \<Rightarrow> string" where
  "statusGlyph CheckOK = [CHR 0x1B] @ ''[32m'' @ [CHR 0xE2, CHR 0x9C, CHR 0x93] @ [CHR 0x1B] @ ''[0m''"
| "statusGlyph CheckWarn = [CHR 0x1B] @ ''[33m'' @ [CHR 0xE2, CHR 0x9A, CHR 0xA0] @ [CHR 0x1B] @ ''[0m''"
| "statusGlyph CheckFail = [CHR 0x1B] @ ''[31m'' @ [CHR 0xE2, CHR 0x9C, CHR 0x97] @ [CHR 0x1B] @ ''[0m''"
| "statusGlyph CheckSkip = [CHR 0xE2, CHR 0x94, CHR 0x80]"

definition doctor_row :: "bool \<Rightarrow> doctor_check \<Rightarrow> string" where
  "doctor_row verbose r =
     ''  '' @ statusGlyph (dk_status r) @ ''  '' @ pad_right 26 (dk_name r) @ '' '' @ dk_detail r @ newline
     @ (case dk_err r of
          Some e \<Rightarrow> if verbose then ''       '' @ [CHR 0xE2, CHR 0x94, CHR 0x94] @ rule_line 1 @ '' '' @ error_text e @ newline else []
        | None \<Rightarrow> [])"

definition count_status :: "check_status \<Rightarrow> doctor_check list \<Rightarrow> nat" where
  "count_status s rs = length (filter (\<lambda>r. dk_status r = s) rs)"

definition doctor_summary :: "doctor_check list \<Rightarrow> string" where
  "doctor_summary rs = str_Join '', ''
     (concat (map (\<lambda>(s, what). if 0 < count_status s rs then [nat_str (count_status s rs) @ what] else [])
       [(CheckOK, '' ok''), (CheckWarn, '' warning(s)''), (CheckFail, '' error(s)''), (CheckSkip, '' skipped'')]))"

definition preflight_failed :: go_error where
  "preflight_failed = Errorf ''preflight failed''"

definition printDoctorResults :: "doctor_check list \<Rightarrow> bool \<Rightarrow> ('w, 'd) cli_state \<Rightarrow> (go_error + unit) \<times> ('w, 'd) cli_state" where
  "printDoctorResults rs verbose st =
     (let st1 = println (rule_line 65) (print (concat (map (doctor_row verbose) rs)) (println (''Permafrost preflight '' @ rule_line 43) st));
          sum_text = doctor_summary rs
      in if 0 < count_status CheckFail rs
         then (let st2 = println (sum_text @ ''. Fix errors before `permafrost agent start`.'') st1
               in (Inl preflight_failed, if verbose then st2 else println ''Re-run with --verbose to see underlying errors.'' st2))
         else if 0 < count_status CheckWarn rs
         then (Inr (), println (sum_text @ ''. You're good to go (warnings indicate optional features).'') st1)
         else (Inr (), println (sum_text @ ''. You're good to go.'') st1))"

definition doctor_cmd ::
  "'w ks_env \<Rightarrow> 'w doctor_env \<Rightarrow> ('w, 'c, 'q) cli_env \<Rightarrow> 's constructors \<Rightarrow> globals \<Rightarrow> bool \<Rightarrow> ('w, 'd) cli_state
     \<Rightarrow> (go_error + unit) \<times> ('w, 'd) cli_state" where
  "doctor_cmd K D E cs g verbose st =
     (let (rs, st1) = on_cli (runDoctor K D E cs g) st in printDoctorResults rs verbose st1)"

section \<open>Properties\<close>

lemma sub_index_append: "(\<And>c. c \<in> set pre \<Longrightarrow> c \<noteq> d) \<Longrightarrow> sub_index (pre @ (d # sub) @ tail) (d # sub) = Some (length pre)"
  by (induction pre) (auto simp: sub_index.simps has_prefix_def)

lemma sub_index_none_Cons [simp]: "sub_index [] (c # cs) = None"
  by (simp add: sub_index.simps has_prefix_def)

text \<open>
  The name and password of a URL do not reach the output, as long as no \<open>@\<close> occurs in them: the scrub cuts at the first one.
\<close>

lemma redact_at_first:
  assumes "CHR ''@'' \<notin> set scheme" and "CHR '':'' \<notin> set scheme" and "CHR ''@'' \<notin> set cred"
  shows "redactURL (scheme @ ''://'' @ cred @ ''@'' @ rest) = scheme @ ''://REDACTED@'' @ rest"
proof -
  let ?u = "scheme @ ''://'' @ cred @ ''@'' @ rest"
  have i: "index_of CHR ''@'' ?u = Some (length scheme + 3 + length cred)"
    using index_of_append [of "CHR ''@''" "scheme @ ''://'' @ cred" rest] assms by simp
  have j: "sub_index ?u ''://'' = Some (length scheme)"
    using sub_index_append [of scheme "CHR '':''" "''//''" "cred @ ''@'' @ rest"] assms(2) by auto
  have "drop (length xs) (xs @ rest) = rest" for xs :: string by simp
  from this [of "scheme @ ''://'' @ cred @ ''@''"] have "drop (length scheme + 3 + length cred + 1) ?u = rest" by simp
  then show ?thesis using i j by (simp add: redactURL_def)
qed

lemma password_tail_leaks: "redactURL ''postgres://op:pa@ss@db/p'' = ''postgres://REDACTED@ss@db/p''"
  using redact_at_first [of "''postgres''" "''op:pa''" "''ss@db/p''"] by simp

lemma atoi_from_digits: "int (digits_val (s @ t)) < 2 ^ 63 \<Longrightarrow> list_all is_digit t \<Longrightarrow> atoi_from (int (digits_val s)) t = int (digits_val (s @ t))"
proof (induction t arbitrary: s)
  case (Cons c t)
  have "digits_val (s @ [c]) \<le> digits_val (s @ c # t)" using foldl_digits_ge by (simp add: digits_val_def)
  then have "wrap64 (int (digits_val s) * 10 + int (digit_val c)) = int (digits_val (s @ [c]))"
    using Cons.prems by (subst wrap64_id) (auto simp: digits_val_snoc)
  then show ?case using Cons.IH [of "s @ [c]"] Cons.prems by simp
qed simp

text \<open>A release reports its minor number; a release candidate has none the check can read, so it is taken for an old version.\<close>

lemma atoiSafe_nat_str: "int n < 2 ^ 63 \<Longrightarrow> atoiSafe (nat_str n) = int n"
  using atoi_from_digits [of "[]" "nat_str n"] nat_str_digits [of n] nat_str_val [of n] by (simp add: atoiSafe_def digits_val_def list_all_iff)

lemma release_candidate_fails: "dk_status (checkGoVersion ''go1.26rc1'') = CheckFail"
  by code_simp

lemma check_names [simp]:
  "dk_name (check_ok n d) = n" "dk_name (check_warn n d) = n" "dk_name (check_fail n d e) = n" "dk_name (check_skip n d) = n"
  by (simp_all add: check_ok_def check_warn_def check_fail_def check_skip_def)

lemma http_check_name [simp]: "(\<And>b. dk_name (good b) = name) \<Longrightarrow> dk_name (http_check name url h1 h2 shorten good r) = name"
  by (auto simp: http_check_def split: sum.split post_failure.split prod.split)

lemma single_check_names [simp]:
  "dk_name (checkGoVersion v) = ''go version''" "dk_name (fst (checkDocker D w)) = ''docker''"
  "dk_name (checkConfigLoaded c) = ''config loaded''" "dk_name (fst (checkDatabase E cfg w)) = ''database reachable''"
  "dk_name (checkKeystorePassphrase E cfg w) = ''keystore passphrase env''"
  "dk_name (fst (checkKeystoreFile K D E g w)) = ''keystore file''"
  "dk_name (check_provider getenv n p) = ''inference: '' @ n" "dk_name (checkStrategiesRegistered cs) = ''strategies registered''"
  by (auto simp: checkGoVersion_def checkDocker_def checkConfigLoaded_def checkDatabase_def checkKeystorePassphrase_def
      checkKeystoreFile_def check_provider_def checkStrategiesRegistered_def Let_def split: option.split sum.split prod.split stat_result.split)

lemma rpc_check_names [simp]:
  "dk_name (fst (checkSolanaRPC D cfg w)) = ''solana RPC''" "dk_name (fst (checkBittensorRPC D cfg w)) = ''bittensor RPC''"
  "dk_name (fst (check_evm D n url w)) = ''evm RPC: '' @ n"
  by (simp_all add: checkSolanaRPC_def checkBittensorRPC_def check_evm_def Let_def split_beta split: option.split)

lemma check_evms_names: "map dk_name (fst (check_evms D chs ns w)) = map ((@) ''evm RPC: '') ns"
  by (induction ns arbitrary: w) (simp_all add: split_beta)

lemma count_fail_iff: "0 < count_status CheckFail rs \<longleftrightarrow> (\<exists>r \<in> set rs. dk_status r = CheckFail)"
  by (auto simp: count_status_def filter_empty_conv)

text \<open>
  The preflight runs every check in order, whatever the earlier ones found, and fails exactly when a check failed. Warnings and skipped checks never fail it.
\<close>

theorem doctor_runs_every_check:
  "map dk_name (fst (runDoctor K D E cs (Some cfg) (ct_world st))) =
     [''go version'', ''docker'', ''config loaded'', ''database reachable'', ''keystore passphrase env'', ''keystore file'']
     @ (if ic_providers (cfg_inference cfg) = [] then [''inference providers'']
        else map ((@) ''inference: '') (sort (map fst (ic_providers (cfg_inference cfg)))))
     @ [''solana RPC'']
     @ (if ec_chains (cfg_evm cfg) = [] then [''evm RPCs''] else map ((@) ''evm RPC: '') (sort (map fst (ec_chains (cfg_evm cfg)))))
     @ [''bittensor RPC'', ''strategies registered'']
   \<and> fst (doctor_cmd K D E cs (Some cfg) verbose st) =
       (if \<exists>c \<in> set (fst (runDoctor K D E cs (Some cfg) (ct_world st))). dk_status c = CheckFail then Inl preflight_failed else Inr ())"
proof
  show "fst (doctor_cmd K D E cs (Some cfg) verbose st) =
       (if \<exists>c \<in> set (fst (runDoctor K D E cs (Some cfg) (ct_world st))). dk_status c = CheckFail then Inl preflight_failed else Inr ())"
    unfolding count_fail_iff [symmetric] by (simp add: doctor_cmd_def printDoctorResults_def on_cli_def Let_def split_beta)
qed (simp add: runDoctor_def Let_def split_beta checkInferenceProviders_def checkEVMRPCs_def check_evms_names comp_def)

end
