(* ===== verification/StrategyNew.thy ===== *)
theory StrategyNew
  imports CliInit StrategyConfig Api
begin

text \<open>
  The strategy scaffold (\<open>internal/cli/strategy_new.go\<close>): the name check, the rendering of the embedded templates and the registration of the new
  package in the import files of both binaries. The embedded templates are a list of file names and texts; \<open>render\<close> is \<open>text/template\<close>.
\<close>

section \<open>Names\<close>

definition is_lower :: "char \<Rightarrow> bool" where
  "is_lower c \<longleftrightarrow> 97 \<le> (of_char c :: nat) \<and> (of_char c :: nat) \<le> 122"

fun snakeCase :: "string \<Rightarrow> bool" where
  "snakeCase [] \<longleftrightarrow> False"
| "snakeCase (c # cs) \<longleftrightarrow> is_lower c \<and> list_all (\<lambda>d. is_lower d \<or> is_digit d \<or> d = CHR ''_'') cs"

definition validateStrategyName :: "string \<Rightarrow> go_error option" where
  "validateStrategyName name =
     (if \<not> snakeCase name then Some (Errorf (''strategy name '' @ quoted name @ '' must be lowercase snake_case (e.g. my_strategy)''))
      else if 64 < length name then Some (Errorf (''strategy name too long (max 64 chars): '' @ quoted name))
      else None)"

section \<open>Templates\<close>

record template_data =
  td_name :: string
  td_package :: string
  td_path :: string

fun write_templates ::
  "'w ks_env \<Rightarrow> (string \<Rightarrow> template_data \<Rightarrow> go_error + string) \<Rightarrow> string \<Rightarrow> template_data \<Rightarrow> (string \<times> string) list \<Rightarrow> 'w
     \<Rightarrow> (go_error + unit) \<times> 'w" where
  "write_templates K render dir data [] w = (Inr (), w)"
| "write_templates K render dir data ((name, body) # ts) w =
     (case render body data of
        Inl e \<Rightarrow> (Inl e, w)
      | Inr text \<Rightarrow> run_then (kv_write K (path_Join [dir, TrimSuffix name ''.tmpl'']) text 420 w) (\<lambda>_. write_templates K render dir data ts))"

definition renderStrategyTemplates ::
  "'w ks_env \<Rightarrow> (string \<Rightarrow> template_data \<Rightarrow> go_error + string) \<Rightarrow> (string \<times> string) list \<Rightarrow> string \<Rightarrow> template_data \<Rightarrow> 'w
     \<Rightarrow> (go_error + unit) \<times> 'w" where
  "renderStrategyTemplates K render ts dir data w = run_then (kv_mkdir K dir 493 w) (\<lambda>_. write_templates K render dir data ts)"

section \<open>Registration\<close>

record import_target =
  it_path :: string
  it_local :: bool

definition last_sub_index :: "string \<Rightarrow> string \<Rightarrow> nat option" where
  "last_sub_index s sub = find (\<lambda>i. has_prefix (drop i s) sub) (rev [0 ..< Suc (length s)])"

definition local_header :: string where
  "local_header = concat (map (\<lambda>l. l @ newline)
     [''package main'', [], ''// This file is gitignored. Add private strategy blank-imports here.'',
      ''// Each entry's init() runs at binary startup and registers the'', ''// strategy with the framework registry.'', [],
      ''import ('', '')''])"

definition insert_import :: "'w ks_env \<Rightarrow> string \<Rightarrow> string \<Rightarrow> string \<Rightarrow> 'w \<Rightarrow> (go_error + unit) \<times> 'w" where
  "insert_import K path line body w =
     (if str_contains body line then (Inr (), w)
      else case last_sub_index body (newline @ '')'') of
          None \<Rightarrow> (Inl (Errorf (''could not find import block close in '' @ path @ ''; please add manually'')), w)
        | Some i \<Rightarrow> kv_write K path (take i body @ newline @ line @ drop i body) 420 w)"

definition appendImport :: "'w ks_env \<Rightarrow> import_target \<Rightarrow> string \<Rightarrow> 'w \<Rightarrow> (go_error + unit) \<times> 'w" where
  "appendImport K t line w =
     (case kv_read K (it_path t) w of
        (Inr body, w1) \<Rightarrow> insert_import K (it_path t) line body w1
      | (Inl e, w1) \<Rightarrow>
          if errors_is e ''file does not exist''
          then if \<not> it_local t then (Inl (Errorf (''expected '' @ it_path t @ '' to exist (committed file)'')), w1)
               else run_then (kv_mkdir K (kv_dir K (it_path t)) 493 w1) (\<lambda>_. insert_import K (it_path t) line local_header)
          else (Inl e, w1))"

fun append_imports :: "'w ks_env \<Rightarrow> import_target list \<Rightarrow> string \<Rightarrow> 'w \<Rightarrow> (go_error + unit) \<times> 'w" where
  "append_imports K [] line w = (Inr (), w)"
| "append_imports K (t # ts) line w =
     run_then (wrap_error (''update '' @ it_path t) (appendImport K t line w)) (\<lambda>_. append_imports K ts line)"

definition import_targets :: "bool \<Rightarrow> import_target list" where
  "import_targets private =
     (let file = (if private then ''strategies_local.go'' else ''strategies.go'')
      in map (\<lambda>b. \<lparr>it_path = path_Join [''cmd'', b, file], it_local = private\<rparr>) [''permafrost'', ''permafrostd''])"

definition strategy_subdir :: "string \<Rightarrow> bool \<Rightarrow> string" where
  "strategy_subdir name private = path_Join (if private then [''strategies'', ''private'', name] else [''strategies'', name])"

definition import_line :: "string \<Rightarrow> string" where
  "import_line subdir = [CHR 0x09] @ ''_ '' @ [CHR 0x22] @ ''github.com/teslashibe/permafrost/'' @ subdir @ [CHR 0x22]"

section \<open>The command\<close>

definition scaffold_report :: "string \<Rightarrow> string \<Rightarrow> string \<Rightarrow> import_target list \<Rightarrow> ('w, 'd) cli_state \<Rightarrow> ('w, 'd) cli_state" where
  "scaffold_report subdir tpl name files st =
     println ''  permafrost agent run <id>      # foreground iteration; SIGINT to stop''
     (println (''  permafrost agent create --strategy '' @ name @ '' --perp hyperliquid --alloc 100'')
     (println ''  go build ./...'' (println ''Next steps:'' (println []
     (fold (\<lambda>f. println (check_mark @ '' Registered in '' @ it_path f)) files
     (println (check_mark @ '' Created '' @ subdir @ ''/ (template='' @ tpl @ '')'') st))))))"

definition runStrategyNew ::
  "'w ks_env \<Rightarrow> ('w \<Rightarrow> go_error + string) \<Rightarrow> 's constructors \<Rightarrow> (string \<Rightarrow> template_data \<Rightarrow> go_error + string) \<Rightarrow> (string \<times> string) list
     \<Rightarrow> string \<Rightarrow> string \<Rightarrow> bool \<Rightarrow> ('w, 'd) cli_state \<Rightarrow> (go_error + unit) \<times> ('w, 'd) cli_state" where
  "runStrategyNew K getwd reg render templates name tpl private st =
     (case validateStrategyName name of
        Some e \<Rightarrow> (Inl e, st)
      | None \<Rightarrow>
          (case strategy_Get name reg of
             Inr _ \<Rightarrow> (Inl (Errorf (''strategy '' @ quoted name @ '' is already registered (collision with a built-in or another local strategy)'')), st)
           | Inl _ \<Rightarrow>
               if tpl \<noteq> ''noop''
               then (Inl (Errorf (''template '' @ quoted tpl @ '' is not shipped yet (only 'noop' available in v0.1; copy strategies/dca_buy or strategies/market_maker_basic for full working examples)'')), st)
               else case wrap_result ''getwd'' (getwd (ct_world st)) of
                   Inl e \<Rightarrow> (Inl e, st)
                 | Inr cwd \<Rightarrow>
                     (let subdir = strategy_subdir name private; dir = path_Join [cwd, subdir]
                      in case on_cli (kv_stat K dir) st of
                           (StatOk, st1) \<Rightarrow> (Inl (Errorf (''strategy directory already exists at '' @ dir)), st1)
                         | (_, st1) \<Rightarrow>
                             run_then (wrap_error ''render template'' (on_cli (renderStrategyTemplates K render templates dir
                               \<lparr>td_name = name, td_package = name, td_path = subdir\<rparr>) st1)) (\<lambda>_ st2.
                             run_then (on_cli (append_imports K (import_targets private) (import_line subdir)) st2) (\<lambda>_ st3.
                             (Inr (), scaffold_report subdir tpl name (import_targets private) st3))))))"

section \<open>Properties\<close>

lemma str_contains_middle: "str_contains (a @ line @ b) line"
  unfolding str_contains_def list_ex_iff by (rule bexI [of _ "length a"]) simp_all

text \<open>A name may still be a word that no Go package can have.\<close>

lemma keyword_passes: "validateStrategyName ''func'' = None"
  by code_simp

text \<open>The text a registration starts from: the file, or the header of a local file that is not there.\<close>

definition import_base :: "(string \<Rightarrow> string option) \<Rightarrow> import_target \<Rightarrow> string \<Rightarrow> bool" where
  "import_base fs t body \<longleftrightarrow> fs (it_path t) = Some body \<or> fs (it_path t) = None \<and> it_local t \<and> body = local_header"

context file_disk
begin

text \<open>What one registration does to the files.\<close>

lemma insert_import_effect:
  assumes "insert_import K p line body w = (r, w1)"
  shows "(\<forall>q. q \<noteq> p \<longrightarrow> files w1 q = files w q)
    \<and> (r = Inr () \<longrightarrow> (str_contains body line \<and> w1 = w)
        \<or> (\<exists>i \<le> length body. \<not> str_contains body line \<and> files w1 p = Some (take i body @ newline @ line @ drop i body)))"
proof (cases "str_contains body line")
  case False
  show ?thesis
  proof (cases "last_sub_index body (newline @ '')'')")
    case (Some i)
    have "i \<le> length body" using Some by (auto simp: last_sub_index_def find_Some_iff rev_nth simp del: upt_Suc)
    moreover have "files w1 q = files w q" if "q \<noteq> p" for q
      using assms False Some write_files [OF that, of "take i body @ newline @ line @ drop i body" 420 w] by (simp add: insert_import_def)
    ultimately show ?thesis using assms False Some write_done by (fastforce simp: insert_import_def)
  qed (use assms False in \<open>auto simp: insert_import_def\<close>)
qed (use assms in \<open>simp add: insert_import_def\<close>)

lemma appendImport_runs:
  assumes "appendImport K t line w = (r, w1)"
  shows "files w1 = files w \<and> r \<noteq> Inr ()
    \<or> (\<exists>body w0. import_base (files w) t body \<and> files w0 = files w \<and> insert_import K (it_path t) line body w0 = (r, w1))"
proof -
  obtain x w0 where x: "kv_read K (it_path t) w = (x, w0)" by fastforce
  then have f: "files w0 = files w" using read_files [of "it_path t" w] by simp
  show ?thesis
  proof (cases x)
    case (Inr body)
    then show ?thesis using assms x f read_text by (auto simp: appendImport_def import_base_def)
  next
    case (Inl e)
    obtain y w2 where m: "kv_mkdir K (kv_dir K (it_path t)) 493 w0 = (y, w2)" by fastforce
    then have f2: "files w2 = files w" using mkdir_files [of "kv_dir K (it_path t)" 493 w0] f by simp
    show ?thesis
    proof (cases "errors_is e ''file does not exist'' \<and> it_local t")
      case True
      then have "import_base (files w) t local_header" using read_missing x Inl by (auto simp: import_base_def)
      then show ?thesis using assms x Inl True m f2 by (cases y) (auto simp: appendImport_def)
    qed (use assms x Inl f in \<open>auto simp: appendImport_def split: if_splits\<close>)
  qed
qed

lemma appendImport_effect:
  assumes "appendImport K t line w = (r, w1)"
  shows "(\<forall>q. q \<noteq> it_path t \<longrightarrow> files w1 q = files w q)
    \<and> (r = Inr () \<longrightarrow> (\<exists>body i. i \<le> length body \<and> import_base (files w) t body \<and>
          (if str_contains body line then files w1 = files w
           else files w1 (it_path t) = Some (take i body @ newline @ line @ drop i body))))"
  using appendImport_runs [OF assms]
proof (elim disjE exE conjE)
  fix body w0
  assume b: "import_base (files w) t body" "files w0 = files w" "insert_import K (it_path t) line body w0 = (r, w1)"
  from insert_import_effect [OF b(3)] b(1,2) show ?thesis by fastforce
qed simp

end

text \<open>
  Registering a strategy is a single insertion and is idempotent. A registration that succeeds leaves every other file alone, keeps the text that was in the import file (or the header of a
  new local file) around the one line it inserts, and leaves that line in the file; when the line is in the file already, nothing is written.
\<close>

theorem registration_inserts_once:
  assumes "file_disk K files" and "appendImport K t line w = (Inr (), w1)"
  shows "(\<forall>q. q \<noteq> it_path t \<longrightarrow> files w1 q = files w q)
    \<and> (\<exists>body. import_base (files w) t body
        \<and> (if str_contains body line then files w1 = files w
           else \<exists>pre post. body = pre @ post \<and> files w1 (it_path t) = Some (pre @ newline @ line @ post)))
    \<and> (files w (it_path t) \<noteq> None \<or> \<not> str_contains local_header line \<longrightarrow>
        (\<forall>w2 r w3. files w2 = files w1 \<longrightarrow> appendImport K t line w2 = (r, w3) \<longrightarrow> files w3 = files w1))"
proof -
  note e = file_disk.appendImport_effect [OF assms]
  from conjunct2 [OF e, THEN mp, OF refl] obtain body i where b: "i \<le> length body" "import_base (files w) t body"
      "if str_contains body line then files w1 = files w
       else files w1 (it_path t) = Some (take i body @ newline @ line @ drop i body)" by (elim exE conjE)
  have 2: "if str_contains body line then files w1 = files w
      else \<exists>pre post. body = pre @ post \<and> files w1 (it_path t) = Some (pre @ newline @ line @ post)"
    using b(3) append_take_drop_id [of i body, symmetric] by (cases "str_contains body line") (simp, simp only: if_False, blast)
  have "files w3 = files w1"
    if n: "files w (it_path t) \<noteq> None \<or> \<not> str_contains local_header line" and w2: "files w2 = files w1" "appendImport K t line w2 = (r, w3)" for w2 r w3
  proof -
    have "\<exists>c. files w1 (it_path t) = Some c \<and> str_contains c line"
    proof (cases "str_contains body line")
      case True
      then show ?thesis using b n by (auto simp: import_base_def)
    next
      case False
      then show ?thesis using b(3) str_contains_middle [of "take i body @ newline" line "drop i body"] by simp
    qed
    then obtain c where c: "files w1 (it_path t) = Some c" "str_contains c line" by blast
    from file_disk.appendImport_runs [OF assms(1) w2(2)] show ?thesis
    proof (elim disjE exE conjE)
      fix body' w0
      assume "import_base (files w2) t body'" "files w0 = files w2" "insert_import K (it_path t) line body' w0 = (r, w3)"
      then show ?thesis using c w2(1) by (simp add: import_base_def insert_import_def)
    qed (simp add: w2)
  qed
  then have 3: "files w (it_path t) \<noteq> None \<or> \<not> str_contains local_header line \<longrightarrow>
      (\<forall>w2 r w3. files w2 = files w1 \<longrightarrow> appendImport K t line w2 = (r, w3) \<longrightarrow> files w3 = files w1)" by blast
  show ?thesis by (intro conjI exI [of _ body] conjunct1 [OF e] b(2) 2 3)
qed

definition sample_target :: import_target where
  "sample_target = \<lparr>it_path = ''s.go'', it_local = False\<rparr>"

definition sample_go :: string where
  "sample_go = ''import ('' @ newline @ '')''"

theorem registration_inserts_once_witness:
  "\<exists>w1. appendImport sample_ks_env sample_target ''_ x'' [''s.go'' \<mapsto> sample_go] = (Inr (), w1)
     \<and> (\<forall>r w3. appendImport sample_ks_env sample_target ''_ x'' w1 = (r, w3) \<longrightarrow> w3 = w1)"
proof -
  have "\<not> str_contains sample_go ''_ x''" "last_sub_index sample_go (newline @ '')'') = Some 8" by code_simp+
  then have "\<exists>w1. appendImport sample_ks_env sample_target ''_ x'' [''s.go'' \<mapsto> sample_go] = (Inr (), w1)"
    by (simp add: appendImport_def insert_import_def sample_ks_env_def sample_target_def)
  then obtain w1 where a: "appendImport sample_ks_env sample_target ''_ x'' [''s.go'' \<mapsto> sample_go] = (Inr (), w1)" by blast
  have "[''s.go'' \<mapsto> sample_go] (it_path sample_target) \<noteq> None" by (simp add: sample_target_def)
  with registration_inserts_once [OF sample_files.file_disk_axioms a] a show ?thesis by blast
qed

end
