(* ===== verification/CliAgent.thy ===== *)
theory CliAgent
  imports CliInit Api
begin

text \<open>
  The agent commands that work on the store alone (\<open>internal/cli/agent.go\<close>): create, list, status, decisions, start, stop, set-network
  and set-mode. \<open>CliAgentRun\<close> has those that build a runtime.
\<close>

section \<open>The environment of the agent commands\<close>

text \<open>
  Beyond \<open>cli_env\<close>: the constructors of venues, strategies and providers, \<open>ak_base\<close> with the clock, the queries and the libraries of
  a runtime, the JSON codec of strategy configurations, \<open>time.ParseDuration\<close> and two output formats.
\<close>

record ('w, 's, 'p) agent_kit =
  ak_ctors :: "('w, 's) venue_constructors"
  ak_strategies :: "'w strategy_constructor constructors"
  ak_factory :: "provider_config \<Rightarrow> go_error + 'p"
  ak_base :: "'w deps"
  ak_decode :: "string \<Rightarrow> any_config"
  ak_json :: "string \<Rightarrow> go_error + string"
  ak_duration :: "string \<Rightarrow> go_error + duration"
  ak_fixed :: "nat \<Rightarrow> float64 \<Rightarrow> string"
  ak_rfc3339 :: "time \<Rightarrow> string"

definition NewFromString :: "declib \<Rightarrow> string \<Rightarrow> go_error + decimal" where
  "NewFromString L s = (case d_parse L s of None \<Rightarrow> Inl (Errorf (''can't convert '' @ s @ '' to decimal'')) | Some d \<Rightarrow> Inr d)"

definition splitCSV :: "string \<Rightarrow> string list" where
  "splitCSV s = (if s = [] then [] else filter (\<lambda>p. p \<noteq> []) (map TrimSpace (str_Split CHR '','' s)))"

text \<open>\<open>Exec\<close> of an update of agents: the number of rows it changed.\<close>

definition exec_update ::
  "(agent \<Rightarrow> bool) \<Rightarrow> (agent \<Rightarrow> agent) \<Rightarrow> go_error option \<Rightarrow> time \<Rightarrow> agent_db \<Rightarrow> (go_error + nat) \<times> agent_db" where
  "exec_update P f fail now db =
     (case fail of
        Some e \<Rightarrow> (Inl e, db)
      | None \<Rightarrow> (Inr (length (filter P (ad_agents db))),
          db\<lparr>ad_agents := map (\<lambda>a. if P a then (f a)\<lparr>ag_updated_at := now\<rparr> else a) (ad_agents db)\<rparr>))"

definition agent_not_found :: "string \<Rightarrow> go_error" where
  "agent_not_found i = Errorf (''agent '' @ quoted i @ '' not found'')"

definition get_agent :: "('w, 'c, 'q) cli_env \<Rightarrow> string \<Rightarrow> ('w, agent_db) cli_state \<Rightarrow> (go_error + agent) \<times> ('w, agent_db) cli_state" where
  "get_agent E i = db_read E (\<lambda>fail. store_Get fail i)"

section \<open>Create\<close>

record create_flags =
  cr_id :: string
  cr_name :: string
  cr_strategy :: string
  cr_perp :: string
  cr_spot :: string
  cr_inference :: string
  cr_mode :: string
  cr_network :: string
  cr_universe :: string
  cr_alloc :: string
  cr_tick_secs :: int
  cr_config :: string

definition create_flags_default :: create_flags where
  "create_flags_default = \<lparr>cr_id = [], cr_name = [], cr_strategy = ''noop'', cr_perp = ''hyperliquid'', cr_spot = ''jupiter'',
     cr_inference = [], cr_mode = ''paper'', cr_network = ''mainnet'', cr_universe = [], cr_alloc = [], cr_tick_secs = 60, cr_config = []\<rparr>"

definition created_agent :: "string \<Rightarrow> create_flags \<Rightarrow> decimal \<Rightarrow> string \<Rightarrow> agent" where
  "created_agent i f amt config =
     zero_agent\<lparr>ag_id := i, ag_name := cr_name f, ag_strategy := cr_strategy f, ag_mode := mode_of (cr_mode f),
       ag_network := network_of (cr_network f), ag_perp_venue := cr_perp f, ag_spot_venue := cr_spot f, ag_inference := cr_inference f,
       ag_universe := splitCSV (cr_universe f), ag_allocation_usdc := amt, ag_tick_secs := cr_tick_secs f, ag_config := config\<rparr>"

definition created_line :: "declib \<Rightarrow> agent \<Rightarrow> string" where
  "created_line L a = ''created agent id='' @ ag_id a @ '' name='' @ ag_name a @ '' strategy='' @ ag_strategy a
     @ '' mode='' @ mode_str (ag_mode a) @ '' network='' @ network_str (ag_network a) @ '' alloc='' @ d_str L (ag_allocation_usdc a)"

definition agent_create_cmd ::
  "('w, 'c, 'q) cli_env \<Rightarrow> ('w, 's, 'p) agent_kit \<Rightarrow> globals \<Rightarrow> create_flags \<Rightarrow> ('w, agent_db) cli_state
     \<Rightarrow> (go_error + unit) \<times> ('w, agent_db) cli_state" where
  "agent_create_cmd E A g f = with_store E g (\<lambda>st.
     let L = dp_lib (ak_base A);
         (i, st1) = (if cr_id f = [] then let (u, s) = on_cli (dp_uuid (ak_base A)) st in (''ag_'' @ take 8 u, s) else (cr_id f, st))
     in run_then (wrap_result ''alloc'' (if cr_alloc f = [] then Inr 0 else NewFromString L (cr_alloc f)), st1) (\<lambda>amt st2.
        run_then (wrap_result ''--config-json'' (if cr_config f = [] then Inr ''{}'' else ak_json A (cr_config f)), st2) (\<lambda>config st3.
        run_then (db_write E (\<lambda>fail now. store_Create (dp_sql (ak_base A)) fail now (created_agent i f amt config)) st3) (\<lambda>a st4.
        (Inr (), println (created_line L a) st4)))))"

section \<open>Reading commands\<close>

definition agent_line :: "declib \<Rightarrow> (time \<Rightarrow> string) \<Rightarrow> agent \<Rightarrow> string" where
  "agent_line L fmt a = pad_right 12 (ag_id a) @ ''  '' @ pad_right 20 (ag_name a) @ ''  '' @ pad_right 20 (ag_strategy a) @ ''  ''
     @ pad_right 7 (mode_str (ag_mode a)) @ ''  '' @ pad_right 7 (network_str (ag_network a)) @ ''  '' @ pad_right 7 (status_str (ag_status a))
     @ ''  alloc='' @ d_str L (ag_allocation_usdc a) @ ''  created='' @ fmt (ag_created_at a)"

definition agent_list_cmd ::
  "('w, 'c, 'q) cli_env \<Rightarrow> ('w, 's, 'p) agent_kit \<Rightarrow> globals \<Rightarrow> ('w, agent_db) cli_state \<Rightarrow> (go_error + unit) \<times> ('w, agent_db) cli_state" where
  "agent_list_cmd E A g = with_store E g (\<lambda>st.
     run_then (db_read E store_List st) (\<lambda>rows st1.
     (Inr (), fold (\<lambda>a. println (agent_line (dp_lib (ak_base A)) (ak_rfc3339 A) a)) rows st1)))"

definition agent_sheet :: "declib \<Rightarrow> (time \<Rightarrow> string) \<Rightarrow> agent \<Rightarrow> string" where
  "agent_sheet L fmt a = concat (map (\<lambda>(k, v). pad_right 12 (k @ '':'') @ v @ newline)
     [(''id'', ag_id a), (''name'', ag_name a), (''strategy'', ag_strategy a), (''mode'', mode_str (ag_mode a)),
      (''network'', network_str (ag_network a)), (''status'', status_str (ag_status a)), (''perp'', ag_perp_venue a), (''spot'', ag_spot_venue a),
      (''inference'', ag_inference a), (''universe'', str_Join '','' (ag_universe a)), (''alloc'', d_str L (ag_allocation_usdc a)),
      (''tick_secs'', int_str (ag_tick_secs a)), (''created'', fmt (ag_created_at a))])"

definition agent_status_cmd ::
  "('w, 'c, 'q) cli_env \<Rightarrow> ('w, 's, 'p) agent_kit \<Rightarrow> globals \<Rightarrow> string \<Rightarrow> ('w, agent_db) cli_state \<Rightarrow> (go_error + unit) \<times> ('w, agent_db) cli_state" where
  "agent_status_cmd E A g i = with_store E g (\<lambda>st.
     run_then (get_agent E i st) (\<lambda>a st1. (Inr (), print (agent_sheet (dp_lib (ak_base A)) (ak_rfc3339 A) a) st1)))"

text \<open>PostgreSQL refuses a negative limit.\<close>

definition recent_decisions ::
  "sqltypes \<Rightarrow> string \<Rightarrow> time \<Rightarrow> int \<Rightarrow> go_error option \<Rightarrow> agent_db \<Rightarrow> go_error + decision_summary list" where
  "recent_decisions Q i since limit fail db =
     (if fail = None \<and> limit < 0 then Inl (Errorf ''LIMIT must not be negative'') else RecentDecisions Q fail i since (nat limit) db)"

definition decision_line :: "('w, 's, 'p) agent_kit \<Rightarrow> decision_summary \<Rightarrow> string" where
  "decision_line A r = ak_rfc3339 A (ds_time r) @ ''  '' @ ds_model r @ ''  cost=$'' @ ak_fixed A 4 (ds_cost_usd r)
     @ ''  tokens(in/out)='' @ int_str (ds_tokens_in r) @ ''/'' @ int_str (ds_tokens_out r) @ ''  '' @ ds_rationale r"

definition agent_decisions_cmd ::
  "('w, 'c, 'q) cli_env \<Rightarrow> ('w, 's, 'p) agent_kit \<Rightarrow> globals \<Rightarrow> string \<Rightarrow> string \<Rightarrow> int \<Rightarrow> ('w, agent_db) cli_state
     \<Rightarrow> (go_error + unit) \<times> ('w, agent_db) cli_state" where
  "agent_decisions_cmd E A g i since limit = with_store E g (\<lambda>st.
     run_then (wrap_result ''--since'' (ak_duration A since), st) (\<lambda>dur st1.
     let (now, st2) = on_cli (cx_now E) st1
     in run_then (db_read E (recent_decisions (dp_sql (ak_base A)) i (now - dur) limit) st2) (\<lambda>rows st3.
        (Inr (), fold (\<lambda>r. println (decision_line A r)) rows st3))))"

section \<open>Editing commands\<close>

definition agent_start_cmd ::
  "('w, 'c, 'q) cli_env \<Rightarrow> globals \<Rightarrow> string \<Rightarrow> ('w, agent_db) cli_state \<Rightarrow> (go_error + unit) \<times> ('w, agent_db) cli_state" where
  "agent_start_cmd E g i = with_store E g (\<lambda>st.
     run_then (get_agent E i st) (\<lambda>a st1.
     run_then (db_write E (\<lambda>fail now db. error_only (SetStatus fail now (ag_id a) StatusRunning db)) st1) (\<lambda>_ st2.
     (Inr (), println (''agent '' @ ag_id a @ '' status -> running (will start on next `permafrost serve`)'') st2))))"

definition mainnet_warning :: "agent \<Rightarrow> string" where
  "mainnet_warning a = ''WARNING: agent '' @ quoted (ag_id a) @ '' is live-mode. Switching to mainnet means real money on the next tick.''"

definition agent_set_network_cmd ::
  "('w, 'c, 'q) cli_env \<Rightarrow> globals \<Rightarrow> string \<Rightarrow> string \<Rightarrow> ('w, agent_db) cli_state \<Rightarrow> (go_error + unit) \<times> ('w, agent_db) cli_state" where
  "agent_set_network_cmd E g i arg = with_store E g (\<lambda>st.
     let n = network_of arg
     in if n \<noteq> NetworkMainnet \<and> n \<noteq> NetworkTestnet then (Inl (Errorf ''network must be mainnet or testnet''), st)
        else run_then (get_agent E i st) (\<lambda>a st1.
          let st2 = (if ag_mode a = ModeLive \<and> n = NetworkMainnet then println (mainnet_warning a) st1 else st1)
          in run_then (db_write E (\<lambda>fail now db. error_only (SetNetwork fail now (ag_id a) n db)) st2) (\<lambda>_ st3.
             (Inr (), println (''agent '' @ ag_id a @ '' network -> '' @ network_str n) st3))))"

text \<open>The argument check runs before the command.\<close>

definition agent_stop_cmd ::
  "('w, 'c, 'q) cli_env \<Rightarrow> globals \<Rightarrow> bool \<Rightarrow> string list \<Rightarrow> ('w, agent_db) cli_state \<Rightarrow> (go_error + unit) \<times> ('w, agent_db) cli_state" where
  "agent_stop_cmd E g stop_all args st0 =
     (if stop_all \<and> args \<noteq> [] then (Inl (Errorf ''either --all or an id, not both''), st0)
      else if \<not> stop_all \<and> length args \<noteq> 1 then (Inl (Errorf ''provide --all or an agent id''), st0)
      else with_store E g (\<lambda>st.
        if stop_all
        then run_then (db_write E (exec_update (\<lambda>a. ag_status a \<noteq> StatusHalted) (\<lambda>a. a\<lparr>ag_status := StatusHalted\<rparr>)) st) (\<lambda>n st1.
             (Inr (), println (''halted '' @ nat_str n @ '' agents'') st1))
        else run_then (db_write E (exec_update (\<lambda>a. ag_id a = hd args) (\<lambda>a. a\<lparr>ag_status := StatusHalted\<rparr>)) st) (\<lambda>n st1.
             if n = 0 then (Inl (agent_not_found (hd args)), st1)
             else (Inr (), println (''agent '' @ hd args @ '' halted'') st1))) st0)"

definition agent_set_mode_cmd ::
  "('w, 'c, 'q) cli_env \<Rightarrow> globals \<Rightarrow> string \<Rightarrow> string \<Rightarrow> ('w, agent_db) cli_state \<Rightarrow> (go_error + unit) \<times> ('w, agent_db) cli_state" where
  "agent_set_mode_cmd E g i arg = with_store E g (\<lambda>st.
     if arg = [] then (Inl (Errorf ''mode must be paper or live''), st)
     else run_then (ParseMode arg, st) (\<lambda>m st1.
          run_then (db_write E (exec_update (\<lambda>a. ag_id a = i) (\<lambda>a. a\<lparr>ag_mode := m\<rparr>)) st1) (\<lambda>n st2.
          if n = 0 then (Inl (agent_not_found i), st2)
          else (Inr (), println (''agent '' @ i @ '' mode -> '' @ mode_str m) st2))))"

end
