(* ===== verification/CliAgentRun.thy ===== *)
theory CliAgentRun
  imports CliAgent RuntimeSync Reconcile
begin

text \<open>
  The agent commands that build a runtime (\<open>internal/cli/agent.go\<close>): kill, run and tick. A result \<open>None\<close> is a panic or a command that
  does not return.
\<close>

section \<open>Dependencies of a command\<close>

definition best_registry ::
  "('w, 'c, 'q) cli_env \<Rightarrow> ('w, 's, 'p) agent_kit \<Rightarrow> config \<Rightarrow> 'w \<Rightarrow> 'p inf_registry option" where
  "best_registry E A cfg w =
     (case NewRegistry (cx_getenv E w) (cfg_inference cfg) (ak_factory A) of Inl _ \<Rightarrow> None | Inr r \<Rightarrow> Some r)"

text \<open>Neither command hands the Bittensor settings to the builder.\<close>

definition command_options :: "('w, 'c, 'q) cli_env \<Rightarrow> config \<Rightarrow> string \<Rightarrow> string \<Rightarrow> 'w \<Rightarrow> build_options" where
  "command_options E cfg net addr w =
     \<lparr>bo_hl_network = net, bo_hl_address = addr, bo_solana = solanaSpotFromConfig (cfg_solana cfg),
      bo_evm = evmSpotsFromConfig (cfg_evm cfg) (cx_getenv E w), bo_bittensor = \<lparr>bs_rpc_url = [], bs_allow_submit = False\<rparr>\<rparr>"

definition command_deps ::
  "('w, 'c, 'q) cli_env \<Rightarrow> ('w, 's, 'p) agent_kit \<Rightarrow> config \<Rightarrow> agent \<Rightarrow> 's keystore \<Rightarrow> string \<Rightarrow> string \<Rightarrow> 'w \<Rightarrow> go_error + 'w deps" where
  "command_deps E A cfg a ks net addr w =
     map_sum id fst (BuildDeps (ak_ctors A) (ak_strategies A) (ak_base A) a (ak_decode A (ag_config a)) (Some ks)
       (best_registry E A cfg w) (command_options E cfg net addr w))"

text \<open>
  A keystore that could not be opened reaches \<open>BuildDeps\<close> as a nil pointer in a non-nil interface: the builder's nil check
  does not see it, and the first use of it, for the Hyperliquid venue, panics. What is built before that may still fail with an error.
\<close>

definition deps_of_pointer ::
  "('w, 'c, 'q) cli_env \<Rightarrow> ('w, 's, 'p) agent_kit \<Rightarrow> config \<Rightarrow> agent \<Rightarrow> 's keystore option \<Rightarrow> string \<Rightarrow> string \<Rightarrow> 'w
     \<Rightarrow> (go_error + 'w deps) option" where
  "deps_of_pointer E A cfg a ks net addr w =
     (case ks of
        Some k \<Rightarrow> Some (command_deps E A cfg a k net addr w)
      | None \<Rightarrow>
          (case and_then (wrap_result ''strategy'' (BuildStrategy (ak_strategies A) a (ak_decode A (ag_config a)))) (\<lambda>_.
                wrap_result ''inference'' (resolveInference (ag_inference a) (best_registry E A cfg w))) of
             Inl e \<Rightarrow> Some (Inl e)
           | Inr _ \<Rightarrow> None))"

section \<open>Kill\<close>

definition kill_runtime :: "'w deps \<Rightarrow> kill_opts \<Rightarrow> ('w, agent_db) cli_state \<Rightarrow> go_error option \<times> ('w, agent_db) cli_state" where
  "kill_runtime d opts st =
     (let (e, _, rt) = Trip d opts (new_life, NewRuntime d (ct_db st) (ct_world st))
      in (e, st\<lparr>ct_world := rs_world rt, ct_db := rs_db rt\<rparr>))"

definition kill_firing :: "agent \<Rightarrow> bool \<Rightarrow> string" where
  "kill_firing a liquidate = ''agent '' @ ag_id a @ '' killswitch firing (live, liquidate_spot='' @ (if liquidate then ''true'' else ''false'') @ '')''"

definition kill_live ::
  "('k, 'p, 'e) crypto_lib \<Rightarrow> 'w ks_env \<Rightarrow> ('w, 'c, 'q) cli_env \<Rightarrow> ('w, ('k, 'p, 'e) signer, 'i) agent_kit \<Rightarrow> globals \<Rightarrow> config
     \<Rightarrow> agent \<Rightarrow> bool \<Rightarrow> int \<Rightarrow> string \<Rightarrow> ('w, agent_db) cli_state \<Rightarrow> ((go_error + unit) \<times> ('w, agent_db) cli_state) option" where
  "kill_live C K E A g cfg a liquidate slippage reason st =
     (case openKeystore C K E g (ct_world st) of
        None \<Rightarrow> None
      | Some (Inl e, w) \<Rightarrow> Some (Inl (Wrap ''kill: live mode requires keystore'' e), st\<lparr>ct_world := w\<rparr>)
      | Some (Inr ks, w) \<Rightarrow>
          Some (run_then (wrap_result ''kill: build deps'' (command_deps E A cfg a (ks_Signer ks) [] [] w), st\<lparr>ct_world := w\<rparr>) (\<lambda>d st1.
            let opts = (DefaultKillSwitchOptions reason)\<lparr>ko_liquidate_spot := liquidate, ko_spot_slippage_bps := slippage\<rparr>;
                (err, st2) = kill_runtime d opts (println (kill_firing a liquidate) st1)
            in case err of
                 Some e \<Rightarrow> (Inl (Wrap ''kill'' e), st2)
               | None \<Rightarrow> (Inr (), println (''agent '' @ ag_id a @ '' killswitch complete'') st2))))"

definition agent_kill_cmd ::
  "('k, 'p, 'e) crypto_lib \<Rightarrow> 'w ks_env \<Rightarrow> ('w, 'c, 'q) cli_env \<Rightarrow> ('w, ('k, 'p, 'e) signer, 'i) agent_kit \<Rightarrow> globals
     \<Rightarrow> string \<Rightarrow> bool \<Rightarrow> int \<Rightarrow> string \<Rightarrow> ('w, agent_db) cli_state \<Rightarrow> ((go_error + unit) \<times> ('w, agent_db) cli_state) option" where
  "agent_kill_cmd C K E A g i liquidate slippage reason st0 =
     (case g of
        None \<Rightarrow> Some (Inl no_globals, st0)
      | Some cfg \<Rightarrow> with_store_option E g (\<lambda>st.
          case get_agent E i st of
            (Inl e, st1) \<Rightarrow> Some (Inl e, st1)
          | (Inr a, st1) \<Rightarrow>
              (case wrap_error ''set status halted'' (db_write E (\<lambda>fail now db. error_only (SetStatus fail now (ag_id a) StatusHalted db)) st1) of
                 (Inl e, st2) \<Rightarrow> Some (Inl e, st2)
               | (Inr _, st2) \<Rightarrow>
                   if ag_mode a = ModePaper
                   then Some (Inr (), println (''agent '' @ ag_id a @ '' halted (paper mode '' @ em_dash @ '' no venue side-effects)'') st2)
                   else kill_live C K E A g cfg a liquidate slippage reason st2)) st0)"

section \<open>Run\<close>

definition live_mode_error :: "agent \<Rightarrow> string \<Rightarrow> string" where
  "live_mode_error a what = ''live mode for agent '' @ quoted (ag_id a) @ '' (spot_venue='' @ ag_spot_venue a @ '') requires '' @ what"

definition live_requirements :: "config \<Rightarrow> agent \<Rightarrow> 's keystore \<Rightarrow> go_error option" where
  "live_requirements cfg a ks =
     (case (if ag_perp_venue a = [] then None else case ks ChainHyperliquid of Inl e \<Rightarrow> Some e | Inr _ \<Rightarrow> None) of
        Some e \<Rightarrow> Some (Wrap ''live mode requires a hyperliquid signer in the keystore'' e)
      | None \<Rightarrow>
          if ag_spot_venue a \<in> {''jupiter'', ''solana''}
          then (case ks ChainSolana of
                  Inl e \<Rightarrow> Some (Wrap (live_mode_error a ''a Solana signer'') e)
                | Inr _ \<Rightarrow> if nc_rpc_url (cfg_solana cfg) = [] then Some (Errorf (live_mode_error a ''solana.rpc_url in config'')) else None)
          else if ag_spot_venue a = ''bittensor''
          then (case ks ChainBittensor of
                  Inl e \<Rightarrow> Some (Wrap (live_mode_error a ''a Bittensor signer'') e)
                | Inr _ \<Rightarrow> if tc_allow_submit (cfg_bittensor cfg) then None
                    else Some (Errorf (live_mode_error a ''bittensor.allow_submit: true in config'')))
          else None)"

definition live_gate ::
  "('k, 'p, 'e) crypto_lib \<Rightarrow> 'w ks_env \<Rightarrow> ('w, 'c, 'q) cli_env \<Rightarrow> globals \<Rightarrow> config \<Rightarrow> bool \<Rightarrow> agent
     \<Rightarrow> ('w, agent_db) cli_state \<Rightarrow> ((go_error + unit) \<times> ('w, agent_db) cli_state) option" where
  "live_gate C K E g cfg confirmed a st =
     (if ag_mode a \<noteq> ModeLive then Some (Inr (), st)
      else if \<not> confirmed
      then Some (Inl (Errorf (''agent '' @ quoted (ag_id a) @ '' is mode=live; pass --confirm-live to acknowledge real-money risk'')), st)
      else case openKeystore C K E g (ct_world st) of
          None \<Rightarrow> None
        | Some (Inl e, w) \<Rightarrow> Some (Inl (Wrap ''live mode requires keystore'' e), st\<lparr>ct_world := w\<rparr>)
        | Some (Inr ks, w) \<Rightarrow>
            Some (case live_requirements cfg a (ks_Signer ks) of Some e \<Rightarrow> Inl e | None \<Rightarrow> Inr (), st\<lparr>ct_world := w\<rparr>))"

text \<open>One tick: a failed one is logged and not counted.\<close>

definition doTick :: "'w deps \<Rightarrow> nat \<times> 'w rt_state \<Rightarrow> nat \<times> 'w rt_state" where
  "doTick d s = (case tickOnce d (snd s) of (Inl _, rt) \<Rightarrow> (fst s, rt) | (Inr _, rt) \<Rightarrow> (Suc (fst s), rt))"

text \<open>\<open>wait\<close> is the select: \<open>True\<close> for the ticker, \<open>False\<close> for a signal.\<close>

partial_function (option) run_loop ::
  "'w deps \<Rightarrow> ('w \<Rightarrow> bool \<times> 'w) \<Rightarrow> int \<Rightarrow> nat \<times> 'w rt_state \<Rightarrow> (nat \<times> 'w rt_state) option" where
  "run_loop d wait max_ticks s =
     (if 0 < max_ticks \<and> max_ticks \<le> int (fst s) then Some s
      else let (fired, rt) = on_world wait (snd s)
           in if fired then run_loop d wait max_ticks (doTick d (fst s, rt)) else Some (fst s, rt))"

declare run_loop.simps [code]

record run_flags =
  rf_network :: string
  rf_address :: string
  rf_ticks :: int
  rf_dry :: bool
  rf_confirm :: bool

text \<open>A ticker of an interval that is not positive panics.\<close>

definition run_foreground ::
  "'w deps \<Rightarrow> ('w \<Rightarrow> bool \<times> 'w) \<Rightarrow> agent \<Rightarrow> int \<Rightarrow> ('w, agent_db) cli_state \<Rightarrow> ((go_error + unit) \<times> ('w, agent_db) cli_state) option" where
  "run_foreground d wait a max_ticks st =
     (if Interval a \<le> 0 then None
      else map_option (\<lambda>(_, rt). (Inr (), st\<lparr>ct_world := rs_world rt, ct_db := rs_db rt\<rparr>))
             (run_loop d wait max_ticks (doTick d (0, NewRuntime d (ct_db st) (ct_world st)))))"

definition agent_run_cmd ::
  "('k, 'p, 'e) crypto_lib \<Rightarrow> 'w ks_env \<Rightarrow> ('w, 'c, 'q) cli_env \<Rightarrow> ('w, ('k, 'p, 'e) signer, 'i) agent_kit \<Rightarrow> globals
     \<Rightarrow> ('w \<Rightarrow> bool \<times> 'w) \<Rightarrow> string \<Rightarrow> run_flags \<Rightarrow> ('w, agent_db) cli_state \<Rightarrow> ((go_error + unit) \<times> ('w, agent_db) cli_state) option" where
  "agent_run_cmd C K E A g wait i f st0 =
     (case g of
        None \<Rightarrow> Some (Inl no_globals, st0)
      | Some cfg \<Rightarrow> with_store_option E g (\<lambda>st.
          case get_agent E i st of
            (Inl e, st1) \<Rightarrow> Some (Inl e, st1)
          | (Inr a, st1) \<Rightarrow>
              (case live_gate C K E g cfg (rf_confirm f) a st1 of
                 None \<Rightarrow> None
               | Some (Inl e, st2) \<Rightarrow> Some (Inl e, st2)
               | Some (Inr _, st2) \<Rightarrow>
                   (case openKeystore C K E g (ct_world st2) of
                      None \<Rightarrow> None
                    | Some (r, w) \<Rightarrow>
                        (case deps_of_pointer E A cfg a (case r of Inl _ \<Rightarrow> None | Inr ks \<Rightarrow> Some (ks_Signer ks)) (rf_network f) (rf_address f) w of
                           None \<Rightarrow> None
                         | Some (Inl e) \<Rightarrow> Some (Inl e, st2\<lparr>ct_world := w\<rparr>)
                         | Some (Inr d) \<Rightarrow>
                             run_foreground (if rf_dry f then d\<lparr>dp_store := False\<rparr> else d) wait a (rf_ticks f) (st2\<lparr>ct_world := w\<rparr>))))) st0)"

section \<open>Tick\<close>

text \<open>The entries of \<open>--funding\<close>: a symbol and an annual percentage; what cannot be read is skipped.\<close>

definition parse_funding :: "declib \<Rightarrow> string \<Rightarrow> (string \<times> decimal) option" where
  "parse_funding L arg =
     (if CHR ''='' \<notin> set arg then None
      else let (name, val) = Cut (CHR ''='') arg
           in case d_parse L (TrimSpace val) of None \<Rightarrow> None | Some v \<Rightarrow> Some (TrimSpace name, d_div L v 100))"

definition parseFundingArgs :: "declib \<Rightarrow> string list \<Rightarrow> (string \<times> decimal) list" where
  "parseFundingArgs L args = List.map_filter (parse_funding L) args"

definition synthetic_rate :: "declib \<Rightarrow> time \<Rightarrow> string \<times> decimal \<Rightarrow> funding_rate" where
  "synthetic_rate L now r =
     \<lparr>fr_time = now, fr_venue = ''synthetic'', fr_symbol = fst r, fr_rate = d_div L (snd r) (24 * 365),
      fr_interval = nano_hour, fr_predicted_next = 0, fr_mark_price = 1\<rparr>"

text \<open>The embedded no-op venue lives in a part of the world that \<open>get\<close> and \<open>put\<close> give access to.\<close>

definition lift_noop :: "('w \<Rightarrow> noop_world) \<Rightarrow> (noop_world \<Rightarrow> 'w \<Rightarrow> 'w) \<Rightarrow> (noop_world \<Rightarrow> 'a \<times> noop_world) \<Rightarrow> 'w \<Rightarrow> 'a \<times> 'w" where
  "lift_noop get put f w = (let (r, n) = f (get w) in (r, put n w))"

definition tick_venue ::
  "('w \<Rightarrow> noop_world) \<Rightarrow> (noop_world \<Rightarrow> 'w \<Rightarrow> 'w) \<Rightarrow> ('w \<Rightarrow> time \<times> 'w) \<Rightarrow> declib \<Rightarrow> (string \<times> decimal) list \<Rightarrow> 'w perp_venue" where
  "tick_venue get put clock L rates =
     \<lparr>pv_name = pv_name noop_venue, pv_place = (\<lambda>o1. lift_noop get put (pv_place noop_venue o1)),
      pv_cancel = (\<lambda>i. lift_noop get put (pv_cancel noop_venue i)), pv_open_orders = lift_noop get put (pv_open_orders noop_venue),
      pv_positions = lift_noop get put (pv_positions noop_venue), pv_balances = lift_noop get put (pv_balances noop_venue),
      pv_funding_rates = (\<lambda>_ w. let (now, w1) = clock w in (Inr (map (synthetic_rate L now) rates), w1))\<rparr>"

definition tick_deps ::
  "('w \<Rightarrow> noop_world) \<Rightarrow> (noop_world \<Rightarrow> 'w \<Rightarrow> 'w) \<Rightarrow> ('w, 'c, 'q) cli_env \<Rightarrow> ('w, 's, 'p) agent_kit \<Rightarrow> agent \<Rightarrow> 'w built_strategy
     \<Rightarrow> string list \<Rightarrow> 'w deps" where
  "tick_deps get put E A a strat funding =
     (ak_base A)\<lparr>dp_agent := a, dp_warmup := bt_warmup strat, dp_decide := bt_decide strat,
       dp_perp := Some (tick_venue get put (cx_now E) (dp_lib (ak_base A)) (parseFundingArgs (dp_lib (ak_base A)) funding)),
       dp_swaps := [], dp_risk := None, dp_store := True\<rparr>"

definition tick_report :: "('w, 's, 'p) agent_kit \<Rightarrow> decision \<Rightarrow> string" where
  "tick_report A dec = ''decision: confidence='' @ ak_fixed A 2 (dc_confidence dec) @ '' swaps='' @ nat_str (length (dc_swaps dec))
     @ '' orders='' @ nat_str (length (dc_orders dec)) @ '' cancels='' @ nat_str (length (dc_cancels dec)) @ newline
     @ (if dc_notes dec = [] then []
        else ''notes:'' @ newline @ concat (map (\<lambda>l. ''  '' @ l @ newline) (str_Split CHR 0x0A (dc_notes dec))))"

definition tick_refused :: "agent \<Rightarrow> go_error" where
  "tick_refused a = Errorf (''agent '' @ quoted (ag_id a) @ '' is mode='' @ quoted (mode_str (ag_mode a)) @ ''; tick is only safe for paper'')"

definition agent_tick_cmd ::
  "('w \<Rightarrow> noop_world) \<Rightarrow> (noop_world \<Rightarrow> 'w \<Rightarrow> 'w) \<Rightarrow> ('w, 'c, 'q) cli_env \<Rightarrow> ('w, 's, 'p) agent_kit \<Rightarrow> globals \<Rightarrow> string \<Rightarrow> string list
     \<Rightarrow> ('w, agent_db) cli_state \<Rightarrow> (go_error + unit) \<times> ('w, agent_db) cli_state" where
  "agent_tick_cmd get put E A g i funding = with_store E g (\<lambda>st.
     run_then (get_agent E i st) (\<lambda>a st1.
     if ag_mode a \<noteq> ModePaper then (Inl (tick_refused a), st1)
     else run_then (BuildStrategy (ak_strategies A) a (ak_decode A (ag_config a)), st1) (\<lambda>strat st2.
       let d = tick_deps get put E A a strat funding;
           fresh = (get (ct_world st2))\<lparr>nw_placed := [], nw_cancels := [], nw_open_orders := [], nw_swaps := []\<rparr>;
           (r, rt) = tickOnce d (NewRuntime d (ct_db st2) (put fresh (ct_world st2)))
       in run_then (r, st2\<lparr>ct_world := rs_world rt, ct_db := rs_db rt\<rparr>) (\<lambda>dec st3. (Inr (), print (tick_report A dec) st3)))))"

section \<open>The agents table under the commands\<close>

lemma store_ops_agents [simp]:
  "ad_agents (snd (CloseBasis fail now i u db)) = ad_agents db"
  "ad_agents (snd (UpsertOpenBasis Q fail now bp db)) = ad_agents db"
  "ad_agents (snd (PersistDecision Q fail row1 db)) = ad_agents db"
  "ad_agents (snd (PersistNAVSnapshot Q fail row2 db)) = ad_agents db"
  by (auto simp: CloseBasis_def UpsertOpenBasis_def PersistDecision_def PersistNAVSnapshot_def Let_def split: option.splits)

lemma on_world_rs_db [simp]: "rs_db (snd (on_world f st)) = rs_db st"
  by (simp add: on_world_def split_beta)

lemma on_world_pair_db: "on_world f st = (r, st') \<Longrightarrow> rs_db st' = rs_db st"
  using on_world_rs_db [of f st] by simp

lemma close_all_agents: "ad_agents (rs_db (close_all d ok os st)) = ad_agents (rs_db st)"
proof (induction os arbitrary: st)
  case (Cons o1 os)
  have "ad_agents (rs_db (close_one d ok o1 st)) = ad_agents (rs_db st)"
    by (auto simp: close_one_def Let_def split_beta split: option.splits)
  with Cons show ?case by simp
qed simp

lemma open_all_agents: "ad_agents (rs_db (open_all d now i swaps sOK oOK os st)) = ad_agents (rs_db st)"
proof (induction os arbitrary: st)
  case (Cons o1 os)
  have "ad_agents (rs_db (open_one d now i swaps sOK oOK o1 st)) = ad_agents (rs_db st)"
    by (auto simp: open_one_def Let_def split_beta split: option.splits)
  with Cons show ?case by simp
qed simp

lemma execute_agents: "ad_agents (rs_db (executeSwapsThenOrders d now i dec st)) = ad_agents (rs_db st)"
proof -
  obtain swapOK inflight st1 where r1: "run_swaps d now i 0 (dc_swaps dec) ([], []) st = ((swapOK, inflight), st1)"
    by (metis prod.collapse)
  obtain orderOK inf2 st2 where r2: "run_orders d now i 0 (dc_orders dec) swapOK ([], inflight) st1 = ((orderOK, inf2), st2)"
    by (metis prod.collapse)
  have "same_positions (run_cancels d (dc_cancels dec) st2) st"
    using run_cancels_same [of d "dc_cancels dec" st2] run_orders_same [of d now i 0 "dc_orders dec" swapOK "([], inflight)" st1]
      run_swaps_same [of d now i 0 "dc_swaps dec" "([], [])" st] r1 r2
    by (auto intro: same_positions_trans)
  then show ?thesis
    by (simp add: executeSwapsThenOrders_def r1 r2 reconcileOpenBasis_def open_all_agents close_all_agents same_positions_def)
qed

lemma merge_market_db [simp]: "rs_db (snd (merge_market d vs m st)) = rs_db st"
proof (induction vs arbitrary: m st)
  case (Cons cv vs)
  obtain c v where cv: "cv = (c, v)" by fastforce
  show ?case
    using Cons by (auto simp: cv split: option.splits sum.splits prod.splits dest: on_world_pair_db)
qed simp

lemma buildDecisionInput_db [simp]: "rs_db (snd (buildDecisionInput d now st)) = rs_db st"
  by (simp add: buildDecisionInput_def Let_def split_beta split: option.split)

lemma persist_agents [simp]:
  "ad_agents (rs_db (persistDecision d now i inp dec st)) = ad_agents (rs_db st)"
  "ad_agents (rs_db (persistNAVSnapshot d now st)) = ad_agents (rs_db st)"
  by (auto simp: persistDecision_def persistNAVSnapshot_def Let_def split_beta split: sum.splits prod.splits dest!: on_world_pair_db)

declare Warmup_db [simp] NewRuntime_db [simp]

text \<open>A tick writes ledgers and positions, never the agents table.\<close>

lemma tickOnce_agents: "ad_agents (rs_db (snd (tickOnce d st))) = ad_agents (rs_db st)"
  using Warmup_db [of d st] by (auto simp: tickOnce_def Let_def split_beta execute_agents split: option.splits sum.splits prod.splits dest!: on_world_pair_db)

lemma doTick_agents: "ad_agents (rs_db (snd (doTick d s))) = ad_agents (rs_db (snd s))"
  using tickOnce_agents [of d "snd s"] by (auto simp: doTick_def split: prod.splits sum.splits)

section \<open>The run loop\<close>

text \<open>The ticks of a run, each after its wait.\<close>

fun spaced_ticks :: "'w deps \<Rightarrow> ('w \<Rightarrow> bool \<times> 'w) \<Rightarrow> nat \<Rightarrow> 'w rt_state \<Rightarrow> 'w rt_state" where
  "spaced_ticks d wait 0 rt = rt"
| "spaced_ticks d wait (Suc k) rt = spaced_ticks d wait k (snd (tickOnce d (snd (on_world wait rt))))"

lemma run_loop_invariant:
  assumes step: "\<And>n rt fired rt1. P (n, rt) \<Longrightarrow> \<not> (0 < m \<and> m \<le> int n) \<Longrightarrow> on_world wait rt = (fired, rt1) \<Longrightarrow>
      (if fired then P (doTick d (n, rt1)) else P (n, rt1))"
    and r: "run_loop d wait m s = Some r" and "P s"
  shows "P r \<and> (0 < m \<and> m \<le> int (fst r) \<or> (\<exists>rt. on_world wait rt = (False, snd r)))"
proof -
  let ?Q = "\<lambda>d' wait' m' s r. d' = d \<and> wait' = wait \<and> m' = m \<and> P s \<longrightarrow>
      P r \<and> (0 < m \<and> m \<le> int (fst r) \<or> (\<exists>rt. on_world wait rt = (False, snd r)))"
  have "?Q d wait m s r"
  proof (rule run_loop.raw_induct [where P = ?Q, OF _ r], intro impI, elim conjE)
    fix f d' wait' m' s r
    assume IH: "\<And>d' wait' m' s r. f d' wait' m' s = Some r \<Longrightarrow> ?Q d' wait' m' s r"
      and b: "(if 0 < m' \<and> m' \<le> int (fst s) then Some s
        else let (fired, rt) = on_world wait' (snd s) in if fired then f d' wait' m' (doTick d' (fst s, rt)) else Some (fst s, rt)) = Some r"
      and e: "d' = d" "wait' = wait" "m' = m" and p: "P s"
    obtain n rt where s: "s = (n, rt)" by fastforce
    obtain fired rt1 where w: "on_world wait rt = (fired, rt1)" by fastforce
    show "P r \<and> (0 < m \<and> m \<le> int (fst r) \<or> (\<exists>rt. on_world wait rt = (False, snd r)))"
    proof (cases "0 < m \<and> m \<le> int n")
      case True
      then have "r = (n, rt)" using b s e by simp
      then show ?thesis using True p s by auto
    next
      case False
      note st = step [OF p [unfolded s] False w]
      have "if fired then f d wait m (doTick d (n, rt1)) = Some r else r = (n, rt1)" using b False w s e by (auto split: if_splits)
      then show ?thesis using IH [of d wait m "doTick d (n, rt1)" r] st w by (cases fired) auto
    qed
  qed
  with assms(3) show ?thesis by blast
qed

lemma run_loop_agents:
  assumes "run_loop d wait m s = Some r"
  shows "ad_agents (rs_db (snd r)) = ad_agents (rs_db (snd s))"
proof -
  have "ad_agents (rs_db (snd r)) = ad_agents (rs_db (snd s)) \<and> (0 < m \<and> m \<le> int (fst r) \<or> (\<exists>rt. on_world wait rt = (False, snd r)))"
    by (rule run_loop_invariant [OF _ assms]) (auto simp: doTick_agents dest: on_world_pair_db)
  then show ?thesis by blast
qed

lemma doTick_count: "fst (doTick d s) = fst s \<or> fst (doTick d s) = Suc (fst s)"
  by (auto simp: doTick_def split: prod.split sum.split)

lemma doTick_ok: "\<not> isl (fst (tickOnce d (snd s))) \<Longrightarrow> doTick d s = (Suc (fst s), snd (tickOnce d (snd s)))"
  by (auto simp: doTick_def split: prod.split sum.split)

lemma run_loop_successes:
  assumes "\<And>w. fst (wait w)" and "\<And>rt. \<not> isl (fst (tickOnce d rt))" and "0 < m"
  shows "run_loop d wait m (n, rt) = Some (n + (nat m - n), spaced_ticks d wait (nat m - n) rt)"
proof (induction "nat m - n" arbitrary: n rt)
  case 0
  then show ?case using assms(3) by (subst run_loop.simps) auto
next
  case (Suc k)
  obtain rt1 where f: "on_world wait rt = (True, rt1)" using assms(1) [of "rs_world rt"] by (auto simp: on_world_def split_beta)
  have c: "\<not> m \<le> int n" using Suc(2) by linarith
  have one: "run_loop d wait m (n, rt) = run_loop d wait m (Suc n, snd (tickOnce d rt1))"
    by (subst run_loop.simps) (simp add: f c doTick_ok assms(2))
  have k: "k = nat m - Suc n" "nat m - n = Suc k" using Suc(2) by simp_all
  show ?case
    using Suc(1) [OF k(1), of "snd (tickOnce d rt1)", folded k(1)]
    by (simp only: one k(2) f snd_conv spaced_ticks.simps add_Suc_shift)
qed

text \<open>
  C36: What ends a foreground run. While no signal arrives, the run ends only by its limit, after exactly that many ticks that succeeded: without a limit
  it never returns; when every tick succeeds it returns after that many ticks, in the state they lead to; when every tick fails it
  never returns, since failed ticks are not counted.
\<close>

theorem run_ends_by_successful_ticks:
  assumes "\<forall>w. fst (wait w)"
  shows "(\<forall>n rt. run_loop d wait m (doTick d (0, rt0)) = Some (n, rt) \<longrightarrow> 0 < m \<and> int n = m)
    \<and> (m \<le> 0 \<longrightarrow> run_loop d wait m (doTick d (0, rt0)) = None)
    \<and> (0 < m \<and> (\<forall>rt. \<not> isl (fst (tickOnce d rt))) \<longrightarrow>
        run_loop d wait m (doTick d (0, rt0)) = Some (nat m, spaced_ticks d wait (nat m - 1) (snd (tickOnce d rt0))))
    \<and> ((\<forall>rt. isl (fst (tickOnce d rt))) \<longrightarrow> run_loop d wait m (doTick d (0, rt0)) = None)"
proof -
  let ?s = "doTick d (0, rt0)"
  have sig: "on_world wait rt = (False, rt1) \<Longrightarrow> thesis" for rt rt1 thesis
    using assms by (auto simp: on_world_def split: prod.splits) (metis fst_conv)
  have ends: "0 < m \<and> int n = m" if r: "run_loop d wait m ?s = Some (n, rt)" for n rt
  proof -
    have "(0 < m \<longrightarrow> int (fst (n, rt)) \<le> m) \<and> (0 < m \<and> m \<le> int (fst (n, rt)) \<or> (\<exists>rt1. on_world wait rt1 = (False, snd (n, rt))))"
    proof (rule run_loop_invariant [OF _ r])
      show "0 < m \<longrightarrow> int (fst ?s) \<le> m" using doTick_count [of d "(0, rt0)"] by auto
    next
      fix n rt fired rt1
      assume "0 < m \<longrightarrow> int (fst (n, rt)) \<le> m" "\<not> (0 < m \<and> m \<le> int n)" "on_world wait rt = (fired, rt1)"
      then show "if fired then 0 < m \<longrightarrow> int (fst (doTick d (n, rt1))) \<le> m else 0 < m \<longrightarrow> int (fst (n, rt1)) \<le> m"
        using doTick_count [of d "(n, rt1)"] by auto
    qed
    then show ?thesis using sig by auto
  qed
  have never: "run_loop d wait m ?s = None" if f: "\<And>rt. isl (fst (tickOnce d rt))"
  proof (rule ccontr)
    assume "run_loop d wait m ?s \<noteq> None"
    then obtain r where r: "run_loop d wait m ?s = Some r" by auto
    have stay: "fst (doTick d s) = fst s" for s
      using f [of "snd s"] by (auto simp: doTick_def split: prod.split sum.split)
    have "fst r = 0 \<and> (0 < m \<and> m \<le> int (fst r) \<or> (\<exists>rt1. on_world wait rt1 = (False, snd r)))"
      by (rule run_loop_invariant [OF _ r]) (auto simp: stay)
    then show False using sig by auto
  qed
  show ?thesis
  proof (intro conjI impI)
    show "\<forall>n rt. run_loop d wait m ?s = Some (n, rt) \<longrightarrow> 0 < m \<and> int n = m" using ends by blast
    show "run_loop d wait m ?s = None" if "m \<le> 0"
    proof (cases "run_loop d wait m ?s")
      case (Some r)
      then show ?thesis using ends [of "fst r" "snd r"] that by simp
    qed
    show "run_loop d wait m ?s = None" if "\<forall>rt. isl (fst (tickOnce d rt))" using that by (intro never) blast
    show "run_loop d wait m ?s = Some (nat m, spaced_ticks d wait (nat m - 1) (snd (tickOnce d rt0)))"
      if "0 < m \<and> (\<forall>rt. \<not> isl (fst (tickOnce d rt)))"
      using run_loop_successes [of wait d m "Suc 0" "snd (tickOnce d rt0)"] assms that doTick_ok [of d "(0, rt0)"] by simp
  qed
qed

theorem run_ends_by_successful_ticks_witness:
  "run_loop (sample_deps None zero_decision) (\<lambda>w. (True, w)) 0 (doTick (sample_deps None zero_decision) (0, start_state [])) = None"
  using run_ends_by_successful_ticks [of "\<lambda>w. (True, w)" "sample_deps None zero_decision" 0 "start_state []"] by simp

section \<open>Valid agents\<close>

definition row_valid :: "agent \<Rightarrow> bool" where
  "row_valid a \<longleftrightarrow> ag_id a \<noteq> [] \<and> ag_mode a \<in> {ModePaper, ModeLive} \<and> ag_network a \<in> {NetworkMainnet, NetworkTestnet}
     \<and> fits_int4 (ag_tick_secs a)"

definition agents_valid :: "agent_db \<Rightarrow> bool" where
  "agents_valid db \<longleftrightarrow> distinct (map ag_id (ad_agents db)) \<and> (\<forall>a \<in> set (ad_agents db). row_valid a)"

lemma agents_valid_cong: "ad_agents db' = ad_agents db \<Longrightarrow> agents_valid db' = agents_valid db"
  by (simp add: agents_valid_def)

lemma agents_valid_map:
  assumes "agents_valid db" "ad_agents db' = map f (ad_agents db)" "\<And>a. ag_id (f a) = ag_id a" "\<And>a. row_valid a \<Longrightarrow> row_valid (f a)"
  shows "agents_valid db'"
  using assms by (auto simp: agents_valid_def comp_def)

lemma update_agent_valid:
  assumes "agents_valid db" "\<And>a. ag_id (f a) = ag_id a" "\<And>a. row_valid a \<Longrightarrow> row_valid (f a)"
  shows "agents_valid (update_agent f i db)"
  by (rule agents_valid_map [OF assms(1), of _ "\<lambda>a. if ag_id a = i then f a else a"]) (simp_all add: update_agent_def assms(2,3))

lemma create_cases:
  "snd (store_Create Q fail now a db) = db \<or>
     (\<exists>b. ad_agents (snd (store_Create Q fail now a db)) = ad_agents db @ [b] \<and> row_valid b \<and> \<not> has_agent db (ag_id b))"
proof (cases "ag_id a = [] \<or> ag_strategy a = []")
  case False
  show ?thesis
  proof (cases "ParseMode (mode_str (ag_mode a))")
    case (Inr m)
    let ?n = "if ag_network a = NetworkOther [] then NetworkMainnet else ag_network a"
    have m: "m \<in> {ModePaper, ModeLive}" using Inr by (auto simp: ParseMode_cases)
    show ?thesis
    proof (cases "network_Validate ?n = None \<and> fail = None \<and> \<not> has_agent db (ag_id a) \<and> fits_int4 (ag_tick_secs a)")
      case True
      then have n: "?n \<in> {NetworkMainnet, NetworkTestnet}" by (auto simp: network_Validate_def split: if_splits)
      show ?thesis using True False m n by (auto simp: store_Create_def Inr Let_def row_valid_def)
    qed (use False Inr in \<open>auto simp: store_Create_def Let_def split: option.split\<close>)
  qed (use False in \<open>simp add: store_Create_def\<close>)
qed (auto simp: store_Create_def)

lemma create_valid: "agents_valid db \<Longrightarrow> agents_valid (snd (store_Create Q fail now a db))"
  using create_cases [of Q fail now a db] by (auto simp: agents_valid_def has_agent_def list_ex_iff) metis

lemma set_status_valid: "agents_valid db \<Longrightarrow> agents_valid (snd (SetStatus fail now i s db))"
  by (cases fail) (auto simp: SetStatus_def intro!: update_agent_valid, simp add: row_valid_def)

lemma set_network_valid: "agents_valid db \<Longrightarrow> agents_valid (snd (SetNetwork fail now i n db))"
  by (cases "network_Validate n"; cases fail)
    (auto simp: SetNetwork_def network_Validate_def split: if_splits intro!: update_agent_valid, simp_all add: row_valid_def)

lemma exec_update_valid:
  assumes "agents_valid db" "\<And>a. ag_id (f a) = ag_id a" "\<And>a. row_valid a \<Longrightarrow> row_valid (f a)"
  shows "agents_valid (snd (exec_update P f fail now db))"
proof (cases fail)
  case None
  have "row_valid (if P a then (f a)\<lparr>ag_updated_at := now\<rparr> else a)" if "row_valid a" for a
    using assms(3) [OF that] that by (simp add: row_valid_def)
  then show ?thesis
    by (intro agents_valid_map [OF assms(1), of _ "\<lambda>a. if P a then (f a)\<lparr>ag_updated_at := now\<rparr> else a"]) (simp_all add: exec_update_def None assms(2))
qed (use assms(1) in \<open>simp add: exec_update_def\<close>)

lemma snd_error_only [simp]: "snd (error_only r) = snd r"
  by (auto simp: error_only_def split: prod.split option.split)

lemma get_agent_db [simp]: "ct_db (snd (get_agent E i st)) = ct_db st"
  by (simp add: get_agent_def)

lemma with_store_option_cases:
  assumes "with_store_option E g body st = Some (r, st')"
  obtains (refused) e where "r = Inl e" "fst (open_store E g st) = Inl e" "ct_db st' = ct_db st"
  | (ran) pool st1 st2 where "open_store E g st = (Inr pool, st1)" "ct_db st1 = ct_db st" "body st1 = Some (r, st2)" "st' = close_store E pool st2"
proof -
  obtain oo st1 where o: "open_store E g st = (oo, st1)" by fastforce
  then have d: "ct_db st1 = ct_db st" using open_store_db [of E g st] by simp
  show thesis
  proof (cases oo)
    case (Inl e)
    then show ?thesis using assms o d refused by (auto simp: with_store_option_def)
  next
    case (Inr pool)
    then show ?thesis using assms o d ran [of pool st1] by (auto simp: with_store_option_def)
  qed
qed

lemmas keeps_valid = with_store_keeps [of agents_valid] run_then_keeps [of agents_valid] db_write_keeps [of agents_valid]

lemma create_cmd_valid: "agents_valid (ct_db st) \<Longrightarrow> agents_valid (ct_db (snd (agent_create_cmd E A g f st)))"
  unfolding agent_create_cmd_def Let_def split_beta by (rule keeps_valid | simp add: create_valid)+

lemma start_cmd_valid: "agents_valid (ct_db st) \<Longrightarrow> agents_valid (ct_db (snd (agent_start_cmd E g i st)))"
  unfolding agent_start_cmd_def by (rule keeps_valid | simp add: set_status_valid)+

lemma set_network_cmd_valid: "agents_valid (ct_db st) \<Longrightarrow> agents_valid (ct_db (snd (agent_set_network_cmd E g i n st)))"
  unfolding agent_set_network_cmd_def Let_def by (rule keeps_valid | simp add: set_network_valid | rule impI conjI)+

lemma stop_cmd_valid: "agents_valid (ct_db st) \<Longrightarrow> agents_valid (ct_db (snd (agent_stop_cmd E g stop_all args st)))"
  unfolding agent_stop_cmd_def
  by (auto intro!: keeps_valid exec_update_valid simp: row_valid_def)

lemma set_mode_cmd_valid: "agents_valid (ct_db st) \<Longrightarrow> agents_valid (ct_db (snd (agent_set_mode_cmd E g i m st)))"
  unfolding agent_set_mode_cmd_def
  by (auto intro!: keeps_valid exec_update_valid simp: row_valid_def ParseMode_cases)

lemma tick_cmd_valid: "agents_valid (ct_db st) \<Longrightarrow> agents_valid (ct_db (snd (agent_tick_cmd get put E A g i funding st)))"
  unfolding agent_tick_cmd_def Let_def split_beta
  by (auto intro!: keeps_valid simp: tickOnce_agents cong: agents_valid_cong)

section \<open>What a kill leaves in the table\<close>

definition halted_row :: "string \<Rightarrow> time \<Rightarrow> agent \<Rightarrow> agent" where
  "halted_row i t a = (if ag_id a = i then a\<lparr>ag_status := StatusHalted, ag_updated_at := t\<rparr> else a)"

text \<open>Either nothing was written, or the row of the agent was halted and nothing else changed.\<close>

definition halted_from :: "string \<Rightarrow> agent_db \<Rightarrow> agent_db \<Rightarrow> bool" where
  "halted_from i db db' \<longleftrightarrow> (\<exists>t. ad_agents db' = map (halted_row i t) (ad_agents db))"

lemma halted_row_twice [simp]: "halted_row i t2 (halted_row i t1 a) = halted_row i t2 a"
  by (simp add: halted_row_def)

lemma halted_from_trans: "halted_from i db db1 \<Longrightarrow> ad_agents db2 = ad_agents db1 \<or> halted_from i db1 db2 \<Longrightarrow> halted_from i db db2"
  by (auto simp: halted_from_def comp_def)

lemma SetStatus_cases:
  "(snd (SetStatus fail t i StatusHalted db) = db \<and> fst (SetStatus fail t i StatusHalted db) \<noteq> None)
   \<or> (halted_from i db (snd (SetStatus fail t i StatusHalted db)) \<and> fst (SetStatus fail t i StatusHalted db) = None)"
  by (cases fail) (auto simp: SetStatus_def update_agent_def halted_from_def halted_row_def)

lemma update_halted [simp]: "halted_from i db (update_agent (\<lambda>a. a\<lparr>ag_status := StatusHalted, ag_updated_at := t\<rparr>) i db)"
  by (auto simp: update_agent_def halted_from_def halted_row_def)

lemma kill_runtime_agents:
  assumes "ag_id (dp_agent d) = i"
  shows "ad_agents (ct_db (snd (kill_runtime d opts st))) = ad_agents (ct_db st) \<or> halted_from i (ct_db st) (ct_db (snd (kill_runtime d opts st)))"
proof -
  let ?rt = "NewRuntime d (ct_db st) (ct_world st)"
  obtain e l rt where t: "Trip d opts (new_life, ?rt) = (e, l, rt)" by (metis prod.collapse)
  have "rs_db rt = ct_db st \<or> halted_from i (ct_db st) (rs_db rt)"
    using Trip_db [OF t] SetStatus_cases [of _ _ i "ct_db st"] by (auto simp: assms split: if_splits prod.splits)
  then show ?thesis by (auto simp: kill_runtime_def t)
qed

lemma get_agent_InrD:
  assumes "get_agent E i st = (Inr a, st1)"
  shows "ag_id a = i" "ag_mode a \<in> {ModePaper, ModeLive}" "ct_db st1 = ct_db st"
proof -
  from assms obtain fail where "store_Get fail i (ct_db st) = Inr a" and d: "ct_db st1 = ct_db st"
    by (auto simp: get_agent_def db_read_def on_cli_def split: prod.splits)
  then show "ag_id a = i" "ag_mode a \<in> {ModePaper, ModeLive}" "ct_db st1 = ct_db st"
    by (auto simp: store_Get_def ParseMode_cases find_Some_iff split: option.splits sum.splits)
qed

lemma command_deps_agent: "command_deps E A cfg a ks net addr w = Inr d \<Longrightarrow> dp_agent d = a"
  by (auto simp: command_deps_def BuildDeps_def dest!: map_sum_InrD elim!: and_then_InrE split: prod.splits)

lemma kill_live_agents:
  assumes "kill_live C K E A g cfg a liquidate slippage reason st = Some (r, st')"
  shows "ad_agents (ct_db st') = ad_agents (ct_db st) \<or> halted_from (ag_id a) (ct_db st) (ct_db st')"
proof -
  from assms obtain oo w where o: "openKeystore C K E g (ct_world st) = Some (oo, w)" by (auto simp: kill_live_def split: option.splits)
  show ?thesis
  proof (cases oo)
    case (Inl e)
    then show ?thesis using assms o by (auto simp: kill_live_def)
  next
    case (Inr ks)
    show ?thesis
    proof (cases "command_deps E A cfg a (ks_Signer ks) [] [] w")
      case l: (Inl e)
      then show ?thesis using assms o Inr by (auto simp: kill_live_def wrap_result_def)
    next
      case d: (Inr d)
      have i: "ag_id (dp_agent d) = ag_id a" using command_deps_agent [OF d] by simp
      let ?st = "println (kill_firing a liquidate) (st\<lparr>ct_world := w\<rparr>)"
      obtain e st2 where k: "kill_runtime d ((DefaultKillSwitchOptions reason)\<lparr>ko_liquidate_spot := liquidate, ko_spot_slippage_bps := slippage\<rparr>) ?st
          = (e, st2)" by fastforce
      have "ct_db st' = ct_db st2"
        using assms o Inr d k by (auto simp: kill_live_def wrap_result_def Let_def split: option.splits)
      moreover have "ct_db ?st = ct_db st" by simp
      ultimately show ?thesis
        using kill_runtime_agents [OF i, of "(DefaultKillSwitchOptions reason)\<lparr>ko_liquidate_spot := liquidate, ko_spot_slippage_bps := slippage\<rparr>" ?st]
        unfolding k by (simp only: snd_conv)
    qed
  qed
qed

lemma kill_effect:
  assumes "agent_kill_cmd C K E A g i liquidate slippage reason st = Some (r, st')"
  shows "(ad_agents (ct_db st') = ad_agents (ct_db st) \<and> isl r \<or> halted_from i (ct_db st) (ct_db st'))
    \<and> (\<forall>pool st1 a st2. open_store E g st = (Inr pool, st1) \<and> get_agent E i st1 = (Inr a, st2) \<and> fst (fst (cx_query E (ct_world st2))) = None \<longrightarrow>
        halted_from i (ct_db st) (ct_db st') \<and> (ag_mode a = ModePaper \<longrightarrow> r = Inr ()))"
proof (cases g)
  case None
  then show ?thesis using assms by (auto simp: agent_kill_cmd_def open_store_def)
next
  case (Some cfg)
  from assms [unfolded agent_kill_cmd_def Some option.case] show ?thesis
  proof (cases rule: with_store_option_cases)
    case refused
    then show ?thesis using Some by (auto split: prod.splits)
  next
    case (ran pool st1 st2)
    obtain ga sa where ga: "get_agent E i st1 = (ga, sa)" by fastforce
    have sa: "ct_db sa = ct_db st" using get_agent_db [of E i st1] ga ran(2) by simp
    show ?thesis
    proof (cases ga)
      case (Inl e)
      then show ?thesis using ran ga sa Some by auto
    next
      case (Inr a)
      note a = get_agent_InrD [OF ga [unfolded Inr]]
      obtain hr sh where h: "db_write E (\<lambda>fail now db. error_only (SetStatus fail now (ag_id a) StatusHalted db)) sa = (hr, sh)" by fastforce
      have hw: "(isl hr \<and> ad_agents (ct_db sh) = ad_agents (ct_db st) \<and> fst (fst (cx_query E (ct_world sa))) \<noteq> None) \<or> (hr = Inr () \<and> halted_from i (ct_db st) (ct_db sh))"
        using h sa by (auto simp: db_write_def on_cli_def error_only_def a(1) SetStatus_def split: prod.splits option.splits)
      show ?thesis
      proof (cases hr)
        case (Inl e)
        then show ?thesis using ran ga h hw Inr Some by (auto simp: wrap_error_def)
      next
        case u: (Inr u)
        then have hf: "halted_from i (ct_db st) (ct_db sh)" using hw by auto
        show ?thesis
        proof (cases "ag_mode a = ModePaper")
          case True
          then show ?thesis using ran ga h u hf Inr Some by (auto simp: wrap_error_def)
        next
          case False
          then have "kill_live C K E A g cfg a liquidate slippage reason sh = Some (r, st2)" using ran(3) ga h u Inr Some by (simp add: wrap_error_def)
          from halted_from_trans [OF hf kill_live_agents [OF this, unfolded a(1)]] show ?thesis using ran ga False Inr Some by auto
        qed
      qed
    qed
  qed
qed

text \<open>
  C7: A kill halts first. Whenever the command returns, with or without an error, either nothing was stored and it failed while reading the
  agent or writing its status, or exactly the agent's own row is halted; in particular when the
  database answers and knows the agent, the row is halted even if the keystore, a venue or a swap then fails. A paper agent's kill never fails after that.
\<close>

theorem kill_halts_first:
  assumes "agent_kill_cmd C K E A g i liquidate slippage reason st = Some (r, st')"
  shows "(ad_agents (ct_db st') = ad_agents (ct_db st) \<and> isl r \<or> halted_from i (ct_db st) (ct_db st'))
    \<and> (\<forall>pool st1 a st2. open_store E g st = (Inr pool, st1) \<and> get_agent E i st1 = (Inr a, st2) \<and> fst (fst (cx_query E (ct_world st2))) = None \<longrightarrow>
        halted_from i (ct_db st) (ct_db st') \<and> (ag_mode a = ModePaper \<longrightarrow> r = Inr ()))"
  by (rule kill_effect [OF assms])

section \<open>A run\<close>

lemma live_gate_db: "live_gate C K E g cfg confirmed a st = Some (r, st') \<Longrightarrow> ct_db st' = ct_db st"
  by (auto simp: live_gate_def split: if_splits option.splits sum.splits prod.splits)

lemma run_foreground_agents: "run_foreground d wait a m st = Some (r, st') \<Longrightarrow> ad_agents (ct_db st') = ad_agents (ct_db st)"
  by (auto simp: run_foreground_def doTick_agents dest!: run_loop_agents split: if_splits)

lemma run_cmd_agents:
  assumes "agent_run_cmd C K E A g wait i f st = Some (r, st')"
  shows "ad_agents (ct_db st') = ad_agents (ct_db st)"
proof (cases g)
  case (Some cfg)
  from assms [unfolded agent_run_cmd_def Some option.case] show ?thesis
  proof (cases rule: with_store_option_cases)
    case (ran pool st1 st2)
    obtain ga sa where ga: "get_agent E i st1 = (ga, sa)" by fastforce
    have d: "ct_db sa = ct_db st" using get_agent_db [of E i st1] ga ran(2) by simp
    from ran(3) [unfolded ga] have "ad_agents (ct_db st2) = ad_agents (ct_db st)"
      using d by (auto split: prod.splits sum.splits option.splits dest!: live_gate_db run_foreground_agents)
    then show ?thesis using ran(4) by simp
  qed simp
qed (use assms in \<open>simp add: agent_run_cmd_def\<close>)


section \<open>Any sequence of commands\<close>

inductive agents_reachable ::
  "('k, 'p, 'e) crypto_lib \<Rightarrow> 'w ks_env \<Rightarrow> ('w, 'c, 'q) cli_env \<Rightarrow> ('w, ('k, 'p, 'e) signer, 'i) agent_kit \<Rightarrow> agent_db \<Rightarrow> bool" for C K E A where
  empty: "agents_reachable C K E A empty_db"
| create: "agents_reachable C K E A (ct_db st) \<Longrightarrow> agents_reachable C K E A (ct_db (snd (agent_create_cmd E A g f st)))"
| list_all_agents: "agents_reachable C K E A (ct_db st) \<Longrightarrow> agents_reachable C K E A (ct_db (snd (agent_list_cmd E A g st)))"
| status: "agents_reachable C K E A (ct_db st) \<Longrightarrow> agents_reachable C K E A (ct_db (snd (agent_status_cmd E A g i st)))"
| decisions: "agents_reachable C K E A (ct_db st) \<Longrightarrow> agents_reachable C K E A (ct_db (snd (agent_decisions_cmd E A g i since limit st)))"
| start: "agents_reachable C K E A (ct_db st) \<Longrightarrow> agents_reachable C K E A (ct_db (snd (agent_start_cmd E g i st)))"
| stop: "agents_reachable C K E A (ct_db st) \<Longrightarrow> agents_reachable C K E A (ct_db (snd (agent_stop_cmd E g stop_all args st)))"
| set_network: "agents_reachable C K E A (ct_db st) \<Longrightarrow> agents_reachable C K E A (ct_db (snd (agent_set_network_cmd E g i n st)))"
| set_mode: "agents_reachable C K E A (ct_db st) \<Longrightarrow> agents_reachable C K E A (ct_db (snd (agent_set_mode_cmd E g i m st)))"
| tick: "agents_reachable C K E A (ct_db st) \<Longrightarrow> agents_reachable C K E A (ct_db (snd (agent_tick_cmd get put E A g i funding st)))"
| kill: "agents_reachable C K E A (ct_db st) \<Longrightarrow> agent_kill_cmd C K E A g i liquidate slippage reason st = Some (r, st')
    \<Longrightarrow> agents_reachable C K E A (ct_db st')"
| run: "agents_reachable C K E A (ct_db st) \<Longrightarrow> agent_run_cmd C K E A g wait i f st = Some (r, st') \<Longrightarrow> agents_reachable C K E A (ct_db st')"

lemma halted_from_valid: "agents_valid db \<Longrightarrow> halted_from i db db' \<Longrightarrow> agents_valid db'"
  by (auto simp: halted_from_def halted_row_def row_valid_def intro: agents_valid_map)

lemma reading_keeps:
  "agents_valid (ct_db st) \<Longrightarrow> agents_valid (ct_db (snd (agent_list_cmd E A g st)))"
  "agents_valid (ct_db st) \<Longrightarrow> agents_valid (ct_db (snd (agent_status_cmd E A g i st)))"
  "agents_valid (ct_db st) \<Longrightarrow> agents_valid (ct_db (snd (agent_decisions_cmd E A g i since limit st)))"
  unfolding agent_list_cmd_def agent_status_cmd_def agent_decisions_cmd_def Let_def split_beta
  by (auto intro!: keeps_valid)

lemma reachable_valid: "agents_reachable C K E A db \<Longrightarrow> agents_valid db"
proof (induction rule: agents_reachable.induct)
  case empty
  show ?case by (simp add: agents_valid_def empty_db_def)
next
  case (kill st g i liquidate slippage reason r st')
  then show ?case using kill_effect [OF kill.hyps(2)] halted_from_valid agents_valid_cong by blast
next
  case (run st g wait i f r st')
  then show ?case using run_cmd_agents [OF run.hyps(2)] agents_valid_cong by blast
qed (simp_all add: create_cmd_valid reading_keeps start_cmd_valid stop_cmd_valid set_network_cmd_valid set_mode_cmd_valid tick_cmd_valid)

lemma find_distinct: "distinct (map f xs) \<Longrightarrow> x \<in> set xs \<Longrightarrow> find (\<lambda>y. f y = f x) xs = Some x"
  by (induction xs) auto


section \<open>A shell without a passphrase\<close>

definition shell_env :: "(noop_world, unit, unit) cli_env" where
  "shell_env = \<lparr>cx_pg = null_pgx, cx_query = (\<lambda>w. ((None, nw_now w), w)), cx_now = (\<lambda>w. (nw_now w, w)), cx_home = (\<lambda>_. Inr ''/root''),
     cx_getenv = (\<lambda>_ _. [])\<rparr>"

definition shell_kit :: "(noop_world, (256 word, bytes, unit) signer, unit) agent_kit" where
  "shell_kit = \<lparr>ak_ctors = sample_ctors,
     ak_strategies = [(''noop'', \<lambda>_. Inr \<lparr>bt_warmup = (\<lambda>_ w. (None, w)), bt_decide = (\<lambda>_ w. (Inr zero_decision, w))\<rparr>)],
     ak_factory = (\<lambda>_. Inr ()), ak_base = sample_deps None zero_decision, ak_decode = (\<lambda>_. []), ak_json = (\<lambda>s. Inr s),
     ak_duration = (\<lambda>_. Inr 0), ak_fixed = (\<lambda>_ _. ''0''), ak_rfc3339 = int_str\<rparr>"

definition shell_state :: "mode \<Rightarrow> (noop_world, agent_db) cli_state" where
  "shell_state m = \<lparr>ct_world = sample_world,
     ct_db = empty_db\<lparr>ad_agents := [sample_agent\<lparr>ag_mode := m, ag_network := NetworkMainnet, ag_status := StatusRunning\<rparr>]\<rparr>, ct_out = []\<rparr>"

lemma shell_open [simp]: "open_store shell_env (Some cfg) st = (Inr (), st)"
  by (simp add: open_store_def on_cli_def store_Open_def shell_env_def null_pgx_def wrap_result_def wrap_error_def run_then_def)

lemma shell_sel [simp]: "cx_query shell_env w = ((None, nw_now w), w)" "cx_getenv shell_env w n = []"
  by (simp_all add: shell_env_def)

lemma shell_keystore: "\<exists>e. openKeystore C K shell_env (Some sample_config) w = Some (Inl e, w)"
  by (simp add: openKeystore_def keystorePath_def keystorePassphrase_def sample_config_def)

lemma shell_get:
  "m \<in> {ModePaper, ModeLive} \<Longrightarrow> get_agent shell_env ''a1'' (shell_state m)
     = (Inr (sample_agent\<lparr>ag_mode := m, ag_network := NetworkMainnet, ag_status := StatusRunning\<rparr>), shell_state m)"
  by (auto simp: get_agent_def db_read_def on_cli_def shell_env_def shell_state_def store_Get_def empty_db_def sample_agent_def zero_agent_def ParseMode_def)

theorem kill_halts_first_witness:
  "\<forall>K. \<exists>r st'. agent_kill_cmd sample_crypto K shell_env shell_kit (Some sample_config) ''a1'' True 0 ''manual'' (shell_state ModeLive) = Some (r, st')
     \<and> isl r \<and> map ag_status (ad_agents (ct_db st')) = [StatusHalted]"
proof (intro allI)
  fix K
  have "\<exists>r st'. agent_kill_cmd sample_crypto K shell_env shell_kit (Some sample_config) ''a1'' True 0 ''manual'' (shell_state ModeLive) = Some (r, st') \<and> isl r"
    using shell_keystore [of sample_crypto K sample_world]
    by (auto simp: agent_kill_cmd_def with_store_option_def shell_get db_write_def on_cli_def SetStatus_def error_only_def wrap_error_def kill_live_def)
       (simp add: shell_state_def)
  then obtain r st' where k: "agent_kill_cmd sample_crypto K shell_env shell_kit (Some sample_config) ''a1'' True 0 ''manual'' (shell_state ModeLive)
      = Some (r, st')" "isl r" by blast
  have "fst (fst (cx_query shell_env (ct_world (shell_state ModeLive)))) = None" by (simp add: shell_env_def)
  with kill_halts_first [OF k(1), THEN conjunct2] shell_get [of ModeLive]
  have "halted_from ''a1'' (ct_db (shell_state ModeLive)) (ct_db st')" using shell_open by blast
  then show "\<exists>r st'. agent_kill_cmd sample_crypto K shell_env shell_kit (Some sample_config) ''a1'' True 0 ''manual'' (shell_state ModeLive) = Some (r, st')
      \<and> isl r \<and> map ag_status (ad_agents (ct_db st')) = [StatusHalted]"
    using k by (auto simp: halted_from_def halted_row_def shell_state_def sample_agent_def)
qed



end
