(* ===== verification/Tables.thy ===== *)
theory Tables
  imports Cli
begin

text \<open>
  The tables the commands print through \<open>text/tabwriter\<close>, modelled in theory \<open>Cli\<close>: on rectangular tables the layout of the writer is the simple one.
\<close>

definition plain_cell :: "string \<Rightarrow> bool" where
  "plain_cell c \<longleftrightarrow> CHR 0x09 \<notin> set c \<and> CHR 0x0A \<notin> set c"

definition column_line :: "string list list \<Rightarrow> nat \<Rightarrow> string list \<Rightarrow> string" where
  "column_line rows n r =
     concat (map (\<lambda>j. pad_right (foldr max (map (\<lambda>q. rune_count (q ! j) + 2) rows) 0) (r ! j)) [0..<n]) @ r ! n @ newline"

lemma str_Split_none: "c \<notin> set s \<Longrightarrow> str_Split c s = [s]"
  by (induction s) auto

lemma str_Split_head: "c \<notin> set s \<Longrightarrow> str_Split c (s @ c # t) = s # str_Split c t"
  by (induction s) auto

lemma split_lines: "\<forall>l \<in> set ls. CHR 0x0A \<notin> set l \<Longrightarrow> str_Split CHR 0x0A (concat (map (\<lambda>l. l @ newline) ls)) = ls @ [[]]"
  by (induction ls) (simp_all add: newline_def str_Split_head)

lemma split_cells: "cells \<noteq> [] \<Longrightarrow> \<forall>c \<in> set cells. CHR 0x09 \<notin> set c \<Longrightarrow> str_Split CHR 0x09 (str_Join tab cells) = cells"
  by (induction tab cells rule: str_Join.induct) (simp_all add: tab_def str_Split_none str_Split_head)

lemma join_plain: "\<forall>c \<in> set cells. CHR 0x0A \<notin> set c \<Longrightarrow> CHR 0x0A \<notin> set (str_Join tab cells)"
  by (induction tab cells rule: str_Join.induct) (simp_all add: tab_def)

lemma join_lines: "str_Join newline (ls @ [[]]) = concat (map (\<lambda>l. l @ newline) ls)"
proof (induction ls)
  case (Cons l ls)
  then show ?case by (cases ls) simp_all
qed simp

lemma table_cells:
  assumes "\<forall>r \<in> set rows. r \<noteq> [] \<and> list_all plain_cell r"
  shows "tab_cells (concat (map (\<lambda>r. str_Join tab r @ newline) rows)) = rows @ [[[]]]"
proof -
  have e: "concat (map (\<lambda>r. str_Join tab r @ newline) rows) = concat (map (\<lambda>l. l @ newline) (map (str_Join tab) rows))"
    by (simp add: comp_def)
  have "str_Split CHR 0x0A (concat (map (\<lambda>r. str_Join tab r @ newline) rows)) = map (str_Join tab) rows @ [[]]"
    unfolding e by (rule split_lines) (use assms join_plain in \<open>fastforce simp: plain_cell_def list_all_iff\<close>)
  moreover have "map (str_Split CHR 0x09) (map (str_Join tab) rows) = rows"
    using assms by (auto simp: plain_cell_def list_all_iff split_cells intro!: map_idI)
  ultimately show ?thesis by (simp add: tab_cells_def)
qed

lemma whole_column:
  assumes "\<forall>r \<in> set rows. length r = Suc n" and "j < n" and "i < length rows"
  shows "column_block (rows @ [[[]]]) i j = rows"
proof -
  have "takeWhile (has_column j) (rev (take i rows)) = rev (take i rows)" "takeWhile (has_column j) (drop i rows @ [[[]]]) = drop i rows"
    using assms by (auto simp: has_column_def takeWhile_eq_all_conv takeWhile_append dest: in_set_takeD in_set_dropD)
  moreover have "take i (rows @ [[[]]]) = take i rows" "drop i (rows @ [[[]]]) = drop i rows @ [[[]]]" using assms(3) by simp_all
  ultimately show ?thesis by (simp only: column_block_def rev_rev_ident append_take_drop_id)
qed

section \<open>Properties\<close>

text \<open>
  The tables of the commands. On rows with the same number of cells, free of tabs and newlines, the column layout is the obvious
  one: every cell but the last is padded to two more than the widest of its column, and no cell is lost, cut or moved.
\<close>

theorem tables_in_columns:
  assumes "\<forall>r \<in> set rows. length r = Suc n \<and> list_all plain_cell r"
  shows "table_text rows = concat (map (column_line rows n) rows)"
proof -
  let ?lines = "rows @ [[[]]]"
  have cells: "tab_cells (concat (map (\<lambda>r. str_Join tab r @ newline) rows)) = ?lines"
    by (rule table_cells) (use assms in auto)
  have line: "tab_line ?lines i @ newline = column_line rows n (rows ! i)" if i: "i < length rows" for i
  proof -
    have len: "length (rows ! i) = Suc n" using assms i by simp
    have ri: "?lines ! i = rows ! i" using i by (simp add: nth_append)
    let ?width = "\<lambda>j. foldr max (map (\<lambda>q. rune_count (q ! j) + 2) rows) 0"
    let ?f = "\<lambda>j. if has_column j (rows ! i) then pad_right (column_width ?lines i j) (rows ! i ! j) else rows ! i ! j"
    have "?f j = pad_right (?width j) (rows ! i ! j)" if "j < n" for j
      using len whole_column [OF _ that i] assms that by (simp add: has_column_def column_width_def)
    then have "map ?f [0..<n] = map (\<lambda>j. pad_right (?width j) (rows ! i ! j)) [0..<n]" by simp
    moreover have "tab_line ?lines i = concat (map ?f [0..<n]) @ rows ! i ! n"
      unfolding tab_line_def ri by (simp add: len has_column_def)
    ultimately show ?thesis by (simp only: column_line_def append_assoc)
  qed
  have "table_text rows = str_Join newline (map (tab_line ?lines) [0..<length rows] @ [[]])"
    by (simp add: table_text_def tab_format_def Let_def cells tab_line_def has_column_def)
  also have "\<dots> = concat (map (\<lambda>i. tab_line ?lines i @ newline) [0..<length rows])"
    by (simp add: join_lines comp_def)
  also have "\<dots> = concat (map (\<lambda>i. column_line rows n (rows ! i)) [0..<length rows])"
    using line by (intro arg_cong [of _ _ concat] map_cong) auto
  also have "map (\<lambda>i. column_line rows n (rows ! i)) [0..<length rows] = map (column_line rows n) (map ((!) rows) [0..<length rows])"
    by (simp add: comp_def)
  finally show ?thesis by (simp add: map_nth)
qed

theorem tables_in_columns_witness:
  "table_text [[''AGENT'', ''NAV''], [''a1'', ''$1.0000'']] = concat (map (column_line [[''AGENT'', ''NAV''], [''a1'', ''$1.0000'']] 1)
     [[''AGENT'', ''NAV''], [''a1'', ''$1.0000'']])"
  by (rule tables_in_columns) (simp add: plain_cell_def)

end
