(* ===== verification/CliReports.thy ===== *)
theory CliReports
  imports CliAgentRun Tables
begin

text \<open>
  The commands that report on agents (\<open>internal/cli/reconcile.go\<close> and \<open>pnl.go\<close>): the reconciliation of the books against the venues and the
  profit and loss of the agents, from snapshots or live. A result \<open>None\<close> is the panic of theory \<open>CliAgentRun\<close>.
\<close>

section \<open>What the reports share\<close>

text \<open>\<open>decimal.StringFixed\<close>, the JSON encoders of the three reports and the decoder of stored positions.\<close>

record report_kit =
  rk_fixed :: "nat \<Rightarrow> decimal \<Rightarrow> string"
  rk_report_json :: "report \<Rightarrow> go_error + string"
  rk_positions_json :: "basis_valuation list \<Rightarrow> go_error + string"
  rk_navs_json :: "nav_row list \<Rightarrow> go_error + string"
  rk_positions :: "string \<Rightarrow> basis_valuation list"

definition writeJSON :: "go_error + string \<Rightarrow> ('w, 'd) cli_state \<Rightarrow> (go_error + unit) \<times> ('w, 'd) cli_state" where
  "writeJSON r st = (case r of Inl e \<Rightarrow> (Inl e, st) | Inr s \<Rightarrow> (Inr (), println s st))"

definition option_then ::
  "(('e + 'a) \<times> 's) option \<Rightarrow> ('a \<Rightarrow> 's \<Rightarrow> (('e + 'b) \<times> 's) option) \<Rightarrow> (('e + 'b) \<times> 's) option" where
  "option_then p f = (case p of None \<Rightarrow> None | Some (Inl e, s) \<Rightarrow> Some (Inl e, s) | Some (Inr a, s) \<Rightarrow> f a s)"

text \<open>A keystore that cannot be opened is a nil pointer.\<close>

definition best_keystore ::
  "('k, 'p, 'e) crypto_lib \<Rightarrow> 'w ks_env \<Rightarrow> ('w, 'c, 'q) cli_env \<Rightarrow> globals \<Rightarrow> ('w, 'd) cli_state
     \<Rightarrow> (('k, 'p, 'e) signer keystore option \<times> ('w, 'd) cli_state) option" where
  "best_keystore C K E g st =
     (case openKeystore C K E g (ct_world st) of
        None \<Rightarrow> None
      | Some (r, w) \<Rightarrow> Some (case r of Inl _ \<Rightarrow> None | Inr ks \<Rightarrow> Some (ks_Signer ks), st\<lparr>ct_world := w\<rparr>))"

definition report_deps ::
  "('w, 'c, 'q) cli_env \<Rightarrow> ('w, 's, 'i) agent_kit \<Rightarrow> config \<Rightarrow> agent \<Rightarrow> 's keystore option
     \<Rightarrow> ('w, agent_db) cli_state \<Rightarrow> ((go_error + 'w deps) \<times> ('w, agent_db) cli_state) option" where
  "report_deps E A cfg a ks st = map_option (\<lambda>r. (r, st)) (deps_of_pointer E A cfg a ks [] [] (ct_world st))"

definition report_agents ::
  "('w, 'c, 'q) cli_env \<Rightarrow> string \<Rightarrow> ('w, agent_db) cli_state \<Rightarrow> (go_error + agent list) \<times> ('w, agent_db) cli_state" where
  "report_agents E i st =
     (if i \<noteq> [] then run_then (get_agent E i st) (\<lambda>a st1. (Inr [a], st1)) else db_read E store_List st)"

section \<open>Reconciliation\<close>

definition reconcile_agent ::
  "('w, 'c, 'q) cli_env \<Rightarrow> ('w, 's, 'i) agent_kit \<Rightarrow> config \<Rightarrow> 's keystore option \<Rightarrow> agent \<Rightarrow> ('w, agent_db) cli_state
     \<Rightarrow> ((go_error + report) \<times> ('w, agent_db) cli_state) option" where
  "reconcile_agent E A cfg ks a st =
     option_then (map_option (wrap_error (''build deps for '' @ ag_id a)) (report_deps E A cfg a ks st)) (\<lambda>d st1.
     Some (run_then (db_read E (\<lambda>fail. LoadOpenBasis fail (ag_id a)) st1) (\<lambda>rows st2.
       on_cli (\<lambda>w. let (now, w1) = dp_wall d w in Reconcile (dp_lib d) now (NewReconcile (dp_perp d) (dp_swaps d)) (ag_id a) rows w1) st2)))"

definition add_report :: "report \<Rightarrow> report \<Rightarrow> report" where
  "add_report c r = c\<lparr>rp_open_basis := rp_open_basis c + rp_open_basis r, rp_ok := rp_ok c + rp_ok r,
     rp_drifts := rp_drifts c @ rp_drifts r, rp_agents_count := Suc (rp_agents_count c)\<rparr>"

definition no_report :: report where
  "no_report = \<lparr>rp_generated_at = zero_time, rp_agents_count = 0, rp_open_basis = 0, rp_ok = 0, rp_drifts = []\<rparr>"

fun reconcile_agents ::
  "('w, 'c, 'q) cli_env \<Rightarrow> ('w, 's, 'i) agent_kit \<Rightarrow> config \<Rightarrow> 's keystore option \<Rightarrow> agent list \<Rightarrow> report \<Rightarrow> ('w, agent_db) cli_state
     \<Rightarrow> ((go_error + report) \<times> ('w, agent_db) cli_state) option" where
  "reconcile_agents E A cfg ks [] c st = Some (Inr c, st)"
| "reconcile_agents E A cfg ks (a # as) c st =
     option_then (reconcile_agent E A cfg ks a st) (\<lambda>r st1. reconcile_agents E A cfg ks as (add_report c r) st1)"

fun severity_str :: "severity \<Rightarrow> string" where
  "severity_str SeverityInfo = ''info''"
| "severity_str SeverityWarning = ''warning''"
| "severity_str SeverityCritical = ''critical''"

fun severityRank :: "severity \<Rightarrow> nat" where
  "severityRank SeverityCritical = 0"
| "severityRank SeverityWarning = 1"
| "severityRank SeverityInfo = 2"

text \<open>The order of entries that agree on both keys is unspecified in the code; here it is the order found.\<close>

definition sort_drifts :: "drift list \<Rightarrow> drift list" where
  "sort_drifts ds = sort_key (severityRank \<circ> dt_severity) (sort_key dt_basis_key ds)"

definition drift_row :: "declib \<Rightarrow> drift \<Rightarrow> string list" where
  "drift_row L d = [severity_str (dt_severity d), dt_agent_id d, dt_basis_key d, dt_leg d, dt_field d, d_str L (dt_expected d),
     d_str L (dt_actual d), dt_note d]"

definition drift_head :: "string list" where
  "drift_head = [''SEV'', ''AGENT'', ''BASIS'', ''LEG'', ''FIELD'', ''EXPECTED'', ''ACTUAL'', ''NOTE'']"

definition report_head :: "report \<Rightarrow> string" where
  "report_head r = ''Reconciled '' @ nat_str (rp_agents_count r) @ '' agents '' @ em_dash @ '' '' @ nat_str (rp_open_basis r)
     @ '' open positions '' @ em_dash @ '' '' @ nat_str (rp_ok r) @ '' clean '' @ em_dash @ '' '' @ nat_str (length (rp_drifts r))
     @ '' drift entries'' @ newline @ newline"

definition renderReconcileReport :: "declib \<Rightarrow> report \<Rightarrow> string" where
  "renderReconcileReport L r = report_head r @
     (if rp_drifts r = [] then ''All clean.'' @ newline
      else table_text (drift_head # map (drift_row L) (sort_drifts (rp_drifts r))))"

definition end_report ::
  "('w, 's, 'i) agent_kit \<Rightarrow> report_kit \<Rightarrow> bool \<Rightarrow> bool \<Rightarrow> report \<Rightarrow> ('w, 'd) cli_state \<Rightarrow> (go_error + unit) \<times> ('w, 'd) cli_state" where
  "end_report A R json_out fail_on_drift r st =
     (if json_out then writeJSON (rk_report_json R r) st
      else let st1 = print (renderReconcileReport (dp_lib (ak_base A)) r) st
        in if fail_on_drift \<and> HasIssues r then (Inl (Errorf ''reconcile: drift detected''), st1) else (Inr (), st1))"

definition reconcile_cmd ::
  "('k, 'p, 'e) crypto_lib \<Rightarrow> 'w ks_env \<Rightarrow> ('w, 'c, 'q) cli_env \<Rightarrow> ('w, ('k, 'p, 'e) signer, 'i) agent_kit \<Rightarrow> report_kit \<Rightarrow> globals
     \<Rightarrow> string \<Rightarrow> bool \<Rightarrow> bool \<Rightarrow> ('w, agent_db) cli_state \<Rightarrow> ((go_error + unit) \<times> ('w, agent_db) cli_state) option" where
  "reconcile_cmd C K E A R g i json_out fail_on_drift st0 =
     (case g of
        None \<Rightarrow> Some (Inl no_globals, st0)
      | Some cfg \<Rightarrow> with_store_option E g (\<lambda>st.
          option_then (Some (report_agents E i st)) (\<lambda>agents st1.
          case best_keystore C K E g st1 of
            None \<Rightarrow> None
          | Some (ks, st2) \<Rightarrow>
              option_then (reconcile_agents E A cfg ks agents no_report st2) (\<lambda>c st3.
              let (now, st4) = on_cli (cx_now E) st3
              in Some (end_report A R json_out fail_on_drift (c\<lparr>rp_generated_at := now\<rparr>) st4)))) st0)"

section \<open>Live valuation\<close>

definition aggregates_call ::
  "('w, 'c, 'q) cli_env \<Rightarrow> string \<Rightarrow> ('w, agent_db) cli_state \<Rightarrow> (go_error + pnl_aggregates) \<times> ('w, agent_db) cli_state" where
  "aggregates_call E i st =
     (let ((f1, _), st1) = on_cli (cx_query E) st;
          ((f2, _), st2) = (if f1 = None then on_cli (cx_query E) st1 else ((None, zero_time), st1))
      in (AggregatesForAgent (f1, f2) i (ct_db st2), st2))"

definition computeLiveNAV ::
  "('k, 'p, 'e) crypto_lib \<Rightarrow> 'w ks_env \<Rightarrow> ('w, 'c, 'q) cli_env \<Rightarrow> ('w, ('k, 'p, 'e) signer, 'i) agent_kit \<Rightarrow> globals
     \<Rightarrow> agent \<Rightarrow> ('w, agent_db) cli_state \<Rightarrow> ((go_error + agent_nav) \<times> ('w, agent_db) cli_state) option" where
  "computeLiveNAV C K E A g a st =
     (case g of
        None \<Rightarrow> Some (Inl no_globals, st)
      | Some cfg \<Rightarrow>
          (case best_keystore C K E g st of
             None \<Rightarrow> None
           | Some (ks, st1) \<Rightarrow>
               option_then (report_deps E A cfg a ks st1) (\<lambda>d st2.
               Some (run_then (aggregates_call E (ag_id a) st2) (\<lambda>agg st3.
               run_then (db_read E (\<lambda>fail. LoadOpenBasis fail (ag_id a)) st3) (\<lambda>rows st4.
               let (now, st5) = on_cli (dp_wall d) st4
               in on_cli (ValueAgent (dp_lib d) (dp_sort d) now \<lparr>pe_perp = dp_perp d, pe_swaps = dp_swaps d\<rparr> (ag_id a)
                    \<lparr>ph_open_positions = rows, ph_realized_pnl = pa_realized_pnl agg, ph_cumulative_gas = pa_cumulative_gas agg\<rparr>) st5))))))"

section \<open>Formats\<close>

definition fmtUSDC :: "report_kit \<Rightarrow> decimal \<Rightarrow> string" where
  "fmtUSDC R d =
     (if d = 0 then ''$0.0000''
      else if d < 0 then ''-$'' @ rk_fixed R 4 \<bar>d\<bar> else ''$'' @ rk_fixed R 4 d)"

definition fmtAmount :: "report_kit \<Rightarrow> decimal \<Rightarrow> string" where
  "fmtAmount R d = (if d = 0 then ''0'' else TrimRight (TrimRight (rk_fixed R 8 d) CHR ''0'') CHR ''.'')"

definition nano_minute :: duration where
  "nano_minute = 60 * nano_second"

text \<open>Conversions to \<open>int\<close> truncate.\<close>

definition quot_int :: "int \<Rightarrow> int \<Rightarrow> int" where
  "quot_int x y = (if x < 0 then - ((- x) div y) else x div y)"

definition humanAge :: "duration \<Rightarrow> string" where
  "humanAge d =
     (if d < nano_minute then int_str (quot_int d nano_second) @ ''s''
      else if d < nano_hour then int_str (quot_int d nano_minute) @ ''m''
      else if d < 24 * nano_hour then int_str (quot_int d nano_hour) @ ''h''
      else int_str (quot_int d (24 * nano_hour)) @ ''d'')"

section \<open>Summary\<close>

record pnl_row =
  pr_agent_id :: string
  pr_strategy :: string
  pr_mode :: string
  pr_status :: string
  pr_open :: int
  pr_nav :: decimal
  pr_realized :: decimal
  pr_unrealized :: decimal
  pr_gas :: decimal
  pr_snapshot_at :: time
  pr_source :: string

definition bare_row :: "agent \<Rightarrow> pnl_row" where
  "bare_row a = \<lparr>pr_agent_id = ag_id a, pr_strategy = ag_strategy a, pr_mode = mode_str (ag_mode a), pr_status = status_str (ag_status a),
     pr_open = 0, pr_nav = 0, pr_realized = 0, pr_unrealized = 0, pr_gas = 0, pr_snapshot_at = zero_time, pr_source = []\<rparr>"

definition live_row :: "agent \<Rightarrow> agent_nav \<Rightarrow> pnl_row" where
  "live_row a n = (bare_row a)\<lparr>pr_nav := an_nav n, pr_realized := an_realized_pnl n, pr_unrealized := an_nav n - an_realized_pnl n,
     pr_gas := an_cumulative_gas n, pr_open := int (an_open_positions n), pr_snapshot_at := an_time n, pr_source := ''live''\<rparr>"

definition snapshot_row :: "agent \<Rightarrow> nav_row \<Rightarrow> pnl_row" where
  "snapshot_row a s = (bare_row a)\<lparr>pr_nav := nr_nav s, pr_realized := nr_realized_pnl s, pr_unrealized := nr_nav s - nr_realized_pnl s,
     pr_gas := nr_cumulative_gas s, pr_open := nr_open_positions s, pr_snapshot_at := nr_time s, pr_source := ''snapshot''\<rparr>"

definition summaryFor ::
  "('k, 'p, 'e) crypto_lib \<Rightarrow> 'w ks_env \<Rightarrow> ('w, 'c, 'q) cli_env \<Rightarrow> ('w, ('k, 'p, 'e) signer, 'i) agent_kit \<Rightarrow> globals
     \<Rightarrow> bool \<Rightarrow> agent \<Rightarrow> ('w, agent_db) cli_state \<Rightarrow> ((go_error + pnl_row) \<times> ('w, agent_db) cli_state) option" where
  "summaryFor C K E A g live a st =
     (if live then option_then (computeLiveNAV C K E A g a st) (\<lambda>n st1. Some (Inr (live_row a n), st1))
      else Some (run_then (db_read E (\<lambda>fail. LatestNAVSnapshot fail (ag_id a)) st) (\<lambda>s st1.
        (Inr (case s of None \<Rightarrow> (bare_row a)\<lparr>pr_source := ''none''\<rparr> | Some r \<Rightarrow> snapshot_row a r), st1))))"

fun summary_rows ::
  "('k, 'p, 'e) crypto_lib \<Rightarrow> 'w ks_env \<Rightarrow> ('w, 'c, 'q) cli_env \<Rightarrow> ('w, ('k, 'p, 'e) signer, 'i) agent_kit \<Rightarrow> globals
     \<Rightarrow> bool \<Rightarrow> agent list \<Rightarrow> ('w, agent_db) cli_state \<Rightarrow> ((go_error + pnl_row list) \<times> ('w, agent_db) cli_state) option" where
  "summary_rows C K E A g live [] st = Some (Inr [], st)"
| "summary_rows C K E A g live (a # as) st =
     option_then (summaryFor C K E A g live a st) (\<lambda>r st1.
     option_then (summary_rows C K E A g live as st1) (\<lambda>rs st2. Some (Inr (r # rs), st2)))"

definition summary_head :: "string list" where
  "summary_head = [''AGENT'', ''STRATEGY'', ''MODE'', ''STATUS'', ''OPEN'', ''REALIZED'', ''UNREALIZED'', ''NAV'', ''GAS'', ''SOURCE'', ''AGE'']"

definition summary_line :: "report_kit \<Rightarrow> string \<Rightarrow> pnl_row \<Rightarrow> string list" where
  "summary_line R age r = [pr_agent_id r, pr_strategy r, pr_mode r, pr_status r, int_str (pr_open r), fmtUSDC R (pr_realized r),
     fmtUSDC R (pr_unrealized r), fmtUSDC R (pr_nav r), fmtUSDC R (pr_gas r), pr_source r, age]"

text \<open>\<open>time.Since\<close> saturates at the bounds of a duration.\<close>

definition time_since :: "time \<Rightarrow> time \<Rightarrow> duration" where
  "time_since now t = max (- (2 ^ 63)) (min (2 ^ 63 - 1) (now - t))"

fun summary_lines ::
  "('w, 'c, 'q) cli_env \<Rightarrow> report_kit \<Rightarrow> pnl_row list \<Rightarrow> ('w, 'd) cli_state \<Rightarrow> string list list \<times> ('w, 'd) cli_state" where
  "summary_lines E R [] st = ([], st)"
| "summary_lines E R (r # rs) st =
     (let (age, st1) = (if pr_snapshot_at r = zero_time then (em_dash, st)
            else let (now, st1) = on_cli (cx_now E) st in (humanAge (time_since now (pr_snapshot_at r)), st1));
          (ls, st2) = summary_lines E R rs st1
      in (summary_line R age r # ls, st2))"

definition pnl_summary_cmd ::
  "('k, 'p, 'e) crypto_lib \<Rightarrow> 'w ks_env \<Rightarrow> ('w, 'c, 'q) cli_env \<Rightarrow> ('w, ('k, 'p, 'e) signer, 'i) agent_kit \<Rightarrow> report_kit
     \<Rightarrow> (pnl_row list \<Rightarrow> go_error + string) \<Rightarrow> globals \<Rightarrow> string \<Rightarrow> bool \<Rightarrow> bool \<Rightarrow> ('w, agent_db) cli_state
     \<Rightarrow> ((go_error + unit) \<times> ('w, agent_db) cli_state) option" where
  "pnl_summary_cmd C K E A R js g i json_out live = with_store_option E g (\<lambda>st.
     option_then (Some (report_agents E i st)) (\<lambda>agents st1.
     option_then (summary_rows C K E A g live agents st1) (\<lambda>rows st2.
     let rows' = sort_key pr_agent_id rows
     in Some (if json_out then writeJSON (js rows') st2
         else let (ls, st3) = summary_lines E R rows' st2 in (Inr (), print (table_text (summary_head # ls)) st3)))))"

section \<open>Positions and history\<close>

fun valuation_str :: "valuation_status \<Rightarrow> string" where
  "valuation_str ValuationOK = ''ok''"
| "valuation_str ValuationDegradedSpot = ''spot_at_cost''"
| "valuation_str ValuationDegradedPerp = ''perp_no_unrealized''"
| "valuation_str ValuationDegradedBoth = ''both_at_cost''"

definition position_line :: "report_kit \<Rightarrow> basis_valuation \<Rightarrow> string list" where
  "position_line R p = [bv_underlying p, chain_str (bv_chain p), fmtAmount R (bv_spot_qty p), fmtUSDC R (bv_spot_cost p),
     fmtUSDC R (bv_spot_value p), fmtUSDC R (bv_perp_unrealized p), fmtUSDC R (bv_funding p), fmtUSDC R (bv_gas p),
     fmtUSDC R (bv_net_unrealized p), valuation_str (bv_status p)]"

definition renderPositions :: "report_kit \<Rightarrow> basis_valuation list \<Rightarrow> string" where
  "renderPositions R ps =
     (if ps = [] then ''(no open positions)'' @ newline
      else table_text ([''BASIS'', ''CHAIN'', ''SPOT QTY'', ''COST USDC'', ''SPOT VAL'', ''PERP UPNL'', ''FUNDING'', ''GAS'', ''NET P&L'', ''STATUS'']
        # map (position_line R) ps))"

text \<open>An agent id given by the flag or as the only argument.\<close>

definition given_agent :: "string \<Rightarrow> string list \<Rightarrow> string" where
  "given_agent flag args = (if flag = [] \<and> length args = 1 then hd args else flag)"

definition show_positions ::
  "report_kit \<Rightarrow> bool \<Rightarrow> basis_valuation list \<Rightarrow> ('w, 'd) cli_state \<Rightarrow> (go_error + unit) \<times> ('w, 'd) cli_state" where
  "show_positions R json_out ps st =
     (if json_out then writeJSON (rk_positions_json R ps) st else (Inr (), print (renderPositions R ps) st))"

definition pnl_positions_cmd ::
  "('k, 'p, 'e) crypto_lib \<Rightarrow> 'w ks_env \<Rightarrow> ('w, 'c, 'q) cli_env \<Rightarrow> ('w, ('k, 'p, 'e) signer, 'i) agent_kit \<Rightarrow> report_kit
     \<Rightarrow> globals \<Rightarrow> string \<Rightarrow> string list \<Rightarrow> bool \<Rightarrow> bool \<Rightarrow> ('w, agent_db) cli_state \<Rightarrow> ((go_error + unit) \<times> ('w, agent_db) cli_state) option" where
  "pnl_positions_cmd C K E A R g flag args json_out live st0 =
     (let i = given_agent flag args
      in if i = [] then Some (Inl (Errorf ''provide --agent or pass the agent id as an argument''), st0)
         else with_store_option E g (\<lambda>st.
           option_then (Some (get_agent E i st)) (\<lambda>a st1.
           if live then option_then (computeLiveNAV C K E A g a st1) (\<lambda>n st2. Some (show_positions R json_out (an_positions n) st2))
           else Some (run_then (db_read E (\<lambda>fail. LatestNAVSnapshot fail i) st1) (\<lambda>s st2.
             case s of
               None \<Rightarrow> (Inr (), println (''no NAV snapshot yet '' @ em_dash @ '' run a tick or use --live'') st2)
             | Some r \<Rightarrow> show_positions R json_out (rk_positions R (nr_positions_json r)) st2)))) st0)"

definition history_line :: "report_kit \<Rightarrow> (time \<Rightarrow> string) \<Rightarrow> nav_row \<Rightarrow> string list" where
  "history_line R fmt r = [fmt (nr_time r), fmtUSDC R (nr_nav r), fmtUSDC R (nr_realized_pnl r), fmtUSDC R (nr_nav r - nr_realized_pnl r),
     int_str (nr_open_positions r), fmtUSDC R (nr_cumulative_gas r)]"

definition pnl_history_cmd ::
  "('w, 'c, 'q) cli_env \<Rightarrow> ('w, 's, 'i) agent_kit \<Rightarrow> report_kit \<Rightarrow> globals \<Rightarrow> string \<Rightarrow> string list \<Rightarrow> string \<Rightarrow> int \<Rightarrow> bool
     \<Rightarrow> ('w, agent_db) cli_state \<Rightarrow> (go_error + unit) \<times> ('w, agent_db) cli_state" where
  "pnl_history_cmd E A R g flag args since limit json_out st0 =
     (let i = given_agent flag args
      in if i = [] then (Inl (Errorf ''provide --agent or pass the agent id''), st0)
         else run_then (wrap_result ''--since'' (ak_duration A since), st0) (\<lambda>dur st1. with_store E g (\<lambda>st.
           let (now, st2) = on_cli (cx_now E) st
           in run_then (db_read E (\<lambda>fail. store_NAVHistory (dp_sql (ak_base A)) fail i (now + wrap64 (- dur)) limit) st2) (\<lambda>rows st3.
              if json_out then writeJSON (rk_navs_json R rows) st3
              else if rows = [] then (Inr (), println ''(no NAV snapshots in window)'' st3)
              else (Inr (), print (table_text ([''TIME'', ''NAV'', ''REALIZED'', ''UNREALIZED'', ''OPEN'', ''GAS'']
                     # map (history_line R (ak_rfc3339 A)) rows)) st3))) st1))"

section \<open>What the reports leave alone\<close>

definition same_tables :: "'d \<Rightarrow> ('r \<times> ('w, 'd) cli_state) option \<Rightarrow> bool" where
  "same_tables db p \<longleftrightarrow> (case p of None \<Rightarrow> True | Some (_, s) \<Rightarrow> ct_db s = db)"

lemma same_tables_simps [simp]:
  "same_tables db None" "same_tables db (Some q) \<longleftrightarrow> ct_db (snd q) = db"
  "same_tables db (map_option (\<lambda>r. (r, st)) m) \<longleftrightarrow> m = None \<or> ct_db st = db"
  "same_tables db (map_option (wrap_error w) p) \<longleftrightarrow> same_tables db p"
  by (auto simp: same_tables_def wrap_error_def split: prod.split option.split sum.split)

lemma option_then_same:
  assumes "same_tables db p" and "\<And>a s. ct_db s = db \<Longrightarrow> same_tables db (f a s)"
  shows "same_tables db (option_then p f)"
  using assms by (cases p) (auto simp: option_then_def same_tables_def split: sum.split)

lemma run_then_same: "ct_db (snd p) = db \<Longrightarrow> (\<And>a s. ct_db s = db \<Longrightarrow> ct_db (snd (f a s)) = db) \<Longrightarrow> ct_db (snd (run_then p f)) = db"
  by (rule run_then_keeps [of "\<lambda>d. d = db"])

lemma with_store_option_same:
  assumes "\<And>s. ct_db s = ct_db st \<Longrightarrow> same_tables (ct_db st) (body s)"
  shows "same_tables (ct_db st) (with_store_option E g body st)"
proof (cases "with_store_option E g body st")
  case (Some q)
  obtain r st' where q: "with_store_option E g body st = Some (r, st')" using Some by (cases q) auto
  then show ?thesis
  proof (cases rule: with_store_option_cases)
    case refused
    then show ?thesis by (simp add: q)
  next
    case (ran pool st1 st2)
    then show ?thesis using assms [of st1] by (simp add: q)
  qed
qed simp

lemma writeJSON_db [simp]: "ct_db (snd (writeJSON r st)) = ct_db st"
  by (simp add: writeJSON_def split: sum.split)

lemma end_report_db [simp]: "ct_db (snd (end_report A R json_out fail_on_drift r st)) = ct_db st"
  by (simp add: end_report_def Let_def)

lemma report_agents_db [simp]: "ct_db (snd (report_agents E i st)) = ct_db st"
  by (auto simp: report_agents_def intro: run_then_same)

lemma best_keystore_db: "best_keystore C K E g st = Some (ks, st1) \<Longrightarrow> ct_db st1 = ct_db st"
  by (auto simp: best_keystore_def split: option.splits prod.splits)

lemma report_deps_db: "ct_db st = db \<Longrightarrow> same_tables db (report_deps E A cfg a ks st)"
  by (simp add: report_deps_def)

lemmas same_intros = option_then_same run_then_same report_deps_db

lemma reconcile_agents_db: "ct_db st = db \<Longrightarrow> same_tables db (reconcile_agents E A cfg ks as c st)"
proof (induction as arbitrary: c st)
  case (Cons a as)
  have "same_tables db (reconcile_agent E A cfg ks a st)"
    unfolding reconcile_agent_def using Cons.prems by (intro same_intros) (simp_all add: report_deps_db run_then_same)
  then show ?case using Cons.IH by (auto intro: option_then_same)
qed simp

lemma aggregates_call_db [simp]: "ct_db (snd (aggregates_call E i st)) = ct_db st"
  by (simp add: aggregates_call_def Let_def split_beta)

lemma computeLiveNAV_db: "ct_db st = db \<Longrightarrow> same_tables db (computeLiveNAV C K E A g a st)"
  unfolding computeLiveNAV_def Let_def split_beta
  by (auto split: option.split dest: best_keystore_db intro!: same_intros)

lemma summaryFor_db: "ct_db st = db \<Longrightarrow> same_tables db (summaryFor C K E A g live a st)"
  unfolding summaryFor_def by (auto intro!: same_intros computeLiveNAV_db)

lemma summary_rows_db: "ct_db st = db \<Longrightarrow> same_tables db (summary_rows C K E A g live as st)"
  by (induction as arbitrary: st) (auto intro!: same_intros summaryFor_db)

lemma summary_lines_db [simp]: "ct_db (snd (summary_lines E R rs st)) = ct_db st"
  by (induction rs arbitrary: st) (simp_all add: Let_def split_beta)

lemma show_positions_db [simp]: "ct_db (snd (show_positions R json_out ps st)) = ct_db st"
  by (simp add: show_positions_def)

lemma reconcile_cmd_db: "same_tables (ct_db st) (reconcile_cmd C K E A R g i json_out fail_on_drift st)"
  unfolding reconcile_cmd_def Let_def split_beta
  by (auto split: option.split dest!: best_keystore_db intro!: with_store_option_same same_intros reconcile_agents_db)

lemma pnl_summary_cmd_db: "same_tables (ct_db st) (pnl_summary_cmd C K E A R js g i json_out live st)"
  unfolding pnl_summary_cmd_def Let_def split_beta
  by (auto intro!: with_store_option_same same_intros summary_rows_db)

lemma pnl_positions_cmd_db: "same_tables (ct_db st) (pnl_positions_cmd C K E A R g flag args json_out live st)"
  unfolding pnl_positions_cmd_def Let_def split_beta
  by (auto split: option.split intro!: with_store_option_same same_intros computeLiveNAV_db)

lemma pnl_history_cmd_db: "ct_db (snd (pnl_history_cmd E A R g flag args since limit json_out st)) = ct_db st"
  unfolding pnl_history_cmd_def Let_def split_beta
  by (auto intro!: run_then_same with_store_keeps [of "\<lambda>d. d = ct_db st"])

lemma same_tables_iff: "same_tables db p \<longleftrightarrow> map_option (\<lambda>q. ct_db (snd q)) p \<in> {None, Some db}"
  by (auto simp: same_tables_def split: option.split prod.split)

section \<open>One reconciliation of all agents\<close>

lemma HasIssues_add [simp]: "HasIssues (add_report c r) \<longleftrightarrow> HasIssues c \<or> HasIssues r"
  by (simp add: HasIssues_def add_report_def)

lemma HasIssues_fold: "HasIssues (foldl add_report c rs) \<longleftrightarrow> HasIssues c \<or> list_ex HasIssues rs"
  by (induction rs arbitrary: c) simp_all

lemma count_fold: "rp_agents_count (foldl add_report c rs) = rp_agents_count c + length rs"
  by (induction rs arbitrary: c) (simp_all add: add_report_def)

lemma open_store_out: "ct_out (snd (open_store E g st)) = ct_out st"
  by (auto simp: open_store_def wrap_error_def on_cli_def split: option.split sum.split prod.split)

lemma run_then_out: "ct_out (snd p) = t \<Longrightarrow> (\<And>a s. ct_out s = t \<Longrightarrow> ct_out (snd (f a s)) = t) \<Longrightarrow> ct_out (snd (run_then p f)) = t"
  by (cases p; cases "fst p") auto

lemma db_read_out [simp]: "ct_out (snd (db_read E f st)) = ct_out st"
  by (simp add: db_read_def split_beta)

lemma best_keystore_out: "best_keystore C K E g st = Some (ks, st1) \<Longrightarrow> ct_out st1 = ct_out st"
  by (auto simp: best_keystore_def split: option.splits prod.splits)

lemma reconcile_agent_out: "reconcile_agent E A cfg ks a st = Some (r, st') \<Longrightarrow> ct_out st' = ct_out st"
proof -
  assume r: "reconcile_agent E A cfg ks a st = Some (r, st')"
  obtain x where d: "report_deps E A cfg a ks st = Some (x, st)"
    using r by (cases "deps_of_pointer E A cfg a ks [] [] (ct_world st)") (auto simp: report_deps_def reconcile_agent_def option_then_def)
  let ?read = "db_read E (\<lambda>fail. LoadOpenBasis fail (ag_id a)) st"
  show ?thesis
  proof (cases x)
    case (Inl e)
    then show ?thesis using r d by (simp add: reconcile_agent_def option_then_def wrap_error_def)
  next
    case (Inr dp)
    have "ct_out (snd (run_then ?read (\<lambda>rows. on_cli (\<lambda>w. let (now, w1) = dp_wall dp w
        in Reconcile (dp_lib dp) now (NewReconcile (dp_perp dp) (dp_swaps dp)) (ag_id a) rows w1)))) = ct_out st"
      by (rule run_then_out) simp_all
    then show ?thesis using r d Inr by (simp add: reconcile_agent_def option_then_def wrap_error_def)
  qed
qed

lemma reconcile_agents_run:
  "reconcile_agents E A cfg ks as c st = Some (r, st')
     \<Longrightarrow> ct_out st' = ct_out st \<and> (\<forall>c'. r = Inr c' \<longrightarrow> (\<exists>rs. length rs = length as \<and> c' = foldl add_report c rs))"
proof (induction as arbitrary: c st)
  case (Cons a as)
  obtain r1 st1 where o: "reconcile_agent E A cfg ks a st = Some (r1, st1)"
    using Cons.prems by (cases "reconcile_agent E A cfg ks a st") (auto simp: option_then_def)
  note out = reconcile_agent_out [OF o]
  show ?case
  proof (cases r1)
    case (Inl e)
    then show ?thesis using Cons.prems o out by (auto simp: option_then_def)
  next
    case (Inr rep)
    then have "reconcile_agents E A cfg ks as (add_report c rep) st1 = Some (r, st')" using Cons.prems o by (simp add: option_then_def)
    from Cons.IH [OF this] have ih: "ct_out st' = ct_out st1"
      and rs: "\<forall>c'. r = Inr c' \<longrightarrow> (\<exists>rs. length rs = length as \<and> c' = foldl add_report (add_report c rep) rs)" by blast+
    have "\<exists>rs. length rs = length (a # as) \<and> c' = foldl add_report c rs" if "r = Inr c'" for c'
    proof -
      from rs that obtain rs where "length rs = length as" "c' = foldl add_report (add_report c rep) rs" by blast
      then show ?thesis by (intro exI [of _ "rep # rs"]) simp
    qed
    then show ?thesis using ih out by simp
  qed
qed (auto intro: exI [of _ "[]"])

lemma report_agents_count:
  "report_agents E i st = (Inr as, st1) \<Longrightarrow> length as = (if i = [] then length (ad_agents (ct_db st)) else 1)"
  by (auto simp: report_agents_def db_read_def on_cli_def store_List_def run_then_def split: if_splits prod.splits sum.splits option.splits)

lemma report_agents_out [simp]: "ct_out (snd (report_agents E i st)) = ct_out st"
  by (auto simp: report_agents_def get_agent_def intro: run_then_out)

text \<open>What a reconciliation that got as far as a report printed and returned; \<open>rs\<close> are the reports of the agents.\<close>

definition exit_as_reported ::
  "('w, 's, 'i) agent_kit \<Rightarrow> report_kit \<Rightarrow> bool \<Rightarrow> bool \<Rightarrow> report list \<Rightarrow> time \<Rightarrow> string \<Rightarrow> go_error + unit \<Rightarrow> string \<Rightarrow> bool" where
  "exit_as_reported A R json_out fail_on_drift rs t before r after \<longleftrightarrow>
     (let rep = (foldl add_report no_report rs)\<lparr>rp_generated_at := t\<rparr>
      in if json_out then \<exists>s. rk_report_json R rep = Inr s \<and> after = before @ s @ newline \<and> r = Inr ()
         else after = before @ renderReconcileReport (dp_lib (ak_base A)) rep
           \<and> r = (if fail_on_drift \<and> list_ex HasIssues rs then Inl (Errorf ''reconcile: drift detected'') else Inr ()))"

lemma end_report_exit:
  assumes "end_report A R json_out fail_on_drift ((foldl add_report no_report rs)\<lparr>rp_generated_at := t\<rparr>) st = (r, st')"
  shows "isl r \<and> ct_out st' = ct_out st \<or> exit_as_reported A R json_out fail_on_drift rs t (ct_out st) r (ct_out st')"
proof -
  have "HasIssues ((foldl add_report no_report rs)\<lparr>rp_generated_at := t\<rparr>) \<longleftrightarrow> list_ex HasIssues rs"
    using HasIssues_fold [of no_report rs] by (simp add: HasIssues_def no_report_def)
  then show ?thesis
    using assms by (auto simp: end_report_def exit_as_reported_def writeJSON_def Let_def split: if_splits sum.splits)
qed

lemma reconcile_cmd_end:
  "reconcile_cmd C K E A R (Some cfg) i json_out fail_on_drift st0 = with_store_option E (Some cfg) (\<lambda>st.
     option_then (Some (report_agents E i st)) (\<lambda>agents st1.
     case best_keystore C K E (Some cfg) st1 of
       None \<Rightarrow> None
     | Some (ks, st2) \<Rightarrow>
         option_then (reconcile_agents E A cfg ks agents no_report st2) (\<lambda>c st3.
         let (now, st4) = on_cli (cx_now E) st3
         in Some (end_report A R json_out fail_on_drift (c\<lparr>rp_generated_at := now\<rparr>) st4)))) st0"
  by (simp add: reconcile_cmd_def)

lemma on_cli_out: "on_cli f st = (r, st') \<Longrightarrow> ct_out st' = ct_out st"
  using on_cli_simps(4) [of f st] by simp

lemma option_then_SomeE:
  assumes "option_then p f = Some (r, s')"
  obtains (stop) e where "p = Some (Inl e, s')" "r = Inl e" | (go) a s where "p = Some (Inr a, s)" "f a s = Some (r, s')"
  using assms by (auto simp: option_then_def split: option.splits prod.splits sum.splits)

section \<open>Properties\<close>


text \<open>
  Reporting changes nothing. Whatever their flags, and whichever query or venue call fails, the reconcile and the three profit-and-loss
  commands leave every table of the database as they found it, or panic before a result.
\<close>

theorem reports_change_nothing:
  "map_option (\<lambda>q. ct_db (snd q)) (reconcile_cmd C K E A R g i json_out fail_on_drift st) \<in> {None, Some (ct_db st)}
    \<and> map_option (\<lambda>q. ct_db (snd q)) (pnl_summary_cmd C K E A R js g i json_out live st) \<in> {None, Some (ct_db st)}
    \<and> map_option (\<lambda>q. ct_db (snd q)) (pnl_positions_cmd C K E A R g flag args json_out live st) \<in> {None, Some (ct_db st)}
    \<and> ct_db (snd (pnl_history_cmd E A R g flag args since limit json_out st)) = ct_db st"
  unfolding same_tables_iff [symmetric]
  by (simp add: reconcile_cmd_db pnl_summary_cmd_db pnl_positions_cmd_db pnl_history_cmd_db)

end
