(* ===== verification/CliBittensor.thy ===== *)
theory CliBittensor
  imports CliReports
begin

text \<open>
  The Bittensor commands (\<open>internal/cli/bittensor.go\<close>) over the chain client of theories \<open>SubtensorChain\<close> and \<open>SubtensorExtrinsic\<close>: balance,
  price, list of subnets, and the two devnet helpers, the bootstrap of subnets and the noise trader. Warnings on standard error are left
  out. A result \<open>None\<close> is a panic or a command that does not end.
\<close>

section \<open>A command and its client\<close>

type_synonym ('w, 'd) session = "chain_client \<times> ('w, 'd) cli_state"

definition bt_on_client :: "('w on_chain \<Rightarrow> 'a \<times> 'w on_chain) \<Rightarrow> ('w, 'd) session \<Rightarrow> 'a \<times> ('w, 'd) session" where
  "bt_on_client f s = (let (r, c, w) = f (fst s, ct_world (snd s)) in (r, c, (snd s)\<lparr>ct_world := w\<rparr>))"

definition on_client_option ::
  "('w on_chain \<Rightarrow> ('a \<times> 'w on_chain) option) \<Rightarrow> ('w, 'd) session \<Rightarrow> ('a \<times> ('w, 'd) session) option" where
  "on_client_option f s = map_option (\<lambda>(r, c, w). (r, c, (snd s)\<lparr>ct_world := w\<rparr>)) (f (fst s, ct_world (snd s)))"

definition say :: "string \<Rightarrow> ('w, 'd) session \<Rightarrow> ('w, 'd) session" where
  "say t s = (fst s, print t (snd s))"

definition with_client ::
  "'w chain_env \<Rightarrow> string \<Rightarrow> (('w, 'd) session \<Rightarrow> ((go_error + unit) \<times> ('w, 'd) session) option) \<Rightarrow> ('w, 'd) cli_state
     \<Rightarrow> ((go_error + unit) \<times> ('w, 'd) cli_state) option" where
  "with_client E url body st =
     map_option (\<lambda>(r, c, st1). (r, st1\<lparr>ct_world := snd (chain_Close E (c, ct_world st1))\<rparr>)) (body (NewClient url, st))"

text \<open>The configured endpoint, once the globals are there.\<close>

definition with_endpoint ::
  "globals \<Rightarrow> (string \<Rightarrow> ('w, 'd) cli_state \<Rightarrow> ((go_error + unit) \<times> ('w, 'd) cli_state) option) \<Rightarrow> ('w, 'd) cli_state
     \<Rightarrow> ((go_error + unit) \<times> ('w, 'd) cli_state) option" where
  "with_endpoint g f st =
     (case g of None \<Rightarrow> Some (Inl no_globals, st) | Some cfg \<Rightarrow> f (ResolvedRPCURL (cfg_bittensor cfg)) st)"

section \<open>Reading commands\<close>

definition bittensor_price_cmd ::
  "'w chain_env \<Rightarrow> report_kit \<Rightarrow> globals \<Rightarrow> u16 \<Rightarrow> ('w, 'd) cli_state \<Rightarrow> ((go_error + unit) \<times> ('w, 'd) cli_state) option" where
  "bittensor_price_cmd E R g netuid = with_endpoint g (\<lambda>url. with_client E url (\<lambda>s.
     Some (run_then (bt_on_client (CurrentAlphaPrice E netuid) s) (\<lambda>p s1.
       (Inr (), say (''SN'' @ nat_str (unat netuid) @ ''/TAO: '' @ rk_fixed R 9 p @ '' TAO per alpha'' @ newline) s1)))))"

definition bittensor_balance_cmd ::
  "('k, 'p, 'e) crypto_lib \<Rightarrow> 'w ks_env \<Rightarrow> ('w, 'c, 'q) cli_env \<Rightarrow> 'w chain_env \<Rightarrow> report_kit \<Rightarrow> globals \<Rightarrow> ('w, 'd) cli_state
     \<Rightarrow> ((go_error + unit) \<times> ('w, 'd) cli_state) option" where
  "bittensor_balance_cmd C K X E R g = with_endpoint g (\<lambda>url. with_client E url (\<lambda>(c, st).
     case openKeystore C K X g (ct_world st) of
       None \<Rightarrow> None
     | Some (r, w) \<Rightarrow>
         Some (run_then (wrap_result ''open keystore'' r, c, st\<lparr>ct_world := w\<rparr>) (\<lambda>ks s1.
         run_then (wrap_result ''no Bittensor key in keystore (run: permafrost wallet generate --chain bittensor)'' (ks_Signer ks ChainBittensor), s1)
           (\<lambda>signer s2.
         run_then (wrap_error ''get balance'' (bt_on_client (GetTAOBalance E (signer_address signer))
             (say (''Address: '' @ signer_address signer @ newline @ newline) s2))) (\<lambda>rao s3.
         (Inr (), say (''TAO Balance: '' @ rk_fixed R 9 (RAOToTAO (ce_lib E) rao) @ '' TAO ('' @ nat_str (unat rao) @ '' RAO)'' @ newline) s3)))))))"

definition subnet_line :: "report_kit \<Rightarrow> subnet_summary \<Rightarrow> string" where
  "subnet_line R s = str_Join tab [nat_str (unat (sn_netuid s)), ''SN'' @ nat_str (unat (sn_netuid s)), rk_fixed R 9 (sn_alpha_price s)] @ newline"

definition subnets_text :: "report_kit \<Rightarrow> subnet_summary list \<Rightarrow> string" where
  "subnets_text R ss = tab_format
     (str_Join tab [''NETUID'', ''SYMBOL'', ''ALPHA PRICE (TAO)''] @ newline
      @ str_Join tab [''------'', ''------'', ''-----------------''] @ newline
      @ concat (map (subnet_line R) ss) @ newline
      @ ''Total active subnets: '' @ nat_str (length ss) @ newline)"

definition bittensor_subnets_cmd ::
  "'w chain_env \<Rightarrow> report_kit \<Rightarrow> globals \<Rightarrow> u16 \<Rightarrow> ('w, 'd) cli_state \<Rightarrow> ((go_error + unit) \<times> ('w, 'd) cli_state) option" where
  "bittensor_subnets_cmd E R g mx = with_endpoint g (\<lambda>url. with_client E url (\<lambda>s.
     option_then (Some (wrap_error (''cannot connect to Subtensor at '' @ url) (bt_on_client (GetChain E) s))) (\<lambda>chain s1.
     map_option (\<lambda>((ss, err), s2).
         case err of
           Some e \<Rightarrow> (Inl (Wrap ''list subnets'' e), s2)
         | None \<Rightarrow> (Inr (), say (subnets_text R ss) s2))
       (on_client_option (ListSubnets E mx) (say (''Connected to: '' @ chain @ '' ('' @ url @ '')'' @ newline @ newline) s1)))))"

section \<open>The devnet helpers\<close>

text \<open>Beyond the chain: sleeping, the context, the random generator, the clock and the rounding and formats of floats.\<close>

record 'w devnet_env =
  dv_sleep :: "duration \<Rightarrow> 'w \<Rightarrow> 'w"
  dv_done :: "'w \<Rightarrow> bool \<times> 'w"
  dv_wait :: "duration \<Rightarrow> 'w \<Rightarrow> bool \<times> 'w"
  dv_now :: "'w \<Rightarrow> time \<times> 'w"
  dv_intn :: "nat \<Rightarrow> 'w \<Rightarrow> nat \<times> 'w"
  dv_int63n :: "int \<Rightarrow> 'w \<Rightarrow> int \<times> 'w"
  dv_float :: "'w \<Rightarrow> float64 \<times> 'w"
  dv_round :: "rat \<Rightarrow> float64"
  dv_fixed :: "nat \<Rightarrow> float64 \<Rightarrow> string"
  dv_duration :: "duration \<Rightarrow> string"

definition on_session :: "('w \<Rightarrow> 'a \<times> 'w) \<Rightarrow> ('w, 'd) session \<Rightarrow> 'a \<times> ('w, 'd) session" where
  "on_session f s = (let (r, st) = on_cli f (snd s) in (r, fst s, st))"

definition pause :: "'w devnet_env \<Rightarrow> duration \<Rightarrow> ('w, 'd) session \<Rightarrow> ('w, 'd) session" where
  "pause D d s = (fst s, (snd s)\<lparr>ct_world := dv_sleep D d (ct_world (snd s))\<rparr>)"

definition uri_signer :: "('k, 'p, 'e) crypto_lib \<Rightarrow> string \<Rightarrow> go_error + chain_signer" where
  "uri_signer C uri =
     map_sum id (\<lambda>k. \<lparr>sg_address = bk_addr k, sg_public = bt_PublicKey C k, sg_sign = Some (bt_Sign C k)\<rparr>)
       (wrap_result (''derive signer from URI '' @ quoted uri) (NewBittensorSignerFromURI C uri))"

definition wait_options :: "duration \<Rightarrow> submit_options" where
  "wait_options d = \<lparr>su_tip_rao = 0, su_wait_timeout = d\<rparr>"

definition submitted :: "string \<Rightarrow> (submit_outcome \<times> 's) option \<Rightarrow> ((go_error + unit) \<times> 's) option" where
  "submitted what = map_option (\<lambda>((_, err), s). (case err of Some e \<Rightarrow> Inl (Wrap what e) | None \<Rightarrow> Inr (), s))"

definition bootstrap_one ::
  "'w chain_env \<Rightarrow> 'w devnet_env \<Rightarrow> report_kit \<Rightarrow> chain_signer \<Rightarrow> nat \<Rightarrow> int \<Rightarrow> ('w, 'd) session
     \<Rightarrow> ((go_error + u16) \<times> ('w, 'd) session) option" where
  "bootstrap_one E D R sg i n s0 =
     option_then (Some (wrap_error ''subnet count'' (bt_on_client (SubnetCount E) s0))) (\<lambda>before s1.
     option_then (submitted ''register_network'' (on_client_option (RegisterNetwork E (Some sg) (sg_public sg) (wait_options (30 * nano_second)))
         (say (newline @ ''['' @ nat_str (Suc i) @ ''/'' @ int_str n @ ''] '' @ arrow @ '' register_network '' @ ellipsis @ newline) s1))) (\<lambda>_ s2.
     option_then (Some (wrap_error ''subnet count after'' (bt_on_client (SubnetCount E) (pause D (2 * nano_second) s2)))) (\<lambda>after s3.
     if after \<le> before
     then Some (Inl (Errorf (''subnet count did not grow: '' @ nat_str (unat before) @ '' '' @ arrow @ '' '' @ nat_str (unat after))), s3)
     else let netuid = after - 1;
              s4 = say (''      '' @ check_mark @ '' new subnet netuid = '' @ nat_str (unat netuid) @ newline
                @ ''      '' @ arrow @ '' start_call '' @ ellipsis @ newline) s3
       in option_then (submitted (''start_call netuid='' @ nat_str (unat netuid))
            (on_client_option (StartCall E (Some sg) netuid (wait_options (30 * nano_second))) s4)) (\<lambda>_ s5.
          case bt_on_client (CurrentAlphaPrice E netuid) (pause D (2 * nano_second) s5) of
            (Inl _, s6) \<Rightarrow> Some (Inr netuid, s6)
          | (Inr p, s6) \<Rightarrow> Some (Inr netuid, say (''      '' @ check_mark @ '' AMM live: SN'' @ nat_str (unat netuid) @ '' alpha price = ''
              @ rk_fixed R 9 p @ '' TAO'' @ newline) s6)))))"

text \<open>The subnets still to create, and those created.\<close>

fun bootstrap_all ::
  "'w chain_env \<Rightarrow> 'w devnet_env \<Rightarrow> report_kit \<Rightarrow> chain_signer \<Rightarrow> nat \<Rightarrow> nat \<Rightarrow> int \<Rightarrow> u16 list \<Rightarrow> ('w, 'd) session
     \<Rightarrow> ((go_error + u16 list) \<times> ('w, 'd) session) option" where
  "bootstrap_all E D R sg 0 i n ns s = Some (Inr ns, s)"
| "bootstrap_all E D R sg (Suc k) i n ns s =
     option_then (bootstrap_one E D R sg i n s) (\<lambda>netuid s1. bootstrap_all E D R sg k (Suc i) n (ns @ [netuid]) s1)"

definition local_url :: "string \<Rightarrow> bool" where
  "local_url url \<longleftrightarrow> str_contains url ''localhost'' \<or> str_contains url ''127.0.0.1''"

definition subnets_csv :: "u16 list \<Rightarrow> string" where
  "subnets_csv ns = str_Join '','' (map (\<lambda>n. nat_str (unat n)) ns)"

definition ready_text :: "u16 list \<Rightarrow> string" where
  "ready_text ns = nat_str (length ns) @ '' subnet(s) ready. Configure strategies with subnets: ['' @ subnets_csv ns @ '']'' @ newline"

definition bootstrap_banner :: "string \<Rightarrow> int \<Rightarrow> chain_signer \<Rightarrow> string" where
  "bootstrap_banner uri n sg = ''Bootstrapping '' @ int_str n @ '' subnet(s) as '' @ sg_address sg @ '' (URI '' @ uri @ '')'' @ newline"

definition bittensor_bootstrap_cmd ::
  "('k, 'p, 'e) crypto_lib \<Rightarrow> 'w chain_env \<Rightarrow> 'w devnet_env \<Rightarrow> report_kit \<Rightarrow> globals \<Rightarrow> string \<Rightarrow> int \<Rightarrow> ('w, 'd) cli_state
     \<Rightarrow> ((go_error + unit) \<times> ('w, 'd) cli_state) option" where
  "bittensor_bootstrap_cmd C E D R g uri n st0 =
     (if g \<noteq> None \<and> n < 1 then Some (Inl (Errorf (''--count must be >= 1, got '' @ int_str n)), st0)
      else with_endpoint g (\<lambda>url st.
        let st1 = (if local_url url then st else st\<lparr>ct_world := dv_sleep D (5 * nano_second) (ct_world st)\<rparr>)
        in case uri_signer C uri of
             Inl e \<Rightarrow> Some (Inl e, st1)
           | Inr sg \<Rightarrow> with_client E url (\<lambda>s.
               option_then (bootstrap_all E D R sg (nat n) 0 n [] s) (\<lambda>ns s1.
               Some (Inr (), say (newline @ ready_text ns) s1)))
             (print (bootstrap_banner uri n sg) st1)) st0)"

section \<open>The noise trader\<close>

fun parse_netuids :: "string list \<Rightarrow> go_error + u16 list" where
  "parse_netuids [] = Inr []"
| "parse_netuids (p # ps) =
     (if TrimSpace p = [] then parse_netuids ps
      else case ParseUint (TrimSpace p) 16 of
          Inl e \<Rightarrow> Inl (Wrap (''subnets: '' @ quoted (TrimSpace p) @ '' is not a valid u16'') e)
        | Inr n \<Rightarrow> and_then (parse_netuids ps) (\<lambda>ns. Inr (word_of_nat n # ns)))"

definition parseSubnetsCSV :: "string \<Rightarrow> go_error + u16 list" where
  "parseSubnetsCSV s = and_then (parse_netuids (str_Split CHR '','' s)) (\<lambda>ns.
     if ns = [] then Inl (Errorf ''subnets: at least one netuid required'') else Inr ns)"

definition truncErr :: "go_error \<Rightarrow> string" where
  "truncErr e =
     (let s = error_text e;
          s1 = (case index_of CHR 0x0A s of Some i \<Rightarrow> if 0 < i then take i s else s | None \<Rightarrow> s)
      in if 80 < length s1 then take 80 s1 @ ellipsis else s1)"

record noise_flags =
  nf_uri :: string
  nf_subnets :: string
  nf_interval_secs :: int
  nf_min_tao :: float64
  nf_max_tao :: float64
  nf_buy_weight :: int

definition noise_checks :: "noise_flags \<Rightarrow> string \<Rightarrow> go_error + u16 list" where
  "noise_checks f url =
     (if \<not> local_url url then Inl (Errorf (''noise-trader is a devnet helper; refusing to run against '' @ quoted url))
      else if nf_subnets f = [] then Inl (Errorf ''--subnets is required (e.g. --subnets 2,3,4)'')
      else and_then (parseSubnetsCSV (nf_subnets f)) (\<lambda>subnets.
        if nf_interval_secs f < 1 then Inl (Errorf ''--interval-secs must be >= 1'')
        else if nf_min_tao f \<le> 0 \<or> nf_max_tao f < nf_min_tao f
        then Inl (Errorf ''--min-tao must be > 0 and --max-tao must be >= --min-tao'')
        else if nf_buy_weight f < 0 \<or> 100 < nf_buy_weight f then Inl (Errorf ''--buy-weight must be in [0..100]'')
        else Inr subnets))"

text \<open>An amount in TAO from a random number in [0, 1), and in RAO, at least one.\<close>

definition noise_amount :: "'w devnet_env \<Rightarrow> noise_flags \<Rightarrow> float64 \<Rightarrow> float64" where
  "noise_amount D f x = dv_round D (nf_min_tao f + dv_round D (x * dv_round D (nf_max_tao f - nf_min_tao f)))"

definition noise_rao :: "'w devnet_env \<Rightarrow> float64 \<Rightarrow> u64" where
  "noise_rao D amt = (let rao = word_of_int \<lfloor>dv_round D (amt * 1000000000)\<rfloor> in if rao = 0 then 1 else rao)"

definition pad_zero :: "nat \<Rightarrow> string \<Rightarrow> string" where
  "pad_zero n s = replicate (n - length s) CHR ''0'' @ s"

definition noise_line :: "'w devnet_env \<Rightarrow> nat \<Rightarrow> bool \<Rightarrow> u16 \<Rightarrow> float64 \<Rightarrow> go_error option \<Rightarrow> duration \<Rightarrow> string" where
  "noise_line D cycle buy netuid amt err dur =
     ''['' @ pad_zero 4 (nat_str cycle) @ ''] '' @ (if buy then ''BUY '' else ''SELL'') @ '' SN'' @ nat_str (unat netuid) @ '' '' @ dv_fixed D 4 amt
     @ '' TAO  '' @ (case err of None \<Rightarrow> ''ok'' | Some e \<Rightarrow> ''err='' @ truncErr e) @ '' ('' @ dv_duration D dur @ '')'' @ newline"

definition noise_cycle ::
  "'w chain_env \<Rightarrow> 'w devnet_env \<Rightarrow> noise_flags \<Rightarrow> chain_signer \<Rightarrow> u16 list \<Rightarrow> nat \<Rightarrow> ('w, 'd) session \<Rightarrow> ('w, 'd) session option" where
  "noise_cycle E D f sg subnets cycle s0 =
     (let (i, s1) = on_session (dv_intn D (length subnets)) s0; netuid = subnets ! i;
          (b, s2) = on_session (dv_intn D 100) s1; buy = (int b < nf_buy_weight f);
          (x, s3) = on_session (dv_float D) s2; amt = noise_amount D f x;
          (start, s4) = on_session (dv_now D) s3;
          stake = (if buy then AddStake else RemoveStake)
      in map_option (\<lambda>((_, err), s5).
           let (fin, s6) = on_session (dv_now D) s5; dur = fin - start
           in say (noise_line D cycle buy netuid amt err (dur - (if dur < 0 then - ((- dur) mod 1000000) else dur mod 1000000))) s6)
         (on_client_option (stake E (Some sg) netuid (sg_public sg) (noise_rao D amt) (wait_options (20 * nano_second))) s4))"

text \<open>\<open>Int63n\<close> panics unless its bound is positive.\<close>

partial_function (option) noise_loop ::
  "'w chain_env \<Rightarrow> 'w devnet_env \<Rightarrow> noise_flags \<Rightarrow> chain_signer \<Rightarrow> u16 list \<Rightarrow> nat \<Rightarrow> ('w, 'd) session \<Rightarrow> ('w, 'd) session option" where
  "noise_loop E D f sg subnets cycle s =
     (let (stop, s1) = on_session (dv_done D) s
      in if stop then Some s1
         else Option.bind (noise_cycle E D f sg subnets (Suc cycle) s1) (\<lambda>s2.
           let base = wrap64 (nf_interval_secs f * nano_second)
           in if base \<le> 0 then None
              else let (j, s3) = on_session (dv_int63n D base) s2;
                       (fired, s4) = on_session (dv_wait D (wrap64 (base + (j - base div 2)))) s3
                in if fired then noise_loop E D f sg subnets (Suc cycle) s4 else Some s4))"

declare noise_loop.simps [code]

definition noise_banner :: "'w devnet_env \<Rightarrow> noise_flags \<Rightarrow> chain_signer \<Rightarrow> u16 list \<Rightarrow> string" where
  "noise_banner D f sg subnets =
     ''noise-trader starting as '' @ sg_address sg @ '' (URI '' @ nf_uri f @ '')'' @ newline
     @ ''  subnets:       ['' @ str_Join '' '' (map (\<lambda>n. nat_str (unat n)) subnets) @ '']'' @ newline
     @ ''  interval:      '' @ int_str (nf_interval_secs f) @ ''s ('' @ [CHR 0xC2, CHR 0xB1] @ ''50% jitter)'' @ newline
     @ ''  amount range:  '' @ dv_fixed D 3 (nf_min_tao f) @ '' .. '' @ dv_fixed D 3 (nf_max_tao f) @ '' TAO'' @ newline
     @ ''  buy weight:    '' @ int_str (nf_buy_weight f) @ ''% (rest sells)'' @ newline @ newline"

definition noise_trader_cmd ::
  "('k, 'p, 'e) crypto_lib \<Rightarrow> 'w chain_env \<Rightarrow> 'w devnet_env \<Rightarrow> globals \<Rightarrow> noise_flags \<Rightarrow> ('w, 'd) cli_state
     \<Rightarrow> ((go_error + unit) \<times> ('w, 'd) cli_state) option" where
  "noise_trader_cmd C E D g f = with_endpoint g (\<lambda>url st.
     case and_then (noise_checks f url) (\<lambda>subnets. and_then (uri_signer C (nf_uri f)) (\<lambda>sg. Inr (subnets, sg))) of
       Inl e \<Rightarrow> Some (Inl e, st)
     | Inr (subnets, sg) \<Rightarrow>
         with_client E url (\<lambda>s. map_option (\<lambda>s1. (Inr (), s1)) (noise_loop E D f sg subnets 0 s))
           (print (noise_banner D f sg subnets) st))"

section \<open>Properties\<close>

lemma digits_no_comma: "CHR '','' \<notin> set (nat_str n)" "CHR '' '' \<notin> set (nat_str n)"
  using nat_str_digits [of n] by (auto simp: is_digit_def)

lemma TrimSpace_nat_str: "TrimSpace (nat_str n) = nat_str n"
proof -
  have "\<not> is_space c" if "c \<in> set (nat_str n)" for c
    using nat_str_digits [of n] that by (auto simp: is_digit_def is_space_def)
  moreover have "hd (nat_str n) \<in> set (nat_str n)" "hd (rev (nat_str n)) \<in> set (nat_str n)"
    using nat_str_not_Nil [of n] hd_in_set [of "rev (nat_str n)"] by (simp_all add: hd_in_set)
  ultimately have "dropWhile is_space (nat_str n) = nat_str n" "dropWhile is_space (rev (nat_str n)) = rev (nat_str n)"
    by (simp_all add: dropWhile_eq_self_iff)
  then show ?thesis by (simp add: TrimSpace_def)
qed

lemma split_numbers: "ns \<noteq> [] \<Longrightarrow> str_Split CHR '','' (subnets_csv ns) = map (\<lambda>n. nat_str (unat n)) ns"
proof (induction ns)
  case (Cons n ns)
  then show ?case using digits_no_comma
    by (cases ns) (simp_all add: subnets_csv_def str_Split_none str_Split_head)
qed simp

lemma parse_numbers: "parse_netuids (map (\<lambda>n. nat_str (unat n)) ns) = Inr ns"
proof (induction ns)
  case (Cons n ns)
  have "unat n < 2 ^ 16" using unsigned_less [of n, where 'a = nat] by simp
  then show ?case using Cons by (simp add: TrimSpace_nat_str nat_str_not_Nil ParseUint_nat_str)
qed simp

lemma parse_subnets: "ns \<noteq> [] \<Longrightarrow> parseSubnetsCSV (subnets_csv ns) = Inr ns"
  by (simp add: parseSubnetsCSV_def split_numbers parse_numbers)

lemma bootstrap_all_length:
  "bootstrap_all E D R sg k i n ns s = Some (Inr ms, s') \<Longrightarrow> length ms = length ns + k"
  by (induction k arbitrary: i ns s) (auto elim!: option_then_SomeE)

text \<open>
  What the bootstrap announces, the noise trader reads. When the bootstrap command succeeds it has created as many subnets as it
  was asked for, and the list it prints last is one that the parser of \<open>--subnets\<close> reads back as exactly those netuids.
\<close>

theorem bootstrap_list_parses:
  "case bittensor_bootstrap_cmd C E D R (Some cfg) uri n st of
     Some (Inr (), st') \<Rightarrow> \<exists>front ns. length ns = nat n \<and> parseSubnetsCSV (subnets_csv ns) = Inr ns
       \<and> ct_out st' = front @ ready_text ns
   | _ \<Rightarrow> True"
proof (cases "bittensor_bootstrap_cmd C E D R (Some cfg) uri n st")
  case (Some q)
  obtain r st' where q: "q = (r, st')" by fastforce
  show ?thesis
  proof (cases r)
    case (Inr u)
    let ?url = "ResolvedRPCURL (cfg_bittensor cfg)"
    have n: "1 \<le> n"
    proof (rule ccontr)
      assume "\<not> 1 \<le> n"
      then show False using Some q Inr by (simp add: bittensor_bootstrap_cmd_def)
    qed
    obtain sg where sg: "uri_signer C uri = Inr sg"
      using Some q Inr n by (cases "uri_signer C uri") (simp_all add: bittensor_bootstrap_cmd_def with_endpoint_def Let_def)
    then obtain st1 where w: "with_client E ?url (\<lambda>s. option_then (bootstrap_all E D R sg (nat n) 0 n [] s) (\<lambda>ns s1.
        Some (Inr (), say (newline @ ready_text ns) s1)))
        st1 = Some (Inr u, st')"
      using Some q Inr n by (simp add: bittensor_bootstrap_cmd_def with_endpoint_def Let_def)
    then obtain c st2 where b: "option_then (bootstrap_all E D R sg (nat n) 0 n [] (NewClient ?url, st1)) (\<lambda>ns s1.
        Some (Inr (), say (newline @ ready_text ns) s1))
        = Some (Inr u, c, st2)" and out: "ct_out st' = ct_out st2"
      by (auto simp: with_client_def)
    from b obtain ns s where all: "bootstrap_all E D R sg (nat n) 0 n [] (NewClient ?url, st1) = Some (Inr ns, s)"
      and said: "(c, st2) = say (newline @ ready_text ns) s"
      by (auto elim!: option_then_SomeE)
    have len: "length ns = nat n" using bootstrap_all_length [OF all] by simp
    then have "ns \<noteq> []" using n by auto
    then have "parseSubnetsCSV (subnets_csv ns) = Inr ns" by (rule parse_subnets)
    moreover have "ct_out st' = (ct_out (snd s) @ newline) @ ready_text ns"
      using said out by (simp add: say_def)
    ultimately have "\<exists>front ns. length ns = nat n \<and> parseSubnetsCSV (subnets_csv ns) = Inr ns \<and> ct_out st' = front @ ready_text ns"
      using len by blast
    then show ?thesis by (cases u) (simp only: Some q Inr option.case prod.case sum.case unit.case)
  qed (simp add: Some q)
qed simp

end
