(* ===== verification/CliTools.thy ===== *)
theory CliTools
  imports CliAgent Tables Backtest
begin

text \<open>
  The smaller commands: the backtest (\<open>internal/cli/strategy.go\<close>), the asset registry (\<open>assets.go\<close>), a swap quote (\<open>swap.go\<close>), the
  inference providers (\<open>inference.go\<close>) and the risk policy (\<open>risk.go\<close>). A result \<open>None\<close> is a panic or a run that does not end.
\<close>

section \<open>Decimal flags (risk.go)\<close>

definition mustDec :: "declib \<Rightarrow> string \<Rightarrow> decimal" where
  "mustDec L s = (if s = [] then 0 else case NewFromString L s of Inl _ \<Rightarrow> 0 | Inr d \<Rightarrow> d)"

record risk_flags =
  rs_notional :: string
  rs_exposure :: string
  rs_daily_loss :: string
  rs_slippage_bps :: int
  rs_concurrent :: int
  rs_drawdown :: string

definition shown_limits :: "declib \<Rightarrow> risk_flags \<Rightarrow> risk_limits" where
  "shown_limits L f = zero_limits\<lparr>max_notional_per_leg := mustDec L (rs_notional f), max_total_basis_exposure := mustDec L (rs_exposure f),
     max_daily_loss := mustDec L (rs_daily_loss f), max_spot_slippage_bps := rs_slippage_bps f, max_concurrent_positions := rs_concurrent f\<rparr>"

definition shown_breakers :: "declib \<Rightarrow> risk_flags \<Rightarrow> circuit_breaker list" where
  "shown_breakers L f = [MaxDrawdownBreaker (mustDec L (rs_drawdown f)), DailyLossBreaker]"

definition risk_show_cmd :: "declib \<Rightarrow> risk_flags \<Rightarrow> ('w, 'd) cli_state \<Rightarrow> (go_error + unit) \<times> ('w, 'd) cli_state" where
  "risk_show_cmd L f st =
     (let l = shown_limits L f
      in (Inr (), print (''limits:'' @ newline
        @ ''  max_notional_per_leg:        '' @ d_str L (max_notional_per_leg l) @ newline
        @ ''  max_total_basis_exposure:    '' @ d_str L (max_total_basis_exposure l) @ newline
        @ ''  max_daily_loss:              '' @ d_str L (max_daily_loss l) @ newline
        @ ''  max_spot_slippage_bps:       '' @ int_str (max_spot_slippage_bps l) @ newline
        @ ''  max_concurrent_positions:    '' @ int_str (max_concurrent_positions l) @ newline
        @ ''breakers:'' @ newline
        @ concat (map (\<lambda>b. ''  - '' @ breaker_name b @ newline) (shown_breakers L f))) st))"

section \<open>Version (version.go)\<close>

text \<open>The linked version, then the operating system, architecture and version of the Go runtime.\<close>

definition version_cmd :: "string \<Rightarrow> string \<Rightarrow> string \<Rightarrow> string \<Rightarrow> ('w, 'd) cli_state \<Rightarrow> (go_error + unit) \<times> ('w, 'd) cli_state" where
  "version_cmd version os arch runtime st =
     (Inr (), println (''permafrost '' @ version @ '' ('' @ os @ ''/'' @ arch @ '', '' @ runtime @ '')'') st)"

section \<open>Strategies (strategy.go)\<close>

definition strategy_list_cmd :: "'c constructors \<Rightarrow> ('w, 'd) cli_state \<Rightarrow> (go_error + unit) \<times> ('w, 'd) cli_state" where
  "strategy_list_cmd cs st = (Inr (), fold println (strategy_List cs) st)"

record backtest_flags =
  bf_csv :: string
  bf_starting_nav :: string
  bf_step_hours :: int
  bf_perp_fee_bps :: int
  bf_swap_fee_bps :: int
  bf_gas_usd :: string
  bf_slippage_bps :: int
  bf_config :: string

text \<open>The splitting of a CSV file, its two number formats, the JSON decoder, the context and \<open>sort.Slice\<close>.\<close>

record 'w backtest_kit =
  bk_split :: "string \<Rightarrow> go_error + string list list"
  bk_parse_time :: "string \<Rightarrow> go_error + time"
  bk_parse_int :: "string \<Rightarrow> go_error + int"
  bk_unmarshal :: "string \<Rightarrow> go_error + any_config"
  bk_ctx :: "'w \<Rightarrow> go_error option"
  bk_sort :: "funding_tick list \<Rightarrow> funding_tick list"

definition LoadCSV ::
  "declib \<Rightarrow> 'w ks_env \<Rightarrow> 'w backtest_kit \<Rightarrow> string \<Rightarrow> ('w, 'd) cli_state \<Rightarrow> (bt_abort + funding_tick list) \<times> ('w, 'd) cli_state" where
  "LoadCSV L K B path st =
     (case on_cli (kv_read K path) st of
        (Inl e, st1) \<Rightarrow> (Inl (BtError (Wrap (''backtest: open '' @ path) e)), st1)
      | (Inr body, st1) \<Rightarrow> (ReadCSV L (bk_parse_time B) (bk_parse_int B) (bk_split B body), st1))"

definition backtest_config :: "'w backtest_kit \<Rightarrow> string \<Rightarrow> go_error + any_config" where
  "backtest_config B json = (if json = [] then Inr [] else wrap_result ''--config-json'' (bk_unmarshal B json))"

definition backtest_runner :: "declib \<Rightarrow> backtest_flags \<Rightarrow> 'w built_strategy \<Rightarrow> 'w runner" where
  "backtest_runner L f s = NewRunner L (Some (bt_decide s)) (mustDec L (bf_starting_nav f)) (wrap64 (bf_step_hours f * nano_hour))
     \<lparr>co_perp_fee_bps = bf_perp_fee_bps f, co_swap_fee_bps = bf_swap_fee_bps f, co_gas_usd = mustDec L (bf_gas_usd f),
      co_slippage_bps = bf_slippage_bps f\<rparr>"

fun action_str :: "trade_action \<Rightarrow> string" where
  "action_str TradeOpen = ''open''"
| "action_str TradeClose = ''close''"

definition trade_line :: "declib \<Rightarrow> (time \<Rightarrow> string) \<Rightarrow> trade \<Rightarrow> string" where
  "trade_line L fmt t = ''  '' @ fmt (tr_time t) @ '' '' @ pad_right 6 (action_str (tr_action t)) @ '' '' @ pad_right 8 (tr_symbol t)
     @ '' notional='' @ d_str L (tr_notional t) @ '' funding='' @ d_str L (tr_funding t) @ '' fees='' @ d_str L (tr_fees t)
     @ '' pnl='' @ d_str L (tr_net_pnl t) @ newline"

definition last_trades :: "bt_result \<Rightarrow> trade list" where
  "last_trades r = drop (length (br_trades r) - 10) (br_trades r)"

definition printBacktestResult :: "declib \<Rightarrow> (time \<Rightarrow> string) \<Rightarrow> bt_result \<Rightarrow> string" where
  "printBacktestResult L fmt r =
     ''period:        '' @ fmt (br_start r) @ '' '' @ arrow @ '' '' @ fmt (br_end r) @ newline
     @ ''starting nav:  $'' @ d_str L (br_starting_nav r) @ newline
     @ ''ending nav:    $'' @ d_str L (br_ending_nav r) @ newline
     @ ''total return:  '' @ d_str L (br_total_return r) @ newline
     @ ''max drawdown:  '' @ d_str L (br_max_drawdown r) @ newline
     @ ''decisions:     '' @ nat_str (br_num_decisions r) @ newline
     @ ''opens/closes:  '' @ nat_str (br_num_opens r) @ '' / '' @ nat_str (br_num_closes r) @ newline
     @ ''funding:       $'' @ d_str L (br_total_funding r) @ newline
     @ ''fees:          $'' @ d_str L (br_total_fees r) @ newline
     @ (if br_trades r = [] then []
        else newline @ ''trade log (last 10):'' @ newline @ concat (map (trade_line L fmt) (last_trades r)))"

definition run_backtest ::
  "('w, 's, 'p) agent_kit \<Rightarrow> 'w backtest_kit \<Rightarrow> backtest_flags \<Rightarrow> 'w built_strategy \<Rightarrow> funding_tick list \<Rightarrow> ('w, 'd) cli_state
     \<Rightarrow> ((go_error + unit) \<times> ('w, 'd) cli_state) option" where
  "run_backtest A B f s tks st =
     (let L = dp_lib (ak_base A)
      in case Run L (ak_rfc3339 A) (bk_ctx B) (bk_sort B) (backtest_runner L f s) tks (ct_world st) of
           None \<Rightarrow> None
         | Some (Some BtPanic, _, w) \<Rightarrow> None
         | Some (Some (BtError e), _, w) \<Rightarrow> Some (Inl e, st\<lparr>ct_world := w\<rparr>)
         | Some (None, res, w) \<Rightarrow> Some (Inr (), print (printBacktestResult L (ak_rfc3339 A) res) (st\<lparr>ct_world := w\<rparr>)))"

definition strategy_backtest_cmd ::
  "'w ks_env \<Rightarrow> ('w, 's, 'p) agent_kit \<Rightarrow> 'w backtest_kit \<Rightarrow> string \<Rightarrow> backtest_flags \<Rightarrow> ('w, 'd) cli_state
     \<Rightarrow> ((go_error + unit) \<times> ('w, 'd) cli_state) option" where
  "strategy_backtest_cmd K A B name f st =
     (if bf_csv f = [] then Some (Inl (Errorf ''--csv is required''), st)
      else case LoadCSV (dp_lib (ak_base A)) K B (bf_csv f) st of
          (Inl BtPanic, st1) \<Rightarrow> None
        | (Inl (BtError e), st1) \<Rightarrow> Some (Inl e, st1)
        | (Inr tks, st1) \<Rightarrow>
            (case and_then (strategy_Get name (ak_strategies A)) (\<lambda>ctor. and_then (backtest_config B (bf_config f)) ctor) of
               Inl e \<Rightarrow> Some (Inl e, st1)
             | Inr s \<Rightarrow> run_backtest A B f s tks st1))"

section \<open>Assets (assets.go)\<close>

text \<open>The registry built into the binary, and the YAML decoder.\<close>

record assets_kit =
  as_embedded :: registry
  as_yaml :: "string \<Rightarrow> go_error + raw_file"

definition registry_Load :: "'w ks_env \<Rightarrow> assets_kit \<Rightarrow> string \<Rightarrow> ('w, 'd) cli_state \<Rightarrow> (go_error + registry) \<times> ('w, 'd) cli_state" where
  "registry_Load K Y path st =
     run_then (wrap_error (''assets: open '' @ path) (on_cli (kv_read K path) st)) (\<lambda>body st1.
     (and_then (wrap_result ''assets: parse'' (as_yaml Y body)) validate, st1))"

definition loadRegistry :: "'w ks_env \<Rightarrow> assets_kit \<Rightarrow> string \<Rightarrow> ('w, 'd) cli_state \<Rightarrow> (go_error + registry) \<times> ('w, 'd) cli_state" where
  "loadRegistry K Y path st = (if path = [] then (Inr (as_embedded Y), st) else registry_Load K Y path st)"

definition truncMint :: "string \<Rightarrow> string" where
  "truncMint s = (if length s \<le> 14 then s else take 6 s @ ellipsis @ drop (length s - 4) s)"

definition asset_line :: "reg_asset \<Rightarrow> string list" where
  "asset_line a =
     [ra_symbol a, (case ra_perp a of None \<Rightarrow> ''-'' | Some p \<Rightarrow> pr_venue p @ '':'' @ pr_symbol p), chain_str (sp_chain (ra_spot a)),
      truncMint (sp_mint (ra_spot a)), int_str (sp_decimals (ra_spot a)), (if asset_Tradable a then ''yes'' else ''no'')]"

definition assets_list_cmd :: "'w ks_env \<Rightarrow> assets_kit \<Rightarrow> string \<Rightarrow> ('w, 'd) cli_state \<Rightarrow> (go_error + unit) \<times> ('w, 'd) cli_state" where
  "assets_list_cmd K Y path st =
     run_then (loadRegistry K Y path st) (\<lambda>r st1.
     (Inr (), print (table_text ([''SYMBOL'', ''PERP'', ''CHAIN'', ''MINT'', ''DECIMALS'', ''TRADABLE''] # map asset_line (rg_assets r))) st1))"

text \<open>
  \<open>assets.Sync\<close> statement by statement: each takes its outcome from the environment when it is made. The table is written back
  by the commit alone.
\<close>

fun upsert_calls ::
  "('w, 'c, 'q) cli_env \<Rightarrow> nat \<Rightarrow> reg_asset list \<Rightarrow> asset_row list \<Rightarrow> ('w, 'd) cli_state
     \<Rightarrow> (go_error + nat \<times> asset_row list) \<times> ('w, 'd) cli_state" where
  "upsert_calls E n [] rows st = (Inr (n, rows), st)"
| "upsert_calls E n (a # as) rows st =
     (let ((fail, _), st1) = on_cli (cx_query E) st
      in case upsert_asset fail (asset_row_of a) rows of
           Inl e \<Rightarrow> (Inl (Wrap (''assets: upsert '' @ ra_symbol a) e), st1)
         | Inr rows' \<Rightarrow> upsert_calls E (Suc n) as rows' st1)"

definition sync_call ::
  "('w, 'c, 'q) cli_env \<Rightarrow> registry \<Rightarrow> ('w, asset_row list) cli_state \<Rightarrow> (go_error + nat) \<times> ('w, asset_row list) cli_state" where
  "sync_call E r st =
     (case on_cli (cx_query E) st of
        ((Some e, _), st1) \<Rightarrow> (Inl (Wrap ''assets: begin tx'' e), st1)
      | ((None, _), st1) \<Rightarrow>
          run_then (upsert_calls E 0 (rg_assets r) (ct_db st1) st1) (\<lambda>(n, rows) st2.
            case on_cli (cx_query E) st2 of
              ((Some e, _), st3) \<Rightarrow> (Inl (Wrap ''assets: commit'' e), st3)
            | ((None, _), st3) \<Rightarrow> (Inr n, st3\<lparr>ct_db := rows\<rparr>)))"

definition assets_sync_cmd ::
  "('w, 'c, 'q) cli_env \<Rightarrow> 'w ks_env \<Rightarrow> assets_kit \<Rightarrow> globals \<Rightarrow> string \<Rightarrow> ('w, asset_row list) cli_state
     \<Rightarrow> (go_error + unit) \<times> ('w, asset_row list) cli_state" where
  "assets_sync_cmd E K Y g path st =
     (if g = None then (Inl no_globals, st)
      else run_then (loadRegistry K Y path st) (\<lambda>r st1.
        with_store E g (\<lambda>st2. run_then (sync_call E r st2) (\<lambda>_ st3. (Inr (), st3))) st1))"

section \<open>A swap quote (swap.go)\<close>

record quote_flags =
  qf_in_mint :: string
  qf_out_mint :: string
  qf_in_decimals :: int
  qf_out_decimals :: int
  qf_amount :: string

definition defaultStr :: "string \<Rightarrow> string \<Rightarrow> string" where
  "defaultStr v fallback = (if v = [] then fallback else v)"

definition quote_config :: "solana_config \<Rightarrow> jupiter_config" where
  "quote_config c = \<lparr>jc_rpc_url = nc_rpc_url c, jc_api_key = nc_jupiter_api_key c, jc_base_url = nc_jupiter_base_url c,
     jc_mode = defaultStr (nc_submit_mode c) ''jito'', jc_jito_url = nc_jito_bundle_url c, jc_priority_fee = nc_priority_fee c,
     jc_poll_timeout = wrap64 (nc_confirm_timeout_secs c * nano_second)\<rparr>"

definition quote_question :: "quote_flags \<Rightarrow> decimal \<Rightarrow> quote_request" where
  "quote_question f amt =
     \<lparr>qr_in_token = \<lparr>as_symbol = ''in'', as_chain = ChainSolana, as_mint = qf_in_mint f, as_decimals = qf_in_decimals f\<rparr>,
      qr_out_token = \<lparr>as_symbol = ''out'', as_chain = ChainSolana, as_mint = qf_out_mint f, as_decimals = qf_out_decimals f\<rparr>,
      qr_amount = amt, qr_mode = QuoteExactIn\<rparr>"

definition quote_text :: "('w, 's, 'p) agent_kit \<Rightarrow> quote_flags \<Rightarrow> quote \<Rightarrow> string" where
  "quote_text A f q =
     (let L = dp_lib (ak_base A)
      in ''route:        '' @ q_route q @ newline
        @ ''in:           '' @ d_str L (q_in_amount q) @ '' '' @ qf_in_mint f @ newline
        @ ''out:          '' @ d_str L (q_out_amount q) @ '' '' @ qf_out_mint f @ newline
        @ ''price impact: '' @ d_str L (q_price_impact q) @ newline
        @ ''expires:      '' @ ak_rfc3339 A (q_expires_at q) @ newline)"

definition swap_quote_cmd ::
  "('k, 'p, 'e) crypto_lib \<Rightarrow> 'w ks_env \<Rightarrow> ('w, 'c, 'q) cli_env \<Rightarrow> ('w, ('k, 'p, 'e) signer, 'i) agent_kit \<Rightarrow> globals \<Rightarrow> quote_flags
     \<Rightarrow> ('w, 'd) cli_state \<Rightarrow> ((go_error + unit) \<times> ('w, 'd) cli_state) option" where
  "swap_quote_cmd C K E A g f st =
     (case g of
        None \<Rightarrow> Some (Inl no_globals, st)
      | Some cfg \<Rightarrow>
          if nc_rpc_url (cfg_solana cfg) = [] then Some (Inl (Errorf ''solana.rpc_url is not set in config''), st)
          else (case openKeystore C K E g (ct_world st) of
                  None \<Rightarrow> None
                | Some (Inl e, w) \<Rightarrow> Some (Inl e, st\<lparr>ct_world := w\<rparr>)
                | Some (Inr ks, w) \<Rightarrow> Some
                    (run_then (and_then (wrap_result ''solana signer'' (ks_Signer ks ChainSolana)) (\<lambda>signer.
                       and_then (wrap_result ''amount'' (NewFromString (dp_lib (ak_base A)) (qf_amount f))) (\<lambda>amt.
                       and_then (vc_jupiter (ak_ctors A) (quote_config (cfg_solana cfg)) signer) (\<lambda>v. Inr (v, amt)))), st\<lparr>ct_world := w\<rparr>)
                     (\<lambda>(v, amt) st1. run_then (on_cli (sv_quote v (quote_question f amt)) st1) (\<lambda>q st2.
                        (Inr (), print (quote_text A f q) st2))))))"

section \<open>Inference (inference.go)\<close>

definition cli_registry ::
  "('w, 'c, 'q) cli_env \<Rightarrow> ('w, 's, 'p) agent_kit \<Rightarrow> globals \<Rightarrow> 'w \<Rightarrow> go_error + 'p inf_registry" where
  "cli_registry E A g w =
     (case g of None \<Rightarrow> Inl no_globals | Some cfg \<Rightarrow> NewRegistry (cx_getenv E w) (cfg_inference cfg) (ak_factory A))"

definition test_request :: "string \<Rightarrow> string \<Rightarrow> inf_request" where
  "test_request model prompt =
     \<lparr>rq_model = model, rq_system = [], rq_messages = [\<lparr>mg_role = RoleUser, mg_content = prompt, mg_name = [], mg_tool_calls = [], mg_tool_call_id = []\<rparr>],
      rq_tools = [], rq_json_schema = None, rq_temperature = 0, rq_top_p = 0, rq_max_tokens = 200, rq_stop = [], rq_user = []\<rparr>"

definition response_text :: "('w, 's, 'p) agent_kit \<Rightarrow> inf_response \<Rightarrow> string" where
  "response_text A r =
     ''provider:    '' @ rp_provider r @ newline @ ''model:       '' @ rp_model r @ newline @ ''finish:      '' @ rp_finish_reason r @ newline
     @ ''latency_ms:  '' @ int_str (rp_latency_ms r) @ newline @ ''tokens_in:   '' @ int_str (rp_tokens_in r) @ newline
     @ ''tokens_out:  '' @ int_str (rp_tokens_out r) @ newline @ ''cost_usd:    '' @ ak_fixed A 6 (rp_cost_usd r) @ newline @ newline
     @ rp_content r @ newline"

definition inference_test_cmd ::
  "('w, 'c, 'q) cli_env \<Rightarrow> ('w, 's, 'w inf_provider) agent_kit \<Rightarrow> globals \<Rightarrow> string \<Rightarrow> string \<Rightarrow> string
     \<Rightarrow> ('w, 'd) cli_state \<Rightarrow> (go_error + unit) \<times> ('w, 'd) cli_state" where
  "inference_test_cmd E A g name model prompt st =
     run_then (and_then (cli_registry E A g (ct_world st)) (\<lambda>reg. if name = [] then inf_Default reg else inf_Get name reg), st) (\<lambda>p st1.
     run_then (on_cli (ip_complete p (test_request model prompt)) st1) (\<lambda>r st2. (Inr (), print (response_text A r) st2)))"

definition inference_list_cmd ::
  "('w, 'c, 'q) cli_env \<Rightarrow> ('w, 's, 'p) agent_kit \<Rightarrow> globals \<Rightarrow> ('w, 'd) cli_state \<Rightarrow> (go_error + unit) \<times> ('w, 'd) cli_state" where
  "inference_list_cmd E A g st =
     run_then (cli_registry E A g (ct_world st), st) (\<lambda>reg st1.
     (Inr (), fold (\<lambda>n. println ((if n = ir_default reg then ''*'' else '' '') @ '' '' @ n)) (inf_Names reg) st1))"

section \<open>Properties\<close>

lemma upsert_all_cong: "(\<And>m. n \<le> m \<Longrightarrow> f m = g m) \<Longrightarrow> upsert_all f n as rows = upsert_all g n as rows"
  by (induction as arbitrary: n rows) (auto split: sum.split)

lemma upsert_calls_refine:
  "\<exists>fails. fst (upsert_calls E n as rows st) = upsert_all fails n as rows \<and> ct_db (snd (upsert_calls E n as rows st)) = ct_db st"
proof (induction as arbitrary: n rows st)
  case (Cons a as)
  obtain fail t st1 where q: "on_cli (cx_query E) st = ((fail, t), st1)" by (metis surj_pair)
  have db: "ct_db st1 = ct_db st" using on_cli_simps(3) [of "cx_query E" st] q by simp
  show ?case
  proof (cases "upsert_asset fail (asset_row_of a) rows")
    case (Inl e)
    then show ?thesis using q db by (intro exI [of _ "\<lambda>_. fail"]) simp
  next
    case (Inr rows')
    from Cons.IH [of "Suc n" rows' st1] obtain fails where f:
      "fst (upsert_calls E (Suc n) as rows' st1) = upsert_all fails (Suc n) as rows'" "ct_db (snd (upsert_calls E (Suc n) as rows' st1)) = ct_db st1"
      by blast
    have "upsert_all (fails(n := fail)) (Suc n) as rows' = upsert_all fails (Suc n) as rows'"
      by (rule upsert_all_cong) simp
    then show ?thesis using q db f Inr by (intro exI [of _ "fails(n := fail)"]) (simp del: fun_upd_apply add: fun_upd_same)
  qed
qed simp

text \<open>
  The sync is one transaction. Run statement by statement, each against whatever the database answers then, the sync of the registry
  returns and leaves in the table exactly what the transaction of theory \<open>Assets\<close> does for some outcome of every statement: all
  upserts together, or none.
\<close>

theorem sync_refines_transaction:
  "\<exists>begin_fail fails commit_fail.
     (fst (sync_call E r st), ct_db (snd (sync_call E r st))) = Sync begin_fail fails commit_fail r (ct_db st)"
proof -
  obtain f0 t st1 where q: "on_cli (cx_query E) st = ((f0, t), st1)" by (metis surj_pair)
  have db: "ct_db st1 = ct_db st" using on_cli_simps(3) [of "cx_query E" st] q by simp
  show ?thesis
  proof (cases f0)
    case (Some e)
    then show ?thesis using q db by (intro exI [of _ f0]) (simp add: sync_call_def Sync_def)
  next
    case None
    obtain fails where f: "fst (upsert_calls E 0 (rg_assets r) (ct_db st1) st1) = upsert_all fails 0 (rg_assets r) (ct_db st1)"
      "ct_db (snd (upsert_calls E 0 (rg_assets r) (ct_db st1) st1)) = ct_db st1"
      using upsert_calls_refine by blast
    obtain u st2 where u: "upsert_calls E 0 (rg_assets r) (ct_db st1) st1 = (u, st2)" by fastforce
    obtain f1 t1 st3 where c: "on_cli (cx_query E) st2 = ((f1, t1), st3)" by (metis surj_pair)
    have db3: "ct_db st3 = ct_db st" using on_cli_simps(3) [of "cx_query E" st2] c f(2) u db by simp
    have fu: "upsert_all fails 0 (rg_assets r) (ct_db st) = u" "ct_db st2 = ct_db st" "upsert_calls E 0 (rg_assets r) (ct_db st) st1 = (u, st2)"
      using f u db by simp_all
    show ?thesis
    proof (cases u)
      case (Inl e)
      then show ?thesis using q None fu db by (intro exI [of _ None] exI [of _ fails]) (simp add: sync_call_def Sync_def)
    next
      case (Inr p)
      then show ?thesis using q None fu db c db3
        by (intro exI [of _ None] exI [of _ fails] exI [of _ f1]) (auto simp: sync_call_def Sync_def split: option.split prod.split)
    qed
  qed
qed

end
