(* ===== verification/CliVault.thy ===== *)
theory CliVault
  imports Cli Vault Reconcile
begin

text \<open>
  The vault commands (\<open>internal/cli/vault.go\<close>) over the service of theory \<open>Vault\<close>. Each of them opens the database, creates the default
  vault if it is missing, and closes the database whatever happens. A query takes its outcome from the environment only when it is made.
\<close>

section \<open>The environment of the vault commands\<close>

record vault_kit =
  vk_lib :: declib
  vk_sql :: sqltypes
  vk_rfc3339 :: "time \<Rightarrow> string"
  vk_parse_time :: "string \<Rightarrow> go_error + time"
  vk_duration :: "string \<Rightarrow> go_error + duration"

definition parse_amount :: "vault_kit \<Rightarrow> string \<Rightarrow> go_error + decimal" where
  "parse_amount V s =
     (case d_parse (vk_lib V) s of None \<Rightarrow> Inl (Errorf (''can't convert '' @ s @ '' to decimal'')) | Some d \<Rightarrow> Inr d)"

text \<open>An operation that reaches its query only when \<open>c\<close> holds.\<close>

definition db_write_when ::
  "bool \<Rightarrow> ('w, 'c, 'q) cli_env \<Rightarrow> (go_error option \<Rightarrow> time \<Rightarrow> 'd \<Rightarrow> (go_error + 'a) \<times> 'd) \<Rightarrow> ('w, 'd) cli_state
     \<Rightarrow> (go_error + 'a) \<times> ('w, 'd) cli_state" where
  "db_write_when c E f st =
     (if c then db_write E f st else (let (r, d) = f None zero_time (ct_db st) in (r, st\<lparr>ct_db := d\<rparr>)))"

definition with_vault ::
  "('w, 'c, 'q) cli_env \<Rightarrow> globals \<Rightarrow> (vault \<Rightarrow> ('w, vault_db) cli_state \<Rightarrow> (go_error + 'a) \<times> ('w, vault_db) cli_state)
     \<Rightarrow> ('w, vault_db) cli_state \<Rightarrow> (go_error + 'a) \<times> ('w, vault_db) cli_state" where
  "with_vault E g body = with_store E g (\<lambda>st.
     run_then (db_write E (\<lambda>fail now. vault_Init fail now ''permafrost'' ''USDC'') st) body)"

section \<open>The commands\<close>

definition vault_init_cmd ::
  "('w, 'c, 'q) cli_env \<Rightarrow> globals \<Rightarrow> ('w, vault_db) cli_state \<Rightarrow> (go_error + unit) \<times> ('w, vault_db) cli_state" where
  "vault_init_cmd E g = with_vault E g (\<lambda>v st.
     (Inr (), println (''vault id='' @ int_str (va_id v) @ '' name='' @ va_name v @ '' asset='' @ va_asset v) st))"

definition vault_deposit_cmd ::
  "('w, 'c, 'q) cli_env \<Rightarrow> vault_kit \<Rightarrow> globals \<Rightarrow> string \<Rightarrow> string \<Rightarrow> string \<Rightarrow> ('w, vault_db) cli_state
     \<Rightarrow> (go_error + unit) \<times> ('w, vault_db) cli_state" where
  "vault_deposit_cmd E V g amount source note = with_vault E g (\<lambda>v st.
     run_then (wrap_result ''amount'' (parse_amount V amount), st) (\<lambda>amt st1.
     run_then (db_write_when (0 < amt) E (\<lambda>fail now. vault_Deposit (vk_sql V) fail now (va_id v) amt source note) st1) (\<lambda>d st2.
     (Inr (), println (''deposit id='' @ int_str (de_id d) @ '' amount='' @ d_str (vk_lib V) (de_amount d) @ '' source='' @ de_source d) st2))))"

definition vault_withdraw_cmd ::
  "('w, 'c, 'q) cli_env \<Rightarrow> vault_kit \<Rightarrow> globals \<Rightarrow> string \<Rightarrow> string \<Rightarrow> string \<Rightarrow> ('w, vault_db) cli_state
     \<Rightarrow> (go_error + unit) \<times> ('w, vault_db) cli_state" where
  "vault_withdraw_cmd E V g amount dest note = with_vault E g (\<lambda>v st.
     run_then (parse_amount V amount, st) (\<lambda>amt st1.
     run_then (db_write_when (0 < amt) E (\<lambda>fail now. vault_Withdraw (vk_sql V) fail now (va_id v) amt dest note) st1) (\<lambda>w st2.
     (Inr (), println (''withdrawal id='' @ int_str (wd_id w) @ '' amount='' @ d_str (vk_lib V) (wd_amount w)
        @ '' dest='' @ wd_destination w) st2))))"

text \<open>\<open>AddLockup\<close> looks at the clock once the amount is known to be positive, and makes its query once the time is known to be ahead.\<close>

definition vault_lockup_cmd ::
  "('w, 'c, 'q) cli_env \<Rightarrow> vault_kit \<Rightarrow> globals \<Rightarrow> string \<Rightarrow> string \<Rightarrow> string \<Rightarrow> ('w, vault_db) cli_state
     \<Rightarrow> (go_error + unit) \<times> ('w, vault_db) cli_state" where
  "vault_lockup_cmd E V g amount until note = with_vault E g (\<lambda>v st.
     run_then (parse_amount V amount, st) (\<lambda>amt st1.
     run_then (wrap_result ''--until must be RFC3339 (e.g. 2027-01-01T00:00:00Z)'' (vk_parse_time V until), st1) (\<lambda>ts st2.
     let (now, st3) = (if 0 < amt then on_cli (cx_now E) st2 else (zero_time, st2))
     in run_then (db_write_when (0 < amt \<and> now < ts) E (\<lambda>fail dbnow. AddLockup (vk_sql V) fail now dbnow (va_id v) amt ts note) st3) (\<lambda>l st4.
        (Inr (), println (''lockup id='' @ int_str (lk_id l) @ '' amount='' @ d_str (vk_lib V) (lk_amount l)
           @ '' unlock_at='' @ vk_rfc3339 V (lk_unlock_at l)) st4)))))"

definition status_head :: "declib \<Rightarrow> vault \<Rightarrow> decimal \<Rightarrow> decimal \<Rightarrow> string" where
  "status_head L v dep wit =
     ''vault:        '' @ va_name v @ '' ('' @ va_asset v @ '')'' @ newline
     @ ''deposits:     '' @ d_str L dep @ newline
     @ ''withdrawals:  '' @ d_str L wit @ newline
     @ ''net contrib:  '' @ d_str L (dep - wit) @ newline"

definition status_nav :: "declib \<Rightarrow> vault_nav \<Rightarrow> string" where
  "status_nav L s =
     ''nav:          '' @ d_str L (vn_nav s) @ '' (cash='' @ d_str L (vn_cash s) @ '' positions='' @ d_str L (vn_positions_value s) @ '')'' @ newline
     @ ''hwm:          '' @ d_str L (vn_high_water_mark s) @ newline
     @ ''return:       '' @ d_str L (SimpleReturn L s) @ newline"

text \<open>Any failure to read the latest snapshot is reported as if there were none.\<close>

definition vault_status_cmd ::
  "('w, 'c, 'q) cli_env \<Rightarrow> vault_kit \<Rightarrow> globals \<Rightarrow> ('w, vault_db) cli_state \<Rightarrow> (go_error + unit) \<times> ('w, vault_db) cli_state" where
  "vault_status_cmd E V g = with_vault E g (\<lambda>v st.
     run_then (db_read E (\<lambda>fail. LedgerTotals fail (va_id v)) st) (\<lambda>(dep, wit) st1.
     let st2 = print (status_head (vk_lib V) v dep wit) st1
     in case db_read E (\<lambda>fail. LatestNAV fail (va_id v)) st2 of
          (Inl _, st3) \<Rightarrow> (Inr (), println (''nav:          (no snapshots yet '' @ em_dash @ '' run `permafrost vault record-nav`)'') st3)
        | (Inr s, st3) \<Rightarrow> (Inr (), print (status_nav (vk_lib V) s) st3)))"

text \<open>The three queries of \<open>RecordNAV\<close> and its clock, each reached only when the one before it was answered.\<close>

definition fatal_nav_error :: "go_error option \<Rightarrow> bool" where
  "fatal_nav_error f \<longleftrightarrow> (case f of None \<Rightarrow> False | Some e \<Rightarrow> \<not> errors_is e ''no rows in result set'')"

definition record_nav_call ::
  "('w, 'c, 'q) cli_env \<Rightarrow> sqltypes \<Rightarrow> int \<Rightarrow> decimal \<Rightarrow> decimal \<Rightarrow> ('w, vault_db) cli_state
     \<Rightarrow> (go_error + vault_nav) \<times> ('w, vault_db) cli_state" where
  "record_nav_call E Q vid cash pos st =
     (let ((f1, _), st1) = on_cli (cx_query E) st;
          ((f2, _), st2) = (if f1 = None then on_cli (cx_query E) st1 else ((None, zero_time), st1));
          go = (f1 = None \<and> \<not> fatal_nav_error f2);
          (now, st3) = (if go then on_cli (cx_now E) st2 else (zero_time, st2));
          ((f3, _), st4) = (if go then on_cli (cx_query E) st3 else ((None, zero_time), st3));
          (r, d) = RecordNAV Q (f1, f2, f3) now vid cash pos (ct_db st4)
      in (r, st4\<lparr>ct_db := d\<rparr>))"

definition vault_record_nav_cmd ::
  "('w, 'c, 'q) cli_env \<Rightarrow> vault_kit \<Rightarrow> globals \<Rightarrow> string \<Rightarrow> string \<Rightarrow> ('w, vault_db) cli_state
     \<Rightarrow> (go_error + unit) \<times> ('w, vault_db) cli_state" where
  "vault_record_nav_cmd E V g cash positions = with_vault E g (\<lambda>v st.
     run_then (wrap_result ''cash'' (parse_amount V cash), st) (\<lambda>cv st1.
     run_then (wrap_result ''positions'' (parse_amount V positions), st1) (\<lambda>pv st2.
     run_then (record_nav_call E (vk_sql V) (va_id v) cv pv st2) (\<lambda>s st3.
     (Inr (), println (''nav='' @ d_str (vk_lib V) (vn_nav s) @ '' cash='' @ d_str (vk_lib V) (vn_cash s)
        @ '' pos='' @ d_str (vk_lib V) (vn_positions_value s) @ '' hwm='' @ d_str (vk_lib V) (vn_high_water_mark s)) st3)))))"

definition nav_line :: "vault_kit \<Rightarrow> vault_nav \<Rightarrow> string" where
  "nav_line V r = vk_rfc3339 V (vn_time r) @ ''  nav='' @ d_str (vk_lib V) (vn_nav r) @ ''  cash='' @ d_str (vk_lib V) (vn_cash r)
     @ ''  pos='' @ d_str (vk_lib V) (vn_positions_value r)"

definition vault_nav_cmd ::
  "('w, 'c, 'q) cli_env \<Rightarrow> vault_kit \<Rightarrow> globals \<Rightarrow> string \<Rightarrow> ('w, vault_db) cli_state \<Rightarrow> (go_error + unit) \<times> ('w, vault_db) cli_state" where
  "vault_nav_cmd E V g since = with_vault E g (\<lambda>v st.
     run_then (wrap_result ''--since must be a duration (e.g. 24h)'' (vk_duration V since), st) (\<lambda>dur st1.
     let (now, st2) = on_cli (cx_now E) st1
     in run_then (db_read E (\<lambda>fail. NAVHistory (vk_sql V) fail (va_id v) (now + wrap64 (- dur))) st2) (\<lambda>rows st3.
        (Inr (), fold (\<lambda>r. println (nav_line V r)) rows st3))))"

section \<open>The books of the default vault\<close>

definition fresh_vault_db :: vault_db where
  "fresh_vault_db = \<lparr>vd_vaults = [], vd_deposits = [], vd_withdrawals = [], vd_lockups = [], vd_navs = [],
     vd_vault_seq = 1, vd_deposit_seq = 1, vd_withdrawal_seq = 1, vd_lockup_seq = 1\<rparr>"

definition only_default_vault :: "vault_db \<Rightarrow> bool" where
  "only_default_vault db \<longleftrightarrow> vd_vaults db = [] \<or> (\<exists>v. vd_vaults db = [v] \<and> va_name v = ''permafrost'' \<and> va_asset v = ''USDC'')"

definition books_ok :: "vault_db \<Rightarrow> decimal \<Rightarrow> decimal \<Rightarrow> bool" where
  "books_ok db dep wit \<longleftrightarrow> only_default_vault db
     \<and> (\<forall>x \<in> set (vd_deposits db). vault_exists db (de_vault_id x) \<and> 0 < de_amount x)
     \<and> (\<forall>x \<in> set (vd_withdrawals db). vault_exists db (wd_vault_id x) \<and> 0 < wd_amount x)
     \<and> (\<forall>x \<in> set (vd_lockups db). vault_exists db (lk_vault_id x) \<and> 0 < lk_amount x)
     \<and> (\<Sum>x\<leftarrow>vd_deposits db. de_amount x) = dep \<and> (\<Sum>x\<leftarrow>vd_withdrawals db. wd_amount x) = wit"

text \<open>What a deposit or withdrawal command moves: nothing when it fails, else its amount as the column stores it.\<close>

definition moved :: "vault_kit \<Rightarrow> string \<Rightarrow> go_error + unit \<Rightarrow> decimal" where
  "moved V amount r = (case (r, d_parse (vk_lib V) amount) of (Inr _, Some a) \<Rightarrow> sq_num (vk_sql V) a | _ \<Rightarrow> 0)"

inductive vault_books :: "('w, 'c, 'q) cli_env \<Rightarrow> vault_kit \<Rightarrow> vault_db \<Rightarrow> decimal \<Rightarrow> decimal \<Rightarrow> bool" for E V where
  fresh: "vault_books E V fresh_vault_db 0 0"
| deposit: "vault_books E V (ct_db st) dep wit \<Longrightarrow> vault_deposit_cmd E V g amount source note st = (r, st')
    \<Longrightarrow> vault_books E V (ct_db st') (dep + moved V amount r) wit"
| withdraw: "vault_books E V (ct_db st) dep wit \<Longrightarrow> vault_withdraw_cmd E V g amount dest note st = (r, st')
    \<Longrightarrow> vault_books E V (ct_db st') dep (wit + moved V amount r)"
| other: "vault_books E V (ct_db st) dep wit
    \<Longrightarrow> c \<in> {vault_init_cmd E g, vault_status_cmd E V g, vault_lockup_cmd E V g x y z, vault_record_nav_cmd E V g x y, vault_nav_cmd E V g x}
    \<Longrightarrow> vault_books E V (ct_db (snd (c st))) dep wit"

lemma find_single: "find P [v] = (if P v then Some v else None)"
  by simp

lemma Init_ok: "books_ok db dep wit \<Longrightarrow> books_ok (snd (vault_Init fail now ''permafrost'' ''USDC'' db)) dep wit"
  by (auto simp: vault_Init_def books_ok_def only_default_vault_def vault_exists_def Let_def split: option.split)

lemma ledger_error_None: "ledger_error Q fail vid amt db = None \<Longrightarrow> vault_exists db vid \<and> 0 < sq_num Q amt"
  by (auto simp: ledger_error_def split: option.splits if_splits)

lemma Deposit_ok:
  assumes "books_ok db dep wit" and "vault_Deposit Q fail now vid amt source note db = (r, db')"
  shows "books_ok db' (dep + (case r of Inl _ \<Rightarrow> 0 | Inr _ \<Rightarrow> sq_num Q amt)) wit"
  using assms by (auto simp: vault_Deposit_def books_ok_def only_default_vault_def vault_exists_def Let_def
      split: option.splits if_splits dest!: ledger_error_None)

lemma Withdraw_ok:
  assumes "books_ok db dep wit" and "vault_Withdraw Q fail now vid amt dest note db = (r, db')"
  shows "books_ok db' dep (wit + (case r of Inl _ \<Rightarrow> 0 | Inr _ \<Rightarrow> sq_num Q amt))"
  using assms by (auto simp: vault_Withdraw_def books_ok_def only_default_vault_def vault_exists_def Let_def
      split: option.splits if_splits dest!: ledger_error_None)

lemma AddLockup_ok: "books_ok db dep wit \<Longrightarrow> books_ok (snd (AddLockup Q fail now dbnow vid amt ts note db)) dep wit"
  by (auto simp: AddLockup_def books_ok_def only_default_vault_def vault_exists_def Let_def split: option.split dest!: ledger_error_None)

lemma RecordNAV_ok: "books_ok db dep wit \<Longrightarrow> books_ok (snd (RecordNAV Q fs now vid cash pos db)) dep wit"
  by (auto simp: RecordNAV_def insert_nav_def books_ok_def only_default_vault_def vault_exists_def Let_def split: sum.split option.split prod.split)

lemma books_totals:
  assumes "books_ok db dep wit" and "vd_vaults db = [v]"
  shows "LedgerTotals None (va_id v) db = Inr (dep, wit)"
proof -
  have "filter (\<lambda>d. de_vault_id d = va_id v) (vd_deposits db) = vd_deposits db"
    "filter (\<lambda>w. wd_vault_id w = va_id v) (vd_withdrawals db) = vd_withdrawals db"
    using assms by (auto simp: filter_id_conv books_ok_def vault_exists_def)
  then show ?thesis using assms(1) by (simp add: LedgerTotals_def books_ok_def)
qed

lemma db_write_when_keeps: "(\<And>fail now. P (snd (f fail now (ct_db st)))) \<Longrightarrow> P (ct_db (snd (db_write_when c E f st)))"
  by (auto simp: db_write_when_def db_write_keeps split_beta Let_def)

lemma db_write_when_post:
  "(\<And>fail now. R (fst (f fail now (ct_db st))) (snd (f fail now (ct_db st)))) \<Longrightarrow> R (fst (db_write_when c E f st)) (ct_db (snd (db_write_when c E f st)))"
  by (auto simp: db_write_when_def db_write_post split_beta Let_def)

lemma with_vault_post:
  assumes "books_ok (ct_db st) dep wit" and "\<And>e db. books_ok db dep wit \<Longrightarrow> R (Inl e) db"
    and "\<And>v s. books_ok (ct_db s) dep wit \<Longrightarrow> R (fst (body v s)) (ct_db (snd (body v s)))"
  shows "R (fst (with_vault E g body st)) (ct_db (snd (with_vault E g body st)))"
  unfolding with_vault_def
proof (rule with_store_post [of "\<lambda>db. books_ok db dep wit"], goal_cases)
  case (3 s)
  show ?case
  proof (rule run_then_post [of "\<lambda>db. books_ok db dep wit"], goal_cases)
    case 1
    show ?case by (rule db_write_keeps) (rule Init_ok [OF 3])
  qed (use assms in auto)
qed (use assms in auto)

lemma with_vault_keeps:
  assumes "books_ok (ct_db st) dep wit" and "\<And>v s. books_ok (ct_db s) dep wit \<Longrightarrow> books_ok (ct_db (snd (body v s))) dep wit"
  shows "books_ok (ct_db (snd (with_vault E g body st))) dep wit"
  using with_vault_post [of st dep wit "\<lambda>_ db. books_ok db dep wit"] assms by blast

text \<open>A ledger command: the amount, the insert, the line it prints.\<close>

lemma moving_post:
  assumes s: "books_ok (ct_db s) dep wit" and R: "\<And>e db. books_ok db dep wit \<Longrightarrow> R (Inl e) db"
    and f: "\<And>amt fail now. d_parse (vk_lib V) amount = Some amt \<Longrightarrow>
      case f amt fail now (ct_db s) of (Inl _, db') \<Rightarrow> books_ok db' dep wit | (Inr _, db') \<Rightarrow> R (Inr ()) db'"
    and p: "fst p = parse_amount V amount \<or> (\<exists>w. fst p = wrap_result w (parse_amount V amount))" "snd p = s"
  shows "R (fst (run_then p (\<lambda>amt s1. run_then (db_write_when (b amt) E (f amt) s1) (\<lambda>x s2. (Inr (), println (line x) s2)))))
    (ct_db (snd (run_then p (\<lambda>amt s1. run_then (db_write_when (b amt) E (f amt) s1) (\<lambda>x s2. (Inr (), println (line x) s2))))))"
proof (cases "fst p")
  case (Inl e)
  then show ?thesis using R s p(2) by (simp add: run_then_def split_beta)
next
  case (Inr amt)
  then have a: "d_parse (vk_lib V) amount = Some amt"
    using p(1) by (auto simp: parse_amount_def wrap_result_def split: option.splits)
  have "case db_write_when (b amt) E (f amt) s of (Inl _, s2) \<Rightarrow> books_ok (ct_db s2) dep wit | (Inr _, s2) \<Rightarrow> R (Inr ()) (ct_db s2)"
    using db_write_when_post [of "\<lambda>r db. case r of Inl _ \<Rightarrow> books_ok db dep wit | Inr _ \<Rightarrow> R (Inr ()) db" "f amt" s "b amt" E] f [OF a]
    by (auto simp: split_beta split: sum.splits)
  then show ?thesis using R Inr p(2) by (auto simp: run_then_def split_beta split: sum.splits)
qed

lemma deposit_cmd_ok:
  assumes "books_ok (ct_db st) dep wit" and "vault_deposit_cmd E V g amount source note st = (r, st')"
  shows "books_ok (ct_db st') (dep + moved V amount r) wit"
proof -
  let ?R = "\<lambda>r db. books_ok db (dep + moved V amount r) wit"
  have "?R (fst (vault_deposit_cmd E V g amount source note st)) (ct_db (snd (vault_deposit_cmd E V g amount source note st)))"
    unfolding vault_deposit_cmd_def
  proof (rule with_vault_post [OF assms(1)], goal_cases)
    case (2 v s)
    show ?case
      by (rule moving_post [OF 2, of ?R V amount]) (auto simp: moved_def split: sum.splits prod.splits dest!: Deposit_ok [OF 2])
  qed (simp add: moved_def)
  then show ?thesis using assms(2) by simp
qed

lemma withdraw_cmd_ok:
  assumes "books_ok (ct_db st) dep wit" and "vault_withdraw_cmd E V g amount dest note st = (r, st')"
  shows "books_ok (ct_db st') dep (wit + moved V amount r)"
proof -
  let ?R = "\<lambda>r db. books_ok db dep (wit + moved V amount r)"
  have "?R (fst (vault_withdraw_cmd E V g amount dest note st)) (ct_db (snd (vault_withdraw_cmd E V g amount dest note st)))"
    unfolding vault_withdraw_cmd_def
  proof (rule with_vault_post [OF assms(1)], goal_cases)
    case (2 v s)
    show ?case
      by (rule moving_post [OF 2, of ?R V amount]) (auto simp: moved_def split: sum.splits prod.splits dest!: Withdraw_ok [OF 2])
  qed (simp add: moved_def)
  then show ?thesis using assms(2) by simp
qed

lemma other_cmd_ok:
  assumes b: "books_ok (ct_db st) dep wit"
    and c: "c \<in> {vault_init_cmd E g, vault_status_cmd E V g, vault_lockup_cmd E V g x y z, vault_record_nav_cmd E V g x y, vault_nav_cmd E V g x}"
  shows "books_ok (ct_db (snd (c st))) dep wit"
proof -
  let ?P = "\<lambda>db. books_ok db dep wit"
  note keeps = run_then_keeps [of ?P] db_write_when_keeps [of ?P] AddLockup_ok
  have "?P (ct_db (snd (vault_init_cmd E g st)))"
    unfolding vault_init_cmd_def by (rule with_vault_keeps [OF b]) simp
  moreover have "?P (ct_db (snd (vault_status_cmd E V g st)))"
    unfolding vault_status_cmd_def Let_def split_beta
    by (rule with_vault_keeps [OF b], rule keeps) (auto split: sum.split prod.split dest: arg_cong [of _ _ "\<lambda>p. ct_db (snd p)"])
  moreover have "?P (ct_db (snd (vault_lockup_cmd E V g x y z st)))"
    unfolding vault_lockup_cmd_def Let_def split_beta
    by (rule with_vault_keeps [OF b]) (rule keeps | simp)+
  moreover have "?P (ct_db (snd (vault_record_nav_cmd E V g x y st)))"
    unfolding vault_record_nav_cmd_def
    by (rule with_vault_keeps [OF b]) (rule keeps | simp add: record_nav_call_def Let_def split_beta RecordNAV_ok)+
  moreover have "?P (ct_db (snd (vault_nav_cmd E V g x st)))"
    unfolding vault_nav_cmd_def Let_def split_beta by (rule with_vault_keeps [OF b]) (rule keeps | simp)+
  ultimately show ?thesis using c by auto
qed

section \<open>Properties\<close>

text \<open>
  C17: The books balance. Whatever vault commands run, in any order, with any query failing, the database holds at most the default
  vault; every ledger row belongs to it and has a positive amount; and the totals the status command reports are exactly what the
  successful deposits and the successful withdrawals moved.
\<close>

theorem vault_books_balance:
  assumes "vault_books E V db dep wit"
  shows "only_default_vault db \<and> (\<forall>v \<in> set (vd_vaults db). LedgerTotals None (va_id v) db = Inr (dep, wit))
    \<and> (\<forall>x \<in> set (vd_deposits db). vault_exists db (de_vault_id x) \<and> 0 < de_amount x)
    \<and> (\<forall>x \<in> set (vd_withdrawals db). vault_exists db (wd_vault_id x) \<and> 0 < wd_amount x)
    \<and> (\<forall>x \<in> set (vd_lockups db). vault_exists db (lk_vault_id x) \<and> 0 < lk_amount x)"
proof -
  have "books_ok db dep wit"
    using assms
  proof (induction rule: vault_books.induct)
    case fresh
    show ?case by (simp add: books_ok_def fresh_vault_db_def only_default_vault_def)
  qed (simp_all only: deposit_cmd_ok withdraw_cmd_ok other_cmd_ok)
  then show ?thesis using books_totals [of db dep wit] by (auto simp: books_ok_def only_default_vault_def)
qed

definition quiet_env :: "(noop_world, unit, unit) cli_env" where
  "quiet_env = \<lparr>cx_pg = null_pgx, cx_query = (\<lambda>w. ((None, nw_now w), w)), cx_now = (\<lambda>w. (nw_now w, w)), cx_home = (\<lambda>_. Inr ''/root''),
     cx_getenv = (\<lambda>_ _. [])\<rparr>"

text \<open>Amounts in unary, for the example.\<close>

definition unary_kit :: vault_kit where
  "unary_kit = \<lparr>vk_lib = reference_declib\<lparr>d_parse := \<lambda>s. Some (of_nat (length s))\<rparr>, vk_sql = reference_sql, vk_rfc3339 = int_str,
     vk_parse_time = (\<lambda>_. Inr 0), vk_duration = (\<lambda>_. Inr 0)\<rparr>"

lemma quiet_open: "open_store quiet_env (Some sample_config) st = (Inr (), st)"
  by (simp add: open_store_def on_cli_def store_Open_def quiet_env_def null_pgx_def wrap_result_def wrap_error_def run_then_def)

theorem vault_books_balance_witness:
  "\<exists>db v. vd_vaults db = [v] \<and> LedgerTotals None (va_id v) db = Inr (sq_num reference_sql 3, 0)"
proof -
  let ?st = "\<lparr>ct_world = sample_world, ct_db = fresh_vault_db, ct_out = []\<rparr> :: (noop_world, vault_db) cli_state"
  obtain r st' where c: "vault_deposit_cmd quiet_env unary_kit (Some sample_config) ''100'' ''cli'' [] ?st = (r, st')" by fastforce
  have n: "sq_num reference_sql 3 = 3"
    using round_to_fixed [of 9 "3 * 10 ^ 9"] by (simp add: reference_sql_def)
  have e: "cx_query quiet_env w = ((None, nw_now w), w)" for w by (simp add: quiet_env_def)
  have k: "vk_sql unary_kit = reference_sql" "parse_amount unary_kit ''100'' = Inr 3" by (simp_all add: unary_kit_def parse_amount_def)
  have "\<exists>v. vd_vaults (ct_db st') = [v] \<and> r = Inr ()"
    using c by (auto simp: vault_deposit_cmd_def with_vault_def with_store_def quiet_open db_write_def on_cli_def e k n wrap_result_def
        vault_Init_def fresh_vault_db_def db_write_when_def vault_Deposit_def ledger_error_def vault_exists_def Let_def println_def print_def close_store_def)
  then obtain v where v: "vd_vaults (ct_db st') = [v]" "r = Inr ()" by blast
  have f: "vault_books quiet_env unary_kit (ct_db ?st) 0 0" using vault_books.fresh by simp
  have "moved unary_kit ''100'' (Inr ()) = sq_num reference_sql 3" by (simp add: moved_def unary_kit_def)
  with vault_books_balance [OF vault_books.deposit [OF f c]] v show ?thesis by auto
qed

end
