(* ===== verification/Serve.thy ===== *)
theory Serve
  imports CliAgentRun
begin

text \<open>
  The daemon (\<open>internal/cli/serve.go\<close>): it opens the database when it can, boots the running agents through the loader, listens, and stops every
  supervised runtime on the way out. \<open>listen\<close> is the HTTP server together with what the loops do while it listens.
\<close>

section \<open>The keystore of the daemon\<close>

text \<open>Unlike the commands, the daemon hands on a true nil when there is no keystore.\<close>

definition serve_keystore_path :: "('w, 'c, 'q) cli_env \<Rightarrow> config \<Rightarrow> 'w \<Rightarrow> string option" where
  "serve_keystore_path E cfg w =
     (if wc_keystore_path (cfg_wallet cfg) \<noteq> [] then Some (wc_keystore_path (cfg_wallet cfg))
      else case cx_home E w of Inl _ \<Rightarrow> None | Inr home \<Rightarrow> Some (default_keystore_path home))"

definition openKeystoreForServe ::
  "('k, 'p, 'e) crypto_lib \<Rightarrow> 'w ks_env \<Rightarrow> ('w, 'c, 'q) cli_env \<Rightarrow> config \<Rightarrow> 'w \<Rightarrow> (('k, 'p, 'e) keystore_state option \<times> 'w) option" where
  "openKeystoreForServe C K E cfg w =
     (case serve_keystore_path E cfg w of
        None \<Rightarrow> Some (None, w)
      | Some path \<Rightarrow>
          if cx_getenv E w (passphrase_env cfg) = [] then Some (None, w)
          else (case NewLocalKeystore C K path (cx_getenv E w (passphrase_env cfg)) w of
                  None \<Rightarrow> None
                | Some (Inl _, w1) \<Rightarrow> Some (None, w1)
                | Some (Inr ks, w1) \<Rightarrow> Some (Some ks, w1)))"

section \<open>Serving\<close>

definition serve_options :: "('w, 'c, 'q) cli_env \<Rightarrow> config \<Rightarrow> string \<Rightarrow> 'w \<Rightarrow> build_options" where
  "serve_options E cfg override w =
     \<lparr>bo_hl_network = override, bo_hl_address = [], bo_solana = solanaSpotFromConfig (cfg_solana cfg),
      bo_evm = evmSpotsFromConfig (cfg_evm cfg) (cx_getenv E w), bo_bittensor = bittensorSpotFromConfig (cfg_bittensor cfg)\<rparr>"

definition serve_loader ::
  "('w, 'c, 'q) cli_env \<Rightarrow> ('w, 's, 'p) agent_kit \<Rightarrow> config \<Rightarrow> string \<Rightarrow> 's keystore option \<Rightarrow> 'w \<Rightarrow> ('w, 's, 'p) loader" where
  "serve_loader E A cfg override ks w =
     \<lparr>lo_ctors = ak_ctors A, lo_strategies = ak_strategies A, lo_base = ak_base A, lo_keystore = ks,
      lo_inference = best_registry E A cfg w, lo_opts = serve_options E cfg override w, lo_decode = ak_decode A,
      lo_has_store = True, lo_has_supervisor = True\<rparr>"

definition shut_down :: "'w supervisor \<Rightarrow> 'w supervisor" where
  "shut_down s = fold (\<lambda>i s. snd (supervisor_Stop i s)) (IDs s) s"

text \<open>A daemon with a database: the boot loader, the server, the shutdown, the deferred close.\<close>

definition serve_with ::
  "('k, 'p, 'e) crypto_lib \<Rightarrow> 'w ks_env \<Rightarrow> ('w, 'c, 'q) cli_env \<Rightarrow> ('w, ('k, 'p, 'e) signer, 'i) agent_kit
     \<Rightarrow> ('q option \<Rightarrow> 'w load_state \<Rightarrow> go_error option \<times> 'w load_state) \<Rightarrow> config \<Rightarrow> string \<Rightarrow> 'q \<Rightarrow> 'w load_state
     \<Rightarrow> (go_error option \<times> 'w load_state) option" where
  "serve_with C K E A listen cfg override pool st =
     (case openKeystoreForServe C K E cfg (ls_world st) of
        None \<Rightarrow> None
      | Some (ks, w) \<Rightarrow>
          (let l = serve_loader E A cfg override (map_option ks_Signer ks) w;
               (_, st1) = LoadAndStartRunning l LoopActive (st\<lparr>ls_sup := [], ls_world := w\<rparr>);
               (e, st2) = listen (Some pool) st1
           in Some (e, st2\<lparr>ls_sup := shut_down (ls_sup st2), ls_world := db_Close (cx_pg E) (Some (Some pool)) (ls_world st2)\<rparr>)))"

definition Serve ::
  "('k, 'p, 'e) crypto_lib \<Rightarrow> 'w ks_env \<Rightarrow> ('w, 'c, 'q) cli_env \<Rightarrow> ('w, ('k, 'p, 'e) signer, 'i) agent_kit
     \<Rightarrow> ('q option \<Rightarrow> 'w load_state \<Rightarrow> go_error option \<times> 'w load_state) \<Rightarrow> config \<Rightarrow> string \<Rightarrow> 'w load_state
     \<Rightarrow> (go_error option \<times> 'w load_state) option" where
  "Serve C K E A listen cfg override st =
     (if dc_url (cfg_database cfg) = [] then Some (listen None st)
      else case store_Open (cx_pg E) (cfg_database cfg) (ls_world st) of
          (Inl _, w) \<Rightarrow> Some (listen None (st\<lparr>ls_world := w\<rparr>))
        | (Inr pool, w) \<Rightarrow> serve_with C K E A listen cfg override pool (st\<lparr>ls_world := w\<rparr>))"

definition serve_cmd ::
  "('k, 'p, 'e) crypto_lib \<Rightarrow> 'w ks_env \<Rightarrow> ('w, 'c, 'q) cli_env \<Rightarrow> ('w, ('k, 'p, 'e) signer, 'i) agent_kit
     \<Rightarrow> ('q option \<Rightarrow> 'w load_state \<Rightarrow> go_error option \<times> 'w load_state) \<Rightarrow> globals \<Rightarrow> string \<Rightarrow> 'w load_state
     \<Rightarrow> (go_error option \<times> 'w load_state) option" where
  "serve_cmd C K E A listen g override st =
     (case g of None \<Rightarrow> Some (Some no_globals, st) | Some cfg \<Rightarrow> Serve C K E A listen cfg override st)"

section \<open>The two programs (cmd/permafrost, cmd/permafrostd)\<close>

text \<open>The line a program prints on standard error before it exits with status 1; none when it exits with 0.\<close>

definition exit_line :: "string \<Rightarrow> go_error \<Rightarrow> string" where
  "exit_line what e = what @ '' '' @ error_text e @ newline"

definition permafrost_main ::
  "'w viper \<Rightarrow> string \<Rightarrow> (globals \<Rightarrow> ('w, 'd) cli_state \<Rightarrow> ((go_error + unit) \<times> ('w, 'd) cli_state) option) \<Rightarrow> ('w, 'd) cli_state
     \<Rightarrow> (string option \<times> ('w, 'd) cli_state) option" where
  "permafrost_main V path cmd st =
     (case pre_run V path (ct_world st) of
        Inl e \<Rightarrow> Some (Some (exit_line ''error:'' e), st)
      | Inr g \<Rightarrow> map_option (\<lambda>(r, st1). (case r of Inl e \<Rightarrow> Some (exit_line ''error:'' e) | Inr _ \<Rightarrow> None, st1)) (cmd g st))"

definition permafrostd_main ::
  "('k, 'p, 'e) crypto_lib \<Rightarrow> 'w ks_env \<Rightarrow> ('w, 'c, 'q) cli_env \<Rightarrow> ('w, ('k, 'p, 'e) signer, 'i) agent_kit
     \<Rightarrow> ('q option \<Rightarrow> 'w load_state \<Rightarrow> go_error option \<times> 'w load_state) \<Rightarrow> 'w viper \<Rightarrow> 'w load_state \<Rightarrow> (string option \<times> 'w load_state) option" where
  "permafrostd_main C K E A listen V st =
     (case config_Load V (cx_getenv E (ls_world st) ''PERMAFROST_CONFIG'') (ls_world st) of
        Inl e \<Rightarrow> Some (Some (exit_line ''config:'' e), st)
      | Inr cfg \<Rightarrow>
          map_option (\<lambda>(e, st1). (map_option (exit_line ''serve:'') e, st1))
            (Serve C K E A listen cfg (cx_getenv E (ls_world st) ''PERMAFROST_HYPERLIQUID_NETWORK'') st))"

section \<open>Supervisors whose runtimes have at most one live loop\<close>

definition sup_ok :: "'w supervisor \<Rightarrow> bool" where
  "sup_ok s \<longleftrightarrow> distinct (map fst s) \<and> (\<forall>(i, r) \<in> set s. life_inv (ru_life r))"

lemma sup_ok_Nil [simp]: "sup_ok []"
  by (simp add: sup_ok_def)

lemma sup_ok_update: "sup_ok s \<Longrightarrow> life_inv (ru_life r) \<Longrightarrow> sup_ok (AList.update i r s)"
  by (auto simp: sup_ok_def distinct_update dest!: set_AList_update)

lemma sup_ok_lookup: "sup_ok s \<Longrightarrow> map_of s i = Some r \<Longrightarrow> life_inv (ru_life r)"
  by (auto simp: sup_ok_def dest: map_of_SomeD)

lemma supervisor_Stop_ok: "sup_ok s \<Longrightarrow> sup_ok (snd (supervisor_Stop i s))"
  by (auto simp: supervisor_Stop_def supervisor_Get_def split: option.split
      intro!: sup_ok_update life_inv_step [OF life_step.stop] dest: sup_ok_lookup)

lemma supervisor_Start_ok: "sup_ok s \<Longrightarrow> sup_ok (snd (supervisor_Start i warm ctx s))"
  using life_inv_step [OF life_step.start]
  by (auto simp: supervisor_Start_def supervisor_Get_def split_beta split: option.split intro!: sup_ok_update dest: sup_ok_lookup)

lemma load_one_ok: "sup_ok (ls_sup st) \<Longrightarrow> sup_ok (ls_sup (snd (load_one l ctx a st)))"
proof -
  assume s: "sup_ok (ls_sup st)"
  have n: "life_inv new_life" by (simp add: life_inv_def new_life_def)
  have r: "sup_ok (snd (supervisor_Start i warm ctx (fst (Register i r (ls_sup st)))))" if "ru_life r = new_life" for i warm r
    by (simp add: Register_def supervisor_Start_ok sup_ok_update s n that)
  show ?thesis
    using s by (auto simp: load_one_def Let_def split_beta r split: sum.split)
qed

lemma load_each_ok: "sup_ok (ls_sup st) \<Longrightarrow> sup_ok (ls_sup (snd (load_each l ctx as n st)))"
  by (induction as arbitrary: n st) (auto simp: Let_def split_beta load_one_ok)

lemma boot_ok: "sup_ok (ls_sup st) \<Longrightarrow> sup_ok (ls_sup (snd (LoadAndStartRunning l ctx st)))"
  by (auto simp: LoadAndStartRunning_def Let_def split_beta load_each_ok split: sum.split)

definition idle :: "'w runtime \<Rightarrow> bool" where
  "idle r \<longleftrightarrow> \<not> rl_running (ru_life r) \<and> active_loops (ru_life r) = 0"

lemma stop_lookup:
  assumes "sup_ok s"
  shows "map_of (snd (supervisor_Stop i s)) j = (if j = i then map_option (\<lambda>r. r\<lparr>ru_life := life_Stop (ru_life r)\<rparr>) (map_of s i) else map_of s j)"
  by (auto simp: supervisor_Stop_def supervisor_Get_def update_conv split: option.split)

lemma stop_keys: "map fst (snd (supervisor_Stop i s)) = map fst s"
proof (cases "map_of s i")
  case (Some r)
  then have "i \<in> set (map fst s)" using map_of_SomeD [of s i r] by force
  then show ?thesis using Some by (simp add: supervisor_Stop_def supervisor_Get_def update_keys)
qed (simp add: supervisor_Stop_def supervisor_Get_def)

lemma life_Stop_twice: "life_Stop (life_Stop l) = life_Stop l"
  by (simp add: life_Stop_def)

lemma stops_lookup:
  assumes "sup_ok s"
  shows "map_of (fold (\<lambda>i s. snd (supervisor_Stop i s)) is s) j
    = (if j \<in> set is then map_option (\<lambda>r. r\<lparr>ru_life := life_Stop (ru_life r)\<rparr>) (map_of s j) else map_of s j)"
  using assms
proof (induction "is" arbitrary: s)
  case (Cons i "is")
  show ?case
    by (simp add: Cons.IH [OF supervisor_Stop_ok [OF Cons.prems]] stop_lookup [OF Cons.prems] option.map_comp comp_def life_Stop_twice)
qed simp

lemma stops_ok: "sup_ok s \<Longrightarrow> sup_ok (fold (\<lambda>i s. snd (supervisor_Stop i s)) is s)"
  by (induction "is" arbitrary: s) (simp_all add: supervisor_Stop_ok)

lemma stops_keys: "map fst (fold (\<lambda>i s. snd (supervisor_Stop i s)) is s) = map fst s"
  by (induction "is" arbitrary: s) (simp_all add: stop_keys)

lemma shut_down_idle:
  assumes "sup_ok s" and "(i, r) \<in> set (shut_down s)"
  shows "idle r"
proof -
  have ok: "sup_ok (shut_down s)" using stops_ok [OF assms(1)] by (simp add: shut_down_def)
  have "i \<in> set (IDs s)" using assms(2) stops_keys [of "IDs s" s] by (force simp: shut_down_def IDs_def dest: arg_cong [of _ _ set])
  moreover have "map_of (shut_down s) i = Some r" using ok assms(2) by (simp add: sup_ok_def)
  ultimately obtain q where "map_of s i = Some q" "r = q\<lparr>ru_life := life_Stop (ru_life q)\<rparr>"
    using stops_lookup [OF assms(1), of "IDs s" i] by (auto simp: shut_down_def)
  then show ?thesis using life_Stop_inactive [OF sup_ok_lookup [OF assms(1)]] by (simp add: idle_def)
qed

section \<open>Properties\<close>

text \<open>
  C8: The daemon leaves nothing running. Whenever the daemon returns, whether or not the database, the keystore or an agent's dependencies could be had, and whatever
  its server answered, no supervised runtime reports that it runs and none has a live loop; while it listens the loops may do
  anything that keeps at most one live loop per runtime.
\<close>

theorem daemon_leaves_nothing_running:
  assumes "serve_cmd C K E A listen g override st = Some (e, st')" and "ls_sup st = []"
    and "\<forall>pool s. sup_ok (ls_sup s) \<longrightarrow> sup_ok (ls_sup (snd (listen (Some pool) s)))"
    and "\<forall>s. ls_sup (snd (listen None s)) = ls_sup s"
  shows "\<forall>(i, r) \<in> set (ls_sup st'). idle r"
proof -
  have none: "ls_sup s' = ls_sup s" if "listen None s = (x, s')" for s s' x
    using assms(4) [rule_format, of s] that by simp
  have w: "\<forall>(i, r) \<in> set (ls_sup st'). idle r" if "serve_with C K E A listen cfg override pool s = Some (e, st')" for cfg pool s
  proof -
    from that obtain ks w where o: "openKeystoreForServe C K E cfg (ls_world s) = Some (ks, w)" by (auto simp: serve_with_def split: option.splits)
    let ?b = "LoadAndStartRunning (serve_loader E A cfg override (map_option ks_Signer ks) w) LoopActive (s\<lparr>ls_sup := [], ls_world := w\<rparr>)"
    have "sup_ok (ls_sup (snd ?b))" by (rule boot_ok) simp
    then have ok: "sup_ok (ls_sup (snd (listen (Some pool) (snd ?b))))" using assms(3) by blast
    have "ls_sup st' = shut_down (ls_sup (snd (listen (Some pool) (snd ?b))))"
      using that o by (auto simp: serve_with_def Let_def split_beta)
    then show ?thesis using shut_down_idle [OF ok] by auto
  qed
  show ?thesis
  proof (cases g)
    case (Some cfg)
    then show ?thesis
      using assms(1,2) by (auto simp: serve_cmd_def Serve_def split: if_splits prod.splits sum.splits dest!: none w)
  qed (use assms(1,2) in \<open>auto simp: serve_cmd_def\<close>)
qed

lemma BuildHyperliquid_network:
  "BuildHyperliquidVenue V ks net addr0 = Inr v \<Longrightarrow> net \<noteq> [] \<Longrightarrow> \<exists>addr signer. vc_hyperliquid V net addr signer = Inr v"
  by (auto simp: BuildHyperliquidVenue_def Let_def)

text \<open>
  The emergency network reaches every venue. With an override, the perp venue of every agent the daemon builds was constructed for that
  network, whatever the agent stores; without one, for the agent's own network, the mainnet when it stores none.
\<close>

theorem override_reaches_every_venue:
  assumes "loader_build (serve_loader E A cfg override ks w) a = Inr (d, p)"
  shows "\<exists>v addr signer. dp_perp d = Some v \<and> dp_agent d = a
    \<and> vc_hyperliquid (ak_ctors A) (if override \<noteq> [] then override else network_str (OrDefault (ag_network a) NetworkMainnet)) addr signer = Inr v"
proof -
  have n: "network_str (OrDefault (ag_network a) NetworkMainnet) \<noteq> []"
    by (cases "ag_network a") (auto simp: OrDefault_def)
  from assms obtain v where v: "dp_perp d = Some v" "dp_agent d = a"
    "BuildHyperliquidVenue (ak_ctors A) ks (if override = [] then network_str (OrDefault (ag_network a) NetworkMainnet) else override) [] = Inr v"
    by (auto simp: loader_build_def serve_loader_def serve_options_def BuildDeps_def wrap_result_def cong: if_cong elim!: and_then_InrE
        split: prod.splits sum.splits)
  have "\<exists>addr signer. vc_hyperliquid (ak_ctors A) (if override = [] then network_str (OrDefault (ag_network a) NetworkMainnet) else override) addr signer = Inr v"
    by (rule BuildHyperliquid_network [OF v(3)]) (simp add: n)
  then show ?thesis using v(1,2) by (cases "override = []") auto
qed

section \<open>A daemon with one running agent\<close>

definition serve_kit :: "(noop_world, (256 word, bytes, unit) signer, unit) agent_kit" where
  "serve_kit = shell_kit\<lparr>ak_ctors := sample_ctors\<lparr>vc_hyperliquid := (\<lambda>_ _ _. Inr noop_venue)\<rparr>\<rparr>"

definition quiet_listen :: "unit option \<Rightarrow> noop_world load_state \<Rightarrow> go_error option \<times> noop_world load_state" where
  "quiet_listen pool st = (None, st)"

definition serve_state :: "noop_world load_state" where
  "serve_state = \<lparr>ls_sup = [], ls_db = ct_db (shell_state ModePaper), ls_world = sample_world\<rparr>"

lemma serve_keystore_none [simp]: "openKeystoreForServe C K shell_env cfg w = Some (None, w)"
  by (simp add: openKeystoreForServe_def serve_keystore_path_def shell_env_def)

lemma serve_config [simp]:
  "dc_url (cfg_database sample_config) \<noteq> []" "nc_rpc_url (cfg_solana sample_config) = []" "ec_chains (cfg_evm sample_config) = []"
  "tc_allow_submit (cfg_bittensor sample_config) = False"
  by (simp_all add: sample_config_def)

lemma serve_Open [simp]: "store_Open (cx_pg shell_env) c w = (Inr (), w)"
  by (simp add: store_Open_def shell_env_def null_pgx_def wrap_result_def wrap_error_def run_then_def)

theorem override_reaches_every_venue_witness:
  "\<exists>d p v. loader_build (serve_loader shell_env serve_kit sample_config ''testnet'' None sample_world) sample_agent = Inr (d, p)
     \<and> dp_perp d = Some v"
proof -
  have "\<exists>d p. loader_build (serve_loader shell_env serve_kit sample_config ''testnet'' None sample_world) sample_agent = Inr (d, p)"
    by (simp add: loader_build_def serve_loader_def serve_options_def BuildDeps_def BuildStrategy_def strategy_Get_def wrap_result_def
        resolveInference_def TrimSpace_def wire_swaps_def solana_IsEnabled_def bittensor_IsEnabled_def BuildHyperliquidVenue_def
        serve_kit_def shell_kit_def sample_agent_def zero_agent_def solanaSpotFromConfig_def evmSpotsFromConfig_def
        bittensorSpotFromConfig_def wire_def BuildBittensorSwapVenue_def ErrNoBittensorSigner_def serve_config Let_def)
  then obtain d p where "loader_build (serve_loader shell_env serve_kit sample_config ''testnet'' None sample_world) sample_agent = Inr (d, p)" by blast
  from override_reaches_every_venue [OF this] this show ?thesis by blast
qed

theorem daemon_leaves_nothing_running_witness:
  "\<forall>K. \<exists>st'. serve_cmd sample_crypto K shell_env serve_kit quiet_listen (Some sample_config) [] serve_state = Some (None, st')
     \<and> (\<forall>(i, r) \<in> set (ls_sup st'). idle r)"
proof (intro allI)
  fix K
  have "\<exists>st'. serve_cmd sample_crypto K shell_env serve_kit quiet_listen (Some sample_config) [] serve_state = Some (None, st')"
    by (simp add: serve_cmd_def Serve_def serve_with_def split_beta Let_def quiet_listen_def)
  then obtain st' where s: "serve_cmd sample_crypto K shell_env serve_kit quiet_listen (Some sample_config) [] serve_state = Some (None, st')"
    by blast
  from daemon_leaves_nothing_running [OF s] s
  show "\<exists>st'. serve_cmd sample_crypto K shell_env serve_kit quiet_listen (Some sample_config) [] serve_state = Some (None, st')
     \<and> (\<forall>(i, r) \<in> set (ls_sup st'). idle r)"
    by (auto simp: serve_state_def quiet_listen_def)
qed

end
