(* ===== verification/Spec2Isabelle.thy ===== *)
theory Spec2Isabelle
  imports Vault Reconcile Killswitch RuntimeCap RuntimeOrder RuntimeSync Assets Backtest
    StrategyConfig StrategyDca StrategyMaker StrategyRotation Inference Builder HyperliquidFeed SwapContract
    Keystore Api BittensorFeed CliWallet CliInit Doctor StrategyNew CliBittensor CliTools CliVault Serve
begin

text \<open>
  A verification library of \<^bold>\<open>permafrost\<close>, a Go framework for autonomous trading agents. An agent
  runs a strategy on a clock: each tick it takes a market snapshot, asks the strategy for a decision, passes the
  intents through the risk engine, executes swaps and then perp orders on its venues, and records what
  it holds. A supervisor starts and stops agents; a kill switch halts one and flattens it; further engines value, reconcile
  and back-test positions.

  \<^bold>\<open>How the model is written.\<close> A Go struct is a record, a string enumeration a datatype with a constructor
  for every other string, \<open>decimal.Decimal\<close> the rational it denotes, a fixed-width integer an \<open>n word\<close> or an
  \<open>int\<close> with the wrap-around written out, a map an association list whose order is the unspecified iteration order, an
  error a value of \<open>go_error\<close>, and a call with two results a sum. Whatever lies outside the
  process (venues, RPC endpoints, HTTP, the clock) is a world of type \<open>'w\<close> that every call may change;
  libraries the source imports (decimals, hashing, JSON, gsrpc, the Hyperliquid SDK, PostgreSQL) are records of functions
  passed as arguments, their documented laws the assumptions of a locale (\<open>decimal_lib\<close>, \<open>sql_types\<close>) which a
  reference instance shows can hold. A panic or a call that does not return is \<open>None\<close>.

  \<^bold>\<open>The theories.\<close>
  \<^item> \<open>Prelude\<close>, \<open>Decimals\<close>, \<open>Sql\<close>, \<open>GoText\<close>: Go's own types, the decimal package, the database columns and the text and
    byte routines of the standard library, with the generic lemmas the components share.
  \<^item> \<open>PkgTypes\<close> (\<open>pkg/types\<close>): assets, balances, orders, positions, quotes, risk limits.
  \<^item> \<open>Risk\<close> (\<open>internal/risk\<close>): the pre-trade policy and the circuit breakers. The locale \<open>capped_engine\<close> is what the
    runtime relies on; the policy engine and the no-op engine interpret it.
  \<^item> \<open>Vault\<close> (\<open>internal/vault\<close>): NAV snapshots with a high-water mark, lockups and the allocator.
  \<^item> \<open>AgentTypes\<close>, \<open>Store\<close> (\<open>internal/agent/types.go\<close>, \<open>store.go\<close>): agents and every query of the store over explicit
    tables; the locale \<open>position_store\<close> is what the runtime needs of the table of open positions.
  \<^item> \<open>Venues\<close> (\<open>internal/exchange\<close>, \<open>internal/swap\<close>, \<open>pkg/strategy/strategy.go\<close>): the venue and strategy interfaces.
  \<^item> \<open>Runtime\<close> (\<open>internal/agent/runtime.go\<close>): one tick; \<open>RuntimeCap\<close> (the position cap over many
    ticks), \<open>RuntimeOrder\<close> (the order of the venue calls), \<open>RuntimeSync\<close> (memory and table agree, so a restart recovers).
  \<^item> \<open>Killswitch\<close> (\<open>killswitch.go\<close>, \<open>supervisor.go\<close>, start and stop in \<open>runtime.go\<close>): the life of a
    runtime as a step relation, trips and flattening, the supervisor's registry.
  \<^item> \<open>Builder\<close> (\<open>internal/agent/builder.go\<close>): limits, venues and providers of an agent from its configuration; the boot loader.
  \<^item> \<open>Pnl\<close>, \<open>Reconcile\<close>, \<open>Assets\<close>, \<open>Backtest\<close> (\<open>internal/pnl\<close>, \<open>reconcile\<close>, \<open>assets\<close>, \<open>backtest\<close>).
  \<^item> \<open>StrategyConfig\<close>, \<open>StrategyDca\<close>, \<open>StrategyMaker\<close>, \<open>StrategyRotation\<close> (\<open>pkg/strategy/registry.go\<close>, \<open>strategies\<close>): the
    bundled strategies; \<open>Inference\<close> (\<open>pkg/inference\<close>): the provider registry and the OpenAI client.
  \<^item> \<open>Hyperliquid\<close>, \<open>HyperliquidFeed\<close> (\<open>internal/exchange/hyperliquid\<close>): the perp venue and its WebSocket frames.
  \<^item> \<open>SubtensorChain\<close>, \<open>SubtensorExtrinsic\<close> (\<open>internal/chain/bittensor\<close>), \<open>BittensorVenue\<close> (\<open>internal/swap/bittensor\<close>): the
    chain client, the signed extrinsics and the swap venue over them.
  \<^item> \<open>EvmChain\<close>, \<open>EvmTransactions\<close> (\<open>internal/chain/evm\<close>): the JSON-RPC client and the registry of chains; ERC-20 calls, and
    filling, signing, sending and awaiting transactions. \<open>OneInchVenue\<close> (\<open>internal/swap/oneinch\<close>): the aggregator's client and venue.
  \<^item> \<open>SolanaChain\<close> (\<open>internal/chain/solana\<close>): the RPC and Jito clients. \<open>JupiterVenue\<close> (\<open>internal/swap/jupiter\<close>): Jupiter's
    client and venue. \<open>Base64\<close> is the encoding its transactions travel in.
  \<^item> \<open>Polling\<close>: the loop with a deadline that the EVM and Solana clients wait with.
  \<^item> \<open>SwapContract\<close> (\<open>internal/swap/swap.go\<close>): what every swap venue promises, as locales that the venues interpret.

  \<^item> \<open>Wallet\<close>, \<open>Keystore\<close> (\<open>internal/wallet\<close>): the signers of each chain and the encrypted key file; the locale \<open>key_source\<close> is
    what venues rely on, \<open>sealed_disk\<close> the laws of the cipher, the codecs and the disk.
  \<^item> \<open>Config\<close> (\<open>internal/config\<close>, \<open>telemetry/log.go\<close>): loading and checking the configuration, and its views for the builder; \<open>Api\<close>
    (\<open>internal/api\<close>): the HTTP handlers behind their middleware; \<open>BittensorFeed\<close> (\<open>internal/feed/bittensor\<close>): the price feed.
  \<^item> \<open>Database\<close> (\<open>internal/store\<close>): the connection pool and the migration runner.
  \<^item> \<open>Cli\<close> (\<open>internal/cli/root.go\<close>, \<open>db.go\<close>), \<open>Tables\<close>: what the commands share, and the tables they print (\<open>text/tabwriter\<close>).
    One theory per group of commands: \<open>CliWallet\<close> (\<open>wallet.go\<close>), \<open>Doctor\<close> (\<open>doctor.go\<close>), \<open>CliInit\<close> (\<open>init.go\<close>), \<open>StrategyNew\<close> (\<open>strategy_new.go\<close>),
    \<open>CliAgent\<close> and \<open>CliAgentRun\<close> (\<open>agent.go\<close>: the stored agents; kill and the foreground run), \<open>CliReports\<close> (\<open>pnl.go\<close>, \<open>reconcile.go\<close>),
    \<open>CliVault\<close> (\<open>vault.go\<close>), \<open>CliTools\<close> (\<open>assets.go\<close>, \<open>swap.go\<close>, \<open>strategy.go\<close> and the small commands), \<open>CliBittensor\<close> (\<open>bittensor.go\<close>).
    A command takes its parsed flags and answers its error and the printed lines. The locale \<open>file_disk\<close> gives the laws of the files the
    wizard and the scaffold write, \<open>quiet_prompter\<close> what they need of a prompter.
  \<^item> \<open>Serve\<close> (\<open>internal/cli/serve.go\<close>, \<open>cmd/\<close>): the daemon from its database to the shutdown of the supervised agents, and the two programs.

  \<^bold>\<open>What the lemmas show.\<close> The properties carry a number and a description just before their statement. The first ones
  are about the agent: the cap on open positions, recovery after a restart, the order of the
  calls, what a trip stops and flattens, which agents run after boot. The next ones are about the engines and the strategies, the last ones
  about the clients of venues and chains (what was sent, what an encoding decodes to) and about the commands (what a kill or a daemon leaves
  behind, what a vault's books say). Theorems of a component that carry no number are part of the library in the same way.

  \<^bold>\<open>Loops.\<close> Loops over lists are structural recursions. The loops that may not end (a backtest
  with a step that is not positive, the wait for inclusion or for a receipt, the listing of subnets, the foreground run, the noise trader) are partial functions into options,
  and that they return, and when they do not, is proved. There is no fuel.

  \<^bold>\<open>Not modelled.\<close> Goroutines interleave only where the code lets operations race on shared state (the runtime's loop against
  start, stop and trip); elsewhere an operation is atomic and its mutex is left out. Logging, tracing and metrics are
  left out. Of the command line no command is left out; flag parsing, help texts and the command tree, which the cobra library reads, are.
  The codecs of JSON, YAML and CSV, HTTP, the terminal, the cryptographic primitives, PostgreSQL and the SDKs are
  libraries or services and enter as parameters.
\<close>

end
